(* ===== verification/Nullrun_Prelude.thy ===== *)
theory Nullrun_Prelude
  imports Complex_Main "HOL-Library.AList" "HOL-Library.Multiset"
begin

text \<open>
  What every component of the model shares: Python values as they travel in JSON bodies and
  dictionaries, Python's truth test, the outcome of running Python code (a value, an
  \<open>Exception\<close>, or a \<open>BaseException\<close> that \<open>except Exception\<close> does not catch), and the
  interface of a component that is driven by a sequence of events and keeps an invariant.
  Python strings are lists of characters standing for their UTF-8 bytes, Python's unbounded
  integers are \<open>int\<close>, and Python floats are exact rationals (no rounding, no NaN, no
  infinities).  A \<open>dict\<close> is an association list in insertion order with distinct keys.
\<close>

section \<open>Named collections\<close>

named_theorems py_simps \<open>unfolding equations of the Python-level helpers\<close>

section \<open>JSON values and dictionaries\<close>

text \<open>
  \<open>JEnum\<close> is a member of one of the program's string enumerations inside such a dictionary, with its
  value; in an event it also stands for an object that JSON has no form for, with the text \<open>default=str\<close>
  prints for it.  Parsing a response never yields one, and an identity test tells it from the wire string.
\<close>

datatype json =
    JNull
  | JBool bool
  | JInt int
  | JFloat rat
  | JStr string
  | JList "json list"
  | JObj "(string \<times> json) list"
  | JEnum string

type_synonym dict = "(string \<times> json) list"

text \<open>
  What \<open>json.loads\<close> reads from the text that \<open>json.dumps\<close> prints: an enumeration member, and an object that
  \<open>default=str\<close> prints, come back as a string.
\<close>

primrec plain :: "json \<Rightarrow> json" where
  "plain JNull = JNull"
| "plain (JBool b) = JBool b"
| "plain (JInt i) = JInt i"
| "plain (JFloat r) = JFloat r"
| "plain (JStr s) = JStr s"
| "plain (JList xs) = JList (map plain xs)"
| "plain (JObj d) = JObj (map (map_prod id plain) d)"
| "plain (JEnum s) = JStr s"

primrec enum_free :: "json \<Rightarrow> bool" where
  "enum_free JNull = True"
| "enum_free (JBool b) = True"
| "enum_free (JInt i) = True"
| "enum_free (JFloat r) = True"
| "enum_free (JStr s) = True"
| "enum_free (JList xs) = list_all id (map enum_free xs)"
| "enum_free (JObj d) = list_all snd (map (map_prod id enum_free) d)"
| "enum_free (JEnum s) = False"

lemma plain_enum_free: "enum_free v \<Longrightarrow> plain v = v"
  by (induction v) (auto simp: list_all_iff intro!: map_idI)

lemma plain_idem [simp]: "plain (plain v) = plain v"
  by (induction v) auto

definition dict_get :: "('k \<times> 'v) list \<Rightarrow> 'k \<Rightarrow> 'v option" where
  "dict_get d k = map_of d k"

definition dict_set :: "'k \<Rightarrow> 'v \<Rightarrow> ('k \<times> 'v) list \<Rightarrow> ('k \<times> 'v) list" where
  "dict_set k v d = AList.update k v d"

definition dict_pop :: "'k \<Rightarrow> ('k \<times> 'v) list \<Rightarrow> ('k \<times> 'v) list" where
  "dict_pop k d = AList.delete k d"

definition wf_dict :: "('k \<times> 'v) list \<Rightarrow> bool" where
  "wf_dict d \<longleftrightarrow> distinct (map fst d)"

lemma dict_get_Nil [simp]: "dict_get [] k = None"
  by (simp add: dict_get_def)

lemma dict_get_Cons [simp]:
  "dict_get ((k', v) # d) k = (if k = k' then Some v else dict_get d k)"
  by (simp add: dict_get_def)

lemma dict_get_set [simp]:
  "dict_get (dict_set k v d) k' = (if k' = k then Some v else dict_get d k')"
  by (simp add: dict_get_def dict_set_def update_conv')

lemma dict_get_pop [simp]:
  "dict_get (dict_pop k d) k' = (if k' = k then None else dict_get d k')"
  by (auto simp add: dict_get_def dict_pop_def delete_conv')

lemma wf_dict_Nil [simp]: "wf_dict []"
  by (simp add: wf_dict_def)

lemma wf_dict_set [simp]: "wf_dict d \<Longrightarrow> wf_dict (dict_set k v d)"
  by (simp add: wf_dict_def dict_set_def distinct_update)

lemma wf_dict_pop [simp]: "wf_dict d \<Longrightarrow> wf_dict (dict_pop k d)"
  by (simp add: wf_dict_def dict_pop_def distinct_delete)

text \<open>Python's truth test and the \<open>x or y\<close> idiom on optional JSON values.\<close>

fun truthy :: "json \<Rightarrow> bool" where
  "truthy JNull = False"
| "truthy (JBool b) = b"
| "truthy (JInt i) = (i \<noteq> 0)"
| "truthy (JFloat r) = (r \<noteq> 0)"
| "truthy (JStr s) = (s \<noteq> [])"
| "truthy (JList xs) = (xs \<noteq> [])"
| "truthy (JObj d) = (d \<noteq> [])"
| "truthy (JEnum v) = True"

text \<open>\<open>d.get(k)\<close>: a missing key and an explicit \<open>null\<close> both read as \<open>None\<close>.\<close>

definition jget :: "dict \<Rightarrow> string \<Rightarrow> json" where
  "jget d k = (case dict_get d k of None \<Rightarrow> JNull | Some v \<Rightarrow> v)"

lemma jget_Nil [simp]: "jget [] k = JNull"
  by (simp add: jget_def)

lemma jget_Cons [simp]: "jget ((k', v) # d) k = (if k = k' then v else jget d k)"
  by (simp add: jget_def)

text \<open>\<open>d.get(k, dflt)\<close>: only a missing key takes the default.\<close>

definition get_or :: "dict \<Rightarrow> string \<Rightarrow> json \<Rightarrow> json" where
  "get_or d k dflt = (case dict_get d k of None \<Rightarrow> dflt | Some v \<Rightarrow> v)"

lemma get_or_Nil [simp]: "get_or [] k v = v"
  by (simp add: get_or_def)

lemma get_or_Cons [simp]: "get_or ((k', x) # d) k v = (if k = k' then x else get_or d k v)"
  by (simp add: get_or_def)

text \<open>\<open>str.lower()\<close> of ASCII text.\<close>

definition lower_char :: "char \<Rightarrow> char" where
  "lower_char c =
     (let n = (of_char c :: nat) in if 65 \<le> n \<and> n \<le> 90 then char_of (n + 32) else c)"

definition lower :: "string \<Rightarrow> string" where
  "lower s = map lower_char s"

definition py_or :: "json \<Rightarrow> json \<Rightarrow> json" where
  "py_or a b = (if truthy a then a else b)"

text \<open>
  The number a JSON value is, and what Python's dictionaries make of a JSON value used as a key:
  numbers that compare equal are one key, a list or an object is unhashable.
\<close>

definition py_number :: "json \<Rightarrow> rat option" where
  "py_number j =
     (case j of
        JInt i \<Rightarrow> Some (of_int i)
      | JFloat r \<Rightarrow> Some r
      | JBool b \<Rightarrow> Some (if b then 1 else 0)
      | _ \<Rightarrow> None)"

definition py_key :: "json \<Rightarrow> json option" where
  "py_key j =
     (case j of
        JList _ \<Rightarrow> None
      | JObj _ \<Rightarrow> None
      | _ \<Rightarrow> (case py_number j of Some r \<Rightarrow> Some (JFloat r) | None \<Rightarrow> Some j))"

text \<open>\<open>str(n)\<close> of an integer.\<close>

fun show_nat :: "nat \<Rightarrow> string" where
  "show_nat n =
     (if n < 10 then [char_of (48 + n)] else show_nat (n div 10) @ [char_of (48 + n mod 10)])"

declare show_nat.simps [simp del]

definition show_int :: "int \<Rightarrow> string" where
  "show_int i = (if i < 0 then ''-'' @ show_nat (nat (- i)) else show_nat (nat i))"

text \<open>\<open>sep.join(xs)\<close>.\<close>

fun join_with :: "string \<Rightarrow> string list \<Rightarrow> string" where
  "join_with sep [] = []"
| "join_with sep [x] = x"
| "join_with sep (x # y # xs) = x @ sep @ join_with sep (y # xs)"

section \<open>Outcomes\<close>

text \<open>
  Running a piece of Python code returns, raises an \<open>Exception\<close>, or raises a
  \<open>BaseException\<close> outside \<open>Exception\<close> (\<open>KeyboardInterrupt\<close>, \<open>asyncio.CancelledError\<close>),
  which an \<open>except Exception\<close> clause lets through.
\<close>

datatype ('a, 'e) outcome = Ret 'a | Exc 'e | BaseExc string

fun is_Ret :: "('a, 'e) outcome \<Rightarrow> bool" where
  "is_Ret (Ret _) = True"
| "is_Ret _ = False"

section \<open>Interface: a component driven by events\<close>

text \<open>
  The contract of a component whose state changes only through \<open>step\<close>: its invariant
  is kept by each step.  Every sequence of steps then keeps it, and so does every prefix.
\<close>

locale invariant_machine =
  fixes step :: "'e \<Rightarrow> 's \<Rightarrow> 's"
    and inv :: "'s \<Rightarrow> bool"
  assumes step_inv: "inv s \<Longrightarrow> inv (step e s)"
begin

lemma run_inv: "inv s \<Longrightarrow> inv (fold step es s)"
  by (induction es arbitrary: s) (simp_all add: step_inv)

lemma run_prefix_inv: "inv s \<Longrightarrow> inv (fold step (take n es) s)"
  by (rule run_inv)

end

text \<open>
  A component whose steps also leave a configuration untouched.
\<close>

locale configured_machine = invariant_machine step inv
  for step :: "'e \<Rightarrow> 's \<Rightarrow> 's" and inv :: "'s \<Rightarrow> bool" +
  fixes config :: "'s \<Rightarrow> 'c"
  assumes step_config: "config (step e s) = config s"
begin

lemma run_config: "config (fold step es s) = config s"
  by (induction es arbitrary: s) (simp_all add: step_config)

end

section \<open>Lists and multisets\<close>

lemma mset_filter_split:
  "mset (filter P xs) + mset (filter (\<lambda>x. \<not> P x) xs) = mset xs"
  by (induction xs) auto

lemma mset_take_drop: "mset (take n xs) + mset (drop n xs) = mset xs"
  by (metis append_take_drop_id mset_append)

end
