(* ===== verification/Refusal_Category.thy ===== *)
theory Refusal_Category
  imports Nullrun_Prelude
begin

text \<open>
  Reading the category of a gate refusal (\<open>src/nullrun/breaker/categories.py\<close>): which
  category the wire names, whether its message may be shown to the model, and the refusal to
  guess a category the SDK does not know.
\<close>

section \<open>Categories\<close>

datatype decision_category = DENIED | BUDGET | HALT | INFRA

fun category_value :: "decision_category \<Rightarrow> string" where
  "category_value DENIED = ''denied''"
| "category_value BUDGET = ''budget''"
| "category_value HALT = ''halt''"
| "category_value INFRA = ''infra''"

definition all_categories :: "decision_category list" where
  "all_categories = [DENIED, BUDGET, HALT, INFRA]"

definition is_model_message_safe :: "decision_category \<Rightarrow> bool" where
  "is_model_message_safe c \<longleftrightarrow> c = DENIED"

text \<open>
  \<open>DecisionCategory.parse\<close>: a member passes through, a string is looked up by value, anything
  else is a \<open>ValueError\<close> (\<open>None\<close>).
\<close>

datatype raw_category = RawMember decision_category | RawJson json

definition parse_category :: "raw_category \<Rightarrow> decision_category option" where
  "parse_category raw =
     (case raw of
        RawMember c \<Rightarrow> Some c
      | RawJson (JStr s) \<Rightarrow> find (\<lambda>c. category_value c = s) all_categories
      | RawJson _ \<Rightarrow> None)"

section \<open>Refusals\<close>

text \<open>\<open>NullRunUnclassifiedRefusalError\<close>: what it carries of the wire body.\<close>

record unclassified =
  wire_category :: json
  wire_error_code :: json

definition is_gate_refusal :: "json \<Rightarrow> bool" where
  "is_gate_refusal body =
     (case body of JObj d \<Rightarrow> jget d ''decision'' = JStr ''block'' | _ \<Rightarrow> False)"

text \<open>
  \<open>resolve_refusal_category\<close>: not a refusal gives \<open>Inr None\<close>; a refusal gives its category or
  the unclassified error.
\<close>

definition resolve_refusal_category ::
  "json \<Rightarrow> unclassified + decision_category option" where
  "resolve_refusal_category body =
     (if \<not> is_gate_refusal body then Inr None
      else
        (case body of
           JObj d \<Rightarrow>
             (let raw = jget d ''category'' in
              if raw = JNull
              then Inl \<lparr>wire_category = JNull, wire_error_code = jget d ''error_code''\<rparr>
              else
                (case parse_category (RawJson raw) of
                   Some c \<Rightarrow> Inr (Some c)
                 | None \<Rightarrow> Inl \<lparr>wire_category = raw, wire_error_code = jget d ''error_code''\<rparr>))
         | _ \<Rightarrow> Inr None))"

section \<open>Lemmas\<close>

lemma parse_value [simp]: "parse_category (RawJson (JStr (category_value c))) = Some c"
  by (cases c) (simp_all add: parse_category_def all_categories_def)

lemma category_value_inject [simp]: "category_value c = category_value c' \<longleftrightarrow> c = c'"
  by (cases c; cases c') simp_all

lemma parse_Some_value:
  "parse_category (RawJson j) = Some c \<Longrightarrow> j = JStr (category_value c)"
  by (cases j) (auto simp: parse_category_def all_categories_def split: if_splits)

lemma parse_iff: "parse_category (RawJson j) = Some c \<longleftrightarrow> j = JStr (category_value c)"
  using parse_Some_value parse_value by blast

lemma refusal_object: "is_gate_refusal body \<Longrightarrow> \<exists>d. body = JObj d \<and> jget d ''decision'' = JStr ''block''"
  by (cases body) (auto simp: is_gate_refusal_def)

text \<open>
  a refusal is never rounded to a category it did not name.  The reader answers with category c
  exactly when the body is a gate refusal whose \<open>category\<close> is the wire value of c; in particular
  the message is treated as safe for the model only when the backend literally said \<open>denied\<close>.
\<close>

theorem refusal_category_exact:
  "resolve_refusal_category body = Inr (Some c) \<longleftrightarrow>
     (\<exists>d. body = JObj d \<and> jget d ''decision'' = JStr ''block''
          \<and> jget d ''category'' = JStr (category_value c))"
  by (cases body)
     (auto simp: resolve_refusal_category_def is_gate_refusal_def Let_def parse_iff
           split: option.splits)

end
