(* ===== verification/Circuit_Breaker.thy ===== *)
theory Circuit_Breaker
  imports Nullrun_Prelude
begin

text \<open>
  The circuit breaker (\<open>src/nullrun/breaker/circuit_breaker.py\<close>): its state, the shared state it
  publishes through Redis, the admission of a call, the two settlement handlers, and \<open>call\<close>
  composed of them.  The clock is a parameter of every operation that reads it.  The operations
  are also the events of a machine, so that any interleaving of overlapping calls is a list of
  events.  The process-wide counters of \<open>nullrun.observability\<close> that \<open>_on_state_change\<close>
  bumps next to the breaker's own counters, and log lines, are left out: nothing here reads them.
\<close>

section \<open>State\<close>

datatype cb_state = CLOSED | OPEN | HALF_OPEN

record cb_metrics =
  circuit_open_count :: nat
  circuit_half_open_count :: nat
  circuit_closed_count :: nat
  total_failure_count :: nat
  total_success_count :: nat
  half_open_duration_sum :: rat
  half_open_duration_count :: nat
  fallback_activations :: nat

definition init_cb_metrics :: cb_metrics where
  "init_cb_metrics =
     \<lparr>circuit_open_count = 0, circuit_half_open_count = 0, circuit_closed_count = 0,
      total_failure_count = 0, total_success_count = 0, half_open_duration_sum = 0,
      half_open_duration_count = 0, fallback_activations = 0\<rparr>"

text \<open>
  The Redis client: absent, or present with the value of the key \<open>cb:<name>:state\<close>
  (\<open>None\<close>: no such key, also after its 60 s expiry) and whether the server answers.  A client
  that does not answer raises, and every use of it is guarded by \<open>except Exception\<close>.
\<close>

datatype redis = NoRedis | Redis (shared_state: "string option") (answers: bool)

record cb =
  failure_threshold :: int
  recovery_timeout :: rat
  half_open_max_calls :: int
  redis_client :: redis
  state_var :: cb_state
  failure_count :: int
  last_failure_time :: "rat option"
  opened_at :: "rat option"
  half_open_calls :: int
  half_open_start :: "rat option"
  cbm :: cb_metrics
  total_failures :: nat
  total_opens :: nat
  total_successes :: nat

definition init_cb :: "int \<Rightarrow> rat \<Rightarrow> int \<Rightarrow> redis \<Rightarrow> cb" where
  "init_cb threshold timeout max_calls r =
     \<lparr>failure_threshold = threshold, recovery_timeout = timeout, half_open_max_calls = max_calls,
      redis_client = r, state_var = CLOSED, failure_count = 0, last_failure_time = None,
      opened_at = None, half_open_calls = 0, half_open_start = None, cbm = init_cb_metrics,
      total_failures = 0, total_opens = 0, total_successes = 0\<rparr>"

section \<open>Shared state in Redis\<close>

definition check_global_state :: "cb \<Rightarrow> string option" where
  "check_global_state b =
     (case redis_client b of
        NoRedis \<Rightarrow> None
      | Redis v up \<Rightarrow>
          (if up then (case v of Some s \<Rightarrow> (if s = [] then None else Some s) | None \<Rightarrow> None)
           else None))"

definition check_global_recovered :: "cb \<Rightarrow> bool" where
  "check_global_recovered b =
     (case redis_client b of
        NoRedis \<Rightarrow> False
      | Redis v up \<Rightarrow> up \<and> v = Some ''CLOSED'')"

definition publish :: "string option \<Rightarrow> redis \<Rightarrow> redis" where
  "publish v r = (case r of NoRedis \<Rightarrow> NoRedis | Redis w up \<Rightarrow> Redis (if up then v else w) up)"

definition publish_open_state :: "cb \<Rightarrow> cb" where
  "publish_open_state b = b\<lparr>redis_client := publish (Some ''OPEN'') (redis_client b)\<rparr>"

definition publish_half_open_state :: "cb \<Rightarrow> cb" where
  "publish_half_open_state b = b\<lparr>redis_client := publish (Some ''HALF_OPEN'') (redis_client b)\<rparr>"

definition clear_global_state :: "cb \<Rightarrow> cb" where
  "clear_global_state b = b\<lparr>redis_client := publish None (redis_client b)\<rparr>"

text \<open>\<open>_global_state_allows_call\<close>: the verdict, and the local state it may resynchronise.\<close>

definition global_state_allows_call :: "cb \<Rightarrow> bool \<times> cb" where
  "global_state_allows_call b =
     (case check_global_state b of
        None \<Rightarrow> (True, b)
      | Some s \<Rightarrow>
          (if s = ''OPEN'' then (False, b)
           else if s = ''HALF_OPEN'' then (\<not> half_open_calls b \<ge> half_open_max_calls b, b)
           else (True, b\<lparr>state_var := CLOSED, failure_count := 0\<rparr>)))"

section \<open>Transitions\<close>

definition on_state_change :: "cb_state \<Rightarrow> cb_state \<Rightarrow> cb \<Rightarrow> cb" where
  "on_state_change old new b =
     (if new = OPEN then
        b\<lparr>cbm := (cbm b)\<lparr>circuit_open_count := Suc (circuit_open_count (cbm b))\<rparr>\<rparr>
      else if new = HALF_OPEN then
        b\<lparr>cbm := (cbm b)\<lparr>circuit_half_open_count := Suc (circuit_half_open_count (cbm b))\<rparr>\<rparr>
      else if new = CLOSED \<and> old \<noteq> CLOSED then
        b\<lparr>cbm := (cbm b)\<lparr>circuit_closed_count := Suc (circuit_closed_count (cbm b))\<rparr>\<rparr>
      else b)"

definition on_half_open :: "rat \<Rightarrow> cb \<Rightarrow> cb" where
  "on_half_open now b = b\<lparr>half_open_start := Some now\<rparr>"

text \<open>\<open>if self._half_open_start\<close> is Python truth: a start at clock value 0 is skipped.\<close>

definition on_closed :: "rat \<Rightarrow> cb \<Rightarrow> cb" where
  "on_closed now b =
     (case half_open_start b of
        None \<Rightarrow> b
      | Some t \<Rightarrow>
          (if t = 0 then b
           else b\<lparr>cbm := (cbm b)\<lparr>half_open_duration_sum := half_open_duration_sum (cbm b) + (now - t),
                                half_open_duration_count := Suc (half_open_duration_count (cbm b))\<rparr>,
                  half_open_start := None\<rparr>))"

text \<open>The property \<open>state\<close>: reading it moves an expired OPEN to HALF_OPEN.\<close>

definition recovery_due :: "rat \<Rightarrow> cb \<Rightarrow> bool" where
  "recovery_due now b =
     (case last_failure_time b of None \<Rightarrow> False | Some t \<Rightarrow> now - t \<ge> recovery_timeout b)"

definition read_state :: "rat \<Rightarrow> cb \<Rightarrow> cb_state \<times> cb" where
  "read_state now b =
     (if state_var b = OPEN \<and> recovery_due now b then
        (let b1 = b\<lparr>state_var := HALF_OPEN, half_open_calls := 0\<rparr>;
             b2 = on_state_change OPEN HALF_OPEN b1;
             b3 = on_half_open now b2;
             b4 = publish_half_open_state b3
         in (HALF_OPEN, b4))
      else (state_var b, b))"

definition on_success :: "rat \<Rightarrow> cb \<Rightarrow> cb" where
  "on_success now b =
     (let old = state_var b;
          b1 = b\<lparr>state_var := CLOSED, failure_count := 0, total_successes := Suc (total_successes b),
                 cbm := (cbm b)\<lparr>total_success_count := Suc (total_success_count (cbm b))\<rparr>\<rparr>;
          b2 = on_closed now (on_state_change old CLOSED b1)
      in (if redis_client b2 \<noteq> NoRedis then clear_global_state b2 else b2))"

definition on_failure :: "rat \<Rightarrow> cb \<Rightarrow> cb" where
  "on_failure now b =
     (let old = state_var b;
          b1 = b\<lparr>failure_count := failure_count b + 1, last_failure_time := Some now,
                 total_failures := Suc (total_failures b),
                 cbm := (cbm b)\<lparr>total_failure_count := Suc (total_failure_count (cbm b))\<rparr>\<rparr>;
          b2 = (if failure_count b1 \<ge> failure_threshold b1 then
                  (let b' = (if old \<noteq> OPEN
                             then on_state_change old OPEN (b1\<lparr>total_opens := Suc (total_opens b1)\<rparr>)
                             else b1)
                   in b'\<lparr>state_var := OPEN, opened_at := Some now\<rparr>)
                else b1)
      in (if redis_client b2 \<noteq> NoRedis \<and> state_var b2 = OPEN then publish_open_state b2 else b2))"

section \<open>Calling through the breaker\<close>

text \<open>
  Every way a call through the breaker ends other than by the function's own result:
  \<open>BreakerTransportError\<close> with one of three messages, or the function's own exception.
\<close>

datatype 'e cb_error = GlobalOpen | LocalOpen | HalfOpenWaiting | Inner 'e

definition needs_open_jitter :: "rat \<Rightarrow> cb \<Rightarrow> bool" where
  "needs_open_jitter now b =
     (state_var b = OPEN
      \<and> (case opened_at b of None \<Rightarrow> False | Some t \<Rightarrow> now - t \<ge> recovery_timeout b))"

text \<open>\<open>_maybe_apply_open_jitter_sync\<close>: the seconds slept, u being the drawn uniform(0, 5).\<close>

definition maybe_apply_open_jitter :: "rat \<Rightarrow> rat \<Rightarrow> cb \<Rightarrow> rat" where
  "maybe_apply_open_jitter now u b =
     (case opened_at b of
        Some t \<Rightarrow> (if state_var b = OPEN \<and> now - t \<ge> recovery_timeout b then u else 0)
      | None \<Rightarrow> 0)"

text \<open>
  Admission: the part of \<open>call\<close> and \<open>_call_sync\<close> before the function runs.  \<open>None\<close> means
  the function may run.
\<close>

definition cb_admit :: "rat \<Rightarrow> rat \<Rightarrow> cb \<Rightarrow> 'e cb_error option \<times> cb" where
  "cb_admit now u b =
     (case global_state_allows_call b of
        (False, b1) \<Rightarrow> (Some GlobalOpen, b1)
      | (True, b1) \<Rightarrow>
          (let slept = (if needs_open_jitter now b1 then maybe_apply_open_jitter now u b1 else 0)
           in case read_state (now + slept) b1 of
                (OPEN, b2) \<Rightarrow> (Some LocalOpen, b2)
              | (HALF_OPEN, b2) \<Rightarrow>
                  (if half_open_calls b2 \<ge> half_open_max_calls b2 then (Some HalfOpenWaiting, b2)
                   else (None, b2\<lparr>half_open_calls := half_open_calls b2 + 1\<rparr>))
              | (CLOSED, b2) \<Rightarrow> (None, b2)))"

text \<open>Settlement: success, an \<open>Exception\<close>, or a \<open>BaseException\<close> that skips both handlers.\<close>

definition cb_settle :: "rat \<Rightarrow> ('a, 'e) outcome \<Rightarrow> cb \<Rightarrow> cb" where
  "cb_settle now r b =
     (case r of Ret _ \<Rightarrow> on_success now b | Exc _ \<Rightarrow> on_failure now b | BaseExc _ \<Rightarrow> b)"

fun lift_inner :: "('a, 'e) outcome \<Rightarrow> ('a, 'e cb_error) outcome" where
  "lift_inner (Ret x) = Ret x"
| "lift_inner (Exc e) = Exc (Inner e)"
| "lift_inner (BaseExc m) = BaseExc m"

text \<open>
  \<open>call\<close> and \<open>_call_sync\<close> (and, step for step, \<open>_call_async\<close>): the function is a state
  transformer of the caller's state; \<open>done\<close> is the clock when it has ended.
\<close>

definition cb_call ::
  "rat \<Rightarrow> rat \<Rightarrow> rat \<Rightarrow> ('w \<Rightarrow> ('a, 'e) outcome \<times> 'w) \<Rightarrow> cb \<Rightarrow> 'w
     \<Rightarrow> ('a, 'e cb_error) outcome \<times> cb \<times> 'w" where
  "cb_call now u done func b w =
     (case cb_admit now u b of
        (Some e, b1) \<Rightarrow> (Exc e, b1, w)
      | (None, b1) \<Rightarrow>
          (case func w of (r, w1) \<Rightarrow> (lift_inner r, cb_settle done r b1, w1)))"

text \<open>\<open>get_metrics\<close>: reads the state through the property, so it can itself move the breaker.\<close>

definition avg_half_open_duration :: "cb \<Rightarrow> rat" where
  "avg_half_open_duration b =
     (if half_open_duration_count (cbm b) > 0
      then half_open_duration_sum (cbm b) / of_nat (half_open_duration_count (cbm b)) else 0)"

record cb_snapshot =
  snap_state :: cb_state
  snap_failure_count :: int
  snap_total_failures :: nat
  snap_total_opens :: nat
  snap_total_successes :: nat
  snap_metrics :: cb_metrics
  snap_avg_half_open_duration :: rat

definition get_metrics :: "rat \<Rightarrow> cb \<Rightarrow> cb_snapshot \<times> cb" where
  "get_metrics now b =
     (case read_state now b of
        (s, b1) \<Rightarrow>
          (\<lparr>snap_state = s, snap_failure_count = failure_count b1,
            snap_total_failures = total_failures b1, snap_total_opens = total_opens b1,
            snap_total_successes = total_successes b1, snap_metrics = cbm b1,
            snap_avg_half_open_duration = avg_half_open_duration b1\<rparr>, b1))"

section \<open>The machine\<close>

text \<open>
  One event per atomic piece of the breaker: admitting a call, its end in one of three ways,
  reading the state or the metrics, and a change of the shared Redis value by another worker or
  by expiry.  Overlapping calls are interleavings of these events.
\<close>

datatype cb_event =
    Admit rat rat
  | Succeed rat
  | Fail rat
  | Interrupt
  | Observe rat
  | Shared "string option" bool

fun cb_step :: "cb_event \<Rightarrow> cb \<Rightarrow> cb" where
  "cb_step (Admit now u) b = snd (cb_admit now u b :: unit cb_error option \<times> cb)"
| "cb_step (Succeed now) b = on_success now b"
| "cb_step (Fail now) b = on_failure now b"
| "cb_step Interrupt b = b"
| "cb_step (Observe now) b = snd (get_metrics now b)"
| "cb_step (Shared v up) b =
     (case redis_client b of
        NoRedis \<Rightarrow> b
      | Redis _ _ \<Rightarrow> b\<lparr>redis_client := Redis v up\<rparr>)"

text \<open>
  The invariant: the failure count separates CLOSED from the other two states, a breaker that is
  not CLOSED knows when it failed last, and HALF_OPEN has admitted at most its quota of probes.
\<close>

definition cb_inv :: "cb \<Rightarrow> bool" where
  "cb_inv b \<longleftrightarrow>
     failure_threshold b \<ge> 1 \<and> half_open_max_calls b \<ge> 0 \<and> failure_count b \<ge> 0
     \<and> (state_var b = CLOSED \<longleftrightarrow> failure_count b < failure_threshold b)
     \<and> (state_var b \<noteq> CLOSED \<longrightarrow> last_failure_time b \<noteq> None \<and> opened_at b \<noteq> None)
     \<and> (state_var b = HALF_OPEN \<longrightarrow> 0 \<le> half_open_calls b \<and> half_open_calls b \<le> half_open_max_calls b)"

definition cb_config :: "cb \<Rightarrow> int \<times> rat \<times> int" where
  "cb_config b = (failure_threshold b, recovery_timeout b, half_open_max_calls b)"

named_theorems cb_defs \<open>the breaker's operations\<close>

declare publish_open_state_def [cb_defs] publish_half_open_state_def [cb_defs]
  clear_global_state_def [cb_defs] global_state_allows_call_def [cb_defs]
  on_state_change_def [cb_defs] on_half_open_def [cb_defs] on_closed_def [cb_defs]
  read_state_def [cb_defs] on_success_def [cb_defs] on_failure_def [cb_defs]
  cb_admit_def [cb_defs] get_metrics_def [cb_defs]

section \<open>Lemmas on the operations\<close>

lemma read_state_inv: "cb_inv b \<Longrightarrow> cb_inv (snd (read_state now b))"
  by (auto simp: cb_inv_def read_state_def on_state_change_def on_half_open_def
        publish_half_open_state_def Let_def)

lemma read_state_fst: "fst (read_state now b) = state_var (snd (read_state now b))"
  by (auto simp: read_state_def on_state_change_def on_half_open_def
        publish_half_open_state_def Let_def)

lemma read_state_config: "cb_config (snd (read_state now b)) = cb_config b"
  by (auto simp: cb_config_def read_state_def on_state_change_def on_half_open_def
        publish_half_open_state_def Let_def)

lemma allows_inv: "cb_inv b \<Longrightarrow> cb_inv (snd (global_state_allows_call b))"
  by (auto simp: cb_inv_def global_state_allows_call_def split: option.splits)

lemma allows_config: "cb_config (snd (global_state_allows_call b)) = cb_config b"
  by (auto simp: cb_config_def global_state_allows_call_def split: option.splits)

lemma allows_NoRedis: "redis_client b = NoRedis \<Longrightarrow> global_state_allows_call b = (True, b)"
  by (simp add: global_state_allows_call_def check_global_state_def)

lemma half_open_enter_inv:
  "cb_inv b \<Longrightarrow> state_var b = HALF_OPEN \<Longrightarrow> half_open_calls b < half_open_max_calls b
     \<Longrightarrow> cb_inv (b\<lparr>half_open_calls := half_open_calls b + 1\<rparr>)"
  by (auto simp: cb_inv_def)

text \<open>The cases of an admission, with what is known of the breaker in each.\<close>

lemma cb_admit_cases:
  fixes r :: "'e cb_error option"
  assumes "cb_admit now u b = (r, b')"
  obtains (shared) "fst (global_state_allows_call b) = False" "r = Some GlobalOpen"
            "b' = snd (global_state_allows_call b)"
  | (opened) t where "r = Some LocalOpen" "b' = snd (read_state t (snd (global_state_allows_call b)))"
      "state_var b' = OPEN"
  | (waiting) t where "r = Some HalfOpenWaiting"
      "b' = snd (read_state t (snd (global_state_allows_call b)))"
      "state_var b' = HALF_OPEN" "half_open_calls b' \<ge> half_open_max_calls b'"
  | (probe) t b2 where "r = None" "b2 = snd (read_state t (snd (global_state_allows_call b)))"
      "state_var b2 = HALF_OPEN" "half_open_calls b2 < half_open_max_calls b2"
      "b' = b2\<lparr>half_open_calls := half_open_calls b2 + 1\<rparr>"
  | (closed) t where "r = None" "b' = snd (read_state t (snd (global_state_allows_call b)))"
      "state_var b' = CLOSED"
proof -
  obtain ok b1 where g: "global_state_allows_call b = (ok, b1)" by fastforce
  show thesis
  proof (cases ok)
    case False
    with g assms have "r = Some GlobalOpen" "b' = b1" by (simp_all add: cb_admit_def)
    then show thesis using g False by (intro shared) simp_all
  next
    case True
    define t where "t = now + (if needs_open_jitter now b1 then maybe_apply_open_jitter now u b1 else 0)"
    have adm: "(cb_admit now u b :: 'e cb_error option \<times> cb) =
        (case read_state t b1 of
           (OPEN, b2) \<Rightarrow> (Some LocalOpen, b2)
         | (HALF_OPEN, b2) \<Rightarrow>
             (if half_open_calls b2 \<ge> half_open_max_calls b2 then (Some HalfOpenWaiting, b2)
              else (None, b2\<lparr>half_open_calls := half_open_calls b2 + 1\<rparr>))
         | (CLOSED, b2) \<Rightarrow> (None, b2))"
      unfolding cb_admit_def Let_def g t_def using True by (simp only: prod.case bool.case simp_thms split: if_split)
    obtain st b2 where rd: "read_state t b1 = (st, b2)" by fastforce
    with read_state_fst [of t b1] have st: "state_var b2 = st" by simp
    have b1: "snd (global_state_allows_call b) = b1" using g by simp
    have b2: "snd (read_state t b1) = b2" using rd by simp
    show thesis
    proof (cases st)
      case CLOSED
      with adm rd assms have "r = None" "b' = b2" by simp_all
      then show thesis using b1 b2 st CLOSED by (intro closed [of t]) simp_all
    next
      case OPEN
      with adm rd assms have "r = Some LocalOpen" "b' = b2" by simp_all
      then show thesis using b1 b2 st OPEN by (intro opened [of t]) simp_all
    next
      case HALF_OPEN
      show thesis
      proof (cases "half_open_calls b2 \<ge> half_open_max_calls b2")
        case True
        with HALF_OPEN adm rd assms have "r = Some HalfOpenWaiting" "b' = b2" by simp_all
        then show thesis using b1 b2 st HALF_OPEN True by (intro waiting [of t]) simp_all
      next
        case False
        with HALF_OPEN adm rd assms have "r = None" "b' = b2\<lparr>half_open_calls := half_open_calls b2 + 1\<rparr>"
          by simp_all
        then show thesis using b1 b2 st HALF_OPEN False by (intro probe [of b2 t]) simp_all
      qed
    qed
  qed
qed

lemma cb_admit_inv:
  assumes adm: "cb_admit now u b = (r, b')" and inv: "cb_inv b"
  shows "cb_inv b'"
proof -
  have rd: "cb_inv (snd (read_state t (snd (global_state_allows_call b))))" for t
    using inv by (intro read_state_inv allows_inv)
  from adm show ?thesis
  proof (cases rule: cb_admit_cases)
    case shared
    with inv show ?thesis by (simp add: allows_inv)
  next
    case (probe t b2)
    with rd [of t] show ?thesis by (simp add: half_open_enter_inv)
  qed (use rd in auto)
qed

lemma cb_admit_config:
  assumes adm: "cb_admit now u b = (r, b')"
  shows "cb_config b' = cb_config b"
  using adm
proof (cases rule: cb_admit_cases)
  case (probe t b2)
  then have "cb_config b' = cb_config b2" by (simp add: cb_config_def)
  with probe(2) show ?thesis by (simp add: read_state_config allows_config)
qed (simp_all add: read_state_config allows_config)

lemma on_success_inv: "cb_inv b \<Longrightarrow> cb_inv (on_success now b)"
  by (auto simp: cb_inv_def cb_defs Let_def split: option.splits)

lemma on_failure_inv: "cb_inv b \<Longrightarrow> cb_inv (on_failure now b)"
  by (cases "state_var b") (auto simp: cb_inv_def on_failure_def on_state_change_def
      publish_open_state_def Let_def)

lemma get_metrics_snd: "snd (get_metrics now b) = snd (read_state now b)"
  by (simp add: get_metrics_def split: prod.splits)

lemma on_success_config: "cb_config (on_success now b) = cb_config b"
  by (auto simp: cb_config_def cb_defs Let_def split: option.splits)

lemma on_failure_config: "cb_config (on_failure now b) = cb_config b"
  by (auto simp: cb_config_def cb_defs Let_def)

lemma shared_change: "cb_inv b \<Longrightarrow> cb_inv (b\<lparr>redis_client := r\<rparr>)"
  by (simp add: cb_inv_def)

lemma cb_step_inv: "cb_inv b \<Longrightarrow> cb_inv (cb_step e b)"
proof (cases e)
  case (Admit now u)
  then show "cb_inv b \<Longrightarrow> ?thesis"
    by (metis cb_admit_inv cb_step.simps(1) prod.collapse)
qed (auto simp: on_success_inv on_failure_inv read_state_inv get_metrics_snd shared_change
       split: redis.splits)

lemma cb_step_config: "cb_config (cb_step e b) = cb_config b"
proof (cases e)
  case (Admit now u)
  then show ?thesis by (metis cb_admit_config cb_step.simps(1) prod.collapse)
next
  case (Shared v up)
  then show ?thesis by (simp add: cb_config_def split: redis.splits)
qed (simp_all add: on_success_config on_failure_config read_state_config get_metrics_snd)

interpretation breaker: configured_machine cb_step cb_inv cb_config
  by unfold_locales (simp_all add: cb_step_inv cb_step_config)

lemma init_cb_inv: "threshold \<ge> 1 \<Longrightarrow> max_calls \<ge> 0 \<Longrightarrow> cb_inv (init_cb threshold timeout max_calls r)"
  by (simp add: cb_inv_def init_cb_def)

section \<open>Interface: a guarded call\<close>

text \<open>
  What the transport relies on when it sends through a breaker: the call is either rejected
  without running the function, or runs it exactly once and passes its outcome on.
\<close>

locale call_guard =
  fixes call :: "('w \<Rightarrow> ('a, 'e) outcome \<times> 'w) \<Rightarrow> 'b \<Rightarrow> 'w \<Rightarrow> ('a, 'x) outcome \<times> 'b \<times> 'w"
    and lifted :: "('a, 'e) outcome \<Rightarrow> ('a, 'x) outcome"
    and rejection :: "('a, 'x) outcome \<Rightarrow> bool"
  assumes call_ran_or_rejected:
    "call f b w = (r, b', w') \<Longrightarrow> (rejection r \<and> w' = w) \<or> (\<exists>q. f w = (q, w') \<and> r = lifted q)"
begin

lemma call_preserves:
  assumes "\<And>q w'. f w = (q, w') \<Longrightarrow> P w'" and "P w"
  shows "P (snd (snd (call f b w)))"
proof -
  obtain r b' w' where c: "call f b w = (r, b', w')" by (metis prod_cases3)
  from call_ran_or_rejected [OF c] assms have "P w'" by blast
  with c show ?thesis by simp
qed

end

text \<open>What a rejected call raises: one of the breaker's own three errors.\<close>

fun rejection :: "('a, 'e cb_error) outcome \<Rightarrow> bool" where
  "rejection (Exc GlobalOpen) = True"
| "rejection (Exc LocalOpen) = True"
| "rejection (Exc HalfOpenWaiting) = True"
| "rejection _ = False"

lemma cb_admit_rejects:
  "cb_admit now u b = (Some e, b') \<Longrightarrow> rejection (Exc e)"
  by (erule cb_admit_cases) auto

interpretation breaker_call: call_guard "cb_call now u fin" lift_inner rejection
proof unfold_locales
  fix f :: "'a \<Rightarrow> ('b, 'c) outcome \<times> 'a" and b w r b' w'
  assume "cb_call now u fin f b w = (r, b', w')"
  then show "(rejection r \<and> w' = w) \<or> (\<exists>q. f w = (q, w') \<and> r = lift_inner q)"
    by (auto simp: cb_call_def dest: cb_admit_rejects split: prod.splits option.splits)
qed

section \<open>Properties\<close>

text \<open>
  C35: in every interleaving of admissions, settlements, reads and shared-state changes, starting
  from a fresh breaker, the breaker is CLOSED exactly while fewer than \<open>failure_threshold\<close>
  failures have accumulated, and HALF_OPEN never holds more probes than \<open>half_open_max_calls\<close>.
\<close>

theorem breaker_state_counts_failures:
  assumes "threshold \<ge> 1" and "max_calls \<ge> 0"
  shows "let b = fold cb_step es (init_cb threshold timeout max_calls r) in
           (state_var b = CLOSED \<longleftrightarrow> failure_count b < threshold) \<and>
           (state_var b = HALF_OPEN \<longrightarrow> half_open_calls b \<le> max_calls)"
proof -
  let ?init = "init_cb threshold timeout max_calls r"
  let ?b = "fold cb_step es ?init"
  have "cb_inv ?b" by (rule breaker.run_inv) (rule init_cb_inv [OF assms])
  moreover have "cb_config ?b = cb_config ?init" by (rule breaker.run_config)
  then have "failure_threshold ?b = threshold" "half_open_max_calls ?b = max_calls"
    by (simp_all add: cb_config_def init_cb_def)
  ultimately show ?thesis by (simp add: Let_def cb_inv_def)
qed

theorem breaker_state_counts_failures_witness:
  "let b = fold cb_step [Admit 0 0, Fail 1, Fail 2, Admit 40 1] (init_cb 2 30 1 NoRedis) in
     (state_var b = CLOSED \<longleftrightarrow> failure_count b < 2) \<and>
     (state_var b = HALF_OPEN \<longrightarrow> half_open_calls b \<le> 1)"
  by (rule breaker_state_counts_failures) simp_all

text \<open>
  whatever happened before, a probe that fails in HALF_OPEN reopens the breaker at once, in one
  step, restarts the recovery timer at the time of that failure, and counts one more opening.
\<close>

theorem half_open_failure_reopens:
  assumes "threshold \<ge> 1" and "max_calls \<ge> 0"
    and b: "b = fold cb_step es (init_cb threshold timeout max_calls r)"
    and "state_var b = HALF_OPEN"
  shows "state_var (cb_step (Fail now) b) = OPEN \<and> opened_at (cb_step (Fail now) b) = Some now
         \<and> last_failure_time (cb_step (Fail now) b) = Some now
         \<and> total_opens (cb_step (Fail now) b) = Suc (total_opens b)"
proof -
  have "cb_inv b" unfolding b by (rule breaker.run_inv) (rule init_cb_inv [OF assms(1,2)])
  with assms(4) have "failure_count b + 1 \<ge> failure_threshold b" by (simp add: cb_inv_def)
  with assms(4) show ?thesis
    by (simp add: on_failure_def on_state_change_def publish_open_state_def Let_def)
qed

theorem half_open_failure_reopens_witness:
  "state_var (cb_step (Fail 41) (fold cb_step [Fail 1, Admit 40 0] (init_cb 1 30 1 NoRedis))) = OPEN"
  using half_open_failure_reopens
    [of 1 1 "fold cb_step [Fail 1, Admit 40 0] (init_cb 1 30 1 NoRedis)" "[Fail 1, Admit 40 0]" 30 NoRedis 41]
  by (simp add: init_cb_def cb_admit_def allows_NoRedis read_state_def recovery_due_def on_failure_def
        on_state_change_def publish_open_state_def publish_half_open_state_def publish_def
        on_half_open_def needs_open_jitter_def maybe_apply_open_jitter_def Let_def)

lemma step_NoRedis: "redis_client b = NoRedis \<Longrightarrow> redis_client (cb_step e b) = NoRedis"
  by (cases e)
     (auto simp: cb_admit_def allows_NoRedis get_metrics_snd read_state_def on_success_def on_failure_def
        on_state_change_def on_half_open_def on_closed_def publish_half_open_state_def publish_def
        Let_def split: cb_state.splits option.splits)

lemma run_NoRedis: "redis_client b = NoRedis \<Longrightarrow> redis_client (fold cb_step es b) = NoRedis"
  by (induction es arbitrary: b) (simp_all add: step_NoRedis)

lemma recovery_due_mono:
  "recovery_due now b \<Longrightarrow> 0 \<le> d \<Longrightarrow> recovery_due (now + d) b"
  by (auto simp: recovery_due_def split: option.splits)

lemma jitter_nonneg: "0 \<le> u \<Longrightarrow> 0 \<le> maybe_apply_open_jitter now u b"
  by (simp add: maybe_apply_open_jitter_def split: option.splits)

lemma admit_due:
  assumes "redis_client b = NoRedis" "state_var b = OPEN" "recovery_due now b" "0 \<le> u"
    and "half_open_max_calls b \<ge> 1"
  shows "\<exists>b'. cb_admit now u b = (None, b') \<and> state_var b' = HALF_OPEN
              \<and> redis_client b' = NoRedis \<and> half_open_calls b' = 1
              \<and> half_open_max_calls b' = half_open_max_calls b"
proof -
  let ?d = "if needs_open_jitter now b then maybe_apply_open_jitter now u b else 0"
  have "recovery_due (now + ?d) b"
    using assms(3,4) by (intro recovery_due_mono) (auto simp: jitter_nonneg)
  with assms show ?thesis
    by (simp add: cb_admit_def allows_NoRedis read_state_def on_state_change_def on_half_open_def
          publish_half_open_state_def publish_def)
qed

lemma call_due:
  fixes f :: "'w \<Rightarrow> ('a, 'e) outcome \<times> 'w"
  assumes "redis_client b = NoRedis" "state_var b = OPEN" "recovery_due now b" "0 \<le> u"
    and "half_open_max_calls b \<ge> 1" and f: "f w = (q, w')"
  obtains b' where "cb_call now u fin f b w = (lift_inner q, cb_settle fin q b', w')"
    "state_var b' = HALF_OPEN" "redis_client b' = NoRedis" "half_open_calls b' = 1"
    "half_open_max_calls b' = half_open_max_calls b"
proof -
  obtain b' where b': "(cb_admit now u b :: 'e cb_error option \<times> cb) = (None, b')"
      "state_var b' = HALF_OPEN" "redis_client b' = NoRedis" "half_open_calls b' = 1"
      "half_open_max_calls b' = half_open_max_calls b"
    using admit_due [OF assms(1-5)] by blast
  then show thesis using f by (intro that [of b']) (simp_all add: cb_call_def)
qed

lemma on_success_closes: "state_var (on_success now b) = CLOSED \<and> failure_count (on_success now b) = 0"
  by (simp add: on_success_def on_state_change_def on_closed_def clear_global_state_def Let_def
        split: option.splits)

text \<open>
  a breaker without shared state always recovers: once the recovery timeout has passed since the
  last failure, the next call is let through whatever the history was, and if the function returns,
  its value is returned and the breaker is CLOSED with no failures counted.
\<close>

theorem breaker_recovers:
  assumes "threshold \<ge> 1" and "max_calls \<ge> 1"
    and b: "b = fold cb_step es (init_cb threshold timeout max_calls NoRedis)"
    and "state_var b = OPEN" and "last_failure_time b = Some t" and "now - t \<ge> timeout" and "0 \<le> u"
    and f: "f w = (Ret x, w')"
  shows "\<exists>b'. cb_call now u fin f b w = (Ret x, b', w') \<and> state_var b' = CLOSED \<and> failure_count b' = 0"
proof -
  have "cb_config b = (threshold, timeout, max_calls)"
    unfolding b breaker.run_config by (simp add: cb_config_def init_cb_def)
  then have cfg: "recovery_timeout b = timeout" "half_open_max_calls b = max_calls"
    by (simp_all add: cb_config_def)
  have red: "redis_client b = NoRedis"
    unfolding b by (rule run_NoRedis) (simp add: init_cb_def)
  have "recovery_due now b" using assms(5,6) cfg by (simp add: recovery_due_def)
  moreover have "half_open_max_calls b \<ge> 1" using cfg assms(2) by simp
  ultimately obtain b' where "cb_call now u fin f b w = (Ret x, on_success fin b', w')"
    using call_due [where f = f and fin = fin, OF red assms(4) _ assms(7) _ f]
    by (auto simp: cb_settle_def)
  then show ?thesis by (simp add: on_success_closes)
qed

theorem breaker_recovers_witness:
  "\<exists>b'. cb_call 40 2 43 (\<lambda>w. (Ret (7::int), Suc w)) (fold cb_step [Fail 1] (init_cb 1 30 1 NoRedis)) 0
        = ((Ret 7 :: (int, unit cb_error) outcome), b', 1) \<and> state_var b' = CLOSED \<and> failure_count b' = 0"
  by (rule breaker_recovers [where threshold = 1 and max_calls = 1 and es = "[Fail 1]" and timeout = 30
        and t = 1])
     (simp_all add: init_cb_def on_failure_def on_state_change_def publish_open_state_def Let_def)

text \<open>
  while a breaker without shared state is OPEN and the recovery timeout has not passed, no call
  reaches the protected function: the caller's world is untouched, the breaker is unchanged and the
  error is the OPEN rejection.
\<close>

theorem open_breaker_blocks:
  assumes "redis_client b = NoRedis" and "state_var b = OPEN"
    and "last_failure_time b = Some t" and "opened_at b = Some t" and "now - t < recovery_timeout b"
  shows "cb_call now u fin f b w = (Exc LocalOpen, b, w)"
  using assms
  by (simp add: cb_call_def cb_admit_def allows_NoRedis needs_open_jitter_def read_state_def
        recovery_due_def)

theorem open_breaker_blocks_witness:
  "cb_call 20 2 43 (\<lambda>w. (Ret (7::int), Suc w)) (on_failure 1 (init_cb 1 30 1 NoRedis)) 0
     = ((Exc LocalOpen :: (int, unit cb_error) outcome), on_failure 1 (init_cb 1 30 1 NoRedis), 0)"
  by (rule open_breaker_blocks [where t = 1])
     (simp_all add: init_cb_def on_failure_def on_state_change_def publish_open_state_def Let_def)

text \<open>
  the breaker can wedge.  If the probe of a recovering breaker ends in a \<open>BaseException\<close>
  (an \<open>asyncio.CancelledError\<close>, a \<open>KeyboardInterrupt\<close>), neither handler runs, HALF_OPEN keeps
  its only slot taken, and from then on every call at every time is rejected without running.
\<close>

theorem interrupted_probe_wedges:
  assumes "redis_client b = NoRedis" and "state_var b = OPEN" and "last_failure_time b = Some t"
    and "now - t \<ge> recovery_timeout b" and "0 \<le> u" and "half_open_max_calls b = 1"
    and f: "f w = (BaseExc m, w')"
  shows "\<exists>b'. cb_call now u fin f b w = (BaseExc m, b', w')
              \<and> (\<forall>now' u' fin' g v. cb_call now' u' fin' g b' v = (Exc HalfOpenWaiting, b', v))"
proof -
  have "recovery_due now b" using assms(3,4) by (simp add: recovery_due_def)
  moreover have "half_open_max_calls b \<ge> 1" using assms(6) by simp
  ultimately obtain b' where b': "cb_call now u fin f b w = (BaseExc m, b', w')"
      "state_var b' = HALF_OPEN" "redis_client b' = NoRedis" "half_open_calls b' = 1"
      "half_open_max_calls b' = 1"
    using call_due [where f = f and fin = fin, OF assms(1,2) _ assms(5) _ f] assms(6)
    by (auto simp: cb_settle_def)
  have "cb_call now' u' fin' g b' v = (Exc HalfOpenWaiting, b', v)" for now' u' fin' g v
    using b' by (simp add: cb_call_def cb_admit_def allows_NoRedis read_state_def Let_def)
  with b'(1) show ?thesis by blast
qed

theorem interrupted_probe_wedges_witness:
  "\<exists>b'. cb_call 40 2 43 (\<lambda>w. (BaseExc ''CancelledError'', Suc w)) (on_failure 1 (init_cb 1 30 1 NoRedis)) 0
        = ((BaseExc ''CancelledError'' :: (int, unit cb_error) outcome), b', 1)
      \<and> (\<forall>now' u' fin' (g :: nat \<Rightarrow> (int, unit) outcome \<times> nat) v.
            cb_call now' u' fin' g b' v = (Exc HalfOpenWaiting, b', v))"
  by (rule interrupted_probe_wedges [where t = 1])
     (simp_all add: init_cb_def on_failure_def on_state_change_def publish_open_state_def Let_def)

end
