(* ===== verification/Wal_Store.thy ===== *)
theory Wal_Store
  imports Nullrun_Prelude
begin

text \<open>
  The durable files of the transport (\<open>src/nullrun/transport.py\<close>): events, dead-letter rows, the
  five files next to the WAL path, and the atomic write that every one of them goes through.
  A file is its complete lines plus, when a write was torn, a last line without a newline.
  A line is a parsed JSON row, a line that does not parse to a row, or white space.
\<close>

section \<open>Events and rows\<close>

text \<open>
  An event is a dictionary; the transport reads its \<open>event_id\<close> and its \<open>type\<close> only.  A missing
  id is \<open>None\<close>; an id that is present is a string.
\<close>

record event =
  eid :: "string option"
  etype :: "string option"
  payload :: dict

text \<open>
  A row of an event file stands for its line, the text of \<open>json.dumps(event, default=str)\<close>;
  \<open>reloaded\<close> is the event a reader gets from it.
\<close>

definition reloaded :: "event \<Rightarrow> event" where
  "reloaded e = e\<lparr>payload := map (map_prod id plain) (payload e)\<rparr>"

lemma reloaded_id [simp]: "eid (reloaded e) = eid e"
  by (simp add: reloaded_def)

lemma reloaded_idem [simp]: "reloaded (reloaded e) = reloaded e"
  by (simp add: reloaded_def comp_def prod.map_comp id_def)

lemma reloaded_native: "\<forall>(k, v) \<in> set (payload e). enum_free v \<Longrightarrow> reloaded e = e"
proof -
  assume "\<forall>(k, v) \<in> set (payload e). enum_free v"
  then have "map (map_prod id plain) (payload e) = payload e"
    by (intro map_idI) (auto simp: plain_enum_free)
  then show ?thesis by (simp add: reloaded_def)
qed

text \<open>
  A dead-letter row of \<open>.wal.dlq\<close> or \<open>.wal.holdover\<close>, key by key; \<open>r_raw\<close> is the \<open>raw\<close> key
  that \<open>_release_holdover\<close> writes around a line it could not parse.
\<close>

record dlq_row =
  r_version :: "int option"
  r_event :: "event option"
  r_error :: "string option"
  r_reason :: "string option"
  r_event_type :: "string option"
  r_first_failed_at :: "rat option"
  r_attempts :: "int option"
  r_raw :: "string option"

definition reloaded_row :: "dlq_row \<Rightarrow> dlq_row" where
  "reloaded_row r = r\<lparr>r_event := map_option reloaded (r_event r)\<rparr>"

datatype 'r line = Row 'r | Junk string | Blank

record 'r wfile =
  complete :: "'r line list"
  torn :: "'r line option"

definition all_lines :: "'r wfile \<Rightarrow> 'r line list" where
  "all_lines f = complete f @ (case torn f of None \<Rightarrow> [] | Some l \<Rightarrow> [l])"

text \<open>\<open>open(path).readlines()\<close>; a missing file is the \<open>FileNotFoundError\<close> branch, \<open>[]\<close> here.\<close>

definition read_lines :: "'r wfile option \<Rightarrow> 'r line list" where
  "read_lines f = (case f of None \<Rightarrow> [] | Some g \<Rightarrow> all_lines g)"

text \<open>The rows a reader gets when it skips what does not parse.\<close>

fun rows_of :: "'r line list \<Rightarrow> 'r list" where
  "rows_of [] = []"
| "rows_of (Row r # ls) = r # rows_of ls"
| "rows_of (Junk _ # ls) = rows_of ls"
| "rows_of (Blank # ls) = rows_of ls"

section \<open>The files\<close>

record disk =
  wal_file :: "event wfile option"
  wal1_file :: "event wfile option"
  inflight_file :: "event wfile option"
  dlq_file :: "dlq_row wfile option"
  holdover_file :: "dlq_row wfile option"

definition empty_disk :: disk where
  "empty_disk = \<lparr>wal_file = None, wal1_file = None, inflight_file = None, dlq_file = None,
                 holdover_file = None\<rparr>"

text \<open>
  The content \<open>_write_events_atomic\<close> leaves behind when the lock is granted and no I/O fails: the
  temporary file replaces the target, so the target is either the old one or exactly this.  In
  append mode the previous content is copied first, less a torn tail.
\<close>

datatype write_mode = WriteMode | AppendMode

definition written :: "'r list \<Rightarrow> write_mode \<Rightarrow> 'r wfile option \<Rightarrow> 'r wfile" where
  "written rows mode old =
     (case (mode, old) of
        (AppendMode, Some f) \<Rightarrow> \<lparr>complete = complete f @ map Row rows, torn = None\<rparr>
      | _ \<Rightarrow> \<lparr>complete = map Row rows, torn = None\<rparr>)"

definition write_events_atomic ::
  "bool \<Rightarrow> 'r list \<Rightarrow> write_mode \<Rightarrow> 'r wfile option \<Rightarrow> bool \<times> 'r wfile option" where
  "write_events_atomic ok rows mode old =
     (if ok then (True, Some (written rows mode old)) else (False, old))"

section \<open>Sizes\<close>

text \<open>\<open>os.path.getsize\<close> of a file, given the length of a row's JSON text.\<close>

fun line_size :: "('r \<Rightarrow> nat) \<Rightarrow> 'r line \<Rightarrow> nat" where
  "line_size row_len (Row r) = row_len r"
| "line_size row_len (Junk s) = length s"
| "line_size row_len Blank = 0"

definition file_size :: "('r \<Rightarrow> nat) \<Rightarrow> 'r wfile option \<Rightarrow> nat" where
  "file_size row_len f =
     (case f of
        None \<Rightarrow> 0
      | Some g \<Rightarrow> sum_list (map (\<lambda>l. line_size row_len l + 1) (complete g))
                + (case torn g of None \<Rightarrow> 0 | Some l \<Rightarrow> line_size row_len l))"

section \<open>Lemmas\<close>

lemma rows_of_append [simp]: "rows_of (xs @ ys) = rows_of xs @ rows_of ys"
  by (induction xs rule: rows_of.induct) simp_all

lemma rows_of_map_Row [simp]: "rows_of (map Row rs) = rs"
  by (induction rs) simp_all

lemma set_rows_of: "r \<in> set (rows_of ls) \<longleftrightarrow> Row r \<in> set ls"
  by (induction ls rule: rows_of.induct) auto

lemma read_lines_None [simp]: "read_lines None = []"
  by (simp add: read_lines_def)

lemma read_written_WriteMode [simp]:
  "read_lines (Some (written rows WriteMode old)) = map Row rows"
  by (simp add: read_lines_def written_def all_lines_def)

definition complete_rows :: "'r wfile option \<Rightarrow> 'r list" where
  "complete_rows f = (case f of None \<Rightarrow> [] | Some g \<Rightarrow> rows_of (complete g))"

definition file_rows :: "'r wfile option \<Rightarrow> 'r list" where
  "file_rows f = rows_of (read_lines f)"

lemma file_rows_None [simp]: "file_rows None = []"
  by (simp add: file_rows_def)

lemma complete_rows_None [simp]: "complete_rows None = []"
  by (simp add: complete_rows_def)

lemma complete_rows_written_append [simp]:
  "complete_rows (Some (written rows AppendMode old)) = complete_rows old @ rows"
  by (simp add: complete_rows_def written_def split: option.splits)

lemma file_rows_written [simp]:
  "file_rows (Some (written rows WriteMode old)) = rows"
  "file_rows (Some (written rows AppendMode old)) = complete_rows old @ rows"
  by (simp_all add: file_rows_def read_lines_def all_lines_def written_def complete_rows_def
       split: option.splits)

lemma complete_rows_written_write [simp]:
  "complete_rows (Some (written rows WriteMode old)) = rows"
  by (simp add: complete_rows_def written_def)

lemma complete_rows_subset: "set (complete_rows f) \<subseteq> set (file_rows f)"
  by (auto simp: complete_rows_def file_rows_def read_lines_def all_lines_def split: option.splits)

lemma file_size_append:
  assumes "case old of None \<Rightarrow> True | Some f \<Rightarrow> torn f = None"
  shows "file_size row_len (Some (written rows AppendMode old))
         = file_size row_len old + sum_list (map (\<lambda>r. row_len r + 1) rows)"
  using assms
  by (auto simp: file_size_def written_def o_def split: option.splits)

section \<open>Interface: a durable append-only log\<close>

text \<open>
  The contract the dead-letter queue and the holdover file give their writers: an append either
  fails and leaves the log as it was, or succeeds and adds exactly the rows at the end.
\<close>

locale append_log =
  fixes append :: "'r list \<Rightarrow> 's \<Rightarrow> bool \<times> 's"
    and entries :: "'s \<Rightarrow> 'r list"
  assumes append_fails: "append rs s = (False, s') \<Longrightarrow> entries s' = entries s"
    and append_succeeds: "append rs s = (True, s') \<Longrightarrow> entries s' = entries s @ rs"
begin

lemma append_keeps: "append rs s = (ok, s') \<Longrightarrow> set (entries s) \<subseteq> set (entries s')"
  using append_fails [of rs s s'] append_succeeds [of rs s s'] by (cases ok) auto

lemma append_holds: "append rs s = (True, s') \<Longrightarrow> set rs \<subseteq> set (entries s')"
  by (auto dest: append_succeeds)

lemma append_prefix: "append rs s = (ok, s') \<Longrightarrow> \<exists>t. entries s' = entries s @ t"
  by (cases ok) (auto dest: append_fails append_succeeds)

end

end
