(* ===== verification/Delivery.thy ===== *)
theory Delivery
  imports Wal_Store Circuit_Breaker "HOL-Library.List_Lexorder" "HOL-Library.Char_ord"
begin

text \<open>
  The delivery pipeline of \<open>Transport\<close> (\<open>src/nullrun/transport.py\<close>): the buffer, the flush
  through the circuit breaker, the settlement of a 2xx answer event by event, the bisection of a
  refused batch, the bounded retry, and the dead-letter queue with its holdover.  Everything runs
  under the transport's re-entrant lock, so one operation is one state transformer.

  What the code gets from outside is in the environment record: the answer to a batch (the result
  of \<open>_send_batch_with_retry_info\<close>, or the exception it raised), whether the next durable write
  is granted the file lock and succeeds (and whether the next plain file operation does), the clocks, the digest used for a batch signature, the
  length of a row's JSON text, and the settings.  \<open>world\<close> is whatever state those answers depend on.
  Counters (\<open>metrics.inc_transport\<close>) are kept; last-value gauges (\<open>metrics.set_transport\<close>) and
  log lines are not.
\<close>

section \<open>Answers and errors\<close>

record rejected_item =
  rj_event_id :: string
  rj_reason :: string
  rj_retry_after_ms :: "rat option"

record send_result =
  accepted_event_ids :: "string list"
  rejected_items :: "rejected_item list"
  body_confirmed :: bool

text \<open>
  The exceptions that reach the delivery code: \<open>BreakerTransportError\<close> (retries exhausted), an
  \<open>httpx.TransportError\<close> (class name), an \<open>httpx.HTTPStatusError\<close> (status), a
  \<open>DeterministicBackendRefusal\<close>, any other exception (class name), and the two reasons the
  transport raises itself.
\<close>

datatype send_exn =
    Exhausted
  | NetworkFault string
  | StatusError int
  | Refusal string "int option" dict
  | OtherExn string
  | UnknownRejection string "string option"
  | Unconfirmed nat

fun breaker_level :: "send_exn \<Rightarrow> bool" where
  "breaker_level Exhausted = True"
| "breaker_level (NetworkFault _) = True"
| "breaker_level _ = False"

fun opt_status :: "int option \<Rightarrow> string" where
  "opt_status None = ''None''"
| "opt_status (Some n) = show_int n"

text \<open>\<open>_dlq_reason\<close>.\<close>

fun dlq_reason :: "send_exn \<Rightarrow> string" where
  "dlq_reason (Refusal code status _) = code @ '':'' @ opt_status status"
| "dlq_reason (UnknownRejection reason _) = reason @ '':unknown''"
| "dlq_reason (Unconfirmed _) = ''unconfirmed_response:no_accepted_event_ids''"
| "dlq_reason (StatusError n) = ''HTTPStatusError:'' @ show_int n"
| "dlq_reason Exhausted = ''BreakerTransportError:None''"
| "dlq_reason (NetworkFault cls) = cls @ '':None''"
| "dlq_reason (OtherExn cls) = cls @ '':None''"

section \<open>Environment and state\<close>

record 'w env =
  env_send :: "event list \<Rightarrow> 'w \<Rightarrow> (send_exn + send_result) \<times> 'w"
  env_io :: "'w \<Rightarrow> bool \<times> 'w"
  env_time :: "'w \<Rightarrow> rat \<times> 'w"
  env_mono :: "'w \<Rightarrow> (rat \<times> rat \<times> rat) \<times> 'w"
  env_digest :: "string \<Rightarrow> string"
  env_row_len :: "dlq_row \<Rightarrow> nat"
  max_batch_attempts :: int
  dlq_max_bytes :: int
  holdover_index_max :: int
  max_bisect_requests :: int
  max_buffer_size :: int
  batch_size :: int

record 'w transport =
  buffer :: "event list"
  in_flight :: "(string \<times> event) list"
  batch_attempts :: "(string \<times> int) list"
  first_failed_at :: "(string \<times> rat) list"
  bisect_depth :: int
  bisect_budget :: int
  dlq_overflow :: "dlq_row list"
  breaker :: cb
  disk :: disk
  counters :: "string \<Rightarrow> int"
  world :: 'w

definition max_tracked_batches :: nat where "max_tracked_batches = 1024"
definition max_bisect_depth :: int where "max_bisect_depth = 24"

definition inc :: "string \<Rightarrow> int \<Rightarrow> 'w transport \<Rightarrow> 'w transport" where
  "inc name n s = s\<lparr>counters := (counters s)(name := counters s name + n)\<rparr>"

definition map_world :: "('w \<Rightarrow> 'a \<times> 'w) \<Rightarrow> 'w transport \<Rightarrow> 'a \<times> 'w transport" where
  "map_world f s = (case f (world s) of (x, w) \<Rightarrow> (x, s\<lparr>world := w\<rparr>))"

section \<open>Files\<close>

definition with_file ::
  "(disk \<Rightarrow> 'r wfile option) \<Rightarrow> (('r wfile option \<Rightarrow> 'r wfile option) \<Rightarrow> disk \<Rightarrow> disk)
   \<Rightarrow> 'w env \<Rightarrow> 'r list \<Rightarrow> write_mode \<Rightarrow> 'w transport \<Rightarrow> bool \<times> 'w transport" where
  "with_file get upd E rows mode s =
     (case map_world (env_io E) s of
        (ok, s1) \<Rightarrow>
          (case write_events_atomic ok rows mode (get (disk s1)) of
             (res, f) \<Rightarrow> (res, s1\<lparr>disk := upd (\<lambda>_. f) (disk s1)\<rparr>)))"

definition persist_inflight :: "'w env \<Rightarrow> event list \<Rightarrow> 'w transport \<Rightarrow> 'w transport" where
  "persist_inflight E batch s =
     (if batch = [] then s
      else snd (with_file inflight_file inflight_file_update E batch WriteMode s))"

text \<open>One plain file operation (open, rename, remove): \<open>False\<close> is the \<open>OSError\<close> branch.\<close>

definition io_step :: "'w env \<Rightarrow> 'w transport \<Rightarrow> bool \<times> 'w transport" where
  "io_step E s = map_world (env_io E) s"

definition clear_inflight :: "'w env \<Rightarrow> 'w transport \<Rightarrow> 'w transport" where
  "clear_inflight E s =
     (if inflight_file (disk s) = None then s
      else
        (case io_step E s of
           (True, s1) \<Rightarrow> s1\<lparr>disk := (disk s1)\<lparr>inflight_file := None\<rparr>\<rparr>
         | (False, s1) \<Rightarrow> s1))"

definition dlq_size :: "'w env \<Rightarrow> 'w transport \<Rightarrow> int" where
  "dlq_size E s = int (file_size (env_row_len E) (dlq_file (disk s)))"

definition dlq_over_cap :: "'w env \<Rightarrow> int \<Rightarrow> 'w transport \<Rightarrow> bool \<times> 'w transport" where
  "dlq_over_cap E incoming s =
     (let size = dlq_size E s in
      if size < dlq_max_bytes E \<and> size + incoming \<le> dlq_max_bytes E then (False, s)
      else (True, inc ''dlq_overflow_total'' 1 s))"

definition incoming_bytes :: "'w env \<Rightarrow> dlq_row list \<Rightarrow> int" where
  "incoming_bytes E rows = int (sum_list (map (\<lambda>r. env_row_len E r + 1) rows))"

definition write_dlq_rows :: "'w env \<Rightarrow> dlq_row list \<Rightarrow> 'w transport \<Rightarrow> bool \<times> 'w transport" where
  "write_dlq_rows E rows s =
     (if rows = [] then (True, s)
      else
        (case dlq_over_cap E (incoming_bytes E rows) s of
           (True, s1) \<Rightarrow> (False, s1)
         | (False, s1) \<Rightarrow> with_file dlq_file dlq_file_update E rows AppendMode s1))"

section \<open>Signatures and rows\<close>

definition sig_id :: "event \<Rightarrow> string" where
  "sig_id e = (case eid e of None \<Rightarrow> [] | Some i \<Rightarrow> i)"

definition failure_signature :: "'w env \<Rightarrow> event list \<Rightarrow> string" where
  "failure_signature E batch = take 16 (env_digest E (join_with ''|'' (sort (map sig_id batch))))"

definition dlq_row_of :: "'w env \<Rightarrow> event \<Rightarrow> string \<Rightarrow> 'w transport \<Rightarrow> dlq_row \<times> 'w transport" where
  "dlq_row_of E e reason s =
     (let i = sig_id e;
          (first, s1) =
            (case dict_get (first_failed_at s) i of
               Some t \<Rightarrow> (t, s)
             | None \<Rightarrow>
                 (case map_world (env_time E) s of
                    (t, s1) \<Rightarrow>
                      (t, if i = [] then s1
                          else s1\<lparr>first_failed_at := dict_set i t (first_failed_at s1)\<rparr>)));
          tries = (case dict_get (batch_attempts s1) (failure_signature E [e]) of
                     None \<Rightarrow> 0 | Some n \<Rightarrow> n)
      in (\<lparr>r_version = Some 2, r_event = Some e, r_error = Some reason, r_reason = Some reason,
           r_event_type = etype e, r_first_failed_at = Some first, r_attempts = Some (tries + 1),
           r_raw = None\<rparr>, s1))"

fun dlq_rows_of :: "'w env \<Rightarrow> event list \<Rightarrow> string \<Rightarrow> 'w transport \<Rightarrow> dlq_row list \<times> 'w transport" where
  "dlq_rows_of E [] reason s = ([], s)"
| "dlq_rows_of E (e # es) reason s =
     (case dlq_row_of E e reason s of
        (r, s1) \<Rightarrow> (case dlq_rows_of E es reason s1 of (rs, s2) \<Rightarrow> (r # rs, s2)))"

section \<open>Holdover\<close>

text \<open>\<open>_trim_holdover_index\<close>: \<open>del self._dlq_overflow[:-cap]\<close> keeps the last \<open>cap\<close> rows.\<close>

definition trim_holdover_index :: "'w env \<Rightarrow> 'w transport \<Rightarrow> 'w transport" where
  "trim_holdover_index E s =
     (let cap = holdover_index_max E; n = int (length (dlq_overflow s)) in
      if cap = 0 \<or> n \<le> cap then s
      else inc ''dlq_holdover_index_truncated'' (n - cap)
             (s\<lparr>dlq_overflow := drop (nat (n - cap)) (dlq_overflow s)\<rparr>))"

definition persist_holdover :: "'w env \<Rightarrow> dlq_row list \<Rightarrow> 'w transport \<Rightarrow> 'w transport" where
  "persist_holdover E rows s =
     (if rows = [] then s
      else
        (case with_file holdover_file holdover_file_update E rows AppendMode s of
           (True, s1) \<Rightarrow> s1
         | (False, s1) \<Rightarrow> inc ''dlq_holdover_persist_failures'' (int (length rows)) s1))"

definition hold_for_dlq :: "'w env \<Rightarrow> dlq_row list \<Rightarrow> 'w transport \<Rightarrow> 'w transport" where
  "hold_for_dlq E rows s =
     (let s1 = s\<lparr>dlq_overflow := dlq_overflow s @ rows\<rparr>;
          s2 = inc ''dlq_holdover_total'' (int (length rows)) s1;
          s3 = persist_holdover E rows s2
      in trim_holdover_index E s3)"

text \<open>\<open>_release_holdover\<close>: rows whose event id is not among the drained ones are kept.\<close>

definition row_id :: "dlq_row \<Rightarrow> string option" where
  "row_id r =
     (case r_event r of
        None \<Rightarrow> None
      | Some e \<Rightarrow> Some (case eid e of None \<Rightarrow> ''None'' | Some i \<Rightarrow> i))"

definition raw_row :: "string \<Rightarrow> dlq_row" where
  "raw_row line =
     \<lparr>r_version = None, r_event = None, r_error = None, r_reason = None, r_event_type = None,
      r_first_failed_at = None, r_attempts = None, r_raw = Some line\<rparr>"

fun kept_rows :: "string list \<Rightarrow> dlq_row line list \<Rightarrow> dlq_row list" where
  "kept_rows ids [] = []"
| "kept_rows ids (Blank # ls) = kept_rows ids ls"
| "kept_rows ids (Junk j # ls) = raw_row j # kept_rows ids ls"
| "kept_rows ids (Row r # ls) =
     (if (case row_id r of None \<Rightarrow> False | Some i \<Rightarrow> i \<in> set ids) then kept_rows ids ls
      else r # kept_rows ids ls)"

definition release_holdover :: "'w env \<Rightarrow> string list \<Rightarrow> 'w transport \<Rightarrow> bool \<times> 'w transport" where
  "release_holdover E ids s =
     (if ids = [] then (True, s)
      else
        (case holdover_file (disk s) of
           None \<Rightarrow> (True, s)
         | Some f \<Rightarrow>
             (case io_step E s of
                (False, s1) \<Rightarrow> (False, s1)
              | (True, s1) \<Rightarrow>
                  (let kept = kept_rows ids (all_lines f) in
                   if kept = [] then
                     (case io_step E s1 of
                        (True, s2) \<Rightarrow> (True, s2\<lparr>disk := (disk s2)\<lparr>holdover_file := None\<rparr>\<rparr>)
                      | (False, s2) \<Rightarrow> (False, s2))
                   else with_file holdover_file holdover_file_update E kept WriteMode s1))))"

definition drained_ids :: "dlq_row list \<Rightarrow> string list" where
  "drained_ids rows =
     concat (map (\<lambda>r. case r_event r of
                        Some e \<Rightarrow> (case eid e of Some i \<Rightarrow> (if i = [] then [] else [i]) | None \<Rightarrow> [])
                      | None \<Rightarrow> []) rows)"

definition drain_dlq_overflow :: "'w env \<Rightarrow> 'w transport \<Rightarrow> nat \<times> 'w transport" where
  "drain_dlq_overflow E s =
     (if dlq_overflow s = [] then (0, s)
      else
        (let pending = dlq_overflow s; s1 = s\<lparr>dlq_overflow := []\<rparr> in
         case write_dlq_rows E pending s1 of
           (False, s2) \<Rightarrow> (0, s2\<lparr>dlq_overflow := pending\<rparr>)
         | (True, s2) \<Rightarrow>
             (let s3 = snd (release_holdover E (drained_ids pending) s2)
              in (length pending,
                  inc ''events_dead_lettered'' (int (length pending)) s3))))"

section \<open>Parking and retrying\<close>

definition quarantine_to_dlq :: "'w env \<Rightarrow> event list \<Rightarrow> send_exn \<Rightarrow> 'w transport \<Rightarrow> 'w transport" where
  "quarantine_to_dlq E batch err s =
     (let reason = dlq_reason err; (rows, s1) = dlq_rows_of E batch reason s in
      case write_dlq_rows E rows s1 of
        (False, s2) \<Rightarrow> hold_for_dlq E rows s2
      | (True, s2) \<Rightarrow> inc ''events_dead_lettered'' (int (length batch)) (clear_inflight E s2))"

text \<open>\<open>_dead_letter_row\<close>: True when the event could not be parked and is still live.\<close>

definition dead_letter_row :: "'w env \<Rightarrow> event \<Rightarrow> string \<Rightarrow> 'w transport \<Rightarrow> bool \<times> 'w transport" where
  "dead_letter_row E e reason s =
     (case dlq_row_of E e reason s of
        (r, s1) \<Rightarrow>
          (case write_dlq_rows E [r] s1 of
             (False, s2) \<Rightarrow>
               (case dlq_row_of E e reason s2 of (r', s3) \<Rightarrow> (True, hold_for_dlq E [r'] s3))
           | (True, s2) \<Rightarrow> (False, inc ''events_dead_lettered'' 1 s2)))"

definition requeue_at_head :: "event list \<Rightarrow> 'w transport \<Rightarrow> 'w transport" where
  "requeue_at_head batch s = s\<lparr>buffer := batch @ buffer s\<rparr>"

text \<open>\<open>_retry_or_dlq\<close>: True when the batch is back on the retry path.\<close>

definition retry_or_dlq ::
  "'w env \<Rightarrow> event list \<Rightarrow> send_exn \<Rightarrow> bool \<Rightarrow> 'w transport \<Rightarrow> bool \<times> 'w transport" where
  "retry_or_dlq E batch err dead_letter s =
     (let key = failure_signature E batch;
          tries = (case dict_get (batch_attempts s) key of None \<Rightarrow> 0 | Some n \<Rightarrow> n) + 1;
          m = (if length (batch_attempts s) \<ge> max_tracked_batches then [] else batch_attempts s);
          s1 = s\<lparr>batch_attempts := dict_set key tries m\<rparr>
      in if dead_letter \<and> tries > max_batch_attempts E
         then (False, quarantine_to_dlq E batch err s1)
         else (True, inc ''batches_retried'' 1 (s1\<lparr>buffer := buffer s1 @ batch\<rparr>)))"

section \<open>Settling a 2xx answer\<close>

definition terminal_rejection_reasons :: "string list" where
  "terminal_rejection_reasons = [''reservation_not_found'']"

text \<open>\<open>rejected_by_id\<close> is a dict built in list order: the last item of an id wins.\<close>

definition rejected_by_id :: "send_result \<Rightarrow> event \<Rightarrow> rejected_item option" where
  "rejected_by_id res e =
     (case eid e of
        None \<Rightarrow> None
      | Some i \<Rightarrow> find (\<lambda>r. rj_event_id r = i) (rev (rejected_items res)))"

definition is_accepted :: "send_result \<Rightarrow> event \<Rightarrow> bool" where
  "is_accepted res e =
     (case eid e of None \<Rightarrow> False | Some i \<Rightarrow> i \<in> set (accepted_event_ids res))"

definition pop_in_flight :: "event \<Rightarrow> 'w transport \<Rightarrow> 'w transport" where
  "pop_in_flight e s =
     (case eid e of None \<Rightarrow> s | Some i \<Rightarrow> s\<lparr>in_flight := dict_pop i (in_flight s)\<rparr>)"

text \<open>What the first loop of \<open>_settle_batch_outcome\<close> collects.\<close>

record settle_acc =
  sa_requeue :: "event list"
  sa_unknown :: "(event \<times> string) list"
  sa_refused :: nat
  sa_live :: bool

definition item_reason :: "rejected_item \<Rightarrow> string" where
  "item_reason d = (if rj_reason d = [] then ''unspecified'' else rj_reason d)"

definition settle_event ::
  "'w env \<Rightarrow> send_result \<Rightarrow> event \<Rightarrow> settle_acc \<times> 'w transport \<Rightarrow> settle_acc \<times> 'w transport" where
  "settle_event E res e acc =
     (case acc of
        (a, s) \<Rightarrow>
          (if is_accepted res e then (a, pop_in_flight e s)
           else
             (let a1 = a\<lparr>sa_refused := Suc (sa_refused a)\<rparr> in
              case rejected_by_id res e of
                None \<Rightarrow> (a1\<lparr>sa_unknown := sa_unknown a1 @ [(e, ''unaccounted_in_response'')]\<rparr>, s)
              | Some d \<Rightarrow>
                  (if item_reason d \<in> set terminal_rejection_reasons then
                     (case dead_letter_row E e (item_reason d) s of
                        (still, s1) \<Rightarrow> (a1\<lparr>sa_live := sa_live a1 \<or> still\<rparr>, s1))
                   else if rj_retry_after_ms d \<noteq> None then
                     (a1\<lparr>sa_requeue := sa_requeue a1 @ [e], sa_live := True\<rparr>, s)
                   else (a1\<lparr>sa_unknown := sa_unknown a1 @ [(e, item_reason d)]\<rparr>, s)))))"

fun settle_unknown ::
  "'w env \<Rightarrow> (event \<times> string) list \<Rightarrow> bool \<times> 'w transport \<Rightarrow> bool \<times> 'w transport" where
  "settle_unknown E [] acc = acc"
| "settle_unknown E ((e, reason) # us) (live, s) =
     (case retry_or_dlq E [e] (UnknownRejection reason (eid e)) True s of
        (back, s1) \<Rightarrow> settle_unknown E us (live \<or> back, s1))"

text \<open>\<open>_settle_batch_outcome\<close>: True when nothing of the batch is still live.\<close>

definition settle_batch_outcome ::
  "'w env \<Rightarrow> event list \<Rightarrow> send_result \<Rightarrow> 'w transport \<Rightarrow> bool \<times> 'w transport" where
  "settle_batch_outcome E batch res s =
     (if \<not> body_confirmed res then
        (case retry_or_dlq E batch (Unconfirmed (length batch)) True s of (back, s1) \<Rightarrow> (\<not> back, s1))
      else
        (let a0 = \<lparr>sa_requeue = [], sa_unknown = [], sa_refused = 0, sa_live = False\<rparr>;
             (a, s1) = fold (settle_event E res) batch (a0, s);
             (live, s2) = settle_unknown E (sa_unknown a) (sa_live a, s1);
             s3 = (if sa_requeue a = [] then s2 else requeue_at_head (sa_requeue a) s2);
             s4 = (if sa_refused a = 0 then s3
                   else inc ''events_partial_refused'' (int (sa_refused a)) s3)
         in (\<not> live, s4)))"

section \<open>Sending one batch\<close>

text \<open>
  The closure a batch is sent with: breaker-level faults are raised, any other exception is
  deferred (\<open>Inl\<close>), and a 2xx result (\<open>Inr\<close>) clears the accepted events from \<open>_in_flight\<close>.
\<close>

definition pop_accepted :: "send_result \<Rightarrow> event list \<Rightarrow> 'w transport \<Rightarrow> 'w transport" where
  "pop_accepted res batch s =
     (if accepted_event_ids res = [] then s
      else fold (\<lambda>e t. if is_accepted res e then pop_in_flight e t else t) batch s)"

definition send_closure ::
  "'w env \<Rightarrow> event list \<Rightarrow> 'w transport
     \<Rightarrow> (send_exn + send_result, send_exn) outcome \<times> 'w transport" where
  "send_closure E batch s =
     (case map_world (env_send E batch) s of
        (Inl e, s1) \<Rightarrow> (if breaker_level e then Exc e else Ret (Inl e), s1)
      | (Inr res, s1) \<Rightarrow>
          (Ret (Inr res),
           inc ''events_sent'' (int (length batch)) (inc ''batches_sent'' 1 (pop_accepted res batch s1))))"

definition through_breaker ::
  "'w env \<Rightarrow> event list \<Rightarrow> 'w transport
     \<Rightarrow> (send_exn + send_result, send_exn cb_error) outcome \<times> 'w transport" where
  "through_breaker E batch s =
     (case map_world (env_mono E) s of
        ((now, u, fin), s1) \<Rightarrow>
          (case cb_call now u fin (send_closure E batch) (breaker s1) s1 of
             (r, b, s2) \<Rightarrow> (r, s2\<lparr>breaker := b\<rparr>)))"

text \<open>\<open>except BreakerTransportError\<close>: the breaker's own rejections and exhausted retries.\<close>

fun is_breaker_transport :: "send_exn cb_error \<Rightarrow> bool" where
  "is_breaker_transport (Inner e) = (e = Exhausted)"
| "is_breaker_transport _ = True"

text \<open>The exception as \<open>_retry_or_dlq\<close> sees it; the breaker's own errors never get there.\<close>

fun inner_exn :: "send_exn cb_error \<Rightarrow> send_exn" where
  "inner_exn (Inner e) = e"
| "inner_exn _ = Exhausted"

section \<open>Bisecting a refused batch\<close>

definition bisect_request_available :: "'w transport \<Rightarrow> bool \<times> 'w transport" where
  "bisect_request_available s =
     (if bisect_budget s < 2 then (False, inc ''batches_bisect_budget_exhausted'' 1 s)
      else (True, s\<lparr>bisect_budget := bisect_budget s - 2\<rparr>))"

definition shift_depth :: "int \<Rightarrow> 'w transport \<Rightarrow> 'w transport" where
  "shift_depth d s = s\<lparr>bisect_depth := bisect_depth s + d\<rparr>"

definition event_id_json :: "event \<Rightarrow> json" where
  "event_id_json e = (case eid e of None \<Rightarrow> JNull | Some i \<Rightarrow> JStr i)"

text \<open>
  \<open>_deliver_recorded_overbudget\<close>: \<open>None\<close> when it declines (returns False), else the new state.
\<close>

definition settle_recorded :: "event \<Rightarrow> 'w transport \<Rightarrow> 'w transport" where
  "settle_recorded e s =
     (let s1 = (case eid e of
                  None \<Rightarrow> s
                | Some i \<Rightarrow> if i = [] then s else s\<lparr>in_flight := dict_pop i (in_flight s)\<rparr>);
          key = (case eid e of None \<Rightarrow> ''None'' | Some i \<Rightarrow> i)
      in s1\<lparr>first_failed_at := dict_pop key (first_failed_at s1)\<rparr>)"

definition deliver_recorded_overbudget ::
  "event list \<Rightarrow> send_exn \<Rightarrow> 'w transport \<Rightarrow> 'w transport option" where
  "deliver_recorded_overbudget batch err s =
     (case err of
        Refusal code status details \<Rightarrow>
          (if code \<noteq> ''CONSUME_OVERBUDGET'' then None
           else if jget details ''reservation_recorded'' \<noteq> JBool True then None
           else
             (let offender = jget details ''event_id'' in
              if \<not> truthy offender \<and> length batch \<noteq> 1 then None
              else
                (let settled = (if truthy offender
                                then filter (\<lambda>e. event_id_json e = offender) batch else batch);
                     outstanding = (if truthy offender
                                    then filter (\<lambda>e. event_id_json e \<noteq> offender) batch else [])
                 in if settled = [] then None
                    else
                      (let s1 = fold settle_recorded settled s;
                           s2 = inc ''events_recorded_overage'' (int (length settled)) s1
                       in Some (if outstanding = [] then s2 else requeue_at_head outstanding s2)))))
      | _ \<Rightarrow> None)"

definition forget_attempts :: "'w env \<Rightarrow> event list \<Rightarrow> 'w transport \<Rightarrow> 'w transport" where
  "forget_attempts E batch s =
     s\<lparr>batch_attempts := dict_pop (failure_signature E batch) (batch_attempts s)\<rparr>"

definition transient_4xx :: "int list" where "transient_4xx = [408, 429]"
definition auth_4xx :: "int list" where "auth_4xx = [401, 403]"
definition resplit_4xx :: "int list" where "resplit_4xx = [413]"

lemma half_weight: "Suc 0 < n \<Longrightarrow> 3 + 5 * (n - n div 2) < 5 * (n :: nat)"
proof -
  assume "Suc 0 < n"
  then have "1 \<le> n div 2" "n div 2 \<le> n" by simp_all
  then show ?thesis by linarith
qed

function (sequential)
  route_deferred :: "'w env \<Rightarrow> event list \<Rightarrow> send_exn \<Rightarrow> 'w transport \<Rightarrow> 'w transport"
  and handle_http_rejection :: "'w env \<Rightarrow> event list \<Rightarrow> int \<Rightarrow> 'w transport \<Rightarrow> 'w transport"
  and send_subbatches ::
    "'w env \<Rightarrow> event list \<Rightarrow> event list \<Rightarrow> send_exn \<Rightarrow> 'w transport \<Rightarrow> 'w transport"
  and attempt_half :: "'w env \<Rightarrow> event list \<Rightarrow> 'w transport \<Rightarrow> 'w transport"
where
  "route_deferred E batch err s =
     (case err of
        Refusal code status details \<Rightarrow>
          (case deliver_recorded_overbudget batch err s of
             Some s1 \<Rightarrow> s1
           | None \<Rightarrow>
               (if length batch > 1 \<and> bisect_depth s < max_bisect_depth then
                  (case bisect_request_available s of
                     (False, s1) \<Rightarrow>
                       quarantine_to_dlq E batch err (inc ''batches_deterministic_refusal'' 1 s1)
                   | (True, s1) \<Rightarrow>
                       (let half = length batch div 2 in
                        shift_depth (-1)
                          (send_subbatches E (take half batch) (drop half batch) err
                             (shift_depth 1 (inc ''batches_bisected'' 1 s1)))))
                else quarantine_to_dlq E batch err (inc ''batches_deterministic_refusal'' 1 s)))
      | StatusError n \<Rightarrow> handle_http_rejection E batch n s
      | _ \<Rightarrow> snd (retry_or_dlq E batch err True s))"
| "handle_http_rejection E batch n s =
     (if n \<in> set transient_4xx then snd (retry_or_dlq E batch (StatusError n) False s)
      else if n \<in> set auth_4xx then inc ''batches_auth_blocked'' 1 (requeue_at_head batch s)
      else if length batch > 1 then
        (let half = length batch div 2 in
         send_subbatches E (take half batch) (drop half batch) (StatusError n)
           (inc (if n \<in> set resplit_4xx then ''batches_resplit'' else ''batches_bisected'') 1 s))
      else quarantine_to_dlq E batch (StatusError n) s)"
| "send_subbatches E left right err s =
     (if bisect_depth s \<ge> max_bisect_depth then quarantine_to_dlq E (left @ right) err s
      else
        (case bisect_request_available s of
           (False, s1) \<Rightarrow> quarantine_to_dlq E (left @ right) err s1
         | (True, s1) \<Rightarrow>
             (let s2 = shift_depth 1 s1;
                  s3 = (if left = [] then s2 else attempt_half E left s2);
                  s4 = (if right = [] then s3 else attempt_half E right s3)
              in shift_depth (-1) s4)))"
| "attempt_half E half s =
     (case through_breaker E half s of
        (Exc x, s1) \<Rightarrow>
          (if is_breaker_transport x
           then inc ''batches_failed'' 1 (requeue_at_head half s1)
           else snd (retry_or_dlq E half (inner_exn x) True s1))
      | (Ret (Inl e), s1) \<Rightarrow> route_deferred E half e s1
      | (Ret (Inr res), s1) \<Rightarrow> forget_attempts E half s1
      | (BaseExc m, s1) \<Rightarrow> s1)"
  by pat_completeness auto

text \<open>Each split strictly halves the batch; between two splits the routine name decreases.\<close>

termination
  by (relation "measure (\<lambda>x. case x of
        Inl (Inl (E, batch, err, s)) \<Rightarrow> 5 * length batch + 2
      | Inl (Inr (E, batch, n, s)) \<Rightarrow> 5 * length batch + 1
      | Inr (Inl (E, left, right, err, s)) \<Rightarrow> 5 * max (length left) (length right) + 4
      | Inr (Inr (E, half, s)) \<Rightarrow> 5 * length half + 3)") (auto simp: half_weight)

declare route_deferred.simps [simp del] handle_http_rejection.simps [simp del]
  send_subbatches.simps [simp del] attempt_half.simps [simp del]

section \<open>Overflow\<close>

definition critical_event_types :: "string list" where
  "critical_event_types = [''state_change'', ''kill_received'', ''policy_invalidated'', ''key_rotated'']"

definition is_critical :: "event \<Rightarrow> bool" where
  "is_critical e = (case etype e of None \<Rightarrow> False | Some t \<Rightarrow> t \<in> set critical_event_types)"

text \<open>
  The loop of \<open>_drop_newest_with_priority\<close> over \<open>reversed(batch)\<close>: what is kept, newest first, and
  how many were dropped.
\<close>

fun drop_loop :: "int \<Rightarrow> int \<Rightarrow> event list \<Rightarrow> event list \<times> int" where
  "drop_loop overflow dropped [] = ([], dropped)"
| "drop_loop overflow dropped (e # es) =
     (if dropped < overflow \<and> \<not> is_critical e then drop_loop overflow (dropped + 1) es
      else (case drop_loop overflow dropped es of (kept, d) \<Rightarrow> (e # kept, d)))"

definition drop_newest_with_priority ::
  "event list \<Rightarrow> int \<Rightarrow> 'w transport \<Rightarrow> event list \<times> 'w transport" where
  "drop_newest_with_priority batch overflow s =
     (if overflow \<le> 0 then (batch, s)
      else
        (case drop_loop overflow 0 (rev batch) of
           (kept, dropped) \<Rightarrow>
             (rev kept, if dropped > 0 then inc ''events_dropped'' dropped s else s)))"

section \<open>Flush\<close>

definition requeue_after_breaker :: "'w env \<Rightarrow> event list \<Rightarrow> 'w transport \<Rightarrow> 'w transport" where
  "requeue_after_breaker E batch s =
     (let available = max_buffer_size E - int (length (buffer s));
          (batch1, s1) = (if available < int (length batch)
                          then drop_newest_with_priority batch (int (length batch) - available) s
                          else (batch, s))
      in inc ''batches_failed'' 1 (s1\<lparr>buffer := buffer s1 @ batch1\<rparr>))"

definition finish_batch :: "'w env \<Rightarrow> event list \<Rightarrow> send_result \<Rightarrow> 'w transport \<Rightarrow> 'w transport" where
  "finish_batch E batch res s =
     (case settle_batch_outcome E batch res s of
        (False, s1) \<Rightarrow> s1
      | (True, s1) \<Rightarrow> clear_inflight E (forget_attempts E batch s1))"

definition do_flush :: "'w env \<Rightarrow> 'w transport \<Rightarrow> 'w transport" where
  "do_flush E s =
     (let s1 = snd (drain_dlq_overflow E s) in
      if buffer s1 = [] then s1
      else
        (let batch = buffer s1;
             s2 = s1\<lparr>buffer := [], bisect_budget := max_bisect_requests E\<rparr>;
             s3 = persist_inflight E batch s2
         in case through_breaker E batch s3 of
              (Exc x, s4) \<Rightarrow>
                (if is_breaker_transport x then requeue_after_breaker E batch s4
                 else snd (retry_or_dlq E batch (inner_exn x) True s4))
            | (Ret (Inl e), s4) \<Rightarrow> route_deferred E batch e s4
            | (Ret (Inr res), s4) \<Rightarrow> finish_batch E batch res s4
            | (BaseExc m, s4) \<Rightarrow> s4))"

text \<open>\<open>track\<close>: \<open>fresh\<close> is the \<open>uuid4\<close> drawn for an event without an id.\<close>

definition with_id :: "string \<Rightarrow> event \<Rightarrow> event" where
  "with_id fresh e =
     (case eid e of
        None \<Rightarrow> e\<lparr>eid := Some fresh\<rparr>
      | Some i \<Rightarrow> if i = [] then e\<lparr>eid := Some fresh\<rparr> else e)"

definition track :: "'w env \<Rightarrow> string \<Rightarrow> event \<Rightarrow> 'w transport \<Rightarrow> 'w transport" where
  "track E fresh e0 s =
     (let e = with_id fresh e0;
          s1 = s\<lparr>in_flight := dict_set (sig_id e) e (in_flight s), buffer := buffer s @ [e]\<rparr>;
          s2 = inc ''events_enqueued'' 1 s1
      in if int (length (buffer s2)) \<ge> batch_size E then do_flush E s2 else s2)"

text \<open>\<open>_drain_batch\<close>.\<close>

definition drain_batch :: "'w transport \<Rightarrow> event list option \<times> 'w transport" where
  "drain_batch s = (if buffer s = [] then (None, s) else (Some (buffer s), s\<lparr>buffer := []\<rparr>))"

end
