(* ===== verification/Delivery_Laws.thy ===== *)
theory Delivery_Laws
  imports Delivery
begin

text \<open>
  What the delivery pipeline promises about events: where an event that the backend has not
  acknowledged can be, the contract every place that takes events over from the send path obeys,
  and the conservation of events by a whole flush.
\<close>

section \<open>Where an unsettled event is\<close>

definition ids_of :: "event list \<Rightarrow> string set" where
  "ids_of es = {i. \<exists>e \<in> set es. eid e = Some i}"

definition row_ids :: "dlq_row list \<Rightarrow> string set" where
  "row_ids rs = {i. \<exists>r \<in> set rs. \<exists>e. r_event r = Some e \<and> eid e = Some i}"

text \<open>The ids the transport has taken in and not seen acknowledged: the keys of \<open>_in_flight\<close>.\<close>

definition unsettled :: "'w transport \<Rightarrow> string set" where
  "unsettled s = fst ` set (in_flight s)"

text \<open>Parked: in the DLQ file, in the holdover index, or in the holdover file.\<close>

definition parked_ids :: "'w transport \<Rightarrow> string set" where
  "parked_ids s = row_ids (complete_rows (dlq_file (disk s))) \<union> row_ids (dlq_overflow s)
                  \<union> row_ids (complete_rows (holdover_file (disk s)))"

text \<open>
  With the events B in hand, every unsettled event is in hand, buffered or parked, and the
  holdover index has room for the events in hand; and no unsettled event has the empty id
  (\<open>track\<close> never leaves one).
\<close>

definition held :: "'w env \<Rightarrow> event list \<Rightarrow> 'w transport \<Rightarrow> bool" where
  "held E B s \<longleftrightarrow>
     unsettled s \<subseteq> ids_of B \<union> ids_of (buffer s) \<union> parked_ids s
     \<and> int (length (dlq_overflow s) + length B) \<le> holdover_index_max E
     \<and> [] \<notin> unsettled s"

lemma ids_of_Nil [simp]: "ids_of [] = {}"
  by (simp add: ids_of_def)

lemma ids_of_Cons: "ids_of (e # es) = (case eid e of None \<Rightarrow> {} | Some i \<Rightarrow> {i}) \<union> ids_of es"
  by (auto simp: ids_of_def split: option.splits)

lemma ids_of_append [simp]: "ids_of (xs @ ys) = ids_of xs \<union> ids_of ys"
  by (auto simp: ids_of_def)

lemma ids_of_mset: "mset xs = mset ys \<Longrightarrow> ids_of xs = ids_of ys"
  by (metis ids_of_def set_mset_mset)

lemma row_ids_Nil [simp]: "row_ids [] = {}"
  by (simp add: row_ids_def)

lemma row_ids_append [simp]: "row_ids (xs @ ys) = row_ids xs \<union> row_ids ys"
  by (auto simp: row_ids_def)

lemma row_ids_mono: "set xs \<subseteq> set ys \<Longrightarrow> row_ids xs \<subseteq> row_ids ys"
  by (auto simp: row_ids_def)

lemma held_perm: "mset B = mset B' \<Longrightarrow> held E B s \<longleftrightarrow> held E B' s"
  using ids_of_mset [of B B'] mset_eq_length [of B B'] by (simp add: held_def)

lemma held_drop: "held E (A @ B) s \<Longrightarrow> ids_of A \<inter> unsettled s = {} \<Longrightarrow> held E B s"
  by (auto simp: held_def)

section \<open>Frames\<close>

text \<open>What a durable write changes: the file, and only when it succeeds.\<close>

lemma inc_frame [simp]:
  "buffer (inc n k s) = buffer s" "in_flight (inc n k s) = in_flight s"
  "dlq_overflow (inc n k s) = dlq_overflow s" "disk (inc n k s) = disk s"
  "breaker (inc n k s) = breaker s" "world (inc n k s) = world s"
  "batch_attempts (inc n k s) = batch_attempts s" "first_failed_at (inc n k s) = first_failed_at s"
  "bisect_budget (inc n k s) = bisect_budget s" "bisect_depth (inc n k s) = bisect_depth s"
  by (simp_all add: inc_def)

lemma held_inc [simp]: "held E B (inc n k s) = held E B s"
  by (simp add: held_def unsettled_def parked_ids_def)

lemma held_world [simp]: "held E B (s\<lparr>world := w\<rparr>) = held E B s"
  by (simp add: held_def unsettled_def parked_ids_def)

lemma held_fields [simp]:
  "held E B (s\<lparr>batch_attempts := x1\<rparr>) = held E B s"
  "held E B (s\<lparr>first_failed_at := x2\<rparr>) = held E B s"
  "held E B (s\<lparr>bisect_budget := x3\<rparr>) = held E B s"
  "held E B (s\<lparr>bisect_depth := x4\<rparr>) = held E B s"
  "held E B (s\<lparr>breaker := x5\<rparr>) = held E B s"
  by (simp_all add: held_def unsettled_def parked_ids_def)

lemma held_shift_depth [simp]: "held E B (shift_depth d s) = held E B s"
  by (simp add: shift_depth_def)

lemma dlq_write_cases:
  assumes "with_file dlq_file dlq_file_update E rows mode s = (ok, s')"
  obtains w where "s' = s\<lparr>world := w, disk := (disk s)\<lparr>dlq_file :=
      (if ok then Some (written rows mode (dlq_file (disk s))) else dlq_file (disk s))\<rparr>\<rparr>"
  using assms
  by (auto simp: with_file_def map_world_def write_events_atomic_def split: prod.splits if_splits)

lemma holdover_write_cases:
  assumes "with_file holdover_file holdover_file_update E rows mode s = (ok, s')"
  obtains w where "s' = s\<lparr>world := w, disk := (disk s)\<lparr>holdover_file :=
      (if ok then Some (written rows mode (holdover_file (disk s))) else holdover_file (disk s))\<rparr>\<rparr>"
  using assms
  by (auto simp: with_file_def map_world_def write_events_atomic_def split: prod.splits if_splits)

lemma inflight_write_cases:
  assumes "with_file inflight_file inflight_file_update E rows mode s = (ok, s')"
  obtains w where "s' = s\<lparr>world := w, disk := (disk s)\<lparr>inflight_file :=
      (if ok then Some (written rows mode (inflight_file (disk s))) else inflight_file (disk s))\<rparr>\<rparr>"
  using assms
  by (auto simp: with_file_def map_world_def write_events_atomic_def split: prod.splits if_splits)

text \<open>The four outcomes of \<open>_write_dlq_rows\<close>.\<close>

lemma write_dlq_rows_cases:
  assumes "write_dlq_rows E rows s = (ok, s')"
  obtains (none) "rows = []" "ok" "s' = s"
  | (full) "\<not> ok" "s' = inc ''dlq_overflow_total'' 1 s"
  | (failed) w where "\<not> ok" "s' = s\<lparr>world := w\<rparr>"
  | (stored) w where "ok" "s' = s\<lparr>world := w, disk := (disk s)\<lparr>dlq_file :=
        Some (written rows AppendMode (dlq_file (disk s)))\<rparr>\<rparr>"
proof (cases "rows = []")
  case True
  with assms none show thesis by (simp add: write_dlq_rows_def)
next
  case False
  show thesis
  proof (cases "dlq_size E s < dlq_max_bytes E \<and> dlq_size E s + incoming_bytes E rows \<le> dlq_max_bytes E")
    case True
    with False assms have "with_file dlq_file dlq_file_update E rows AppendMode s = (ok, s')"
      by (simp add: write_dlq_rows_def dlq_over_cap_def Let_def)
    then obtain w where s': "s' = s\<lparr>world := w, disk := (disk s)\<lparr>dlq_file :=
      (if ok then Some (written rows AppendMode (dlq_file (disk s))) else dlq_file (disk s))\<rparr>\<rparr>"
      by (rule dlq_write_cases)
    show thesis
    proof (cases ok)
      case True
      with s' show thesis by (intro stored [of w]) simp_all
    next
      case False
      with s' show thesis by (intro failed [of w]) simp_all
    qed
  next
    case full': False
    with False assms full show thesis by (auto simp: write_dlq_rows_def dlq_over_cap_def Let_def)
  qed
qed

text \<open>The DLQ file and the holdover file are append-only logs for their writers.\<close>

interpretation dlq_log: append_log "write_dlq_rows E" "\<lambda>s. complete_rows (dlq_file (disk s))"
  by unfold_locales (erule write_dlq_rows_cases; simp)+

interpretation holdover_log: append_log
  "\<lambda>rs. with_file holdover_file holdover_file_update E rs AppendMode"
  "\<lambda>s. complete_rows (holdover_file (disk s))"
  by unfold_locales (erule holdover_write_cases; simp)+

lemma held_write_dlq:
  assumes "write_dlq_rows E rows s = (ok, s')" and "held E B s"
  shows "held E B s'"
  using assms(1)
proof (cases rule: write_dlq_rows_cases)
  case (stored w)
  with assms(2) show ?thesis by (auto simp: held_def unsettled_def parked_ids_def)
qed (use assms(2) in simp_all)

lemma held_write_dlq_ok:
  assumes "write_dlq_rows E rows s = (True, s')" and "held E (B @ R) s" and "ids_of B \<subseteq> row_ids rows"
  shows "held E R s'"
  using assms(1)
proof (cases rule: write_dlq_rows_cases)
  case none
  with assms(2,3) show ?thesis by (auto intro: held_drop)
next
  case (stored w)
  with assms(2,3) show ?thesis by (auto simp: held_def unsettled_def parked_ids_def)
qed simp_all

lemma write_dlq_overflow:
  "write_dlq_rows E rows s = (ok, s') \<Longrightarrow> dlq_overflow s' = dlq_overflow s"
  by (erule write_dlq_rows_cases) simp_all

section \<open>Rows\<close>

lemma dlq_row_of_state:
  "dlq_row_of E e reason s = (r, s') \<Longrightarrow>
     \<exists>w m. s' = s\<lparr>world := w, first_failed_at := m\<rparr> \<and> r_event r = Some e \<and> r_reason r = Some reason"
  by (auto simp: dlq_row_of_def map_world_def Let_def split: prod.splits option.splits if_splits;
      metis transport.surjective transport.update_convs(4) transport.update_convs(11))

lemma dlq_rows_of_state:
  "dlq_rows_of E es reason s = (rs, s') \<Longrightarrow>
     \<exists>w m. s' = s\<lparr>world := w, first_failed_at := m\<rparr> \<and> map r_event rs = map Some es
           \<and> (\<forall>r \<in> set rs. r_reason r = Some reason)"
proof (induction es arbitrary: s rs)
  case Nil
  then have "s' = s\<lparr>world := world s, first_failed_at := first_failed_at s\<rparr>" "rs = []" by simp_all
  then show ?case by fastforce
next
  case (Cons e es)
  obtain r s1 where r: "dlq_row_of E e reason s = (r, s1)" by fastforce
  obtain rs2 s2 where rs: "dlq_rows_of E es reason s1 = (rs2, s2)" by fastforce
  from dlq_row_of_state [OF r] Cons.IH [OF _] Cons.prems r rs show ?case by fastforce
qed

lemma row_ids_of_rows: "map r_event rs = map Some es \<Longrightarrow> row_ids rs = ids_of es"
proof (induction es arbitrary: rs)
  case (Cons e es)
  then obtain r rs2 where "rs = r # rs2" "r_event r = Some e" "map r_event rs2 = map Some es" by auto
  with Cons.IH [of rs2] show ?case by (auto simp: row_ids_def ids_of_def)
qed simp

lemma length_rows: "map r_event rs = map Some es \<Longrightarrow> length rs = length es"
  by (metis length_map)

section \<open>Interface: taking events over\<close>

text \<open>
  Every place a batch can go after a send that did not deliver it (the head or the tail of the
  buffer, the DLQ, the retry path) obeys one contract: it takes over exactly the events it is
  given, so that what was accounted for with them in hand is accounted for without them.
\<close>

locale event_sink =
  fixes sink :: "'e list \<Rightarrow> 's \<Rightarrow> 's"
    and covers :: "'e list \<Rightarrow> 's \<Rightarrow> bool"
  assumes sink_covers: "covers (B @ R) s \<Longrightarrow> covers R (sink B s)"
    and covers_perm: "mset B = mset B' \<Longrightarrow> covers B s \<longleftrightarrow> covers B' s"
begin

lemma sink_all: "covers B s \<Longrightarrow> covers [] (sink B s)"
  using sink_covers [of B "[]" s] by simp

lemma sink_twice: "covers (A @ B @ R) s \<Longrightarrow> covers R (sink B (sink A s))"
  by (intro sink_covers) simp

lemma sink_middle: "covers (A @ B @ R) s \<Longrightarrow> covers (A @ R) (sink B s)"
  by (intro sink_covers) (simp add: covers_perm [of "A @ B @ R" "B @ A @ R" s])

lemma sink_each: "covers (concat Bs @ R) s \<Longrightarrow> covers R (fold sink Bs s)"
  by (induction Bs arbitrary: s) (auto intro: sink_covers)

end

section \<open>The sinks of the pipeline\<close>

lemma held_requeue: "held E (B @ R) s \<Longrightarrow> held E R (requeue_at_head B s)"
  by (auto simp: held_def requeue_at_head_def unsettled_def parked_ids_def)

lemma held_append: "held E (B @ R) s \<Longrightarrow> held E R (s\<lparr>buffer := buffer s @ B\<rparr>)"
  by (auto simp: held_def unsettled_def parked_ids_def)

lemma io_step_state: "io_step E s = (ok, s') \<Longrightarrow> \<exists>w. s' = s\<lparr>world := w\<rparr>"
  by (auto simp: io_step_def map_world_def split: prod.splits)

lemma clear_inflight_state: "\<exists>w f. clear_inflight E s = s\<lparr>world := w, disk := (disk s)\<lparr>inflight_file := f\<rparr>\<rparr>"
proof -
  obtain ok s1 where st: "io_step E s = (ok, s1)" by fastforce
  from io_step_state [OF st] obtain w where s1: "s1 = s\<lparr>world := w\<rparr>" by blast
  have "clear_inflight E s = s\<lparr>world := (if inflight_file (disk s) = None then world s else w),
          disk := (disk s)\<lparr>inflight_file := (if ok then None else inflight_file (disk s))\<rparr>\<rparr>"
    using st s1 by (cases ok; cases "inflight_file (disk s)") (auto simp: clear_inflight_def)
  then show ?thesis by blast
qed

lemma held_clear_inflight [simp]:
  fixes E' :: "'w env"
  shows "held E R (clear_inflight E' s) = held E R s"
proof -
  obtain w f where "clear_inflight E' s = s\<lparr>world := w, disk := (disk s)\<lparr>inflight_file := f\<rparr>\<rparr>"
    using clear_inflight_state [of E' s] by blast
  then show ?thesis by (simp add: held_def unsettled_def parked_ids_def)
qed

lemma held_persist_holdover: "held E B s \<Longrightarrow> held E B (persist_holdover E rows s)"
proof (cases "rows = []")
  case False
  assume h: "held E B s"
  obtain ok s1 where w: "with_file holdover_file holdover_file_update E rows AppendMode s = (ok, s1)"
    by fastforce
  then obtain w where s1: "s1 = s\<lparr>world := w, disk := (disk s)\<lparr>holdover_file :=
      (if ok then Some (written rows AppendMode (holdover_file (disk s))) else holdover_file (disk s))\<rparr>\<rparr>"
    by (rule holdover_write_cases)
  with h have "held E B s1" by (auto simp: held_def unsettled_def parked_ids_def)
  with w False show ?thesis by (simp add: persist_holdover_def split: bool.splits)
qed (simp add: persist_holdover_def)

lemma persist_holdover_overflow: "dlq_overflow (persist_holdover E rows s) = dlq_overflow s"
  by (auto simp: persist_holdover_def split: prod.splits bool.splits elim: holdover_write_cases)

lemma held_hold:
  assumes "held E (B @ R) s" and "ids_of B \<subseteq> row_ids rows" and "length rows = length B"
  shows "held E R (hold_for_dlq E rows s)"
proof -
  let ?s1 = "s\<lparr>dlq_overflow := dlq_overflow s @ rows\<rparr>"
  let ?s3 = "persist_holdover E rows (inc ''dlq_holdover_total'' (int (length rows)) ?s1)"
  have "held E R ?s1"
    using assms by (auto simp: held_def unsettled_def parked_ids_def)
  then have h: "held E R ?s3" by (simp add: held_persist_holdover)
  then have "int (length (dlq_overflow ?s3)) \<le> holdover_index_max E"
    by (simp add: held_def)
  with h show ?thesis by (simp add: hold_for_dlq_def trim_holdover_index_def Let_def)
qed

lemma held_quarantine: "held E (B @ R) s \<Longrightarrow> held E R (quarantine_to_dlq E B err s)"
proof -
  assume h: "held E (B @ R) s"
  obtain rows s1 where rows: "dlq_rows_of E B (dlq_reason err) s = (rows, s1)" by fastforce
  obtain ok s2 where w: "write_dlq_rows E rows s1 = (ok, s2)" by fastforce
  from dlq_rows_of_state [OF rows] h
  have h1: "held E (B @ R) s1" and ev: "map r_event rows = map Some B" by auto
  from ev have sub: "ids_of B \<subseteq> row_ids rows" by (simp add: row_ids_of_rows)
  show ?thesis
  proof (cases ok)
    case True
    with w h1 sub have "held E R s2" by (auto intro: held_write_dlq_ok)
    with rows w True show ?thesis by (simp add: quarantine_to_dlq_def)
  next
    case False
    from held_write_dlq [OF w h1] have "held E R (hold_for_dlq E rows s2)"
      using sub length_rows [OF ev] by (rule held_hold)
    with rows w False show ?thesis by (simp add: quarantine_to_dlq_def)
  qed
qed

lemma retry_or_dlq_cases:
  assumes "retry_or_dlq E B err dl s = (back, s')"
  obtains (requeued) m where "back" "s' = inc ''batches_retried'' 1 (s\<lparr>batch_attempts := m, buffer := buffer s @ B\<rparr>)"
  | (parked) m where "\<not> back" "dl" "s' = quarantine_to_dlq E B err (s\<lparr>batch_attempts := m\<rparr>)"
  using assms by (auto simp: retry_or_dlq_def Let_def split: if_splits)

lemma held_retry_or_dlq: "held E (B @ R) s \<Longrightarrow> held E R (snd (retry_or_dlq E B err dl s))"
proof -
  assume h: "held E (B @ R) s"
  obtain bk s' where r: "retry_or_dlq E B err dl s = (bk, s')" by fastforce
  then have "held E R s'"
  proof (cases rule: retry_or_dlq_cases)
    case (requeued m)
    from h have "held E (B @ R) (s\<lparr>batch_attempts := m\<rparr>)" by simp
    from held_append [OF this] requeued show ?thesis by simp
  next
    case (parked m)
    from h have "held E (B @ R) (s\<lparr>batch_attempts := m\<rparr>)" by simp
    from held_quarantine [OF this] parked show ?thesis by simp
  qed
  with r show ?thesis by simp
qed

interpretation requeue_sink: event_sink requeue_at_head "held E"
  by unfold_locales (erule held_requeue, erule held_perm)

interpretation quarantine_sink: event_sink "\<lambda>B. quarantine_to_dlq E B err" "held E"
  by unfold_locales (erule held_quarantine, erule held_perm)

interpretation retry_sink: event_sink "\<lambda>B s. snd (retry_or_dlq E B err dl s)" "held E"
  by unfold_locales (erule held_retry_or_dlq, erule held_perm)

lemma held_dead_letter:
  assumes "dead_letter_row E e reason s = (live, s')" and h: "held E (e # R) s"
  shows "held E R s'"
proof -
  obtain r s1 where r: "dlq_row_of E e reason s = (r, s1)" by fastforce
  obtain ok s2 where w: "write_dlq_rows E [r] s1 = (ok, s2)" by fastforce
  obtain r' s3 where r': "dlq_row_of E e reason s2 = (r', s3)" by fastforce
  from dlq_row_of_state [OF r] h have h1: "held E ([e] @ R) s1" and "r_event r = Some e" by auto
  then have sub: "ids_of [e] \<subseteq> row_ids [r]" by (auto simp: ids_of_def row_ids_def)
  show ?thesis
  proof (cases ok)
    case True
    with w have "write_dlq_rows E [r] s1 = (True, s2)" by simp
    from held_write_dlq_ok [OF this h1 sub] have "held E R s2" .
    with assms(1) r w True show ?thesis by (auto simp: dead_letter_row_def)
  next
    case False
    from held_write_dlq [OF w h1] dlq_row_of_state [OF r'] have "held E ([e] @ R) s3" "r_event r' = Some e"
      by auto
    then have "held E R (hold_for_dlq E [r'] s3)"
      by (intro held_hold [of E "[e]"]) (auto simp: ids_of_def row_ids_def)
    with assms(1) r w r' False show ?thesis by (auto simp: dead_letter_row_def)
  qed
qed

section \<open>Settlement accounts for every event\<close>

lemma accepted_id: "is_accepted res e \<Longrightarrow> \<exists>i. eid e = Some i \<and> i \<in> set (accepted_event_ids res)"
  by (auto simp: is_accepted_def split: option.splits)

lemma unsettled_pop: "eid e = Some i \<Longrightarrow> unsettled (pop_in_flight e s) = unsettled s - {i}"
  by (auto simp: unsettled_def pop_in_flight_def dict_pop_def AList.delete_eq)

lemma pop_in_flight_fields:
  "buffer (pop_in_flight e s) = buffer s" "disk (pop_in_flight e s) = disk s"
  "dlq_overflow (pop_in_flight e s) = dlq_overflow s" "world (pop_in_flight e s) = world s"
  "breaker (pop_in_flight e s) = breaker s" "bisect_budget (pop_in_flight e s) = bisect_budget s"
  by (auto simp: pop_in_flight_def split: option.splits)

lemma held_pop_in_flight: "held E B s \<Longrightarrow> held E B (pop_in_flight e s)"
  by (cases "eid e")
     (simp add: pop_in_flight_def,
      auto simp: held_def parked_ids_def pop_in_flight_fields unsettled_pop)

lemma held_settled:
  assumes "held E (e # B) s" and "is_accepted res e"
  shows "held E B (pop_in_flight e s)"
proof -
  obtain i where i: "eid e = Some i" using accepted_id [OF assms(2)] by blast
  with assms(1) have "held E ([e] @ B) (pop_in_flight e s)" by (simp add: held_pop_in_flight)
  moreover have "ids_of [e] \<inter> unsettled (pop_in_flight e s) = {}"
    using i by (auto simp: ids_of_def unsettled_pop)
  ultimately show ?thesis by (rule held_drop)
qed

text \<open>The events a settlement still has in hand: those collected for later.\<close>

definition in_hand :: "settle_acc \<Rightarrow> event list" where
  "in_hand a = sa_requeue a @ map fst (sa_unknown a)"

lemma settle_event_held:
  assumes "settle_event E res e (a, s) = (a', s')" and h: "held E (e # in_hand a @ R) s"
  shows "held E (in_hand a' @ R) s'"
proof (cases "is_accepted res e")
  case True
  with assms(1) held_settled [OF h True] show ?thesis by (auto simp: settle_event_def)
next
  case notacc: False
  have perm: "held E (x @ e # y) s" if "mset (x @ y) = mset (in_hand a @ R)" for x y
    using h that by (subst held_perm [of _ "e # in_hand a @ R"]) auto
  show ?thesis
  proof (cases "rejected_by_id res e")
    case None
    with assms(1) notacc have "s' = s" "in_hand a' = in_hand a @ [e]"
      by (auto simp: settle_event_def in_hand_def Let_def)
    with perm [of "in_hand a" R] show ?thesis by simp
  next
    case (Some d)
    consider (lost) "item_reason d \<in> set terminal_rejection_reasons"
      | (hint) "item_reason d \<notin> set terminal_rejection_reasons" "rj_retry_after_ms d \<noteq> None"
      | (unk) "item_reason d \<notin> set terminal_rejection_reasons" "rj_retry_after_ms d = None" by blast
    then show ?thesis
    proof cases
      case lost
      obtain live s1 where dl: "dead_letter_row E e (item_reason d) s = (live, s1)" by fastforce
      with assms(1) notacc Some lost have "s' = s1" "in_hand a' = in_hand a"
        by (auto simp: settle_event_def in_hand_def Let_def)
      with held_dead_letter [OF dl h] show ?thesis by simp
    next
      case hint
      with assms(1) notacc Some have "s' = s" "in_hand a' = sa_requeue a @ e # map fst (sa_unknown a)"
        by (auto simp: settle_event_def in_hand_def Let_def)
      with perm [of "sa_requeue a" "map fst (sa_unknown a) @ R"] show ?thesis
        by (simp add: in_hand_def)
    next
      case unk
      with assms(1) notacc Some have "s' = s" "in_hand a' = in_hand a @ [e]"
        by (auto simp: settle_event_def in_hand_def Let_def)
      with perm [of "in_hand a" R] show ?thesis by simp
    qed
  qed
qed

lemma settle_loop_held:
  assumes "fold (settle_event E res) batch (a, s) = (a', s')" and "held E (batch @ in_hand a @ R) s"
  shows "held E (in_hand a' @ R) s'"
  using assms
proof (induction batch arbitrary: a s)
  case (Cons e es)
  obtain a1 s1 where st: "settle_event E res e (a, s) = (a1, s1)" by fastforce
  from Cons.prems(2) have "held E (e # in_hand a @ es @ R) s"
    by (subst held_perm [of _ "e # es @ in_hand a @ R"]) auto
  from settle_event_held [OF st this] have "held E (es @ in_hand a1 @ R) s1"
    by (subst held_perm [of _ "in_hand a1 @ es @ R"]) auto
  with Cons.IH [of a1 s1] Cons.prems(1) st show ?case by simp
qed simp

lemma settle_unknown_held:
  assumes "settle_unknown E us (live, s) = (live', s')" and "held E (map fst us @ R) s"
  shows "held E R s'"
  using assms
proof (induction us arbitrary: live s)
  case (Cons u us)
  obtain e reason where u: "u = (e, reason)" by fastforce
  obtain bk s1 where r: "retry_or_dlq E [e] (UnknownRejection reason (eid e)) True s = (bk, s1)"
    by fastforce
  from Cons.prems(2) u have "held E ([e] @ map fst us @ R) s" by simp
  from held_retry_or_dlq [OF this, of "UnknownRejection reason (eid e)" True] r
  have "held E (map fst us @ R) s1" by simp
  with Cons.IH [of "live \<or> bk" s1] Cons.prems(1) u r show ?case by simp
qed simp

lemma settle_held:
  assumes "settle_batch_outcome E batch res s = (settled, s')" and h: "held E (batch @ R) s"
  shows "held E R s'"
proof (cases "body_confirmed res")
  case False
  with assms(1) held_retry_or_dlq [OF h, of "Unconfirmed (length batch)" True] show ?thesis
    by (auto simp: settle_batch_outcome_def split: prod.splits)
next
  case True
  let ?a0 = "\<lparr>sa_requeue = [], sa_unknown = [], sa_refused = 0, sa_live = False\<rparr>"
  obtain a s1 where loop: "fold (settle_event E res) batch (?a0, s) = (a, s1)" by fastforce
  obtain live s2 where unk: "settle_unknown E (sa_unknown a) (sa_live a, s1) = (live, s2)" by fastforce
  have "in_hand ?a0 = []" by (simp add: in_hand_def)
  with settle_loop_held [OF loop, of R] h have "held E (in_hand a @ R) s1" by simp
  then have "held E (map fst (sa_unknown a) @ sa_requeue a @ R) s1"
    by (subst held_perm [of _ "in_hand a @ R"]) (auto simp: in_hand_def)
  from settle_unknown_held [OF unk this] have h2: "held E (sa_requeue a @ R) s2" .
  have "held E R (if sa_requeue a = [] then s2 else requeue_at_head (sa_requeue a) s2)"
    by (cases "sa_requeue a") (use h2 held_requeue [OF h2] in simp_all)
  with assms(1) True loop unk show ?thesis
    by (auto simp: settle_batch_outcome_def Let_def split: if_splits)
qed

section \<open>Sending\<close>

lemma held_pop_accepted:
  "held E B s \<Longrightarrow> held E B (pop_accepted res batch s)"
proof -
  have "held E B s \<Longrightarrow> held E B (fold (\<lambda>e t. if is_accepted res e then pop_in_flight e t else t) batch s)"
    by (induction batch arbitrary: s) (auto simp: held_pop_in_flight)
  then show "held E B s \<Longrightarrow> ?thesis" by (simp add: pop_accepted_def)
qed

lemma send_closure_held:
  "send_closure E batch s = (r, s') \<Longrightarrow> held E B s \<Longrightarrow> held E B s'"
  by (auto simp: send_closure_def map_world_def held_pop_accepted split: prod.splits sum.splits)

lemma through_breaker_held: "held E B s \<Longrightarrow> held E B (snd (through_breaker E batch s))"
proof -
  assume h: "held E B s"
  obtain now u fin w where t: "env_mono E (world s) = ((now, u, fin), w)" by (metis prod_cases3 prod.collapse)
  let ?s1 = "s\<lparr>world := w\<rparr>"
  obtain r b s2 where c: "cb_call now u fin (send_closure E batch) (breaker ?s1) ?s1 = (r, b, s2)"
    by (metis prod_cases3)
  have "held E B (snd (snd (cb_call now u fin (send_closure E batch) (breaker ?s1) ?s1)))"
    by (rule breaker_call.call_preserves) (use h in \<open>auto intro: send_closure_held\<close>)
  with t c show ?thesis by (simp add: through_breaker_def map_world_def)
qed

text \<open>
  A 2xx answer that accounts for all of its batch as accepted.  A half of a bisected batch is
  settled by nothing else: \<open>_attempt_half\<close> reads only the accepted ids.
\<close>

definition accepts_whole_batches :: "'w env \<Rightarrow> bool" where
  "accepts_whole_batches E \<longleftrightarrow>
     (\<forall>b w res w'. env_send E b w = (Inr res, w') \<longrightarrow> (\<forall>e \<in> set b. is_accepted res e))"

definition pop_loop :: "send_result \<Rightarrow> event list \<Rightarrow> 'w transport \<Rightarrow> 'w transport" where
  "pop_loop res batch s = fold (\<lambda>e t. if is_accepted res e then pop_in_flight e t else t) batch s"

lemma unsettled_pop_mono: "unsettled (pop_in_flight e s) \<subseteq> unsettled s"
  by (cases "eid e") (simp add: pop_in_flight_def, simp add: unsettled_pop)

lemma unsettled_pop_loop_mono: "unsettled (pop_loop res batch s) \<subseteq> unsettled s"
proof (induction batch arbitrary: s)
  case (Cons e batch)
  from Cons.IH [of "pop_in_flight e s"] Cons.IH [of s] unsettled_pop_mono [of e s] show ?case
    by (auto simp: pop_loop_def)
qed (simp add: pop_loop_def)

lemma unsettled_pop_loop:
  "\<forall>e \<in> set batch. is_accepted res e \<Longrightarrow> ids_of batch \<inter> unsettled (pop_loop res batch s) = {}"
proof (induction batch arbitrary: s)
  case (Cons e batch)
  then have "is_accepted res e" by simp
  then obtain i where i: "eid e = Some i" using accepted_id by blast
  have step: "pop_loop res (e # batch) s = pop_loop res batch (pop_in_flight e s)"
    using \<open>is_accepted res e\<close> by (simp add: pop_loop_def)
  have "i \<notin> unsettled (pop_loop res batch (pop_in_flight e s))"
    using unsettled_pop_loop_mono [of res batch "pop_in_flight e s"] unsettled_pop [OF i, of s] by blast
  moreover have "ids_of batch \<inter> unsettled (pop_loop res batch (pop_in_flight e s)) = {}"
    using Cons by simp
  ultimately show ?case unfolding step by (simp add: ids_of_Cons i)
qed simp

lemma unsettled_pop_accepted:
  assumes "\<forall>e \<in> set batch. is_accepted res e"
  shows "ids_of batch \<inter> unsettled (pop_accepted res batch s) = {}"
proof (cases "accepted_event_ids res = []")
  case True
  with assms have "batch = []" using accepted_id by (cases batch) fastforce+
  then show ?thesis by simp
next
  case False
  with unsettled_pop_loop [OF assms] show ?thesis by (simp add: pop_accepted_def pop_loop_def)
qed

lemma through_breaker_accepted:
  assumes "through_breaker E batch s = (Ret (Inr res), s')" and "accepts_whole_batches E"
  shows "ids_of batch \<inter> unsettled s' = {}"
proof -
  obtain now u fin w where t: "env_mono E (world s) = ((now, u, fin), w)" by (metis prod_cases3 prod.collapse)
  let ?s1 = "s\<lparr>world := w\<rparr>"
  obtain r b s2 where c: "cb_call now u fin (send_closure E batch) (breaker ?s1) ?s1 = (r, b, s2)"
    by (metis prod_cases3)
  with assms(1) t have r: "r = Ret (Inr res)" "s' = s2\<lparr>breaker := b\<rparr>"
    by (simp_all add: through_breaker_def map_world_def)
  from breaker_call.call_ran_or_rejected [OF c] r
  obtain q where q: "send_closure E batch ?s1 = (q, s2)" "Ret (Inr res) = lift_inner q" by auto
  then have "q = Ret (Inr res)" by (cases q) simp_all
  with q(1) obtain w2 where "env_send E batch w = (Inr res, w2)"
      and s2: "unsettled s2 = unsettled (pop_accepted res batch (s\<lparr>world := w2\<rparr>))"
    by (auto simp: send_closure_def map_world_def unsettled_def split: prod.splits sum.splits if_splits)
  with assms(2) have "\<forall>e \<in> set batch. is_accepted res e" by (auto simp: accepts_whole_batches_def)
  from unsettled_pop_accepted [OF this] s2 r(2) show ?thesis by (simp add: unsettled_def)
qed

lemma through_breaker_not_interrupted: "through_breaker E batch s \<noteq> (BaseExc m, s')"
proof
  assume a: "through_breaker E batch s = (BaseExc m, s')"
  obtain now u fin w where t: "env_mono E (world s) = ((now, u, fin), w)" by (metis prod_cases3 prod.collapse)
  obtain r b s2 where c: "cb_call now u fin (send_closure E batch) (breaker s) (s\<lparr>world := w\<rparr>) = (r, b, s2)"
    by (metis prod_cases3)
  with a t have r: "r = BaseExc m" by (simp add: through_breaker_def map_world_def)
  from breaker_call.call_ran_or_rejected [OF c] r
  obtain q where q: "send_closure E batch (s\<lparr>world := w\<rparr>) = (q, s2)" "BaseExc m = lift_inner q" by auto
  then have "q = BaseExc m" by (cases q) simp_all
  with q(1) show False by (simp add: send_closure_def split: prod.splits sum.splits if_splits)
qed

section \<open>Bisection accounts for every event\<close>

lemma held_forget [simp]: "held E B (forget_attempts E' x s) = held E B s"
  by (simp add: forget_attempts_def)

lemma bisect_available_held:
  "bisect_request_available s = (ok, s') \<Longrightarrow> held E B s' = held E B s"
  by (auto simp: bisect_request_available_def split: if_splits)

lemma settle_recorded_held:
  assumes h: "held E (e # B) s"
  shows "held E B (settle_recorded e s)"
proof (cases "eid e")
  case None
  with h have "held E B s" by (auto simp: held_def ids_of_Cons)
  with None show ?thesis by (simp add: settle_recorded_def Let_def)
next
  case (Some i)
  show ?thesis
  proof (cases "i = []")
    case True
    with Some h have "held E B s" by (auto simp: held_def ids_of_Cons)
    with Some True show ?thesis by (simp add: settle_recorded_def Let_def)
  next
    case False
    from held_pop_in_flight [OF h, of e] have p: "held E ([e] @ B) (pop_in_flight e s)" by simp
    have "ids_of [e] \<inter> unsettled (pop_in_flight e s) = {}"
      using Some by (auto simp: ids_of_def unsettled_pop)
    from held_drop [OF p this] Some False show ?thesis
      by (simp add: settle_recorded_def pop_in_flight_def Let_def)
  qed
qed

lemma settle_recorded_fold_held:
  "held E (es @ B) s \<Longrightarrow> held E B (fold settle_recorded es s)"
  by (induction es arbitrary: s) (auto intro: settle_recorded_held)

lemma deliver_recorded_held:
  assumes "deliver_recorded_overbudget batch err s = Some s'" and h: "held E (batch @ R) s"
  shows "held E R s'"
proof -
  obtain code status details where err: "err = Refusal code status details"
    using assms(1) by (cases err) (simp_all add: deliver_recorded_overbudget_def)
  define split where "split = (if truthy (jget details ''event_id'')
      then (filter (\<lambda>e. event_id_json e = jget details ''event_id'') batch,
            filter (\<lambda>e. event_id_json e \<noteq> jget details ''event_id'') batch)
      else (batch, []))"
  obtain settled outstanding where so: "split = (settled, outstanding)" by fastforce
  then have m: "mset (settled @ outstanding) = mset batch"
    by (auto simp: split_def mset_filter_split split: if_splits)
  have s': "s' = (let s2 = inc ''events_recorded_overage'' (int (length settled)) (fold settle_recorded settled s)
                 in if outstanding = [] then s2 else requeue_at_head outstanding s2)"
    using assms(1) so unfolding err deliver_recorded_overbudget_def split_def
    by (cases "truthy (jget details ''event_id'')") (simp_all add: Let_def split: if_splits)
  from h m have "held E (settled @ outstanding @ R) s"
    by (subst held_perm [of _ "batch @ R"]) auto
  then have h2: "held E (outstanding @ R) (fold settle_recorded settled s)"
    by (rule settle_recorded_fold_held)
  then show ?thesis
    unfolding s' Let_def by (cases "outstanding = []") (simp_all add: held_requeue)
qed

lemma attempt_half_held:
  assumes full: "accepts_whole_batches E" and h: "held E (half @ R) s"
    and route: "\<And>err s1. through_breaker E half s = (Ret (Inl err), s1) \<Longrightarrow> held E (half @ R) s1
                  \<Longrightarrow> held E R (route_deferred E half err s1)"
  shows "held E R (attempt_half E half s)"
proof -
  obtain r s1 where tb: "through_breaker E half s = (r, s1)" by fastforce
  from through_breaker_held [OF h, of half] tb have h1: "held E (half @ R) s1" by simp
  show ?thesis
  proof (cases r)
    case (Exc x)
    with tb h1 show ?thesis
      by (simp add: attempt_half.simps held_requeue held_retry_or_dlq)
  next
    case (BaseExc m)
    with tb show ?thesis by (simp add: through_breaker_not_interrupted)
  next
    case (Ret v)
    show ?thesis
    proof (cases v)
      case (Inl e)
      with Ret tb route [OF _ h1, of e] show ?thesis by (simp add: attempt_half.simps)
    next
      case (Inr res)
      with Ret tb have "through_breaker E half s = (Ret (Inr res), s1)" by simp
      from through_breaker_accepted [OF this full] have "ids_of half \<inter> unsettled s1 = {}" .
      from held_drop [OF h1 this] Inr Ret tb show ?thesis by (simp add: attempt_half.simps)
    qed
  qed
qed

lemma split_halves_held:
  "held E (batch @ R) s \<Longrightarrow> held E (take n batch @ drop n batch @ R) s"
  by (simp add: append_assoc [symmetric] del: append_assoc)

lemma bisect_held:
  "accepts_whole_batches E \<Longrightarrow> held E (batch @ R) s \<Longrightarrow> held E R (route_deferred E batch err s)"
  "accepts_whole_batches E \<Longrightarrow> held E (batch @ R) s \<Longrightarrow> held E R (handle_http_rejection E batch n s)"
  "accepts_whole_batches E \<Longrightarrow> held E (left @ right @ R) s \<Longrightarrow> held E R (send_subbatches E left right err s)"
  "accepts_whole_batches E \<Longrightarrow> held E (batch @ R) s \<Longrightarrow> held E R (attempt_half E batch s)"
proof (induction E batch err s and E batch n s and E left right err s and E batch s
    arbitrary: R and R and R and R
    rule: route_deferred_handle_http_rejection_send_subbatches_attempt_half.induct)
  case (1 E batch err s)
  show ?case
  proof (cases err)
    case (Refusal code status details)
    show ?thesis
    proof (cases "deliver_recorded_overbudget batch err s")
      case (Some s1)
      from deliver_recorded_held [OF Some "1.prems"(2)] Some Refusal show ?thesis
        by (simp add: route_deferred.simps)
    next
      case None
      show ?thesis
      proof (cases "length batch > 1 \<and> bisect_depth s < max_bisect_depth")
        case False
        with None Refusal "1.prems"(2) show ?thesis
          by (auto simp: route_deferred.simps intro!: held_quarantine)
      next
        case deep: True
        obtain ok s1 where av: "bisect_request_available s = (ok, s1)" by fastforce
        with "1.prems"(2) have h1: "held E (batch @ R) s1" by (simp add: bisect_available_held)
        show ?thesis
        proof (cases ok)
          case False
          with av deep None Refusal h1 show ?thesis
            by (simp add: route_deferred.simps held_quarantine)
        next
          case True
          let ?s2 = "shift_depth 1 (inc ''batches_bisected'' 1 s1)"
          have "held E (take (length batch div 2) batch @ drop (length batch div 2) batch @ R) ?s2"
            using split_halves_held [OF h1] by simp
          from "1.IH"(2) [OF Refusal None deep av [symmetric] eqTrueI [OF True] refl "1.prems"(1) this]
          show ?thesis using av True deep None Refusal by (simp add: route_deferred.simps Let_def)
        qed
      qed
    qed
  next
    case (StatusError n)
    with "1.IH"(1) [OF StatusError "1.prems"] show ?thesis by (simp add: route_deferred.simps)
  qed (use "1.prems"(2) in \<open>simp_all add: route_deferred.simps held_retry_or_dlq\<close>)
next
  case (2 E batch n s)
  show ?case
  proof (cases "n \<in> set transient_4xx \<or> n \<in> set auth_4xx \<or> \<not> length batch > 1")
    case True
    with "2.prems"(2) show ?thesis
      by (auto simp: handle_http_rejection.simps held_retry_or_dlq held_requeue held_quarantine)
  next
    case False
    let ?s1 = "inc (if n \<in> set resplit_4xx then ''batches_resplit'' else ''batches_bisected'') 1 s"
    have "held E (take (length batch div 2) batch @ drop (length batch div 2) batch @ R) ?s1"
      using split_halves_held [OF "2.prems"(2)] by simp
    with False "2.IH" [OF _ _ _ refl "2.prems"(1)] show ?thesis
      by (simp add: handle_http_rejection.simps Let_def)
  qed
next
  case (3 E left right err s)
  show ?case
  proof (cases "bisect_depth s \<ge> max_bisect_depth")
    case True
    with "3.prems"(2) show ?thesis
      by (simp add: send_subbatches.simps held_quarantine)
  next
    case shallow: False
    obtain ok s1 where av: "bisect_request_available s = (ok, s1)" by fastforce
    with "3.prems"(2) have h1: "held E (left @ right @ R) s1" by (simp add: bisect_available_held)
    show ?thesis
    proof (cases ok)
      case False
      with av shallow h1 show ?thesis by (simp add: send_subbatches.simps held_quarantine)
    next
      case True
      let ?s2 = "shift_depth 1 s1"
      let ?s3 = "if left = [] then ?s2 else attempt_half E left ?s2"
      let ?s4 = "if right = [] then ?s3 else attempt_half E right ?s3"
      have h3: "held E (right @ R) ?s3"
        using "3.IH"(1) [OF shallow av [symmetric] eqTrueI [OF True] refl _ "3.prems"(1), of "right @ R"] h1
        by (cases "left = []") simp_all
      have "held E R ?s4"
        using "3.IH"(2) [OF shallow av [symmetric] eqTrueI [OF True] refl refl _ "3.prems"(1), of R] h3
        by (cases "right = []") simp_all
      with av shallow True show ?thesis by (simp add: send_subbatches.simps Let_def)
    qed
  qed
next
  case (4 E half s)
  show ?case
  proof (rule attempt_half_held [OF "4.prems"])
    fix err s1
    assume tb: "through_breaker E half s = (Ret (Inl err), s1)" and "held E (half @ R) s1"
    then show "held E R (route_deferred E half err s1)"
      using "4.IH" [OF tb [symmetric] refl refl "4.prems"(1)] by simp
  qed
qed

section \<open>The flush\<close>

lemma kept_rows_ids:
  "row_ids (rows_of ls) \<subseteq> row_ids (kept_rows ids ls) \<union> set ids"
  by (induction ids ls rule: kept_rows.induct)
     (auto simp: row_ids_def row_id_def split: option.splits)

lemma drained_ids_sub: "set (drained_ids rows) \<subseteq> row_ids rows"
  by (auto simp: drained_ids_def row_ids_def split: option.splits if_splits; metis)

lemma release_holdover_state:
  assumes "release_holdover E ids s = (ok, s')"
  shows "\<exists>w f. s' = s\<lparr>world := w, disk := (disk s)\<lparr>holdover_file := f\<rparr>\<rparr>
             \<and> row_ids (complete_rows (holdover_file (disk s))) \<subseteq> row_ids (complete_rows f) \<union> set ids"
proof (cases "ids = [] \<or> holdover_file (disk s) = None")
  case True
  with assms have "s' = s\<lparr>world := world s, disk := (disk s)\<lparr>holdover_file := holdover_file (disk s)\<rparr>\<rparr>"
    by (cases "ids = []") (simp_all add: release_holdover_def)
  then show ?thesis by blast
next
  case False
  then obtain f where f: "holdover_file (disk s) = Some f" and ne: "ids \<noteq> []" by auto
  let ?kept = "kept_rows ids (all_lines f)"
  obtain ok1 s1 where st1: "io_step E s = (ok1, s1)" by fastforce
  obtain w1 where s1: "s1 = s\<lparr>world := w1\<rparr>" using io_step_state [OF st1] by blast
  obtain ok2 s2 where st2: "io_step E s1 = (ok2, s2)" by fastforce
  obtain w2 where s2: "s2 = s1\<lparr>world := w2\<rparr>" using io_step_state [OF st2] by blast
  have sub: "row_ids (complete_rows (Some f)) \<subseteq> row_ids ?kept \<union> set ids"
    using kept_rows_ids [of "all_lines f" ids] row_ids_mono [OF complete_rows_subset [of "Some f"]]
    by (auto simp: file_rows_def read_lines_def)
  consider (unread) "\<not> ok1" | (gone) "ok1" "?kept = []" "ok2" | (stuck) "ok1" "?kept = []" "\<not> ok2"
    | (rewrite) "ok1" "?kept \<noteq> []" by blast
  then show ?thesis
  proof cases
    case unread
    with assms f ne st1 have "s' = s1" by (simp add: release_holdover_def)
    with s1 have "s' = s\<lparr>world := w1, disk := (disk s)\<lparr>holdover_file := holdover_file (disk s)\<rparr>\<rparr>" by simp
    then show ?thesis by blast
  next
    case gone
    with assms f ne st1 st2 s1 s2 have "s' = s\<lparr>world := w2, disk := (disk s)\<lparr>holdover_file := None\<rparr>\<rparr>"
      by (simp add: release_holdover_def Let_def)
    with gone f sub show ?thesis by (metis complete_rows_None)
  next
    case stuck
    with assms f ne st1 st2 have "s' = s2" by (simp add: release_holdover_def Let_def)
    with s1 s2 have "s' = s\<lparr>world := w2, disk := (disk s)\<lparr>holdover_file := holdover_file (disk s)\<rparr>\<rparr>" by simp
    then show ?thesis by blast
  next
    case rewrite
    with assms f ne st1 have "with_file holdover_file holdover_file_update E ?kept WriteMode s1 = (ok, s')"
      by (simp add: release_holdover_def Let_def)
    then obtain w where s': "s' = s1\<lparr>world := w, disk := (disk s1)\<lparr>holdover_file :=
        (if ok then Some (written ?kept WriteMode (holdover_file (disk s1))) else holdover_file (disk s1))\<rparr>\<rparr>"
      by (rule holdover_write_cases)
    with s1 have "s' = s\<lparr>world := w, disk := (disk s)\<lparr>holdover_file :=
        (if ok then Some (written ?kept WriteMode (holdover_file (disk s))) else holdover_file (disk s))\<rparr>\<rparr>"
      by simp
    moreover have "row_ids (complete_rows (Some f)) \<subseteq>
        row_ids (complete_rows (if ok then Some (written ?kept WriteMode (holdover_file (disk s)))
                                else holdover_file (disk s))) \<union> set ids"
      using sub f by auto
    ultimately show ?thesis using f by metis
  qed
qed

lemma drain_held: "held E B s \<Longrightarrow> held E B (snd (drain_dlq_overflow E s))"
proof -
  assume h: "held E B s"
  show "held E B (snd (drain_dlq_overflow E s))"
  proof (cases "dlq_overflow s = []")
    case True
    with h show ?thesis by (simp add: drain_dlq_overflow_def)
  next
    case ne: False
    let ?pending = "dlq_overflow s"
    let ?s1 = "s\<lparr>dlq_overflow := []\<rparr>"
    obtain ok s2 where w: "write_dlq_rows E ?pending ?s1 = (ok, s2)" by fastforce
    then show ?thesis
    proof (cases rule: write_dlq_rows_cases)
      case none
      with ne show ?thesis by simp
    next
      case full
      then have "s2\<lparr>dlq_overflow := ?pending\<rparr> = inc ''dlq_overflow_total'' 1 s" by (simp add: inc_def)
      with w full h ne show ?thesis by (simp add: drain_dlq_overflow_def Let_def)
    next
      case (failed w')
      then have "s2\<lparr>dlq_overflow := ?pending\<rparr> = s\<lparr>world := w'\<rparr>" by simp
      with w failed h ne show ?thesis by (simp add: drain_dlq_overflow_def Let_def)
    next
      case (stored w')
      obtain rok s3 where rel: "release_holdover E (drained_ids ?pending) s2 = (rok, s3)" by fastforce
      from release_holdover_state [OF rel] obtain w2 f where
        s3: "s3 = s2\<lparr>world := w2, disk := (disk s2)\<lparr>holdover_file := f\<rparr>\<rparr>" and
        sub: "row_ids (complete_rows (holdover_file (disk s2)))
              \<subseteq> row_ids (complete_rows f) \<union> set (drained_ids ?pending)" by blast
      with drained_ids_sub [of ?pending] stored h have "held E B s3"
        by (auto simp: held_def unsettled_def parked_ids_def)
      with w rel stored ne show ?thesis by (simp add: drain_dlq_overflow_def Let_def)
    qed
  qed
qed

lemma persist_inflight_held:
  assumes "held E B s"
  shows "held E B (persist_inflight E batch s)"
proof (cases "batch = []")
  case False
  obtain ok s1 where w: "with_file inflight_file inflight_file_update E batch WriteMode s = (ok, s1)"
    by fastforce
  then obtain w where "s1 = s\<lparr>world := w, disk := (disk s)\<lparr>inflight_file :=
      (if ok then Some (written batch WriteMode (inflight_file (disk s))) else inflight_file (disk s))\<rparr>\<rparr>"
    by (rule inflight_write_cases)
  with assms have "held E B s1" by (auto simp: held_def unsettled_def parked_ids_def)
  with w False show ?thesis by (simp add: persist_inflight_def)
qed (use assms in \<open>simp add: persist_inflight_def\<close>)

lemma drain_frame:
  "buffer (snd (drain_dlq_overflow E s)) = buffer s
   \<and> in_flight (snd (drain_dlq_overflow E s)) = in_flight s
   \<and> (dlq_overflow (snd (drain_dlq_overflow E s)) = dlq_overflow s
      \<or> dlq_overflow (snd (drain_dlq_overflow E s)) = [])"
proof (cases "dlq_overflow s = []")
  case True
  then show ?thesis by (simp add: drain_dlq_overflow_def)
next
  case ne: False
  obtain ok s2 where w: "write_dlq_rows E (dlq_overflow s) (s\<lparr>dlq_overflow := []\<rparr>) = (ok, s2)" by fastforce
  then have s2: "buffer s2 = buffer s \<and> in_flight s2 = in_flight s \<and> dlq_overflow s2 = []"
    by (cases rule: write_dlq_rows_cases) simp_all
  obtain rok s3 where rel: "release_holdover E (drained_ids (dlq_overflow s)) s2 = (rok, s3)" by fastforce
  from release_holdover_state [OF rel] s2
  have "buffer s3 = buffer s \<and> in_flight s3 = in_flight s \<and> dlq_overflow s3 = []" by auto
  with w rel ne s2 show ?thesis by (auto simp: drain_dlq_overflow_def Let_def split: bool.splits)
qed

text \<open>No overflow: the whole batch fits back into the buffer.\<close>

lemma requeue_after_breaker_held:
  assumes "held E (batch @ R) s" and "int (length (buffer s)) + int (length batch) \<le> max_buffer_size E"
  shows "held E R (requeue_after_breaker E batch s)"
proof -
  have "requeue_after_breaker E batch s = inc ''batches_failed'' 1 (s\<lparr>buffer := buffer s @ batch\<rparr>)"
    using assms(2) by (simp add: requeue_after_breaker_def)
  with held_append [OF assms(1)] show ?thesis by simp
qed

lemma through_breaker_buffer: "buffer (snd (through_breaker E batch s)) = buffer s"
proof -
  obtain now u fin w where t: "env_mono E (world s) = ((now, u, fin), w)" by (metis prod_cases3 prod.collapse)
  let ?s1 = "s\<lparr>world := w\<rparr>"
  obtain r b s2 where c: "cb_call now u fin (send_closure E batch) (breaker ?s1) ?s1 = (r, b, s2)"
    by (metis prod_cases3)
  have loop: "buffer (pop_loop res es t) = buffer t" for res es and t :: "'a transport"
    by (induction es arbitrary: t) (simp_all add: pop_loop_def pop_in_flight_fields)
  have "buffer (snd (snd (cb_call now u fin (send_closure E batch) (breaker ?s1) ?s1))) = buffer s"
  proof (rule breaker_call.call_preserves)
    fix q w'
    assume "send_closure E batch ?s1 = (q, w')"
    then show "buffer w' = buffer s"
      by (auto simp: send_closure_def map_world_def pop_accepted_def loop [unfolded pop_loop_def]
          split: prod.splits sum.splits if_splits)
  qed simp
  with t c show ?thesis by (simp add: through_breaker_def map_world_def)
qed

lemma flush_held:
  assumes full: "accepts_whole_batches E"
    and fits: "int (length (buffer s)) \<le> max_buffer_size E"
    and room: "int (length (dlq_overflow s) + length (buffer s)) \<le> holdover_index_max E"
    and ids: "[] \<notin> unsettled s"
    and before: "unsettled s \<subseteq> ids_of (buffer s) \<union> parked_ids s"
  shows "held E [] (do_flush E s)"
proof -
  obtain n s1 where d: "drain_dlq_overflow E s = (n, s1)" by fastforce
  have b1: "buffer s1 = buffer s" using drain_frame [of E s] d by simp
  have "held E [] s" using before room ids by (auto simp: held_def)
  from drain_held [OF this] d have h0: "held E [] s1" by simp
  show ?thesis
  proof (cases "buffer s = []")
    case True
    with d b1 h0 show ?thesis by (simp add: do_flush_def)
  next
    case ne: False
    let ?B = "buffer s"
    let ?s2 = "s1\<lparr>buffer := [], bisect_budget := max_bisect_requests E\<rparr>"
    let ?s3 = "persist_inflight E ?B ?s2"
    have "length (dlq_overflow s1) \<le> length (dlq_overflow s)" using drain_frame [of E s] d by auto
    then have "held E (?B @ []) ?s2"
      using h0 b1 room by (auto simp: held_def unsettled_def parked_ids_def)
    then have h3: "held E (?B @ []) ?s3" by (rule persist_inflight_held)
    have b3: "buffer ?s3 = []"
      by (auto simp: persist_inflight_def with_file_def map_world_def split: prod.splits)
    obtain r s4 where tb: "through_breaker E ?B ?s3 = (r, s4)" by fastforce
    from through_breaker_held [OF h3, of ?B] tb have h4: "held E (?B @ []) s4" by simp
    have b4: "buffer s4 = []" using through_breaker_buffer [of E ?B ?s3] tb b3 by simp
    have flush: "do_flush E s =
          (case r of
              Exc x \<Rightarrow>
              (if is_breaker_transport x then requeue_after_breaker E ?B s4
               else snd (retry_or_dlq E ?B (inner_exn x) True s4))
          | Ret (Inl e) \<Rightarrow> route_deferred E ?B e s4
          | Ret (Inr res) \<Rightarrow> finish_batch E ?B res s4
          | BaseExc m \<Rightarrow> s4)"
      using d b1 ne tb by (simp add: do_flush_def Let_def split: outcome.splits sum.splits)
    show ?thesis
    proof (cases r)
      case (Exc x)
      have "held E [] (requeue_after_breaker E ?B s4)"
        using requeue_after_breaker_held [OF h4] fits b4 by simp
      then show ?thesis unfolding flush Exc using held_retry_or_dlq [OF h4] by simp
    next
      case (BaseExc m)
      with tb show ?thesis by (simp add: through_breaker_not_interrupted)
    next
      case (Ret v)
      show ?thesis
      proof (cases v)
        case (Inl e)
        show ?thesis unfolding flush Ret Inl using bisect_held(1) [OF full h4] by simp
      next
        case (Inr res)
        obtain settled s5 where st: "settle_batch_outcome E ?B res s4 = (settled, s5)" by fastforce
        from settle_held [OF st h4] st show ?thesis
          unfolding flush Ret Inr by (simp add: finish_batch_def split: bool.splits)
      qed
    qed
  qed
qed

text \<open>
  C1: no event is lost by a flush, within the limits of the buffers.  Take any server, clock, file-lock
  and I/O behaviour in which a 2xx answer accepts every event it answers for, a buffer of at most
  \<open>_max_buffer_size\<close> events, a holdover index with room for all of it, and no empty event id.  An event is
  unsettled here when its id is a key of \<open>_in_flight\<close>.  If before the flush every unsettled event is
  buffered, in the DLQ or held for it, then so it is after the flush: through retries, a tripped breaker,
  auth failures, bisection, quarantine and a full or unwritable DLQ.  Beyond those limits the code trims.
\<close>

theorem flush_conserves_events:
  assumes "accepts_whole_batches E"
    and "int (length (buffer s)) \<le> max_buffer_size E"
    and "int (length (dlq_overflow s) + length (buffer s)) \<le> holdover_index_max E"
    and "[] \<notin> unsettled s"
    and "unsettled s \<subseteq> ids_of (buffer s) \<union> parked_ids s"
  shows "unsettled (do_flush E s) \<subseteq> ids_of (buffer (do_flush E s)) \<union> parked_ids (do_flush E s)"
  using flush_held [OF assms] by (simp add: held_def)

section \<open>A small scene\<close>

text \<open>
  A concrete environment and state for the witnesses: the world counts the requests, the given
  function of that count and the batch is the server, durable writes and locks succeed.
\<close>

definition scene ::
  "(nat \<Rightarrow> event list \<Rightarrow> send_exn + send_result) \<Rightarrow> nat env" where
  "scene answer =
     \<lparr>env_send = (\<lambda>b n. (answer n b, Suc n)), env_io = (\<lambda>n. (True, n)), env_time = (\<lambda>n. (0, n)),
      env_mono = (\<lambda>n. ((of_nat n, 0, of_nat n), n)), env_digest = (\<lambda>x. x), env_row_len = (\<lambda>_. 10),
      max_batch_attempts = 5, dlq_max_bytes = 1000, holdover_index_max = 100,
      max_bisect_requests = 64, max_buffer_size = 100, batch_size = 50\<rparr>"

definition accept_all :: "event list \<Rightarrow> send_exn + send_result" where
  "accept_all b =
     (if None \<in> set (map eid b) then Inl (OtherExn ''ValueError'')
      else Inr \<lparr>accepted_event_ids = map (\<lambda>e. the (eid e)) b, rejected_items = [],
                body_confirmed = True\<rparr>)"

definition plain_event :: "string \<Rightarrow> event" where
  "plain_event i = \<lparr>eid = Some i, etype = Some ''llm_call'', payload = []\<rparr>"

definition scene_state :: "event list \<Rightarrow> nat transport" where
  "scene_state b =
     \<lparr>buffer = b, in_flight = map (\<lambda>e. (the (eid e), e)) b, batch_attempts = [],
      first_failed_at = [], bisect_depth = 0, bisect_budget = 0, dlq_overflow = [],
      breaker = init_cb 5 30 1 NoRedis, disk = empty_disk, counters = (\<lambda>_. 0), world = 0\<rparr>"

lemma env_send_scene [simp]: "env_send (scene answer) b w = (answer w b, Suc w)"
  by (simp add: scene_def)

lemma accept_all_accepts: "accept_all b = Inr res \<Longrightarrow> e \<in> set b \<Longrightarrow> is_accepted res e"
  by (cases "eid e") (force simp: accept_all_def is_accepted_def image_iff split: if_splits)+

lemma accept_all_whole:
  assumes "\<And>n b res. answer n b = Inr res \<Longrightarrow> accept_all b = Inr res"
  shows "accepts_whole_batches (scene answer)"
  unfolding accepts_whole_batches_def env_send_scene prod.inject
  by (metis assms accept_all_accepts)

text \<open>The server refuses the first request with a 400 and then accepts the two halves.\<close>

definition refuse_first :: "nat \<Rightarrow> event list \<Rightarrow> send_exn + send_result" where
  "refuse_first n b = (if n = 0 then Inl (StatusError 400) else accept_all b)"

lemma refuse_first_whole: "accepts_whole_batches (scene refuse_first)"
  by (rule accept_all_whole) (simp add: refuse_first_def split: if_splits)

theorem flush_conserves_events_witness:
  "unsettled (do_flush (scene refuse_first) (scene_state [plain_event ''a'', plain_event ''b'']))
   \<subseteq> ids_of (buffer (do_flush (scene refuse_first) (scene_state [plain_event ''a'', plain_event ''b''])))
     \<union> parked_ids (do_flush (scene refuse_first) (scene_state [plain_event ''a'', plain_event ''b'']))"
  by (rule flush_conserves_events [OF refuse_first_whole])
     (auto simp: scene_def scene_state_def unsettled_def ids_of_def plain_event_def)

end
