(* ===== verification/Delivery_Growth.thy ===== *)
theory Delivery_Growth
  imports Delivery_Laws
begin

text \<open>
  Relations between the state before and after a flush.  The interface is a locale: a reflexive
  and transitive relation that the leaf operations of the pipeline respect is respected by the
  bisection routines and by the whole flush.  It is interpreted for the dead-letter file, which
  only ever grows, row by row at its end, and never past its size cap.
\<close>

section \<open>What a send changes\<close>

definition sent_frame :: "'w transport \<Rightarrow> 'w transport \<Rightarrow> bool" where
  "sent_frame s s' \<longleftrightarrow>
     buffer s' = buffer s \<and> disk s' = disk s \<and> dlq_overflow s' = dlq_overflow s
     \<and> batch_attempts s' = batch_attempts s \<and> first_failed_at s' = first_failed_at s
     \<and> bisect_budget s' = bisect_budget s \<and> bisect_depth s' = bisect_depth s"

lemma sent_frame_trans: "sent_frame s t \<Longrightarrow> sent_frame t u \<Longrightarrow> sent_frame s u"
  by (simp add: sent_frame_def)

lemma pop_in_flight_frame: "sent_frame s (pop_in_flight e s)"
  by (cases "eid e") (simp_all add: pop_in_flight_def sent_frame_def)

lemma pop_accepted_frame: "sent_frame s (pop_accepted res batch s)"
proof -
  have "sent_frame s (fold (\<lambda>e t. if is_accepted res e then pop_in_flight e t else t) batch s)"
  proof (induction batch arbitrary: s)
    case (Cons e es)
    from sent_frame_trans [OF pop_in_flight_frame Cons.IH] Cons.IH show ?case by simp
  qed (simp add: sent_frame_def)
  then show ?thesis by (simp add: pop_accepted_def sent_frame_def)
qed

lemma send_closure_frame:
  assumes "send_closure E batch s = (q, s')"
  shows "sent_frame s s'"
proof -
  obtain x w where e: "env_send E batch (world s) = (x, w)" by fastforce
  show ?thesis
  proof (cases x)
    case (Inl err)
    with assms e show ?thesis by (auto simp: send_closure_def map_world_def sent_frame_def)
  next
    case (Inr res)
    with assms e pop_accepted_frame [of "s\<lparr>world := w\<rparr>" res batch] show ?thesis
      by (auto simp: send_closure_def map_world_def sent_frame_def)
  qed
qed

lemma through_breaker_frame: "sent_frame s (snd (through_breaker E batch s))"
proof -
  obtain now u fin w where t: "env_mono E (world s) = ((now, u, fin), w)" by (metis prod_cases3 prod.collapse)
  let ?s1 = "s\<lparr>world := w\<rparr>"
  obtain r b s2 where c: "cb_call now u fin (send_closure E batch) (breaker ?s1) ?s1 = (r, b, s2)"
    by (metis prod_cases3)
  have "sent_frame s (snd (snd (cb_call now u fin (send_closure E batch) (breaker ?s1) ?s1)))"
  proof (rule breaker_call.call_preserves)
    fix q w'
    assume "send_closure E batch ?s1 = (q, w')"
    from send_closure_frame [OF this] show "sent_frame s w'" by (simp add: sent_frame_def)
  qed (simp add: sent_frame_def)
  with t c show ?thesis by (simp add: through_breaker_def map_world_def sent_frame_def)
qed

section \<open>Interface: a relation the pipeline respects\<close>

text \<open>A flush drains the holdover, refills the split budget and then sends once.\<close>

definition refilled :: "'w env \<Rightarrow> 'w transport \<Rightarrow> 'w transport" where
  "refilled E s = (snd (drain_dlq_overflow E s))\<lparr>bisect_budget := max_bisect_requests E\<rparr>"

text \<open>
  \<open>Q k s t\<close>: the pipeline got from \<open>s\<close> to \<open>t\<close> at the price \<open>k\<close>.  A send costs one, a
  granted split gives back the two requests it reserved, everything else is free.  The provider
  shows the laws for the leaves; the client gets the bisection routines, the settlement and the
  flush.
\<close>

locale pipeline_relation =
  fixes E :: "'w env" and Q :: "int \<Rightarrow> 'w transport \<Rightarrow> 'w transport \<Rightarrow> bool"
  assumes Q_trans: "Q a s t \<Longrightarrow> Q b t u \<Longrightarrow> Q (a + b) s u"
    and Q_mono: "Q a s t \<Longrightarrow> a \<le> b \<Longrightarrow> Q b s t"
    and Q_memory: "dlq_file (disk t) = dlq_file (disk s) \<Longrightarrow> world t = world s
                   \<Longrightarrow> bisect_budget t = bisect_budget s \<Longrightarrow> Q 0 s t"
    and Q_dlq: "write_dlq_rows E rows s = (ok, t) \<Longrightarrow> Q 0 s t"
    and Q_holdover: "with_file holdover_file holdover_file_update E hrows mode s = (ok, t) \<Longrightarrow> Q 0 s t"
    and Q_inflight: "with_file inflight_file inflight_file_update E irows mode s = (ok, t) \<Longrightarrow> Q 0 s t"
    and Q_io: "io_step E s = (ok, t) \<Longrightarrow> Q 0 s t"
    and Q_row: "dlq_row_of E e reason s = (row, t) \<Longrightarrow> Q 0 s t"
    and Q_sent: "Q 1 s (snd (through_breaker E batch s))"
    and Q_split: "bisect_request_available s = (True, t) \<Longrightarrow> Q (-2) s t"
begin

lemma Q_refl: "Q 0 s s"
  by (rule Q_memory) simp_all

lemma Q_then: "Q a s t \<Longrightarrow> Q 0 t u \<Longrightarrow> Q a s u"
  using Q_trans [of a s t 0 u] by simp

lemma Q_after: "Q 0 s t \<Longrightarrow> Q a t u \<Longrightarrow> Q a s u"
  using Q_trans [of 0 s t a u] by simp

lemma Q_inc: "Q 0 s (inc n k s)"
  by (rule Q_memory) simp_all

lemma Q_shift: "Q 0 s (shift_depth d s)"
  by (rule Q_memory) (simp_all add: shift_depth_def)

lemma Q_requeue: "Q 0 s (requeue_at_head batch s)"
  by (rule Q_memory) (simp_all add: requeue_at_head_def)

lemma Q_forget: "Q 0 s (forget_attempts E' batch s)"
  by (rule Q_memory) (simp_all add: forget_attempts_def)

lemma Q_clear_inflight: "Q 0 s (clear_inflight E s)"
proof -
  obtain ok t where st: "io_step E s = (ok, t)" by fastforce
  have "Q 0 t (t\<lparr>disk := (disk t)\<lparr>inflight_file := None\<rparr>\<rparr>)" by (rule Q_memory) simp_all
  with st Q_io [OF st] Q_then [OF Q_io [OF st]] show ?thesis
    by (cases ok) (simp_all add: clear_inflight_def Q_refl)
qed

lemma Q_rows: "dlq_rows_of E es reason s = (rs, t) \<Longrightarrow> Q 0 s t"
proof (induction es arbitrary: s rs)
  case (Cons e es)
  obtain r s1 where r: "dlq_row_of E e reason s = (r, s1)" by fastforce
  obtain rs2 s2 where rs: "dlq_rows_of E es reason s1 = (rs2, s2)" by fastforce
  from Cons.prems r rs have "t = s2" by simp
  with Q_then [OF Q_row [OF r] Cons.IH [OF rs [unfolded \<open>t = s2\<close> [symmetric]]]] show ?case by simp
qed (simp add: Q_refl)

lemma Q_persist_holdover: "Q 0 s (persist_holdover E rows s)"
proof (cases "rows = []")
  case False
  obtain ok t where w: "with_file holdover_file holdover_file_update E rows AppendMode s = (ok, t)"
    by fastforce
  with False Q_holdover [OF w] Q_then [OF Q_holdover [OF w] Q_inc] show ?thesis
    by (cases ok) (simp_all add: persist_holdover_def)
qed (simp add: persist_holdover_def Q_refl)

lemma Q_trim: "Q 0 s (trim_holdover_index E s)"
  by (rule Q_memory) (simp_all add: trim_holdover_index_def Let_def)

lemma Q_hold: "Q 0 s (hold_for_dlq E rows s)"
proof -
  let ?s1 = "inc ''dlq_holdover_total'' (int (length rows)) (s\<lparr>dlq_overflow := dlq_overflow s @ rows\<rparr>)"
  have "Q 0 s ?s1" by (rule Q_memory) simp_all
  from Q_then [OF Q_then [OF this Q_persist_holdover [of ?s1 rows]] Q_trim] show ?thesis
    by (simp add: hold_for_dlq_def Let_def)
qed

lemma Q_quarantine: "Q 0 s (quarantine_to_dlq E batch err s)"
proof -
  obtain rows s1 where rows: "dlq_rows_of E batch (dlq_reason err) s = (rows, s1)" by fastforce
  obtain ok s2 where w: "write_dlq_rows E rows s1 = (ok, s2)" by fastforce
  have q: "Q 0 s s2" by (rule Q_then [OF Q_rows [OF rows] Q_dlq [OF w]])
  show ?thesis
    using rows w Q_then [OF q Q_hold] Q_then [OF q Q_then [OF Q_clear_inflight Q_inc]]
    by (cases ok) (simp_all add: quarantine_to_dlq_def)
qed

lemma Q_retry: "Q 0 s (snd (retry_or_dlq E batch err dl s))"
proof -
  obtain bk t where r: "retry_or_dlq E batch err dl s = (bk, t)" by fastforce
  then have "Q 0 s t"
  proof (cases rule: retry_or_dlq_cases)
    case (requeued m)
    then show ?thesis by (intro Q_memory) simp_all
  next
    case (parked m)
    have "Q 0 s (s\<lparr>batch_attempts := m\<rparr>)" by (rule Q_memory) simp_all
    from Q_then [OF this Q_quarantine] parked show ?thesis by simp
  qed
  with r show ?thesis by simp
qed

lemma Q_dead_letter: "Q 0 s (snd (dead_letter_row E e reason s))"
proof -
  obtain r s1 where r: "dlq_row_of E e reason s = (r, s1)" by fastforce
  obtain ok s2 where w: "write_dlq_rows E [r] s1 = (ok, s2)" by fastforce
  obtain r' s3 where r': "dlq_row_of E e reason s2 = (r', s3)" by fastforce
  have q: "Q 0 s s2" by (rule Q_then [OF Q_row [OF r] Q_dlq [OF w]])
  show ?thesis
    using r w r' Q_then [OF q Q_then [OF Q_row [OF r'] Q_hold]] Q_then [OF q Q_inc]
    by (cases ok) (simp_all add: dead_letter_row_def)
qed

lemma Q_pop: "Q 0 s (pop_in_flight e s)"
  by (rule Q_memory; cases "eid e") (simp_all add: pop_in_flight_def)

lemma Q_settle_event: "Q 0 s (snd (settle_event E res e (a, s)))"
proof (cases "is_accepted res e")
  case True
  then show ?thesis using Q_pop by (simp add: settle_event_def)
next
  case False
  have dl: "Q 0 s t" if "dead_letter_row E e r s = (b, t)" for r b t
    using Q_dead_letter [of s e r] that by simp
  from False show ?thesis
    by (auto simp: settle_event_def Let_def Q_refl intro: dl split: option.splits prod.splits)
qed

lemma Q_settle_loop: "Q 0 s (snd (fold (settle_event E res) batch (a, s)))"
proof (induction batch arbitrary: a s)
  case (Cons e es)
  obtain a1 s1 where st: "settle_event E res e (a, s) = (a1, s1)" by fastforce
  with Q_settle_event [of s res e a] have "Q 0 s s1" by simp
  from Q_then [OF this Cons.IH [of s1 a1]] st show ?case by simp
qed (simp add: Q_refl)

lemma Q_settle_unknown: "Q 0 s (snd (settle_unknown E us (live, s)))"
proof (induction us arbitrary: live s)
  case (Cons u us)
  obtain e reason where u: "u = (e, reason)" by fastforce
  obtain bk s1 where r: "retry_or_dlq E [e] (UnknownRejection reason (eid e)) True s = (bk, s1)"
    by fastforce
  with Q_retry [of s "[e]" "UnknownRejection reason (eid e)" True] have "Q 0 s s1" by simp
  from Q_then [OF this Cons.IH [of s1 "live \<or> bk"]] u r show ?case by simp
qed (simp add: Q_refl)

lemma Q_settle: "Q 0 s (snd (settle_batch_outcome E batch res s))"
proof (cases "body_confirmed res")
  case False
  obtain bk t where "retry_or_dlq E batch (Unconfirmed (length batch)) True s = (bk, t)" by fastforce
  with False Q_retry [of s batch "Unconfirmed (length batch)" True] show ?thesis
    by (simp add: settle_batch_outcome_def)
next
  case True
  let ?a0 = "\<lparr>sa_requeue = [], sa_unknown = [], sa_refused = 0, sa_live = False\<rparr>"
  obtain a s1 where loop: "fold (settle_event E res) batch (?a0, s) = (a, s1)" by fastforce
  obtain live s2 where unk: "settle_unknown E (sa_unknown a) (sa_live a, s1) = (live, s2)" by fastforce
  have "Q 0 s s2"
    using Q_then [OF Q_settle_loop [of s res batch ?a0] Q_settle_unknown [of _ "sa_unknown a" "sa_live a"]]
      loop unk by simp
  then show ?thesis
    by (rule Q_then)
       (rule Q_memory; use True loop unk in
         \<open>simp add: settle_batch_outcome_def Let_def requeue_at_head_def\<close>)
qed

lemma Q_release: "Q 0 s (snd (release_holdover E ids s))"
proof (cases "ids = [] \<or> holdover_file (disk s) = None")
  case True
  then show ?thesis by (cases "ids = []") (simp_all add: release_holdover_def Q_refl)
next
  case False
  then obtain f where f: "holdover_file (disk s) = Some f" and ne: "ids \<noteq> []" by auto
  obtain ok1 s1 where st1: "io_step E s = (ok1, s1)" by fastforce
  obtain ok2 s2 where st2: "io_step E s1 = (ok2, s2)" by fastforce
  obtain ok t where w: "with_file holdover_file holdover_file_update E (kept_rows ids (all_lines f)) WriteMode s1 = (ok, t)"
    by fastforce
  have gone: "Q 0 s2 (s2\<lparr>disk := (disk s2)\<lparr>holdover_file := None\<rparr>\<rparr>)" by (rule Q_memory) simp_all
  note q2 = Q_then [OF Q_io [OF st1] Q_io [OF st2]]
  from f ne st1 st2 w Q_io [OF st1] q2 Q_then [OF q2 gone] Q_then [OF Q_io [OF st1] Q_holdover [OF w]]
  show ?thesis by (cases ok1; cases ok2) (simp_all add: release_holdover_def Let_def)
qed

lemma Q_drain: "Q 0 s (snd (drain_dlq_overflow E s))"
proof (cases "dlq_overflow s = []")
  case True
  then show ?thesis by (simp add: drain_dlq_overflow_def Q_refl)
next
  case ne: False
  obtain ok s2 where w: "write_dlq_rows E (dlq_overflow s) (s\<lparr>dlq_overflow := []\<rparr>) = (ok, s2)" by fastforce
  have "Q 0 s (s\<lparr>dlq_overflow := []\<rparr>)" by (rule Q_memory) simp_all
  from Q_then [OF this Q_dlq [OF w]] have q: "Q 0 s s2" .
  have "Q 0 s2 (s2\<lparr>dlq_overflow := dlq_overflow s\<rparr>)" by (rule Q_memory) simp_all
  from Q_then [OF q this] Q_then [OF q Q_then [OF Q_release Q_inc]] w ne show ?thesis
    by (cases ok) (simp_all add: drain_dlq_overflow_def Let_def)
qed

lemma Q_persist_inflight: "Q 0 s (persist_inflight E batch s)"
proof (cases "batch = []")
  case False
  obtain ok t where w: "with_file inflight_file inflight_file_update E batch WriteMode s = (ok, t)"
    by fastforce
  with False Q_inflight [OF w] show ?thesis by (simp add: persist_inflight_def)
qed (simp add: persist_inflight_def Q_refl)

lemma settle_recorded_frame:
  "dlq_file (disk (fold settle_recorded es s)) = dlq_file (disk s)
   \<and> world (fold settle_recorded es s) = world s
   \<and> bisect_budget (fold settle_recorded es s) = bisect_budget s"
  by (induction es arbitrary: s) (simp_all add: settle_recorded_def Let_def split: option.splits)

lemma Q_recorded: "deliver_recorded_overbudget batch err s = Some t \<Longrightarrow> Q 0 s t"
  by (rule Q_memory)
     (auto simp: deliver_recorded_overbudget_def Let_def requeue_at_head_def settle_recorded_frame
           split: send_exn.splits if_splits)

lemma Q_refused_split: "bisect_request_available s = (False, t) \<Longrightarrow> Q 0 s t"
  by (rule Q_memory) (auto simp: bisect_request_available_def split: if_splits)

lemma Q_attempt_half:
  assumes route: "\<And>err s1. through_breaker E half s = (Ret (Inl err), s1) \<Longrightarrow> Q 0 s1 (route_deferred E half err s1)"
  shows "Q 1 s (attempt_half E half s)"
proof -
  obtain r s1 where tb: "through_breaker E half s = (r, s1)" by fastforce
  with Q_sent [of s half] have q: "Q 1 s s1" by simp
  have "Q 0 s1 (attempt_half E half s)"
  proof (cases r)
    case (Exc x)
    with tb show ?thesis
      using Q_then [OF Q_requeue Q_inc] Q_retry by (simp add: attempt_half.simps)
  next
    case (BaseExc m)
    with tb show ?thesis by (simp add: attempt_half.simps Q_refl)
  next
    case (Ret v)
    with tb route show ?thesis by (cases v) (simp_all add: attempt_half.simps Q_forget)
  qed
  with q show ?thesis by (rule Q_then)
qed

lemma Q_bisect:
  "E' = E \<Longrightarrow> Q 0 s (route_deferred E' batch err s)"
  "E' = E \<Longrightarrow> Q 0 s (handle_http_rejection E' batch n s)"
  "E' = E \<Longrightarrow> Q 0 s (send_subbatches E' left right err s)"
  "E' = E \<Longrightarrow> Q 1 s (attempt_half E' batch s)"
proof (induction E' batch err s and E' batch n s and E' left right err s and E' batch s
    rule: route_deferred_handle_http_rejection_send_subbatches_attempt_half.induct)
  case (1 E' batch err s)
  show ?case
  proof (cases err)
    case (Refusal code status details)
    show ?thesis
    proof (cases "deliver_recorded_overbudget batch err s")
      case (Some s1)
      with Q_recorded [OF Some] Refusal show ?thesis by (simp add: route_deferred.simps)
    next
      case None
      show ?thesis
      proof (cases "length batch > 1 \<and> bisect_depth s < max_bisect_depth")
        case False
        with None Refusal show ?thesis using Q_then [OF Q_inc Q_quarantine] "1.prems"
          by (auto simp: route_deferred.simps)
      next
        case deep: True
        obtain ok s1 where av: "bisect_request_available s = (ok, s1)" by fastforce
        show ?thesis
        proof (cases ok)
          case False
          with av have "Q 0 s s1" by (auto intro: Q_refused_split)
          with av False deep None Refusal "1.prems" show ?thesis
            using Q_then [OF \<open>Q 0 s s1\<close> Q_then [OF Q_inc Q_quarantine]]
            by (simp add: route_deferred.simps)
        next
          case True
          with av have q: "Q (-2) s s1" by (auto intro: Q_split)
          note half = "1.IH"(2) [OF Refusal None deep av [symmetric] eqTrueI [OF True] refl "1.prems"]
          note split = Q_then [OF q Q_then [OF Q_inc Q_then [OF Q_shift Q_then [OF half Q_shift]]]]
          show ?thesis using Q_mono [OF split [of "-1"], of 0] av True deep None Refusal
            by (simp add: route_deferred.simps Let_def)
        qed
      qed
    qed
  next
    case (StatusError n)
    with "1.IH"(1) [OF StatusError "1.prems"] show ?thesis by (simp add: route_deferred.simps)
  qed (use "1.prems" in \<open>simp_all add: route_deferred.simps Q_retry\<close>)
next
  case (2 E' batch n s)
  show ?case
  proof (cases "n \<in> set transient_4xx \<or> n \<in> set auth_4xx \<or> \<not> length batch > 1")
    case True
    with "2.prems" show ?thesis
      by (auto simp: handle_http_rejection.simps Q_retry Q_quarantine intro: Q_then [OF Q_requeue Q_inc])
  next
    case False
    with Q_after [OF Q_inc "2.IH" [OF _ _ _ refl "2.prems"]] show ?thesis
      by (simp add: handle_http_rejection.simps Let_def)
  qed
next
  case (3 E' left right err s)
  show ?case
  proof (cases "bisect_depth s \<ge> max_bisect_depth")
    case True
    with "3.prems" show ?thesis by (simp add: send_subbatches.simps Q_quarantine)
  next
    case shallow: False
    obtain ok s1 where av: "bisect_request_available s = (ok, s1)" by fastforce
    show ?thesis
    proof (cases ok)
      case False
      with av have "Q 0 s s1" by (auto intro: Q_refused_split)
      with av False shallow "3.prems" show ?thesis
        using Q_then [OF \<open>Q 0 s s1\<close> Q_quarantine] by (simp add: send_subbatches.simps)
    next
      case True
      let ?s2 = "shift_depth 1 s1"
      let ?s3 = "if left = [] then ?s2 else attempt_half E' left ?s2"
      let ?s4 = "if right = [] then ?s3 else attempt_half E' right ?s3"
      from av True have q: "Q (-2) s ?s2" by (auto intro: Q_then [OF Q_split Q_shift])
      have "Q 1 ?s2 ?s3"
        using "3.IH"(1) [OF shallow av [symmetric] eqTrueI [OF True] refl _ "3.prems"] Q_mono [OF Q_refl]
        by (cases "left = []") simp_all
      moreover have "Q 1 ?s3 ?s4"
        using "3.IH"(2) [OF shallow av [symmetric] eqTrueI [OF True] refl refl _ "3.prems"]
          Q_mono [OF Q_refl]
        by (cases "right = []") simp_all
      ultimately have "Q (1 + 1) ?s2 ?s4" by (rule Q_trans)
      from Q_trans [OF q Q_then [OF this Q_shift [of _ "-1"]]]
      have "Q 0 s (shift_depth (-1) ?s4)" by simp
      with av shallow True show ?thesis by (simp add: send_subbatches.simps Let_def)
    qed
  qed
next
  case (4 E' half s)
  show ?case unfolding "4.prems"
  proof (rule Q_attempt_half)
    fix err s1
    assume tb: "through_breaker E half s = (Ret (Inl err), s1)"
    with "4.IH" [of "Ret (Inl err)" s1 "Inl err" err] "4.prems"
    show "Q 0 s1 (route_deferred E half err s1)" by simp
  qed
qed

lemma Q_flush:
  assumes ne: "buffer (snd (drain_dlq_overflow E s)) \<noteq> []"
  shows "Q 1 (refilled E s) (do_flush E s)"
proof -
  obtain n s1 where d: "drain_dlq_overflow E s = (n, s1)" by fastforce
  let ?B = "buffer s1"
  let ?s2 = "s1\<lparr>buffer := [], bisect_budget := max_bisect_requests E\<rparr>"
  let ?s3 = "persist_inflight E ?B ?s2"
  obtain r s4 where tb: "through_breaker E ?B ?s3 = (r, s4)" by fastforce
  have "Q 0 (refilled E s) ?s2" by (rule Q_memory) (simp_all add: refilled_def d)
  from Q_trans [OF Q_then [OF this Q_persist_inflight [of ?s2 ?B]] Q_sent [of ?s3 ?B]] tb
  have q4: "Q 1 (refilled E s) s4" by simp
  have br: "Q 0 s4 (requeue_after_breaker E ?B s4)"
    by (rule Q_memory)
       (simp_all add: requeue_after_breaker_def drop_newest_with_priority_def Let_def split: prod.splits)
  have fin: "Q 0 s4 (finish_batch E ?B res s4)" for res
  proof -
    obtain ok s5 where st: "settle_batch_outcome E ?B res s4 = (ok, s5)" by fastforce
    with Q_settle [of s4 ?B res] have "Q 0 s4 s5" by simp
    with st Q_then [OF _ Q_then [OF Q_forget Q_clear_inflight]] show ?thesis
      by (cases ok) (simp_all add: finish_batch_def)
  qed
  have "Q 0 s4 (do_flush E s)"
    using d ne tb br fin Q_retry Q_bisect(1) [OF refl] Q_refl
    by (cases r) (simp_all add: do_flush_def Let_def split: sum.splits)
  with q4 show ?thesis by (rule Q_then)
qed

lemma idle_flush:
  "buffer (snd (drain_dlq_overflow E s)) = [] \<Longrightarrow> do_flush E s = snd (drain_dlq_overflow E s)"
  by (simp add: do_flush_def Let_def)

end

section \<open>The dead-letter file\<close>

text \<open>One append below the cap.\<close>

inductive dlq_append :: "'w env \<Rightarrow> dlq_row wfile option \<Rightarrow> dlq_row wfile option \<Rightarrow> bool" for E where
  below_cap: "int (file_size (env_row_len E) f) + incoming_bytes E rows \<le> dlq_max_bytes E \<Longrightarrow>
     dlq_append E f (Some (written rows AppendMode f))"

definition dlq_grown :: "'w env \<Rightarrow> 'w transport \<Rightarrow> 'w transport \<Rightarrow> bool" where
  "dlq_grown E s t \<longleftrightarrow> (dlq_append E)\<^sup>*\<^sup>* (dlq_file (disk s)) (dlq_file (disk t))"

lemma dlq_grown_same: "dlq_file (disk t) = dlq_file (disk s) \<Longrightarrow> dlq_grown E s t"
  by (simp add: dlq_grown_def)

lemma dlq_grown_write:
  assumes "write_dlq_rows E rows s = (ok, t)"
  shows "dlq_grown E s t"
proof (cases "rows = [] \<or> \<not> (dlq_size E s < dlq_max_bytes E
              \<and> dlq_size E s + incoming_bytes E rows \<le> dlq_max_bytes E)")
  case True
  with assms have "dlq_file (disk t) = dlq_file (disk s)"
    by (auto simp: write_dlq_rows_def dlq_over_cap_def Let_def split: if_splits)
  then show ?thesis by (rule dlq_grown_same)
next
  case False
  with assms have "with_file dlq_file dlq_file_update E rows AppendMode s = (ok, t)"
    by (simp add: write_dlq_rows_def dlq_over_cap_def Let_def)
  then obtain w where t: "t = s\<lparr>world := w, disk := (disk s)\<lparr>dlq_file :=
      (if ok then Some (written rows AppendMode (dlq_file (disk s))) else dlq_file (disk s))\<rparr>\<rparr>"
    by (rule dlq_write_cases)
  from False have "dlq_append E (dlq_file (disk s)) (Some (written rows AppendMode (dlq_file (disk s))))"
    by (intro below_cap) (simp add: dlq_size_def)
  with t show ?thesis by (cases ok) (auto simp: dlq_grown_def)
qed

interpretation dlq_growth: pipeline_relation E "\<lambda>_. dlq_grown E"
proof unfold_locales
  fix s t u :: "'a transport"
  assume "dlq_grown E s t" "dlq_grown E t u"
  then show "dlq_grown E s u" by (simp add: dlq_grown_def)
next
  fix e reason s row and t :: "'a transport"
  assume "dlq_row_of E e reason s = (row, t)"
  from dlq_row_of_state [OF this] show "dlq_grown E s t" by (auto intro: dlq_grown_same)
next
  fix batch and s :: "'a transport"
  show "dlq_grown E s (snd (through_breaker E batch s))"
    using through_breaker_frame [of s E batch] by (auto simp: sent_frame_def intro: dlq_grown_same)
next
  fix s ok and t :: "'a transport"
  assume "io_step E s = (ok, t)"
  from io_step_state [OF this] show "dlq_grown E s t" by (auto intro: dlq_grown_same)
next
  fix rows mode s ok and t :: "'a transport"
  assume "with_file holdover_file holdover_file_update E rows mode s = (ok, t)"
  then show "dlq_grown E s t" by (rule holdover_write_cases) (simp add: dlq_grown_same)
next
  fix rows mode s ok and t :: "'a transport"
  assume "with_file inflight_file inflight_file_update E rows mode s = (ok, t)"
  then show "dlq_grown E s t" by (rule inflight_write_cases) (simp add: dlq_grown_same)
qed (auto intro: dlq_grown_same dlq_grown_write simp: bisect_request_available_def split: if_splits)

lemma dlq_grown_flush: "dlq_grown E s (do_flush E s)"
proof (cases "buffer (snd (drain_dlq_overflow E s)) = []")
  case True
  with dlq_growth.Q_drain [of E s] show ?thesis by (simp add: dlq_growth.idle_flush)
next
  case False
  have "dlq_grown E s (refilled E s)"
    using dlq_growth.Q_drain [of E s] by (simp add: dlq_grown_def refilled_def)
  with dlq_growth.Q_flush [OF False] show ?thesis by (simp add: dlq_grown_def)
qed

lemma dlq_append_cap:
  assumes "dlq_append E f g"
  shows "int (file_size (env_row_len E) g) \<le> dlq_max_bytes E"
  using assms
proof cases
  case (below_cap rows)
  have "sum_list (map (\<lambda>l. line_size len l + 1) (map Row rows)) = sum_list (map (\<lambda>r. len r + 1) rows)"
    for len :: "dlq_row \<Rightarrow> nat" by (simp add: o_def)
  with below_cap show ?thesis
    by (auto simp: file_size_def written_def incoming_bytes_def split: option.splits)
qed

lemma dlq_append_rows:
  "dlq_append E f g \<Longrightarrow> \<exists>rows. complete_rows g = complete_rows f @ rows"
  by (erule dlq_append.cases) simp

lemma dlq_grown_rows:
  "(dlq_append E)\<^sup>*\<^sup>* f g \<Longrightarrow> \<exists>rows. complete_rows g = complete_rows f @ rows"
  by (induction rule: rtranclp_induct) (use dlq_append_rows in \<open>fastforce+\<close>)

lemma dlq_grown_cap:
  "(dlq_append E)\<^sup>*\<^sup>* f g \<Longrightarrow> int (file_size (env_row_len E) f) \<le> dlq_max_bytes E \<Longrightarrow>
     int (file_size (env_row_len E) g) \<le> dlq_max_bytes E"
  by (induction rule: rtranclp_induct) (use dlq_append_cap in auto)

text \<open>
  the dead-letter queue is bounded and append-only.  A flush leaves every row that was in the
  file where it was and only appends rows, and a file within \<open>NULLRUN_DLQ_MAX_BYTES\<close> stays
  within it, over every path on which the flush may park events.
\<close>

theorem dlq_bounded_append_only:
  assumes "dlq_size E s \<le> dlq_max_bytes E"
  shows "dlq_size E (do_flush E s) \<le> dlq_max_bytes E
         \<and> (\<exists>rows. complete_rows (dlq_file (disk (do_flush E s))) = complete_rows (dlq_file (disk s)) @ rows)"
  using assms dlq_grown_cap dlq_grown_rows dlq_grown_flush [of E s]
  unfolding dlq_grown_def dlq_size_def by blast

theorem dlq_bounded_append_only_witness:
  "dlq_size (scene refuse_first) (do_flush (scene refuse_first) (scene_state [plain_event ''a''])) \<le> 1000
   \<and> (\<exists>rows. complete_rows (dlq_file (disk (do_flush (scene refuse_first) (scene_state [plain_event ''a'']))))
             = complete_rows (dlq_file (disk (scene_state [plain_event ''a'']))) @ rows)"
  using dlq_bounded_append_only [of "scene refuse_first" "scene_state [plain_event ''a'']"]
  by (simp add: scene_def scene_state_def dlq_size_def file_size_def empty_disk_def)

section \<open>The number of requests\<close>

text \<open>An environment with a meter: the second component of the world counts the sends.\<close>

definition metered :: "'w env \<Rightarrow> ('w \<times> nat) env" where
  "metered E =
     \<lparr>env_send = (\<lambda>b (w, n). case env_send E b w of (x, w') \<Rightarrow> (x, (w', Suc n))),
      env_io = (\<lambda>(w, n). case env_io E w of (x, w') \<Rightarrow> (x, (w', n))),
      env_time = (\<lambda>(w, n). case env_time E w of (x, w') \<Rightarrow> (x, (w', n))),
      env_mono = (\<lambda>(w, n). case env_mono E w of (x, w') \<Rightarrow> (x, (w', n))),
      env_digest = env_digest E, env_row_len = env_row_len E,
      max_batch_attempts = max_batch_attempts E, dlq_max_bytes = dlq_max_bytes E,
      holdover_index_max = holdover_index_max E, max_bisect_requests = max_bisect_requests E,
      max_buffer_size = max_buffer_size E, batch_size = batch_size E\<rparr>"

definition sends :: "('w \<times> nat) transport \<Rightarrow> int" where
  "sends s = int (snd (world s))"

definition send_price :: "int \<Rightarrow> ('w \<times> nat) transport \<Rightarrow> ('w \<times> nat) transport \<Rightarrow> bool" where
  "send_price k s t \<longleftrightarrow>
     sends t + bisect_budget t \<le> sends s + bisect_budget s + k
     \<and> bisect_budget t \<ge> min 0 (bisect_budget s)"

lemma metered_io:
  assumes "with_file get upd (metered E) rows mode s = (ok, t)"
  shows "sends t = sends s \<and> bisect_budget t = bisect_budget s"
  using assms
  by (cases "world s")
     (auto simp: with_file_def map_world_def metered_def sends_def write_events_atomic_def
           split: prod.splits if_splits)

lemma metered_unlink:
  assumes "io_step (metered E) s = (ok, t)"
  shows "sends t = sends s \<and> bisect_budget t = bisect_budget s"
  using assms by (cases "world s") (auto simp: io_step_def map_world_def metered_def sends_def split: prod.splits)

lemma metered_row:
  assumes "dlq_row_of (metered E) e reason s = (row, t)"
  shows "sends t = sends s \<and> bisect_budget t = bisect_budget s"
  using assms
  by (cases "world s")
     (auto simp: dlq_row_of_def map_world_def metered_def sends_def Let_def
           split: prod.splits option.splits if_splits)

lemma metered_dlq:
  assumes "write_dlq_rows (metered E) rows s = (ok, t)"
  shows "sends t = sends s \<and> bisect_budget t = bisect_budget s"
  using assms metered_io [of dlq_file dlq_file_update E rows AppendMode]
  by (auto simp: write_dlq_rows_def dlq_over_cap_def Let_def sends_def split: if_splits)

lemma metered_send:
  assumes "send_closure (metered E) batch s = (q, t)"
  shows "sends t = sends s + 1"
proof -
  have pop: "world (pop_in_flight e u) = world u" for e and u :: "('a \<times> nat) transport"
    by (cases "eid e") (simp_all add: pop_in_flight_def)
  have loop: "world (fold (\<lambda>e t. if is_accepted res e then pop_in_flight e t else t) es u) = world u"
    for res es and u :: "('a \<times> nat) transport"
    by (induction es arbitrary: u) (simp_all add: pop)
  from assms show ?thesis
    by (cases "world s")
       (auto simp: send_closure_def map_world_def metered_def sends_def pop_accepted_def loop
             split: prod.splits sum.splits if_splits)
qed

lemma metered_through:
  "sends (snd (through_breaker (metered E) batch s)) \<le> sends s + 1"
proof -
  obtain now u fin w where t: "env_mono (metered E) (world s) = ((now, u, fin), w)"
    by (metis prod_cases3 prod.collapse)
  let ?s1 = "s\<lparr>world := w\<rparr>"
  have w: "sends ?s1 = sends s" using t
    by (cases "world s") (auto simp: metered_def sends_def split: prod.splits)
  obtain r b s2 where c: "cb_call now u fin (send_closure (metered E) batch) (breaker ?s1) ?s1 = (r, b, s2)"
    by (metis prod_cases3)
  have "sends (snd (snd (cb_call now u fin (send_closure (metered E) batch) (breaker ?s1) ?s1))) \<le> sends s + 1"
  proof (rule breaker_call.call_preserves)
    fix q w'
    assume "send_closure (metered E) batch ?s1 = (q, w')"
    from metered_send [OF this] w show "sends w' \<le> sends s + 1" by simp
  qed (simp add: w)
  with t c show ?thesis by (simp add: through_breaker_def map_world_def sends_def)
qed

lemma sends_frame [simp]: "sends (s\<lparr>bisect_budget := k\<rparr>) = sends s"
  by (simp add: sends_def)

lemma sends_world: "world t = world s \<Longrightarrow> sends t = sends s"
  by (simp add: sends_def)

lemma send_price_free:
  "sends t = sends s \<and> bisect_budget t = bisect_budget s \<Longrightarrow> send_price 0 s t"
  by (simp add: send_price_def)

interpretation send_meter: pipeline_relation "metered E" send_price
proof unfold_locales
  fix batch and s :: "('a \<times> nat) transport"
  show "send_price 1 s (snd (through_breaker (metered E) batch s))"
    using metered_through [of E batch s] through_breaker_frame [of s "metered E" batch]
    by (simp add: send_price_def sent_frame_def)
next
  fix a b and s t u :: "('a \<times> nat) transport"
  assume "send_price a s t" "send_price b t u"
  then show "send_price (a + b) s u" unfolding send_price_def by linarith
next
  fix a b and s t :: "('a \<times> nat) transport"
  assume "send_price a s t" "a \<le> b"
  then show "send_price b s t" by (simp add: send_price_def)
next
  fix s t :: "('a \<times> nat) transport"
  assume "bisect_request_available s = (True, t)"
  then have "t = s\<lparr>bisect_budget := bisect_budget s - 2\<rparr>" "bisect_budget s \<ge> 2"
    by (auto simp: bisect_request_available_def split: if_splits)
  then show "send_price (-2) s t" by (simp add: send_price_def)
next
  fix s t :: "('a \<times> nat) transport"
  assume "world t = world s" "bisect_budget t = bisect_budget s"
  then show "send_price 0 s t" by (intro send_price_free conjI sends_world)
qed (drule metered_dlq metered_io metered_row metered_unlink, erule send_price_free)+

lemma drain_budget: "bisect_budget (snd (drain_dlq_overflow E s)) = bisect_budget s"
proof (cases "dlq_overflow s = []")
  case True
  then show ?thesis by (simp add: drain_dlq_overflow_def)
next
  case ne: False
  obtain ok s2 where w: "write_dlq_rows E (dlq_overflow s) (s\<lparr>dlq_overflow := []\<rparr>) = (ok, s2)" by fastforce
  then have b2: "bisect_budget s2 = bisect_budget s" by (cases rule: write_dlq_rows_cases) simp_all
  obtain rok s3 where rel: "release_holdover E (drained_ids (dlq_overflow s)) s2 = (rok, s3)" by fastforce
  from release_holdover_state [OF rel] b2 have "bisect_budget s3 = bisect_budget s" by auto
  with w rel ne b2 show ?thesis by (cases ok) (simp_all add: drain_dlq_overflow_def Let_def)
qed

text \<open>
  C40: a flush is bounded in batch sends.  Whatever the server answers, one flush calls the batch send at
  most once for the batch and \<open>_max_bisect_requests\<close> times more while it bisects, however large the batch
  and however its halves are refused.  Each send is a call of \<open>_send_batch_with_retry_info\<close>, which posts at most
  \<open>max_retries + 1\<close> times.
\<close>

theorem flush_request_bound:
  "sends (do_flush (metered E) s) \<le> sends s + 1 + max 0 (max_bisect_requests E)"
proof -
  have drained: "sends (snd (drain_dlq_overflow (metered E) s)) \<le> sends s"
    using send_meter.Q_drain [where E = E and s = s] by (simp add: send_price_def drain_budget)
  show ?thesis
  proof (cases "buffer (snd (drain_dlq_overflow (metered E) s)) = []")
    case True
    with drained show ?thesis by (simp add: send_meter.idle_flush)
  next
    case False
    have "max_bisect_requests (metered E) = max_bisect_requests E" by (simp add: metered_def)
    with send_meter.Q_flush [OF False] drained show ?thesis
      unfolding send_price_def refilled_def sends_frame by (auto simp: min_def max_def split: if_splits)
  qed
qed

end
