(* ===== verification/Delivery_Settlement.thy ===== *)
theory Delivery_Settlement
  imports Delivery_Laws "HOL-Library.Sublist"
begin

text \<open>
  What a settlement guarantees event by event: when the durable copy \<open>.inflight\<close> may be dropped,
  what the bisection forgets, how the buffer overflow chooses its victims and when the retry
  budget ends.
\<close>

section \<open>Events on disk\<close>

definition disk_rows :: "'w transport \<Rightarrow> dlq_row list" where
  "disk_rows s = complete_rows (dlq_file (disk s)) @ complete_rows (holdover_file (disk s))"

text \<open>The event is in a complete row of the DLQ file or of the holdover file.\<close>

definition on_disk :: "'w transport \<Rightarrow> event \<Rightarrow> bool" where
  "on_disk s e \<longleftrightarrow> (\<exists>r \<in> set (disk_rows s). r_event r = Some e)"

definition disk_grows :: "'w transport \<Rightarrow> 'w transport \<Rightarrow> bool" where
  "disk_grows s t \<longleftrightarrow> set (disk_rows s) \<subseteq> set (disk_rows t)"

lemma disk_grows_trans: "disk_grows s t \<Longrightarrow> disk_grows t u \<Longrightarrow> disk_grows s u"
  by (auto simp: disk_grows_def)

lemma disk_grows_on_disk: "disk_grows s t \<Longrightarrow> on_disk s e \<Longrightarrow> on_disk t e"
  by (auto simp: disk_grows_def on_disk_def)

lemma disk_grows_same:
  "dlq_file (disk t) = dlq_file (disk s) \<Longrightarrow> holdover_file (disk t) = holdover_file (disk s) \<Longrightarrow> disk_grows s t"
  by (simp add: disk_grows_def disk_rows_def)

lemma on_disk_same:
  "dlq_file (disk t) = dlq_file (disk s) \<Longrightarrow> holdover_file (disk t) = holdover_file (disk s) \<Longrightarrow> on_disk t e = on_disk s e"
  by (simp add: on_disk_def disk_rows_def)

lemma write_dlq_disk:
  assumes "write_dlq_rows E rows s = (ok, t)"
  shows "disk_grows s t" and "ok \<Longrightarrow> set rows \<subseteq> set (disk_rows t)"
  using assms by (cases rule: write_dlq_rows_cases; auto simp: disk_grows_def disk_rows_def)+

text \<open>The durable writes of this section succeed: the lock is granted and no I/O fails.\<close>

definition io_ok :: "'w env \<Rightarrow> bool" where
  "io_ok E \<longleftrightarrow> (\<forall>w. fst (env_io E w))"

lemma hold_disk:
  assumes "io_ok E"
  shows "disk_grows s (hold_for_dlq E rows s)" and "set rows \<subseteq> set (disk_rows (hold_for_dlq E rows s))"
proof -
  have "disk_grows s (hold_for_dlq E rows s) \<and> set rows \<subseteq> set (disk_rows (hold_for_dlq E rows s))"
  proof (cases "rows = []")
    case True
    then show ?thesis
      by (simp add: hold_for_dlq_def trim_holdover_index_def persist_holdover_def Let_def disk_grows_same)
  next
    case False
    let ?s1 = "inc ''dlq_holdover_total'' (int (length rows)) (s\<lparr>dlq_overflow := dlq_overflow s @ rows\<rparr>)"
    obtain w where io: "env_io E (world s) = (True, w)" using assms by (metis io_ok_def prod.collapse)
    have "with_file holdover_file holdover_file_update E rows AppendMode ?s1
          = (True, ?s1\<lparr>world := w, disk := (disk s)\<lparr>holdover_file :=
                Some (written rows AppendMode (holdover_file (disk s)))\<rparr>\<rparr>)"
      using io by (simp add: with_file_def map_world_def write_events_atomic_def)
    with False have "persist_holdover E rows ?s1 = ?s1\<lparr>world := w, disk := (disk s)\<lparr>holdover_file :=
                Some (written rows AppendMode (holdover_file (disk s)))\<rparr>\<rparr>"
      by (simp add: persist_holdover_def)
    then show ?thesis
      by (auto simp: hold_for_dlq_def trim_holdover_index_def Let_def disk_grows_def disk_rows_def)
  qed
  then show "disk_grows s (hold_for_dlq E rows s)"
    and "set rows \<subseteq> set (disk_rows (hold_for_dlq E rows s))" by blast+
qed

lemma quarantine_disk:
  assumes "io_ok E"
  shows "disk_grows s (quarantine_to_dlq E B err s)"
    and "e \<in> set B \<Longrightarrow> on_disk (quarantine_to_dlq E B err s) e"
proof -
  obtain rows s1 where rows: "dlq_rows_of E B (dlq_reason err) s = (rows, s1)" by fastforce
  obtain ok s2 where w: "write_dlq_rows E rows s1 = (ok, s2)" by fastforce
  from dlq_rows_of_state [OF rows] have g1: "disk_grows s s1" and ev: "map r_event rows = map Some B"
    by (auto intro: disk_grows_same)
  let ?t = "quarantine_to_dlq E B err s"
  have "disk_grows s2 ?t \<and> set rows \<subseteq> set (disk_rows ?t)"
  proof (cases ok)
    case True
    with rows w have "disk_rows ?t = disk_rows s2"
      using clear_inflight_state [of E s2] by (auto simp: quarantine_to_dlq_def disk_rows_def)
    with write_dlq_disk(2) [OF w True] show ?thesis by (simp add: disk_grows_def)
  next
    case False
    with rows w hold_disk [OF assms, where s = s2 and rows = rows] show ?thesis by (simp add: quarantine_to_dlq_def)
  qed
  with g1 write_dlq_disk(1) [OF w] show "disk_grows s ?t" by (blast intro: disk_grows_trans)
  assume "e \<in> set B"
  then have "Some e \<in> set (map r_event rows)" unfolding ev by simp
  with \<open>disk_grows s2 ?t \<and> set rows \<subseteq> set (disk_rows ?t)\<close> show "on_disk ?t e"
    by (auto simp: on_disk_def)
qed

lemma retry_disk:
  assumes "io_ok E" and "retry_or_dlq E B err dl s = (back, t)"
  shows "disk_grows s t" and "\<not> back \<Longrightarrow> e \<in> set B \<Longrightarrow> on_disk t e"
  using assms(2)
proof (cases rule: retry_or_dlq_cases)
  case (requeued m)
  then show "disk_grows s t" by (simp add: disk_grows_same)
next
  case (parked m)
  have "disk_grows s (s\<lparr>batch_attempts := m\<rparr>)" by (simp add: disk_grows_same)
  with parked(3) quarantine_disk(1) [OF assms(1)] show "disk_grows s t"
    by (blast intro: disk_grows_trans)
next
  assume "\<not> back" "e \<in> set B"
  with assms(2) show "on_disk t e"
    by (cases rule: retry_or_dlq_cases) (auto intro: quarantine_disk(2) [OF assms(1)])
qed

lemma dead_letter_disk:
  assumes "io_ok E" and "dead_letter_row E e reason s = (live, t)"
  shows "disk_grows s t \<and> on_disk t e"
proof -
  obtain r s1 where r: "dlq_row_of E e reason s = (r, s1)" by fastforce
  obtain ok s2 where w: "write_dlq_rows E [r] s1 = (ok, s2)" by fastforce
  obtain r' s3 where r': "dlq_row_of E e reason s2 = (r', s3)" by fastforce
  from dlq_row_of_state [OF r] have g1: "disk_grows s s1" and e: "r_event r = Some e"
    by (auto intro: disk_grows_same)
  from dlq_row_of_state [OF r'] have g3: "disk_grows s2 s3" and e': "r_event r' = Some e"
    by (auto intro: disk_grows_same)
  from g1 write_dlq_disk(1) [OF w] have g2: "disk_grows s s2" by (rule disk_grows_trans)
  show ?thesis
  proof (cases ok)
    case True
    with assms(2) r w have "disk_rows t = disk_rows s2"
      by (auto simp: dead_letter_row_def disk_rows_def)
    with g2 e write_dlq_disk(2) [OF w True] show ?thesis by (auto simp: disk_grows_def on_disk_def)
  next
    case False
    with assms(2) r w r' have "t = hold_for_dlq E [r'] s3" by (simp add: dead_letter_row_def)
    with hold_disk [OF assms(1), where s = s3 and rows = "[r']"] g2 g3 e' show ?thesis
      by (auto simp: on_disk_def disk_grows_def)
  qed
qed

section \<open>When the durable copy may go\<close>

text \<open>What the settlement loop knows about an event it has passed.\<close>

definition placed :: "send_result \<Rightarrow> settle_acc \<Rightarrow> 'w transport \<Rightarrow> event \<Rightarrow> bool" where
  "placed res a s e \<longleftrightarrow> is_accepted res e \<or> on_disk s e \<or> e \<in> set (sa_requeue a) \<or> e \<in> fst ` set (sa_unknown a)"

lemma settle_event_placed:
  assumes "io_ok E" and "settle_event E res e (a, s) = (a', t)"
    and "sa_requeue a \<noteq> [] \<Longrightarrow> sa_live a"
  shows "placed res a' t e" and "placed res a s x \<Longrightarrow> placed res a' t x"
    and "sa_requeue a' \<noteq> [] \<Longrightarrow> sa_live a'" and "disk_grows s t"
proof -
  have dl: "disk_grows s u \<and> on_disk u e" if "dead_letter_row E e r s = (b, u)" for r b u
    using dead_letter_disk [OF assms(1) that] .
  have "placed res a' t e \<and> disk_grows s t \<and> (sa_requeue a' \<noteq> [] \<longrightarrow> sa_live a')
        \<and> set (sa_requeue a) \<subseteq> set (sa_requeue a') \<and> set (sa_unknown a) \<subseteq> set (sa_unknown a')"
  proof (cases "is_accepted res e")
    case True
    with assms(2,3) have "a' = a" "t = pop_in_flight e s" by (auto simp: settle_event_def)
    with True assms(3) show ?thesis by (auto simp: placed_def pop_in_flight_fields intro: disk_grows_same)
  next
    case False
    with assms(2,3) show ?thesis
      by (auto simp: settle_event_def Let_def placed_def intro: disk_grows_same dest: dl
               split: option.splits if_splits prod.splits)
  qed
  then show "placed res a' t e" and "disk_grows s t" and "sa_requeue a' \<noteq> [] \<Longrightarrow> sa_live a'"
    and "placed res a s x \<Longrightarrow> placed res a' t x"
    using disk_grows_on_disk by (auto simp: placed_def)
qed

lemma settle_loop_placed:
  assumes "io_ok E" and "fold (settle_event E res) batch (a, s) = (a', t)"
    and "sa_requeue a \<noteq> [] \<Longrightarrow> sa_live a"
  shows "(\<forall>e \<in> set batch. placed res a' t e) \<and> (\<forall>x. placed res a s x \<longrightarrow> placed res a' t x)
         \<and> (sa_requeue a' \<noteq> [] \<longrightarrow> sa_live a') \<and> disk_grows s t"
  using assms(2,3)
proof (induction batch arbitrary: a s)
  case (Cons e es)
  obtain a1 s1 where st: "settle_event E res e (a, s) = (a1, s1)" by fastforce
  note ev = settle_event_placed [OF assms(1) st Cons.prems(2)]
  from Cons.prems(1) st have "fold (settle_event E res) es (a1, s1) = (a', t)" by simp
  from Cons.IH [OF this ev(3)] ev show ?case using disk_grows_trans by (auto; blast)
qed (auto intro: disk_grows_same)

lemma settle_unknown_placed:
  assumes "io_ok E" and "settle_unknown E us (live, s) = (live', t)" and "\<not> live'"
  shows "\<not> live \<and> disk_grows s t \<and> (\<forall>e \<in> fst ` set us. on_disk t e)"
  using assms(2)
proof (induction us arbitrary: live s)
  case Nil
  with assms(3) show ?case by (simp add: disk_grows_same)
next
  case (Cons u us)
  obtain e reason where u: "u = (e, reason)" by fastforce
  obtain bk s1 where r: "retry_or_dlq E [e] (UnknownRejection reason (eid e)) True s = (bk, s1)"
    by fastforce
  with Cons.prems u have "settle_unknown E us (live \<or> bk, s1) = (live', t)" by simp
  from Cons.IH [OF this]
  have IH: "\<not> (live \<or> bk) \<and> disk_grows s1 t \<and> (\<forall>e \<in> fst ` set us. on_disk t e)" .
  then have "disk_grows s t"
    using retry_disk(1) [OF assms(1) r] disk_grows_trans by blast
  moreover have "on_disk t e"
    using IH retry_disk(2) [OF assms(1) r, of e] disk_grows_on_disk by auto
  ultimately show ?case
    using IH u by simp
qed

text \<open>
  C17: a batch reported as settled is durable.  Let the durable writes succeed.  When
  \<open>_settle_batch_outcome\<close> returns True for a 2xx answer (nothing is live any more: the one return value on which
  the 2xx branch of \<open>_do_flush_locked\<close> itself deletes \<open>.inflight\<close>), every event of the batch was accepted by its id in the
  answer or is in a row of the DLQ or of the holdover file, for every shape of answer: partial, unconfirmed,
  duplicated or unaccounted.  Other deletions of the file are not covered: those of the branches for refused
  batches, and that of a quarantine inside a settlement that returns False, which can drop a live copy
  (\<open>quarantine_drops_live_copy\<close>).
\<close>

theorem settled_batch_is_durable:
  assumes io: "io_ok E" and st: "settle_batch_outcome E batch res s = (True, t)"
  shows "\<forall>e \<in> set batch. body_confirmed res \<and> is_accepted res e \<or> on_disk t e"
proof (cases "body_confirmed res")
  case False
  obtain bk u where r: "retry_or_dlq E batch (Unconfirmed (length batch)) True s = (bk, u)" by fastforce
  with False st have "\<not> bk" "t = u" by (simp_all add: settle_batch_outcome_def)
  with retry_disk(2) [OF io r] show ?thesis by blast
next
  case True
  let ?a0 = "\<lparr>sa_requeue = [], sa_unknown = [], sa_refused = 0, sa_live = False\<rparr>"
  obtain a s1 where loop: "fold (settle_event E res) batch (?a0, s) = (a, s1)" by fastforce
  obtain live s2 where unk: "settle_unknown E (sa_unknown a) (sa_live a, s1) = (live, s2)" by fastforce
  from True st loop unk have live: "\<not> live"
    by (auto simp: settle_batch_outcome_def Let_def split: if_splits)
  from settle_unknown_placed [OF io unk live] have u: "\<not> sa_live a" "disk_grows s1 s2"
    "\<forall>e \<in> fst ` set (sa_unknown a). on_disk s2 e" by auto
  from settle_loop_placed [OF io loop] have l: "\<forall>e \<in> set batch. placed res a s1 e"
    "sa_requeue a \<noteq> [] \<longrightarrow> sa_live a" by auto
  with u have "sa_requeue a = []" by blast
  with True st loop unk have "on_disk t e = on_disk s2 e" for e
    by (intro on_disk_same) (auto simp: settle_batch_outcome_def Let_def split: if_splits)
  moreover have "is_accepted res e \<or> on_disk s2 e" if "e \<in> set batch" for e
    using l(1) that u(3) disk_grows_on_disk [OF u(2), of e] \<open>sa_requeue a = []\<close>
    unfolding placed_def by fastforce
  ultimately show ?thesis using True by blast
qed

theorem settled_batch_is_durable_witness:
  "settle_batch_outcome (scene refuse_first) [plain_event ''a'']
     \<lparr>accepted_event_ids = [''a''], rejected_items = [], body_confirmed = True\<rparr>
     (scene_state [plain_event ''a''])
   = (True, pop_in_flight (plain_event ''a'') (scene_state [plain_event ''a'']))
   \<and> (body_confirmed \<lparr>accepted_event_ids = [''a''], rejected_items = [], body_confirmed = True\<rparr>
        \<and> is_accepted \<lparr>accepted_event_ids = [''a''], rejected_items = [], body_confirmed = True\<rparr> (plain_event ''a'')
        \<or> on_disk (pop_in_flight (plain_event ''a'') (scene_state [plain_event ''a''])) (plain_event ''a''))"
proof -
  have st: "settle_batch_outcome (scene refuse_first) [plain_event ''a'']
     \<lparr>accepted_event_ids = [''a''], rejected_items = [], body_confirmed = True\<rparr>
     (scene_state [plain_event ''a''])
   = (True, pop_in_flight (plain_event ''a'') (scene_state [plain_event ''a'']))"
    by (simp add: settle_batch_outcome_def settle_event_def is_accepted_def plain_event_def Let_def)
  have "io_ok (scene refuse_first)" by (simp add: io_ok_def scene_def)
  from settled_batch_is_durable [OF this st, rule_format, of "plain_event ''a''"] st
  show ?thesis by simp
qed

section \<open>When the durable copy goes too early\<close>

lemma retry_exhausted:
  assumes "dict_get (batch_attempts s) (failure_signature E B) = Some k" and "k \<ge> max_batch_attempts E"
  shows "\<exists>m. retry_or_dlq E B err True s = (False, quarantine_to_dlq E B err (s\<lparr>batch_attempts := m\<rparr>))"
  using assms by (auto simp: retry_or_dlq_def Let_def)

text \<open>
  a quarantine drops the durable copy of its neighbours.  One event the server asks to retry
  and one unknown refusal whose budget is spent, in the same answer: parking the second through
  \<open>_quarantine_to_dlq\<close> deletes \<open>.inflight\<close>, so the first, still live, is in memory only,
  although the settlement reports the batch as not settled in order to keep that copy.
\<close>

theorem quarantine_drops_live_copy:
  assumes conf: "body_confirmed res"
    and a: "\<not> is_accepted res a" "rejected_by_id res a = Some d" "rj_retry_after_ms d \<noteq> None"
      "item_reason d \<notin> set terminal_rejection_reasons"
    and b: "\<not> is_accepted res b" "rejected_by_id res b = None"
    and spent: "dict_get (batch_attempts s) (failure_signature E [b]) = Some k" "k \<ge> max_batch_attempts E"
    and io: "io_ok E" and room: "\<And>r. dlq_size E s + int (env_row_len E r) + 1 \<le> dlq_max_bytes E"
    and ab: "a \<noteq> b" and new: "\<not> on_disk s a"
  shows "\<exists>t. settle_batch_outcome E [a, b] res s = (False, t)
             \<and> inflight_file (disk t) = None \<and> a \<in> set (buffer t) \<and> \<not> on_disk t a"
proof -
  let ?err = "UnknownRejection ''unaccounted_in_response'' (eid b)"
  from retry_exhausted [OF spent, of ?err] obtain m where
    r: "retry_or_dlq E [b] ?err True s = (False, quarantine_to_dlq E [b] ?err (s\<lparr>batch_attempts := m\<rparr>))"
    by blast
  obtain rows s1 where rows: "dlq_rows_of E [b] (dlq_reason ?err) (s\<lparr>batch_attempts := m\<rparr>) = (rows, s1)"
    by fastforce
  obtain ok s2 where w: "write_dlq_rows E rows s1 = (ok, s2)" by fastforce
  from dlq_rows_of_state [OF rows] obtain w1 m1 where
    s1: "s1 = s\<lparr>batch_attempts := m\<rparr>\<lparr>world := w1, first_failed_at := m1\<rparr>" and
    ev: "map r_event rows = [Some b]" by auto
  then obtain r where rb: "rows = [r]" "r_event r = Some b" by (cases rows) auto
  have "fst (write_dlq_rows E rows s1)"
    using room [of r] io s1 rb
    by (auto simp: write_dlq_rows_def dlq_over_cap_def dlq_size_def incoming_bytes_def Let_def
          with_file_def map_world_def write_events_atomic_def io_ok_def split: prod.splits)
       (metis fst_conv)
  with w have ok: ok by simp
  let ?q = "inc ''events_dead_lettered'' 1 (clear_inflight E s2)"
  have q: "quarantine_to_dlq E [b] ?err (s\<lparr>batch_attempts := m\<rparr>) = ?q"
    using rows w ok by (simp add: quarantine_to_dlq_def)
  let ?t = "inc ''events_partial_refused'' 2 (requeue_at_head [a] ?q)"
  have settle: "settle_batch_outcome E [a, b] res s = (False, ?t)"
    using conf a b r q by (simp add: settle_batch_outcome_def settle_event_def Let_def)
  have "\<not> on_disk s2 a"
    using w
  proof (cases rule: write_dlq_rows_cases)
    case (stored w2)
    from ev have "\<forall>r \<in> set rows. r_event r = Some b" by auto
    with stored s1 new ab show ?thesis by (auto simp: on_disk_def disk_rows_def)
  qed (use ok ev s1 new in \<open>auto simp: on_disk_def disk_rows_def\<close>)
  then have "\<not> on_disk ?t a"
    using clear_inflight_state [of E s2] by (auto simp: on_disk_def disk_rows_def requeue_at_head_def)
  moreover have "inflight_file (disk (clear_inflight E s2)) = None"
    using io by (auto simp: clear_inflight_def io_step_def map_world_def io_ok_def split: prod.splits bool.splits)
       (metis fst_conv)
  ultimately show ?thesis using settle by (auto simp: requeue_at_head_def)
qed

text \<open>One spent event and one the server wants back.\<close>

definition mixed_answer :: send_result where
  "mixed_answer =
     \<lparr>accepted_event_ids = [],
      rejected_items = [\<lparr>rj_event_id = ''a'', rj_reason = ''busy'', rj_retry_after_ms = Some 100\<rparr>],
      body_confirmed = True\<rparr>"

definition spent_state :: "nat transport" where
  "spent_state = (scene_state [plain_event ''a'', plain_event ''b''])\<lparr>batch_attempts := [(''b'', 5)]\<rparr>"

theorem quarantine_drops_live_copy_witness:
  "\<exists>t. settle_batch_outcome (scene refuse_first) [plain_event ''a'', plain_event ''b''] mixed_answer spent_state
         = (False, t)
       \<and> inflight_file (disk t) = None \<and> plain_event ''a'' \<in> set (buffer t) \<and> \<not> on_disk t (plain_event ''a'')"
  by (rule quarantine_drops_live_copy
        [where d = "\<lparr>rj_event_id = ''a'', rj_reason = ''busy'', rj_retry_after_ms = Some 100\<rparr>" and k = 5])
     (simp_all add: mixed_answer_def spent_state_def scene_def scene_state_def is_accepted_def
        plain_event_def rejected_by_id_def item_reason_def terminal_rejection_reasons_def
        failure_signature_def sig_id_def dict_get_def io_ok_def dlq_size_def file_size_def
        empty_disk_def on_disk_def disk_rows_def)

section \<open>What the bisection forgets\<close>

lemma unsettled_pop_kept:
  assumes "i \<in> unsettled s" and "i \<notin> set (accepted_event_ids res)"
  shows "i \<in> unsettled (pop_loop res batch s)"
  using assms(1)
proof (induction batch arbitrary: s)
  case (Cons e es)
  have "i \<in> unsettled (if is_accepted res e then pop_in_flight e s else s)"
    using Cons.prems assms(2) by (auto dest!: accepted_id simp: unsettled_pop)
  from Cons.IH [OF this] show ?case by (simp add: pop_loop_def)
qed (simp add: pop_loop_def)

lemma sent_keeps_refused:
  assumes tb: "through_breaker E batch s = (Ret (Inr res), t)"
    and i: "i \<in> unsettled s" "i \<notin> set (accepted_event_ids res)"
  shows "i \<in> unsettled t \<and> buffer t = buffer s \<and> parked_ids t = parked_ids s"
proof -
  obtain now u fin w where t: "env_mono E (world s) = ((now, u, fin), w)" by (metis prod_cases3 prod.collapse)
  let ?s1 = "s\<lparr>world := w\<rparr>"
  obtain r b s2 where c: "cb_call now u fin (send_closure E batch) (breaker ?s1) ?s1 = (r, b, s2)"
    by (metis prod_cases3)
  with tb t have r: "r = Ret (Inr res)" "t = s2\<lparr>breaker := b\<rparr>"
    by (simp_all add: through_breaker_def map_world_def)
  from breaker_call.call_ran_or_rejected [OF c] r
  obtain q where q: "send_closure E batch ?s1 = (q, s2)" "Ret (Inr res) = lift_inner q" by auto
  then have "q = Ret (Inr res)" by (cases q) simp_all
  with q(1) obtain w2 where s2: "s2 = inc ''events_sent'' (int (length batch)) (inc ''batches_sent'' 1
      (pop_accepted res batch (s\<lparr>world := w2\<rparr>)))"
    by (auto simp: send_closure_def map_world_def split: prod.splits sum.splits if_splits)
  have fields: "buffer (pop_loop res es v) = buffer v \<and> disk (pop_loop res es v) = disk v
      \<and> dlq_overflow (pop_loop res es v) = dlq_overflow v" for es and v :: "'a transport"
    by (induction es arbitrary: v) (simp_all add: pop_loop_def pop_in_flight_fields)
  have "i \<in> unsettled (pop_accepted res batch (s\<lparr>world := w2\<rparr>))"
    using unsettled_pop_kept [OF _ i(2), of "s\<lparr>world := w2\<rparr>" batch] i(1)
    by (simp add: pop_accepted_def pop_loop_def unsettled_def)
  moreover have "buffer t = buffer s" "disk t = disk s" "dlq_overflow t = dlq_overflow s"
    using r(2) s2 fields [of batch "s\<lparr>world := w2\<rparr>"]
    by (simp_all add: pop_accepted_def pop_loop_def)
  ultimately show ?thesis using r(2) s2 by (simp add: unsettled_def parked_ids_def)
qed

text \<open>
  a refused event of a bisected half vanishes.  When a half is answered with a 2xx that does
  not accept one of its events, the event stays unsettled but is neither buffered nor parked
  afterwards: \<open>_attempt_half\<close> never settles the per-item answer.
\<close>

theorem half_drops_refused_events:
  assumes tb: "through_breaker E half s = (Ret (Inr res), s1)"
    and i: "i \<in> unsettled s" "i \<notin> set (accepted_event_ids res)"
    and fresh: "i \<notin> ids_of (buffer s) \<union> parked_ids s"
  shows "i \<in> unsettled (attempt_half E half s)
         \<and> i \<notin> ids_of (buffer (attempt_half E half s)) \<union> parked_ids (attempt_half E half s)"
  using sent_keeps_refused [OF tb i] fresh tb
  by (simp add: attempt_half.simps forget_attempts_def unsettled_def parked_ids_def)

text \<open>The server accepts nothing of what it answers 2xx.\<close>

definition refuse_quietly :: "nat \<Rightarrow> event list \<Rightarrow> send_exn + send_result" where
  "refuse_quietly n b = Inr \<lparr>accepted_event_ids = [], rejected_items = [], body_confirmed = True\<rparr>"

definition half_state :: "nat transport" where
  "half_state = (scene_state [plain_event ''a''])\<lparr>buffer := []\<rparr>"

lemma half_is_sent:
  "\<exists>t. through_breaker (scene refuse_quietly) [plain_event ''a''] half_state
         = (Ret (Inr \<lparr>accepted_event_ids = [], rejected_items = [], body_confirmed = True\<rparr>), t)"
  by (simp add: through_breaker_def map_world_def scene_def half_state_def scene_state_def init_cb_def
        cb_call_def cb_admit_def read_state_def global_state_allows_call_def check_global_state_def
        maybe_apply_open_jitter_def needs_open_jitter_def send_closure_def refuse_quietly_def Let_def)

theorem half_drops_refused_events_witness:
  "''a'' \<in> unsettled (attempt_half (scene refuse_quietly) [plain_event ''a''] half_state)
   \<and> ''a'' \<notin> ids_of (buffer (attempt_half (scene refuse_quietly) [plain_event ''a''] half_state))
           \<union> parked_ids (attempt_half (scene refuse_quietly) [plain_event ''a''] half_state)"
proof -
  obtain t where "through_breaker (scene refuse_quietly) [plain_event ''a''] half_state
         = (Ret (Inr \<lparr>accepted_event_ids = [], rejected_items = [], body_confirmed = True\<rparr>), t)"
    using half_is_sent by blast
  then show ?thesis
    by (rule half_drops_refused_events)
       (simp_all add: half_state_def scene_state_def unsettled_def parked_ids_def empty_disk_def plain_event_def)
qed

section \<open>Overflow of the buffer\<close>

lemma subseq_reverse: "subseq xs ys \<Longrightarrow> subseq (rev xs) (rev ys)"
  by (induction rule: list_emb.induct) (auto intro: list_emb_append_mono)

lemma drop_loop_spec:
  assumes "drop_loop overflow d es = (kept, d')" and "0 \<le> d" "d \<le> overflow"
  shows "filter is_critical kept = filter is_critical es
         \<and> filter (\<lambda>e. \<not> is_critical e) kept = drop (nat (overflow - d)) (filter (\<lambda>e. \<not> is_critical e) es)
         \<and> d' = d + min (overflow - d) (int (length (filter (\<lambda>e. \<not> is_critical e) es)))
         \<and> subseq kept es"
  using assms
proof (induction overflow d es arbitrary: kept d' rule: drop_loop.induct)
  case (1 overflow dropped)
  then show ?case by simp
next
  case (2 overflow dropped e es)
  show ?case
  proof (cases "dropped < overflow \<and> \<not> is_critical e")
    case True
    with 2 have "drop_loop overflow (dropped + 1) es = (kept, d')" by simp
    from "2.IH"(1) [OF True this] 2(4) True have IH:
      "filter is_critical kept = filter is_critical es"
      "filter (\<lambda>e. \<not> is_critical e) kept = drop (nat (overflow - (dropped + 1))) (filter (\<lambda>e. \<not> is_critical e) es)"
      "d' = dropped + 1 + min (overflow - (dropped + 1)) (int (length (filter (\<lambda>e. \<not> is_critical e) es)))"
      "subseq kept es" by simp_all
    have "nat (overflow - dropped) = Suc (nat (overflow - (dropped + 1)))" using True by linarith
    with IH True show ?thesis by auto
  next
    case False
    obtain k2 d2 where r: "drop_loop overflow dropped es = (k2, d2)" by fastforce
    with 2(3) False have kd: "kept = e # k2" "d' = d2" by auto
    note IH = "2.IH"(2) [OF False r 2(4,5)]
    show ?thesis
    proof (cases "is_critical e")
      case True
      with IH kd show ?thesis by simp
    next
      case nc: False
      with False 2(5) have "overflow = dropped" by simp
      with IH kd nc show ?thesis by simp
    qed
  qed
qed

text \<open>
  overflow drops the newest non-critical events and nothing else.  Every control-plane event
  is kept, the kept events keep their order, the others lose exactly their newest
  \<open>min overflow available\<close>, and the counter says how many.
\<close>

theorem overflow_drops_newest:
  "let (kept, t) = drop_newest_with_priority batch overflow s;
       ordinary = filter (\<lambda>e. \<not> is_critical e) batch;
       n = min (nat overflow) (length ordinary)
   in filter is_critical kept = filter is_critical batch
      \<and> filter (\<lambda>e. \<not> is_critical e) kept = take (length ordinary - n) ordinary
      \<and> subseq kept batch
      \<and> counters t ''events_dropped'' = counters s ''events_dropped'' + int n"
proof (cases "overflow \<le> 0")
  case True
  then show ?thesis by (simp add: drop_newest_with_priority_def Let_def)
next
  case False
  obtain kept d where l: "drop_loop overflow 0 (rev batch) = (kept, d)" by fastforce
  let ?o = "filter (\<lambda>e. \<not> is_critical e) batch"
  from drop_loop_spec [OF l] False have sp:
    "filter is_critical kept = filter is_critical (rev batch)"
    "filter (\<lambda>e. \<not> is_critical e) kept = drop (nat overflow) (rev ?o)"
    "d = min overflow (int (length ?o))" "subseq kept (rev batch)"
    by (simp_all add: rev_filter [symmetric])
  have d: "d = int (min (nat overflow) (length ?o))" using sp(3) False by auto
  have "filter (\<lambda>e. \<not> is_critical e) (rev kept) = take (length ?o - nat overflow) ?o"
    using sp(2) by (simp add: rev_filter [symmetric] rev_drop)
  moreover have "filter is_critical (rev kept) = filter is_critical batch"
    using sp(1) by (metis rev_filter rev_rev_ident)
  moreover have "subseq (rev kept) batch"
    using subseq_reverse [OF sp(4)] by simp
  moreover have "length ?o - min (nat overflow) (length ?o) = length ?o - nat overflow" by simp
  ultimately show ?thesis
    using False l d by (simp add: drop_newest_with_priority_def Let_def inc_def)
qed

section \<open>The retry budget\<close>

definition retry_again :: "'w env \<Rightarrow> event list \<Rightarrow> send_exn \<Rightarrow> 'w transport \<Rightarrow> 'w transport" where
  "retry_again E batch err s = snd (retry_or_dlq E batch err True s)"

definition tries_of :: "'w env \<Rightarrow> event list \<Rightarrow> 'w transport \<Rightarrow> int" where
  "tries_of E batch s =
     (case dict_get (batch_attempts s) (failure_signature E batch) of None \<Rightarrow> 0 | Some n \<Rightarrow> n)"

lemma retry_counts:
  assumes "tries_of E batch s < max_batch_attempts E"
  shows "fst (retry_or_dlq E batch err True s)"
    and "tries_of E batch (retry_again E batch err s) = tries_of E batch s + 1"
    and "ids_of batch \<subseteq> ids_of (buffer (retry_again E batch err s))"
  using assms by (auto simp: retry_or_dlq_def retry_again_def tries_of_def Let_def)

lemma retry_counts_n:
  "tries_of E batch s = 0 \<Longrightarrow> int n \<le> max_batch_attempts E \<Longrightarrow>
     tries_of E batch ((retry_again E batch err ^^ n) s) = int n"
  by (induction n) (simp_all add: retry_counts(2))

text \<open>
  the retry budget ends.  A batch that keeps failing is put back exactly
  \<open>NULLRUN_MAX_BATCH_ATTEMPTS\<close> times and goes to the dead-letter queue with the next failure.
\<close>

theorem retry_budget_ends:
  assumes "tries_of E batch s = 0" and "0 \<le> max_batch_attempts E" and "int n \<le> max_batch_attempts E"
  shows "fst (retry_or_dlq E batch err True ((retry_again E batch err ^^ n) s))
           \<longleftrightarrow> int n < max_batch_attempts E"
proof -
  from retry_counts_n [OF assms(1,3)] have t: "tries_of E batch ((retry_again E batch err ^^ n) s) = int n" .
  show ?thesis
  proof (cases "int n < max_batch_attempts E")
    case True
    with retry_counts(1) [of E batch] t show ?thesis by simp
  next
    case False
    with t show ?thesis by (auto simp: retry_or_dlq_def tries_of_def Let_def)
  qed
qed

theorem retry_budget_ends_witness:
  "fst (retry_or_dlq (scene refuse_first) [plain_event ''a''] Exhausted True
     ((retry_again (scene refuse_first) [plain_event ''a''] Exhausted ^^ 3) (scene_state [])))
   \<and> \<not> fst (retry_or_dlq (scene refuse_first) [plain_event ''a''] Exhausted True
     ((retry_again (scene refuse_first) [plain_event ''a''] Exhausted ^^ 5) (scene_state [])))"
  using retry_budget_ends [of "scene refuse_first" "[plain_event ''a'']" "scene_state []" 3 Exhausted]
    retry_budget_ends [of "scene refuse_first" "[plain_event ''a'']" "scene_state []" 5 Exhausted]
  by (simp add: tries_of_def scene_state_def scene_def dict_get_def)

end
