(* ===== verification/Retry.thy ===== *)
theory Retry
  imports Nullrun_Prelude
begin

text \<open>
  The retry helper of the transport (\<open>_retry_with_backoff\<close>, \<open>_next_retry_delay\<close> and the readers of
  a response in \<open>src/nullrun/transport.py\<close>), which every request to the backend goes through.

  A response is its status code, its parsed JSON body (\<open>None\<close> when the body does not parse) and its
  \<open>Retry-After\<close> header as Python reads it: a number of seconds, an HTTP date, or neither.  The
  request itself, the random draw, the clock and the interruptible wait are in the environment
  record; \<open>world\<close> values are whatever they depend on.
\<close>

section \<open>Responses\<close>

datatype retry_header = Seconds rat | HttpDate rat | Unreadable

record http_response =
  resp_status :: int
  resp_json :: "json option"
  resp_retry_after :: "retry_header option"

definition is_success :: "http_response \<Rightarrow> bool" where
  "is_success r \<longleftrightarrow> 200 \<le> resp_status r \<and> resp_status r \<le> 299"

definition retry_after_seconds_from :: "rat \<Rightarrow> http_response \<Rightarrow> rat option" where
  "retry_after_seconds_from now r =
     (case resp_retry_after r of
        None \<Rightarrow> None
      | Some (Seconds q) \<Rightarrow> Some q
      | Some (HttpDate t) \<Rightarrow> Some (t - now)
      | Some Unreadable \<Rightarrow> None)"

definition json_dict :: "http_response \<Rightarrow> dict option" where
  "json_dict r = (case resp_json r of Some (JObj d) \<Rightarrow> Some d | _ \<Rightarrow> None)"

definition extract_backend_error_code :: "http_response \<Rightarrow> string option" where
  "extract_backend_error_code r =
     (case json_dict r of
        None \<Rightarrow> None
      | Some d \<Rightarrow>
          (case jget d ''error_code'' of
             JStr code \<Rightarrow> if code = [] then None else Some code
           | _ \<Rightarrow> None))"

definition extract_error_message :: "http_response \<Rightarrow> string" where
  "extract_error_message r =
     (case json_dict r of
        None \<Rightarrow> []
      | Some d \<Rightarrow> (case jget d ''error_message'' of JStr m \<Rightarrow> m | _ \<Rightarrow> []))"

fun as_int_or_none :: "json \<Rightarrow> int option" where
  "as_int_or_none (JInt i) = Some i"
| "as_int_or_none _ = None"

definition extract_error_details :: "http_response \<Rightarrow> dict" where
  "extract_error_details r =
     (case json_dict r of
        None \<Rightarrow> []
      | Some d \<Rightarrow> (case jget d ''details'' of JObj x \<Rightarrow> x | _ \<Rightarrow> []))"

section \<open>The delay before the next attempt\<close>

record retry_cfg =
  max_retries :: int
  base_delay :: rat
  max_delay :: rat
  backoff_factor :: rat
  jitter :: rat
  last_retry_after :: rat
  raise_on_5xx :: bool
  retry_on_5xx :: bool
  retry_after_ceiling :: rat

text \<open>
  \<open>u\<close> is the draw of \<open>random.random()\<close>; \<open>random.uniform(a, b)\<close> is \<open>a + (b - a) * u\<close>.
  \<open>None\<close> means not to retry in this cycle.
\<close>

definition uniform :: "rat \<Rightarrow> rat \<Rightarrow> rat \<Rightarrow> rat" where
  "uniform a b u = a + (b - a) * u"

definition backoff_of :: "retry_cfg \<Rightarrow> nat \<Rightarrow> rat" where
  "backoff_of c attempt = min (base_delay c * backoff_factor c ^ attempt) (max_delay c)"

text \<open>The server asks for more than the client will sit through.\<close>

definition beyond_ceiling :: "retry_cfg \<Rightarrow> rat option \<Rightarrow> bool" where
  "beyond_ceiling c server_wait =
     (case server_wait of None \<Rightarrow> False | Some w \<Rightarrow> w > 0 \<and> w > retry_after_ceiling c)"

definition next_retry_delay :: "retry_cfg \<Rightarrow> rat \<Rightarrow> nat \<Rightarrow> rat option \<Rightarrow> rat option" where
  "next_retry_delay c u attempt server_wait =
     (case server_wait of
        Some w \<Rightarrow>
          if w > 0 then
            (if w > retry_after_ceiling c then None else Some (w * (1 + uniform 0 (jitter c) u)))
          else
            (let b = backoff_of c attempt; spread = b * jitter c
             in Some (max 0 (b + uniform (- spread) spread u)))
      | None \<Rightarrow>
          (let b = backoff_of c attempt; spread = b * jitter c
           in Some (max 0 (b + uniform (- spread) spread u))))"

definition retry_after_ceiling_default :: rat where "retry_after_ceiling_default = 60"

text \<open>\<open>raw\<close>: the environment variable as \<open>float\<close> reads it, \<open>None\<close> when unset or not a number.\<close>

definition effective_ceiling :: "rat option \<Rightarrow> rat" where
  "effective_ceiling raw =
     (case raw of None \<Rightarrow> retry_after_ceiling_default
      | Some v \<Rightarrow> if v > 0 then v else retry_after_ceiling_default)"

section \<open>The loop\<close>

text \<open>
  What the wrapped request can raise: an \<open>HTTPStatusError\<close> with its response, one of the five
  exceptions that are passed through at once, or anything else (class name).
\<close>

datatype 'p call_exn = HttpStatus http_response | PassThrough 'p | OtherFault string

datatype 'p retry_exn = AuthRejected | Backend5xx int | Raised 'p | RetriesExhausted

record ('p, 'w) retry_env =
  re_call :: "'w \<Rightarrow> ('p call_exn + http_response) \<times> 'w"
  re_random :: "'w \<Rightarrow> rat \<times> 'w"
  re_now :: "'w \<Rightarrow> rat \<times> 'w"
  re_sleep :: "rat \<Rightarrow> 'w \<Rightarrow> bool \<times> 'w"
  re_inc :: "string \<Rightarrow> 'w \<Rightarrow> 'w"

text \<open>What one attempt comes to: the body of the \<open>try\<close> and the choice of its handler.\<close>

datatype 'p verdict = Give http_response | Fail "'p retry_exn" | Again http_response | Fault string

definition judge :: "retry_cfg \<Rightarrow> nat \<Rightarrow> http_response \<Rightarrow> 'p verdict" where
  "judge c attempt r =
     (if resp_status r = 401 then Fail AuthRejected
      else if resp_status r \<ge> 500 \<and> raise_on_5xx c then Fail (Backend5xx (resp_status r))
      else if resp_status r \<ge> 500 \<and> retry_on_5xx c \<and> int attempt < max_retries c then Again r
      else if resp_status r \<ge> 500 \<and> \<not> retry_on_5xx c then Again r
      else Give r)"

fun verdict_of :: "retry_cfg \<Rightarrow> nat \<Rightarrow> 'p call_exn + http_response \<Rightarrow> 'p verdict" where
  "verdict_of c attempt (Inr r) = judge c attempt r"
| "verdict_of c attempt (Inl (HttpStatus r)) = Again r"
| "verdict_of c attempt (Inl (PassThrough p)) = Fail (Raised p)"
| "verdict_of c attempt (Inl (OtherFault cls)) = Fault cls"

text \<open>After the loop: the response of the last \<open>HTTPStatusError\<close>, if that was the last error.\<close>

definition give_up :: "retry_cfg \<Rightarrow> http_response option \<Rightarrow> 'p retry_exn + http_response" where
  "give_up c last_resp =
     (case last_resp of
        Some r \<Rightarrow> if retry_on_5xx c then Inr r else Inl RetriesExhausted
      | None \<Rightarrow> Inl RetriesExhausted)"

text \<open>The wait between two attempts: \<open>True\<close> when the delay has elapsed and the loop goes on.\<close>

definition pause ::
  "('p, 'w) retry_env \<Rightarrow> retry_cfg \<Rightarrow> nat \<Rightarrow> rat option \<Rightarrow> 'w \<Rightarrow> bool \<times> 'w" where
  "pause R c attempt server_wait w =
     (let w1 = re_inc R ''retries_total'' w in
      if beyond_ceiling c server_wait then (False, re_inc R ''retry_after_deferred'' w1)
      else
        (case re_random R w1 of
           (u, w2) \<Rightarrow>
             (case next_retry_delay c u attempt server_wait of
                None \<Rightarrow> (False, w2)
              | Some d \<Rightarrow>
                  (case re_sleep R d w2 of
                     (True, w3) \<Rightarrow> (True, w3)
                   | (False, w3) \<Rightarrow> (False, re_inc R ''retries_interrupted_by_shutdown'' w3)))))"

definition timeout_classes :: "string list" where
  "timeout_classes = [''TimeoutException'', ''ConnectTimeout'', ''ReadTimeout'', ''WriteTimeout'', ''PoolTimeout'']"

text \<open>
  The first argument counts the attempts left, \<open>max_retries + 1\<close> at the start; the range of the
  Python loop is empty when \<open>max_retries\<close> is negative.
\<close>

fun retry_loop ::
  "nat \<Rightarrow> ('p, 'w) retry_env \<Rightarrow> retry_cfg \<Rightarrow> nat \<Rightarrow> http_response option \<Rightarrow> 'w
     \<Rightarrow> ('p retry_exn + http_response) \<times> 'w" where
  "retry_loop 0 R c attempt last_resp w = (give_up c last_resp, w)"
| "retry_loop (Suc left) R c attempt last_resp w =
     (case re_call R w of
        (res, w1) \<Rightarrow>
          (case verdict_of c attempt res of
             Give r \<Rightarrow> (Inr r, w1)
           | Fail x \<Rightarrow> (Inl x, w1)
           | Again r \<Rightarrow>
               (if int attempt \<ge> max_retries c then (give_up c (Some r), w1)
                else
                  (case re_now R w1 of
                     (now, w2) \<Rightarrow>
                       (case pause R c attempt (retry_after_seconds_from now r) w2 of
                          (True, w3) \<Rightarrow> retry_loop left R c (Suc attempt) (Some r) w3
                        | (False, w3) \<Rightarrow> (give_up c (Some r), w3))))
           | Fault cls \<Rightarrow>
               (let w2 = (if cls \<in> set timeout_classes then re_inc R ''timeouts'' w1 else w1) in
                if int attempt \<ge> max_retries c then (give_up c None, w2)
                else
                  (case pause R c attempt (Some (last_retry_after c)) w2 of
                     (True, w3) \<Rightarrow> retry_loop left R (c\<lparr>last_retry_after := 0\<rparr>) (Suc attempt) None w3
                   | (False, w3) \<Rightarrow> (give_up c None, w3)))))"

definition retry_with_backoff ::
  "('p, 'w) retry_env \<Rightarrow> retry_cfg \<Rightarrow> 'w \<Rightarrow> ('p retry_exn + http_response) \<times> 'w" where
  "retry_with_backoff R c w = retry_loop (nat (max_retries c + 1)) R c 0 None w"

declare retry_loop.simps(2) [simp del]

section \<open>The delay\<close>

text \<open>
  the delay before a retry respects the server and the configuration.  A wait the server
  states is a floor and jitter only adds to it; beyond the ceiling there is no retry; without a
  floor the delay stays within the jitter band of the capped exponential curve.
\<close>

theorem retry_delay_bounds:
  assumes u: "0 \<le> u" "u \<le> 1" and j: "0 \<le> jitter c"
    and nonneg: "0 \<le> base_delay c" "0 \<le> backoff_factor c" "0 \<le> max_delay c"
  shows "case next_retry_delay c u n server_wait of
           None \<Rightarrow> beyond_ceiling c server_wait
         | Some d \<Rightarrow>
             \<not> beyond_ceiling c server_wait \<and> 0 \<le> d
             \<and> (\<forall>w. server_wait = Some w \<longrightarrow> w > 0 \<longrightarrow> w \<le> d \<and> d \<le> w * (1 + jitter c))
             \<and> ((server_wait = None \<or> the server_wait \<le> 0) \<longrightarrow>
                  backoff_of c n * (1 - jitter c) \<le> d \<and> d \<le> max_delay c * (1 + jitter c))"
proof -
  define b where "b = backoff_of c n"
  have b: "0 \<le> b" "b \<le> max_delay c" using nonneg by (auto simp: b_def backoff_of_def)
  define spread where "spread = b * jitter c"
  have sp: "0 \<le> spread" using b j by (simp add: spread_def)
  define d where "d = max 0 (b + uniform (- spread) spread u)"
  have lo: "- spread \<le> uniform (- spread) spread u"
    using sp u by (simp add: uniform_def)
  have "spread * u \<le> spread" using sp u by (metis mult.right_neutral mult_left_mono)
  then have hi: "uniform (- spread) spread u \<le> spread"
    by (simp add: uniform_def algebra_simps)
  have "b * (1 + jitter c) \<le> max_delay c * (1 + jitter c)" using b(2) j by (intro mult_right_mono) auto
  with hi b j sp nonneg have "d \<le> max_delay c * (1 + jitter c)"
    by (auto simp: d_def spread_def algebra_simps)
  moreover have "b * (1 - jitter c) \<le> d" using lo by (simp add: d_def spread_def algebra_simps)
  ultimately have free: "0 \<le> d \<and> b * (1 - jitter c) \<le> d \<and> d \<le> max_delay c * (1 + jitter c)"
    by (simp add: d_def)
  have floor: "w \<le> w * (1 + uniform 0 (jitter c) u) \<and> w * (1 + uniform 0 (jitter c) u) \<le> w * (1 + jitter c)"
    if "w > 0" for w
  proof -
    have "0 \<le> uniform 0 (jitter c) u" "uniform 0 (jitter c) u \<le> jitter c"
      using u j mult_left_mono [of u 1 "jitter c"] by (auto simp: uniform_def)
    then have "w * 0 \<le> w * uniform 0 (jitter c) u" "w * uniform 0 (jitter c) u \<le> w * jitter c"
      using that by (auto intro: mult_left_mono)
    then show ?thesis by (simp add: algebra_simps)
  qed
  show ?thesis
  proof (cases "\<exists>w. server_wait = Some w \<and> w > 0")
    case True
    then obtain w where w: "server_wait = Some w" "w > 0" by blast
    with floor [OF w(2)] show ?thesis
      by (auto simp: next_retry_delay_def beyond_ceiling_def)
  next
    case False
    then have "next_retry_delay c u n server_wait = Some d" "\<not> beyond_ceiling c server_wait"
      by (auto simp: next_retry_delay_def beyond_ceiling_def Let_def d_def spread_def b_def split: option.splits)
    with False free show ?thesis by (auto simp: b_def)
  qed
qed

definition track_cfg :: "int \<Rightarrow> rat \<Rightarrow> retry_cfg" where
  "track_cfg retries longest =
     \<lparr>max_retries = retries, base_delay = 1 / 2, max_delay = 10, backoff_factor = 2, jitter = 1 / 10,
      last_retry_after = 0, raise_on_5xx = False, retry_on_5xx = False, retry_after_ceiling = longest\<rparr>"

theorem retry_delay_bounds_witness:
  "\<exists>d. next_retry_delay (track_cfg 10 60) (1 / 2) 3 (Some 7) = Some d \<and> 7 \<le> d \<and> d \<le> 7 * (1 + 1 / 10)"
  using retry_delay_bounds [where u = "1 / 2" and c = "track_cfg 10 60" and n = 3 and server_wait = "Some 7"]
  by (simp add: track_cfg_def next_retry_delay_def beyond_ceiling_def)

section \<open>The attempts\<close>

text \<open>The environment with a trace: attempts with the floor the server stated, and waits.\<close>

datatype retry_event = Attempt "rat option" | Slept rat

definition stated_floor :: "'p call_exn + http_response \<Rightarrow> rat option" where
  "stated_floor res =
     (case res of
        Inr r \<Rightarrow> (case resp_retry_after r of Some (Seconds q) \<Rightarrow> Some q | _ \<Rightarrow> None)
      | Inl (HttpStatus r) \<Rightarrow> (case resp_retry_after r of Some (Seconds q) \<Rightarrow> Some q | _ \<Rightarrow> None)
      | Inl _ \<Rightarrow> None)"

definition traced ::
  "('p, 'w) retry_env \<Rightarrow> ('p, 'w \<times> retry_event list) retry_env" where
  "traced R =
     \<lparr>re_call = (\<lambda>(w, t). case re_call R w of (x, w') \<Rightarrow> (x, (w', t @ [Attempt (stated_floor x)]))),
      re_random = (\<lambda>(w, t). case re_random R w of (x, w') \<Rightarrow> (x, (w', t))),
      re_now = (\<lambda>(w, t). case re_now R w of (x, w') \<Rightarrow> (x, (w', t))),
      re_sleep = (\<lambda>d (w, t). case re_sleep R d w of (x, w') \<Rightarrow> (x, (w', t @ [Slept d]))),
      re_inc = (\<lambda>n (w, t). (re_inc R n w, t))\<rparr>"

text \<open>Every attempt but the last is followed by a wait of at least the stated floor.\<close>

fun honours :: "retry_event list \<Rightarrow> bool" where
  "honours [] = True"
| "honours (Slept d # es) = honours es"
| "honours (Attempt q # es) =
     ((case es of
         [] \<Rightarrow> True
       | Attempt _ # _ \<Rightarrow> False
       | Slept d # _ \<Rightarrow> (case q of None \<Rightarrow> True | Some f \<Rightarrow> f \<le> d))
      \<and> honours es)"

fun attempts :: "retry_event list \<Rightarrow> nat" where
  "attempts [] = 0"
| "attempts (Attempt _ # es) = Suc (attempts es)"
| "attempts (Slept _ # es) = attempts es"

lemma next_delay_floor:
  assumes "next_retry_delay c u n server_wait = Some d" and "0 \<le> u" "u \<le> 1" "0 \<le> jitter c"
    and "server_wait = Some f"
  shows "f \<le> d"
proof (cases "f > 0")
  case True
  have "0 \<le> f * uniform 0 (jitter c) u" using True assms(2,4) by (simp add: uniform_def)
  with assms(1,5) True show ?thesis
    by (auto simp: next_retry_delay_def algebra_simps split: if_splits)
next
  case False
  with assms(1,5) show ?thesis by (auto simp: next_retry_delay_def Let_def)
qed

lemma pause_trace:
  assumes "pause (traced R) c n server_wait (w, t) = (go, w', t')"
    and rnd: "\<And>v. 0 \<le> fst (re_random R v) \<and> fst (re_random R v) \<le> 1" and j: "0 \<le> jitter c"
  shows "(t' = t \<and> \<not> go) \<or> (\<exists>d. t' = t @ [Slept d] \<and> (\<forall>f. server_wait = Some f \<longrightarrow> f \<le> d))"
proof (cases "beyond_ceiling c server_wait")
  case True
  with assms(1) show ?thesis by (simp add: pause_def traced_def Let_def)
next
  case False
  obtain u w2 where u: "re_random R (re_inc R ''retries_total'' w) = (u, w2)" by fastforce
  with rnd [of "re_inc R ''retries_total'' w"] have u01: "0 \<le> u" "u \<le> 1" by simp_all
  show ?thesis
  proof (cases "next_retry_delay c u n server_wait")
    case None
    with False u assms(1) show ?thesis by (simp add: pause_def traced_def Let_def)
  next
    case (Some d)
    obtain ok w3 where sl: "re_sleep R d w2 = (ok, w3)" by fastforce
    from next_delay_floor [OF Some u01 j] False u Some sl assms(1) show ?thesis
      by (cases ok) (auto simp: pause_def traced_def Let_def)
  qed
qed

lemma honours_after_pause:
  "honours es \<Longrightarrow> (\<And>f. q = Some f \<Longrightarrow> f \<le> d) \<Longrightarrow> honours (Attempt q # Slept d # es)"
  by (simp split: option.splits)

lemma verdict_again:
  assumes "verdict_of c n res = Again r"
  shows "res = Inr r \<or> res = Inl (HttpStatus r)"
  using assms
  by (cases "(c, n, res)" rule: verdict_of.cases) (auto simp: judge_def split: if_splits)

lemma verdict_fault: "verdict_of c n res = Fault cls \<Longrightarrow> res = Inl (OtherFault cls)"
  by (cases "(c, n, res)" rule: verdict_of.cases) (auto simp: judge_def split: if_splits)

lemma again_floor:
  "verdict_of c n res = Again r \<Longrightarrow> stated_floor res = Some f \<Longrightarrow> retry_after_seconds_from now r = Some f"
  by (drule verdict_again)
     (auto simp: stated_floor_def retry_after_seconds_from_def split: option.splits retry_header.splits)

lemma retry_loop_trace:
  fixes R :: "('p, 'w) retry_env"
  assumes rnd: "\<And>v. 0 \<le> fst (re_random R v) \<and> fst (re_random R v) \<le> 1"
    and "retry_loop left (traced R) c n last_resp (w, t) = (res, w', t')" and "0 \<le> jitter c"
  shows "\<exists>es. t' = t @ es \<and> honours es \<and> attempts es \<le> left"
  using assms(2,3)
proof (induction left arbitrary: c n last_resp w t)
  case 0
  then show ?case by auto
next
  case (Suc left)
  obtain x w1 where call: "re_call R w = (x, w1)" by fastforce
  let ?q = "stated_floor x"
  let ?t1 = "t @ [Attempt ?q]"
  have call': "re_call (traced R) (w, t) = (x, w1, ?t1)" using call by (simp add: traced_def)
  have once: "\<exists>es. t @ [Attempt ?q] = t @ es \<and> honours es \<and> attempts es \<le> Suc left"
    by (rule exI [of _ "[Attempt ?q]"]) simp
  have go_on: "\<exists>es. t' = t @ es \<and> honours es \<and> attempts es \<le> Suc left"
    if p: "pause (traced R) c n sw (w2, ?t1) = (go, w3, t3)" and fl: "\<And>f. ?q = Some f \<Longrightarrow> sw = Some f"
      and stop: "\<not> go \<Longrightarrow> t' = t3"
      and next': "go \<Longrightarrow> \<exists>es. t' = t3 @ es \<and> honours es \<and> attempts es \<le> left"
    for sw w2 go w3 t3
  proof (cases go)
    case False
    from pause_trace [OF p rnd Suc.prems(2)] stop False consider "t' = ?t1"
      | d where "t' = ?t1 @ [Slept d]" "\<forall>f. sw = Some f \<longrightarrow> f \<le> d" by blast
    then show ?thesis
    proof cases
      case 1
      with once show ?thesis by simp
    next
      case (2 d)
      with fl have "honours [Attempt ?q, Slept d]" by (intro honours_after_pause) auto
      with 2 show ?thesis by (intro exI [of _ "[Attempt ?q, Slept d]"]) simp
    qed
  next
    case True
    from pause_trace [OF p rnd Suc.prems(2)] True obtain d where
      d: "t3 = ?t1 @ [Slept d]" "\<forall>f. sw = Some f \<longrightarrow> f \<le> d" by blast
    from next' [OF True] obtain es where es: "t' = t3 @ es" "honours es" "attempts es \<le> left" by blast
    have "honours (Attempt ?q # Slept d # es)" using es(2) d(2) fl by (intro honours_after_pause) auto
    with es d show ?thesis by (intro exI [of _ "Attempt ?q # Slept d # es"]) simp
  qed
  show ?case
  proof (cases "verdict_of c n x")
    case (Again r)
    show ?thesis
    proof (cases "int n \<ge> max_retries c")
      case True
      with Suc.prems(1) Again call' once show ?thesis by (simp add: retry_loop.simps)
    next
      case False
      obtain now w2 where nw: "re_now R w1 = (now, w2)" by fastforce
      obtain go w3 t3 where p: "pause (traced R) c n (retry_after_seconds_from now r) (w2, ?t1) = (go, w3, t3)"
        by (metis prod_cases3)
      have "re_now (traced R) (w1, ?t1) = (now, w2, ?t1)" using nw by (simp add: traced_def)
      with Suc.prems(1) Again call' False p have body:
        "(if go then retry_loop left (traced R) c (Suc n) (Some r) (w3, t3) else (give_up c (Some r), w3, t3))
         = (res, w', t')"
        by (cases go) (simp_all add: retry_loop.simps)
      show ?thesis
        by (rule go_on [OF p])
           (use body Suc.IH [OF _ Suc.prems(2)] again_floor [OF Again] in \<open>auto split: if_splits\<close>)
    qed
  next
    case (Fault cls)
    have q: "?q = None" using verdict_fault [OF Fault] by (simp add: stated_floor_def)
    let ?w2 = "if cls \<in> set timeout_classes then re_inc R ''timeouts'' w1 else w1"
    have inc: "(if cls \<in> set timeout_classes then re_inc (traced R) ''timeouts'' (w1, ?t1) else (w1, ?t1)) = (?w2, ?t1)"
      by (simp add: traced_def)
    show ?thesis
    proof (cases "int n \<ge> max_retries c")
      case True
      with Suc.prems(1) Fault call' once inc show ?thesis by (simp add: retry_loop.simps Let_def)
    next
      case False
      obtain go w3 t3 where p: "pause (traced R) c n (Some (last_retry_after c)) (?w2, ?t1) = (go, w3, t3)"
        by (metis prod_cases3)
      from Suc.prems(1) Fault call' False p inc have body:
        "(if go then retry_loop left (traced R) (c\<lparr>last_retry_after := 0\<rparr>) (Suc n) None (w3, t3)
          else (give_up c None, w3, t3)) = (res, w', t')"
        by (cases go) (simp_all add: retry_loop.simps Let_def)
      show ?thesis
        by (rule go_on [OF p])
           (use q body Suc.IH [of "c\<lparr>last_retry_after := 0\<rparr>"] Suc.prems(2) in \<open>auto split: if_splits\<close>)
    qed
  qed (use Suc.prems(1) call' once in \<open>simp_all add: retry_loop.simps\<close>)
qed

text \<open>
  C36: a request is retried a bounded number of times and never early.  Whatever the server
  answers, one call makes at most \<open>max_retries + 1\<close> attempts, between two attempts there is
  always a wait, and after an answer that states \<open>Retry-After\<close> seconds that wait is at least as long.
\<close>

theorem retry_bounded_and_never_early:
  fixes R :: "('p, 'w) retry_env"
  assumes "\<And>v. 0 \<le> fst (re_random R v) \<and> fst (re_random R v) \<le> 1" and "0 \<le> jitter c"
    and "retry_with_backoff (traced R) c (w, []) = (res, w', es)"
  shows "honours es \<and> int (attempts es) \<le> max 0 (max_retries c + 1)"
proof -
  from retry_loop_trace [OF assms(1) _ assms(2), of "nat (max_retries c + 1)" 0 None w "[]" res w' es]
    assms(3)
  show ?thesis by (auto simp: retry_with_backoff_def)
qed

text \<open>A server that is busy for two requests, with a world that counts them.\<close>

definition busy_twice :: "(unit, nat) retry_env" where
  "busy_twice =
     \<lparr>re_call = (\<lambda>n. (Inr \<lparr>resp_status = (if n < 2 then 503 else 200), resp_json = None,
                              resp_retry_after = Some (Seconds 2)\<rparr>, Suc n)),
      re_random = (\<lambda>n. (1 / 2, n)), re_now = (\<lambda>n. (0, n)), re_sleep = (\<lambda>d n. (True, n)),
      re_inc = (\<lambda>_ n. n)\<rparr>"

theorem retry_bounded_and_never_early_witness:
  "\<exists>res w' es. retry_with_backoff (traced busy_twice) (track_cfg 10 60) (0, []) = (res, w', es)
               \<and> honours es \<and> int (attempts es) \<le> 11"
proof -
  obtain res w' es where r: "retry_with_backoff (traced busy_twice) (track_cfg 10 60) (0, []) = (res, w', es)"
    by (metis prod_cases3)
  from retry_bounded_and_never_early [OF _ _ r] have "honours es \<and> int (attempts es) \<le> 11"
    by (simp add: busy_twice_def track_cfg_def)
  with r show ?thesis by blast
qed

section \<open>Verdicts\<close>

lemma give_up_5xx: "retry_on_5xx c \<Longrightarrow> give_up c (Some r) = Inr r"
  by (simp add: give_up_def)

lemma retry_loop_answers:
  fixes R :: "('p, 'w) retry_env"
  assumes "\<And>v. \<exists>r. fst (re_call R v) = Inr r" and "retry_on_5xx c" and "\<not> raise_on_5xx c"
    and "left > 0 \<or> last_resp \<noteq> None"
  shows "fst (retry_loop left R c n last_resp w) = Inl AuthRejected
         \<or> (\<exists>r. fst (retry_loop left R c n last_resp w) = Inr r)"
  using assms(4)
proof (induction left arbitrary: n last_resp w)
  case 0
  with assms(2) show ?case by (auto simp: give_up_def)
next
  case (Suc left)
  obtain r w1 where call: "re_call R w = (Inr r, w1)" using assms(1) [of w] by (metis prod.collapse)
  show ?case
  proof (cases "verdict_of c n (Inr r :: 'p call_exn + http_response)")
    case (Give x)
    with call show ?thesis by (simp add: retry_loop.simps)
  next
    case (Fail x)
    with call assms(3) show ?thesis by (auto simp: retry_loop.simps judge_def split: if_splits)
  next
    case (Again x)
    obtain now w2 where nw: "re_now R w1 = (now, w2)" by fastforce
    obtain go w3 where p: "pause R c n (retry_after_seconds_from now x) w2 = (go, w3)" by fastforce
    from call Again nw p Suc.IH [of "Some x" "Suc n" w3] assms(2) show ?thesis
      by (cases go) (auto simp: retry_loop.simps give_up_5xx)
  next
    case (Fault x)
    then show ?thesis using verdict_fault by fastforce
  qed
qed

text \<open>
  the gate always gets an answer to decide on.  With \<open>retry_on_5xx\<close>, a server that answers
  at all, even with 5xx until the budget is spent, past the ceiling or during a shutdown, gives
  the caller its last response or the authentication error, never an exhausted-retries exception.
\<close>

theorem gate_retry_returns_response:
  fixes R :: "('p, 'w) retry_env"
  assumes "\<And>v. \<exists>r. fst (re_call R v) = Inr r" and "retry_on_5xx c" and "\<not> raise_on_5xx c"
    and "0 \<le> max_retries c"
  shows "fst (retry_with_backoff R c w) = Inl AuthRejected
         \<or> (\<exists>r. fst (retry_with_backoff R c w) = Inr r)"
  unfolding retry_with_backoff_def
  by (rule retry_loop_answers [OF assms(1-3)]) (use assms(4) in simp)

theorem gate_retry_returns_response_witness:
  "fst (retry_with_backoff busy_twice ((track_cfg 3 60)\<lparr>retry_on_5xx := True\<rparr>) 0) = Inl AuthRejected
   \<or> (\<exists>r. fst (retry_with_backoff busy_twice ((track_cfg 3 60)\<lparr>retry_on_5xx := True\<rparr>) 0) = Inr r)"
  by (rule gate_retry_returns_response) (simp_all add: busy_twice_def track_cfg_def)

lemma retry_loop_raises:
  fixes R :: "('p, 'w) retry_env"
  assumes "fst (retry_loop left R c n last_resp w) = Inl (Backend5xx k)"
  shows "raise_on_5xx c"
  using assms
proof (induction left arbitrary: c n last_resp w)
  case 0
  then show ?case by (auto simp: give_up_def split: option.splits if_splits)
next
  case (Suc left)
  obtain x w1 where call: "re_call R w = (x, w1)" by fastforce
  show ?case
  proof (cases "verdict_of c n x")
    case (Give r)
    with Suc.prems call show ?thesis by (simp add: retry_loop.simps)
  next
    case (Fail e)
    with Suc.prems call show ?thesis
      by (cases "(c, n, x)" rule: verdict_of.cases) (auto simp: retry_loop.simps judge_def split: if_splits)
  next
    case (Again r)
    obtain now w2 where nw: "re_now R w1 = (now, w2)" by fastforce
    obtain go w3 where p: "pause R c n (retry_after_seconds_from now r) w2 = (go, w3)" by fastforce
    from Suc.prems call Again nw p Suc.IH [of c "Suc n" "Some r" w3] show ?thesis
      by (cases go) (auto simp: retry_loop.simps give_up_def split: if_splits)
  next
    case (Fault cls)
    let ?w2 = "if cls \<in> set timeout_classes then re_inc R ''timeouts'' w1 else w1"
    obtain go w3 where p: "pause R c n (Some (last_retry_after c)) ?w2 = (go, w3)" by fastforce
    from Suc.prems call Fault p Suc.IH [of "c\<lparr>last_retry_after := 0\<rparr>" "Suc n" None w3] show ?thesis
      by (cases go) (auto simp: retry_loop.simps give_up_def Let_def split: if_splits)
  qed
qed

text \<open>Where a result comes from: the server's answer or exception of some attempt.\<close>

definition explained ::
  "('p, 'w) retry_env \<Rightarrow> retry_cfg \<Rightarrow> http_response option \<Rightarrow> 'p retry_exn + http_response \<Rightarrow> bool" where
  "explained R c last_resp res =
     (case res of
        Inr r \<Rightarrow> (\<exists>v. fst (re_call R v) = Inr r \<and> resp_status r \<noteq> 401 \<and> (resp_status r < 500 \<or> retry_on_5xx c))
                 \<or> (retry_on_5xx c \<and> (last_resp = Some r \<or> (\<exists>v. fst (re_call R v) = Inl (HttpStatus r))))
      | Inl (Raised p) \<Rightarrow> \<exists>v. fst (re_call R v) = Inl (PassThrough p)
      | Inl AuthRejected \<Rightarrow> \<exists>v r. fst (re_call R v) = Inr r \<and> resp_status r = 401
      | Inl _ \<Rightarrow> True)"

lemma give_up_explained:
  "last_resp = Some r \<Longrightarrow> (fst (re_call R w) = Inl (HttpStatus r)) \<or> (fst (re_call R w) = Inr r \<and> resp_status r \<ge> 500)
   \<Longrightarrow> explained R c x (give_up c last_resp)"
  by (auto simp: explained_def give_up_def)

lemma explained_later:
  "explained R c (Some r) res \<Longrightarrow>
     (fst (re_call R w) = Inl (HttpStatus r)) \<or> (fst (re_call R w) = Inr r \<and> resp_status r \<ge> 500)
   \<Longrightarrow> explained R c x res"
  by (auto simp: explained_def split: sum.splits retry_exn.splits)

lemma verdict_again_status:
  "verdict_of c n res = Again r \<Longrightarrow> res = Inl (HttpStatus r) \<or> (res = Inr r \<and> resp_status r \<ge> 500)"
  by (cases "(c, n, res)" rule: verdict_of.cases) (auto simp: judge_def split: if_splits)

lemma verdict_give:
  "verdict_of c n res = Give r \<Longrightarrow> res = Inr r \<and> resp_status r \<noteq> 401 \<and> (resp_status r < 500 \<or> retry_on_5xx c)"
  by (induction c n res rule: verdict_of.induct) (auto simp: judge_def split: if_splits)

lemma verdict_fail:
  "verdict_of c n res = Fail e \<Longrightarrow> (\<exists>p. res = Inl (PassThrough p) \<and> e = Raised p)
     \<or> (\<exists>r. res = Inr r \<and> (resp_status r = 401 \<and> e = AuthRejected \<or> e = Backend5xx (resp_status r)))"
  by (induction c n res rule: verdict_of.induct) (auto simp: judge_def split: if_splits)

lemma retry_loop_explained: "explained R c last_resp (fst (retry_loop left R c n last_resp w))"
proof (induction left arbitrary: c n last_resp w)
  case 0
  then show ?case by (auto simp: give_up_def explained_def split: option.splits)
next
  case (Suc left)
  obtain x w1 where call: "re_call R w = (x, w1)" by fastforce
  show ?case
  proof (cases "verdict_of c n x")
    case (Give r)
    from verdict_give [OF Give] call
    have "fst (re_call R w) = Inr r \<and> resp_status r \<noteq> 401 \<and> (resp_status r < 500 \<or> retry_on_5xx c)" by simp
    then have "explained R c last_resp (Inr r)" by (auto simp: explained_def)
    with call Give show ?thesis by (simp add: retry_loop.simps)
  next
    case (Fail e)
    from verdict_fail [OF Fail] call
    have "(\<exists>p. fst (re_call R w) = Inl (PassThrough p) \<and> e = Raised p)
          \<or> (\<exists>r. fst (re_call R w) = Inr r \<and> (resp_status r = 401 \<and> e = AuthRejected \<or> e = Backend5xx (resp_status r)))"
      by simp
    then have "explained R c last_resp (Inl e)" by (auto simp: explained_def intro!: exI [of _ w])
    with call Fail show ?thesis by (simp add: retry_loop.simps)
  next
    case (Again r)
    obtain now w2 where nw: "re_now R w1 = (now, w2)" by fastforce
    obtain go w3 where p: "pause R c n (retry_after_seconds_from now r) w2 = (go, w3)" by fastforce
    from verdict_again_status [OF Again] call
    have src: "fst (re_call R w) = Inl (HttpStatus r) \<or> (fst (re_call R w) = Inr r \<and> resp_status r \<ge> 500)"
      by simp
    have gu: "explained R c last_resp (give_up c (Some r))" by (rule give_up_explained [OF refl src])
    have "explained R c last_resp (fst (retry_loop left R c (Suc n) (Some r) w3))"
      by (rule explained_later [OF Suc.IH src])
    with gu call Again nw p show ?thesis by (cases go) (auto simp: retry_loop.simps)
  next
    case (Fault cls)
    let ?w2 = "if cls \<in> set timeout_classes then re_inc R ''timeouts'' w1 else w1"
    obtain go w3 where p: "pause R c n (Some (last_retry_after c)) ?w2 = (go, w3)" by fastforce
    have gu: "explained R c last_resp (give_up c None)" by (simp add: explained_def give_up_def)
    have "explained R (c\<lparr>last_retry_after := 0\<rparr>) None (fst (retry_loop left R (c\<lparr>last_retry_after := 0\<rparr>) (Suc n) None w3))"
      by (rule Suc.IH)
    then have "explained R c last_resp (fst (retry_loop left R (c\<lparr>last_retry_after := 0\<rparr>) (Suc n) None w3))"
      by (auto simp: explained_def split: sum.splits retry_exn.splits)
    with gu call Fault p show ?thesis by (cases go) (auto simp: retry_loop.simps Let_def)
  qed
qed

lemma retry_explained: "explained R c None (fst (retry_with_backoff R c w))"
  unfolding retry_with_backoff_def by (rule retry_loop_explained)

end
