(* ===== verification/Send_Batch.thy ===== *)
theory Send_Batch
  imports Retry Delivery_Settlement
begin

text \<open>
  One request to \<open>/api/v1/track/batch\<close> (\<open>_send_batch_with_retry_info\<close> of
  \<open>src/nullrun/transport.py\<close>): the post with its retries, the classification of the answer and the
  parsing of a 2xx body.  It is the \<open>env_send\<close> of the delivery pipeline, so the theorems here join
  the retry loop to the settlement.
\<close>

section \<open>The request\<close>

definition deterministic_error_codes :: "string list" where
  "deterministic_error_codes = [''EXECUTION_NOT_BOUND'', ''CONSUME_OVERBUDGET'']"

text \<open>
  \<open>be_post\<close> is \<open>httpx.Client.post\<close>: a response or the class name of the exception it raised.
  \<open>be_action\<close> runs \<open>handle_action\<close> for the type, workflow and reason of one action; whatever it
  raises is swallowed.
\<close>

record 'w batch_env =
  be_post :: "event list \<Rightarrow> 'w \<Rightarrow> (string + http_response) \<times> 'w"
  be_random :: "'w \<Rightarrow> rat \<times> 'w"
  be_now :: "'w \<Rightarrow> rat \<times> 'w"
  be_sleep :: "rat \<Rightarrow> 'w \<Rightarrow> bool \<times> 'w"
  be_inc :: "string \<Rightarrow> 'w \<Rightarrow> 'w"
  be_action :: "json \<Rightarrow> json \<Rightarrow> json \<Rightarrow> 'w \<Rightarrow> 'w"
  be_max_retries :: int
  be_ceiling :: rat

definition post_batch ::
  "'w batch_env \<Rightarrow> event list \<Rightarrow> 'w \<Rightarrow> (send_exn call_exn + http_response) \<times> 'w" where
  "post_batch B batch w =
     (case be_post B batch w of
        (Inl cls, w1) \<Rightarrow> (Inl (OtherFault cls), w1)
      | (Inr r, w1) \<Rightarrow>
          (case extract_backend_error_code r of
             Some code \<Rightarrow>
               (if code \<in> set deterministic_error_codes \<and> resp_status r \<ge> 400
                then (Inl (PassThrough (Refusal code (Some (resp_status r)) (extract_error_details r))), w1)
                else if resp_status r \<ge> 500 \<or> resp_status r = 429 then (Inl (HttpStatus r), w1)
                else (Inr r, w1))
           | None \<Rightarrow>
               (if resp_status r \<ge> 500 \<or> resp_status r = 429 then (Inl (HttpStatus r), w1)
                else (Inr r, w1))))"

definition batch_retry_env ::
  "'w batch_env \<Rightarrow> event list \<Rightarrow> (send_exn, 'w) retry_env" where
  "batch_retry_env B batch =
     \<lparr>re_call = post_batch B batch, re_random = be_random B, re_now = be_now B,
      re_sleep = be_sleep B, re_inc = be_inc B\<rparr>"

section \<open>The answer\<close>

text \<open>\<open>float(hint)\<close> for an int, a float or a bool, \<open>None\<close> otherwise.\<close>

fun as_float :: "json \<Rightarrow> rat option" where
  "as_float (JInt i) = Some (of_int i)"
| "as_float (JFloat q) = Some q"
| "as_float (JBool b) = Some (if b then 1 else 0)"
| "as_float _ = None"

fun strings_of :: "json list \<Rightarrow> string list" where
  "strings_of [] = []"
| "strings_of (JStr s # xs) = s # strings_of xs"
| "strings_of (_ # xs) = strings_of xs"

definition rejection_detail :: "json \<Rightarrow> rejected_item option" where
  "rejection_detail d =
     (case d of
        JObj x \<Rightarrow>
          (case (jget x ''event_id'', jget x ''reason'') of
             (JStr i, JStr reason) \<Rightarrow>
               Some \<lparr>rj_event_id = i, rj_reason = reason,
                     rj_retry_after_ms = as_float (jget x ''retry_after_ms'')\<rparr>
           | _ \<Rightarrow> None)
      | _ \<Rightarrow> None)"

definition rejected_items_of :: "json \<Rightarrow> rejected_item list" where
  "rejected_items_of v =
     (case v of
        JList ds \<Rightarrow> concat (map (\<lambda>d. case rejection_detail d of None \<Rightarrow> [] | Some i \<Rightarrow> [i]) ds)
      | _ \<Rightarrow> [])"

definition batch_result :: "http_response \<Rightarrow> send_result" where
  "batch_result r =
     (if resp_status r < 400 then
        (case json_dict r of
           None \<Rightarrow> \<lparr>accepted_event_ids = [], rejected_items = [], body_confirmed = False\<rparr>
         | Some d \<Rightarrow>
             (case jget d ''accepted_event_ids'' of
                JList xs \<Rightarrow>
                  \<lparr>accepted_event_ids = strings_of xs,
                   rejected_items = rejected_items_of (jget d ''rejection_details''),
                   body_confirmed = True\<rparr>
              | _ \<Rightarrow> \<lparr>accepted_event_ids = [], rejected_items = [], body_confirmed = False\<rparr>))
      else \<lparr>accepted_event_ids = [], rejected_items = [], body_confirmed = True\<rparr>)"

text \<open>
  \<open>retry_after_ms / 1000.0\<close> on the hint of the \<open>rejected\<close> object raises a \<open>TypeError\<close> when there
  is no readable \<open>Retry-After\<close> header and the hint is a string, a list or an object.
\<close>

definition hint_type_error :: "rat \<Rightarrow> http_response \<Rightarrow> bool" where
  "hint_type_error now r =
     (retry_after_seconds_from now r = None
      \<and> (case json_dict r of
           None \<Rightarrow> False
         | Some d \<Rightarrow>
             (case jget d ''rejected'' of
                JObj x \<Rightarrow> (let v = jget x ''retry_after_ms'' in v \<noteq> JNull \<and> as_float v = None)
              | _ \<Rightarrow> False)))"

definition run_action :: "'w batch_env \<Rightarrow> json \<Rightarrow> 'w \<Rightarrow> 'w" where
  "run_action B action w =
     (case action of
        JObj a \<Rightarrow>
          (let action_type = (case dict_get a ''type'' of None \<Rightarrow> JStr [] | Some v \<Rightarrow> v);
               workflow_id = (case dict_get a ''workflow_id'' of None \<Rightarrow> JStr ''unknown'' | Some v \<Rightarrow> v);
               reason = (case dict_get a ''reason'' of None \<Rightarrow> JStr [] | Some v \<Rightarrow> v)
           in if truthy action_type then be_action B action_type workflow_id reason w else w)
      | _ \<Rightarrow> w)"

definition run_actions :: "'w batch_env \<Rightarrow> http_response \<Rightarrow> 'w \<Rightarrow> 'w" where
  "run_actions B r w =
     (case json_dict r of
        None \<Rightarrow> w
      | Some d \<Rightarrow> (case jget d ''actions'' of JList xs \<Rightarrow> fold (run_action B) xs w | _ \<Rightarrow> w))"

definition classify_exhaustion :: "send_exn retry_exn \<Rightarrow> send_exn" where
  "classify_exhaustion x =
     (case x of
        AuthRejected \<Rightarrow> OtherExn ''NullRunAuthError''
      | Backend5xx _ \<Rightarrow> OtherExn ''NullRunBackendError''
      | Raised e \<Rightarrow> e
      | RetriesExhausted \<Rightarrow> Exhausted)"

definition send_batch_with_retry_info ::
  "'w batch_env \<Rightarrow> event list \<Rightarrow> 'w \<Rightarrow> (send_exn + send_result) \<times> 'w" where
  "send_batch_with_retry_info B batch w =
     (case retry_with_backoff (batch_retry_env B batch) (track_cfg (be_max_retries B) (be_ceiling B)) w of
        (Inl x, w1) \<Rightarrow> (Inl (classify_exhaustion x), w1)
      | (Inr r, w1) \<Rightarrow>
          (case be_now B w1 of
             (now, w2) \<Rightarrow>
               (if hint_type_error now r then (Inl (OtherExn ''TypeError''), w2)
                else if \<not> is_success r then (Inl (StatusError (resp_status r)), w2)
                else (Inr (batch_result r), run_actions B r w2))))"

section \<open>What an answer can mean\<close>

lemma post_batch_response:
  "fst (post_batch B batch w) = Inr r \<Longrightarrow> fst (be_post B batch w) = Inr r \<and> resp_status r \<noteq> 429"
  by (auto simp: post_batch_def split: prod.splits sum.splits option.splits if_splits)

lemma post_batch_pass:
  "fst (post_batch B batch w) = Inl (PassThrough p) \<Longrightarrow> \<exists>code status details. p = Refusal code status details"
  by (auto simp: post_batch_def split: prod.splits sum.splits option.splits if_splits)

lemma retry_response:
  assumes "retry_with_backoff (batch_retry_env B batch) (track_cfg (be_max_retries B) (be_ceiling B)) w = (Inr r, w1)"
  shows "\<exists>v. fst (be_post B batch v) = Inr r \<and> resp_status r \<noteq> 401 \<and> resp_status r \<noteq> 429 \<and> resp_status r < 500"
  using retry_explained [of "batch_retry_env B batch" "track_cfg (be_max_retries B) (be_ceiling B)" w] assms
  by (auto simp: explained_def track_cfg_def batch_retry_env_def dest: post_batch_response)

lemma set_strings_of: "i \<in> set (strings_of xs) \<longleftrightarrow> JStr i \<in> set xs"
  by (induction xs rule: strings_of.induct) auto

text \<open>
  C19: the send of one batch reports an event as accepted only when the server lists it.  If the result of
  \<open>_send_batch_with_retry_info\<close> counts an event as accepted, then some answer to this very batch had a 2xx
  status and a JSON object whose \<open>accepted_event_ids\<close> is a list with that event's id in it.  A refusal raises
  instead; that the caller of the send then settles a 422 with \<open>reservation_recorded\<close> as delivered
  (\<open>_deliver_recorded_overbudget\<close>) is not a result of this function.
\<close>

theorem delivered_means_listed:
  assumes "send_batch_with_retry_info B batch w = (Inr res, w')" and "is_accepted res e"
  shows "\<exists>v r d xs i. fst (be_post B batch v) = Inr r \<and> is_success r
           \<and> resp_json r = Some (JObj d) \<and> jget d ''accepted_event_ids'' = JList xs
           \<and> eid e = Some i \<and> JStr i \<in> set xs"
proof -
  obtain res1 w1 where rt: "retry_with_backoff (batch_retry_env B batch)
      (track_cfg (be_max_retries B) (be_ceiling B)) w = (res1, w1)" by fastforce
  with assms(1) obtain r where r: "res1 = Inr r" "is_success r" "res = batch_result r"
    by (auto simp: send_batch_with_retry_info_def split: sum.splits prod.splits if_splits)
  from retry_response [OF rt [unfolded r(1)]] obtain v where v: "fst (be_post B batch v) = Inr r" by blast
  obtain i where i: "eid e = Some i" "i \<in> set (accepted_event_ids res)" using accepted_id [OF assms(2)] by blast
  from i(2) r(3) obtain d xs where "json_dict r = Some d" "jget d ''accepted_event_ids'' = JList xs" "JStr i \<in> set xs"
    by (auto simp: batch_result_def set_strings_of split: option.splits json.splits if_splits)
  moreover from this(1) have "resp_json r = Some (JObj d)"
    by (auto simp: json_dict_def split: option.splits json.splits)
  ultimately show ?thesis using v r(2) i(1) by blast
qed

definition answer_with :: "int \<Rightarrow> json \<Rightarrow> nat batch_env" where
  "answer_with status body =
     \<lparr>be_post = (\<lambda>b n. (Inr \<lparr>resp_status = status, resp_json = Some body, resp_retry_after = None\<rparr>, Suc n)),
      be_random = (\<lambda>n. (0, n)), be_now = (\<lambda>n. (0, n)), be_sleep = (\<lambda>d n. (True, n)),
      be_inc = (\<lambda>_ n. n), be_action = (\<lambda>_ _ _ n. n), be_max_retries = 2, be_ceiling = 60\<rparr>"

lemma answer_with_ok:
  "send_batch_with_retry_info
     (answer_with 200 (JObj [(''accepted_event_ids'', JList [JStr ''a'', JInt 3])])) [plain_event ''a''] 0
   = (Inr \<lparr>accepted_event_ids = [''a''], rejected_items = [], body_confirmed = True\<rparr>, 1)"
  by (simp add: send_batch_with_retry_info_def retry_with_backoff_def batch_retry_env_def answer_with_def
        track_cfg_def retry_loop.simps post_batch_def extract_backend_error_code_def json_dict_def judge_def
        hint_type_error_def retry_after_seconds_from_def is_success_def batch_result_def
        rejected_items_of_def run_actions_def eval_nat_numeral)

theorem delivered_means_listed_witness:
  "\<exists>v r d xs i. fst (be_post (answer_with 200 (JObj [(''accepted_event_ids'', JList [JStr ''a'', JInt 3])]))
                       [plain_event ''a''] v) = Inr r \<and> is_success r
           \<and> resp_json r = Some (JObj d) \<and> jget d ''accepted_event_ids'' = JList xs
           \<and> eid (plain_event ''a'') = Some i \<and> JStr i \<in> set xs"
  by (rule delivered_means_listed [OF answer_with_ok]) (simp add: is_accepted_def plain_event_def)

text \<open>
  the status classes of the rejection handler are not the ones it meets.  An HTTP error that
  reaches \<open>_handle_http_rejection\<close> is never a 401, never a 429 and never a 5xx: a 401 becomes an
  authentication exception inside the retry helper and a 429 or 5xx an exhausted retry, so the
  handler's rules for them are dead.
\<close>

theorem rejection_statuses:
  assumes "send_batch_with_retry_info B batch w = (Inl (StatusError n), w')"
  shows "n \<noteq> 401 \<and> n \<noteq> 429 \<and> n < 500 \<and> \<not> (200 \<le> n \<and> n \<le> 299)"
proof -
  let ?R = "batch_retry_env B batch" and ?c = "track_cfg (be_max_retries B) (be_ceiling B)"
  obtain res1 w1 where rt: "retry_with_backoff ?R ?c w = (res1, w1)" by fastforce
  show ?thesis
  proof (cases res1)
    case (Inl x)
    with assms rt have x: "classify_exhaustion x = StatusError n"
      by (simp add: send_batch_with_retry_info_def)
    then obtain p where p: "x = Raised p" "p = StatusError n"
      by (cases x) (auto simp: classify_exhaustion_def)
    from retry_explained [of ?R ?c w] rt Inl p(1) obtain v where "fst (post_batch B batch v) = Inl (PassThrough p)"
      by (auto simp: explained_def batch_retry_env_def)
    with post_batch_pass p(2) show ?thesis by fastforce
  next
    case (Inr r)
    with assms rt have "n = resp_status r" "\<not> is_success r"
      by (auto simp: send_batch_with_retry_info_def split: prod.splits if_splits)
    with retry_response [OF rt [unfolded Inr]] show ?thesis by (auto simp: is_success_def)
  qed
qed

lemma answer_with_400:
  "send_batch_with_retry_info (answer_with 400 JNull) [plain_event ''a''] 0 = (Inl (StatusError 400), 1)"
  by (simp add: send_batch_with_retry_info_def retry_with_backoff_def batch_retry_env_def answer_with_def
        track_cfg_def retry_loop.simps post_batch_def extract_backend_error_code_def json_dict_def judge_def
        hint_type_error_def retry_after_seconds_from_def is_success_def eval_nat_numeral)

theorem rejection_statuses_witness:
  "(400 :: int) \<noteq> 401 \<and> (400 :: int) \<noteq> 429 \<and> (400 :: int) < 500 \<and> \<not> (200 \<le> (400 :: int) \<and> (400 :: int) \<le> 299)"
  by (rule rejection_statuses [OF answer_with_400])

section \<open>A revoked key\<close>

lemma post_batch_401:
  assumes "fst (be_post B batch w) = Inr r" and "resp_status r = 401" and "extract_backend_error_code r = None"
  shows "fst (post_batch B batch w) = Inr r"
  using assms by (auto simp: post_batch_def split: prod.splits)

text \<open>
  a revoked key dead-letters the data.  While the server answers 401, every send of a batch is
  an authentication exception, which is routed like any other failure: once the retry budget is
  spent the batch is quarantined, although the rejection handler promises to hold exactly these
  batches (\<open>_AUTH_4XX\<close>: requeue, never quarantine).
\<close>

theorem revoked_key_dead_letters:
  assumes "\<And>v. \<exists>r. fst (be_post B batch v) = Inr r \<and> resp_status r = 401 \<and> extract_backend_error_code r = None"
    and "0 \<le> be_max_retries B"
    and spent: "dict_get (batch_attempts s) (failure_signature E batch) = Some k" "k \<ge> max_batch_attempts E"
  shows "fst (send_batch_with_retry_info B batch w) = Inl (OtherExn ''NullRunAuthError'')
         \<and> (\<exists>m. route_deferred E batch (OtherExn ''NullRunAuthError'') s
                = quarantine_to_dlq E batch (OtherExn ''NullRunAuthError'') (s\<lparr>batch_attempts := m\<rparr>))
         \<and> handle_http_rejection E batch 401 s = inc ''batches_auth_blocked'' 1 (requeue_at_head batch s)"
proof -
  obtain r where r: "fst (be_post B batch w) = Inr r" "resp_status r = 401" "extract_backend_error_code r = None"
    using assms(1) by blast
  obtain w1 where call: "post_batch B batch w = (Inr r, w1)"
    using post_batch_401 [OF r] by (metis prod.collapse)
  obtain m where m: "nat (be_max_retries B + 1) = Suc m" using assms(2) by (metis Suc_nat_eq_nat_zadd1 add.commute)
  have "fst (send_batch_with_retry_info B batch w) = Inl (OtherExn ''NullRunAuthError'')"
    using call m r(2)
    by (simp add: send_batch_with_retry_info_def retry_with_backoff_def batch_retry_env_def track_cfg_def
          retry_loop.simps judge_def classify_exhaustion_def)
  moreover obtain m where "retry_or_dlq E batch (OtherExn ''NullRunAuthError'') True s
      = (False, quarantine_to_dlq E batch (OtherExn ''NullRunAuthError'') (s\<lparr>batch_attempts := m\<rparr>))"
    using retry_exhausted [OF spent] by blast
  ultimately show ?thesis
    by (auto simp: route_deferred.simps handle_http_rejection.simps transient_4xx_def auth_4xx_def)
qed

theorem revoked_key_dead_letters_witness:
  "fst (send_batch_with_retry_info (answer_with 401 JNull) [plain_event ''b''] 0) = Inl (OtherExn ''NullRunAuthError'')
   \<and> (\<exists>m. route_deferred (scene refuse_first) [plain_event ''b''] (OtherExn ''NullRunAuthError'') spent_state
          = quarantine_to_dlq (scene refuse_first) [plain_event ''b''] (OtherExn ''NullRunAuthError'')
              (spent_state\<lparr>batch_attempts := m\<rparr>))
   \<and> handle_http_rejection (scene refuse_first) [plain_event ''b''] 401 spent_state
     = inc ''batches_auth_blocked'' 1 (requeue_at_head [plain_event ''b''] spent_state)"
  by (rule revoked_key_dead_letters [where k = 5])
     (simp_all add: answer_with_def extract_backend_error_code_def json_dict_def spent_state_def scene_def
        scene_state_def failure_signature_def sig_id_def plain_event_def dict_get_def)

text \<open>
  a refusal the backend names is never retried.  An error body with one of the deterministic
  codes ends the send after a single request, whatever its status (a 5xx included), and reaches
  the router as a refusal rather than as a breaker failure.
\<close>

theorem named_refusal_sent_once:
  assumes "be_post B batch w = (Inr r, w1)" and "extract_backend_error_code r = Some code"
    and "code \<in> set deterministic_error_codes" and "resp_status r \<ge> 400" and "0 \<le> be_max_retries B"
  shows "send_batch_with_retry_info B batch w
         = (Inl (Refusal code (Some (resp_status r)) (extract_error_details r)), w1)
         \<and> \<not> breaker_level (Refusal code (Some (resp_status r)) (extract_error_details r))"
proof -
  obtain m where m: "nat (be_max_retries B + 1) = Suc m" using assms(5) by (metis Suc_nat_eq_nat_zadd1 add.commute)
  have "post_batch B batch w = (Inl (PassThrough (Refusal code (Some (resp_status r)) (extract_error_details r))), w1)"
    using assms by (simp add: post_batch_def)
  with m show ?thesis
    by (simp add: send_batch_with_retry_info_def retry_with_backoff_def batch_retry_env_def track_cfg_def
          retry_loop.simps classify_exhaustion_def)
qed

theorem named_refusal_sent_once_witness:
  "send_batch_with_retry_info (answer_with 503 (JObj [(''error_code'', JStr ''EXECUTION_NOT_BOUND'')])) [] 0
     = (Inl (Refusal ''EXECUTION_NOT_BOUND'' (Some 503) []), 1)
   \<and> \<not> breaker_level (Refusal ''EXECUTION_NOT_BOUND'' (Some 503) [])"
  using named_refusal_sent_once
    [of "answer_with 503 (JObj [(''error_code'', JStr ''EXECUTION_NOT_BOUND'')])" "[]" 0
        "\<lparr>resp_status = 503, resp_json = Some (JObj [(''error_code'', JStr ''EXECUTION_NOT_BOUND'')]),
          resp_retry_after = None\<rparr>" 1 "''EXECUTION_NOT_BOUND''"]
  by (simp add: answer_with_def extract_backend_error_code_def extract_error_details_def json_dict_def
        deterministic_error_codes_def)

end
