(* ===== verification/Wal_Lifecycle.thy ===== *)
theory Wal_Lifecycle
  imports Delivery_Settlement Delivery_Growth
begin

text \<open>
  The life of a transport around its WAL files (\<open>src/nullrun/transport.py\<close>): construction, the
  replay at start, the recovery of the holdover, the rotation and rewriting of \<open>.wal\<close>, the flush
  loop and the stop.  A crash is the loss of everything but the disk.

  A line of an event file that is not a JSON object is \<open>Junk\<close> when it does not parse; the SDK never
  writes another JSON value there, and such a line is not modelled.
\<close>

section \<open>Settings and construction\<close>

record 'w wal_cfg =
  wal_max_bytes :: int
  event_len :: "event \<Rightarrow> nat"
  new_uuid :: "'w \<Rightarrow> string \<times> 'w"

definition boot_transport :: "int \<Rightarrow> redis \<Rightarrow> disk \<Rightarrow> 'w \<Rightarrow> 'w transport" where
  "boot_transport max_failed_flush rd d w =
     \<lparr>buffer = [], in_flight = [], batch_attempts = [], first_failed_at = [], bisect_depth = 0,
      bisect_budget = 64, dlq_overflow = [], breaker = init_cb max_failed_flush 30 1 rd, disk = d,
      counters = (\<lambda>_. 0), world = w\<rparr>"

section \<open>Rewriting the WAL\<close>

definition rotate_wal_if_needed :: "'w env \<Rightarrow> 'w wal_cfg \<Rightarrow> 'w transport \<Rightarrow> 'w transport" where
  "rotate_wal_if_needed E W s =
     (case wal_file (disk s) of
        None \<Rightarrow> s
      | Some f \<Rightarrow>
          (if int (file_size (event_len W) (Some f)) < wal_max_bytes W then s
           else
             (case io_step E s of
                (True, s1) \<Rightarrow> s1\<lparr>disk := (disk s1)\<lparr>wal1_file := Some f, wal_file := None\<rparr>\<rparr>
              | (False, s1) \<Rightarrow> s1)))"

fun give_ids :: "'w wal_cfg \<Rightarrow> event list \<Rightarrow> 'w \<Rightarrow> event list \<times> 'w" where
  "give_ids W [] w = ([], w)"
| "give_ids W (e # es) w =
     (if eid e = None \<or> eid e = Some [] then
        (case new_uuid W w of
           (i, w1) \<Rightarrow> (case give_ids W es w1 of (es', w2) \<Rightarrow> (e\<lparr>eid := Some i\<rparr> # es', w2)))
      else (case give_ids W es w of (es', w2) \<Rightarrow> (e # es', w2)))"

definition persist_to_wal :: "'w env \<Rightarrow> 'w wal_cfg \<Rightarrow> 'w transport \<Rightarrow> bool \<times> 'w transport" where
  "persist_to_wal E W s =
     (if buffer s = [] then (True, s)
      else
        (case map_world (give_ids W (buffer s)) s of
           (es, s1) \<Rightarrow>
             (let s2 = rotate_wal_if_needed E W (s1\<lparr>buffer := es\<rparr>) in
              case with_file wal_file wal_file_update E es WriteMode s2 of
                (False, s3) \<Rightarrow> (False, s3)
              | (True, s3) \<Rightarrow> (True, s3\<lparr>buffer := []\<rparr>))))"

section \<open>Replay\<close>

datatype wal_source = Rotated | Active | Inflight

fun source_file :: "wal_source \<Rightarrow> disk \<Rightarrow> event wfile option" where
  "source_file Rotated d = wal1_file d"
| "source_file Active d = wal_file d"
| "source_file Inflight d = inflight_file d"

fun drop_source :: "wal_source \<Rightarrow> disk \<Rightarrow> disk" where
  "drop_source Rotated d = d\<lparr>wal1_file := None\<rparr>"
| "drop_source Active d = d\<lparr>wal_file := None\<rparr>"
| "drop_source Inflight d = d\<lparr>inflight_file := None\<rparr>"

definition wal_sources :: "wal_source list" where
  "wal_sources = [Rotated, Active, Inflight]"

text \<open>The events, the files with lines and the files without, of the sources that could be read.\<close>

fun scan_sources ::
  "'w env \<Rightarrow> wal_source list \<Rightarrow> 'w transport
     \<Rightarrow> (event list \<times> wal_source list \<times> wal_source list) \<times> 'w transport" where
  "scan_sources E [] s = (([], [], []), s)"
| "scan_sources E (c # cs) s =
     (case source_file c (disk s) of
        None \<Rightarrow> scan_sources E cs s
      | Some f \<Rightarrow>
          (case io_step E s of
             (False, s1) \<Rightarrow> scan_sources E cs s1
           | (True, s1) \<Rightarrow>
               (case scan_sources E cs s1 of
                  ((events, found, hollow), s2) \<Rightarrow>
                    ((if all_lines f = [] then (events, found, c # hollow)
                      else (map reloaded (rows_of (all_lines f)) @ events, c # found, hollow)), s2))))"

definition remove_source :: "'w env \<Rightarrow> wal_source \<Rightarrow> 'w transport \<Rightarrow> 'w transport" where
  "remove_source E c s =
     (case source_file c (disk s) of
        None \<Rightarrow> s
      | Some f \<Rightarrow>
          (case io_step E s of
             (True, s1) \<Rightarrow> s1\<lparr>disk := drop_source c (disk s1)\<rparr>
           | (False, s1) \<Rightarrow> s1))"

definition remove_sources :: "'w env \<Rightarrow> wal_source list \<Rightarrow> 'w transport \<Rightarrow> 'w transport" where
  "remove_sources E cs s = fold (remove_source E) cs s"

text \<open>What follows the flush: the survivors are rewritten into \<open>.wal\<close>, then the sources go.\<close>

definition replay_settle ::
  "'w env \<Rightarrow> 'w wal_cfg \<Rightarrow> wal_source list \<Rightarrow> 'w transport \<Rightarrow> 'w transport" where
  "replay_settle E W found s =
     (if buffer s = [] then remove_sources E found s
      else
        (case persist_to_wal E W s of
           (False, s1) \<Rightarrow> s1
         | (True, s1) \<Rightarrow> remove_sources E (filter (\<lambda>c. c \<noteq> Active) found) s1))"

definition replay_from_wal :: "'w env \<Rightarrow> 'w wal_cfg \<Rightarrow> 'w transport \<Rightarrow> 'w transport" where
  "replay_from_wal E W s =
     (case io_step E s of
        (False, s1) \<Rightarrow> s1
      | (True, s1) \<Rightarrow>
          (case scan_sources E wal_sources s1 of
             ((events, found, hollow), s2) \<Rightarrow>
               (if events = [] then remove_sources E hollow s2
                else replay_settle E W found (do_flush E (s2\<lparr>buffer := buffer s2 @ events\<rparr>)))))"

definition recover_holdover :: "'w env \<Rightarrow> 'w transport \<Rightarrow> 'w transport" where
  "recover_holdover E s =
     (case holdover_file (disk s) of
        None \<Rightarrow> s
      | Some f \<Rightarrow>
          (case io_step E s of
             (False, s1) \<Rightarrow> s1
           | (True, s1) \<Rightarrow>
               trim_holdover_index E (s1\<lparr>dlq_overflow := dlq_overflow s1 @ map reloaded_row (rows_of (all_lines f))\<rparr>)))"

section \<open>Start, tick and stop\<close>

record 'w lifecycle =
  running :: bool
  stopped :: bool
  transport_of :: "'w transport"

definition start_transport :: "'w env \<Rightarrow> 'w wal_cfg \<Rightarrow> 'w lifecycle \<Rightarrow> 'w lifecycle" where
  "start_transport E W l =
     (if running l then l
      else l\<lparr>transport_of := recover_holdover E (replay_from_wal E W (transport_of l)), running := True\<rparr>)"

definition flush_tick :: "'w env \<Rightarrow> 'w lifecycle \<Rightarrow> 'w lifecycle" where
  "flush_tick E l = (if running l then l\<lparr>transport_of := do_flush E (transport_of l)\<rparr> else l)"

definition final_flush :: "'w env \<Rightarrow> 'w wal_cfg \<Rightarrow> 'w transport \<Rightarrow> 'w transport" where
  "final_flush E W s =
     (case persist_to_wal E W (do_flush E s) of
        (True, s1) \<Rightarrow> clear_inflight E s1
      | (False, s1) \<Rightarrow> s1)"

definition stop_transport :: "'w env \<Rightarrow> 'w wal_cfg \<Rightarrow> bool \<Rightarrow> 'w lifecycle \<Rightarrow> 'w lifecycle" where
  "stop_transport E W flush l =
     l\<lparr>running := False, stopped := True,
       transport_of := (if flush then final_flush E W (transport_of l) else transport_of l)\<rparr>"

section \<open>Frames\<close>

lemma io_step_ok: "io_ok E \<Longrightarrow> \<exists>w. io_step E s = (True, s\<lparr>world := w\<rparr>)"
  by (cases "env_io E (world s)") (auto simp: io_step_def map_world_def io_ok_def dest: spec [of _ "world s"])

lemma wal_write_cases:
  assumes "with_file wal_file wal_file_update E rows mode s = (ok, s')"
  obtains w where "s' = s\<lparr>world := w, disk := (disk s)\<lparr>wal_file :=
      (if ok then Some (written rows mode (wal_file (disk s))) else wal_file (disk s))\<rparr>\<rparr>"
  using assms
  by (auto simp: with_file_def map_world_def write_events_atomic_def split: prod.splits if_splits)

lemma with_file_ok:
  "io_ok E \<Longrightarrow> with_file get upd E rows mode s = (ok, t) \<Longrightarrow> ok"
  by (auto simp: with_file_def map_world_def write_events_atomic_def io_ok_def split: prod.splits)
     (metis fst_conv)

lemma rotate_state:
  "\<exists>w f g. rotate_wal_if_needed E W s = s\<lparr>world := w, disk := (disk s)\<lparr>wal1_file := f, wal_file := g\<rparr>\<rparr>"
proof (cases "wal_file (disk s)")
  case None
  then have "rotate_wal_if_needed E W s
      = s\<lparr>world := world s, disk := (disk s)\<lparr>wal1_file := wal1_file (disk s), wal_file := wal_file (disk s)\<rparr>\<rparr>"
    by (simp add: rotate_wal_if_needed_def)
  then show ?thesis by blast
next
  case (Some f)
  obtain ok s1 where st: "io_step E s = (ok, s1)" by fastforce
  then obtain w where s1: "s1 = s\<lparr>world := w\<rparr>" using io_step_state by blast
  define small where "small \<longleftrightarrow> int (file_size (event_len W) (Some f)) < wal_max_bytes W"
  have "rotate_wal_if_needed E W s
      = s\<lparr>world := (if small then world s else w),
          disk := (disk s)\<lparr>wal1_file := (if ok \<and> \<not> small then Some f else wal1_file (disk s)),
                           wal_file := (if ok \<and> \<not> small then None else wal_file (disk s))\<rparr>\<rparr>"
    using Some st s1 by (cases ok; cases small) (simp_all add: rotate_wal_if_needed_def small_def)
  then show ?thesis by blast
qed

lemma persist_cases:
  assumes "persist_to_wal E W s = (ok, t)" and "buffer s \<noteq> []"
  obtains (stored) w es w1 w2 f where "ok" "give_ids W (buffer s) w = (es, w1)"
      "t = s\<lparr>buffer := [], world := w2,
             disk := (disk s)\<lparr>wal1_file := f, wal_file := Some \<lparr>complete = map Row es, torn = None\<rparr>\<rparr>\<rparr>"
    | (failed) w es w1 w2 f g where "\<not> ok" "give_ids W (buffer s) w = (es, w1)"
      "t = s\<lparr>buffer := es, world := w2, disk := (disk s)\<lparr>wal1_file := f, wal_file := g\<rparr>\<rparr>"
proof -
  obtain es w1 where g: "give_ids W (buffer s) (world s) = (es, w1)" by fastforce
  let ?s1 = "s\<lparr>world := w1, buffer := es\<rparr>"
  obtain w2 f g' where rot: "rotate_wal_if_needed E W ?s1
      = ?s1\<lparr>world := w2, disk := (disk s)\<lparr>wal1_file := f, wal_file := g'\<rparr>\<rparr>"
    using rotate_state [of E W ?s1] by auto
  obtain ok' s3 where wr: "with_file wal_file wal_file_update E es WriteMode (rotate_wal_if_needed E W ?s1) = (ok', s3)"
    by fastforce
  then obtain w3 where s3: "s3 = (rotate_wal_if_needed E W ?s1)\<lparr>world := w3,
      disk := (disk (rotate_wal_if_needed E W ?s1))\<lparr>wal_file :=
        (if ok' then Some (written es WriteMode (wal_file (disk (rotate_wal_if_needed E W ?s1))))
         else wal_file (disk (rotate_wal_if_needed E W ?s1)))\<rparr>\<rparr>"
    by (rule wal_write_cases)
  have res: "(ok, t) = (ok', if ok' then s3\<lparr>buffer := []\<rparr> else s3)"
    using assms g wr by (cases ok') (simp_all add: persist_to_wal_def map_world_def Let_def)
  show thesis
  proof (cases ok')
    case True
    with res have t: "ok" "t = s3\<lparr>buffer := []\<rparr>" by simp_all
    show thesis
    proof (rule stored [OF t(1) g])
      show "t = s\<lparr>buffer := [], world := w3,
             disk := (disk s)\<lparr>wal1_file := f, wal_file := Some \<lparr>complete = map Row es, torn = None\<rparr>\<rparr>\<rparr>"
        unfolding t(2) s3 rot using True by (simp add: written_def)
    qed
  next
    case False
    with res have t: "\<not> ok" "t = s3" by simp_all
    show thesis
    proof (rule failed [OF t(1) g])
      show "t = s\<lparr>buffer := es, world := w3, disk := (disk s)\<lparr>wal1_file := f, wal_file := g'\<rparr>\<rparr>"
        unfolding t(2) s3 rot using False by simp
    qed
  qed
qed

lemma remove_source_state:
  "\<exists>w d. remove_source E c s = s\<lparr>world := w, disk := d\<rparr>
     \<and> (\<forall>x. x \<noteq> c \<longrightarrow> source_file x d = source_file x (disk s))
     \<and> dlq_file d = dlq_file (disk s) \<and> holdover_file d = holdover_file (disk s)"
proof (cases "source_file c (disk s)")
  case None
  then have "remove_source E c s = s\<lparr>world := world s, disk := disk s\<rparr>" by (simp add: remove_source_def)
  then show ?thesis by blast
next
  case (Some f)
  obtain ok s1 where st: "io_step E s = (ok, s1)" by fastforce
  then obtain w where s1: "s1 = s\<lparr>world := w\<rparr>" using io_step_state by blast
  have "remove_source E c s = s\<lparr>world := w, disk := (if ok then drop_source c (disk s) else disk s)\<rparr>"
    using Some st s1 by (cases ok) (simp_all add: remove_source_def)
  moreover have "source_file x (if ok then drop_source c (disk s) else disk s) = source_file x (disk s)" if "x \<noteq> c" for x
    using that by (cases c; cases x) simp_all
  moreover have "dlq_file (if ok then drop_source c (disk s) else disk s) = dlq_file (disk s)"
    "holdover_file (if ok then drop_source c (disk s) else disk s) = holdover_file (disk s)"
    by (cases c; simp)+
  ultimately show ?thesis by blast
qed

lemma remove_sources_state:
  "\<exists>w d. remove_sources E cs s = s\<lparr>world := w, disk := d\<rparr>
     \<and> (\<forall>x. x \<notin> set cs \<longrightarrow> source_file x d = source_file x (disk s))
     \<and> dlq_file d = dlq_file (disk s) \<and> holdover_file d = holdover_file (disk s)"
proof (induction cs arbitrary: s)
  case Nil
  have "remove_sources E [] s = s\<lparr>world := world s, disk := disk s\<rparr>" by (simp add: remove_sources_def)
  then show ?case by blast
next
  case (Cons c cs)
  obtain w d where c: "remove_source E c s = s\<lparr>world := w, disk := d\<rparr>"
    "\<forall>x. x \<noteq> c \<longrightarrow> source_file x d = source_file x (disk s)"
    "dlq_file d = dlq_file (disk s)" "holdover_file d = holdover_file (disk s)"
    using remove_source_state [of E c s] by blast
  let ?t = "s\<lparr>world := w, disk := d\<rparr>"
  obtain w2 d2 where cs: "remove_sources E cs ?t = ?t\<lparr>world := w2, disk := d2\<rparr>"
    "\<forall>x. x \<notin> set cs \<longrightarrow> source_file x d2 = source_file x (disk ?t)"
    "dlq_file d2 = dlq_file (disk ?t)" "holdover_file d2 = holdover_file (disk ?t)"
    using Cons.IH [of ?t] by blast
  have "remove_sources E (c # cs) s = s\<lparr>world := w2, disk := d2\<rparr>"
    using c(1) cs(1) by (simp add: remove_sources_def)
  moreover have "\<forall>x. x \<notin> set (c # cs) \<longrightarrow> source_file x d2 = source_file x (disk s)"
    using c(2) cs(2) by simp
  moreover have "dlq_file d2 = dlq_file (disk s)" "holdover_file d2 = holdover_file (disk s)"
    using c(3,4) cs(3,4) by simp_all
  ultimately show ?case by blast
qed

section \<open>What replay and stop keep\<close>

text \<open>
  replay removes a source only once the survivors are durable.  After the flush of the
  recovered events, either the rewrite of \<open>.wal\<close> succeeded, then the buffer is empty and \<open>.wal\<close> is
  exactly the events the flush left behind (each with an id), or it failed, then they are all still
  in memory and \<open>.inflight\<close> is untouched.  The dead-letter files are never touched.
\<close>

theorem replay_rewrites_survivors:
  assumes "buffer s \<noteq> []"
  shows "let t = replay_settle E W found s in
           dlq_file (disk t) = dlq_file (disk s) \<and> holdover_file (disk t) = holdover_file (disk s)
           \<and> (\<exists>w es w'. give_ids W (buffer s) w = (es, w')
                \<and> (buffer t = [] \<and> wal_file (disk t) = Some \<lparr>complete = map Row es, torn = None\<rparr>
                   \<or> buffer t = es \<and> inflight_file (disk t) = inflight_file (disk s)))"
proof -
  obtain ok s1 where p: "persist_to_wal E W s = (ok, s1)" by fastforce
  show ?thesis
    using p assms
  proof (cases rule: persist_cases)
    case (stored w es w1 w2 f)
    let ?cs = "filter (\<lambda>c. c \<noteq> Active) found"
    obtain w3 d where r: "remove_sources E ?cs s1 = s1\<lparr>world := w3, disk := d\<rparr>"
      "\<forall>x. x \<notin> set ?cs \<longrightarrow> source_file x d = source_file x (disk s1)"
      "dlq_file d = dlq_file (disk s1)" "holdover_file d = holdover_file (disk s1)"
      using remove_sources_state [of E ?cs s1] by blast
    from spec [OF r(2), of Active] have "wal_file d = wal_file (disk s1)" by simp
    with stored have wal: "wal_file d = Some \<lparr>complete = map Row es, torn = None\<rparr>" by simp
    have t: "replay_settle E W found s = s1\<lparr>world := w3, disk := d\<rparr>"
      using p assms stored(1) r(1) by (simp add: replay_settle_def)
    have files: "dlq_file d = dlq_file (disk s)" "holdover_file d = holdover_file (disk s)" "buffer s1 = []"
      using r(3,4) stored(3) by simp_all
    show ?thesis unfolding t Let_def using wal files stored(2) by auto
  next
    case (failed w es w1 w2 f g)
    have t: "replay_settle E W found s = s1"
      using p assms failed(1) by (simp add: replay_settle_def)
    show ?thesis unfolding t Let_def using failed(2,3) by auto
  qed
qed

definition scene_wal :: "nat wal_cfg" where
  "scene_wal = \<lparr>wal_max_bytes = 1000, event_len = (\<lambda>_. 10), new_uuid = (\<lambda>n. (''u'', Suc n))\<rparr>"

theorem replay_rewrites_survivors_witness:
  "let s = scene_state [plain_event ''a''];
       t = replay_settle (scene refuse_first) scene_wal [Rotated, Active] s in
     dlq_file (disk t) = dlq_file (disk s) \<and> holdover_file (disk t) = holdover_file (disk s)
     \<and> (\<exists>w es w'. give_ids scene_wal (buffer s) w = (es, w')
          \<and> (buffer t = [] \<and> wal_file (disk t) = Some \<lparr>complete = map Row es, torn = None\<rparr>
             \<or> buffer t = es \<and> inflight_file (disk t) = inflight_file (disk s)))"
  using replay_rewrites_survivors [of "scene_state [plain_event ''a'']" "scene refuse_first" scene_wal
      "[Rotated, Active]"]
  by (simp add: scene_state_def Let_def)

lemma ids_of_given:
  "give_ids W es w = (es', w') \<Longrightarrow> ids_of es - {[]} \<subseteq> ids_of es'"
proof (induction W es w arbitrary: es' w' rule: give_ids.induct)
  case (2 W e es w)
  show ?case
  proof (cases "eid e = None \<or> eid e = Some []")
    case True
    obtain i w1 where u: "new_uuid W w = (i, w1)" by fastforce
    obtain es2 w2 where g: "give_ids W es w1 = (es2, w2)" by fastforce
    from "2.IH"(1) [OF True u [symmetric] g] "2.prems" True u g show ?thesis
      by (auto simp: ids_of_Cons)
  next
    case False
    obtain es2 w2 where g: "give_ids W es w = (es2, w2)" by fastforce
    from "2.IH"(2) [OF False g] "2.prems" False g show ?thesis by (auto simp: ids_of_Cons)
  qed
qed simp

lemma unsettled_disk [simp]:
  "unsettled (s\<lparr>buffer := b, world := w, disk := d\<rparr>) = unsettled s"
  by (simp add: unsettled_def)

text \<open>
  C33: a clean stop is durable.  Let the durable writes succeed and let the conditions of the flush hold: a 2xx
  answer accepts every event it answers for, the buffer is within \<open>_max_buffer_size\<close>, the holdover index has room
  for all of it, no event id is empty, and every key of \<open>_in_flight\<close> is buffered or parked beforehand.  Then
  after the final flush every key of \<open>_in_flight\<close> is the id of a row of \<open>.wal\<close> or of a parked event, and the buffer
  is empty.  What the next process does with those rows is a different matter: \<open>restart_loses_survivor\<close>.
\<close>

theorem stop_is_durable:
  assumes io: "io_ok E"
    and full: "accepts_whole_batches E"
    and fits: "int (length (buffer s)) \<le> max_buffer_size E"
    and room: "int (length (dlq_overflow s) + length (buffer s)) \<le> holdover_index_max E"
    and ids: "[] \<notin> unsettled s"
    and before: "unsettled s \<subseteq> ids_of (buffer s) \<union> parked_ids s"
  shows "buffer (final_flush E W s) = []
         \<and> unsettled (final_flush E W s)
             \<subseteq> ids_of (file_rows (wal_file (disk (final_flush E W s)))) \<union> parked_ids (final_flush E W s)"
proof -
  let ?f = "do_flush E s"
  have "held E [] ?f" by (rule flush_held [OF full fits room ids before])
  then have kept: "unsettled ?f \<subseteq> ids_of (buffer ?f) \<union> parked_ids ?f"
    and noid: "[] \<notin> unsettled ?f" by (simp_all add: held_def)
  obtain ok t where p: "persist_to_wal E W ?f = (ok, t)" by fastforce
  have "ok \<and> buffer t = [] \<and> unsettled t \<subseteq> ids_of (file_rows (wal_file (disk t))) \<union> parked_ids t"
  proof (cases "buffer ?f = []")
    case True
    with p kept show ?thesis by (auto simp: persist_to_wal_def)
  next
    case False
    show ?thesis
      using p False
    proof (cases rule: persist_cases)
      case (stored w es w1 w2 f)
      have rows: "file_rows (wal_file (disk t)) = es"
        using stored(3) by (simp add: file_rows_def read_lines_def all_lines_def)
      from ids_of_given [OF stored(2)] kept noid
      have "unsettled ?f \<subseteq> ids_of es \<union> parked_ids ?f" by blast
      with stored rows show ?thesis by (auto simp: unsettled_def parked_ids_def)
    next
      case (failed w es w1 w2 f g)
      with p io False show ?thesis
        by (auto simp: persist_to_wal_def Let_def dest: with_file_ok split: prod.splits bool.splits)
    qed
  qed
  moreover from p this have "final_flush E W s = clear_inflight E t" by (simp add: final_flush_def)
  moreover obtain w f where "clear_inflight E t = t\<lparr>world := w, disk := (disk t)\<lparr>inflight_file := f\<rparr>\<rparr>"
    using clear_inflight_state [of E t] by blast
  ultimately show ?thesis by (simp add: unsettled_def parked_ids_def)
qed

theorem stop_is_durable_witness:
  "buffer (final_flush (scene refuse_first) scene_wal (scene_state [plain_event ''a'', plain_event ''b''])) = []
   \<and> unsettled (final_flush (scene refuse_first) scene_wal (scene_state [plain_event ''a'', plain_event ''b'']))
     \<subseteq> ids_of (file_rows (wal_file (disk (final_flush (scene refuse_first) scene_wal
                 (scene_state [plain_event ''a'', plain_event ''b''])))))
       \<union> parked_ids (final_flush (scene refuse_first) scene_wal (scene_state [plain_event ''a'', plain_event ''b'']))"
  by (rule stop_is_durable [OF _ refuse_first_whole])
     (auto simp: scene_def scene_state_def unsettled_def ids_of_def plain_event_def io_ok_def)

section \<open>Round trip\<close>

lemma scan_single:
  assumes "io_ok E" and "wal1_file (disk s) = None" and "inflight_file (disk s) = None"
    and "wal_file (disk s) = Some f" and "all_lines f \<noteq> []"
  shows "\<exists>w. scan_sources E wal_sources s = ((map reloaded (rows_of (all_lines f)), [Active], []), s\<lparr>world := w\<rparr>)"
proof -
  obtain w where "io_step E s = (True, s\<lparr>world := w\<rparr>)" using io_step_ok [OF assms(1)] by blast
  with assms show ?thesis by (intro exI [of _ w]) (simp add: wal_sources_def)
qed

text \<open>
  C39: what a stop persists, the next start recovers.  A successful rewrite of a non-empty buffer, with no
  \<open>.wal.1\<close> and no \<open>.inflight\<close> left beside it, leaves a disk from which the replay of a new process reads
  exactly the persisted events, each with its id, in order, once and nothing else: every event as its JSON
  text reads, so an event of JSON values alone comes back as it was, and a second round trip changes nothing.
\<close>

theorem persist_replay_roundtrip:
  assumes "persist_to_wal E W s = (True, t)" and "buffer s \<noteq> []" and "io_ok E'"
    and "wal1_file (disk t) = None" and "inflight_file (disk t) = None"
  shows "\<exists>w w' es w2. give_ids W (buffer s) w = (es, w')
           \<and> scan_sources E' wal_sources (boot_transport k rd (disk t) v)
             = ((map reloaded es, [Active], []), (boot_transport k rd (disk t) v)\<lparr>world := w2\<rparr>)
           \<and> map eid (map reloaded es) = map eid es \<and> map reloaded (map reloaded es) = map reloaded es
           \<and> (\<forall>e \<in> set es. (\<forall>(k, v) \<in> set (payload e). enum_free v) \<longrightarrow> reloaded e = e)"
  using assms(1,2)
proof (cases rule: persist_cases)
  case (stored w es w1 w2 f)
  have "es \<noteq> []" using stored(2) assms(2)
    by (cases "buffer s") (auto split: if_splits prod.splits)
  have wal: "wal_file (disk t) = Some \<lparr>complete = map Row es, torn = None\<rparr>" using stored(3) by simp
  from scan_single [OF assms(3), of "boot_transport k rd (disk t) v" "\<lparr>complete = map Row es, torn = None\<rparr>"]
    wal assms(4,5) \<open>es \<noteq> []\<close>
  obtain w3 where "scan_sources E' wal_sources (boot_transport k rd (disk t) v)
      = ((map reloaded es, [Active], []), (boot_transport k rd (disk t) v)\<lparr>world := w3\<rparr>)"
    by (auto simp: boot_transport_def all_lines_def)
  with stored(2) show ?thesis using reloaded_native by auto
qed simp

lemma scene_persist:
  "persist_to_wal (scene refuse_first) scene_wal (scene_state [plain_event ''a''])
   = (True, (scene_state [plain_event ''a''])\<lparr>buffer := [], disk := empty_disk\<lparr>wal_file :=
        Some \<lparr>complete = [Row (plain_event ''a'')], torn = None\<rparr>\<rparr>\<rparr>)"
  by (simp add: persist_to_wal_def scene_state_def map_world_def plain_event_def rotate_wal_if_needed_def
        empty_disk_def with_file_def scene_def write_events_atomic_def written_def)

theorem persist_replay_roundtrip_witness:
  "\<exists>w w' es w2. give_ids scene_wal (buffer (scene_state [plain_event ''a''])) w = (es, w')
     \<and> scan_sources (scene refuse_first) wal_sources
         (boot_transport 5 NoRedis (empty_disk\<lparr>wal_file := Some \<lparr>complete = [Row (plain_event ''a'')], torn = None\<rparr>\<rparr>) 0)
       = ((map reloaded es, [Active], []), (boot_transport 5 NoRedis
             (empty_disk\<lparr>wal_file := Some \<lparr>complete = [Row (plain_event ''a'')], torn = None\<rparr>\<rparr>) 0)\<lparr>world := w2\<rparr>)"
proof -
  have "buffer (scene_state [plain_event ''a'']) \<noteq> []" "io_ok (scene refuse_first)"
    by (simp_all add: scene_state_def io_ok_def scene_def)
  from persist_replay_roundtrip [OF scene_persist this, of 5 NoRedis 0] show ?thesis
    unfolding transport.simps by (auto simp: empty_disk_def)
qed

section \<open>What a restart loses\<close>

text \<open>A server that cannot be reached: every request ends with its retries exhausted.\<close>

definition unreachable :: "'w env \<Rightarrow> bool" where
  "unreachable E \<longleftrightarrow> (\<forall>b w. fst (env_send E b w) = Inl Exhausted)"

lemma unreachable_send:
  assumes "unreachable E"
  shows "\<exists>x. fst (through_breaker E batch s) = Exc x \<and> is_breaker_transport x"
proof -
  obtain now u fin w where t: "env_mono E (world s) = ((now, u, fin), w)" by (metis prod_cases3 prod.collapse)
  let ?s1 = "s\<lparr>world := w\<rparr>"
  obtain r b s2 where c: "cb_call now u fin (send_closure E batch) (breaker ?s1) ?s1 = (r, b, s2)"
    by (metis prod_cases3)
  have "\<exists>x. r = Exc x \<and> is_breaker_transport x"
    using breaker_call.call_ran_or_rejected [OF c]
  proof
    assume "rejection r \<and> s2 = ?s1"
    then show ?thesis by (cases r rule: rejection.cases) auto
  next
    assume "\<exists>q. send_closure E batch ?s1 = (q, s2) \<and> r = lift_inner q"
    then obtain q where q: "send_closure E batch ?s1 = (q, s2)" "r = lift_inner q" by blast
    obtain w2 where "env_send E batch w = (Inl Exhausted, w2)"
      using assms by (metis prod.collapse unreachable_def)
    with q(1) have "q = Exc Exhausted" by (simp add: send_closure_def map_world_def)
    with q(2) show ?thesis by simp
  qed
  with t c show ?thesis by (simp add: through_breaker_def map_world_def)
qed

lemma unreachable_flush:
  assumes down: "unreachable E" and io: "io_ok E" and ne: "buffer s \<noteq> []" and held: "dlq_overflow s = []"
    and fits: "int (length (buffer s)) \<le> max_buffer_size E"
  shows "buffer (do_flush E s) = buffer s \<and> dlq_overflow (do_flush E s) = []
         \<and> disk (do_flush E s) = (disk s)\<lparr>inflight_file := Some (written (buffer s) WriteMode (inflight_file (disk s)))\<rparr>"
proof -
  let ?B = "buffer s"
  let ?s2 = "s\<lparr>buffer := [], bisect_budget := max_bisect_requests E\<rparr>"
  obtain ok s3 where wf: "with_file inflight_file inflight_file_update E ?B WriteMode ?s2 = (ok, s3)" by fastforce
  with with_file_ok [OF io wf] obtain w where
    s3: "s3 = ?s2\<lparr>world := w, disk := (disk s)\<lparr>inflight_file := Some (written ?B WriteMode (inflight_file (disk s)))\<rparr>\<rparr>"
    by (auto elim: inflight_write_cases)
  obtain r s4 where tb: "through_breaker E ?B s3 = (r, s4)" by fastforce
  from unreachable_send [OF down, of ?B s3] tb obtain x where x: "r = Exc x" "is_breaker_transport x" by auto
  have fr: "sent_frame s3 s4" using through_breaker_frame [of s3 E ?B] tb by simp
  have b4: "buffer s4 = []" using fr s3 by (simp add: sent_frame_def)
  have "do_flush E s = requeue_after_breaker E ?B s4"
    using held ne wf tb x by (simp add: do_flush_def drain_dlq_overflow_def persist_inflight_def Let_def)
  also have "\<dots> = inc ''batches_failed'' 1 (s4\<lparr>buffer := ?B\<rparr>)"
    using fits b4 by (simp add: requeue_after_breaker_def)
  finally show ?thesis using fr s3 held by (simp add: sent_frame_def)
qed

lemma with_file_written:
  assumes "io_ok E"
  shows "\<exists>w. with_file wal_file wal_file_update E rows mode s
           = (True, s\<lparr>world := w, disk := (disk s)\<lparr>wal_file := Some (written rows mode (wal_file (disk s)))\<rparr>\<rparr>)"
proof -
  obtain ok t where wf: "with_file wal_file wal_file_update E rows mode s = (ok, t)" by fastforce
  obtain w where "t = s\<lparr>world := w, disk := (disk s)\<lparr>wal_file :=
      (if ok then Some (written rows mode (wal_file (disk s))) else wal_file (disk s))\<rparr>\<rparr>"
    using wf by (rule wal_write_cases)
  with with_file_ok [OF assms wf] wf show ?thesis by auto
qed

lemma clear_inflight_ok:
  assumes "io_ok E"
  shows "\<exists>w. clear_inflight E s = s\<lparr>world := w, disk := (disk s)\<lparr>inflight_file := None\<rparr>\<rparr>"
proof (cases "inflight_file (disk s)")
  case None
  then have "clear_inflight E s = s\<lparr>world := world s, disk := (disk s)\<lparr>inflight_file := None\<rparr>\<rparr>"
    by (simp add: clear_inflight_def)
  then show ?thesis by blast
next
  case (Some f)
  obtain w where "io_step E s = (True, s\<lparr>world := w\<rparr>)" using io_step_ok [OF assms] by blast
  with Some have "clear_inflight E s = s\<lparr>world := w, disk := (disk s)\<lparr>inflight_file := None\<rparr>\<rparr>"
    by (simp add: clear_inflight_def)
  then show ?thesis by blast
qed

lemma persist_one:
  assumes "buffer s = [e]" "eid e = Some i" "i \<noteq> []"
  shows "persist_to_wal E W s =
           (case with_file wal_file wal_file_update E [e] WriteMode (rotate_wal_if_needed E W s) of
              (False, s3) \<Rightarrow> (False, s3)
            | (True, s3) \<Rightarrow> (True, s3\<lparr>buffer := []\<rparr>))"
proof -
  have ids: "map_world (give_ids W (buffer s)) s = ([e], s)" using assms by (simp add: map_world_def)
  have same: "s\<lparr>buffer := [e]\<rparr> = s" using assms(1) by simp
  have ne: "buffer s \<noteq> []" using assms(1) by simp
  show ?thesis by (simp only: persist_to_wal_def ids same ne prod.case Let_def if_False)
qed

lemma persist_small:
  assumes io: "io_ok E" and one: "buffer s = [e]" "eid e = Some i" "i \<noteq> []"
    and small: "int (file_size (event_len W) (wal_file (disk s))) < wal_max_bytes W"
  shows "\<exists>w. persist_to_wal E W s
           = (True, s\<lparr>buffer := [], world := w,
                      disk := (disk s)\<lparr>wal_file := Some \<lparr>complete = [Row e], torn = None\<rparr>\<rparr>\<rparr>)"
proof -
  have "rotate_wal_if_needed E W s = s"
    using small by (cases "wal_file (disk s)") (simp_all add: rotate_wal_if_needed_def)
  moreover obtain w where "with_file wal_file wal_file_update E [e] WriteMode s
      = (True, s\<lparr>world := w, disk := (disk s)\<lparr>wal_file := Some (written [e] WriteMode (wal_file (disk s)))\<rparr>\<rparr>)"
    using with_file_written [OF io] by blast
  ultimately have "persist_to_wal E W s
      = (True, s\<lparr>buffer := [], world := w,
                 disk := (disk s)\<lparr>wal_file := Some \<lparr>complete = [Row e], torn = None\<rparr>\<rparr>\<rparr>)"
    by (simp add: persist_one [OF one] written_def)
  then show ?thesis by blast
qed

text \<open>The disk of a process that stopped with one undelivered event.\<close>

definition one_event_wal :: "event \<Rightarrow> disk" where
  "one_event_wal e = empty_disk\<lparr>wal_file := Some \<lparr>complete = [Row e], torn = None\<rparr>\<rparr>"

text \<open>
  a survivor of the replay is lost at the next stop.  A process starts on a WAL with one event
  while the server cannot be reached, and every disk operation succeeds.  The replay puts the event
  back into \<open>.wal\<close> and out of memory; the process tracks one new event and stops, and the final
  rewrite replaces \<open>.wal\<close> by the new event alone: the old one is in no file and not in memory.
\<close>

theorem restart_loses_survivor:
  assumes native: "\<forall>(k, v) \<in> set (payload x). enum_free v"
    and down: "unreachable E" and io: "io_ok E" and limits: "1 < batch_size E" "1 \<le> max_buffer_size E"
    and small: "int (event_len W x) + 1 < wal_max_bytes W"
    and ids: "eid x = Some i" "i \<noteq> []" "eid y = Some j" "j \<noteq> []"
  shows "let started = start_transport E W \<lparr>running = False, stopped = False,
                          transport_of = boot_transport k rd (one_event_wal x) v\<rparr>;
             tracked = started\<lparr>transport_of := track E fresh y (transport_of started)\<rparr>;
             ended = transport_of (stop_transport E W True tracked)
         in wal_file (disk (transport_of started)) = Some \<lparr>complete = [Row x], torn = None\<rparr>
            \<and> disk ended = one_event_wal y \<and> buffer ended = [] \<and> dlq_overflow ended = []"
proof -
  let ?boot = "boot_transport k rd (one_event_wal x) v"
  obtain w1 where lock: "io_step E ?boot = (True, ?boot\<lparr>world := w1\<rparr>)" using io_step_ok [OF io] by blast
  let ?s1 = "?boot\<lparr>world := w1\<rparr>"
  obtain w2 where scan: "scan_sources E wal_sources ?s1 = (([x], [Active], []), ?s1\<lparr>world := w2\<rparr>)"
    using scan_single [OF io, of ?s1 "\<lparr>complete = [Row x], torn = None\<rparr>"]
    by (auto simp: boot_transport_def one_event_wal_def empty_disk_def all_lines_def reloaded_native [OF native])
  let ?s2 = "?s1\<lparr>world := w2, buffer := [x]\<rparr>"
  let ?f = "do_flush E ?s2"
  have flush: "buffer ?f = [x]" "dlq_overflow ?f = []"
    "disk ?f = (one_event_wal x)\<lparr>inflight_file := Some \<lparr>complete = [Row x], torn = None\<rparr>\<rparr>"
    using unreachable_flush [OF down io, of ?s2] limits
    by (simp_all add: boot_transport_def written_def)
  obtain w3 where p: "persist_to_wal E W ?f
      = (True, ?f\<lparr>buffer := [], world := w3, disk := (disk ?f)\<lparr>wal_file := Some \<lparr>complete = [Row x], torn = None\<rparr>\<rparr>\<rparr>)"
    using persist_small [OF io flush(1) ids(1,2), of W] small flush(3)
    by (auto simp: one_event_wal_def file_size_def)
  let ?r = "?f\<lparr>buffer := [], world := w3, disk := (disk ?f)\<lparr>wal_file := Some \<lparr>complete = [Row x], torn = None\<rparr>\<rparr>\<rparr>"
  have replay: "replay_from_wal E W ?boot = ?r"
    using lock scan p flush(1)
    by (simp add: replay_from_wal_def replay_settle_def remove_sources_def boot_transport_def)
  have rec: "recover_holdover E ?r = ?r"
    using flush(3) by (simp add: recover_holdover_def one_event_wal_def empty_disk_def)
  have tr: "with_id fresh y = y" using ids(3,4) by (simp add: with_id_def)
  let ?t = "track E fresh y ?r"
  have t: "buffer ?t = [y]" "dlq_overflow ?t = []" "disk ?t = disk ?r"
    using limits flush(2) by (simp_all add: track_def tr Let_def)
  let ?g = "do_flush E ?t"
  have flush2: "buffer ?g = [y]" "dlq_overflow ?g = []"
    "disk ?g = (one_event_wal x)\<lparr>inflight_file := Some \<lparr>complete = [Row y], torn = None\<rparr>\<rparr>"
    using unreachable_flush [OF down io, of ?t] limits t flush(3)
    by (simp_all add: written_def one_event_wal_def)
  obtain w4 where p2: "persist_to_wal E W ?g
      = (True, ?g\<lparr>buffer := [], world := w4, disk := (disk ?g)\<lparr>wal_file := Some \<lparr>complete = [Row y], torn = None\<rparr>\<rparr>\<rparr>)"
    using persist_small [OF io flush2(1) ids(3,4), of W] small flush2(3)
    by (auto simp: one_event_wal_def file_size_def)
  let ?q = "?g\<lparr>buffer := [], world := w4, disk := (disk ?g)\<lparr>wal_file := Some \<lparr>complete = [Row y], torn = None\<rparr>\<rparr>\<rparr>"
  obtain w5 where cl: "clear_inflight E ?q = ?q\<lparr>world := w5, disk := (disk ?q)\<lparr>inflight_file := None\<rparr>\<rparr>"
    using clear_inflight_ok [OF io] by blast
  have fin: "final_flush E W ?t = ?q\<lparr>world := w5, disk := (disk ?q)\<lparr>inflight_file := None\<rparr>\<rparr>"
    using p2 cl by (simp add: final_flush_def)
  show ?thesis
    using replay rec fin flush2 flush(3)
    by (simp add: start_transport_def stop_transport_def Let_def one_event_wal_def empty_disk_def)
qed

definition no_answer :: "nat \<Rightarrow> event list \<Rightarrow> send_exn + send_result" where
  "no_answer n b = Inl Exhausted"

theorem restart_loses_survivor_witness:
  "let started = start_transport (scene no_answer) scene_wal \<lparr>running = False, stopped = False,
                    transport_of = boot_transport 5 NoRedis (one_event_wal (plain_event ''a'')) 0\<rparr>;
       tracked = started\<lparr>transport_of := track (scene no_answer) ''u'' (plain_event ''b'') (transport_of started)\<rparr>;
       ended = transport_of (stop_transport (scene no_answer) scene_wal True tracked)
   in wal_file (disk (transport_of started)) = Some \<lparr>complete = [Row (plain_event ''a'')], torn = None\<rparr>
      \<and> disk ended = one_event_wal (plain_event ''b'') \<and> buffer ended = [] \<and> dlq_overflow ended = []"
  by (rule restart_loses_survivor [where i = "''a''" and j = "''b''"])
     (simp_all add: unreachable_def io_ok_def scene_def scene_wal_def no_answer_def plain_event_def)

text \<open>
  rotation overwrites the older source.  A rewrite of a \<open>.wal\<close> that has reached its cap first
  renames it over \<open>.wal.1\<close>; if the write then fails, the old content of \<open>.wal.1\<close> is gone from the
  disk while the caller is told that every recovery file is kept.
\<close>

theorem rotation_discards_old_source:
  assumes "wal_file (disk s) = Some f" and "int (file_size (event_len W) (Some f)) \<ge> wal_max_bytes W"
    and "buffer s = [e]" and "eid e = Some i" and "i \<noteq> []"
    and "env_io E (world s) = (True, w1)" and "env_io E w1 = (False, w2)"
  shows "persist_to_wal E W s
         = (False, s\<lparr>world := w2, disk := (disk s)\<lparr>wal1_file := Some f, wal_file := None\<rparr>\<rparr>)"
proof -
  have "rotate_wal_if_needed E W s
      = s\<lparr>world := w1, disk := (disk s)\<lparr>wal1_file := Some f, wal_file := None\<rparr>\<rparr>"
    using assms(1,2,6) by (simp add: rotate_wal_if_needed_def io_step_def map_world_def)
  then show ?thesis
    using assms(7) by (simp add: persist_one [OF assms(3-5)] with_file_def map_world_def write_events_atomic_def)
qed

theorem rotation_discards_old_source_witness:
  "persist_to_wal ((scene no_answer)\<lparr>env_io := (\<lambda>n. (n = 0, Suc n))\<rparr>) (scene_wal\<lparr>wal_max_bytes := 5\<rparr>)
     ((scene_state [plain_event ''b''])\<lparr>disk := (one_event_wal (plain_event ''a''))
        \<lparr>wal1_file := Some \<lparr>complete = [Row (plain_event ''c'')], torn = None\<rparr>\<rparr>\<rparr>)
   = (False, (scene_state [plain_event ''b''])\<lparr>world := 2,
        disk := empty_disk\<lparr>wal1_file := Some \<lparr>complete = [Row (plain_event ''a'')], torn = None\<rparr>\<rparr>\<rparr>)"
  using rotation_discards_old_source
    [of "(scene_state [plain_event ''b''])\<lparr>disk := (one_event_wal (plain_event ''a''))
        \<lparr>wal1_file := Some \<lparr>complete = [Row (plain_event ''c'')], torn = None\<rparr>\<rparr>\<rparr>"
      "\<lparr>complete = [Row (plain_event ''a'')], torn = None\<rparr>" "scene_wal\<lparr>wal_max_bytes := 5\<rparr>"
      "plain_event ''b''" "''b''" "(scene no_answer)\<lparr>env_io := (\<lambda>n. (n = 0, Suc n))\<rparr>" 1 2]
  by (simp add: one_event_wal_def scene_state_def scene_wal_def plain_event_def file_size_def scene_def
        empty_disk_def)

end
