(* ===== verification/Wal_Admin.thy ===== *)
theory Wal_Admin
  imports Wal_Lifecycle
begin

text \<open>
  The operator's command line \<open>nullrun-wal\<close> (\<open>src/nullrun/wal_admin.py\<close>): the tolerant reader of a
  dead-letter file, the selection of rows, the replay of their events through a transport of its
  own on a scratch WAL, and the removal of the confirmed rows.  Printing is left out; a command is
  its exit code and what it does to the file.
\<close>

section \<open>Reading and selecting\<close>

definition terminal_without_replay :: "string list" where
  "terminal_without_replay = [''EXECUTION_NOT_BOUND:422'', ''EXECUTION_NOT_BOUND:503'']"

definition is_terminal_without_replay :: "string \<Rightarrow> bool" where
  "is_terminal_without_replay reason \<longleftrightarrow> reason \<in> set terminal_without_replay"

fun sort_lines :: "dlq_row line list \<Rightarrow> dlq_row list \<times> string list" where
  "sort_lines [] = ([], [])"
| "sort_lines (Blank # ls) = sort_lines ls"
| "sort_lines (Junk j # ls) = (case sort_lines ls of (rows, corrupt) \<Rightarrow> (rows, take 200 j # corrupt))"
| "sort_lines (Row r # ls) = (case sort_lines ls of (rows, corrupt) \<Rightarrow> (r # rows, corrupt))"

text \<open>\<open>readable\<close> is \<open>False\<close> when opening the file raises another \<open>OSError\<close> than a missing file.\<close>

definition read_dlq :: "bool \<Rightarrow> dlq_row wfile option \<Rightarrow> dlq_row list \<times> string list" where
  "read_dlq readable file =
     (case file of
        None \<Rightarrow> ([], [])
      | Some f \<Rightarrow> if readable then sort_lines (all_lines f) else ([], []))"

definition row_reason :: "dlq_row \<Rightarrow> string" where
  "row_reason r =
     (case r_reason r of
        Some s \<Rightarrow> if s \<noteq> [] then s else
          (case r_error r of Some x \<Rightarrow> if x \<noteq> [] then x else ''unspecified'' | None \<Rightarrow> ''unspecified'')
      | None \<Rightarrow>
          (case r_error r of Some x \<Rightarrow> if x \<noteq> [] then x else ''unspecified'' | None \<Rightarrow> ''unspecified''))"

text \<open>\<open>xs[:n]\<close>, and \<open>xs[:limit] if limit else xs\<close>.\<close>

definition py_prefix :: "int \<Rightarrow> 'a list \<Rightarrow> 'a list" where
  "py_prefix n xs = (if n \<ge> 0 then take (nat n) xs else take (length xs - nat (- n)) xs)"

definition limited :: "int option \<Rightarrow> 'a list \<Rightarrow> 'a list" where
  "limited limit xs = (case limit of None \<Rightarrow> xs | Some n \<Rightarrow> if n = 0 then xs else py_prefix n xs)"

definition select_rows ::
  "dlq_row list \<Rightarrow> string option \<Rightarrow> int option \<Rightarrow> bool \<Rightarrow> dlq_row list \<times> dlq_row list" where
  "select_rows rows reason limit include_terminal =
     (let matched = filter (\<lambda>r. case reason of None \<Rightarrow> True | Some x \<Rightarrow> row_reason r = x) rows in
      if include_terminal then (limited limit matched, [])
      else (limited limit (filter (\<lambda>r. \<not> is_terminal_without_replay (row_reason r)) matched),
            filter (\<lambda>r. is_terminal_without_replay (row_reason r)) matched))"

section \<open>What was not confirmed\<close>

definition str_id :: "event \<Rightarrow> string" where
  "str_id e = (case eid e of None \<Rightarrow> ''None'' | Some i \<Rightarrow> i)"

fun event_ids_of_rows :: "dlq_row list \<Rightarrow> string list" where
  "event_ids_of_rows [] = []"
| "event_ids_of_rows (r # rs) =
     (case r_event r of None \<Rightarrow> event_ids_of_rows rs | Some e \<Rightarrow> str_id e # event_ids_of_rows rs)"

definition unconfirmed_event_ids :: "'w transport \<Rightarrow> string list" where
  "unconfirmed_event_ids s =
     map str_id (buffer s) @ event_ids_of_rows (dlq_overflow s)
     @ event_ids_of_rows (fst (read_dlq True (dlq_file (disk s))))
     @ event_ids_of_rows (fst (read_dlq True (holdover_file (disk s))))"

section \<open>Removing the confirmed rows\<close>

definition confirmed_line :: "string list \<Rightarrow> dlq_row line \<Rightarrow> bool" where
  "confirmed_line ids l =
     (case l of
        Row r \<Rightarrow>
          (case r_event r of
             None \<Rightarrow> False
           | Some e \<Rightarrow> (case eid e of None \<Rightarrow> False | Some i \<Rightarrow> i \<in> set ids))
      | _ \<Rightarrow> False)"

definition drop_confirmed ::
  "bool \<Rightarrow> bool \<Rightarrow> string list \<Rightarrow> dlq_row wfile option \<Rightarrow> nat \<times> dlq_row wfile option" where
  "drop_confirmed readable writable ids file =
     (if ids = [] then (0, file)
      else
        (case file of
           None \<Rightarrow> (0, file)
         | Some f \<Rightarrow>
             if \<not> readable then (0, file)
             else
               (let kept = filter (\<lambda>l. \<not> confirmed_line ids l) (all_lines f);
                    removed = length (all_lines f) - length kept
                in if removed = 0 then (0, file)
                   else if writable then (removed, Some \<lparr>complete = kept, torn = None\<rparr>)
                   else (0, file))))"

section \<open>The replay command\<close>

record replay_args =
  ra_reason :: "string option"
  ra_limit :: "int option"
  ra_include_terminal :: bool
  ra_dry_run :: bool
  ra_execute :: bool
  ra_api_key :: "string option"

text \<open>Tracking gives an event without an id one, in the row's own dictionary.\<close>

fun track_all :: "'w env \<Rightarrow> 'w wal_cfg \<Rightarrow> event list \<Rightarrow> 'w transport \<Rightarrow> event list \<times> 'w transport" where
  "track_all E W [] s = ([], s)"
| "track_all E W (e # es) s =
     (let (i, s1) = (if eid e = None \<or> eid e = Some [] then map_world (new_uuid W) s else ([], s));
          (es', s2) = track_all E W es (track E i e s1)
      in (with_id i e # es', s2))"

definition replay_send ::
  "'w env \<Rightarrow> 'w wal_cfg \<Rightarrow> redis \<Rightarrow> event list \<Rightarrow> 'w \<Rightarrow> event list \<times> 'w transport" where
  "replay_send E W rd events w =
     (case track_all E W events (boot_transport 10 rd empty_disk w) of
        (es, s) \<Rightarrow> (es, do_flush E s))"

definition cmd_replay ::
  "'w env \<Rightarrow> 'w wal_cfg \<Rightarrow> redis \<Rightarrow> bool \<Rightarrow> bool \<Rightarrow> replay_args \<Rightarrow> dlq_row wfile option \<Rightarrow> 'w
     \<Rightarrow> (int, string) outcome \<times> dlq_row wfile option" where
  "cmd_replay E W rd readable writable A file w =
     (let rows = fst (read_dlq readable file);
          (selected, withheld) = select_rows rows (ra_reason A) (ra_limit A) (ra_include_terminal A)
      in if selected = [] then (Ret (if withheld \<noteq> [] then 1 else 0), file)
         else
           (let events = concat (map (\<lambda>r. case r_event r of None \<Rightarrow> [] | Some e \<Rightarrow> [reloaded e]) selected) in
            if events = [] then (Ret 1, file)
            else if ra_dry_run A \<or> \<not> ra_execute A then (Ret 0, file)
            else if ra_api_key A = None \<or> ra_api_key A = Some [] then (Ret 1, file)
            else
              (let (sent, s) = replay_send E W rd events w;
                   unconfirmed = unconfirmed_event_ids s
               in if \<exists>r \<in> set selected. r_event r = None then (Exc ''AttributeError'', file)
                  else
                    (let confirmed = filter (\<lambda>i. i \<notin> set unconfirmed) (map str_id sent) in
                     if confirmed = [] then (Ret 1, file)
                     else (Ret 0, snd (drop_confirmed readable writable confirmed file))))))"

section \<open>The file after a replay\<close>

lemma drop_confirmed_lines:
  assumes "drop_confirmed readable writable ids file = (n, file')"
  shows "read_lines file' = read_lines file
         \<or> read_lines file' = filter (\<lambda>l. \<not> confirmed_line ids l) (read_lines file)"
  using assms
  by (auto simp: drop_confirmed_def Let_def read_lines_def all_lines_def split: option.splits if_splits)

text \<open>
  a replay removes only what it confirmed.  Whatever the arguments, the server and the I/O do,
  the lines that stay are the old lines in their order and verbatim, unparseable ones included, and
  a line goes only if its event was sent in this run and is not among the unconfirmed ones.
\<close>

theorem replay_removes_only_confirmed:
  "\<exists>ids. read_lines (snd (cmd_replay E W rd readable writable A file w))
           = filter (\<lambda>l. \<not> confirmed_line ids l) (read_lines file)
         \<and> (\<forall>i \<in> set ids. \<exists>events sent s. replay_send E W rd events w = (sent, s)
              \<and> i \<in> set (map str_id sent) \<and> i \<notin> set (unconfirmed_event_ids s))"
proof -
  have keep: "\<exists>ids. read_lines file = filter (\<lambda>l. \<not> confirmed_line ids l) (read_lines file)
      \<and> (\<forall>i \<in> set ids. P i)" for P :: "string \<Rightarrow> bool"
    by (rule exI [of _ "[]"]) (auto simp: confirmed_line_def intro!: filter_True [symmetric] split: line.splits option.splits)
  let ?rows = "fst (read_dlq readable file)"
  obtain selected withheld where sel: "select_rows ?rows (ra_reason A) (ra_limit A) (ra_include_terminal A)
      = (selected, withheld)" by fastforce
  let ?events = "concat (map (\<lambda>r. case r_event r of None \<Rightarrow> [] | Some e \<Rightarrow> [reloaded e]) selected)"
  obtain sent s where send: "replay_send E W rd ?events w = (sent, s)" by fastforce
  let ?ids = "filter (\<lambda>i. i \<notin> set (unconfirmed_event_ids s)) (map str_id sent)"
  obtain n f' where dr: "drop_confirmed readable writable ?ids file = (n, f')" by fastforce
  have "snd (cmd_replay E W rd readable writable A file w) = file
        \<or> snd (cmd_replay E W rd readable writable A file w) = f'"
    using sel send dr by (auto simp: cmd_replay_def Let_def)
  then show ?thesis
  proof
    assume "snd (cmd_replay E W rd readable writable A file w) = file"
    with keep show ?thesis by simp
  next
    assume r: "snd (cmd_replay E W rd readable writable A file w) = f'"
    from drop_confirmed_lines [OF dr] show ?thesis
    proof
      assume "read_lines f' = read_lines file"
      with keep r show ?thesis by simp
    next
      assume "read_lines f' = filter (\<lambda>l. \<not> confirmed_line ?ids l) (read_lines file)"
      with r send show ?thesis by (intro exI [of _ ?ids]) auto
    qed
  qed
qed

section \<open>Confirmed means acknowledged\<close>

lemma event_ids_of_rows_ids: "row_ids rs \<subseteq> set (event_ids_of_rows rs)"
  by (induction rs rule: event_ids_of_rows.induct)
     (auto simp: row_ids_def str_id_def split: option.splits)

lemma sort_lines_rows: "fst (sort_lines ls) = rows_of ls"
  by (induction ls rule: sort_lines.induct) (auto split: prod.splits)

lemma unconfirmed_covers:
  "ids_of (buffer s) \<union> parked_ids s \<subseteq> set (unconfirmed_event_ids s)"
proof -
  have in_file: "row_ids (complete_rows f) \<subseteq> set (event_ids_of_rows (fst (read_dlq True f)))" for f
  proof (cases f)
    case (Some g)
    then have "fst (read_dlq True f) = file_rows f"
      by (simp add: read_dlq_def sort_lines_rows file_rows_def read_lines_def)
    with event_ids_of_rows_ids [of "file_rows f"] row_ids_mono [OF complete_rows_subset [of f]]
    show ?thesis by simp
  qed (simp add: read_dlq_def)
  have "ids_of (buffer s) \<subseteq> set (map str_id (buffer s))"
    by (force simp: ids_of_def str_id_def)
  with in_file [of "dlq_file (disk s)"] in_file [of "holdover_file (disk s)"] event_ids_of_rows_ids [of "dlq_overflow s"]
  show ?thesis by (auto simp: parked_ids_def unconfirmed_event_ids_def)
qed

lemma with_id_given: "eid e = Some i \<Longrightarrow> i \<noteq> [] \<Longrightarrow> with_id fresh e = e"
  by (simp add: with_id_def)

lemma track_small:
  assumes "eid e = Some i" "i \<noteq> []" and "int (length (buffer s)) + 1 < batch_size E"
  shows "buffer (track E fresh e s) = buffer s @ [e]
         \<and> unsettled (track E fresh e s) = insert i (unsettled s)
         \<and> dlq_overflow (track E fresh e s) = dlq_overflow s \<and> parked_ids (track E fresh e s) = parked_ids s"
  using assms
  by (auto simp: track_def with_id_given Let_def unsettled_def parked_ids_def sig_id_def dict_set_def
        dom_update [unfolded dom_map_of_conv_image_fst])

lemma track_all_small:
  assumes "\<forall>e \<in> set es. \<exists>i. eid e = Some i \<and> i \<noteq> []"
    and "int (length (buffer s) + length es) < batch_size E"
    and "track_all E W es s = (sent, t)"
  shows "sent = es \<and> buffer t = buffer s @ es \<and> unsettled t = ids_of es \<union> unsettled s
         \<and> dlq_overflow t = dlq_overflow s \<and> parked_ids t = parked_ids s"
  using assms
proof (induction es arbitrary: s sent)
  case (Cons e es)
  obtain i where i: "eid e = Some i" "i \<noteq> []" using Cons.prems(1) by auto
  obtain es' u where r: "track_all E W es (track E [] e s) = (es', u)" by fastforce
  note st = track_small [OF i, of s E "[]"]
  from Cons.prems(3) i r have res: "sent = with_id [] e # es'" "t = u" by (auto simp: Let_def)
  have "es' = es \<and> buffer t = buffer (track E [] e s) @ es \<and> unsettled t = ids_of es \<union> unsettled (track E [] e s)
      \<and> dlq_overflow t = dlq_overflow (track E [] e s) \<and> parked_ids t = parked_ids (track E [] e s)"
    by (rule Cons.IH) (use Cons.prems st r res in auto)
  with st res i Cons.prems(2) show ?case by (simp add: with_id_given ids_of_Cons)
qed simp

text \<open>
  what a replay removes was acknowledged.  With a server whose 2xx answers accept the whole
  batch, and fewer events than one batch, every id that is still unsettled in the replaying
  transport is among the unconfirmed ones, so the rows the replay removes are those whose events
  the server accepted.
\<close>

theorem replay_confirms_acknowledged:
  assumes full: "accepts_whole_batches E"
    and ids: "\<forall>e \<in> set events. \<exists>i. eid e = Some i \<and> i \<noteq> []"
    and size: "int (length events) < batch_size E" "int (length events) \<le> max_buffer_size E"
      "int (length events) \<le> holdover_index_max E"
    and send: "replay_send E W rd events w = (sent, s)"
  shows "unsettled s \<subseteq> set (unconfirmed_event_ids s)"
proof -
  let ?b = "boot_transport 10 rd empty_disk w"
  obtain es t where tr: "track_all E W events ?b = (es, t)" by fastforce
  with send have s: "s = do_flush E t" by (simp add: replay_send_def)
  have b: "buffer ?b = []" "unsettled ?b = {}" "dlq_overflow ?b = []"
    by (simp_all add: boot_transport_def unsettled_def)
  from track_all_small [OF ids _ tr] size(1) b
  have t: "buffer t = events" "unsettled t = ids_of events" "dlq_overflow t = []" by simp_all
  have "[] \<notin> ids_of events" using ids by (auto simp: ids_of_def)
  with t size have "held E [] (do_flush E t)" by (intro flush_held [OF full]) simp_all
  then show ?thesis using unconfirmed_covers [of s] by (auto simp: held_def s)
qed

theorem replay_confirms_acknowledged_witness:
  "\<exists>sent s. replay_send (scene refuse_first) scene_wal NoRedis [plain_event ''a'', plain_event ''b''] 0 = (sent, s)
            \<and> unsettled s \<subseteq> set (unconfirmed_event_ids s)"
proof -
  obtain sent s where r: "replay_send (scene refuse_first) scene_wal NoRedis
      [plain_event ''a'', plain_event ''b''] 0 = (sent, s)" by fastforce
  have "unsettled s \<subseteq> set (unconfirmed_event_ids s)"
    by (rule replay_confirms_acknowledged [OF refuse_first_whole _ _ _ _ r])
       (simp_all add: plain_event_def scene_def)
  with r show ?thesis by blast
qed

section \<open>Two replays that go wrong\<close>

text \<open>
  a payload-less row breaks the replay.  If one of the selected rows has no event, an executed
  replay sends all the others and then raises before it removes any row: the acknowledged events
  stay in the file, to be sent again by the next run.
\<close>

theorem payloadless_row_breaks_replay:
  assumes sel: "select_rows (fst (read_dlq readable file)) (ra_reason A) (ra_limit A) (ra_include_terminal A)
                = (selected, withheld)"
    and bare: "r \<in> set selected" "r_event r = None"
    and good: "q \<in> set selected" "r_event q = Some e"
    and args: "ra_execute A" "\<not> ra_dry_run A" "ra_api_key A = Some k" "k \<noteq> []"
  shows "cmd_replay E W rd readable writable A file w = (Exc ''AttributeError'', file)"
proof -
  let ?events = "concat (map (\<lambda>r. case r_event r of None \<Rightarrow> [] | Some e \<Rightarrow> [reloaded e]) selected)"
  have "reloaded e \<in> set ?events" using good by force
  then have "?events \<noteq> []" by (metis list.distinct(1) list.set_cases)
  moreover have "selected \<noteq> []" using bare by auto
  moreover have "\<exists>r \<in> set selected. r_event r = None" using bare by blast
  ultimately show ?thesis using sel args by (simp add: cmd_replay_def Let_def split: prod.splits)
qed

definition row_for :: "event option \<Rightarrow> dlq_row" where
  "row_for e =
     \<lparr>r_version = Some 2, r_event = e, r_error = Some ''HTTPStatusError:400'',
      r_reason = Some ''HTTPStatusError:400'', r_event_type = None, r_first_failed_at = Some 0,
      r_attempts = Some 1, r_raw = None\<rparr>"

definition execute_all :: replay_args where
  "execute_all = \<lparr>ra_reason = None, ra_limit = None, ra_include_terminal = False, ra_dry_run = False,
                  ra_execute = True, ra_api_key = Some ''k''\<rparr>"

theorem payloadless_row_breaks_replay_witness:
  "cmd_replay (scene refuse_first) scene_wal NoRedis True True execute_all
     (Some \<lparr>complete = [Row (row_for (Some (plain_event ''a''))), Row (row_for None)], torn = None\<rparr>) 0
   = (Exc ''AttributeError'',
      Some \<lparr>complete = [Row (row_for (Some (plain_event ''a''))), Row (row_for None)], torn = None\<rparr>)"
  by (rule payloadless_row_breaks_replay
        [where selected = "[row_for (Some (plain_event ''a'')), row_for None]" and withheld = "[]"
           and r = "row_for None" and q = "row_for (Some (plain_event ''a''))" and e = "plain_event ''a''"
           and k = "''k''"])
     (simp_all add: execute_all_def row_for_def select_rows_def read_dlq_def all_lines_def limited_def
        is_terminal_without_replay_def terminal_without_replay_def row_reason_def)

text \<open>A server that refuses batches with a 400 and, event by event, answers 2xx and accepts nothing.\<close>

definition picky :: "nat \<Rightarrow> event list \<Rightarrow> send_exn + send_result" where
  "picky n b =
     (if length b > 1 then Inl (StatusError 400)
      else Inr \<lparr>accepted_event_ids = [], rejected_items = [], body_confirmed = True\<rparr>)"

definition calm :: "'w transport \<Rightarrow> bool" where
  "calm s \<longleftrightarrow> state_var (breaker s) = CLOSED \<and> redis_client (breaker s) = NoRedis"

lemma picky_through:
  assumes "calm s"
  shows "\<exists>t. through_breaker (scene picky) b s = (Ret (picky (world s) b), t) \<and> calm t \<and> sent_frame s t"
proof -
  obtain r t where tb: "through_breaker (scene picky) b s = (r, t)" by fastforce
  have mono: "env_mono (scene picky) (world s) = ((of_nat (world s), 0, of_nat (world s)), world s)"
    by (simp add: scene_def)
  have "r = Ret (picky (world s) b) \<and> calm t"
    using assms tb mono
    by (auto simp: through_breaker_def map_world_def calm_def cb_call_def cb_admit_def read_state_def
          global_state_allows_call_def check_global_state_def needs_open_jitter_def Let_def
          send_closure_def picky_def cb_settle_def on_success_def on_state_change_def on_closed_def
          split: option.splits prod.splits)
  moreover have "sent_frame s t" using through_breaker_frame [of s "scene picky" b] tb by simp
  ultimately show ?thesis using tb by blast
qed

lemma picky_half:
  assumes "calm s"
  shows "\<exists>t. attempt_half (scene picky) [e] s = t \<and> calm t \<and> buffer t = buffer s \<and> disk t = disk s
             \<and> dlq_overflow t = dlq_overflow s \<and> bisect_budget t = bisect_budget s"
proof -
  obtain t where t: "through_breaker (scene picky) [e] s = (Ret (picky (world s) [e]), t)" "calm t" "sent_frame s t"
    using picky_through [OF assms] by blast
  from t(1) have "attempt_half (scene picky) [e] s = forget_attempts (scene picky) [e] t"
    by (simp add: attempt_half.simps picky_def)
  with t(2,3) show ?thesis by (simp add: forget_attempts_def calm_def sent_frame_def)
qed

lemma picky_flush:
  assumes "calm s" "buffer s = [a, b]" "dlq_overflow s = []" "bisect_depth s = 0"
    and "dlq_file (disk s) = None" "holdover_file (disk s) = None"
  shows "unconfirmed_event_ids (do_flush (scene picky) s) = []"
proof -
  let ?E = "scene picky"
  let ?s2 = "s\<lparr>buffer := [], bisect_budget := 64\<rparr>"
  let ?s3 = "persist_inflight ?E [a, b] ?s2"
  have s3: "calm ?s3 \<and> buffer ?s3 = [] \<and> dlq_overflow ?s3 = [] \<and> bisect_depth ?s3 = 0 \<and> bisect_budget ?s3 = 64
      \<and> dlq_file (disk ?s3) = None \<and> holdover_file (disk ?s3) = None"
    using assms by (simp add: persist_inflight_def with_file_def map_world_def write_events_atomic_def
        scene_def calm_def)
  obtain s4 where s4: "through_breaker ?E [a, b] ?s3 = (Ret (Inl (StatusError 400)), s4)" "calm s4" "sent_frame ?s3 s4"
    using picky_through [of ?s3 "[a, b]"] s3 by (auto simp: picky_def)
  let ?s5 = "shift_depth 1 ((inc ''batches_bisected'' 1 s4)\<lparr>bisect_budget := 62\<rparr>)"
  have budget: "bisect_budget s4 = 64" "bisect_depth s4 = 0" using s4(3) s3 by (simp_all add: sent_frame_def)
  have calm5: "calm ?s5" using s4(2) by (simp add: calm_def shift_depth_def)
  obtain s6 where s6: "attempt_half ?E [a] ?s5 = s6" "calm s6" "buffer s6 = buffer ?s5" "disk s6 = disk ?s5"
      "dlq_overflow s6 = dlq_overflow ?s5"
    using picky_half [OF calm5] by blast
  obtain s7 where s7: "attempt_half ?E [b] s6 = s7" "buffer s7 = buffer s6" "disk s7 = disk s6"
      "dlq_overflow s7 = dlq_overflow s6"
    using picky_half [OF s6(2)] by blast
  have "do_flush ?E s = shift_depth (-1) s7"
  proof -
    have "send_subbatches ?E [a] [b] (StatusError 400) (inc ''batches_bisected'' 1 s4) = shift_depth (-1) s7"
      using s6(1) s7(1) budget
      by (simp add: send_subbatches.simps bisect_request_available_def max_bisect_depth_def Let_def)
    then have "route_deferred ?E [a, b] (StatusError 400) s4 = shift_depth (-1) s7"
      by (simp add: route_deferred.simps handle_http_rejection.simps transient_4xx_def auth_4xx_def
            resplit_4xx_def Let_def)
    moreover have "max_bisect_requests ?E = 64" by (simp add: scene_def)
    ultimately show ?thesis
      using assms(2,3) s4(1) by (simp add: do_flush_def drain_dlq_overflow_def Let_def)
  qed
  then show ?thesis
    using s3 s4(3) s6 s7
    by (simp add: unconfirmed_event_ids_def shift_depth_def sent_frame_def read_dlq_def)
qed

lemma picky_replay:
  "\<exists>s. replay_send (scene picky) scene_wal NoRedis [plain_event ''a'', plain_event ''b''] 0
         = ([plain_event ''a'', plain_event ''b''], s) \<and> unconfirmed_event_ids s = []"
proof -
  let ?es = "[plain_event ''a'', plain_event ''b'']"
  let ?boot = "boot_transport 10 NoRedis empty_disk (0 :: nat)"
  obtain t where tr: "track_all (scene picky) scene_wal ?es ?boot = (?es, t)"
    and t: "buffer t = ?es" "dlq_overflow t = []" "bisect_depth t = 0" "disk t = empty_disk"
      "breaker t = breaker ?boot"
    by (simp add: track_def boot_transport_def scene_def plain_event_def with_id_def sig_id_def Let_def)
  from t have "calm t" "dlq_file (disk t) = None" "holdover_file (disk t) = None"
    by (simp_all add: calm_def boot_transport_def init_cb_def empty_disk_def)
  with picky_flush [of t] t tr show ?thesis by (simp add: replay_send_def)
qed

text \<open>
  a replay can delete events the server refused.  Against that server, which accepts no event
  at all, replaying two rows bisects their batch, forgets the refused halves, finds neither event
  unconfirmed, and removes both rows: the exit code is 0 and the file is empty.
\<close>

theorem replay_deletes_refused_events:
  "cmd_replay (scene picky) scene_wal NoRedis True True execute_all
     (Some \<lparr>complete = [Row (row_for (Some (plain_event ''a''))), Row (row_for (Some (plain_event ''b'')))],
            torn = None\<rparr>) 0
   = (Ret 0, Some \<lparr>complete = [], torn = None\<rparr>)"
proof -
  let ?a = "plain_event ''a''" and ?b = "plain_event ''b''"
  let ?f = "Some \<lparr>complete = [Row (row_for (Some ?a)), Row (row_for (Some ?b))], torn = None\<rparr>"
  obtain s where s: "replay_send (scene picky) scene_wal NoRedis [?a, ?b] 0 = ([?a, ?b], s)"
    and none: "unconfirmed_event_ids s = []"
    using picky_replay by blast
  have rows: "fst (read_dlq True ?f) = [row_for (Some ?a), row_for (Some ?b)]"
    by (simp add: read_dlq_def all_lines_def)
  have sel: "select_rows [row_for (Some ?a), row_for (Some ?b)] None None False
      = ([row_for (Some ?a), row_for (Some ?b)], [])"
    by (simp add: select_rows_def limited_def is_terminal_without_replay_def terminal_without_replay_def
          row_reason_def row_for_def)
  have ids: "map str_id [?a, ?b] = [''a'', ''b'']" by (simp add: str_id_def plain_event_def)
  have "drop_confirmed True True [''a'', ''b''] ?f = (2, Some \<lparr>complete = [], torn = None\<rparr>)"
    by (simp add: drop_confirmed_def all_lines_def confirmed_line_def row_for_def plain_event_def)
  moreover have "reloaded ?a = ?a" "reloaded ?b = ?b" by (rule reloaded_native; simp add: plain_event_def)+
  ultimately show ?thesis
    using s none rows sel ids by (simp add: cmd_replay_def execute_all_def row_for_def Let_def)
qed

theorem replay_removes_only_confirmed_witness:
  "\<exists>ids. read_lines (snd (cmd_replay (scene picky) scene_wal NoRedis True True execute_all
           (Some \<lparr>complete = [Row (row_for (Some (plain_event ''a'')))], torn = None\<rparr>) 0))
     = filter (\<lambda>l. \<not> confirmed_line ids l)
         (read_lines (Some \<lparr>complete = [Row (row_for (Some (plain_event ''a'')))], torn = None\<rparr>))
     \<and> (\<forall>i \<in> set ids. \<exists>events sent s. replay_send (scene picky) scene_wal NoRedis events 0 = (sent, s)
          \<and> i \<in> set (map str_id sent) \<and> i \<notin> set (unconfirmed_event_ids s))"
  by (rule replay_removes_only_confirmed)

end
