(* ===== verification/Sdk_Errors.thy ===== *)
theory Sdk_Errors
  imports Nullrun_Prelude
begin

text \<open>
  The exception classes of the SDK (\<open>src/nullrun/breaker/exceptions.py\<close>): the class tree, the
  \<open>error_code\<close> and \<open>retryable\<close> attributes a class declares and the ones it inherits, and the
  constructors.  An exception is a record of its class, the text it was built with, the two
  attributes and the other attributes its constructor set.  A constructor call that Python would
  reject is \<open>Inl ''TypeError''\<close>.  The class-level \<open>user_action\<close> and \<open>docs_url\<close> texts are not
  modelled, and neither is the decoration the constructors add to the text for \<open>str(exc)\<close>.
\<close>

section \<open>The class tree\<close>

datatype exc_class =
    BreakerError
  | NullRunError
  | NullRunDecision
  | NullRunInfrastructureError
  | NullRunTransportError
  | NullRunBackendError
  | RateLimitError
  | NullRunProtocolError
  | NullRunMalformedGateResponseError
  | NullRunChainError
  | NullRunConsumeOverbudgetError
  | NullRunWorkflowInactiveError
  | NullRunRateLimitRedisError
  | BreakerTransportError
  | InsecureTransportError
  | NullRunConfigError
  | NullRunAuthenticationError
  | NullRunAuthError
  | NullRunBlockedException
  | NullRunDeniedError
  | NullRunBudgetError
  | NullRunBudgetRecheckFailedError
  | NullRunExecutionNotFoundError
  | NullRunToolBlockedError
  | NullRunApprovalNotYetApprovedError
  | NullRunApprovalResponseMissingError
  | NullRunApprovalDeniedError
  | NullRunApprovalExpiredError
  | NullRunApprovalReplayRejectedError
  | NullRunApprovalDigestMismatchError
  | NullRunApprovalToolDigestMismatchError
  | NullRunMcpDestructiveBlockedError
  | NullRunMcpReadonlyBypassBlockedError
  | NullRunMcpApprovalRequiredError
  | NullRunApprovalDbUnavailableError
  | WorkflowPausedException
  | WorkflowKilledInterrupt
  | NullRunWorkflowKilledError

text \<open>The base class each class statement names; \<open>None\<close> for \<open>Exception\<close> itself.\<close>

fun superclass :: "exc_class \<Rightarrow> exc_class option" where
  "superclass BreakerError = None"
| "superclass NullRunError = Some BreakerError"
| "superclass NullRunDecision = Some NullRunError"
| "superclass NullRunInfrastructureError = Some NullRunError"
| "superclass NullRunTransportError = Some NullRunInfrastructureError"
| "superclass NullRunBackendError = Some NullRunTransportError"
| "superclass RateLimitError = Some NullRunTransportError"
| "superclass NullRunProtocolError = Some NullRunInfrastructureError"
| "superclass NullRunMalformedGateResponseError = Some NullRunProtocolError"
| "superclass NullRunChainError = Some NullRunDecision"
| "superclass NullRunConsumeOverbudgetError = Some NullRunDecision"
| "superclass NullRunWorkflowInactiveError = Some NullRunDecision"
| "superclass NullRunRateLimitRedisError = Some NullRunInfrastructureError"
| "superclass BreakerTransportError = Some BreakerError"
| "superclass InsecureTransportError = Some BreakerTransportError"
| "superclass NullRunConfigError = Some NullRunInfrastructureError"
| "superclass NullRunAuthenticationError = Some NullRunInfrastructureError"
| "superclass NullRunAuthError = Some NullRunAuthenticationError"
| "superclass NullRunBlockedException = Some NullRunDecision"
| "superclass NullRunDeniedError = Some NullRunBlockedException"
| "superclass NullRunBudgetError = Some NullRunBlockedException"
| "superclass NullRunBudgetRecheckFailedError = Some NullRunBudgetError"
| "superclass NullRunExecutionNotFoundError = Some NullRunBackendError"
| "superclass NullRunToolBlockedError = Some NullRunBlockedException"
| "superclass NullRunApprovalNotYetApprovedError = Some NullRunBlockedException"
| "superclass NullRunApprovalResponseMissingError = Some NullRunBlockedException"
| "superclass NullRunApprovalDeniedError = Some NullRunBlockedException"
| "superclass NullRunApprovalExpiredError = Some NullRunBlockedException"
| "superclass NullRunApprovalReplayRejectedError = Some NullRunBlockedException"
| "superclass NullRunApprovalDigestMismatchError = Some NullRunBlockedException"
| "superclass NullRunApprovalToolDigestMismatchError = Some NullRunBlockedException"
| "superclass NullRunMcpDestructiveBlockedError = Some NullRunBlockedException"
| "superclass NullRunMcpReadonlyBypassBlockedError = Some NullRunBlockedException"
| "superclass NullRunMcpApprovalRequiredError = Some NullRunBlockedException"
| "superclass NullRunApprovalDbUnavailableError = Some NullRunBlockedException"
| "superclass WorkflowPausedException = Some NullRunDecision"
| "superclass WorkflowKilledInterrupt = Some NullRunError"
| "superclass NullRunWorkflowKilledError = Some WorkflowKilledInterrupt"

text \<open>The depth of a class in the tree bounds the walk to the root.\<close>

definition class_depth :: "exc_class \<Rightarrow> nat" where
  "class_depth c =
     (case c of
        BreakerError \<Rightarrow> 0
      | NullRunError \<Rightarrow> 1
      | BreakerTransportError \<Rightarrow> 1
      | InsecureTransportError \<Rightarrow> 2
      | NullRunDecision \<Rightarrow> 2
      | NullRunInfrastructureError \<Rightarrow> 2
      | WorkflowKilledInterrupt \<Rightarrow> 2
      | NullRunTransportError \<Rightarrow> 3
      | NullRunProtocolError \<Rightarrow> 3
      | NullRunChainError \<Rightarrow> 3
      | NullRunConsumeOverbudgetError \<Rightarrow> 3
      | NullRunWorkflowInactiveError \<Rightarrow> 3
      | NullRunRateLimitRedisError \<Rightarrow> 3
      | NullRunConfigError \<Rightarrow> 3
      | NullRunAuthenticationError \<Rightarrow> 3
      | NullRunBlockedException \<Rightarrow> 3
      | WorkflowPausedException \<Rightarrow> 3
      | NullRunWorkflowKilledError \<Rightarrow> 3
      | NullRunBudgetRecheckFailedError \<Rightarrow> 5
      | NullRunExecutionNotFoundError \<Rightarrow> 5
      | _ \<Rightarrow> 4)"

lemma superclass_depth: "superclass c = Some d \<Longrightarrow> class_depth d < class_depth c"
  by (cases c) (auto simp: class_depth_def)

text \<open>The method resolution order (every class has one base).\<close>

function mro :: "exc_class \<Rightarrow> exc_class list" where
  "mro c = c # (case superclass c of None \<Rightarrow> [] | Some d \<Rightarrow> mro d)"
  by pat_completeness auto
termination
  by (relation "measure class_depth") (auto simp: superclass_depth)

declare mro.simps [simp del]

text \<open>\<open>issubclass(c, d)\<close>, which is what \<open>except d\<close> tests.\<close>

definition is_subclass :: "exc_class \<Rightarrow> exc_class \<Rightarrow> bool" where
  "is_subclass c d \<longleftrightarrow> d \<in> set (mro c)"

lemma mro_step: "superclass c = Some d \<Longrightarrow> mro c = c # mro d"
  by (subst mro.simps) simp

lemma mro_root [simp]: "mro BreakerError = [BreakerError]"
  by (subst mro.simps) simp

lemmas mro_eqs [simp] = superclass.simps(2-) [THEN mro_step]

lemma is_subclass_refl [simp]: "is_subclass c c"
  by (subst is_subclass_def, subst mro.simps) simp

lemma is_subclass_trans:
  "is_subclass c d \<Longrightarrow> is_subclass d e \<Longrightarrow> is_subclass c e"
proof (induction c rule: mro.induct)
  case (1 c)
  show ?case
  proof (cases "superclass c")
    case None
    with 1(2) have "d = c"
      by (simp add: is_subclass_def mro.simps [of c])
    with 1(3) show ?thesis by simp
  next
    case (Some b)
    show ?thesis
    proof (cases "d = c")
      case True
      with 1(3) show ?thesis by simp
    next
      case False
      with 1(2) Some have "is_subclass b d"
        by (simp add: is_subclass_def mro_step)
      then have "is_subclass b e"
        using 1(1) [OF Some] 1(3) by simp
      then show ?thesis
        using Some by (simp add: is_subclass_def mro_step)
    qed
  qed
qed

section \<open>Class attributes\<close>

text \<open>What the class body itself assigns; an absent assignment is inherited along the order.\<close>

fun own_error_code :: "exc_class \<Rightarrow> string option" where
  "own_error_code NullRunError = Some ''NR-0000''"
| "own_error_code NullRunTransportError = Some ''NR-B001''"
| "own_error_code NullRunBackendError = Some ''NR-B002''"
| "own_error_code RateLimitError = Some ''NR-R001''"
| "own_error_code NullRunProtocolError = Some ''NR-P001''"
| "own_error_code NullRunMalformedGateResponseError = Some ''NR-P002''"
| "own_error_code NullRunChainError = Some ''NR-CH001''"
| "own_error_code NullRunConsumeOverbudgetError = Some ''NR-O001''"
| "own_error_code NullRunWorkflowInactiveError = Some ''NR-W004''"
| "own_error_code NullRunRateLimitRedisError = Some ''NR-R002''"
| "own_error_code NullRunConfigError = Some ''NR-C000''"
| "own_error_code NullRunAuthenticationError = Some ''NR-A001''"
| "own_error_code NullRunAuthError = Some ''NR-A003''"
| "own_error_code NullRunBlockedException = Some ''NR-X001''"
| "own_error_code NullRunDeniedError = Some ''NR-D001''"
| "own_error_code NullRunBudgetError = Some ''NR-B004''"
| "own_error_code NullRunBudgetRecheckFailedError = Some ''NR-B006''"
| "own_error_code NullRunExecutionNotFoundError = Some ''NR-EX01''"
| "own_error_code NullRunToolBlockedError = Some ''NR-T001''"
| "own_error_code NullRunApprovalNotYetApprovedError = Some ''NR-A010''"
| "own_error_code NullRunApprovalResponseMissingError = Some ''NR-A004''"
| "own_error_code NullRunApprovalDeniedError = Some ''NR-A011''"
| "own_error_code NullRunApprovalExpiredError = Some ''NR-A012''"
| "own_error_code NullRunApprovalReplayRejectedError = Some ''NR-A015''"
| "own_error_code NullRunApprovalDigestMismatchError = Some ''NR-A013''"
| "own_error_code NullRunApprovalToolDigestMismatchError = Some ''NR-A014''"
| "own_error_code NullRunMcpDestructiveBlockedError = Some ''NR-MCP01''"
| "own_error_code NullRunMcpReadonlyBypassBlockedError = Some ''NR-MCP02''"
| "own_error_code NullRunMcpApprovalRequiredError = Some ''NR-MCP03''"
| "own_error_code NullRunApprovalDbUnavailableError = Some ''NR-A016''"
| "own_error_code WorkflowPausedException = Some ''NR-W003''"
| "own_error_code WorkflowKilledInterrupt = Some ''NR-W002''"
| "own_error_code NullRunWorkflowKilledError = Some ''NR-W002''"
| "own_error_code _ = None"

fun own_retryable :: "exc_class \<Rightarrow> bool option" where
  "own_retryable NullRunTransportError = Some True"
| "own_retryable NullRunBackendError = Some True"
| "own_retryable RateLimitError = Some True"
| "own_retryable NullRunMalformedGateResponseError = Some True"
| "own_retryable NullRunRateLimitRedisError = Some True"
| "own_retryable NullRunBudgetRecheckFailedError = Some True"
| "own_retryable NullRunApprovalNotYetApprovedError = Some True"
| "own_retryable NullRunMcpApprovalRequiredError = Some True"
| "own_retryable NullRunApprovalDbUnavailableError = Some True"
| "own_retryable BreakerError = None"
| "own_retryable NullRunDecision = None"
| "own_retryable NullRunInfrastructureError = None"
| "own_retryable BreakerTransportError = None"
| "own_retryable InsecureTransportError = None"
| "own_retryable _ = Some False"

text \<open>Attribute lookup on the class: the first assignment along the resolution order.\<close>

fun inherited :: "(exc_class \<Rightarrow> 'a option) \<Rightarrow> exc_class list \<Rightarrow> 'a option" where
  "inherited own [] = None"
| "inherited own (c # cs) = (case own c of None \<Rightarrow> inherited own cs | Some v \<Rightarrow> Some v)"

definition class_code :: "exc_class \<Rightarrow> string" where
  "class_code c = (case inherited own_error_code (mro c) of None \<Rightarrow> '''' | Some s \<Rightarrow> s)"

definition class_retryable :: "exc_class \<Rightarrow> bool" where
  "class_retryable c = (case inherited own_retryable (mro c) of None \<Rightarrow> False | Some b \<Rightarrow> b)"

section \<open>Instances\<close>

record sdk_error =
  err_class :: exc_class
  err_text :: string
  err_code :: json
  err_retryable :: json
  err_attrs :: dict

type_synonym construction = "string + sdk_error"

text \<open>
  \<open>NullRunError.__init__\<close>.  The arguments come from a decoded JSON body, so a \<open>cause\<close> that is
  not \<open>None\<close> is never an exception object and \<open>self.__cause__ = cause\<close> raises \<open>TypeError\<close>.
\<close>

definition base_kwargs :: "string list" where
  "base_kwargs = [''error_code'', ''user_action'', ''retryable'', ''docs_url'', ''cause'']"

definition override :: "dict \<Rightarrow> string \<Rightarrow> json \<Rightarrow> json" where
  "override kw k dflt = (if jget kw k = JNull then dflt else jget kw k)"

definition set_if_given :: "dict \<Rightarrow> string \<Rightarrow> dict \<Rightarrow> dict" where
  "set_if_given kw k attrs =
     (if jget kw k = JNull then attrs else dict_set k (jget kw k) attrs)"

definition nullrun_init :: "exc_class \<Rightarrow> string \<Rightarrow> dict \<Rightarrow> dict \<Rightarrow> construction" where
  "nullrun_init cls text attrs kw =
     (if \<not> list_all (\<lambda>p. fst p \<in> set base_kwargs) kw then Inl ''TypeError''
      else if jget kw ''cause'' \<noteq> JNull then Inl ''TypeError''
      else Inr \<lparr>err_class = cls, err_text = text,
                err_code = override kw ''error_code'' (JStr (class_code cls)),
                err_retryable = override kw ''retryable'' (JBool (class_retryable cls)),
                err_attrs = set_if_given kw ''docs_url'' (set_if_given kw ''user_action'' attrs)\<rparr>)"

text \<open>\<open>TransportErrorSource\<close> and \<open>NullRunTransportError.__init__\<close>.\<close>

datatype transport_source = NETWORK_ERROR | GATEWAY_ERROR | BREAKER_OPEN | AUTH_ERROR

fun source_value :: "transport_source \<Rightarrow> string" where
  "source_value NETWORK_ERROR = ''NETWORK_ERROR''"
| "source_value GATEWAY_ERROR = ''GATEWAY_ERROR''"
| "source_value BREAKER_OPEN = ''BREAKER_OPEN''"
| "source_value AUTH_ERROR = ''AUTH_ERROR''"

fun code_by_source :: "transport_source \<Rightarrow> string" where
  "code_by_source NETWORK_ERROR = ''NR-B001''"
| "code_by_source GATEWAY_ERROR = ''NR-B002''"
| "code_by_source AUTH_ERROR = ''NR-A003''"
| "code_by_source BREAKER_OPEN = ''NR-B005''"

definition dict_setdefault :: "string \<Rightarrow> json \<Rightarrow> dict \<Rightarrow> dict" where
  "dict_setdefault k v d = (case dict_get d k of None \<Rightarrow> dict_set k v d | Some _ \<Rightarrow> d)"

definition transport_init ::
  "exc_class \<Rightarrow> string \<Rightarrow> transport_source \<Rightarrow> string \<Rightarrow> dict \<Rightarrow> dict \<Rightarrow> construction" where
  "transport_init cls text source endpoint attrs details =
     (let dflt = (if class_code cls \<noteq> ''NR-B001'' then class_code cls else code_by_source source) in
      nullrun_init cls text
        (dict_set ''source'' (JStr (source_value source))
           (dict_set ''endpoint'' (JStr endpoint)
              (dict_set ''details'' (JObj (dict_pop ''error_code'' details)) attrs)))
        [(''error_code'', py_or (jget details ''error_code'') (JStr dflt))])"

definition backend_init ::
  "exc_class \<Rightarrow> string \<Rightarrow> string \<Rightarrow> int \<Rightarrow> dict \<Rightarrow> construction" where
  "backend_init cls text endpoint status details =
     transport_init cls text GATEWAY_ERROR endpoint []
       (dict_setdefault ''status_code'' (JInt status) details)"

definition default_if_given :: "string \<Rightarrow> json \<Rightarrow> dict \<Rightarrow> dict" where
  "default_if_given k v d = (if v = JNull then d else dict_setdefault k v d)"

definition rate_limit_init ::
  "string \<Rightarrow> transport_source \<Rightarrow> string \<Rightarrow> json \<Rightarrow> json \<Rightarrow> dict \<Rightarrow> construction" where
  "rate_limit_init text source endpoint retry_after upgrade_url body =
     transport_init RateLimitError text source endpoint
       [(''retry_after'', retry_after), (''upgrade_url'', upgrade_url), (''body'', JObj body)]
       (default_if_given ''upgrade_url'' upgrade_url (default_if_given ''retry_after'' retry_after []))"

text \<open>The typed decisions with a message.\<close>

definition chain_init ::
  "string \<Rightarrow> json \<Rightarrow> json \<Rightarrow> dict \<Rightarrow> json \<Rightarrow> dict \<Rightarrow> construction" where
  "chain_init text chain_id backend_code details status kw =
     nullrun_init NullRunChainError text
       [(''chain_id'', chain_id), (''parent_execution_id'', JNull),
        (''backend_code'', py_or backend_code (JStr (class_code NullRunChainError))),
        (''details'', JObj details), (''status_code'', status)] kw"

definition overbudget_init ::
  "string \<Rightarrow> json \<Rightarrow> json \<Rightarrow> json \<Rightarrow> json \<Rightarrow> json \<Rightarrow> json \<Rightarrow> int \<Rightarrow> construction" where
  "overbudget_init text execution_id reserved max_allowed actual soft_pass recorded status =
     nullrun_init NullRunConsumeOverbudgetError text
       [(''execution_id'', execution_id), (''reserved_millicents'', reserved),
        (''max_allowed_millicents'', max_allowed), (''actual_cost_cents'', actual),
        (''soft_pass'', soft_pass), (''recorded'', recorded), (''status_code'', JInt status),
        (''reserved_cents'', JNull), (''max_allowed_cents'', JNull), (''epsilon_cents'', JNull)] []"

definition workflow_inactive_init :: "string \<Rightarrow> json \<Rightarrow> int \<Rightarrow> construction" where
  "workflow_inactive_init text workflow_id status =
     nullrun_init NullRunWorkflowInactiveError text
       [(''workflow_id'', workflow_id), (''status_code'', JInt status)] []"

definition authentication_init :: "string \<Rightarrow> construction" where
  "authentication_init text =
     nullrun_init NullRunAuthenticationError text [(''message'', JStr text)] []"

definition auth_init :: "string \<Rightarrow> string \<Rightarrow> dict \<Rightarrow> construction" where
  "auth_init text wire_code kw =
     nullrun_init NullRunAuthError text
       [(''wire_code'', py_or (JStr wire_code) (JStr ''API_KEY_REVOKED'')), (''message'', JStr text)]
       kw"

text \<open>
  \<open>NullRunBlockedException.__init__\<close> and its subclasses.  \<open>extra\<close> holds the attributes a subclass
  constructor adds, \<open>details\<close> the surplus keyword arguments.
\<close>

definition truthy_kw :: "string \<Rightarrow> dict \<Rightarrow> dict" where
  "truthy_kw k d = (if truthy (jget d k) then [(k, jget d k)] else [])"

definition blocked_init ::
  "exc_class \<Rightarrow> dict \<Rightarrow> string \<Rightarrow> string \<Rightarrow> json \<Rightarrow> int \<Rightarrow> dict \<Rightarrow> construction" where
  "blocked_init cls extra workflow_id reason tool_name status details =
     nullrun_init cls reason
       ([(''workflow_id'', JStr workflow_id), (''reason'', JStr reason), (''action'', JStr ''block''),
         (''tool_name'', tool_name), (''status_code'', JInt status),
         (''details'',
          JObj (dict_pop ''retryable'' (dict_pop ''user_action'' (dict_pop ''error_code'' details))))]
        @ extra)
       ((''error_code'', py_or (jget details ''error_code'') (JStr (class_code cls)))
        # truthy_kw ''user_action'' details @ [(''retryable'', jget details ''retryable'')])"

fun has_approval_id :: "exc_class \<Rightarrow> bool" where
  "has_approval_id NullRunApprovalNotYetApprovedError = True"
| "has_approval_id NullRunApprovalDeniedError = True"
| "has_approval_id NullRunApprovalExpiredError = True"
| "has_approval_id NullRunApprovalReplayRejectedError = True"
| "has_approval_id _ = False"

text \<open>
  The four approval classes with an \<open>approval_id\<close> parameter keep it as an attribute; in the other
  subclasses the keyword ends up in \<open>details\<close>.
\<close>

fun approval_extra :: "exc_class \<Rightarrow> json \<Rightarrow> dict" where
  "approval_extra NullRunApprovalDeniedError a = [(''approval_id'', a), (''denial_note'', JNull)]"
| "approval_extra NullRunApprovalExpiredError a =
     [(''approval_id'', a), (''timeout_seconds'', JNull), (''local_timeout'', JBool False)]"
| "approval_extra NullRunApprovalNotYetApprovedError a = [(''approval_id'', a)]"
| "approval_extra NullRunApprovalReplayRejectedError a = [(''approval_id'', a)]"
| "approval_extra _ a = []"

definition approval_init ::
  "exc_class \<Rightarrow> string \<Rightarrow> string \<Rightarrow> int \<Rightarrow> json \<Rightarrow> construction" where
  "approval_init cls workflow_id reason status approval_id =
     blocked_init cls (approval_extra cls approval_id) workflow_id reason JNull status
       (if has_approval_id cls then [] else [(''approval_id'', approval_id)])"

definition recheck_init :: "string \<Rightarrow> json \<Rightarrow> json \<Rightarrow> int \<Rightarrow> construction" where
  "recheck_init text current_spend budget status =
     blocked_init NullRunBudgetRecheckFailedError
       [(''current_spend_cents'', current_spend), (''budget_cents'', budget),
        (''recheck_retryable'', JBool True)]
       ''<recheck>'' text JNull status []"

definition execution_not_found_init :: "string \<Rightarrow> json \<Rightarrow> json \<Rightarrow> int \<Rightarrow> construction" where
  "execution_not_found_init text execution_id endpoint status =
     (let ep = py_or endpoint (JStr ''/api/v1/execute'') in
      map_sum id (\<lambda>e. e\<lparr>err_attrs := dict_set ''execution_id'' execution_id
                          (dict_set ''endpoint'' ep
                             (dict_set ''regate_required'' (JBool True) (err_attrs e)))\<rparr>)
        (backend_init NullRunExecutionNotFoundError text (case ep of JStr s \<Rightarrow> s | _ \<Rightarrow> '''') status
           (if execution_id = JNull then [] else [(''execution_id'', execution_id)])))"

section \<open>What a construction gives\<close>

lemma nullrun_init_class: "nullrun_init cls text attrs kw = Inr e \<Longrightarrow> err_class e = cls"
  by (auto simp: nullrun_init_def split: if_splits)

lemma transport_init_class: "transport_init cls t s ep attrs d = Inr e \<Longrightarrow> err_class e = cls"
  by (auto simp: transport_init_def Let_def dest: nullrun_init_class)

lemma blocked_init_class: "blocked_init cls x w r t s d = Inr e \<Longrightarrow> err_class e = cls"
  by (auto simp: blocked_init_def dest: nullrun_init_class)

lemma execution_not_found_class:
  "execution_not_found_init t x ep s = Inr e \<Longrightarrow> err_class e = NullRunExecutionNotFoundError"
  by (cases "backend_init NullRunExecutionNotFoundError t
        (case py_or ep (JStr ''/api/v1/execute'') of JStr s \<Rightarrow> s | _ \<Rightarrow> '''') s
        (if x = JNull then [] else [(''execution_id'', x)])")
     (auto simp: execution_not_found_init_def Let_def backend_init_def dest: transport_init_class)

lemmas init_class =
  nullrun_init_class transport_init_class blocked_init_class execution_not_found_class

lemma transport_init_total: "transport_init cls t s ep attrs d \<noteq> Inl x"
  by (simp add: transport_init_def Let_def nullrun_init_def base_kwargs_def)

lemma blocked_init_total: "blocked_init cls x w r t s d \<noteq> Inl y"
  by (simp add: blocked_init_def nullrun_init_def base_kwargs_def truthy_kw_def)

lemma execution_not_found_total: "execution_not_found_init t x ep s \<noteq> Inl y"
proof -
  have "\<And>a b c d. backend_init NullRunExecutionNotFoundError a b c d \<noteq> Inl y"
    by (simp add: backend_init_def transport_init_total)
  then show ?thesis
    by (auto simp: execution_not_found_init_def Let_def map_sum_def split: sum.splits)
qed

end
