(* ===== verification/Error_Envelope.thy ===== *)
theory Error_Envelope
  imports Retry Sdk_Errors
begin

text \<open>
  From an HTTP error response to a typed exception (\<open>src/nullrun/transport.py\<close>):
  \<open>_extract_error_envelope\<close> normalises the envelope shapes, \<open>_V3_ERROR_CODE_MAP\<close> is the table of
  wire codes, \<open>_parse_v3_error_envelope_uncategorised\<close> builds the exception and
  \<open>_parse_v3_error_envelope\<close> stamps the wire fields on it.  Building the exception may itself
  raise: \<open>Inl\<close> names the class of what is raised.  The argument \<open>rep\<close> is Python's \<open>repr\<close> of a JSON
  value (only its use inside texts depends on it), and \<open>str.upper\<close> is modelled on ASCII letters.
\<close>

section \<open>Responses and text\<close>

record error_response = http_response +
  resp_text :: string

definition py_str :: "(json \<Rightarrow> string) \<Rightarrow> json \<Rightarrow> string" where
  "py_str rep j = (case j of JStr s \<Rightarrow> s | _ \<Rightarrow> rep j)"

lemma py_str_JStr [simp]: "py_str rep (JStr s) = s"
  by (simp add: py_str_def)

definition upper_char :: "char \<Rightarrow> char" where
  "upper_char c =
     (let n = (of_char c :: nat) in if 97 \<le> n \<and> n \<le> 122 then char_of (n - 32) else c)"

definition upper :: "string \<Rightarrow> string" where
  "upper s = map upper_char s"

definition response_body :: "'a error_response_scheme \<Rightarrow> dict" where
  "response_body r = (case resp_json r of Some (JObj d) \<Rightarrow> d | _ \<Rightarrow> [])"

section \<open>The envelope shapes\<close>

text \<open>The surplus body fields copied into \<open>details\<close> without replacing what is there.\<close>

fun forward_extra :: "string list \<Rightarrow> dict \<Rightarrow> dict \<Rightarrow> dict" where
  "forward_extra skip [] details = details"
| "forward_extra skip ((k, v) # body) details =
     forward_extra skip body (if k \<in> set skip then details else dict_setdefault k v details)"

definition flat_keys :: "string list" where
  "flat_keys = [''error_code'', ''error_message'', ''message'', ''details'', ''retry_after_ms'']"

definition refusal_keys :: "string list" where
  "refusal_keys = [''error_code'', ''error_message'', ''explanation'', ''message'', ''details'',
                   ''retry_after_ms'']"

definition json_obj :: "json \<Rightarrow> dict" where
  "json_obj j = (case j of JObj d \<Rightarrow> d | _ \<Rightarrow> [])"

definition flat_envelope ::
  "(json \<Rightarrow> string) \<Rightarrow> dict \<Rightarrow> string \<Rightarrow> string \<times> string \<times> dict" where
  "flat_envelope rep body raw =
     (py_str rep (py_or (jget body ''error_code'') (JStr [])),
      py_str rep (py_or (jget body ''error_message'') (py_or (jget body ''message'') (JStr raw))),
      forward_extra flat_keys body (json_obj (jget body ''details'')))"

definition refusal_envelope ::
  "(json \<Rightarrow> string) \<Rightarrow> dict \<Rightarrow> dict \<Rightarrow> string \<Rightarrow> string \<times> string \<times> dict" where
  "refusal_envelope rep body det raw =
     (py_str rep (py_or (jget det ''error_code'') (JStr [])),
      py_str rep (py_or (jget body ''explanation'')
        (py_or (jget body ''error_message'') (py_or (jget body ''message'') (JStr raw)))),
      forward_extra refusal_keys body det)"

definition legacy_envelope ::
  "(json \<Rightarrow> string) \<Rightarrow> dict \<Rightarrow> string \<Rightarrow> string \<times> string \<times> dict" where
  "legacy_envelope rep body raw =
     (upper (py_str rep (py_or (jget body ''error'') (JStr []))),
      py_str rep (py_or (jget body ''message'') (JStr raw)),
      filter (\<lambda>p. fst p \<notin> {''error'', ''message''} \<and> take 1 (fst p) \<noteq> ''_'') body)"

definition extract_error_envelope ::
  "(json \<Rightarrow> string) \<Rightarrow> dict \<Rightarrow> string \<Rightarrow> string \<times> string \<times> dict" where
  "extract_error_envelope rep body raw =
     (if body = [] then ([], raw, [])
      else if dict_get body ''error_code'' \<noteq> None then flat_envelope rep body raw
      else if dict_get (json_obj (jget body ''details'')) ''error_code'' \<noteq> None
        then refusal_envelope rep body (json_obj (jget body ''details'')) raw
      else if dict_get body ''error'' \<noteq> None then legacy_envelope rep body raw
      else ([], (if raw \<noteq> [] then raw else rep (JObj body)), body))"

section \<open>The table of wire codes\<close>

definition v3_error_code_map :: "(string \<times> exc_class) list" where
  "v3_error_code_map =
    [(''PROTOCOL_TOO_OLD'', NullRunProtocolError),
     (''PROTOCOL_TOO_NEW'', NullRunProtocolError),
     (''BUDGET_HARD_BLOCKED'', NullRunBudgetError),
     (''BUDGET_SOFT_BLOCKED'', NullRunBudgetError),
     (''BUDGET_OVERDRAFT_EXCEEDED'', NullRunBudgetError),
     (''BUDGET_PERIOD_NOT_STARTED'', NullRunBudgetError),
     (''BUDGET_WORKFLOW_BLOCKED'', NullRunBudgetError),
     (''BUDGET_CACHE_EXCEEDED'', NullRunBudgetError),
     (''CHAIN_MAX_DURATION_EXCEEDED'', NullRunChainError),
     (''CHAIN_CROSS_ORG'', NullRunChainError),
     (''CHAIN_ORG_MISMATCH'', NullRunChainError),
     (''PARENT_EXECUTION_NOT_FOUND'', NullRunChainError),
     (''PARENT_EXECUTION_ORG_MISMATCH'', NullRunChainError),
     (''PARENT_EXECUTION_KEY_MISMATCH'', NullRunChainError),
     (''WORKFLOW_INACTIVE'', NullRunWorkflowInactiveError),
     (''API_KEY_REVOKED'', NullRunAuthError),
     (''API_KEY_EXPIRED'', NullRunAuthError),
     (''API_KEY_DISABLED'', NullRunAuthError),
     (''API_KEY_INVALID'', NullRunAuthError),
     (''API_KEY_MISSING'', NullRunAuthError),
     (''API_KEY_MALFORMED'', NullRunAuthError),
     (''CONSUME_OVERBUDGET'', NullRunConsumeOverbudgetError),
     (''RATE_LIMIT_EXCEEDED'', RateLimitError),
     (''RATE_LIMIT_REDIS_UNAVAILABLE'', NullRunRateLimitRedisError),
     (''BUDGET_DATA_UNAVAILABLE'', NullRunBackendError),
     (''APPROVAL_DB_UNAVAILABLE'', NullRunApprovalDbUnavailableError),
     (''APPROVAL_PERSISTENCE_FAILED'', NullRunApprovalDbUnavailableError),
     (''APPROVAL_VALIDATION_FAILED'', NullRunApprovalDbUnavailableError),
     (''APPROVAL_CONFLICT'', NullRunApprovalDbUnavailableError),
     (''APPROVAL_NOT_FOUND'', NullRunApprovalDbUnavailableError),
     (''APPROVAL_CREATE_FAILED'', NullRunApprovalDbUnavailableError),
     (''APPROVAL_NOT_YET_APPROVED'', NullRunApprovalNotYetApprovedError),
     (''APPROVAL_DENIED'', NullRunApprovalDeniedError),
     (''APPROVAL_EXPIRED'', NullRunApprovalExpiredError),
     (''APPROVAL_DIGEST_MISMATCH'', NullRunApprovalDigestMismatchError),
     (''APPROVAL_TOOL_DIGEST_MISMATCH'', NullRunApprovalToolDigestMismatchError),
     (''APPROVAL_REPLAY_REJECTED'', NullRunApprovalReplayRejectedError),
     (''BUDGET_RECHECK_FAILED'', NullRunBudgetRecheckFailedError),
     (''BUDGET_ANTI_DOS_RESERVED_CAP'', NullRunBudgetError),
     (''BUDGET_REDIS_UNAVAILABLE'', NullRunBudgetError),
     (''CHAIN_ID_INVALID'', NullRunChainError),
     (''EXECUTION_KEY_MISMATCH'', NullRunAuthError),
     (''EXECUTION_ORG_MISMATCH'', NullRunAuthError),
     (''ORG_MISMATCH'', NullRunAuthError),
     (''PROTOCOL_HEADER_INVALID'', NullRunProtocolError),
     (''PROTOCOL_HEADER_REQUIRED'', NullRunProtocolError),
     (''TOOL_BLOCKED'', NullRunToolBlockedError),
     (''LOOP_DETECTED'', NullRunBlockedException),
     (''MODEL_REQUIRED'', NullRunBlockedException),
     (''POLICY_UNCONFIGURED'', NullRunBlockedException),
     (''TOO_MANY_PENDING_APPROVALS'', NullRunBlockedException),
     (''BUSINESS_IMPACT_INVALID'', NullRunBlockedException),
     (''VALIDATION_FAILED'', NullRunBlockedException),
     (''MCP_DESTRUCTIVE_BLOCKED'', NullRunMcpDestructiveBlockedError),
     (''MCP_READONLY_BYPASS_BLOCKED'', NullRunMcpReadonlyBypassBlockedError),
     (''MCP_APPROVAL_REQUIRED'', NullRunMcpApprovalRequiredError),
     (''EXECUTION_ID_MALFORMED'', NullRunBackendError),
     (''EXECUTION_ID_REQUIRED'', NullRunBackendError),
     (''INVALID_EXECUTION_ID'', NullRunBackendError),
     (''EXECUTION_NOT_FOUND'', NullRunExecutionNotFoundError),
     (''INVALID_FIELD'', NullRunBackendError),
     (''INVALID_JSON'', NullRunBackendError),
     (''RATE_LIMIT_PLAN_LOOKUP_FAILED'', NullRunRateLimitRedisError),
     (''IDEMPOTENCY_REDIS_UNAVAILABLE'', NullRunBackendError),
     (''WORKFLOW_CYCLE_DETECTED'', NullRunChainError),
     (''WORKFLOW_DEPTH_EXCEEDED'', NullRunChainError),
     (''WORKFLOW_PARENT_BINDING_EXPIRED'', NullRunChainError),
     (''WORKFLOW_DEPTH_LOOKUP_FAILED'', NullRunChainError),
     (''INVOKE_PERSIST_FAILED'', NullRunBackendError),
     (''SUBWORKFLOW_INVOKE_DISABLED'', NullRunChainError),
     (''APPROVAL_ALREADY_DECIDED'', NullRunApprovalReplayRejectedError),
     (''LEGACY_GRANT_REJECTED'', NullRunBlockedException),
     (''BUDGET_ORG_CEILING_BLOCKED'', NullRunBudgetError),
     (''CIRCUIT_BREAKER_TRIPPED'', NullRunBlockedException),
     (''CIRCUIT_BREAKER_STATE_LOOKUP_FAILED'', NullRunBackendError),
     (''WORKFLOW_INACTIVE_LOOKUP_FAILED'', NullRunBackendError),
     (''WORKFLOW_PAUSED'', NullRunBlockedException),
     (''EXECUTION_QUOTA_EXCEEDED'', NullRunBlockedException),
     (''IDEMPOTENCY_KEY_MISMATCH'', NullRunProtocolError),
     (''WORKFLOW_ID_BODY_MISMATCH'', NullRunBackendError),
     (''APPROVAL_RULES_UNAVAILABLE'', NullRunApprovalDbUnavailableError),
     (''APPROVAL_DIGEST_RECOMPUTE_FAILED'', NullRunApprovalDbUnavailableError),
     (''REDIS_UNAVAILABLE'', NullRunBackendError),
     (''INTERNAL_ERROR'', NullRunBackendError)]"

definition code_class :: "string \<Rightarrow> exc_class option" where
  "code_class code = map_of v3_error_code_map code"

section \<open>Retry hints\<close>

text \<open>
  \<open>retry_after_ms\<close> comes from the body unless the header is a number of seconds.  The division by
  1000 needs a number: a truthy value of another type raises \<open>TypeError\<close>.
\<close>

definition retry_after_ms :: "'a error_response_scheme \<Rightarrow> json" where
  "retry_after_ms r =
     (case resp_retry_after r of
        Some (Seconds q) \<Rightarrow> JFloat (q * 1000)
      | _ \<Rightarrow> jget (response_body r) ''retry_after_ms'')"

text \<open>An integer that the conversion to a double refuses.\<close>

definition beyond_float :: "int \<Rightarrow> bool" where "beyond_float i \<longleftrightarrow> \<bar>i\<bar> \<ge> 2 ^ 1024 - 2 ^ 970"

definition retry_after_of_ms :: "json \<Rightarrow> string + json" where
  "retry_after_of_ms j =
     (if \<not> truthy j then Inr JNull
      else
        (case j of
           JInt i \<Rightarrow> (if beyond_float i then Inl ''OverflowError'' else Inr (JFloat (of_int i / 1000)))
         | JFloat q \<Rightarrow> Inr (JFloat (q / 1000))
         | JBool b \<Rightarrow> Inr (JFloat (1 / 1000))
         | _ \<Rightarrow> Inl ''TypeError''))"

definition rate_limited :: "string \<Rightarrow> string \<Rightarrow> 'a error_response_scheme \<Rightarrow> construction" where
  "rate_limited text endpoint r =
     (case retry_after_of_ms (retry_after_ms r) of
        Inl x \<Rightarrow> Inl x
      | Inr ra \<Rightarrow> rate_limit_init text GATEWAY_ERROR endpoint ra JNull (response_body r))"

section \<open>Building the exception\<close>

definition approval_grant_codes :: "string list" where
  "approval_grant_codes =
     [''APPROVAL_NOT_YET_APPROVED'', ''APPROVAL_DENIED'', ''APPROVAL_EXPIRED'',
      ''APPROVAL_DIGEST_MISMATCH'', ''APPROVAL_TOOL_DIGEST_MISMATCH'', ''APPROVAL_REPLAY_REJECTED'']"

definition forwarded :: "dict \<Rightarrow> dict" where
  "forwarded details = filter (\<lambda>p. fst p \<in> set base_kwargs) details"

definition not_forwarded :: "dict \<Rightarrow> dict" where
  "not_forwarded details = filter (\<lambda>p. fst p \<notin> set base_kwargs) details"

definition workflow_id_text :: "(json \<Rightarrow> string) \<Rightarrow> dict \<Rightarrow> string" where
  "workflow_id_text rep details =
     py_str rep (py_or (jget details ''workflow_id'') (JStr ''unknown''))"

definition json_int :: "json \<Rightarrow> json" where
  "json_int j = (case as_int_or_none j of None \<Rightarrow> JNull | Some i \<Rightarrow> JInt i)"

definition json_bool :: "json \<Rightarrow> json" where
  "json_bool j = (case j of JBool b \<Rightarrow> JBool b | _ \<Rightarrow> JNull)"

text \<open>
  The call \<open>catalog(full_message, **forwarded)\<close>: a class of the blocked family takes the message
  as \<open>workflow_id\<close> and misses \<open>reason\<close>, so the call itself is a \<open>TypeError\<close>; the chain class
  takes the keyword arguments of the base class; a transport class would miss \<open>source\<close>.
\<close>

definition generic_init :: "exc_class \<Rightarrow> string \<Rightarrow> dict \<Rightarrow> construction" where
  "generic_init cls text kw =
     (if is_subclass cls NullRunBlockedException \<or> is_subclass cls NullRunTransportError
      then Inl ''TypeError''
      else if cls = NullRunChainError then chain_init text JNull JNull [] JNull kw
      else nullrun_init cls text [] kw)"

definition by_catalog ::
  "(json \<Rightarrow> string) \<Rightarrow> string \<Rightarrow> int \<Rightarrow> string \<Rightarrow> dict \<Rightarrow> string \<Rightarrow> exc_class \<Rightarrow> construction" where
  "by_catalog rep endpoint status code details text cls =
     (if cls = NullRunBackendError then backend_init NullRunBackendError text endpoint status []
      else if cls = NullRunExecutionNotFoundError
        then execution_not_found_init text (jget details ''execution_id'')
               (py_or (jget details ''endpoint'') (JStr endpoint)) status
      else if cls = NullRunBudgetError
        then blocked_init NullRunBudgetError [] (workflow_id_text rep details) text JNull status []
      else if cls = NullRunRateLimitRedisError \<or> cls = NullRunProtocolError
        then nullrun_init cls text [] []
      else if cls = NullRunAuthError
        then map_sum id
               (\<lambda>e. if not_forwarded details = [] then e
                     else e\<lparr>err_attrs := dict_set ''details'' (JObj (not_forwarded details)) (err_attrs e)\<rparr>)
               (auth_init text code (forwarded details))
      else if cls = NullRunToolBlockedError \<or> cls = NullRunBlockedException
        then blocked_init cls [] (workflow_id_text rep details) text (jget details ''tool_name'')
               status (forwarded details)
      else generic_init cls text (forwarded details))"

definition by_status ::
  "(json \<Rightarrow> string) \<Rightarrow> string \<Rightarrow> 'a error_response_scheme \<Rightarrow> string \<Rightarrow> string \<Rightarrow> construction" where
  "by_status rep endpoint r code message =
     (let status = resp_status r; coded = rep (JStr code) in
      if status = 401 \<or> status = 403
        then authentication_init (''Auth failed on '' @ endpoint @ '' (status '' @ show_int status
               @ '', error_code='' @ coded @ ''): '' @ message)
      else if status = 429
        then rate_limited (''Rate limited on '' @ endpoint @ '' (status 429, error_code='' @ coded
               @ ''): '' @ message) endpoint r
      else backend_init NullRunBackendError (endpoint @ '': '' @ message @ '' (status ''
               @ show_int status @ '', error_code='' @ coded @ '')'') endpoint status [])"

text \<open>The dispatch on the normalised envelope, in the order of the source.\<close>

definition dispatch_error ::
  "(json \<Rightarrow> string) \<Rightarrow> string \<Rightarrow> 'a error_response_scheme \<Rightarrow> string \<Rightarrow> string \<Rightarrow> dict \<Rightarrow> construction"
where
  "dispatch_error rep endpoint r code message details =
     (if code = ''PROTOCOL_TOO_OLD'' \<or> code = ''PROTOCOL_TOO_NEW''
        then nullrun_init NullRunProtocolError (endpoint @ '': '' @ message) [] []
      else if code = ''CONSUME_OVERBUDGET''
        then overbudget_init (endpoint @ '': '' @ message) (jget details ''execution_id'')
               (json_int (jget details ''reserved_millicents''))
               (json_int (jget details ''max_allowed_millicents''))
               (json_int (jget details ''actual_cost_cents''))
               (json_bool (jget details ''soft_pass''))
               (json_bool (jget details ''reservation_recorded'')) (resp_status r)
      else if code = ''CHAIN_MAX_DURATION_EXCEEDED'' \<or> code = ''CHAIN_CROSS_ORG''
              \<or> code = ''CHAIN_ORG_MISMATCH''
        then chain_init (endpoint @ '': '' @ message) (jget details ''chain_id'') (JStr code) details
               (JInt (resp_status r)) []
      else if code = ''WORKFLOW_INACTIVE''
        then workflow_inactive_init (endpoint @ '': '' @ message) (jget details ''workflow_id'')
               (resp_status r)
      else if code = ''BUDGET_RECHECK_FAILED''
        then recheck_init (endpoint @ '': '' @ message) (jget details ''current_spend_cents'')
               (jget details ''budget_cents'') (resp_status r)
      else if code \<in> set approval_grant_codes
        then approval_init (the (code_class code)) (workflow_id_text rep details)
               (endpoint @ '': '' @ message) (resp_status r) (jget details ''approval_id'')
      else if code = ''RATE_LIMIT_REDIS_UNAVAILABLE''
        then nullrun_init NullRunRateLimitRedisError (endpoint @ '': '' @ message) [] []
      else if code = ''RATE_LIMIT_EXCEEDED''
        then rate_limited (endpoint @ '': '' @ message) endpoint r
      else
        (case code_class code of
           Some cls \<Rightarrow>
             by_catalog rep endpoint (resp_status r) code details (endpoint @ '': '' @ message) cls
         | None \<Rightarrow> by_status rep endpoint r code message))"

definition parse_v3_error_envelope_uncategorised ::
  "(json \<Rightarrow> string) \<Rightarrow> string \<Rightarrow> 'a error_response_scheme \<Rightarrow> construction" where
  "parse_v3_error_envelope_uncategorised rep endpoint r =
     (case extract_error_envelope rep (response_body r) (resp_text r) of
        (code, message, details) \<Rightarrow> dispatch_error rep endpoint r code message details)"

section \<open>The wire fields\<close>

definition wire_stamp :: "dict \<Rightarrow> sdk_error \<Rightarrow> sdk_error" where
  "wire_stamp body e =
     e\<lparr>err_attrs :=
        dict_set ''user_message'' (jget body ''user_message'')
          (dict_set ''agent_message'' (jget body ''agent_message'')
             (dict_set ''wire_error_code''
                (case jget body ''details'' of
                   JObj d \<Rightarrow> jget d ''error_code''
                 | _ \<Rightarrow> jget body ''error_code'')
                (if jget body ''category'' = JNull then err_attrs e
                 else dict_set ''wire_category'' (jget body ''category'') (err_attrs e))))\<rparr>"

definition parse_v3_error_envelope ::
  "(json \<Rightarrow> string) \<Rightarrow> string \<Rightarrow> 'a error_response_scheme \<Rightarrow> construction" where
  "parse_v3_error_envelope rep endpoint r =
     map_sum id
       (\<lambda>e. case resp_json r of Some (JObj d) \<Rightarrow> wire_stamp d e | _ \<Rightarrow> e)
       (parse_v3_error_envelope_uncategorised rep endpoint r)"

section \<open>The older parser and the JSON reader\<close>

definition safe_json :: "string \<Rightarrow> http_response \<Rightarrow> string \<Rightarrow> sdk_error + json" where
  "safe_json endpoint r why =
     (case resp_json r of
        Some j \<Rightarrow> Inr j
      | None \<Rightarrow>
          (case transport_init NullRunTransportError
                  (''Received malformed JSON from '' @ endpoint @ '' (status='' @ show_int (resp_status r)
                   @ ''): '' @ why)
                  GATEWAY_ERROR endpoint [] [(''error_code'', JStr ''NR-T-PARSE'')] of
             Inr e \<Rightarrow> Inl e
           | Inl _ \<Rightarrow> Inr JNull))"

definition parse_error_envelope ::
  "(json \<Rightarrow> string) \<Rightarrow> rat \<Rightarrow> string \<Rightarrow> 'a error_response_scheme \<Rightarrow> construction" where
  "parse_error_envelope rep now endpoint r =
     (let status = resp_status r;
          body = response_body r;
          slug = py_or (jget body ''error'') (JStr []);
          message = py_str rep (py_or (jget body ''message'')
                      (JStr (if resp_text r \<noteq> [] then resp_text r else ''HTTP '' @ show_int status)));
          suffix = '', error='' @ rep slug @ ''): '' @ message
      in
      if status = 401 \<or> status = 403
        then authentication_init (''Auth failed on '' @ endpoint @ '' (status '' @ show_int status @ suffix)
      else if status = 429
        then rate_limit_init (''Rate limited on '' @ endpoint @ '' (status 429'' @ suffix) GATEWAY_ERROR
               endpoint
               (case retry_after_seconds_from now (http_response.truncate r) of
                  None \<Rightarrow> JNull | Some q \<Rightarrow> JFloat q)
               (jget body ''upgrade_url'') body
      else
        transport_init NullRunTransportError
          ((if 500 \<le> status \<and> status < 600 then ''Gateway error on '' else ''Client error on '')
           @ endpoint @ '' (status '' @ show_int status @ suffix)
          GATEWAY_ERROR endpoint [] [(''status_code'', JInt status), (''error_slug'', slug)])"

end
