(* ===== verification/Error_Envelope_Laws.thy ===== *)
theory Error_Envelope_Laws
  imports Error_Envelope
begin

text \<open>
  What the error parser promises.  The wire code, wherever the envelope carries it, alone decides
  the class of the exception; a response without a catalogued code is classified by its status; the
  responses for which the parser itself raises are characterised exactly.
\<close>

section \<open>The specification\<close>

text \<open>The class by status, used only when the code is not in the table.\<close>

definition status_class :: "int \<Rightarrow> exc_class" where
  "status_class s =
     (if s = 401 \<or> s = 403 then NullRunAuthenticationError
      else if s = 429 then RateLimitError else NullRunBackendError)"

definition expected_class :: "string \<Rightarrow> int \<Rightarrow> exc_class" where
  "expected_class code status =
     (case code_class code of Some cls \<Rightarrow> cls | None \<Rightarrow> status_class status)"

definition wire_code_of :: "(json \<Rightarrow> string) \<Rightarrow> 'a error_response_scheme \<Rightarrow> string" where
  "wire_code_of rep r = fst (extract_error_envelope rep (response_body r) (resp_text r))"

definition wire_details_of :: "(json \<Rightarrow> string) \<Rightarrow> 'a error_response_scheme \<Rightarrow> dict" where
  "wire_details_of rep r = snd (snd (extract_error_envelope rep (response_body r) (resp_text r)))"

text \<open>The codes whose catalogue class cannot be built by the call the parser makes.\<close>

definition unbuildable_codes :: "string list" where
  "unbuildable_codes =
     [''APPROVAL_DB_UNAVAILABLE'', ''APPROVAL_PERSISTENCE_FAILED'', ''APPROVAL_VALIDATION_FAILED'',
      ''APPROVAL_CONFLICT'', ''APPROVAL_NOT_FOUND'', ''APPROVAL_CREATE_FAILED'',
      ''APPROVAL_RULES_UNAVAILABLE'', ''APPROVAL_DIGEST_RECOMPUTE_FAILED'',
      ''APPROVAL_ALREADY_DECIDED'', ''MCP_DESTRUCTIVE_BLOCKED'', ''MCP_READONLY_BYPASS_BLOCKED'',
      ''MCP_APPROVAL_REQUIRED'']"

definition chain_codes :: "string list" where
  "chain_codes = [''CHAIN_MAX_DURATION_EXCEEDED'', ''CHAIN_CROSS_ORG'', ''CHAIN_ORG_MISMATCH'']"

text \<open>The codes handled before the table is consulted.\<close>

definition early_codes :: "string list" where
  "early_codes =
     [''PROTOCOL_TOO_OLD'', ''PROTOCOL_TOO_NEW'', ''CONSUME_OVERBUDGET'', ''WORKFLOW_INACTIVE'',
      ''BUDGET_RECHECK_FAILED'', ''RATE_LIMIT_REDIS_UNAVAILABLE'', ''RATE_LIMIT_EXCEEDED'']
     @ chain_codes @ approval_grant_codes"

section \<open>Facts about the table\<close>

lemma list_membership:
  assumes "x \<in> set (y # ys)"
  obtains "x = y" | "x \<in> set ys"
  using assms by auto

lemmas code_lists =
  unbuildable_codes_def chain_codes_def early_codes_def approval_grant_codes_def

lemma early_code_class:
  "code_class ''PROTOCOL_TOO_OLD'' = Some NullRunProtocolError"
  "code_class ''PROTOCOL_TOO_NEW'' = Some NullRunProtocolError"
  "code_class ''CONSUME_OVERBUDGET'' = Some NullRunConsumeOverbudgetError"
  "code_class ''WORKFLOW_INACTIVE'' = Some NullRunWorkflowInactiveError"
  "code_class ''BUDGET_RECHECK_FAILED'' = Some NullRunBudgetRecheckFailedError"
  "code_class ''RATE_LIMIT_REDIS_UNAVAILABLE'' = Some NullRunRateLimitRedisError"
  "code_class ''RATE_LIMIT_EXCEEDED'' = Some RateLimitError"
  "code_class ''CHAIN_MAX_DURATION_EXCEEDED'' = Some NullRunChainError"
  "code_class ''CHAIN_CROSS_ORG'' = Some NullRunChainError"
  "code_class ''CHAIN_ORG_MISMATCH'' = Some NullRunChainError"
  by code_simp+

definition generic_class :: "exc_class \<Rightarrow> bool" where
  "generic_class cls \<longleftrightarrow>
     cls \<notin> {NullRunBackendError, NullRunExecutionNotFoundError, NullRunBudgetError,
            NullRunRateLimitRedisError, NullRunProtocolError, NullRunAuthError,
            NullRunToolBlockedError, NullRunBlockedException}"

lemma generic_rows:
  "filter (\<lambda>p. generic_class (snd p) \<and> snd p \<noteq> NullRunChainError) v3_error_code_map =
    [(''WORKFLOW_INACTIVE'', NullRunWorkflowInactiveError),
     (''CONSUME_OVERBUDGET'', NullRunConsumeOverbudgetError),
     (''RATE_LIMIT_EXCEEDED'', RateLimitError),
     (''APPROVAL_DB_UNAVAILABLE'', NullRunApprovalDbUnavailableError),
     (''APPROVAL_PERSISTENCE_FAILED'', NullRunApprovalDbUnavailableError),
     (''APPROVAL_VALIDATION_FAILED'', NullRunApprovalDbUnavailableError),
     (''APPROVAL_CONFLICT'', NullRunApprovalDbUnavailableError),
     (''APPROVAL_NOT_FOUND'', NullRunApprovalDbUnavailableError),
     (''APPROVAL_CREATE_FAILED'', NullRunApprovalDbUnavailableError),
     (''APPROVAL_NOT_YET_APPROVED'', NullRunApprovalNotYetApprovedError),
     (''APPROVAL_DENIED'', NullRunApprovalDeniedError),
     (''APPROVAL_EXPIRED'', NullRunApprovalExpiredError),
     (''APPROVAL_DIGEST_MISMATCH'', NullRunApprovalDigestMismatchError),
     (''APPROVAL_TOOL_DIGEST_MISMATCH'', NullRunApprovalToolDigestMismatchError),
     (''APPROVAL_REPLAY_REJECTED'', NullRunApprovalReplayRejectedError),
     (''BUDGET_RECHECK_FAILED'', NullRunBudgetRecheckFailedError),
     (''MCP_DESTRUCTIVE_BLOCKED'', NullRunMcpDestructiveBlockedError),
     (''MCP_READONLY_BYPASS_BLOCKED'', NullRunMcpReadonlyBypassBlockedError),
     (''MCP_APPROVAL_REQUIRED'', NullRunMcpApprovalRequiredError),
     (''APPROVAL_ALREADY_DECIDED'', NullRunApprovalReplayRejectedError),
     (''APPROVAL_RULES_UNAVAILABLE'', NullRunApprovalDbUnavailableError),
     (''APPROVAL_DIGEST_RECOMPUTE_FAILED'', NullRunApprovalDbUnavailableError)]"
  by code_simp

lemma code_class_row: "code_class code = Some cls \<Longrightarrow> (code, cls) \<in> set v3_error_code_map"
  by (simp add: code_class_def map_of_SomeD)

text \<open>A code that reaches the generic call, other than a chain code, is one of the twelve.\<close>

lemma generic_code_unbuildable:
  assumes "code_class code = Some cls" "generic_class cls" "cls \<noteq> NullRunChainError"
    and "code \<notin> set early_codes"
  shows "code \<in> set unbuildable_codes" "is_subclass cls NullRunBlockedException"
proof -
  have "(code, cls) \<in> set (filter (\<lambda>p. generic_class (snd p) \<and> snd p \<noteq> NullRunChainError)
          v3_error_code_map)"
    using code_class_row [OF assms(1)] assms(2,3) by simp
  then have row: "(code, cls) \<in> set (filter (\<lambda>p. fst p \<notin> set early_codes) (filter
      (\<lambda>p. generic_class (snd p) \<and> snd p \<noteq> NullRunChainError) v3_error_code_map))"
    using assms(4) by simp
  have rest: "filter (\<lambda>p. fst p \<notin> set early_codes) (filter
      (\<lambda>p. generic_class (snd p) \<and> snd p \<noteq> NullRunChainError) v3_error_code_map) =
      [(''APPROVAL_DB_UNAVAILABLE'', NullRunApprovalDbUnavailableError),
       (''APPROVAL_PERSISTENCE_FAILED'', NullRunApprovalDbUnavailableError),
       (''APPROVAL_VALIDATION_FAILED'', NullRunApprovalDbUnavailableError),
       (''APPROVAL_CONFLICT'', NullRunApprovalDbUnavailableError),
       (''APPROVAL_NOT_FOUND'', NullRunApprovalDbUnavailableError),
       (''APPROVAL_CREATE_FAILED'', NullRunApprovalDbUnavailableError),
       (''MCP_DESTRUCTIVE_BLOCKED'', NullRunMcpDestructiveBlockedError),
       (''MCP_READONLY_BYPASS_BLOCKED'', NullRunMcpReadonlyBypassBlockedError),
       (''MCP_APPROVAL_REQUIRED'', NullRunMcpApprovalRequiredError),
       (''APPROVAL_ALREADY_DECIDED'', NullRunApprovalReplayRejectedError),
       (''APPROVAL_RULES_UNAVAILABLE'', NullRunApprovalDbUnavailableError),
       (''APPROVAL_DIGEST_RECOMPUTE_FAILED'', NullRunApprovalDbUnavailableError)]"
    unfolding generic_rows by (simp add: code_lists)
  have "list_all (\<lambda>p. fst p \<in> set unbuildable_codes \<and> is_subclass (snd p) NullRunBlockedException)
      (filter (\<lambda>p. fst p \<notin> set early_codes) (filter
      (\<lambda>p. generic_class (snd p) \<and> snd p \<noteq> NullRunChainError) v3_error_code_map))"
    unfolding rest by (simp add: unbuildable_codes_def is_subclass_def)
  then show "code \<in> set unbuildable_codes" "is_subclass cls NullRunBlockedException"
    using row by (auto simp only: list_all_iff fst_conv snd_conv dest: bspec)
qed

lemma unbuildable_class:
  "code_class ''APPROVAL_DB_UNAVAILABLE'' = Some NullRunApprovalDbUnavailableError"
  "code_class ''APPROVAL_PERSISTENCE_FAILED'' = Some NullRunApprovalDbUnavailableError"
  "code_class ''APPROVAL_VALIDATION_FAILED'' = Some NullRunApprovalDbUnavailableError"
  "code_class ''APPROVAL_CONFLICT'' = Some NullRunApprovalDbUnavailableError"
  "code_class ''APPROVAL_NOT_FOUND'' = Some NullRunApprovalDbUnavailableError"
  "code_class ''APPROVAL_CREATE_FAILED'' = Some NullRunApprovalDbUnavailableError"
  "code_class ''APPROVAL_RULES_UNAVAILABLE'' = Some NullRunApprovalDbUnavailableError"
  "code_class ''APPROVAL_DIGEST_RECOMPUTE_FAILED'' = Some NullRunApprovalDbUnavailableError"
  "code_class ''APPROVAL_ALREADY_DECIDED'' = Some NullRunApprovalReplayRejectedError"
  "code_class ''MCP_DESTRUCTIVE_BLOCKED'' = Some NullRunMcpDestructiveBlockedError"
  "code_class ''MCP_READONLY_BYPASS_BLOCKED'' = Some NullRunMcpReadonlyBypassBlockedError"
  "code_class ''MCP_APPROVAL_REQUIRED'' = Some NullRunMcpApprovalRequiredError"
  by code_simp+

lemma grant_class:
  "code_class ''APPROVAL_NOT_YET_APPROVED'' = Some NullRunApprovalNotYetApprovedError"
  "code_class ''APPROVAL_DENIED'' = Some NullRunApprovalDeniedError"
  "code_class ''APPROVAL_EXPIRED'' = Some NullRunApprovalExpiredError"
  "code_class ''APPROVAL_DIGEST_MISMATCH'' = Some NullRunApprovalDigestMismatchError"
  "code_class ''APPROVAL_TOOL_DIGEST_MISMATCH'' = Some NullRunApprovalToolDigestMismatchError"
  "code_class ''APPROVAL_REPLAY_REJECTED'' = Some NullRunApprovalReplayRejectedError"
  by code_simp+

lemma unbuildable_rows:
  assumes "code \<in> set unbuildable_codes"
  shows "\<exists>cls. code_class code = Some cls \<and> generic_class cls \<and> cls \<noteq> NullRunChainError
    \<and> is_subclass cls NullRunBlockedException"
  using assms unfolding unbuildable_codes_def
  by (elim list_membership) (simp_all add: unbuildable_class generic_class_def is_subclass_def)

lemma unbuildable_not_early: "list_all (\<lambda>c. c \<notin> set early_codes) unbuildable_codes"
  by (simp add: code_lists)

lemma grant_code_class:
  assumes "code \<in> set approval_grant_codes"
  shows "code_class code = Some (the (code_class code))"
  using assms unfolding approval_grant_codes_def
  by (elim list_membership) (simp_all add: grant_class)

section \<open>The class\<close>

lemma rate_limited_class: "rate_limited t ep r = Inr e \<Longrightarrow> err_class e = RateLimitError"
  by (auto simp: rate_limited_def rate_limit_init_def dest: init_class split: sum.splits)

lemma map_sum_Inr: "map_sum id f x = Inr e \<Longrightarrow> \<exists>e0. x = Inr e0 \<and> e = f e0"
  by (cases x) auto

lemma by_catalog_class:
  assumes "by_catalog rep ep st code det text cls = Inr e"
  shows "err_class e = cls"
  using assms
  by (auto simp: by_catalog_def backend_init_def auth_init_def generic_init_def chain_init_def
        dest!: map_sum_Inr dest: init_class split: if_splits)

lemma by_status_class:
  "by_status rep ep r code message = Inr e \<Longrightarrow> err_class e = status_class (resp_status r)"
  by (auto simp: by_status_def status_class_def Let_def authentication_init_def backend_init_def
        dest: init_class rate_limited_class split: if_splits)

lemma dispatch_class:
  assumes "dispatch_error rep ep r code message det = Inr e"
  shows "err_class e = expected_class code (resp_status r)"
  using assms unfolding dispatch_error_def
  apply (split if_split_asm)
  subgoal by (auto simp: expected_class_def early_code_class dest: init_class)
  apply (split if_split_asm)
  subgoal by (auto simp: expected_class_def early_code_class overbudget_init_def dest: init_class)
  apply (split if_split_asm)
  subgoal by (elim disjE; simp only: expected_class_def early_code_class chain_init_def option.case;
        erule nullrun_init_class)
  apply (split if_split_asm)
  subgoal by (auto simp: expected_class_def early_code_class workflow_inactive_init_def
        dest: init_class)
  apply (split if_split_asm)
  subgoal by (auto simp: expected_class_def early_code_class recheck_init_def dest: init_class)
  apply (split if_split_asm)
  subgoal by (drule grant_code_class)
        (auto simp only: expected_class_def approval_init_def option.case option.sel dest: init_class
          split: option.splits)
  apply (split if_split_asm)
  subgoal by (auto simp: expected_class_def early_code_class dest: init_class)
  apply (split if_split_asm)
  subgoal by (auto simp: expected_class_def early_code_class dest: rate_limited_class)
  apply (cases "code_class code")
  subgoal by (simp only: expected_class_def option.case by_status_class)
  by (simp only: expected_class_def option.case by_catalog_class)

lemma uncategorised_class:
  assumes "parse_v3_error_envelope_uncategorised rep ep r = Inr e"
  shows "err_class e = expected_class (wire_code_of rep r) (resp_status r)"
  using assms
  by (auto simp: parse_v3_error_envelope_uncategorised_def wire_code_of_def split: prod.splits
        dest: dispatch_class)

lemma stamp_class: "err_class (wire_stamp d e) = err_class e"
  by (simp add: wire_stamp_def)

lemma parse_v3_uncategorised:
  assumes "parse_v3_error_envelope rep ep r = Inr e"
  obtains e0 where "parse_v3_error_envelope_uncategorised rep ep r = Inr e0"
    and "e = (case resp_json r of Some (JObj d) \<Rightarrow> wire_stamp d e0 | _ \<Rightarrow> e0)"
  using assms by (auto simp: parse_v3_error_envelope_def dest: map_sum_Inr)

lemma parse_v3_class:
  assumes "parse_v3_error_envelope rep ep r = Inr e"
  shows "err_class e = expected_class (wire_code_of rep r) (resp_status r)"
  by (rule parse_v3_uncategorised [OF assms])
     (auto simp: stamp_class dest!: uncategorised_class split: option.splits json.splits)

section \<open>When the parser raises\<close>

text \<open>What the division of a retry hint raises: it is not a number, or an integer no double can hold.\<close>

fun hint_error :: "json \<Rightarrow> string option" where
  "hint_error (JStr s) = (if s = [] then None else Some ''TypeError'')"
| "hint_error (JList xs) = (if xs = [] then None else Some ''TypeError'')"
| "hint_error (JObj d) = (if d = [] then None else Some ''TypeError'')"
| "hint_error (JEnum v) = Some ''TypeError''"
| "hint_error (JInt i) = (if beyond_float i then Some ''OverflowError'' else None)"
| "hint_error _ = None"

definition parser_raises :: "string \<Rightarrow> int \<Rightarrow> dict \<Rightarrow> json \<Rightarrow> string \<Rightarrow> bool" where
  "parser_raises code status details hint x \<longleftrightarrow>
     x = ''TypeError'' \<and>
       (code \<in> set unbuildable_codes \<or>
        jget details ''cause'' \<noteq> JNull \<and>
          (code_class code = Some NullRunAuthError \<or>
           code_class code = Some NullRunChainError \<and> code \<notin> set chain_codes)) \<or>
     (code = ''RATE_LIMIT_EXCEEDED'' \<or> code_class code = None \<and> status = 429) \<and> hint_error hint = Some x"

lemma beyond_float_zero: "\<not> beyond_float 0"
  by (simp add: beyond_float_def)

lemma retry_after_of_ms_Inl: "retry_after_of_ms j = Inl x \<longleftrightarrow> hint_error j = Some x"
  by (cases j) (auto simp: retry_after_of_ms_def beyond_float_zero)

lemma rate_limited_Inl: "rate_limited t ep r = Inl x \<longleftrightarrow> hint_error (retry_after_ms r) = Some x"
  by (simp add: rate_limited_def rate_limit_init_def transport_init_total
        retry_after_of_ms_Inl [symmetric] split: sum.split)

lemma jget_forwarded: "jget (forwarded d) ''cause'' = jget d ''cause''"
  by (induction d) (auto simp: forwarded_def base_kwargs_def jget_def)

lemma forwarded_kwargs: "list_all (\<lambda>p. fst p \<in> set base_kwargs) (forwarded d)"
  by (simp add: forwarded_def list_all_iff)

lemma nullrun_init_forwarded:
  "nullrun_init cls t a (forwarded d) = Inl x \<longleftrightarrow> x = ''TypeError'' \<and> jget d ''cause'' \<noteq> JNull"
  by (auto simp: nullrun_init_def forwarded_kwargs jget_forwarded)

lemma nullrun_init_plain: "nullrun_init cls t a [] \<noteq> Inl x"
  by (simp add: nullrun_init_def)

lemmas init_total =
  nullrun_init_plain transport_init_total blocked_init_total execution_not_found_total

lemma map_sum_id_Inl: "map_sum id f y = Inl x \<longleftrightarrow> y = Inl x"
  by (cases y) auto

lemma chain_not_blocked:
  "\<not> is_subclass NullRunChainError NullRunBlockedException"
  "\<not> is_subclass NullRunChainError NullRunTransportError"
  by (simp_all add: is_subclass_def)

lemma by_catalog_Inl:
  "by_catalog rep ep st code det text cls = Inl x \<longleftrightarrow>
     x = ''TypeError'' \<and>
     (cls = NullRunAuthError \<and> jget det ''cause'' \<noteq> JNull \<or>
      generic_class cls \<and>
        (is_subclass cls NullRunBlockedException \<or> is_subclass cls NullRunTransportError
         \<or> jget det ''cause'' \<noteq> JNull))"
proof (cases "generic_class cls")
  case True
  then show ?thesis
    by (auto simp: by_catalog_def generic_class_def generic_init_def chain_init_def
          nullrun_init_forwarded chain_not_blocked)
next
  case False
  then show ?thesis
    by (auto simp: by_catalog_def generic_class_def backend_init_def auth_init_def init_total
          nullrun_init_forwarded map_sum_id_Inl)
qed

lemma by_status_Inl:
  "by_status rep ep r code message = Inl x \<longleftrightarrow>
     resp_status r = 429 \<and> hint_error (retry_after_ms r) = Some x"
  by (auto simp: by_status_def Let_def authentication_init_def backend_init_def init_total
        rate_limited_Inl)

lemma dispatch_late:
  assumes "code \<notin> set early_codes"
  shows "dispatch_error rep ep r code message det =
    (case code_class code of
       Some cls \<Rightarrow> by_catalog rep ep (resp_status r) code det (ep @ '': '' @ message) cls
     | None \<Rightarrow> by_status rep ep r code message)"
  using assms unfolding dispatch_error_def early_codes_def chain_codes_def approval_grant_codes_def
  by (simp only: set_simps insert_iff empty_iff append.simps de_Morgan_disj if_False simp_thms)

lemma dispatch_rate:
  "dispatch_error rep ep r ''RATE_LIMIT_EXCEEDED'' message det
   = rate_limited (ep @ '': '' @ message) ep r"
  by (simp add: dispatch_error_def approval_grant_codes_def)

lemma dispatch_early_total:
  assumes "dispatch_error rep ep r code message det = Inl x"
  shows "code = ''RATE_LIMIT_EXCEEDED'' \<or> code \<notin> set early_codes"
  using assms unfolding dispatch_error_def
  apply (split if_split_asm)
  subgoal by (simp only: init_total)
  apply (split if_split_asm)
  subgoal by (simp only: overbudget_init_def init_total)
  apply (split if_split_asm)
  subgoal by (simp only: chain_init_def init_total)
  apply (split if_split_asm)
  subgoal by (simp only: workflow_inactive_init_def init_total)
  apply (split if_split_asm)
  subgoal by (simp only: recheck_init_def init_total)
  apply (split if_split_asm)
  subgoal by (simp only: approval_init_def init_total)
  apply (split if_split_asm)
  subgoal by (simp only: init_total)
  apply (split if_split_asm)
  subgoal by (rule disjI1)
  by (simp only: early_codes_def chain_codes_def set_append set_simps Un_iff insert_iff empty_iff
        de_Morgan_disj simp_thms)

end
