(* ===== verification/Error_Contract.thy ===== *)
theory Error_Contract
  imports Error_Envelope_Laws
begin

text \<open>
  The contract of the error parser: the class of what it builds, when it raises instead, what the
  wire fields on the exception say, and what the two-way split of the class tree into decisions
  and infrastructure failures makes of a response.
\<close>

section \<open>Which exception\<close>

lemma parser_raises_chain_rate:
  "\<not> (code_class ''RATE_LIMIT_EXCEEDED'' = Some NullRunAuthError)"
  "\<not> (code_class ''RATE_LIMIT_EXCEEDED'' = Some NullRunChainError)"
  "''RATE_LIMIT_EXCEEDED'' \<in> set early_codes"
  by (simp_all add: early_code_class early_codes_def)

lemma early_not_unbuildable: "c \<in> set early_codes \<Longrightarrow> c \<notin> set unbuildable_codes"
  using unbuildable_not_early by (auto simp: list_all_iff)

lemma early_auth: "code \<in> set early_codes \<Longrightarrow> code_class code \<noteq> Some NullRunAuthError"
  unfolding early_codes_def chain_codes_def approval_grant_codes_def append.simps
  by (elim list_membership) (simp_all add: early_code_class grant_class)

lemma early_chain:
  "code \<in> set early_codes \<Longrightarrow> code_class code = Some NullRunChainError \<Longrightarrow> code \<in> set chain_codes"
  unfolding early_codes_def chain_codes_def approval_grant_codes_def append.simps
  by (elim list_membership) (simp_all add: early_code_class grant_class)

lemma early_known: "code \<in> set early_codes \<Longrightarrow> code_class code \<noteq> None"
  unfolding early_codes_def chain_codes_def approval_grant_codes_def append.simps
  by (elim list_membership) (simp_all add: early_code_class grant_class)

lemma late_not_chain: "code \<notin> set early_codes \<Longrightarrow> code \<notin> set chain_codes"
  by (simp add: early_codes_def)

lemma chain_class_generic: "generic_class NullRunChainError"
  by (simp add: generic_class_def)

lemma dispatch_raises:
  "dispatch_error rep ep r code message det = Inl x \<longleftrightarrow>
     parser_raises code (resp_status r) det (retry_after_ms r) x"
proof (cases "code \<in> set early_codes")
  case True
  show ?thesis
  proof (cases "code = ''RATE_LIMIT_EXCEEDED''")
    case rate: True
    show ?thesis
      using early_not_unbuildable [OF parser_raises_chain_rate(3)] parser_raises_chain_rate(1,2)
      unfolding rate parser_raises_def dispatch_rate rate_limited_Inl by blast
  next
    case False
    then have "\<not> parser_raises code (resp_status r) det (retry_after_ms r) x"
      using early_not_unbuildable [OF True] early_auth [OF True] early_chain [OF True]
        early_known [OF True]
      unfolding parser_raises_def by blast
    moreover have "dispatch_error rep ep r code message det \<noteq> Inl x"
      using dispatch_early_total [of rep ep r code message det x] True False by blast
    ultimately show ?thesis by blast
  qed
next
  case False
  then have neq: "code \<noteq> ''RATE_LIMIT_EXCEEDED''"
    using parser_raises_chain_rate(3) by blast
  show ?thesis
  proof (cases "code_class code")
    case None
    then have "code \<notin> set unbuildable_codes"
      using unbuildable_rows by fastforce
    then show ?thesis
      unfolding dispatch_late [OF False] None option.case by_status_Inl parser_raises_def
      using neq None by simp
  next
    case (Some cls)
    have unb: "code \<in> set unbuildable_codes \<longleftrightarrow> generic_class cls \<and> cls \<noteq> NullRunChainError"
      using unbuildable_rows [of code] generic_code_unbuildable(1) [OF Some _ _ False] Some by auto
    have blocked: "is_subclass cls NullRunBlockedException"
      if "generic_class cls" "cls \<noteq> NullRunChainError"
      using generic_code_unbuildable(2) [OF Some that False] .
    show ?thesis
      unfolding dispatch_late [OF False] Some option.case by_catalog_Inl parser_raises_def unb
      using neq late_not_chain [OF False] blocked chain_not_blocked chain_class_generic
      by (cases "cls = NullRunChainError") (simp, blast)
  qed
qed

lemma parse_raises_iff:
  "parse_v3_error_envelope rep ep r = Inl x \<longleftrightarrow>
     parser_raises (wire_code_of rep r) (resp_status r) (wire_details_of rep r) (retry_after_ms r) x"
proof -
  obtain code message det where
    env: "extract_error_envelope rep (response_body r) (resp_text r) = (code, message, det)"
    by (metis prod_cases3)
  then show ?thesis
    by (simp add: parse_v3_error_envelope_def map_sum_id_Inl dispatch_raises wire_code_of_def
          parse_v3_error_envelope_uncategorised_def wire_details_of_def)
qed

text \<open>
  C18: the parser raises instead of returning an exception in exactly these cases.  With \<open>TypeError\<close>: the
  wire code is one of the twelve whose catalogue class needs a \<open>reason\<close> the generic call does not pass; or an
  auth code, or a chain code other than the three with a branch of their own, comes with a \<open>cause\<close> that is
  not null in its details; or a rate limit (its code, or no known code and status 429) carries a retry hint
  that is true and not a number.  With \<open>OverflowError\<close>: a rate limit carries an integer hint that no double
  can hold.  In every other case an exception object comes back.
\<close>

theorem parser_failure_exact:
  "parse_v3_error_envelope rep ep r = Inl x \<longleftrightarrow>
     parser_raises (wire_code_of rep r) (resp_status r) (wire_details_of rep r) (retry_after_ms r) x"
  by (rule parse_raises_iff)

lemma huge_hint_raises:
  assumes "wire_code_of rep r = ''RATE_LIMIT_EXCEEDED''" "retry_after_ms r = JInt i" "beyond_float i"
  shows "parse_v3_error_envelope rep ep r = Inl ''OverflowError''"
  using assms by (simp add: parse_raises_iff parser_raises_def)

text \<open>
  the class of the exception is a function of the wire code alone when the table knows the code,
  and of the status otherwise; neither the endpoint nor the shape of the envelope matters.
\<close>

theorem wire_code_decides_class:
  assumes "parse_v3_error_envelope rep ep r = Inr e"
  shows "err_class e =
    (case code_class (wire_code_of rep r) of
       Some cls \<Rightarrow> cls
     | None \<Rightarrow> if resp_status r = 401 \<or> resp_status r = 403 then NullRunAuthenticationError
               else if resp_status r = 429 then RateLimitError else NullRunBackendError)"
  using parse_v3_class [OF assms]
  by (simp add: expected_class_def status_class_def split: option.split)

definition bare_response :: "int \<Rightarrow> dict \<Rightarrow> error_response" where
  "bare_response status body =
     \<lparr>resp_status = status, resp_json = Some (JObj body), resp_retry_after = None, resp_text = []\<rparr>"

lemma bare_response_simps [simp]:
  "resp_status (bare_response s b) = s"
  "resp_json (bare_response s b) = Some (JObj b)"
  "response_body (bare_response s b) = b"
  "resp_retry_after (bare_response s b) = None"
  "resp_text (bare_response s b) = []"
  by (simp_all add: bare_response_def response_body_def)

lemma bare_wire:
  "wire_code_of rep (bare_response s b) = fst (extract_error_envelope rep b [])"
  "wire_details_of rep (bare_response s b) = snd (snd (extract_error_envelope rep b []))"
  "retry_after_ms (bare_response s b) = jget b ''retry_after_ms''"
  by (simp_all add: wire_code_of_def wire_details_of_def retry_after_ms_def)

lemma flat_code:
  "fst (extract_error_envelope rep ((''error_code'', JStr c) # d) raw) = c"
  by (cases c) (simp_all add: extract_error_envelope_def flat_envelope_def py_or_def)

lemma wire_code_decides_class_witness:
  "\<exists>e. parse_v3_error_envelope (\<lambda>j. []) ''gate'' (bare_response 403 [(''error_code'', JStr ''TOOL_BLOCKED'')])
          = Inr e \<and> err_class e = NullRunToolBlockedError"
proof -
  have tool: "code_class ''TOOL_BLOCKED'' = Some NullRunToolBlockedError"
    by (simp add: code_class_def v3_error_code_map_def)
  let ?r = "bare_response 403 [(''error_code'', JStr ''TOOL_BLOCKED'')]"
  have "\<not> parser_raises (wire_code_of (\<lambda>j. []) ?r) (resp_status ?r) (wire_details_of (\<lambda>j. []) ?r) (retry_after_ms ?r) x" for x
    using unbuildable_rows [of "''TOOL_BLOCKED''"]
    by (auto simp: parser_raises_def bare_wire flat_code tool generic_class_def)
  then have "\<And>x. parse_v3_error_envelope (\<lambda>j. []) ''gate'' ?r \<noteq> Inl x"
    by (simp add: parse_raises_iff)
  then obtain e where e: "parse_v3_error_envelope (\<lambda>j. []) ''gate'' ?r = Inr e"
    by (cases "parse_v3_error_envelope (\<lambda>j. []) ''gate'' ?r") auto
  show ?thesis
    using e wire_code_decides_class [OF e] by (simp add: bare_wire flat_code tool)
qed

section \<open>Decisions and infrastructure failures\<close>

lemma table_classes:
  "list_all (\<lambda>p. snd p \<notin> {BreakerError, NullRunError, NullRunDecision, NullRunInfrastructureError,
     BreakerTransportError, InsecureTransportError, WorkflowKilledInterrupt,
     NullRunWorkflowKilledError}) v3_error_code_map"
  by (simp add: v3_error_code_map_def)

lemma class_split:
  "cls \<notin> {BreakerError, NullRunError, BreakerTransportError, InsecureTransportError,
           WorkflowKilledInterrupt, NullRunWorkflowKilledError} \<Longrightarrow>
   is_subclass cls NullRunError \<and>
   (is_subclass cls NullRunDecision \<longleftrightarrow> \<not> is_subclass cls NullRunInfrastructureError)"
  by (cases cls) (simp_all add: is_subclass_def)

lemma status_class_infra:
  "is_subclass (status_class s) NullRunInfrastructureError"
  by (simp add: status_class_def is_subclass_def)

lemma status_class_plain:
  "status_class s \<in> {NullRunAuthenticationError, RateLimitError, NullRunBackendError}"
  by (simp add: status_class_def)

lemma expected_class_split:
  "expected_class code s \<notin> {BreakerError, NullRunError, BreakerTransportError, InsecureTransportError,
           WorkflowKilledInterrupt, NullRunWorkflowKilledError}"
proof (cases "code_class code")
  case None
  then show ?thesis
    using status_class_plain [of s] by (auto simp: expected_class_def)
next
  case (Some cls)
  then show ?thesis
    using bspec [OF table_classes [unfolded list_all_iff] code_class_row [OF Some]]
    by (simp add: expected_class_def)
qed

lemma parsed_class_split:
  assumes "parse_v3_error_envelope rep ep r = Inr e"
  shows "is_subclass (err_class e) NullRunError
    \<and> (is_subclass (err_class e) NullRunDecision
         \<longleftrightarrow> \<not> is_subclass (err_class e) NullRunInfrastructureError)
    \<and> (is_subclass (err_class e) NullRunDecision
         \<longleftrightarrow> (\<exists>cls. code_class (wire_code_of rep r) = Some cls \<and> is_subclass cls NullRunDecision))"
proof -
  have cls: "err_class e = expected_class (wire_code_of rep r) (resp_status r)"
    by (rule parse_v3_class [OF assms])
  have "is_subclass (err_class e) NullRunError"
    and ex: "is_subclass (err_class e) NullRunDecision
      \<longleftrightarrow> \<not> is_subclass (err_class e) NullRunInfrastructureError"
    unfolding cls using class_split [OF expected_class_split] by blast+
  moreover have "is_subclass (err_class e) NullRunDecision
      \<longleftrightarrow> (\<exists>cls. code_class (wire_code_of rep r) = Some cls \<and> is_subclass cls NullRunDecision)"
    using ex status_class_infra unfolding cls
    by (cases "code_class (wire_code_of rep r)") (auto simp: expected_class_def)
  ultimately show ?thesis by blast
qed

text \<open>
  C37: whatever comes back is caught by \<open>except NullRunError\<close> and by exactly one of the two markers
  \<open>NullRunDecision\<close> and \<open>NullRunInfrastructureError\<close>; and it is a decision only when the wire
  named a code of the table whose class is a decision, so an unreadable or unknown answer is never
  reported as a policy outcome.
\<close>

theorem decision_needs_named_code:
  assumes "parse_v3_error_envelope rep ep r = Inr e"
  shows "is_subclass (err_class e) NullRunError
    \<and> (is_subclass (err_class e) NullRunDecision
         \<longleftrightarrow> \<not> is_subclass (err_class e) NullRunInfrastructureError)
    \<and> (is_subclass (err_class e) NullRunDecision
         \<longleftrightarrow> (\<exists>cls. code_class (wire_code_of rep r) = Some cls \<and> is_subclass cls NullRunDecision))"
  using parsed_class_split [OF assms] .

lemma decision_needs_named_code_witness:
  "\<exists>e. parse_v3_error_envelope (\<lambda>j. []) ''gate'' (bare_response 403 []) = Inr e
     \<and> is_subclass (err_class e) NullRunInfrastructureError"
proof -
  let ?r = "bare_response 403 []"
  have code: "code_class [] = None"
    by (simp add: code_class_def v3_error_code_map_def)
  have env: "extract_error_envelope (\<lambda>j. []) [] [] = ([], [], [])"
    by (simp add: extract_error_envelope_def)
  have "\<And>x. parse_v3_error_envelope (\<lambda>j. []) ''gate'' ?r \<noteq> Inl x"
    using unbuildable_rows [of "[]"]
    by (auto simp: parse_raises_iff parser_raises_def bare_wire env code)
  then obtain e where e: "parse_v3_error_envelope (\<lambda>j. []) ''gate'' ?r = Inr e"
    by (cases "parse_v3_error_envelope (\<lambda>j. []) ''gate'' ?r") auto
  show ?thesis
    using e decision_needs_named_code [OF e] by (auto simp: bare_wire env code)
qed

section \<open>The wire fields on the exception\<close>

lemma jget_set [simp]: "jget (dict_set k v d) k' = (if k' = k then v else jget d k')"
  by (simp add: jget_def)

lemma stamp_fields:
  "jget (err_attrs (wire_stamp d e)) ''agent_message'' = jget d ''agent_message''"
  "jget (err_attrs (wire_stamp d e)) ''user_message'' = jget d ''user_message''"
  "jget (err_attrs (wire_stamp d e)) ''wire_error_code'' =
     (case jget d ''details'' of JObj x \<Rightarrow> jget x ''error_code'' | _ \<Rightarrow> jget d ''error_code'')"
  "jget d ''category'' \<noteq> JNull \<Longrightarrow>
     jget (err_attrs (wire_stamp d e)) ''wire_category'' = jget d ''category''"
  by (simp_all add: wire_stamp_def)

text \<open>
  the \<open>agent_message\<close> and \<open>user_message\<close> on the exception are the server's own fields and nothing
  else, and a refusal category is never invented or replaced; but \<open>wire_error_code\<close> is read from the
  \<open>details\<close> object whenever there is one, so an envelope that names its code at the top level and
  has details loses it there, although the class was chosen by that code.
\<close>

theorem top_level_code_lost_on_exception:
  assumes "parse_v3_error_envelope rep ep r = Inr e" "resp_json r = Some (JObj d)"
    and "dict_get d ''error_code'' = Some (JStr c)" "jget d ''details'' = JObj x"
    and "dict_get x ''error_code'' = None"
  shows "jget (err_attrs e) ''wire_error_code'' = JNull
    \<and> err_class e = expected_class c (resp_status r)
    \<and> jget (err_attrs e) ''agent_message'' = jget d ''agent_message''
    \<and> jget (err_attrs e) ''user_message'' = jget d ''user_message''
    \<and> (jget d ''category'' = JNull
         \<or> jget (err_attrs e) ''wire_category'' = jget d ''category'')"
proof -
  obtain e0 where e: "e = wire_stamp d e0"
    by (rule parse_v3_uncategorised [OF assms(1)]) (simp add: assms(2))
  have "d \<noteq> []"
    using assms(3) by auto
  then have "wire_code_of rep r = c"
    using assms(2,3)
    by (cases c) (simp_all add: wire_code_of_def response_body_def extract_error_envelope_def
        flat_envelope_def py_or_def jget_def)
  moreover have "jget x ''error_code'' = JNull"
    by (simp add: jget_def assms(5))
  ultimately show ?thesis
    using parse_v3_class [OF assms(1)] assms(4) stamp_fields(4) [of d e0]
    by (auto simp add: e stamp_fields(1-3))
qed

lemma top_level_code_lost_on_exception_witness:
  "\<exists>e. parse_v3_error_envelope (\<lambda>j. []) ''execute'' (bare_response 403
          [(''error_code'', JStr ''TOOL_BLOCKED''), (''details'', JObj [(''tool_name'', JStr ''rm'')])])
        = Inr e \<and> err_class e = NullRunToolBlockedError
      \<and> jget (err_attrs e) ''wire_error_code'' = JNull"
proof -
  let ?b = "[(''error_code'', JStr ''TOOL_BLOCKED''), (''details'', JObj [(''tool_name'', JStr ''rm'')])]"
  let ?r = "bare_response 403 ?b"
  have tool: "code_class ''TOOL_BLOCKED'' = Some NullRunToolBlockedError"
    by (simp add: code_class_def v3_error_code_map_def)
  have "\<And>x. parse_v3_error_envelope (\<lambda>j. []) ''execute'' ?r \<noteq> Inl x"
    using unbuildable_rows [of "''TOOL_BLOCKED''"]
    by (auto simp: parse_raises_iff parser_raises_def bare_wire flat_code tool generic_class_def)
  then obtain e where e: "parse_v3_error_envelope (\<lambda>j. []) ''execute'' ?r = Inr e"
    by (cases "parse_v3_error_envelope (\<lambda>j. []) ''execute'' ?r") auto
  show ?thesis
    using e top_level_code_lost_on_exception [OF e, of ?b "''TOOL_BLOCKED''" "[(''tool_name'', JStr ''rm'')]"]
    by (simp add: expected_class_def tool)
qed

section \<open>The SDK code on the exception\<close>

lemma dict_get_setdefault:
  "dict_get (dict_setdefault k v d) j =
     (case dict_get d j of Some w \<Rightarrow> Some w | None \<Rightarrow> if j = k then Some v else None)"
  by (auto simp: dict_setdefault_def split: option.split)

lemma forward_extra_get:
  "dict_get (forward_extra skip b d) k =
     (case dict_get d k of Some w \<Rightarrow> Some w | None \<Rightarrow> if k \<in> set skip then None else dict_get b k)"
proof (induction skip b d rule: forward_extra.induct)
  case (2 skip k' v body d)
  then show ?case
    by (cases "k' \<in> set skip") (auto simp: dict_get_setdefault split: option.splits)
qed (auto split: option.split)

lemma jget_forwarded_code: "jget (forwarded d) ''error_code'' = jget d ''error_code''"
  by (induction d) (auto simp: forwarded_def base_kwargs_def jget_def)

text \<open>An envelope with its code at the top level only, and a gate refusal with its code nested.\<close>

definition flat_body :: "dict \<Rightarrow> string \<Rightarrow> bool" where
  "flat_body d c \<longleftrightarrow> dict_get d ''error_code'' = Some (JStr c)
     \<and> dict_get (json_obj (jget d ''details'')) ''error_code'' = None"

definition nested_body :: "dict \<Rightarrow> string \<Rightarrow> bool" where
  "nested_body d c \<longleftrightarrow> dict_get d ''error_code'' = None
     \<and> dict_get (json_obj (jget d ''details'')) ''error_code'' = Some (JStr c)"

lemma flat_body_env:
  assumes "flat_body (response_body r) c"
  shows "wire_code_of rep r = c" "jget (wire_details_of rep r) ''error_code'' = JNull"
proof -
  have "response_body r \<noteq> []"
    using assms by (auto simp: flat_body_def)
  then show "wire_code_of rep r = c" "jget (wire_details_of rep r) ''error_code'' = JNull"
    using assms
    by (cases c; simp add: flat_body_def wire_code_of_def wire_details_of_def jget_def
        extract_error_envelope_def flat_envelope_def py_or_def forward_extra_get flat_keys_def)+
qed

lemma nested_body_env:
  assumes "nested_body (response_body r) c"
  shows "wire_code_of rep r = c" "jget (wire_details_of rep r) ''error_code'' = JStr c"
proof -
  have "response_body r \<noteq> []"
    using assms by (auto simp: nested_body_def json_obj_def)
  then show "wire_code_of rep r = c" "jget (wire_details_of rep r) ''error_code'' = JStr c"
    using assms
    by (cases c; simp add: nested_body_def wire_code_of_def wire_details_of_def jget_def
        extract_error_envelope_def refusal_envelope_def py_or_def forward_extra_get)+
qed

definition code_forwarding_class :: "exc_class \<Rightarrow> bool" where
  "code_forwarding_class cls \<longleftrightarrow>
     cls = NullRunAuthError \<or> cls = NullRunToolBlockedError \<or> cls = NullRunBlockedException"

lemma early_not_forwarding:
  "code \<in> set early_codes \<Longrightarrow> code_class code = Some cls \<Longrightarrow> \<not> code_forwarding_class cls"
  unfolding early_codes_def chain_codes_def approval_grant_codes_def append.simps
  by (elim list_membership) (auto simp: early_code_class grant_class code_forwarding_class_def)

lemma by_catalog_code:
  assumes "by_catalog rep ep st code det text cls = Inr e" "code_forwarding_class cls"
  shows "err_code e =
    (if cls = NullRunAuthError then override (forwarded det) ''error_code'' (JStr (class_code cls))
     else py_or (jget det ''error_code'') (JStr (class_code cls)))"
  using assms
  by (auto simp: by_catalog_def code_forwarding_class_def auth_init_def blocked_init_def
        nullrun_init_def override_def jget_forwarded_code py_or_def
        dest!: map_sum_Inr split: if_splits)

lemma forwarding_error_code:
  assumes "parse_v3_error_envelope rep ep r = Inr e"
    and "code_class (wire_code_of rep r) = Some cls" "code_forwarding_class cls"
  shows "err_code e =
    (if cls = NullRunAuthError
     then override (forwarded (wire_details_of rep r)) ''error_code'' (JStr (class_code cls))
     else py_or (jget (wire_details_of rep r) ''error_code'') (JStr (class_code cls)))"
proof -
  obtain code message det where
    env: "extract_error_envelope rep (response_body r) (resp_text r) = (code, message, det)"
    by (metis prod_cases3)
  then have wire: "wire_code_of rep r = code" "wire_details_of rep r = det"
    by (simp_all add: wire_code_of_def wire_details_of_def)
  have late: "code \<notin> set early_codes"
    using early_not_forwarding assms(2,3) unfolding wire by blast
  obtain e0 where e0: "parse_v3_error_envelope_uncategorised rep ep r = Inr e0"
    and same: "err_code e = err_code e0"
    by (rule parse_v3_uncategorised [OF assms(1)])
       (auto simp: wire_stamp_def split: option.splits json.splits)
  have "by_catalog rep ep (resp_status r) code det (ep @ '': '' @ message) cls = Inr e0"
    using e0 assms(2) dispatch_late [OF late, of rep ep r message det]
    by (simp add: parse_v3_error_envelope_uncategorised_def env wire)
  from by_catalog_code [OF this assms(3)] show ?thesis
    by (simp add: same wire)
qed

text \<open>
  for key errors, tool blocks and plain blocks the \<open>error_code\<close> of the exception is the SDK's own
  (\<open>NR-A003\<close>, \<open>NR-T001\<close>, \<open>NR-X001\<close>) when the envelope names its code at the top level, and the wire
  code itself when the code is nested in \<open>details\<close>, the shape of every gate refusal: the nested
  field is forwarded as the \<open>error_code\<close> keyword and replaces the taxonomy.
\<close>

theorem nested_code_replaces_sdk_code:
  assumes "parse_v3_error_envelope rep ep r = Inr e"
    and "code_class c = Some cls" "code_forwarding_class cls" "c \<noteq> []"
    and "flat_body (response_body r) c \<or> nested_body (response_body r) c"
  shows "err_class e = cls
    \<and> err_code e = (if nested_body (response_body r) c then JStr c else JStr (class_code cls))"
proof (cases "nested_body (response_body r) c")
  case True
  note wire = nested_body_env [OF True]
  have "override (forwarded (wire_details_of rep r)) ''error_code'' j = JStr c" for j
    by (simp add: override_def jget_forwarded_code wire)
  then show ?thesis
    using forwarding_error_code [OF assms(1), of cls] parse_v3_class [OF assms(1)] assms(2-4) True
    by (simp add: wire expected_class_def py_or_def)
next
  case False
  then have flat: "flat_body (response_body r) c"
    using assms(5) by simp
  note wire = flat_body_env [OF flat]
  have "override (forwarded (wire_details_of rep r)) ''error_code'' j = j" for j
    by (simp add: override_def jget_forwarded_code wire)
  then show ?thesis
    using forwarding_error_code [OF assms(1), of cls] parse_v3_class [OF assms(1)] assms(2-4) False
    by (simp add: wire expected_class_def py_or_def)
qed

lemma nested_code_replaces_sdk_code_witness:
  "\<exists>e. parse_v3_error_envelope (\<lambda>j. []) ''execute'' (bare_response 403
          [(''decision'', JStr ''block''), (''details'', JObj [(''error_code'', JStr ''TOOL_BLOCKED'')])])
        = Inr e \<and> err_class e = NullRunToolBlockedError \<and> err_code e = JStr ''TOOL_BLOCKED''"
proof -
  let ?b = "[(''decision'', JStr ''block''), (''details'', JObj [(''error_code'', JStr ''TOOL_BLOCKED'')])]"
  let ?r = "bare_response 403 ?b"
  have tool: "code_class ''TOOL_BLOCKED'' = Some NullRunToolBlockedError"
    by (simp add: code_class_def v3_error_code_map_def)
  have nested: "nested_body (response_body ?r) ''TOOL_BLOCKED''"
    by (simp add: nested_body_def json_obj_def)
  have "\<And>x. parse_v3_error_envelope (\<lambda>j. []) ''execute'' ?r \<noteq> Inl x"
    using unbuildable_rows [of "''TOOL_BLOCKED''"] nested_body_env(1) [OF nested]
    by (auto simp: parse_raises_iff parser_raises_def tool generic_class_def)
  then obtain e where e: "parse_v3_error_envelope (\<lambda>j. []) ''execute'' ?r = Inr e"
    by (cases "parse_v3_error_envelope (\<lambda>j. []) ''execute'' ?r") auto
  show ?thesis
    using e nested nested_code_replaces_sdk_code [OF e tool]
    by (simp add: code_forwarding_class_def)
qed

end
