(* ===== verification/Edge.thy ===== *)
theory Edge
  imports Retry Sdk_Errors Refusal_Category
begin

text \<open>
  Via-edge enforcement (\<open>src/nullrun/edge.py\<close>): the token counts a call is reported with, the
  request to the box with its retries, and the gate-shaped answer.  The explanation and suggestion
  texts of the answers are not modelled.  What the HTTP client, the clock and a caller's callback do
  are functions of an environment on an opaque world.
\<close>

section \<open>Exceptions and handlers shared by the two gates\<close>

datatype gate_exn =
    SdkErr sdk_error
  | UnclassifiedRefusal unclassified
  | PyError string

text \<open>\<open>on_transport_error\<close>: nothing, one of the policy words, or a callable.\<close>

datatype 'w handler =
    NoHandler
  | Policy string
  | Callback "string \<Rightarrow> 'w \<Rightarrow> (gate_exn + json) \<times> 'w"

fun is_raise :: "'w handler \<Rightarrow> bool" where
  "is_raise (Policy p) = (p = ''raise'')"
| "is_raise _ = False"

section \<open>Python's int()\<close>

fun digits_value :: "int \<Rightarrow> string \<Rightarrow> int option" where
  "digits_value acc [] = Some acc"
| "digits_value acc (c # cs) =
     (let n = (of_char c :: int) in
      if 48 \<le> n \<and> n \<le> 57 then digits_value (10 * acc + (n - 48)) cs else None)"

definition is_space :: "char \<Rightarrow> bool" where
  "is_space c \<longleftrightarrow> (of_char c :: nat) \<in> {9, 10, 11, 12, 13, 28, 29, 30, 31, 32}"

definition strip :: "string \<Rightarrow> string" where
  "strip s = rev (dropWhile is_space (rev (dropWhile is_space s)))"

definition parse_int :: "string \<Rightarrow> int option" where
  "parse_int s =
     (case strip s of
        [] \<Rightarrow> None
      | c # cs \<Rightarrow>
          if c = CHR ''-'' then (if cs = [] then None else map_option uminus (digits_value 0 cs))
          else if c = CHR ''+'' then (if cs = [] then None else digits_value 0 cs)
          else digits_value 0 (c # cs))"

text \<open>\<open>int(x)\<close> of a JSON value; digit groups joined by underscores are not read.\<close>

definition py_int :: "json \<Rightarrow> string + int" where
  "py_int j =
     (case j of
        JInt i \<Rightarrow> Inr i
      | JBool b \<Rightarrow> Inr (if b then 1 else 0)
      | JFloat r \<Rightarrow> Inr (if 0 \<le> r then \<lfloor>r\<rfloor> else - \<lfloor>- r\<rfloor>)
      | JStr s \<Rightarrow> (case parse_int s of Some i \<Rightarrow> Inr i | None \<Rightarrow> Inl ''ValueError'')
      | _ \<Rightarrow> Inl ''TypeError'')"

section \<open>The reported token counts\<close>

definition edge_output_json :: "dict \<Rightarrow> json" where
  "edge_output_json req =
     (if jget req ''edge_output_tokens'' \<noteq> JNull then jget req ''edge_output_tokens''
      else if jget req ''max_output_tokens'' \<noteq> JNull then jget req ''max_output_tokens''
      else py_or (jget req ''estimated_tokens'') (JInt 0))"

definition token_split :: "dict \<Rightarrow> string + int \<times> int" where
  "token_split req =
     (case py_int (py_or (jget req ''edge_input_tokens'') (JInt 0)) of
        Inl x \<Rightarrow> Inl x
      | Inr i \<Rightarrow>
          (case py_int (edge_output_json req) of
             Inl x \<Rightarrow> Inl x
           | Inr n \<Rightarrow> Inr (i, n)))"

section \<open>Asking the box\<close>

record edge_box =
  lease_id :: string
  edge_max_retries :: int
  last_source :: "string option"

record 'w edge_env =
  ee_post :: "dict \<Rightarrow> 'w \<Rightarrow> (string + http_response) \<times> 'w"
  ee_sleep :: "rat \<Rightarrow> 'w \<Rightarrow> 'w"
  ee_uuid :: "'w \<Rightarrow> string \<times> 'w"

definition edge_lease :: string where "edge_lease = ''edge_lease''"

text \<open>
  \<open>_post\<close>: the attempts left count down from \<open>max_retries + 1\<close>; with no attempt at all the
  assertion after the loop fails.
\<close>

fun edge_post_loop ::
  "nat \<Rightarrow> 'w edge_env \<Rightarrow> int \<Rightarrow> dict \<Rightarrow> nat \<Rightarrow> string option \<Rightarrow> 'w \<Rightarrow> (string + http_response) \<times> 'w"
where
  "edge_post_loop 0 E retries body attempt err w =
     (Inl (case err of None \<Rightarrow> ''AssertionError'' | Some x \<Rightarrow> x), w)"
| "edge_post_loop (Suc left) E retries body attempt err w =
     (case ee_post E body w of
        (Inr r, w1) \<Rightarrow> (Inr r, w1)
      | (Inl x, w1) \<Rightarrow>
          edge_post_loop left E retries body (Suc attempt) (Some x)
            (if int attempt < retries then ee_sleep E (1 / 5 * 2 ^ attempt) w1 else w1))"

definition edge_post :: "'w edge_env \<Rightarrow> edge_box \<Rightarrow> dict \<Rightarrow> 'w \<Rightarrow> (string + http_response) \<times> 'w" where
  "edge_post E b body w =
     edge_post_loop (nat (edge_max_retries b + 1)) E (edge_max_retries b) body 0 None w"

text \<open>\<open>_unreachable\<close>: the callback is told, whatever it returns or raises, and the call is refused.\<close>

definition edge_unreachable :: "string \<Rightarrow> 'w handler \<Rightarrow> 'w \<Rightarrow> json \<times> 'w" where
  "edge_unreachable exc h w =
     (JObj [(''decision'', JStr ''block''), (''decision_source'', JStr ''fallback''),
            (''error_code'', JStr ''EDGE_UNREACHABLE''), (''edge_error_code'', JNull)],
      (case h of Callback f \<Rightarrow> snd (f exc w) | _ \<Rightarrow> w))"

definition edge_grant :: "edge_box \<Rightarrow> dict \<Rightarrow> json" where
  "edge_grant b payload =
     JObj [(''decision'', JStr ''allow''), (''decision_source'', JStr edge_lease),
           (''reservation_id'', py_or (jget payload ''lease_id'') (JStr (lease_id b))),
           (''granted_millicents'', jget payload ''granted_millicents''),
           (''spent_millicents'', jget payload ''spent_millicents''),
           (''remaining_millicents'', jget payload ''remaining_millicents''),
           (''edge_error_code'', JNull)]"

definition edge_refusal :: "dict \<Rightarrow> json" where
  "edge_refusal payload =
     (let code = py_or (jget payload ''error_code'') (JStr ''EDGE_DENIED'') in
      JObj [(''decision'', JStr ''block''), (''decision_source'', JStr edge_lease),
            (''error_code'', code), (''edge_error_code'', code)])"

text \<open>What the box's answer comes to: an answer on the lease, or the class of a transport failure.\<close>

definition edge_reading :: "http_response \<Rightarrow> string + dict" where
  "edge_reading r =
     (if resp_status r \<ge> 500 then Inl ''RuntimeError''
      else
        (case resp_json r of
           Some (JObj d) \<Rightarrow> Inr d
         | _ \<Rightarrow> Inl ''ValueError''))"

definition edge_body :: "edge_box \<Rightarrow> string \<Rightarrow> int \<Rightarrow> int \<Rightarrow> json \<Rightarrow> dict" where
  "edge_body b model i n event =
     [(''lease_id'', JStr (lease_id b)), (''model'', JStr model), (''input_tokens'', JInt i),
      (''output_tokens'', JInt n), (''event_id'', event)]"

definition edge_enforce ::
  "'w edge_env \<Rightarrow> edge_box \<Rightarrow> string \<Rightarrow> int \<Rightarrow> int \<Rightarrow> json \<Rightarrow> 'w handler \<Rightarrow> 'w
     \<Rightarrow> json \<times> edge_box \<times> 'w" where
  "edge_enforce E b model i n event h w =
     (case (if truthy event then (event, w) else apfst JStr (ee_uuid E w)) of
        (ev, w0) \<Rightarrow>
          (case edge_post E b (edge_body b model i n ev) w0 of
             (Inl x, w1) \<Rightarrow> (case edge_unreachable x h w1 of (j, w2) \<Rightarrow> (j, b, w2))
           | (Inr r, w1) \<Rightarrow>
               (case edge_reading r of
                  Inl x \<Rightarrow> (case edge_unreachable x h w1 of (j, w2) \<Rightarrow> (j, b, w2))
                | Inr d \<Rightarrow>
                    ((if jget d ''allowed'' = JBool True then edge_grant b d else edge_refusal d),
                     b\<lparr>last_source := Some edge_lease\<rparr>, w1))))"

section \<open>Configuration\<close>

datatype edge_setup =
    NoEdge
  | EdgeMisconfigured string
  | EdgeOn string edge_box rat

text \<open>\<open>float_of\<close> reads a stripped text as Python's \<open>float\<close> does.\<close>

definition env_text :: "(string \<Rightarrow> string option) \<Rightarrow> string \<Rightarrow> string" where
  "env_text env name = (case env name of None \<Rightarrow> [] | Some s \<Rightarrow> strip s)"

definition float_env ::
  "(string \<Rightarrow> rat option) \<Rightarrow> (string \<Rightarrow> string option) \<Rightarrow> string \<Rightarrow> rat \<Rightarrow> rat" where
  "float_env float_of env name dflt =
     (let raw = env_text env name in
      if raw = [] then dflt
      else (case float_of raw of
              None \<Rightarrow> dflt
            | Some v \<Rightarrow> if v \<le> 0 then dflt else v))"

definition int_env :: "(string \<Rightarrow> string option) \<Rightarrow> string \<Rightarrow> int \<Rightarrow> int" where
  "int_env env name dflt =
     (let raw = env_text env name in
      if raw = [] then dflt
      else (case parse_int raw of None \<Rightarrow> dflt | Some v \<Rightarrow> max 0 v))"

definition default_edge_timeout :: rat where "default_edge_timeout = 2"

definition edge_transport_from_env ::
  "(string \<Rightarrow> rat option) \<Rightarrow> (string \<Rightarrow> string option) \<Rightarrow> edge_setup" where
  "edge_transport_from_env float_of env =
     (if env_text env ''NULLRUN_EDGE_URL'' = [] then NoEdge
      else if env_text env ''NULLRUN_EDGE_LEASE_ID'' = [] then EdgeMisconfigured ''NULLRUN_EDGE_LEASE_ID''
      else if env_text env ''NULLRUN_EDGE_TOKEN'' = [] then EdgeMisconfigured ''NULLRUN_EDGE_TOKEN''
      else if env_text env ''NULLRUN_API_KEY'' = [] then EdgeMisconfigured ''NULLRUN_API_KEY''
      else EdgeOn (env_text env ''NULLRUN_EDGE_URL'')
             \<lparr>lease_id = env_text env ''NULLRUN_EDGE_LEASE_ID'',
              edge_max_retries = int_env env ''NULLRUN_EDGE_MAX_RETRIES'' 2, last_source = None\<rparr>
             (float_env float_of env ''NULLRUN_EDGE_TIMEOUT_SECONDS'' default_edge_timeout))"

section \<open>Laws\<close>

lemma edge_post_answer:
  "edge_post_loop n E k body a err w = (Inr r, w') \<Longrightarrow> \<exists>v. fst (ee_post E body v) = Inr r"
proof (induction n E k body a err w rule: edge_post_loop.induct)
  case (2 left E k body a err w)
  obtain res w1 where p: "ee_post E body w = (res, w1)"
    by fastforce
  show ?case
  proof (cases res)
    case (Inl x)
    with 2(2) p show ?thesis
      by (intro 2(1) [OF p [symmetric] Inl]) simp
  next
    case (Inr r')
    with 2(2) p show ?thesis
      by (intro exI [of _ w]) simp
  qed
qed simp

lemma edge_enforce_cases:
  obtains (unreachable) "fst (edge_enforce E b model i n event h w) =
      JObj [(''decision'', JStr ''block''), (''decision_source'', JStr ''fallback''),
            (''error_code'', JStr ''EDGE_UNREACHABLE''), (''edge_error_code'', JNull)]"
      "fst (snd (edge_enforce E b model i n event h w)) = b"
  | (answer) ev v r d where "fst (ee_post E (edge_body b model i n ev) v) = Inr r" "edge_reading r = Inr d"
      "fst (edge_enforce E b model i n event h w)
         = (if jget d ''allowed'' = JBool True then edge_grant b d else edge_refusal d)"
      "fst (snd (edge_enforce E b model i n event h w)) = b\<lparr>last_source := Some edge_lease\<rparr>"
      "\<not> truthy event \<or> ev = event"
proof -
  obtain ev w0 where ev: "(if truthy event then (event, w) else apfst JStr (ee_uuid E w)) = (ev, w0)"
    by fastforce
  obtain res w1 where post: "edge_post E b (edge_body b model i n ev) w0 = (res, w1)"
    by fastforce
  show thesis
  proof (cases res)
    case (Inl x)
    then show thesis
      using ev post by (intro unreachable) (simp_all add: edge_enforce_def edge_unreachable_def)
  next
    case (Inr r)
    show thesis
    proof (cases "edge_reading r")
      case (Inl x)
      then show thesis
        using ev post Inr by (intro unreachable) (simp_all add: edge_enforce_def edge_unreachable_def)
    next
      case reading: (Inr d)
      have "edge_post_loop (nat (edge_max_retries b + 1)) E (edge_max_retries b)
          (edge_body b model i n ev) 0 None w0 = (Inr r, w1)"
        using post Inr by (simp add: edge_post_def)
      from edge_post_answer [OF this]
      obtain v where "fst (ee_post E (edge_body b model i n ev) v) = Inr r" ..
      then show thesis
        using ev post Inr reading by (intro answer [of ev v r d])
          (auto simp: edge_enforce_def split: if_splits)
    qed
  qed
qed

lemma edge_reading_iff:
  "edge_reading r = Inr d \<longleftrightarrow> resp_status r < 500 \<and> resp_json r = Some (JObj d)"
  by (auto simp: edge_reading_def split: option.splits json.splits)

lemma edge_answers_object: "\<exists>d. fst (edge_enforce E b model i n event h w) = JObj d"
  by (rule edge_enforce_cases [of E b model i n event h w])
     (auto simp: edge_grant_def edge_refusal_def Let_def)

text \<open>
  C38: via-edge enforcement never falls open.  Whatever the box, the network and the caller's callback
  do, the answer is a gate-shaped object, and it is anything but a block only when the box itself
  answered, below 500, with a JSON object whose \<open>allowed\<close> is the literal \<open>true\<close>; the question
  it answered carried this lease, these token counts and the caller's event id on every attempt, and
  the answer is marked as coming from the lease.
\<close>

theorem edge_never_falls_open:
  assumes "fst (edge_enforce E b model i n event h w) = JObj answer"
    and "jget answer ''decision'' \<noteq> JStr ''block''"
  shows "jget answer ''decision'' = JStr ''allow'' \<and> jget answer ''decision_source'' = JStr edge_lease
    \<and> (\<exists>ev v r d. fst (ee_post E (edge_body b model i n ev) v) = Inr r
         \<and> resp_status r < 500 \<and> resp_json r = Some (JObj d) \<and> jget d ''allowed'' = JBool True
         \<and> (\<not> truthy event \<or> ev = event))"
  using edge_enforce_cases [of E b model i n event h w]
proof cases
  case unreachable
  with assms show ?thesis by auto
next
  case (answer ev v r d)
  with assms have granted: "jget d ''allowed'' = JBool True"
    by (auto simp: edge_refusal_def Let_def split: if_splits)
  with answer assms show ?thesis
    by (auto simp: edge_grant_def edge_reading_iff intro!: exI [of _ ev] exI [of _ v])
qed

definition granting_box :: "(nat) edge_env" where
  "granting_box =
     \<lparr>ee_post = (\<lambda>body n. (if n = 0 then Inl ''ConnectError''
                  else Inr \<lparr>resp_status = 200, resp_json = Some (JObj [(''allowed'', JBool True)]),
                            resp_retry_after = None\<rparr>, Suc n)),
      ee_sleep = (\<lambda>d n. n), ee_uuid = (\<lambda>n. (''u'', n))\<rparr>"

definition sample_box :: edge_box where
  "sample_box = \<lparr>lease_id = ''lease-1'', edge_max_retries = 2, last_source = None\<rparr>"

lemma granting_box_answer:
  "fst (edge_enforce granting_box sample_box ''gpt'' 10 20 (JStr ''op'') NoHandler 0)
   = JObj [(''decision'', JStr ''allow''), (''decision_source'', JStr edge_lease),
           (''reservation_id'', JStr ''lease-1''), (''granted_millicents'', JNull),
           (''spent_millicents'', JNull), (''remaining_millicents'', JNull),
           (''edge_error_code'', JNull)]"
  by (simp add: edge_enforce_def edge_post_def granting_box_def sample_box_def eval_nat_numeral
        edge_reading_def edge_grant_def py_or_def)

lemma edge_never_falls_open_witness:
  "\<exists>ev v r d. fst (ee_post granting_box (edge_body sample_box ''gpt'' 10 20 ev) v) = Inr r
     \<and> resp_status r < 500 \<and> resp_json r = Some (JObj d) \<and> jget d ''allowed'' = JBool True"
  using edge_never_falls_open [OF granting_box_answer] by auto

end
