(* ===== verification/Gate.thy ===== *)
theory Gate
  imports Edge Error_Envelope
begin

text \<open>
  The enforcement calls of the transport (\<open>src/nullrun/transport.py\<close>): \<open>check\<close> asks \<open>/gate\<close> before a
  call, \<open>execute\<close> asks \<open>/execute\<close> for the policy decision.  Both go through the retry helper and turn
  every answer, refusal and failure into a decision dictionary or an exception.  The retry helper
  returns a response or ends in \<open>BreakerTransportError\<close>, so the handlers for a raw
  \<open>httpx.RequestError\<close> are not reachable and have no counterpart.
\<close>

section \<open>Sources of a decision\<close>

definition src_gateway :: string where "src_gateway = ''gateway''"
definition src_fallback :: string where "src_fallback = ''fallback''"

definition is_fallback_decision_source :: "json \<Rightarrow> bool" where
  "is_fallback_decision_source source =
     (case source of
        JStr s \<Rightarrow> s = src_fallback \<or>
                  s \<in> set (map source_value [NETWORK_ERROR, GATEWAY_ERROR, BREAKER_OPEN])
      | _ \<Rightarrow> False)"

section \<open>The environment\<close>

text \<open>
  \<open>g_post path body\<close> is the signed POST: a response, or the class of the exception \<open>httpx\<close> raised.
  \<open>g_text\<close> is \<open>response.text\<close> and \<open>g_repr\<close> Python's \<open>repr\<close> of a JSON value.
\<close>

record 'w gate_env =
  g_post :: "string \<Rightarrow> dict \<Rightarrow> 'w \<Rightarrow> (string + http_response) \<times> 'w"
  g_random :: "'w \<Rightarrow> rat \<times> 'w"
  g_now :: "'w \<Rightarrow> rat \<times> 'w"
  g_sleep :: "rat \<Rightarrow> 'w \<Rightarrow> bool \<times> 'w"
  g_inc :: "string \<Rightarrow> 'w \<Rightarrow> 'w"
  g_uuid :: "'w \<Rightarrow> string \<times> 'w"
  g_text :: "http_response \<Rightarrow> string"
  g_repr :: "json \<Rightarrow> string"
  g_execute_retries :: int
  g_ceiling :: rat

definition gate_retry_env :: "'w gate_env \<Rightarrow> string \<Rightarrow> dict \<Rightarrow> (sdk_error, 'w) retry_env" where
  "gate_retry_env G path body =
     \<lparr>re_call = (\<lambda>w. case g_post G path body w of
                        (Inl cls, w') \<Rightarrow> (Inl (OtherFault cls), w')
                      | (Inr r, w') \<Rightarrow> (Inr r, w')),
      re_random = g_random G, re_now = g_now G, re_sleep = g_sleep G, re_inc = g_inc G\<rparr>"

definition execute_cfg :: "'w gate_env \<Rightarrow> 'w handler \<Rightarrow> retry_cfg" where
  "execute_cfg G h =
     \<lparr>max_retries = g_execute_retries G, base_delay = 1 / 2, max_delay = 30, backoff_factor = 2,
      jitter = 1 / 10, last_retry_after = 0, raise_on_5xx = is_raise h, retry_on_5xx = False,
      retry_after_ceiling = g_ceiling G\<rparr>"

definition check_cfg :: "'w gate_env \<Rightarrow> 'w handler \<Rightarrow> retry_cfg" where
  "check_cfg G h =
     \<lparr>max_retries = 3, base_delay = 1 / 2, max_delay = 10, backoff_factor = 2,
      jitter = 1 / 10, last_retry_after = 0, raise_on_5xx = is_raise h, retry_on_5xx = True,
      retry_after_ceiling = g_ceiling G\<rparr>"

definition with_text :: "'w gate_env \<Rightarrow> http_response \<Rightarrow> error_response" where
  "with_text G r = http_response.extend r \<lparr>resp_text = g_text G r\<rparr>"

text \<open>The exceptions the retry helper builds itself.\<close>

definition built :: "construction \<Rightarrow> gate_exn" where
  "built c = (case c of Inl cls \<Rightarrow> PyError cls | Inr e \<Rightarrow> SdkErr e)"

definition auth_rejected :: gate_exn where
  "auth_rejected = built (auth_init ''Invalid API key'' [] [(''error_code'', JStr ''NR-A003'')])"

definition backend_5xx :: "int \<Rightarrow> gate_exn" where
  "backend_5xx n = built (backend_init NullRunBackendError (''Gateway returned '' @ show_int n) ''execute'' n [])"

definition unreachable_error :: "string \<Rightarrow> string \<Rightarrow> gate_exn" where
  "unreachable_error text endpoint =
     built (transport_init NullRunTransportError text NETWORK_ERROR endpoint [] [])"

text \<open>The text of the \<open>BreakerTransportError\<close> after \<open>n\<close> retries.\<close>

definition exhausted_text :: "int \<Rightarrow> string" where
  "exhausted_text n =
     ''Transport error: Request failed after '' @ show_int (n + 1)
     @ '' attempts (events_lost=0, buffer_size=0, details={})''"

section \<open>/execute\<close>

definition put_given :: "string \<Rightarrow> json \<Rightarrow> dict \<Rightarrow> dict" where
  "put_given k v d = (if v = JNull then d else dict_set k v d)"

record execute_args =
  ex_organization_id :: json
  ex_execution_id :: json
  ex_trace_id :: json
  ex_tool :: json
  ex_input :: json
  ex_mode :: json
  ex_operation_id :: json
  ex_approval_id :: json
  ex_business_impact :: json
  ex_action_digest :: json
  ex_tool_arguments :: json
  ex_tools :: json

definition execute_request :: "string \<Rightarrow> execute_args \<Rightarrow> dict" where
  "execute_request fresh a =
     put_given ''tools'' (ex_tools a)
       (put_given ''tool_arguments'' (ex_tool_arguments a)
         (put_given ''action_digest'' (ex_action_digest a)
           (put_given ''business_impact'' (ex_business_impact a)
             (put_given ''approval_id'' (ex_approval_id a)
               [(''organization_id'', ex_organization_id a), (''execution_id'', ex_execution_id a),
                (''trace_id'', ex_trace_id a), (''tool'', ex_tool a), (''input'', ex_input a),
                (''mode'', ex_mode a),
                (''operation_id'', py_or (ex_operation_id a) (JStr fresh))]))))"

definition synthetic :: "string \<Rightarrow> string \<Rightarrow> string \<Rightarrow> string \<times> json \<Rightarrow> json" where
  "synthetic decision source explanation policy =
     JObj [(''decision'', JStr decision), (''decision_source'', JStr source),
           (''explanation'', JStr explanation), policy]"

text \<open>
  Counting the typed refusals: the order of the \<open>except\<close> arms decides which counter moves.  Every
  arm re-raises.
\<close>

definition execute_counter :: "exc_class \<Rightarrow> string option" where
  "execute_counter c =
     (if is_subclass c NullRunApprovalReplayRejectedError then Some ''execute_block_replay_rejected''
      else if is_subclass c NullRunBlockedException then Some ''execute_block_typed''
      else if is_subclass c NullRunBackendError then None
      else if is_subclass c NullRunAuthenticationError then None
      else if is_subclass c NullRunTransportError then None
      else if is_subclass c NullRunDecision then Some ''execute_block_decision_typed''
      else if is_subclass c NullRunInfrastructureError then Some ''execute_block_infra_typed''
      else None)"

definition count_on :: "'w gate_env \<Rightarrow> string option \<Rightarrow> 'w \<Rightarrow> 'w" where
  "count_on G name w = (case name of None \<Rightarrow> w | Some k \<Rightarrow> g_inc G k w)"

definition execute_refused :: "'w gate_env \<Rightarrow> http_response \<Rightarrow> 'w \<Rightarrow> (gate_exn + json) \<times> 'w" where
  "execute_refused G r w =
     (case parse_v3_error_envelope (g_repr G) ''execute'' (with_text G r) of
        Inr e \<Rightarrow> (Inl (SdkErr e), count_on G (execute_counter (err_class e)) w)
      | Inl _ \<Rightarrow>
          (Inr (synthetic ''block'' src_fallback (''Gateway returned '' @ show_int (resp_status r))
                  (''policy_hash'', JNull)), w))"

definition execute_fallback :: "'w gate_env \<Rightarrow> string \<Rightarrow> 'w \<Rightarrow> (gate_exn + json) \<times> 'w" where
  "execute_fallback G mode w =
     (Inr (if mode = ''strict''
           then synthetic ''block'' src_fallback ''Gateway unavailable, fallback=STRICT''
                  (''policy_version'', JInt 0)
           else synthetic ''allow'' src_fallback ''Gateway unavailable, fallback=PERMISSIVE''
                  (''policy_version'', JInt 0)),
      g_inc G ''fallback_mode_activations'' w)"

definition execute_exhausted ::
  "'w gate_env \<Rightarrow> 'w handler \<Rightarrow> string \<Rightarrow> 'w \<Rightarrow> (gate_exn + json) \<times> 'w" where
  "execute_exhausted G h mode w =
     (let text = exhausted_text (g_execute_retries G) in
      case h of
        Callback f \<Rightarrow> f text w
      | NoHandler \<Rightarrow> execute_fallback G mode w
      | Policy p \<Rightarrow>
          (if p = ''raise''
             then (Inl (unreachable_error (''Gateway unreachable on /execute: '' @ text) ''execute''), w)
           else if p = ''open''
             then (Inr (synthetic ''allow'' (source_value NETWORK_ERROR)
                          (''Gateway unreachable: '' @ text) (''policy_hash'', JNull)), w)
           else if p = ''closed''
             then (Inr (synthetic ''block'' (source_value NETWORK_ERROR)
                          (''Gateway unreachable: '' @ text) (''policy_hash'', JNull)), w)
           else execute_fallback G mode w))"

definition execute_accepted :: "http_response \<Rightarrow> gate_exn + json" where
  "execute_accepted r =
     (case resp_json r of
        None \<Rightarrow> Inl (PyError ''JSONDecodeError'')
      | Some (JObj d) \<Rightarrow> Inr (JObj (dict_set ''decision_source'' (JStr src_gateway) d))
      | Some _ \<Rightarrow> Inl (PyError ''TypeError''))"

text \<open>
  A \<open>BreakerTransportError\<close> from inside the request is handled like an exhausted retry; the
  transport and authentication errors pass through, and nothing else is caught.
\<close>

definition execute_gate ::
  "'w gate_env \<Rightarrow> 'w handler \<Rightarrow> string \<Rightarrow> execute_args \<Rightarrow> 'w \<Rightarrow> (gate_exn + json) \<times> 'w" where
  "execute_gate G h mode a w =
     (case g_uuid G w of
        (fresh, w0) \<Rightarrow>
          (case retry_with_backoff (gate_retry_env G ''/api/v1/execute'' (execute_request fresh a))
                  (execute_cfg G h) w0 of
             (Inr r, w1) \<Rightarrow>
               (if resp_status r = 200 then (execute_accepted r, w1)
                else if resp_status r \<ge> 400 then execute_refused G r w1
                else execute_fallback G mode w1)
           | (Inl AuthRejected, w1) \<Rightarrow> (Inl auth_rejected, w1)
           | (Inl (Backend5xx n), w1) \<Rightarrow> (Inl (backend_5xx n), w1)
           | (Inl (Raised e), w1) \<Rightarrow>
               (if is_subclass (err_class e) BreakerTransportError then execute_exhausted G h mode w1
                else (Inl (SdkErr e), w1))
           | (Inl RetriesExhausted, w1) \<Rightarrow> execute_exhausted G h mode w1))"

definition edge_execute :: "edge_box \<Rightarrow> execute_args \<Rightarrow> json" where
  "edge_execute b a =
     JObj [(''decision'', JStr ''allow''),
           (''decision_source'',
            JStr (case last_source b of None \<Rightarrow> edge_lease
                  | Some s \<Rightarrow> if s = [] then edge_lease else s)),
           (''execution_id'', ex_execution_id a), (''via_edge'', JBool True)]"

section \<open>/gate\<close>

text \<open>
  The request body built from the caller's dictionary; \<open>trace\<close> and \<open>op\<close> are the fresh ids drawn
  for a missing trace id and a missing operation id.
\<close>

definition copy_given :: "string \<Rightarrow> dict \<Rightarrow> dict \<Rightarrow> dict" where
  "copy_given k req d = put_given k (jget req k) d"

definition check_base :: "string \<Rightarrow> string \<Rightarrow> dict \<Rightarrow> dict" where
  "check_base trace op req =
     [(''organization_id'', jget req ''organization_id''), (''execution_id'', jget req ''execution_id''),
      (''trace_id'', get_or req ''trace_id'' (JStr trace)),
      (''tool'', py_or (jget req ''tool_name'') (jget req ''tool'')),
      (''input'', jget req ''input''), (''mode'', JStr ''auto''),
      (''check_type'', jget req ''check_type''), (''model'', jget req ''model''),
      (''estimated_tokens'', jget req ''estimated_tokens'')]
     @ (if jget req ''max_output_tokens'' = JNull then []
        else [(''max_output_tokens'', jget req ''max_output_tokens'')])
     @ [(''operation_id'', py_or (jget req ''operation_id'') (JStr op))]
     @ (case dict_get req ''tools'' of None \<Rightarrow> [] | Some t \<Rightarrow> [(''tools'', t)])"

definition check_gate_request :: "string \<Rightarrow> string \<Rightarrow> json \<Rightarrow> dict \<Rightarrow> dict" where
  "check_gate_request trace op parent req =
     put_given ''parent_execution_id'' (get_or req ''parent_execution_id'' parent)
      (copy_given ''mcp_annotations'' req
        (copy_given ''tool_class'' req
          (copy_given ''tool_arguments'' req
            (copy_given ''business_impact'' req
              ((if truthy (jget req ''action_digest'')
                then dict_set ''action_digest'' (jget req ''action_digest'') else id)
               ((case dict_get req ''stream'' of
                   None \<Rightarrow> id | Some v \<Rightarrow> dict_set ''stream'' (JBool (truthy v)))
                (copy_given ''idempotency_key'' req
                  (copy_given ''chain_op'' req
                    (copy_given ''chain_id'' req (check_base trace op req))))))))))"

definition refusal_explanations :: "http_response \<Rightarrow> dict \<Rightarrow> json" where
  "refusal_explanations r d =
     (let given = py_or (jget d ''explanations'') (JList []) in
      if truthy given then given
      else
        (let single = py_or (jget d ''explanation'') (jget d ''error_message'') in
         if truthy single then JList [single]
         else JList [JStr (''Gate endpoint returned '' @ show_int (resp_status r))]))"

text \<open>\<open>explanations[0]\<close>, where the server may have sent something other than a list.\<close>

definition first_item :: "json \<Rightarrow> string + json" where
  "first_item j =
     (case j of
        JList (x # _) \<Rightarrow> Inr x
      | JList [] \<Rightarrow> Inl ''IndexError''
      | JStr (c # _) \<Rightarrow> Inr (JStr [c])
      | JStr [] \<Rightarrow> Inl ''IndexError''
      | JObj _ \<Rightarrow> Inl ''KeyError''
      | _ \<Rightarrow> Inl ''TypeError'')"

text \<open>The refusal's category is put into the answer as the enumeration member.\<close>

definition category_json :: "decision_category option \<Rightarrow> json" where
  "category_json c = (case c of None \<Rightarrow> JNull | Some c \<Rightarrow> JEnum (category_value c))"

definition check_refusal :: "http_response \<Rightarrow> json \<Rightarrow> gate_exn + json" where
  "check_refusal r body =
     (case resolve_refusal_category body of
        Inl u \<Rightarrow> Inl (UnclassifiedRefusal u)
      | Inr c \<Rightarrow>
          (case body of
             JObj d \<Rightarrow>
               (case first_item (refusal_explanations r d) of
                  Inl x \<Rightarrow> Inl (PyError x)
                | Inr first \<Rightarrow>
                    Inr (JObj
                      [(''decision'', JStr ''block''), (''decision_source'', JStr src_gateway),
                       (''explanation'', first), (''explanations'', refusal_explanations r d),
                       (''category'', category_json c),
                       (''agent_message'', jget d ''agent_message''),
                       (''user_message'', jget d ''user_message''),
                       (''reservation_id'', jget d ''reservation_id''),
                       (''remaining_budget_cents'', py_or (jget d ''remaining_budget_cents'') (JInt 0)),
                       (''projected_cost_cents'', py_or (jget d ''projected_cost_cents'') (JInt 0)),
                       (''policy_id'', jget d ''policy_id''),
                       (''policy_version'', jget d ''policy_version''),
                       (''operation_id'', jget d ''operation_id''),
                       (''details'', py_or (jget d ''details'') (JObj [])),
                       (''error_code'', jget d ''error_code''),
                       (''status_code'', JInt (resp_status r))]))
           | _ \<Rightarrow> Inl (PyError ''AttributeError'')))"

definition check_fallback :: "string \<Rightarrow> json" where
  "check_fallback explanation =
     JObj [(''decision'', JStr ''block''), (''decision_source'', JStr src_fallback),
           (''reservation_id'', JNull), (''remaining_budget_cents'', JInt 0),
           (''projected_cost_cents'', JInt 0), (''explanations'', JList [JStr explanation]),
           (''suggestions'', JList [JStr ''Check API availability''])]"

definition check_answer :: "'w handler \<Rightarrow> http_response \<Rightarrow> gate_exn + json" where
  "check_answer h r =
     (if resp_status r = 200
      then (case resp_json r of None \<Rightarrow> Inl (PyError ''JSONDecodeError'') | Some j \<Rightarrow> Inr j)
      else
        (let body = (case resp_json r of None \<Rightarrow> JObj [] | Some j \<Rightarrow> j) in
         if 400 \<le> resp_status r \<and> resp_status r < 500 \<or> resp_status r \<ge> 500 \<and> is_gate_refusal body
         then check_refusal r body
         else if resp_status r \<ge> 500 \<and> is_raise h
         then Inl (built (transport_init NullRunTransportError
                 (''Gateway returned '' @ show_int (resp_status r)) GATEWAY_ERROR ''check'' []
                 [(''status_code'', JInt (resp_status r))]))
         else Inr (check_fallback (''Gate endpoint returned '' @ show_int (resp_status r)))))"

definition check_exhausted :: "'w handler \<Rightarrow> gate_exn + json" where
  "check_exhausted h =
     (if is_raise h
      then Inl (unreachable_error (''Network error on /check after retry exhaustion: '' @ exhausted_text 3)
                  ''check'')
      else Inr (check_fallback (''Gate request failed after retries: '' @ exhausted_text 3)))"

definition check_gate ::
  "'w gate_env \<Rightarrow> 'w handler \<Rightarrow> json \<Rightarrow> dict \<Rightarrow> 'w \<Rightarrow> (gate_exn + json) \<times> 'w" where
  "check_gate G h parent req w =
     (case g_uuid G w of
        (trace, w0) \<Rightarrow>
          (case (if truthy (jget req ''operation_id'') then ([], w0) else g_uuid G w0) of
             (op, w1) \<Rightarrow>
               (case retry_with_backoff
                       (gate_retry_env G ''/api/v1/gate'' (check_gate_request trace op parent req))
                       (check_cfg G h) w1 of
                  (Inr r, w2) \<Rightarrow> (check_answer h r, w2)
                | (Inl AuthRejected, w2) \<Rightarrow> (Inl auth_rejected, w2)
                | (Inl (Backend5xx n), w2) \<Rightarrow> (Inl (backend_5xx n), w2)
                | (Inl (Raised e), w2) \<Rightarrow>
                    (if is_subclass (err_class e) BreakerTransportError then (check_exhausted h, w2)
                     else (Inl (SdkErr e), w2))
                | (Inl RetriesExhausted, w2) \<Rightarrow> (check_exhausted h, w2))))"

text \<open>The two calls with the via-edge branch in front.\<close>

definition transport_execute ::
  "'w gate_env \<Rightarrow> edge_box option \<Rightarrow> 'w handler \<Rightarrow> string \<Rightarrow> execute_args \<Rightarrow> 'w
     \<Rightarrow> (gate_exn + json) \<times> 'w" where
  "transport_execute G box h mode a w =
     (case box of
        Some b \<Rightarrow> (Inr (edge_execute b a), w)
      | None \<Rightarrow> execute_gate G h mode a w)"

definition transport_check ::
  "'w gate_env \<Rightarrow> 'w edge_env \<Rightarrow> edge_box option \<Rightarrow> 'w handler \<Rightarrow> json \<Rightarrow> dict \<Rightarrow> 'w
     \<Rightarrow> (gate_exn + json) \<times> edge_box option \<times> 'w" where
  "transport_check G E box h parent req w =
     (case box of
        None \<Rightarrow> (case check_gate G h parent req w of (res, w1) \<Rightarrow> (res, None, w1))
      | Some b \<Rightarrow>
          (case token_split req of
             Inl x \<Rightarrow> (Inl (PyError x), Some b, w)
           | Inr (i, n) \<Rightarrow>
               (case edge_enforce E b (py_str (g_repr G) (py_or (jget req ''model'') (JStr []))) i n
                       (jget req ''operation_id'') h w of
                  (j, b1, w1) \<Rightarrow> (Inr j, Some b1, w1))))"

end
