(* ===== verification/Gate_Laws.thy ===== *)
theory Gate_Laws
  imports Gate Error_Contract
begin

text \<open>
  What the enforcement calls promise: no answer that lets a call through is made up by the SDK
  unless the caller asked for it, what is made up is marked as a fallback, and a refusal keeps what
  the gate said.  The retry laws give, for every response the calls act on, a POST that returned it.
\<close>

section \<open>What the retry helper hands over\<close>

lemma gate_retry_response:
  assumes "retry_with_backoff (gate_retry_env G path body) c w = (Inr r, w')"
  shows "\<exists>v. fst (g_post G path body v) = Inr r"
    and "resp_status r \<noteq> 401 \<or> retry_on_5xx c"
    and "resp_status r < 500 \<or> retry_on_5xx c"
proof -
  have "explained (gate_retry_env G path body) c None (Inr r)"
    using retry_explained [of "gate_retry_env G path body" c w] assms by simp
  then have "(\<exists>v. fst (re_call (gate_retry_env G path body) v) = Inr r
      \<and> resp_status r \<noteq> 401 \<and> (resp_status r < 500 \<or> retry_on_5xx c))
    \<or> retry_on_5xx c \<and> (\<exists>v. fst (re_call (gate_retry_env G path body) v) = Inl (HttpStatus r))"
    by (simp add: explained_def)
  moreover have "fst (re_call (gate_retry_env G path body) v) \<noteq> Inl (HttpStatus r)" for v
    by (auto simp: gate_retry_env_def split: prod.splits sum.splits)
  moreover have "fst (re_call (gate_retry_env G path body) v) = Inr r
      \<longleftrightarrow> fst (g_post G path body v) = Inr r" for v
    by (auto simp: gate_retry_env_def split: prod.splits sum.splits)
  ultimately show "\<exists>v. fst (g_post G path body v) = Inr r"
    and "resp_status r \<noteq> 401 \<or> retry_on_5xx c"
    and "resp_status r < 500 \<or> retry_on_5xx c"
    by blast+
qed

lemma gate_retry_never_raises:
  assumes "retry_with_backoff (gate_retry_env G path body) c w = (Inl (Raised e), w')"
  shows False
proof -
  have "explained (gate_retry_env G path body) c None (Inl (Raised e))"
    using retry_explained [of "gate_retry_env G path body" c w] assms by simp
  then obtain v where v: "fst (re_call (gate_retry_env G path body) v) = Inl (PassThrough e)"
    by (auto simp: explained_def)
  obtain res w1 where "g_post G path body v = (res, w1)" by fastforce
  with v show False
    by (cases res) (simp_all add: gate_retry_env_def)
qed

section \<open>The answer of check\<close>

lemma jobj_decision [simp]: "jget ((''decision'', v) # d) ''decision'' = v"
  by simp

lemma check_refusal_block:
  "check_refusal r body = Inr j \<Longrightarrow>
     \<exists>d. j = JObj d \<and> jget d ''decision'' = JStr ''block''"
  by (auto simp: check_refusal_def split: sum.splits json.splits)

lemma check_answer_cases:
  assumes "check_answer h r = Inr j"
  shows "resp_status r = 200 \<and> resp_json r = Some j \<or>
    resp_status r \<noteq> 200 \<and> (\<exists>d. j = JObj d \<and> jget d ''decision'' = JStr ''block'')"
proof (cases "resp_status r = 200")
  case True
  then show ?thesis
    using assms by (auto simp: check_answer_def split: option.splits)
next
  case False
  then show ?thesis
    using assms check_refusal_block
    by (auto simp: check_answer_def Let_def check_fallback_def split: if_splits)
qed

lemma check_exhausted_block:
  "check_exhausted h = Inr j \<Longrightarrow> \<exists>d. j = JObj d \<and> jget d ''decision'' = JStr ''block''"
  by (auto simp: check_exhausted_def check_fallback_def split: if_splits)

text \<open>
  C3: the budget gate fails closed.  Whatever the server, the network and the retry helper do, an
  answer of \<open>check\<close> other than a block is, word for word, the JSON body of a 200 response to this
  very request.
\<close>

theorem check_fails_closed:
  assumes "check_gate G h parent req w = (Inr j, w')"
  shows "(\<exists>d. j = JObj d \<and> jget d ''decision'' = JStr ''block'')
    \<or> (\<exists>trace op v r. fst (g_post G ''/api/v1/gate'' (check_gate_request trace op parent req) v) = Inr r
         \<and> resp_status r = 200 \<and> resp_json r = Some j)"
proof -
  obtain trace w0 where t: "g_uuid G w = (trace, w0)" by fastforce
  obtain op w1 where o: "(if truthy (jget req ''operation_id'') then ([], w0) else g_uuid G w0) = (op, w1)"
    by fastforce
  let ?R = "gate_retry_env G ''/api/v1/gate'' (check_gate_request trace op parent req)"
  obtain res w2 where rt: "retry_with_backoff ?R (check_cfg G h) w1 = (res, w2)" by fastforce
  show ?thesis
  proof (cases res)
    case (Inr r)
    then have "check_answer h r = Inr j"
      using assms t o rt by (simp add: check_gate_def)
    from check_answer_cases [OF this] show ?thesis
    proof
      assume body: "resp_status r = 200 \<and> resp_json r = Some j"
      obtain v where v: "fst (g_post G ''/api/v1/gate'' (check_gate_request trace op parent req) v) = Inr r"
        using gate_retry_response(1) [OF rt [unfolded Inr]] ..
      show ?thesis
        by (rule disjI2, rule exI [of _ trace], rule exI [of _ op], rule exI [of _ v],
            rule exI [of _ r]) (simp add: v body)
    qed simp
  next
    case (Inl x)
    then have "check_exhausted h = Inr j"
      using assms t o rt
      by (cases x) (auto simp: check_gate_def auth_rejected_def backend_5xx_def split: if_splits)
    then show ?thesis
      using check_exhausted_block by blast
  qed
qed

section \<open>The answer of execute\<close>

definition gateway_answer :: "'w gate_env \<Rightarrow> execute_args \<Rightarrow> dict \<Rightarrow> bool" where
  "gateway_answer G a d \<longleftrightarrow>
     (\<exists>fresh v r d0. fst (g_post G ''/api/v1/execute'' (execute_request fresh a) v) = Inr r
        \<and> resp_status r = 200 \<and> resp_json r = Some (JObj d0)
        \<and> d = dict_set ''decision_source'' (JStr src_gateway) d0)"

definition no_callback :: "'w handler \<Rightarrow> bool" where
  "no_callback h \<longleftrightarrow> (\<forall>f. h \<noteq> Callback f)"

text \<open>The dictionaries \<open>execute\<close> makes up, with the reason each needs.\<close>

definition made_up :: "'w handler \<Rightarrow> string \<Rightarrow> dict \<Rightarrow> bool" where
  "made_up h mode d \<longleftrightarrow>
     is_fallback_decision_source (jget d ''decision_source'') \<and>
     (jget d ''decision'' = JStr ''block'' \<or>
      jget d ''decision'' = JStr ''allow'' \<and> (mode \<noteq> ''strict'' \<or> h = Policy ''open''))"

lemma fallback_sources [simp]:
  "is_fallback_decision_source (JStr src_fallback)"
  "is_fallback_decision_source (JStr ''NETWORK_ERROR'')"
  "\<not> is_fallback_decision_source (JStr src_gateway)"
  by (simp_all add: is_fallback_decision_source_def src_fallback_def src_gateway_def)

lemma fallback_made_up:
  "execute_fallback G mode w = (Inr (JObj d), w') \<Longrightarrow> made_up h mode d"
  by (auto simp: execute_fallback_def synthetic_def made_up_def split: if_splits)

lemma synthetic_made_up:
  "made_up h mode [(''decision'', JStr ''block''), (''decision_source'', JStr ''NETWORK_ERROR''), x, y]"
  "made_up (Policy ''open'') mode
     [(''decision'', JStr ''allow''), (''decision_source'', JStr ''NETWORK_ERROR''), x, y]"
  by (simp_all add: made_up_def)

lemma exhausted_made_up:
  assumes "execute_exhausted G h mode w = (Inr (JObj d), w')" "no_callback h"
  shows "made_up h mode d"
proof (cases h)
  case NoHandler
  with assms(1) show ?thesis
    by (intro fallback_made_up [of G mode w]) (simp add: execute_exhausted_def)
next
  case (Callback f)
  with assms(2) show ?thesis by (simp add: no_callback_def)
next
  case (Policy p)
  consider "p = ''raise''" | "p = ''open''" | "p = ''closed''"
    | "execute_exhausted G h mode w = execute_fallback G mode w"
    by (cases "p = ''raise'' \<or> p = ''open'' \<or> p = ''closed''") (auto simp: execute_exhausted_def Policy)
  then show ?thesis
  proof cases
    case 4
    with assms(1) show ?thesis by (intro fallback_made_up [of G mode w]) simp
  next
    case 1
    with assms(1) Policy show ?thesis by (simp add: execute_exhausted_def Let_def)
  next
    case 2
    with assms(1) Policy show ?thesis
      by (auto simp: execute_exhausted_def Let_def synthetic_def synthetic_made_up)
  next
    case 3
    with assms(1) Policy show ?thesis
      by (auto simp: execute_exhausted_def Let_def synthetic_def synthetic_made_up)
  qed
qed

lemma refused_made_up:
  "execute_refused G r w = (Inr (JObj d), w') \<Longrightarrow> made_up h mode d"
  by (auto simp: execute_refused_def synthetic_def made_up_def split: sum.splits)

lemma execute_answer_cases:
  assumes "execute_gate G h mode a w = (Inr (JObj d), w')" "no_callback h"
  shows "gateway_answer G a d \<or> made_up h mode d"
proof -
  obtain fresh w0 where f: "g_uuid G w = (fresh, w0)" by fastforce
  let ?R = "gate_retry_env G ''/api/v1/execute'' (execute_request fresh a)"
  obtain res w1 where rt: "retry_with_backoff ?R (execute_cfg G h) w0 = (res, w1)" by fastforce
  show ?thesis
  proof (cases res)
    case (Inr r)
    obtain v where v: "fst (g_post G ''/api/v1/execute'' (execute_request fresh a) v) = Inr r"
      using gate_retry_response(1) [OF rt [unfolded Inr]] ..
    consider "resp_status r = 200" "execute_accepted r = Inr (JObj d)"
      | "execute_refused G r w1 = (Inr (JObj d), w')"
      | "execute_fallback G mode w1 = (Inr (JObj d), w')"
      using assms(1) f rt Inr by (auto simp: execute_gate_def split: if_splits)
    then show ?thesis
    proof cases
      case 1
      then show ?thesis
        using v by (auto simp: gateway_answer_def execute_accepted_def split: option.splits json.splits)
    qed (auto dest: refused_made_up fallback_made_up)
  next
    case (Inl x)
    then have "execute_exhausted G h mode w1 = (Inr (JObj d), w')"
      using assms(1) f rt
      by (cases x) (auto simp: execute_gate_def auth_rejected_def backend_5xx_def split: if_splits)
    then show ?thesis
      by (rule disjI2 [OF exhausted_made_up [OF _ assms(2)]])
  qed
qed

text \<open>
  C4: without an edge box, and under the default fallback mode, the policy call fails closed.  With no
  \<open>on_transport_error\<close> callback and no \<open>open\<close> policy, a decision of \<open>execute\<close> that is not a block is the object of a 200 response to this very
  request, with its \<open>decision_source\<close> set to the gateway; and whatever \<open>execute\<close> makes up itself, in any
  mode, is recognised by \<open>is_fallback_decision_source\<close>, which no gateway answer is.
\<close>

theorem execute_fails_closed:
  assumes "execute_gate G h mode a w = (Inr (JObj d), w')" "no_callback h"
  shows "(is_fallback_decision_source (jget d ''decision_source'') \<longleftrightarrow> \<not> gateway_answer G a d)
    \<and> (jget d ''decision'' = JStr ''block'' \<or> gateway_answer G a d
         \<or> mode \<noteq> ''strict'' \<or> h = Policy ''open'')"
proof -
  have "\<not> is_fallback_decision_source (jget d ''decision_source'')" if "gateway_answer G a d"
    using that by (auto simp: gateway_answer_def jget_def)
  then show ?thesis
    using execute_answer_cases [OF assms] by (auto simp: made_up_def)
qed

section \<open>Refusals\<close>

text \<open>A server that gives the same answer to every request.\<close>

definition always :: "http_response \<Rightarrow> nat gate_env" where
  "always r =
     \<lparr>g_post = (\<lambda>path body n. (Inr r, Suc n)), g_random = (\<lambda>n. (0, n)), g_now = (\<lambda>n. (0, n)),
      g_sleep = (\<lambda>d n. (True, n)), g_inc = (\<lambda>k n. n), g_uuid = (\<lambda>n. (''u'', n)),
      g_text = (\<lambda>r. []), g_repr = (\<lambda>j. []), g_execute_retries = 10, g_ceiling = 60\<rparr>"

lemma retry_first_answer:
  assumes "fst (re_call R w) = Inr r" "resp_status r \<noteq> 401" "resp_status r < 500" "0 \<le> max_retries c"
  shows "retry_with_backoff R c w = (Inr r, snd (re_call R w))"
proof -
  obtain n where n: "nat (max_retries c + 1) = Suc n"
    using assms(4) by (metis Suc_nat_eq_nat_zadd1 add.commute)
  obtain w1 where "re_call R w = (Inr r, w1)"
    using assms(1) by (cases "re_call R w") simp
  then show ?thesis
    using assms(2,3) by (simp add: retry_with_backoff_def n retry_loop.simps(2) judge_def)
qed

lemma gate_first_answer:
  assumes "fst (g_post G path body w) = Inr r" "resp_status r \<noteq> 401" "resp_status r < 500"
    and "0 \<le> max_retries c"
  shows "retry_with_backoff (gate_retry_env G path body) c w = (Inr r, snd (g_post G path body w))"
proof -
  obtain w1 where "g_post G path body w = (Inr r, w1)"
    using assms(1) by (cases "g_post G path body w") simp
  then show ?thesis
    using assms(2-4) by (subst retry_first_answer [of _ _ r]) (simp_all add: gate_retry_env_def)
qed

text \<open>
  a named refusal that the parser cannot build loses its meaning.  When \<open>/execute\<close> answers 4xx with
  one of the twelve codes of \<open>unbuildable_codes\<close> (an approval that is already decided, an MCP block, an
  approval service failure), the caller gets no exception but a block whose source is \<open>fallback\<close> and
  whose only text is the status: a policy decision of the gateway is presented as a transport failure.
\<close>

theorem unbuildable_refusal_becomes_fallback:
  assumes "\<And>body v. fst (g_post G ''/api/v1/execute'' body v) = Inr r"
    and "400 \<le> resp_status r" "resp_status r < 500" "resp_status r \<noteq> 401"
    and "wire_code_of (g_repr G) (with_text G r) \<in> set unbuildable_codes" "0 \<le> g_execute_retries G"
  shows "fst (execute_gate G h mode a w)
    = Inr (JObj [(''decision'', JStr ''block''), (''decision_source'', JStr ''fallback''),
                 (''explanation'', JStr (''Gateway returned '' @ show_int (resp_status r))),
                 (''policy_hash'', JNull)])"
proof -
  obtain fresh w0 where f: "g_uuid G w = (fresh, w0)" by fastforce
  have rt: "retry_with_backoff (gate_retry_env G ''/api/v1/execute'' (execute_request fresh a))
      (execute_cfg G h) w0 = (Inr r, snd (g_post G ''/api/v1/execute'' (execute_request fresh a) w0))"
    by (rule gate_first_answer) (use assms in \<open>simp_all add: execute_cfg_def\<close>)
  have "parser_raises (wire_code_of (g_repr G) (with_text G r)) s d hint ''TypeError''" for s d hint
    using assms(5) by (simp add: parser_raises_def)
  then have "parse_v3_error_envelope (g_repr G) ''execute'' (with_text G r) = Inl ''TypeError''"
    by (simp add: parse_raises_iff)
  then show ?thesis
    using assms(2) by (simp add: execute_gate_def f rt execute_refused_def synthetic_def src_fallback_def)
qed

definition already_decided :: http_response where
  "already_decided =
     \<lparr>resp_status = 409,
      resp_json = Some (JObj [(''error_code'', JStr ''APPROVAL_ALREADY_DECIDED'')]),
      resp_retry_after = None\<rparr>"

definition sample_call :: execute_args where
  "sample_call =
     \<lparr>ex_organization_id = JStr ''org'', ex_execution_id = JStr ''e1'', ex_trace_id = JStr ''t1'',
      ex_tool = JStr ''search'', ex_input = JObj [], ex_mode = JStr ''auto'', ex_operation_id = JNull,
      ex_approval_id = JStr ''a1'', ex_business_impact = JNull, ex_action_digest = JNull,
      ex_tool_arguments = JNull, ex_tools = JNull\<rparr>"

lemma unbuildable_refusal_becomes_fallback_witness:
  "fst (execute_gate (always already_decided) NoHandler ''strict'' sample_call 0)
    = Inr (JObj [(''decision'', JStr ''block''), (''decision_source'', JStr ''fallback''),
                 (''explanation'', JStr (''Gateway returned '' @ show_int 409)), (''policy_hash'', JNull)])"
proof -
  have "wire_code_of (\<lambda>j. []) (with_text (always already_decided) already_decided) = ''APPROVAL_ALREADY_DECIDED''"
    by (simp add: wire_code_of_def with_text_def response_body_def already_decided_def flat_code
          http_response.extend_def)
  then have "fst (execute_gate (always already_decided) NoHandler ''strict'' sample_call 0)
    = Inr (JObj [(''decision'', JStr ''block''), (''decision_source'', JStr ''fallback''),
                 (''explanation'', JStr (''Gateway returned '' @ show_int (resp_status already_decided))),
                 (''policy_hash'', JNull)])"
    by (intro unbuildable_refusal_becomes_fallback)
       (simp_all add: always_def already_decided_def unbuildable_codes_def)
  then show ?thesis by (simp add: already_decided_def)
qed

text \<open>
  a client error whose body is JSON but not an object breaks \<open>check\<close>: instead of the documented
  block it raises \<open>AttributeError\<close>, which no policy word turns into a decision.  A body that is not
  JSON at all is blocked as documented.
\<close>

theorem non_object_refusal_breaks_check:
  assumes "\<And>body v. fst (g_post G ''/api/v1/gate'' body v) = Inr r"
    and "400 \<le> resp_status r" "resp_status r < 500" "resp_status r \<noteq> 401"
    and "resp_json r = None \<or> (\<exists>j. resp_json r = Some j \<and> (\<forall>d. j \<noteq> JObj d))"
  shows "if resp_json r = None
    then \<exists>d. fst (check_gate G h parent req w) = Inr (JObj d) \<and> jget d ''decision'' = JStr ''block''
           \<and> jget d ''explanation'' = JStr (''Gate endpoint returned '' @ show_int (resp_status r))
    else fst (check_gate G h parent req w) = Inl (PyError ''AttributeError'')"
proof -
  obtain trace w0 where t: "g_uuid G w = (trace, w0)" by fastforce
  obtain op w1 where o: "(if truthy (jget req ''operation_id'') then ([], w0) else g_uuid G w0) = (op, w1)"
    by fastforce
  let ?b = "check_gate_request trace op parent req"
  have rt: "retry_with_backoff (gate_retry_env G ''/api/v1/gate'' ?b) (check_cfg G h) w1
      = (Inr r, snd (g_post G ''/api/v1/gate'' ?b w1))"
    by (rule gate_first_answer) (use assms in \<open>simp_all add: check_cfg_def\<close>)
  have "check_answer h r = (if resp_json r = None
      then check_refusal r (JObj []) else Inl (PyError ''AttributeError''))"
    using assms(2-5)
    by (auto simp: check_answer_def Let_def check_refusal_def resolve_refusal_category_def
          is_gate_refusal_def split: json.splits)
  moreover have "check_refusal r (JObj []) = Inr (JObj d) \<Longrightarrow>
      jget d ''explanation'' = JStr (''Gate endpoint returned '' @ show_int (resp_status r))" for d
    by (auto simp: check_refusal_def resolve_refusal_category_def is_gate_refusal_def first_item_def
          refusal_explanations_def py_or_def)
  moreover have "\<exists>d. check_refusal r (JObj []) = Inr (JObj d)"
    by (simp add: check_refusal_def resolve_refusal_category_def is_gate_refusal_def first_item_def
          refusal_explanations_def py_or_def)
  ultimately show ?thesis
    using check_refusal_block by (fastforce simp: check_gate_def t o rt)
qed

lemma non_object_refusal_breaks_check_witness:
  "fst (check_gate (always \<lparr>resp_status = 400, resp_json = Some (JStr ''bad request''),
                             resp_retry_after = None\<rparr>) (Policy ''closed'') JNull [] 0)
   = Inl (PyError ''AttributeError'')"
  using non_object_refusal_breaks_check [of "always \<lparr>resp_status = 400,
      resp_json = Some (JStr ''bad request''), resp_retry_after = None\<rparr>"
      "\<lparr>resp_status = 400, resp_json = Some (JStr ''bad request''), resp_retry_after = None\<rparr>"]
  by (simp add: always_def)

text \<open>
  a refusal reaches the runtime with the category the gate wrote and the text it certified.  When
  \<open>check\<close> turns a response that is not a 200 into a dictionary with a category, the response body was
  itself a refusal naming that category, and its \<open>agent_message\<close>, \<open>user_message\<close> and \<open>error_code\<close>
  are carried unchanged.
\<close>

theorem check_category_literal:
  assumes "check_answer h r = Inr (JObj d)" "resp_status r \<noteq> 200"
    and "jget d ''category'' = JEnum (category_value c)"
  shows "\<exists>b. resp_json r = Some (JObj b) \<and> jget b ''decision'' = JStr ''block''
     \<and> jget b ''category'' = JStr (category_value c)
     \<and> map (jget d) [''agent_message'', ''user_message'', ''error_code'']
       = map (jget b) [''agent_message'', ''user_message'', ''error_code'']"
proof -
  define body where "body = (case resp_json r of None \<Rightarrow> JObj [] | Some j \<Rightarrow> j)"
  have "check_refusal r body = Inr (JObj d)"
    using assms
    by (auto simp: check_answer_def body_def Let_def check_fallback_def split: if_splits)
  then obtain b cat where b: "body = JObj b" "resolve_refusal_category body = Inr cat"
      "jget d ''category'' = category_json cat"
      "map (jget d) [''agent_message'', ''user_message'', ''error_code'']
       = map (jget b) [''agent_message'', ''user_message'', ''error_code'']"
    by (auto simp: check_refusal_def split: sum.splits json.splits)
  then have "cat = Some c"
    using assms(3) by (cases cat) (auto simp: category_json_def)
  then have "is_gate_refusal body" "jget b ''category'' = JStr (category_value c)"
    using b(1,2)
    by (auto simp: resolve_refusal_category_def Let_def parse_iff split: if_splits option.splits)
  moreover from this(1) have "jget b ''decision'' = JStr ''block''"
    by (simp add: is_gate_refusal_def b(1))
  ultimately show ?thesis
    using b(1,4) by (auto simp: body_def split: option.splits)
qed

lemma check_category_literal_witness:
  "\<exists>b. Some (JObj [(''decision'', JStr ''block''), (''category'', JStr ''denied'')]) = Some (JObj b)
     \<and> jget b ''category'' = JStr (category_value DENIED)"
proof -
  let ?r = "\<lparr>resp_status = 403, resp_json = Some (JObj [(''decision'', JStr ''block''),
      (''category'', JStr ''denied'')]), resp_retry_after = None\<rparr>"
  obtain d where d: "check_answer NoHandler ?r = Inr (JObj d)" "jget d ''category'' = JEnum (category_value DENIED)"
    by (simp add: check_answer_def check_refusal_def resolve_refusal_category_def is_gate_refusal_def
          first_item_def refusal_explanations_def py_or_def parse_category_def all_categories_def
          category_json_def)
  show ?thesis
    using check_category_literal [OF d(1) _ d(2)] by auto
qed

section \<open>The request\<close>

definition gate_keys :: "string list" where
  "gate_keys =
     [''organization_id'', ''execution_id'', ''trace_id'', ''tool'', ''input'', ''mode'', ''check_type'',
      ''model'', ''estimated_tokens'', ''max_output_tokens'', ''operation_id'', ''tools'', ''chain_id'',
      ''chain_op'', ''idempotency_key'', ''stream'', ''action_digest'', ''business_impact'',
      ''tool_arguments'', ''tool_class'', ''mcp_annotations'', ''parent_execution_id'']"

definition copied_keys :: "string list" where
  "copied_keys =
     [''organization_id'', ''execution_id'', ''input'', ''check_type'', ''model'', ''estimated_tokens'',
      ''max_output_tokens'', ''chain_id'', ''chain_op'', ''idempotency_key'', ''business_impact'',
      ''tool_arguments'', ''tool_class'', ''mcp_annotations'']"

lemma set_keys_set: "fst ` set (dict_set k v d) = insert k (fst ` set d)"
  by (simp add: dict_set_def dom_update)

lemma set_keys_put: "fst ` set (put_given k v d) \<subseteq> insert k (fst ` set d)"
  by (auto simp: put_given_def set_keys_set)

lemma jget_put [simp]:
  "jget (put_given k v d) k' = (if k' = k \<and> v \<noteq> JNull then v else jget d k')"
  by (simp add: put_given_def)

lemma jget_append_base:
  "jget (xs @ ys) k = (case dict_get xs k of Some v \<Rightarrow> v | None \<Rightarrow> jget ys k)"
  by (simp add: jget_def dict_get_def map_add_def split: option.split)

lemma check_base_get:
  "k \<in> set [''organization_id'', ''execution_id'', ''input'', ''check_type'', ''model'',
      ''estimated_tokens'', ''max_output_tokens''] \<Longrightarrow> jget (check_base t op req) k = jget req k"
  "k \<in> set [''chain_id'', ''chain_op'', ''idempotency_key'', ''stream'', ''action_digest'',
      ''business_impact'', ''tool_arguments'', ''tool_class'', ''mcp_annotations'',
      ''parent_execution_id''] \<Longrightarrow> jget (check_base t op req) k = JNull"
  unfolding check_base_def
  by (elim list_membership; simp add: jget_append_base split: option.split)+

lemma check_base_keys: "fst ` set (check_base t op req) \<subseteq> set gate_keys"
  by (auto simp: check_base_def gate_keys_def split: option.splits)

lemma request_keys:
  "fst ` set d \<subseteq> set gate_keys \<Longrightarrow> k \<in> set gate_keys \<Longrightarrow> fst ` set (put_given k v d) \<subseteq> set gate_keys"
  "fst ` set d \<subseteq> set gate_keys \<Longrightarrow> k \<in> set gate_keys \<Longrightarrow> fst ` set (dict_set k v d) \<subseteq> set gate_keys"
  by (rule subset_trans [OF set_keys_put]) (simp_all add: set_keys_set)

lemma check_request_keys: "fst ` set (check_gate_request trace op parent req) \<subseteq> set gate_keys"
proof -
  have in_keys: "k \<in> set gate_keys" if "k \<in> set [''chain_id'', ''chain_op'', ''idempotency_key'', ''stream'',
      ''action_digest'', ''business_impact'', ''tool_arguments'', ''tool_class'', ''mcp_annotations'',
      ''parent_execution_id'']" for k
    using that by (auto simp: gate_keys_def)
  show ?thesis
    unfolding check_gate_request_def copy_given_def
    by (cases "dict_get req ''stream''"; cases "truthy (jget req ''action_digest'')")
       (simp_all only: option.case if_True if_False id_apply,
        (intro request_keys check_base_keys in_keys; simp)+)
qed

text \<open>
  the gate is asked about the caller's request and nothing else.  The body has only the documented
  keys; every field that is not computed is the caller's own (absent and \<open>null\<close> are the same);
  a \<open>parent_execution_id\<close> key of the request, even \<open>null\<close>, wins over the argument.
\<close>

theorem check_request_exact:
  "set (map fst (check_gate_request trace op parent req)) \<subseteq> set gate_keys
   \<and> map (jget (check_gate_request trace op parent req)) copied_keys = map (jget req) copied_keys
   \<and> jget (check_gate_request trace op parent req) ''parent_execution_id''
       = get_or req ''parent_execution_id'' parent"
proof -
  have "jget (check_gate_request trace op parent req) k = jget req k" if "k \<in> set copied_keys" for k
    using that check_base_get [of k trace op req] unfolding copied_keys_def
    by (elim list_membership)
       (auto simp: check_gate_request_def copy_given_def split: option.split)
  moreover have "jget (check_gate_request trace op parent req) ''parent_execution_id''
       = get_or req ''parent_execution_id'' parent"
    using check_base_get(2) [of "''parent_execution_id''" trace op req]
    by (auto simp: check_gate_request_def copy_given_def split: option.split)
  ultimately show ?thesis
    using check_request_keys by simp
qed

section \<open>A gateway that allows\<close>

definition allowing :: http_response where
  "allowing = \<lparr>resp_status = 200, resp_json = Some (JObj [(''decision'', JStr ''allow'')]),
               resp_retry_after = None\<rparr>"

lemma allowing_answers:
  "fst (g_post (always allowing) path body v) = Inr allowing"
  "resp_status allowing = 200" "resp_json allowing = Some (JObj [(''decision'', JStr ''allow'')])"
  by (simp_all add: always_def allowing_def)

lemma check_allows:
  "\<exists>w. check_gate (always allowing) NoHandler JNull [] 0 = (Inr (JObj [(''decision'', JStr ''allow'')]), w)"
  using gate_first_answer [of "always allowing" "''/api/v1/gate''" _ _ allowing, OF allowing_answers(1)]
  by (auto simp: check_gate_def check_cfg_def allowing_answers check_answer_def split: prod.splits)

lemma check_fails_closed_witness:
  "\<exists>trace op v r. fst (g_post (always allowing) ''/api/v1/gate'' (check_gate_request trace op JNull []) v) = Inr r
     \<and> resp_status r = 200 \<and> resp_json r = Some (JObj [(''decision'', JStr ''allow'')])"
proof -
  obtain w where "check_gate (always allowing) NoHandler JNull [] 0
      = (Inr (JObj [(''decision'', JStr ''allow'')]), w)"
    using check_allows ..
  from check_fails_closed [OF this] show ?thesis by simp
qed

lemma execute_allows:
  "\<exists>w. execute_gate (always allowing) NoHandler ''strict'' sample_call 0
     = (Inr (JObj (dict_set ''decision_source'' (JStr src_gateway) [(''decision'', JStr ''allow'')])), w)"
  using gate_first_answer [of "always allowing" "''/api/v1/execute''" _ _ allowing, OF allowing_answers(1)]
  by (auto simp: execute_gate_def execute_cfg_def allowing_answers execute_accepted_def always_def
        split: prod.splits)

lemma execute_fails_closed_witness:
  "gateway_answer (always allowing) sample_call
     (dict_set ''decision_source'' (JStr src_gateway) [(''decision'', JStr ''allow'')])"
proof -
  obtain w where run: "execute_gate (always allowing) NoHandler ''strict'' sample_call 0
     = (Inr (JObj (dict_set ''decision_source'' (JStr src_gateway) [(''decision'', JStr ''allow'')])), w)"
    using execute_allows ..
  have "no_callback (NoHandler :: nat handler)"
    by (simp add: no_callback_def)
  from execute_fails_closed [OF run this] show ?thesis by simp
qed

end
