(* ===== verification/Control_Channel.thy ===== *)
theory Control_Channel
  imports Edge
begin

text \<open>
  The control channel (\<open>src/nullrun/transport_websocket.py\<close>, with the signature helpers of
  \<open>transport.py\<close>): a WebSocket on which the server pushes workflow states, policy and key changes and
  approval outcomes.  The channel verifies the signature of a frame that carries one, drops states
  older than the last one it dispatched, acknowledges kills and pauses, and reconnects with a
  doubling delay.  What the channel does to its surroundings is the log of effects; the callbacks'
  exceptions are swallowed by the code, so a callback is an effect with its arguments.
\<close>

section \<open>Signatures\<close>

text \<open>
  \<open>ce_loads\<close> is \<open>json.loads\<close> of UTF-8 bytes (\<open>None\<close> where it raises a \<open>ValueError\<close>), \<open>ce_sha256\<close> and
  \<open>ce_hmac key message\<close> the hexadecimal digests of \<open>hashlib\<close> and \<open>hmac\<close>.
\<close>

record chan_env =
  ce_loads :: "string \<Rightarrow> json option"
  ce_sha256 :: "string \<Rightarrow> string"
  ce_hmac :: "string \<Rightarrow> string \<Rightarrow> string"

definition generate_hmac_signature :: "chan_env \<Rightarrow> string \<Rightarrow> string \<Rightarrow> int \<Rightarrow> string \<Rightarrow> string" where
  "generate_hmac_signature E api_key secret_key ts body =
     ce_hmac E secret_key (show_int ts @ '':'' @ api_key @ '':'' @ ce_sha256 E body)"

definition is_ascii :: "string \<Rightarrow> bool" where
  "is_ascii s \<longleftrightarrow> list_all (\<lambda>c. (of_char c :: nat) < 128) s"

datatype signature_verdict = Genuine | Expired | Forged | Unreadable string

text \<open>
  \<open>verify_hmac_signature\<close>: the age first, then \<open>hmac.compare_digest\<close>, which raises on anything but
  an ASCII string.
\<close>

definition verify_hmac_signature ::
  "chan_env \<Rightarrow> int \<Rightarrow> string \<Rightarrow> string \<Rightarrow> int \<Rightarrow> string \<Rightarrow> json \<Rightarrow> int \<Rightarrow> signature_verdict" where
  "verify_hmac_signature E now api_key secret_key ts body sig max_age =
     (if \<bar>now - ts\<bar> > max_age then Expired
      else (case sig of
              JStr s \<Rightarrow>
                (if is_ascii s
                 then (if generate_hmac_signature E api_key secret_key ts body = s then Genuine else Forged)
                 else Unreadable ''TypeError'')
            | _ \<Rightarrow> Unreadable ''TypeError''))"

text \<open>\<open>bytes.fromhex\<close>: pairs of hexadecimal digits, white space allowed between the pairs.\<close>

definition hex_digit :: "char \<Rightarrow> nat option" where
  "hex_digit c =
     (let n = (of_char c :: nat) in
      if 48 \<le> n \<and> n \<le> 57 then Some (n - 48)
      else if 97 \<le> n \<and> n \<le> 102 then Some (n - 87)
      else if 65 \<le> n \<and> n \<le> 70 then Some (n - 55)
      else None)"

definition hex_space :: "char \<Rightarrow> bool" where
  "hex_space c \<longleftrightarrow> (of_char c :: nat) \<in> {9, 10, 11, 12, 13, 32}"

fun from_hex :: "string \<Rightarrow> string option" where
  "from_hex [] = Some []"
| "from_hex [c] = (if hex_space c then Some [] else None)"
| "from_hex (c # d # cs) =
     (if hex_space c then from_hex (d # cs)
      else (case (hex_digit c, hex_digit d) of
              (Some h, Some l) \<Rightarrow> map_option (Cons (char_of (16 * h + l))) (from_hex cs)
            | _ \<Rightarrow> None))"

section \<open>State\<close>

datatype chan_effect =
    StateChange dict
  | PolicyInvalidated json json json
  | KeyRotated json json json
  | ApprovalResolved dict
  | Sent json
  | Counted string
  | Cleared
  | Slept rat

text \<open>
  \<open>c_receiving\<close> and \<open>c_looping\<close> say whether the receive task and the reconnect task are alive,
  \<open>c_delay\<close> is the reconnect loop's local delay.  An absent key is the empty string: the code tests
  only whether a key is truthy.
\<close>

record conn =
  c_api_key :: string
  c_secret_key :: string
  c_hook_state :: bool
  c_hook_policy :: bool
  c_hook_key :: bool
  c_hook_approval :: bool
  c_open :: bool
  c_running :: bool
  c_closed :: bool
  c_receiving :: bool
  c_looping :: bool
  c_failures :: nat
  c_delay :: rat
  c_last_version :: "(json \<times> rat) list"
  c_log :: "chan_effect list"

definition emit :: "chan_effect \<Rightarrow> conn \<Rightarrow> conn" where
  "emit x c = c\<lparr>c_log := c_log c @ [x]\<rparr>"

definition notify :: "bool \<Rightarrow> chan_effect \<Rightarrow> conn \<Rightarrow> conn" where
  "notify hooked x c = (if hooked then emit x c else c)"

definition has_keys :: "conn \<Rightarrow> bool" where
  "has_keys c \<longleftrightarrow> c_api_key c \<noteq> [] \<and> c_secret_key c \<noteq> []"

definition new_conn :: "string \<Rightarrow> string \<Rightarrow> bool \<Rightarrow> bool \<Rightarrow> bool \<Rightarrow> bool \<Rightarrow> conn" where
  "new_conn api_key secret_key on_state on_policy on_key on_approval =
     \<lparr>c_api_key = api_key, c_secret_key = secret_key, c_hook_state = on_state,
      c_hook_policy = on_policy, c_hook_key = on_key, c_hook_approval = on_approval,
      c_open = False, c_running = False, c_closed = False, c_receiving = False, c_looping = False,
      c_failures = 0, c_delay = 1, c_last_version = [], c_log = []\<rparr>"

definition clear_local_state :: "conn \<Rightarrow> conn" where
  "clear_local_state c = emit Cleared (c\<lparr>c_last_version := []\<rparr>)"

text \<open>
  A handler ends normally or with the class of an exception that leaves \<open>_handle_message\<close>, which
  catches only \<open>JSONDecodeError\<close>.
\<close>

type_synonym handled = "conn \<times> string option"

section \<open>Dispatch\<close>

definition dispatch_state :: "json \<Rightarrow> conn \<Rightarrow> handled" where
  "dispatch_state st c =
     (case st of
        JObj d \<Rightarrow>
          (let wid = get_or d ''workflow_id'' (JStr []);
               incoming = get_or d ''version'' (JInt 0) in
           if truthy wid then
             (case py_key wid of
                None \<Rightarrow> (c, Some ''TypeError'')
              | Some k \<Rightarrow>
                  (case py_number incoming of
                     None \<Rightarrow> (c, Some ''TypeError'')
                   | Some n \<Rightarrow>
                       (if n \<le> (case dict_get (c_last_version c) k of None \<Rightarrow> - 1 | Some l \<Rightarrow> l)
                        then (c, None)
                        else (notify (c_hook_state c) (StateChange d)
                                (c\<lparr>c_last_version := dict_set k n (c_last_version c)\<rparr>), None))))
           else (notify (c_hook_state c) (StateChange d) c, None))
      | _ \<Rightarrow> (c, Some ''AttributeError''))"

text \<open>
  \<open>_send_ack\<close>: with keys the code signs the body, adds the signature to the dictionary and sends the
  body it signed.
\<close>

definition ack_body :: "json \<Rightarrow> int \<Rightarrow> dict" where
  "ack_body message_id now =
     [(''type'', JStr ''ack''), (''message_id'', message_id), (''received_at'', JInt now)]"

definition sorted_ack :: "json \<Rightarrow> int \<Rightarrow> dict" where
  "sorted_ack message_id now =
     [(''message_id'', message_id), (''received_at'', JInt now), (''type'', JStr ''ack'')]"

definition send_ack :: "int \<Rightarrow> json \<Rightarrow> conn \<Rightarrow> conn" where
  "send_ack now message_id c =
     (if \<not> c_open c \<or> \<not> c_running c then c
      else emit (Sent (JObj (if has_keys c then sorted_ack message_id now
                             else ack_body message_id now))) c)"

definition acknowledged_states :: "string list" where
  "acknowledged_states = [''Killed'', ''Paused'']"

definition is_acknowledged_state :: "json \<Rightarrow> string + bool" where
  "is_acknowledged_state st =
     (case st of
        JStr s \<Rightarrow> Inr (s \<in> set acknowledged_states \<or> lower s \<in> set (map lower acknowledged_states))
      | JList _ \<Rightarrow> Inl ''TypeError''
      | JObj _ \<Rightarrow> Inl ''TypeError''
      | _ \<Rightarrow> Inl ''AttributeError'')"

definition state_change_with_ack :: "int \<Rightarrow> dict \<Rightarrow> json option \<Rightarrow> conn \<Rightarrow> handled" where
  "state_change_with_ack now data trusted c =
     (case (case trusted of Some t \<Rightarrow> t | None \<Rightarrow> JObj data) of
        JObj d \<Rightarrow>
          (case is_acknowledged_state (get_or d ''state'' (JStr [])) of
             Inl x \<Rightarrow> (c, Some x)
           | Inr acked \<Rightarrow>
               dispatch_state (JObj d)
                 (if acked \<and> truthy (jget d ''message_id'') then send_ack now (jget d ''message_id'') c
                  else c))
      | _ \<Rightarrow> (c, Some ''AttributeError''))"

section \<open>Frames\<close>

text \<open>
  A text frame with the two clock readings its handling may take: when its age is checked and when
  the acknowledgement is stamped.
\<close>

record frame =
  fr_text :: string
  fr_now :: int
  fr_ack_now :: int

definition is_signed :: "dict \<Rightarrow> conn \<Rightarrow> bool" where
  "is_signed data c \<longleftrightarrow>
     truthy (jget data ''signature'') \<and> truthy (jget data ''timestamp'') \<and> has_keys c"

definition frame_timestamp :: "json \<Rightarrow> string + int" where
  "frame_timestamp t =
     (case t of
        JInt _ \<Rightarrow> py_int t
      | JBool _ \<Rightarrow> py_int t
      | JStr _ \<Rightarrow> py_int t
      | _ \<Rightarrow> Inr 0)"

definition nonempty_str :: "json \<Rightarrow> string option" where
  "nonempty_str j = (case j of JStr (ch # s) \<Rightarrow> Some (ch # s) | _ \<Rightarrow> None)"

definition verify_payload :: "string \<Rightarrow> dict \<Rightarrow> string" where
  "verify_payload text data =
     (case nonempty_str (jget data ''signed_payload'') of
        None \<Rightarrow> text
      | Some h \<Rightarrow> (case from_hex h of None \<Rightarrow> text | Some b \<Rightarrow> b))"

definition verify_identity :: "dict \<Rightarrow> conn \<Rightarrow> string" where
  "verify_identity data c =
     (case nonempty_str (jget data ''api_key'') of
        Some s \<Rightarrow> s
      | None \<Rightarrow> (case nonempty_str (jget data ''api_key_id'') of Some s \<Rightarrow> s | None \<Rightarrow> c_api_key c))"

definition frame_verdict :: "chan_env \<Rightarrow> frame \<Rightarrow> dict \<Rightarrow> conn \<Rightarrow> signature_verdict" where
  "frame_verdict E fr data c =
     (case frame_timestamp (jget data ''timestamp'') of
        Inl x \<Rightarrow> Unreadable x
      | Inr ts \<Rightarrow>
          verify_hmac_signature E (fr_now fr) (verify_identity data c) (c_secret_key c) ts
            (verify_payload (fr_text fr) data) (jget data ''signature'') 300)"

text \<open>The body inside the signed bytes; a signed \<open>null\<close> counts as none.\<close>

definition trusted_body :: "chan_env \<Rightarrow> dict \<Rightarrow> json option" where
  "trusted_body E data =
     (case nonempty_str (jget data ''signed_payload'') of
        None \<Rightarrow> None
      | Some h \<Rightarrow>
          (case from_hex h of
             None \<Rightarrow> None
           | Some b \<Rightarrow>
               (case ce_loads E b of
                  None \<Rightarrow> None
                | Some j \<Rightarrow> if j = JNull then None else Some j)))"

text \<open>\<open>initial_state\<close>: one entry, then the loop, which stops at the first exception.\<close>

definition dispatch_entry :: "chan_env \<Rightarrow> json \<Rightarrow> conn \<Rightarrow> handled" where
  "dispatch_entry E entry c =
     (case entry of
        JObj d \<Rightarrow>
          (if truthy (jget d ''signed_payload'') \<and> has_keys c then
             (case jget d ''signed_payload'' of
                JStr h \<Rightarrow>
                  (case from_hex h of
                     None \<Rightarrow> dispatch_state entry c
                   | Some b \<Rightarrow>
                       (case ce_loads E b of
                          None \<Rightarrow> dispatch_state entry c
                        | Some inner \<Rightarrow> dispatch_state inner c))
              | _ \<Rightarrow> (c, Some ''TypeError''))
           else dispatch_state entry c)
      | _ \<Rightarrow> dispatch_state entry c)"

fun dispatch_all :: "chan_env \<Rightarrow> json list \<Rightarrow> conn \<Rightarrow> handled" where
  "dispatch_all E [] c = (c, None)"
| "dispatch_all E (entry # entries) c =
     (case dispatch_entry E entry c of
        (c1, Some x) \<Rightarrow> (c1, Some x)
      | (c1, None) \<Rightarrow> dispatch_all E entries c1)"

definition iterated :: "json \<Rightarrow> string + json list" where
  "iterated j =
     (case j of
        JList xs \<Rightarrow> Inr xs
      | JStr s \<Rightarrow> Inr (map (\<lambda>ch. JStr [ch]) s)
      | JObj d \<Rightarrow> Inr (map (\<lambda>p. JStr (fst p)) d)
      | _ \<Rightarrow> Inl ''TypeError'')"

definition approval_resolved :: "int \<Rightarrow> dict \<Rightarrow> conn \<Rightarrow> conn" where
  "approval_resolved now data c =
     (let outcome = get_or data ''outcome'' (JStr []);
          acked = truthy (jget data ''message_id'')
                  \<and> (outcome = JStr ''approved'' \<or> outcome = JStr ''denied'') \<and> c_open c in
      notify (c_hook_approval c) (ApprovalResolved data)
        (if acked then send_ack now (jget data ''message_id'') c else c))"

definition resync_required :: "conn \<Rightarrow> conn" where
  "resync_required c =
     (clear_local_state c)\<lparr>c_running := False, c_closed := True, c_open := False\<rparr>"

definition handle_type :: "chan_env \<Rightarrow> frame \<Rightarrow> dict \<Rightarrow> json option \<Rightarrow> conn \<Rightarrow> handled" where
  "handle_type E fr data trusted c =
     (let t = get_or data ''type'' (JStr []) in
      if t = JStr ''initial_state'' then
        (case iterated (get_or data ''workflows'' (JList [])) of
           Inl x \<Rightarrow> (c, Some x)
         | Inr entries \<Rightarrow> dispatch_all E entries c)
      else if t = JStr ''state_change'' then state_change_with_ack (fr_ack_now fr) data trusted c
      else if t = JStr ''policy_invalidated'' then
        (notify (c_hook_policy c)
           (PolicyInvalidated (get_or data ''organization_id'' (JStr []))
              (get_or data ''policy_id'' (JStr [])) (get_or data ''new_version'' (JInt 0))) c, None)
      else if t = JStr ''key_rotated'' then
        (notify (c_hook_key c)
           (KeyRotated (get_or data ''organization_id'' (JStr [])) (get_or data ''key_id'' (JStr []))
              (get_or data ''new_version'' (JInt 0))) c, None)
      else if t = JStr ''approval_resolved'' then (approval_resolved (fr_ack_now fr) data c, None)
      else if t = JStr ''resync_required'' then (resync_required c, None)
      else if t = JStr ''pong'' \<or> t = JStr ''subscribed'' \<or> t = JStr ''error'' then (c, None)
      else (emit (Counted ''unknown_ws_message_type_total'') c, None))"

definition reject_frame :: "bool \<Rightarrow> conn \<Rightarrow> conn" where
  "reject_frame expired c =
     emit (Counted ''hmac_verify_failures_total'')
       (if expired then emit (Counted ''hmac_verify_expired_total'') c else c)"

definition handle_data :: "chan_env \<Rightarrow> frame \<Rightarrow> dict \<Rightarrow> conn \<Rightarrow> handled" where
  "handle_data E fr data c =
     (if is_signed data c then
        (case frame_verdict E fr data c of
           Genuine \<Rightarrow> handle_type E fr data (trusted_body E data) c
         | Expired \<Rightarrow> (reject_frame True c, None)
         | Forged \<Rightarrow> (reject_frame False c, None)
         | Unreadable x \<Rightarrow> (c, Some x))
      else handle_type E fr data None c)"

definition handle_message :: "chan_env \<Rightarrow> frame \<Rightarrow> conn \<Rightarrow> handled" where
  "handle_message E fr c =
     (case ce_loads E (fr_text fr) of
        None \<Rightarrow> (c, None)
      | Some (JObj data) \<Rightarrow> handle_data E fr data c
      | Some _ \<Rightarrow> (c, Some ''AttributeError''))"

section \<open>The two tasks\<close>

definition end_receive :: "conn \<Rightarrow> conn" where
  "end_receive c = c\<lparr>c_running := False, c_receiving := False\<rparr>"

definition receive_frame :: "chan_env \<Rightarrow> frame \<Rightarrow> conn \<Rightarrow> conn" where
  "receive_frame E fr c =
     (case handle_message E fr c of
        (c1, None) \<Rightarrow> c1
      | (c1, Some x) \<Rightarrow> end_receive c1)"

definition mark_connected :: "conn \<Rightarrow> conn" where
  "mark_connected c = c\<lparr>c_open := True, c_running := True, c_receiving := True\<rparr>"

definition max_reconnect_attempts :: nat where "max_reconnect_attempts = 10"

text \<open>
  One turn of \<open>_reconnect_loop\<close>; \<open>reachable\<close> is whether \<open>websockets.connect\<close> succeeds in it.
\<close>

definition reconnect_turn :: "bool \<Rightarrow> conn \<Rightarrow> conn" where
  "reconnect_turn reachable c =
     (if c_closed c then c\<lparr>c_looping := False\<rparr>
      else if c_running c then emit (Slept (1 / 2)) c
      else if c_failures c \<ge> max_reconnect_attempts
        then c\<lparr>c_closed := True, c_running := False, c_looping := False\<rparr>
      else if reachable
        then clear_local_state ((mark_connected c)\<lparr>c_delay := 1, c_failures := 0\<rparr>)
      else (emit (Slept (c_delay c)) (c\<lparr>c_failures := Suc (c_failures c)\<rparr>))
             \<lparr>c_delay := min (c_delay c * 2) 60\<rparr>)"

definition open_channel :: "bool \<Rightarrow> conn \<Rightarrow> conn option" where
  "open_channel reachable c =
     (let c1 = c\<lparr>c_closed := False\<rparr> in
      if reachable then Some ((mark_connected c1)\<lparr>c_looping := True, c_delay := 1\<rparr>) else None)"

definition close_channel :: "conn \<Rightarrow> conn" where
  "close_channel c =
     c\<lparr>c_closed := True, c_running := False, c_looping := False, c_receiving := False, c_open := False\<rparr>"

definition send_json :: "json \<Rightarrow> conn \<Rightarrow> string + conn" where
  "send_json message c =
     (if \<not> c_open c \<or> \<not> c_running c then Inl ''ConnectionError'' else Inr (emit (Sent message) c))"

definition is_connected :: "conn \<Rightarrow> bool" where
  "is_connected c \<longleftrightarrow> c_running c \<and> c_open c \<and> \<not> c_closed c"

text \<open>What can happen to an opened channel.\<close>

datatype chan_event = Arrive frame | Lost | Turn bool | CloseCall

fun chan_step :: "chan_env \<Rightarrow> chan_event \<Rightarrow> conn \<Rightarrow> conn" where
  "chan_step E (Arrive fr) c = (if c_receiving c then receive_frame E fr c else c)"
| "chan_step E Lost c = (if c_receiving c then end_receive c else c)"
| "chan_step E (Turn reachable) c = (if c_looping c then reconnect_turn reachable c else c)"
| "chan_step E CloseCall c = close_channel c"

definition chan_run :: "chan_env \<Rightarrow> chan_event list \<Rightarrow> conn \<Rightarrow> conn" where
  "chan_run E evs c = fold (chan_step E) evs c"

end
