(* ===== verification/Control_Channel_Laws.thy ===== *)
theory Control_Channel_Laws
  imports Control_Channel
begin

text \<open>
  What the control channel promises: states reach the runtime in increasing version order, a frame
  with a signature has an effect only when the signature is right, the reconnect loop is bounded; and
  where it falls short: unsigned frames, outer fields the signature does not cover, and a resync that
  ends the channel.
\<close>

section \<open>The versions handed on\<close>

definition versioned :: "dict \<Rightarrow> (json \<times> rat) option" where
  "versioned d =
     (if truthy (get_or d ''workflow_id'' (JStr []))
      then (case py_key (get_or d ''workflow_id'' (JStr [])) of
              None \<Rightarrow> None
            | Some k \<Rightarrow> map_option (Pair k) (py_number (get_or d ''version'' (JInt 0))))
      else None)"

definition last_seen :: "(json \<times> rat) list \<Rightarrow> json \<Rightarrow> rat" where
  "last_seen m k = (case dict_get m k of None \<Rightarrow> - 1 | Some l \<Rightarrow> l)"

text \<open>The version table as the log of effects determines it.\<close>

fun note_effect :: "chan_effect \<Rightarrow> (json \<times> rat) list \<Rightarrow> (json \<times> rat) list" where
  "note_effect (StateChange d) m =
     (case versioned d of None \<Rightarrow> m | Some (k, n) \<Rightarrow> dict_set k n m)"
| "note_effect Cleared m = []"
| "note_effect _ m = m"

fun in_order :: "(json \<times> rat) list \<Rightarrow> chan_effect list \<Rightarrow> bool" where
  "in_order m [] = True"
| "in_order m (x # xs) =
     ((case x of
         StateChange d \<Rightarrow> (case versioned d of None \<Rightarrow> True | Some (k, n) \<Rightarrow> last_seen m k < n)
       | _ \<Rightarrow> True) \<and> in_order (note_effect x m) xs)"

lemma in_order_append:
  "in_order m (xs @ ys) \<longleftrightarrow> in_order m xs \<and> in_order (fold note_effect xs m) ys"
  by (induction xs arbitrary: m) auto

lemma last_seen_set [simp]: "last_seen (dict_set k n m) k' = (if k' = k then n else last_seen m k')"
  by (simp add: last_seen_def)

lemma note_effect_grows:
  assumes "in_order m [x]" "x \<noteq> Cleared"
  shows "last_seen m k \<le> last_seen (note_effect x m) k"
  using assms by (cases x) (auto split: option.splits)

lemma notes_grow:
  "in_order m xs \<Longrightarrow> Cleared \<notin> set xs \<Longrightarrow> last_seen m k \<le> last_seen (fold note_effect xs m) k"
proof (induction xs arbitrary: m)
  case (Cons x xs)
  then have "last_seen m k \<le> last_seen (note_effect x m) k"
    by (intro note_effect_grows) auto
  also have "\<dots> \<le> last_seen (fold note_effect xs (note_effect x m)) k"
    using Cons by simp
  finally show ?case by simp
qed simp

lemma in_order_increases:
  assumes "in_order m (xs @ StateChange d # ys @ StateChange e # zs)" "Cleared \<notin> set ys"
    and "versioned d = Some (k, n)" "versioned e = Some (k, n')"
  shows "n < n'"
proof -
  let ?m = "dict_set k n (fold note_effect xs m)"
  have "in_order ?m ys" "last_seen (fold note_effect ys ?m) k < n'"
    using assms by (auto simp: in_order_append)
  moreover from this(1) have "last_seen ?m k \<le> last_seen (fold note_effect ys ?m) k"
    using assms(2) by (rule notes_grow)
  ultimately show ?thesis by simp
qed

section \<open>The invariant\<close>

definition chan_ok :: "conn \<Rightarrow> bool" where
  "chan_ok c \<longleftrightarrow>
     (c_hook_state c \<longrightarrow> in_order [] (c_log c) \<and> fold note_effect (c_log c) [] = c_last_version c)
     \<and> 1 \<le> c_delay c \<and> c_delay c \<le> 60 \<and> c_failures c \<le> max_reconnect_attempts
     \<and> (c_running c \<longrightarrow> c_receiving c \<and> c_open c)"

definition quiet :: "chan_effect \<Rightarrow> bool" where
  "quiet x \<longleftrightarrow> x \<noteq> Cleared \<and> (\<forall>d. x \<noteq> StateChange d)"

lemma quiet_simps [simp]:
  "quiet (PolicyInvalidated a b v)" "quiet (KeyRotated a b v)" "quiet (ApprovalResolved d)"
  "quiet (Sent j)" "quiet (Counted s)" "quiet (Slept r)"
  by (simp_all add: quiet_def)

lemma quiet_note: "quiet x \<Longrightarrow> note_effect x m = m \<and> in_order m [x]"
  by (cases x) (auto simp: quiet_def)

lemma ok_emit [intro]: "chan_ok c \<Longrightarrow> quiet x \<Longrightarrow> chan_ok (emit x c)"
  using quiet_note [of x] by (auto simp: chan_ok_def emit_def in_order_append)

lemma ok_notify [intro]: "chan_ok c \<Longrightarrow> quiet x \<Longrightarrow> chan_ok (notify b x c)"
  by (simp add: notify_def ok_emit)

lemma ok_clear [intro]: "chan_ok c \<Longrightarrow> chan_ok (clear_local_state c)"
  by (auto simp: chan_ok_def clear_local_state_def emit_def in_order_append)

lemma dispatch_state_cases:
  obtains "fst (dispatch_state st c) = c"
  | d where "st = JObj d" "versioned d = None"
      "dispatch_state st c = (notify (c_hook_state c) (StateChange d) c, None)"
  | d k n where "st = JObj d" "versioned d = Some (k, n)" "last_seen (c_last_version c) k < n"
      "dispatch_state st c =
         (notify (c_hook_state c) (StateChange d)
            (c\<lparr>c_last_version := dict_set k n (c_last_version c)\<rparr>), None)"
  by (cases st)
     (fastforce simp: dispatch_state_def versioned_def last_seen_def Let_def not_le
        split: option.splits if_splits)+

lemma ok_dispatch_state [intro]:
  assumes "chan_ok c" shows "chan_ok (fst (dispatch_state st c))"
  using assms
  by (cases rule: dispatch_state_cases [of st c])
     (auto simp: chan_ok_def notify_def emit_def in_order_append)

lemma ok_send_ack [intro]: "chan_ok c \<Longrightarrow> chan_ok (send_ack now m c)"
  by (auto simp: send_ack_def)

lemma ok_state_change [intro]: "chan_ok c \<Longrightarrow> chan_ok (fst (state_change_with_ack now d t c))"
  by (auto simp: state_change_with_ack_def split: option.splits json.splits sum.splits)

lemma dispatch_entry_dispatches:
  "dispatch_entry E entry c = (c, Some ''TypeError'') \<or>
   (\<exists>st. dispatch_entry E entry c = dispatch_state st c)"
  by (auto simp: dispatch_entry_def split: json.splits option.splits)

lemma ok_dispatch_entry [intro]: "chan_ok c \<Longrightarrow> chan_ok (fst (dispatch_entry E entry c))"
  using dispatch_entry_dispatches [of E entry c] by auto

lemma ok_dispatch_all [intro]: "chan_ok c \<Longrightarrow> chan_ok (fst (dispatch_all E entries c))"
proof (induction E entries c rule: dispatch_all.induct)
  case (2 E entry entries c)
  obtain c1 out where d: "dispatch_entry E entry c = (c1, out)" by fastforce
  with ok_dispatch_entry [OF 2(2), of E entry] have "chan_ok c1" by simp
  with 2 d show ?case by (auto split: option.splits)
qed simp

lemma ok_resync [intro]: "chan_ok c \<Longrightarrow> chan_ok (resync_required c)"
  using ok_clear [of c] by (auto simp: resync_required_def chan_ok_def)

lemma ok_handle_type [intro]: "chan_ok c \<Longrightarrow> chan_ok (fst (handle_type E fr d t c))"
  by (auto simp: handle_type_def Let_def approval_resolved_def split: sum.splits)

lemma ok_handle_data [intro]: "chan_ok c \<Longrightarrow> chan_ok (fst (handle_data E fr d c))"
  by (auto simp: handle_data_def reject_frame_def intro!: ok_emit split: signature_verdict.splits)

lemma ok_handle_message [intro]: "chan_ok c \<Longrightarrow> chan_ok (fst (handle_message E fr c))"
  by (auto simp: handle_message_def split: option.splits json.splits)

lemma ok_end_receive [intro]: "chan_ok c \<Longrightarrow> chan_ok (end_receive c)"
  by (auto simp: end_receive_def chan_ok_def)

lemma ok_receive_frame [intro]: "chan_ok c \<Longrightarrow> chan_ok (receive_frame E fr c)"
  using ok_handle_message [of c E fr]
  by (auto simp: receive_frame_def split: prod.splits option.splits)

lemma ok_reconnect_turn [intro]:
  assumes "chan_ok c" shows "chan_ok (reconnect_turn reachable c)"
proof -
  have "chan_ok (clear_local_state ((mark_connected c)\<lparr>c_delay := 1, c_failures := 0\<rparr>))"
    using assms by (intro ok_clear) (simp add: chan_ok_def mark_connected_def)
  moreover have "chan_ok (c\<lparr>c_looping := False\<rparr>)"
    "chan_ok (c\<lparr>c_closed := True, c_running := False, c_looping := False\<rparr>)"
    "chan_ok (emit (Slept (1 / 2)) c)"
    using assms by (auto simp: chan_ok_def in_order_append emit_def)
  moreover have "chan_ok ((emit (Slept (c_delay c)) (c\<lparr>c_failures := Suc (c_failures c)\<rparr>))
      \<lparr>c_delay := min (c_delay c * 2) 60\<rparr>)" if "\<not> c_failures c \<ge> max_reconnect_attempts"
    using assms that by (auto simp: chan_ok_def in_order_append emit_def)
  ultimately show ?thesis
    by (simp add: reconnect_turn_def)
qed

lemma ok_close [intro]: "chan_ok c \<Longrightarrow> chan_ok (close_channel c)"
  by (simp add: close_channel_def chan_ok_def)

lemma ok_step: "chan_ok c \<Longrightarrow> chan_ok (chan_step E ev c)"
  by (cases ev) auto

text \<open>The keys and the registered callbacks never change.\<close>

definition chan_config :: "conn \<Rightarrow> string \<times> string \<times> bool \<times> bool \<times> bool \<times> bool" where
  "chan_config c = (c_api_key c, c_secret_key c, c_hook_state c, c_hook_policy c, c_hook_key c,
     c_hook_approval c)"

lemma config_simps [simp]:
  "chan_config (emit x c) = chan_config c" "chan_config (notify b x c) = chan_config c"
  "chan_config (clear_local_state c) = chan_config c"
  "chan_config (c\<lparr>c_last_version := v\<rparr>) = chan_config c"
  "chan_config (send_ack now m c) = chan_config c"
  "chan_config (end_receive c) = chan_config c" "chan_config (close_channel c) = chan_config c"
  "chan_config (reconnect_turn reachable c) = chan_config c"
  "chan_config (resync_required c) = chan_config c"
  by (simp_all add: chan_config_def emit_def notify_def clear_local_state_def send_ack_def
        end_receive_def close_channel_def reconnect_turn_def mark_connected_def resync_required_def)

lemma config_dispatch [simp]: "chan_config (fst (dispatch_state st c)) = chan_config c"
  by (rule dispatch_state_cases [of st c]) auto

lemma config_dispatch_all [simp]: "chan_config (fst (dispatch_all E entries c)) = chan_config c"
proof (induction E entries c rule: dispatch_all.induct)
  case (2 E entry entries c)
  have "chan_config (fst (dispatch_entry E entry c)) = chan_config c"
    using dispatch_entry_dispatches [of E entry c] by auto
  with 2 show ?case by (auto split: prod.splits option.splits)
qed simp

lemma config_handle_type [simp]: "chan_config (fst (handle_type E fr d t c)) = chan_config c"
  by (auto simp: handle_type_def Let_def approval_resolved_def state_change_with_ack_def
        split: sum.splits option.splits json.splits)

lemma config_handle_message [simp]: "chan_config (fst (handle_message E fr c)) = chan_config c"
  by (auto simp: handle_message_def handle_data_def reject_frame_def
        split: option.splits json.splits signature_verdict.splits)

lemma config_receive [simp]: "chan_config (receive_frame E fr c) = chan_config c"
  using config_handle_message [of E fr c]
  by (cases "handle_message E fr c") (auto simp: receive_frame_def split: option.splits)

lemma config_step: "chan_config (chan_step E ev c) = chan_config c"
  by (cases ev) auto

interpretation channel: configured_machine "chan_step E" chan_ok chan_config for E
  by unfold_locales (auto intro: ok_step config_step)


section \<open>States arrive in order\<close>

lemma opened_ok:
  assumes "open_channel True (new_conn ak sk st po ke ap) = Some c"
  shows "chan_ok c" "c_hook_state c = st" "c_hook_approval c = ap" "c_api_key c = ak"
    "c_secret_key c = sk" "c_log c = []" "c_looping c" "c_receiving c" "c_failures c = 0" "c_delay c = 1"
    "c_open c" "c_running c" "\<not> c_closed c" "c_last_version c = []"
  using assms
  by (auto simp: open_channel_def Let_def new_conn_def chan_ok_def mark_connected_def)

text \<open>
  C32: whatever frames arrive, however often the connection is lost and whatever the reconnect loop
  does, between two resets of the channel the versions of one workflow handed to the runtime strictly
  increase: no state is handed on twice and none after a newer one.
\<close>

theorem dispatched_versions_increase:
  assumes "open_channel True (new_conn ak sk True po ke ap) = Some c"
    and "c_log (chan_run E evs c) = xs @ StateChange d # ys @ StateChange e # zs" "Cleared \<notin> set ys"
    and "versioned d = Some (k, n)" "versioned e = Some (k, n')"
  shows "n < n'"
proof -
  have ok: "chan_ok (fold (chan_step E) evs c)"
    by (rule channel.run_inv) (rule opened_ok(1) [OF assms(1)])
  moreover have "chan_config (fold (chan_step E) evs c) = chan_config c"
    by (rule channel.run_config)
  then have "c_hook_state (fold (chan_step E) evs c)"
    using opened_ok(2) [OF assms(1)] by (simp add: chan_config_def)
  ultimately have "in_order [] (c_log (chan_run E evs c))"
    by (simp add: chan_ok_def chan_run_def)
  then show ?thesis
    using assms(2-5) by (auto intro: in_order_increases)
qed

section \<open>Signatures\<close>

lemma genuine_iff:
  "frame_verdict E fr d c = Genuine \<longleftrightarrow>
     (\<exists>ts s. frame_timestamp (jget d ''timestamp'') = Inr ts \<and> \<bar>fr_now fr - ts\<bar> \<le> 300
        \<and> jget d ''signature'' = JStr s \<and> is_ascii s
        \<and> s = generate_hmac_signature E (verify_identity d c) (c_secret_key c) ts
                (verify_payload (fr_text fr) d))"
  by (auto simp: frame_verdict_def verify_hmac_signature_def split: sum.splits json.splits)

lemma dispatched_body:
  assumes "fst (dispatch_state (JObj d) c) = c'"
  shows "\<exists>new. c_log c' = c_log c @ new \<and> set new \<subseteq> {StateChange d}"
  using assms
  by (cases rule: dispatch_state_cases [of "JObj d" c]) (auto simp: notify_def emit_def)

lemma acked_log: "\<exists>new. c_log (send_ack now m c) = c_log c @ new \<and> (\<forall>x. StateChange x \<notin> set new)"
  by (auto simp: send_ack_def emit_def)

lemma state_change_body:
  assumes "fst (state_change_with_ack now d t c) = c'" "c_log c' = c_log c @ new"
    and "StateChange x \<in> set new"
  shows "(case t of Some j \<Rightarrow> j | None \<Rightarrow> JObj d) = JObj x"
proof -
  obtain b where b: "(case t of Some j \<Rightarrow> j | None \<Rightarrow> JObj d) = JObj b"
    using assms by (cases "case t of Some j \<Rightarrow> j | None \<Rightarrow> JObj d") (auto simp: state_change_with_ack_def)
  then obtain c1 where c1: "fst (dispatch_state (JObj b) c1) = c'"
      "\<exists>n1. c_log c1 = c_log c @ n1 \<and> (\<forall>x. StateChange x \<notin> set n1)"
    using assms acked_log [of now "jget b ''message_id''" c]
    by (cases "is_acknowledged_state (get_or b ''state'' (JStr []))")
       (auto simp: state_change_with_ack_def split: if_splits)
  with dispatched_body [OF c1(1)] assms(2,3) b show ?thesis by auto
qed

text \<open>
  C20: a frame that carries a signature acts only when the signature is genuine.  With both keys
  configured, a signed frame that does anything to the channel beyond counting its rejection carries
  the HMAC, under the channel's secret, of a timestamp at most 300 seconds from the clock, the named
  identity and the verified payload; and a state change with signed bytes hands on exactly the object
  inside those bytes, whatever its outer fields say.
\<close>

theorem signed_frame_authentic:
  assumes "ce_loads E (fr_text fr) = Some (JObj d)" "is_signed d c"
    and "handle_message E fr c = (c', out)" "c' \<notin> {c, reject_frame True c, reject_frame False c}"
  shows "(\<exists>ts. frame_timestamp (jget d ''timestamp'') = Inr ts \<and> \<bar>fr_now fr - ts\<bar> \<le> 300
        \<and> jget d ''signature'' = JStr (generate_hmac_signature E (verify_identity d c) (c_secret_key c) ts
             (verify_payload (fr_text fr) d)))
    \<and> (get_or d ''type'' (JStr []) = JStr ''state_change'' \<and> trusted_body E d = Some t
        \<and> c_log c' = c_log c @ new \<and> StateChange x \<in> set new \<longrightarrow> t = JObj x)"
proof -
  have g: "frame_verdict E fr d c = Genuine"
    using assms by (auto simp: handle_message_def handle_data_def split: signature_verdict.splits)
  moreover have "t = JObj x" if "get_or d ''type'' (JStr []) = JStr ''state_change''"
    "trusted_body E d = Some t" "c_log c' = c_log c @ new" "StateChange x \<in> set new"
  proof -
    have "fst (state_change_with_ack (fr_ack_now fr) d (Some t) c) = c'"
      using that assms g by (simp add: handle_message_def handle_data_def handle_type_def)
    from state_change_body [OF this that(3,4)] show ?thesis by simp
  qed
  ultimately show ?thesis
    unfolding genuine_iff by blast
qed

text \<open>
  the signature does not cover the outcome of an approval.  Whoever holds one genuine frame with
  signed bytes can change every other field of it: with the five signature fields kept and the type
  set to \<open>approval_resolved\<close>, any approval id and outcome reach the runtime's callback, as long as
  the timestamp is still fresh.
\<close>

theorem signature_does_not_bind_approval:
  assumes "is_signed d c" "frame_verdict E fr d c = Genuine"
    and "nonempty_str (jget d ''signed_payload'') = Some h" "from_hex h = Some b"
    and same: "map (jget d') [''signature'', ''timestamp'', ''signed_payload'', ''api_key'', ''api_key_id'']
       = map (jget d) [''signature'', ''timestamp'', ''signed_payload'', ''api_key'', ''api_key_id'']"
    and "get_or d' ''type'' (JStr []) = JStr ''approval_resolved''"
    and "ce_loads E (fr_text fr') = Some (JObj d')" "fr_now fr' = fr_now fr" "c_hook_approval c"
  shows "\<exists>c'. handle_message E fr' c = (c', None) \<and> ApprovalResolved d' \<in> set (c_log c')"
proof -
  have v: "verify_payload (fr_text fr') d' = verify_payload (fr_text fr) d"
    "verify_identity d' c = verify_identity d c"
    using assms(3,4) same
    by (simp_all add: verify_payload_def verify_identity_def cong: option.case_cong)
  then have "frame_verdict E fr' d' c = Genuine" "is_signed d' c"
    using assms(1,2,8) same by (simp_all add: frame_verdict_def is_signed_def cong: sum.case_cong)
  moreover have "c_hook_approval (send_ack now m c)" for now m
    using assms(9) config_simps(5) [of now m c] by (simp add: chan_config_def)
  ultimately show ?thesis
    using assms(6,7,9)
    by (simp add: handle_message_def handle_data_def handle_type_def approval_resolved_def Let_def
          notify_def emit_def)
qed

lemma dispatch_newer:
  assumes "versioned d = Some (k, n)" "last_seen (c_last_version c) k < n"
  shows "dispatch_state (JObj d) c =
    (notify (c_hook_state c) (StateChange d)
       (c\<lparr>c_last_version := dict_set k n (c_last_version c)\<rparr>), None)"
  using assms
  by (auto simp: dispatch_state_def versioned_def last_seen_def Let_def split: if_splits option.splits)

text \<open>
  removing the signature removes the check.  With both keys configured, a state change without
  a \<open>signature\<close> field is handed to the runtime all the same when its version is new.
\<close>

theorem unsigned_state_is_dispatched:
  assumes "has_keys c" "c_hook_state c" "ce_loads E (fr_text fr) = Some (JObj d)"
    and "jget d ''signature'' = JNull" "get_or d ''type'' (JStr []) = JStr ''state_change''"
    and "get_or d ''state'' (JStr []) = JStr s" "versioned d = Some (k, n)"
    and "last_seen (c_last_version c) k < n"
  shows "\<exists>c'. handle_message E fr c = (c', None) \<and> StateChange d \<in> set (c_log c')"
proof -
  have "\<exists>a. is_acknowledged_state (JStr s) = Inr a" by (simp add: is_acknowledged_state_def)
  then obtain a where a: "is_acknowledged_state (JStr s) = Inr a" ..
  define c1 where "c1 = (if a \<and> truthy (jget d ''message_id'')
     then send_ack (fr_ack_now fr) (jget d ''message_id'') c else c)"
  have "c_last_version c1 = c_last_version c" "c_hook_state c1"
    using assms(2) by (simp_all add: c1_def send_ack_def emit_def)
  with dispatch_newer [OF assms(7), of c1] assms(8) obtain c'
    where c': "dispatch_state (JObj d) c1 = (c', None)" "StateChange d \<in> set (c_log c')"
    by (simp add: notify_def emit_def)
  have "handle_message E fr c = (c', None)"
    using assms(3-6) a c'(1)
    by (simp add: handle_message_def handle_data_def is_signed_def handle_type_def
          state_change_with_ack_def c1_def [symmetric])
  with c'(2) show ?thesis by blast
qed

section \<open>Reconnecting\<close>

fun backoff :: "rat \<Rightarrow> nat \<Rightarrow> rat list" where
  "backoff d 0 = []"
| "backoff d (Suc n) = d # backoff (min (d * 2) 60) n"

lemma failing_turns:
  assumes "c_looping c" "\<not> c_closed c" "\<not> c_running c" "c_failures c + n = max_reconnect_attempts"
  shows "fold (chan_step E) (replicate (Suc n) (Turn False)) c
    = c\<lparr>c_closed := True, c_running := False, c_looping := False, c_failures := max_reconnect_attempts,
        c_delay := ((\<lambda>d. min (d * 2) 60) ^^ n) (c_delay c),
        c_log := c_log c @ map Slept (backoff (c_delay c) n)\<rparr>"
  using assms
proof (induction n arbitrary: c)
  case 0
  then show ?case by (simp add: reconnect_turn_def)
next
  case (Suc n)
  let ?c = "reconnect_turn False c"
  from Suc.prems have c: "?c = c\<lparr>c_failures := Suc (c_failures c), c_delay := min (c_delay c * 2) 60,
      c_log := c_log c @ [Slept (c_delay c)]\<rparr>"
    by (simp add: reconnect_turn_def emit_def)
  from Suc.IH [of ?c] Suc.prems c funpow_swap1 [of "\<lambda>d. min (d * 2) 60" n "c_delay c"] show ?case
    by simp
qed

lemma backoff_ten:
  "backoff 1 10 = [1, 2, 4, 8, 16, 32, 60, 60, 60, 60]"
  "((\<lambda>d. min (d * 2) 60) ^^ 10) (1 :: rat) = 60"
  by (simp_all add: eval_nat_numeral)

text \<open>
  the reconnect loop gives up.  From the moment an open channel loses its connection, if the
  server stays unreachable, the loop sleeps exactly the doubling delays 1, 2, 4, ..., 60 (303 seconds
  in all), makes ten attempts, then closes the channel and ends.
\<close>

theorem reconnect_gives_up:
  assumes "open_channel True (new_conn ak sk st po ke ap) = Some c"
  shows "let c' = chan_run E (Lost # replicate 11 (Turn False)) c in
     c_closed c' \<and> \<not> c_looping c' \<and> c_failures c' = 10 \<and> c_delay c' = 60
     \<and> c_log c' = map Slept [1, 2, 4, 8, 16, 32, 60, 60, 60, 60]
     \<and> sum_list [1, 2, 4, 8, 16, 32, 60, 60, 60, 60 :: rat] = 303"
proof -
  obtain l where l: "chan_step E Lost c = l" "l = c\<lparr>c_running := False, c_receiving := False\<rparr>"
    using opened_ok [OF assms] by (simp add: end_receive_def)
  then have "c_looping l" "\<not> c_closed l" "\<not> c_running l" "c_failures l + 10 = max_reconnect_attempts"
    using opened_ok [OF assms] by (simp_all add: max_reconnect_attempts_def)
  note turns = failing_turns [OF this, of E]
  have run: "chan_run E (Lost # replicate 11 (Turn False)) c
      = fold (chan_step E) (replicate (Suc 10) (Turn False)) l"
    by (simp only: chan_run_def fold_Cons comp_apply l(1)) (simp add: eval_nat_numeral)
  have "c_delay l = 1" "c_log l = []"
    using opened_ok [OF assms] l(2) by simp_all
  with turns show ?thesis
    unfolding run Let_def by (simp add: backoff_ten max_reconnect_attempts_def)
qed

text \<open>A closed channel stays closed: no frame, no turn and no lost connection opens it again.\<close>

definition shut :: "conn \<Rightarrow> bool" where
  "shut c \<longleftrightarrow> c_closed c \<and> \<not> c_open c \<and> \<not> c_running c"

lemma shut_simps [simp]:
  "shut (emit x c) = shut c" "shut (notify b x c) = shut c" "shut (clear_local_state c) = shut c"
  "shut (c\<lparr>c_last_version := v\<rparr>) = shut c" "shut (send_ack now m c) = shut c"
  "shut (resync_required c)" "shut (close_channel c)"
  by (simp_all add: shut_def emit_def notify_def clear_local_state_def send_ack_def
        resync_required_def close_channel_def)

lemma shut_dispatch [simp]: "shut (fst (dispatch_state st c)) = shut c"
  by (rule dispatch_state_cases [of st c]) auto

lemma shut_dispatch_all: "shut c \<Longrightarrow> shut (fst (dispatch_all E entries c))"
proof (induction E entries c rule: dispatch_all.induct)
  case (2 E entry entries c)
  have "shut (fst (dispatch_entry E entry c))"
    using dispatch_entry_dispatches [of E entry c] 2(2) by auto
  with 2 show ?case by (auto split: prod.splits option.splits)
qed simp

lemma shut_handle_type: "shut c \<Longrightarrow> shut (fst (handle_type E fr d t c))"
  by (auto simp: handle_type_def Let_def approval_resolved_def state_change_with_ack_def
        shut_dispatch_all split: sum.splits option.splits json.splits)

lemma shut_handle_message: "shut c \<Longrightarrow> shut (fst (handle_message E fr c))"
  by (auto simp: handle_message_def handle_data_def reject_frame_def shut_handle_type
        split: option.splits json.splits signature_verdict.splits)

lemma shut_receive: "shut c \<Longrightarrow> shut (receive_frame E fr c)"
  using shut_handle_message [of c E fr]
  by (cases "handle_message E fr c")
     (auto simp: receive_frame_def end_receive_def shut_def split: option.splits)

lemma shut_step: "shut c \<Longrightarrow> shut (chan_step E ev c)"
proof (cases ev)
  case (Arrive fr)
  then show "shut c \<Longrightarrow> shut (chan_step E ev c)" by (simp add: shut_receive)
qed (auto simp: end_receive_def reconnect_turn_def shut_def close_channel_def)

interpretation closing: invariant_machine "chan_step E" shut for E
  by unfold_locales (rule shut_step)

text \<open>
  a resync ends the channel for good.  After an accepted \<open>resync_required\<close> the channel is closed,
  and no later frame, lost connection or turn of the reconnect loop connects it again: kills pushed by
  the server no longer arrive.
\<close>

theorem resync_never_reconnects:
  assumes "ce_loads E (fr_text fr) = Some (JObj d)"
    and "get_or d ''type'' (JStr []) = JStr ''resync_required''"
    and "\<not> is_signed d c \<or> frame_verdict E fr d c = Genuine"
  shows "\<not> is_connected (chan_run E evs (receive_frame E fr c))
    \<and> \<not> c_open (chan_run E evs (receive_frame E fr c))"
proof -
  have "handle_message E fr c = (resync_required c, None)"
    using assms by (auto simp: handle_message_def handle_data_def handle_type_def)
  then have "shut (receive_frame E fr c)" by (simp add: receive_frame_def)
  then have "shut (chan_run E evs (receive_frame E fr c))"
    unfolding chan_run_def by (rule closing.run_inv)
  then show ?thesis by (simp add: shut_def is_connected_def)
qed

text \<open>
  A frame that is not an object, or that carries a version or a state of the wrong type, ends the
  receive task.
\<close>

lemma bad_version_ends_receive:
  assumes "ce_loads E (fr_text fr) = Some (JObj d)" "\<not> is_signed d c"
    and "get_or d ''type'' (JStr []) = JStr ''state_change''" "get_or d ''state'' (JStr []) = JStr s"
    and "nonempty_str (get_or d ''workflow_id'' (JStr [])) = Some k" "jget d ''version'' = JStr v"
    and "\<not> truthy (jget d ''message_id'')"
  shows "receive_frame E fr c = end_receive c"
proof -
  have "get_or d ''version'' (JInt 0) = JStr v"
    using assms(6) by (auto simp: jget_def get_or_def split: option.splits)
  moreover have "get_or d ''workflow_id'' (JStr []) = JStr k" "k \<noteq> []"
    using assms(5) by (auto simp: nonempty_str_def split: json.splits list.splits)
  ultimately have "dispatch_state (JObj d) c = (c, Some ''TypeError'')"
    by (simp add: dispatch_state_def py_key_def py_number_def)
  then show ?thesis
    using assms(1-4,7)
    by (simp add: receive_frame_def handle_message_def handle_data_def handle_type_def
          state_change_with_ack_def is_acknowledged_state_def)
qed

section \<open>Concrete channels\<close>

definition scripted :: "(string \<times> dict) list \<Rightarrow> chan_env" where
  "scripted script =
     \<lparr>ce_loads = (\<lambda>t. map_option JObj (map_of script t)), ce_sha256 = (\<lambda>s. ''5a''), ce_hmac = (\<lambda>k m. ''5ec'')\<rparr>"

definition kill_push :: "int \<Rightarrow> dict" where
  "kill_push n =
     [(''type'', JStr ''state_change''), (''workflow_id'', JStr ''w''), (''state'', JStr ''Killed''),
      (''version'', JInt n)]"

definition signed_push :: "string \<Rightarrow> dict" where
  "signed_push t =
     [(''type'', JStr t), (''signature'', JStr ''5ec''), (''timestamp'', JInt 100),
      (''signed_payload'', JStr ''41'')]"

definition pushes :: chan_env where
  "pushes =
     scripted [(''one'', kill_push 1), (''two'', kill_push 2), (''signed'', signed_push ''state_change''),
       (''spliced'', signed_push ''approval_resolved''), (''A'', kill_push 1),
       (''resync'', [(''type'', JStr ''resync_required'')])]"

definition push :: "string \<Rightarrow> frame" where
  "push t = \<lparr>fr_text = t, fr_now = 130, fr_ack_now = 131\<rparr>"

definition live_conn :: conn where
  "live_conn = (mark_connected (new_conn ''key'' ''secret'' True False False True))\<lparr>c_looping := True\<rparr>"

lemma live_opened: "open_channel True (new_conn ''key'' ''secret'' True False False True) = Some live_conn"
  by (simp add: open_channel_def live_conn_def mark_connected_def new_conn_def)

lemmas live_facts = opened_ok [OF live_opened, simplified]

lemma push_loads:
  "ce_loads pushes (fr_text (push ''one'')) = Some (JObj (kill_push 1))"
  "ce_loads pushes (fr_text (push ''two'')) = Some (JObj (kill_push 2))"
  "ce_loads pushes (fr_text (push ''signed'')) = Some (JObj (signed_push ''state_change''))"
  "ce_loads pushes (fr_text (push ''spliced'')) = Some (JObj (signed_push ''approval_resolved''))"
  "ce_loads pushes (fr_text (push ''resync'')) = Some (JObj [(''type'', JStr ''resync_required'')])"
  "ce_loads pushes ''A'' = Some (JObj (kill_push 1))"
  by (simp_all add: pushes_def scripted_def push_def)

lemma push_fields [simp]:
  "get_or (kill_push n) ''type'' (JStr []) = JStr ''state_change''"
  "get_or (kill_push n) ''state'' (JStr []) = JStr ''Killed''"
  "jget (kill_push n) ''message_id'' = JNull" "jget (kill_push n) ''signature'' = JNull"
  "get_or (signed_push t) ''type'' (JStr []) = JStr t" "jget (signed_push t) ''signature'' = JStr ''5ec''"
  "jget (signed_push t) ''timestamp'' = JInt 100" "jget (signed_push t) ''signed_payload'' = JStr ''41''"
  "jget (signed_push t) ''api_key'' = JNull" "jget (signed_push t) ''api_key_id'' = JNull"
  by (simp_all add: kill_push_def signed_push_def)

lemma kill_push_versioned: "versioned (kill_push n) = Some (JStr ''w'', of_int n)"
  by (simp add: versioned_def kill_push_def py_key_def py_number_def)

lemma kill_push_handled:
  assumes "ce_loads E (fr_text fr) = Some (JObj (kill_push n))" "c_hook_state c"
    and "last_seen (c_last_version c) (JStr ''w'') < of_int n"
  shows "receive_frame E fr c =
    c\<lparr>c_last_version := dict_set (JStr ''w'') (of_int n) (c_last_version c),
      c_log := c_log c @ [StateChange (kill_push n)]\<rparr>"
proof -
  have "dispatch_state (JObj (kill_push n)) c =
      (c\<lparr>c_last_version := dict_set (JStr ''w'') (of_int n) (c_last_version c),
         c_log := c_log c @ [StateChange (kill_push n)]\<rparr>, None)"
    using dispatch_newer [OF kill_push_versioned, of c n] assms(2,3) by (simp add: notify_def emit_def)
  moreover have "\<not> is_signed (kill_push n) c" by (simp add: is_signed_def)
  ultimately show ?thesis
    using assms(1)
    by (simp add: receive_frame_def handle_message_def handle_data_def handle_type_def
          state_change_with_ack_def is_acknowledged_state_def)
qed

lemma two_kills_log:
  "c_log (chan_run pushes [Arrive (push ''one''), Arrive (push ''two'')] live_conn)
     = [StateChange (kill_push 1), StateChange (kill_push 2)]"
proof -
  have one: "receive_frame pushes (push ''one'') live_conn
      = live_conn\<lparr>c_last_version := [(JStr ''w'', 1)], c_log := [StateChange (kill_push 1)]\<rparr>"
    using kill_push_handled [OF push_loads(1), of live_conn] live_facts(2,6,14)
    by (simp add: last_seen_def dict_set_def)
  show ?thesis
    using kill_push_handled [OF push_loads(2), of "receive_frame pushes (push ''one'') live_conn"]
      live_facts(2,8)
    by (simp add: chan_run_def one last_seen_def)
qed

lemma dispatched_versions_increase_witness:
  "c_log (chan_run pushes [Arrive (push ''one''), Arrive (push ''two'')] live_conn)
     = [StateChange (kill_push 1), StateChange (kill_push 2)] \<and> (of_int 1 :: rat) < of_int 2"
proof
  from dispatched_versions_increase [OF live_opened, of pushes "[Arrive (push ''one''), Arrive (push ''two'')]"
      "[]" "kill_push 1" "[]" "kill_push 2" "[]", OF _ _ kill_push_versioned kill_push_versioned] two_kills_log
  show "(of_int 1 :: rat) < of_int 2" by simp
qed (rule two_kills_log)

lemma live_signed: "is_signed (signed_push t) live_conn"
  by (simp add: is_signed_def has_keys_def live_facts)

lemma live_genuine: "frame_verdict pushes (push name) (signed_push t) live_conn = Genuine"
  by (simp add: frame_verdict_def frame_timestamp_def py_int_def
        verify_hmac_signature_def push_def is_ascii_def generate_hmac_signature_def pushes_def
        scripted_def)

lemma signed_bytes: "nonempty_str (jget (signed_push t) ''signed_payload'') = Some ''41''" "from_hex ''41'' = Some ''A''"
  by (simp_all add: nonempty_str_def hex_space_def hex_digit_def Let_def char_of_def bit_iff_odd)

lemma live_trusted: "trusted_body pushes (signed_push t) = Some (JObj (kill_push 1))"
  unfolding trusted_body_def signed_bytes option.case push_loads by simp

lemma signed_frame_authentic_witness:
  "\<exists>c' new. handle_message pushes (push ''signed'') live_conn = (c', None)
     \<and> c_log c' = c_log live_conn @ new \<and> StateChange (kill_push 1) \<in> set new
     \<and> (\<exists>ts. frame_timestamp (jget (signed_push ''state_change'') ''timestamp'') = Inr ts
          \<and> \<bar>fr_now (push ''signed'') - ts\<bar> \<le> 300)"
proof -
  let ?c = "live_conn\<lparr>c_last_version := [(JStr ''w'', 1)], c_log := [StateChange (kill_push 1)]\<rparr>"
  have h: "handle_message pushes (push ''signed'') live_conn = (?c, None)"
    using dispatch_newer [OF kill_push_versioned, of live_conn 1] live_facts
    by (simp add: handle_message_def push_loads handle_data_def live_signed live_genuine live_trusted
          handle_type_def state_change_with_ack_def is_acknowledged_state_def notify_def emit_def
          last_seen_def dict_set_def)
  have "?c \<notin> {live_conn, reject_frame True live_conn, reject_frame False live_conn}"
    using live_facts by (auto simp: reject_frame_def emit_def dest: arg_cong [where f = c_log])
  from signed_frame_authentic [OF push_loads(3) live_signed h this, of "JObj (kill_push 1)"]
  show ?thesis using h live_facts by (intro exI [of _ ?c] exI [of _ "[StateChange (kill_push 1)]"]) auto
qed

lemma signature_does_not_bind_approval_witness:
  "\<exists>c'. handle_message pushes (push ''spliced'') live_conn = (c', None)
     \<and> ApprovalResolved (signed_push ''approval_resolved'') \<in> set (c_log c')"
  by (rule signature_does_not_bind_approval
        [OF live_signed [of "''state_change''"] live_genuine [of "''signed''"] signed_bytes])
     (simp_all add: push_loads live_facts, simp_all add: push_def)

lemma unsigned_state_is_dispatched_witness:
  "has_keys live_conn
   \<and> (\<exists>c'. handle_message pushes (push ''one'') live_conn = (c', None)
        \<and> StateChange (kill_push 1) \<in> set (c_log c'))"
proof
  show keys: "has_keys live_conn" by (simp add: has_keys_def live_facts)
  show "\<exists>c'. handle_message pushes (push ''one'') live_conn = (c', None)
        \<and> StateChange (kill_push 1) \<in> set (c_log c')"
    by (rule unsigned_state_is_dispatched [OF keys live_facts(2) push_loads(1) _ _ _ kill_push_versioned])
       (simp_all add: last_seen_def live_facts)
qed

lemma reconnect_gives_up_witness:
  "let c' = chan_run pushes (Lost # replicate 11 (Turn False)) live_conn in
     c_closed c' \<and> \<not> c_looping c' \<and> c_failures c' = 10 \<and> c_delay c' = 60
     \<and> c_log c' = map Slept [1, 2, 4, 8, 16, 32, 60, 60, 60, 60]
     \<and> sum_list [1, 2, 4, 8, 16, 32, 60, 60, 60, 60 :: rat] = 303"
  by (rule reconnect_gives_up [OF live_opened])

lemma resync_never_reconnects_witness:
  "is_connected live_conn
   \<and> \<not> is_connected (chan_run pushes [Lost, Turn True, Turn True] (receive_frame pushes (push ''resync'') live_conn))"
proof
  show "is_connected live_conn" by (simp add: is_connected_def live_facts)
  show "\<not> is_connected (chan_run pushes [Lost, Turn True, Turn True] (receive_frame pushes (push ''resync'') live_conn))"
    using resync_never_reconnects [OF push_loads(5), of live_conn] by (simp add: is_signed_def)
qed

end
