(* ===== verification/Control_Plane.thy ===== *)
theory Control_Plane
  imports Control_Channel_Laws
begin

text \<open>
  The runtime's side of the control plane (\<open>src/nullrun/runtime.py\<close>): the table of remote workflow
  states, filled by the channel's pushes and by the status poll, and \<open>check_control_plane\<close>, which
  stops a paused or killed workflow.  A workflow id is a JSON string, the key of a push is normalised
  as Python's dictionaries do.
\<close>

section \<open>The table of remote states\<close>

record plane =
  p_states :: "(json \<times> dict) list"
  p_bound :: string

text \<open>\<open>pe_status\<close> is \<open>GET /api/v1/status/<workflow_id>\<close>: a response or the class of an exception.\<close>

record 'w plane_env =
  pe_status :: "json \<Rightarrow> 'w \<Rightarrow> (string + http_response) \<times> 'w"

definition remote_state_for :: "json \<Rightarrow> plane \<Rightarrow> dict \<times> plane" where
  "remote_state_for k p =
     (case dict_get (p_states p) k of
        Some d \<Rightarrow> (d, p)
      | None \<Rightarrow> ([], p\<lparr>p_states := dict_set k [] (p_states p)\<rparr>))"

definition set_remote_state :: "json \<Rightarrow> dict \<Rightarrow> plane \<Rightarrow> plane" where
  "set_remote_state k d p = p\<lparr>p_states := dict_set k d (p_states p)\<rparr>"

definition pushed_state :: "dict \<Rightarrow> dict" where
  "pushed_state d =
     [(''state'', get_or d ''state'' (JStr ''Normal'')), (''version'', get_or d ''version'' (JInt 0)),
      (''reason'', jget d ''reason''), (''updated_at'', get_or d ''updated_at'' (JInt 0))]"

text \<open>The state callback: exceptions (an unhashable workflow id) are swallowed.\<close>

definition on_state_push :: "dict \<Rightarrow> plane \<Rightarrow> plane" where
  "on_state_push d p =
     (if truthy (jget d ''workflow_id'')
      then (case py_key (jget d ''workflow_id'') of
              None \<Rightarrow> p
            | Some k \<Rightarrow> set_remote_state k (pushed_state d) p)
      else p)"

text \<open>
  \<open>_fetch_remote_state\<close> after its request: only a 200 answer with an object changes the state, and it
  keeps the cached version and reason.
\<close>

definition apply_status :: "json \<Rightarrow> string + http_response \<Rightarrow> plane \<Rightarrow> plane" where
  "apply_status k res p =
     (case res of
        Inl x \<Rightarrow> p
      | Inr r \<Rightarrow>
          (if resp_status r = 200 then
             (case resp_json r of
                None \<Rightarrow> p
              | Some j \<Rightarrow>
                  (case remote_state_for k p of
                     (cached, p1) \<Rightarrow>
                       (case j of
                          JObj data \<Rightarrow>
                            set_remote_state k
                              (dict_set ''state''
                                 (get_or data ''state'' (get_or cached ''state'' (JStr ''Normal''))) cached) p1
                        | _ \<Rightarrow> p1)))
           else p))"

definition fetch_remote_state :: "'w plane_env \<Rightarrow> json \<Rightarrow> plane \<Rightarrow> 'w \<Rightarrow> plane \<times> 'w" where
  "fetch_remote_state E k p w =
     (case pe_status E k w of (res, w1) \<Rightarrow> (apply_status k res p, w1))"

text \<open>One round of the HTTP poller over the workflows known at its start.\<close>

definition poll_round :: "'w plane_env \<Rightarrow> plane \<times> 'w \<Rightarrow> plane \<times> 'w" where
  "poll_round E s =
     fold (\<lambda>k (p, w). fetch_remote_state E k p w) (map fst (p_states (fst s))) s"

section \<open>The check\<close>

datatype plane_verdict = Proceed | PausedExn json json | KilledExn json json

definition resolve_workflow_id :: "string \<Rightarrow> plane \<Rightarrow> string" where
  "resolve_workflow_id explicit p = (if explicit \<noteq> [] then explicit else p_bound p)"

definition state_verdict :: "json \<Rightarrow> dict \<Rightarrow> plane_verdict" where
  "state_verdict k d =
     (let normalized = (case get_or d ''state'' (JStr ''Normal'') of JStr s \<Rightarrow> lower s | _ \<Rightarrow> ''normal'') in
      if normalized = ''paused'' then PausedExn k (get_or d ''reason'' (JStr ''remote pause''))
      else if normalized = ''killed'' then KilledExn k (get_or d ''reason'' (JStr ''remote kill''))
      else Proceed)"

definition check_control_plane ::
  "'w plane_env \<Rightarrow> string \<Rightarrow> plane \<Rightarrow> 'w \<Rightarrow> plane_verdict \<times> plane \<times> 'w" where
  "check_control_plane E workflow_id p w =
     (let resolved = resolve_workflow_id workflow_id p in
      if resolved = [] then (Proceed, p, w)
      else
        (case remote_state_for (JStr resolved) p of
           (d, p1) \<Rightarrow>
             (if d = [] then
                (case fetch_remote_state E (JStr resolved) p1 w of
                   (p2, w1) \<Rightarrow>
                     (case remote_state_for (JStr resolved) p2 of
                        (d2, p3) \<Rightarrow> (state_verdict (JStr resolved) d2, p3, w1)))
              else (state_verdict (JStr resolved) d, p1, w))))"

section \<open>Channel and runtime together\<close>

fun deliver :: "chan_effect \<Rightarrow> plane \<Rightarrow> plane" where
  "deliver (StateChange d) p = on_state_push d p"
| "deliver _ p = p"

text \<open>The reference: the state last pushed for a workflow.\<close>

definition push_for :: "json \<Rightarrow> dict \<Rightarrow> bool" where
  "push_for k d \<longleftrightarrow> truthy (jget d ''workflow_id'') \<and> py_key (jget d ''workflow_id'') = Some k"

fun last_push :: "json \<Rightarrow> chan_effect list \<Rightarrow> dict option" where
  "last_push k [] = None"
| "last_push k (x # xs) =
     (case last_push k xs of
        Some d \<Rightarrow> Some d
      | None \<Rightarrow> (case x of StateChange d \<Rightarrow> if push_for k d then Some d else None | _ \<Rightarrow> None))"

lemma deliver_lookup:
  "dict_get (p_states (fold deliver effs p)) k
   = (case last_push k effs of Some d \<Rightarrow> Some (pushed_state d) | None \<Rightarrow> dict_get (p_states p) k)"
proof (induction effs arbitrary: p)
  case (Cons x xs)
  then show ?case
    by (cases x) (auto simp: on_state_push_def set_remote_state_def push_for_def split: option.splits)
qed simp

lemma pushed_state_nonempty [simp]: "pushed_state d \<noteq> []"
  by (simp add: pushed_state_def)

lemma verdict_of_push:
  "state_verdict k (pushed_state d)
   = (case get_or d ''state'' (JStr ''Normal'') of
        JStr s \<Rightarrow> (if lower s = ''paused'' then PausedExn k (jget d ''reason'')
                  else if lower s = ''killed'' then KilledExn k (jget d ''reason'') else Proceed)
      | _ \<Rightarrow> Proceed)"
  by (simp add: state_verdict_def pushed_state_def split: json.split)

lemma check_known:
  assumes "wf_id \<noteq> []" "dict_get (p_states p) (JStr wf_id) = Some d" "d \<noteq> []"
  shows "check_control_plane E wf_id p w = (state_verdict (JStr wf_id) d, p, w)"
  using assms by (simp add: check_control_plane_def resolve_workflow_id_def remote_state_for_def)

text \<open>
  the check obeys the newest state the server pushed.  Whatever frames arrive on the channel, the
  verdict for a workflow is decided by the last state the channel handed on for it: a kill or a pause,
  in any letter case, stops the workflow with the pushed reason, any other state lets it proceed, and
  the status endpoint is not asked.
\<close>

theorem control_plane_obeys_last_push:
  assumes "last_push (JStr wf_id) (c_log (chan_run E evs c)) = Some d" "wf_id \<noteq> []"
  shows "let p' = fold deliver (c_log (chan_run E evs c)) p in
     check_control_plane F wf_id p' w =
       ((case get_or d ''state'' (JStr ''Normal'') of
           JStr s \<Rightarrow> (if lower s = ''paused'' then PausedExn (JStr wf_id) (jget d ''reason'')
                     else if lower s = ''killed'' then KilledExn (JStr wf_id) (jget d ''reason'') else Proceed)
         | _ \<Rightarrow> Proceed), p', w)"
  unfolding Let_def verdict_of_push [symmetric]
  by (rule check_known) (simp_all add: assms deliver_lookup)

text \<open>
  an answer of the status poll undoes a kill.  The poll compares no versions: when its answer,
  asked for before the kill was pushed, is applied after it, the workflow proceeds again.
\<close>

theorem stale_poll_erases_kill:
  assumes "dict_get (p_states p) (JStr wf_id) = Some old" "old \<noteq> []" "wf_id \<noteq> []"
    and "state_verdict (JStr wf_id) old = KilledExn (JStr wf_id) reason"
    and "resp_status r = 200" "resp_json r = Some (JObj data)" "get_or data ''state'' JNull = JStr s"
    and "lower s \<notin> {''paused'', ''killed''}"
  shows "fst (check_control_plane E wf_id p w) = KilledExn (JStr wf_id) reason
    \<and> fst (check_control_plane E wf_id (apply_status (JStr wf_id) (Inr r) p) w) = Proceed"
proof
  show "fst (check_control_plane E wf_id p w) = KilledExn (JStr wf_id) reason"
    using assms(1-4) by (simp add: check_known)
  let ?new = "dict_set ''state'' (JStr s) old"
  have "get_or data ''state'' v = JStr s" for v
    using assms(7) by (auto simp: get_or_def split: option.splits)
  then have "apply_status (JStr wf_id) (Inr r) p = set_remote_state (JStr wf_id) ?new p"
    using assms(1,5,6) by (simp add: apply_status_def remote_state_for_def)
  moreover have "get_or ?new ''state'' v = JStr s" for v by (simp add: get_or_def)
  then have "state_verdict (JStr wf_id) ?new = Proceed"
    using assms(8) by (simp add: state_verdict_def)
  moreover have "?new \<noteq> []" by (cases old) (auto simp: dict_set_def)
  ultimately show "fst (check_control_plane E wf_id (apply_status (JStr wf_id) (Inr r) p) w) = Proceed"
    using assms(3) by (simp add: check_known set_remote_state_def)
qed

lemma lower_states:
  "lower ''Killed'' = ''killed''" "lower ''Paused'' = ''paused''" "lower ''Normal'' = ''normal''"
  by (simp_all add: lower_def lower_char_def char_of_def bit_iff_odd)

text \<open>Nothing known and no answer: the workflow proceeds.\<close>

lemma unknown_state_proceeds:
  assumes "dict_get (p_states p) (JStr wf_id) = None" "wf_id \<noteq> []"
    and "pe_status E (JStr wf_id) w = (res, w')" "\<forall>r. res = Inr r \<longrightarrow> resp_status r \<noteq> 200"
  shows "fst (check_control_plane E wf_id p w) = Proceed"
  using assms
  by (auto simp: check_control_plane_def resolve_workflow_id_def remote_state_for_def
        fetch_remote_state_def apply_status_def state_verdict_def lower_states split: sum.splits)

section \<open>Concrete scenes\<close>

definition no_status :: "nat plane_env" where
  "no_status = \<lparr>pe_status = (\<lambda>k n. (Inl ''ConnectError'', Suc n))\<rparr>"

definition empty_plane :: plane where
  "empty_plane = \<lparr>p_states = [], p_bound = []\<rparr>"

lemma control_plane_obeys_last_push_witness:
  "last_push (JStr ''w'') (c_log (chan_run pushes [Arrive (push ''one''), Arrive (push ''two'')] live_conn))
     = Some (kill_push 2)
   \<and> fst (check_control_plane no_status ''w''
       (fold deliver (c_log (chan_run pushes [Arrive (push ''one''), Arrive (push ''two'')] live_conn)) empty_plane) 0)
     = KilledExn (JStr ''w'') JNull"
proof -
  have l: "last_push (JStr ''w'') (c_log (chan_run pushes [Arrive (push ''one''), Arrive (push ''two'')] live_conn))
     = Some (kill_push 2)"
    using two_kills_log
    by (simp add: push_for_def kill_push_def py_key_def py_number_def)
  have "jget (kill_push 2) ''reason'' = JNull" "get_or (kill_push 2) ''state'' (JStr ''Normal'') = JStr ''Killed''"
    by (simp_all add: kill_push_def)
  with control_plane_obeys_last_push [OF l, of empty_plane no_status 0] l show ?thesis
    by (simp add: Let_def lower_states)
qed

lemma stale_poll_erases_kill_witness:
  "fst (check_control_plane no_status ''w''
      (apply_status (JStr ''w'')
         (Inr \<lparr>resp_status = 200, resp_json = Some (JObj [(''state'', JStr ''Normal'')]), resp_retry_after = None\<rparr>)
         (on_state_push (kill_push 1) empty_plane)) 0) = Proceed"
proof -
  let ?p = "on_state_push (kill_push 1) empty_plane"
  have p: "dict_get (p_states ?p) (JStr ''w'') = Some (pushed_state (kill_push 1))"
    by (simp add: on_state_push_def kill_push_def py_key_def py_number_def set_remote_state_def)
  have "state_verdict (JStr ''w'') (pushed_state (kill_push 1)) = KilledExn (JStr ''w'') JNull"
    by (simp add: verdict_of_push lower_states) (simp add: kill_push_def lower_states)
  from stale_poll_erases_kill [OF p _ _ this, of
      "\<lparr>resp_status = 200, resp_json = Some (JObj [(''state'', JStr ''Normal'')]), resp_retry_after = None\<rparr>"
      "[(''state'', JStr ''Normal'')]" "''Normal''" no_status 0]
  show ?thesis by (simp add: lower_def lower_char_def char_of_def bit_iff_odd)
qed

end
