(* ===== verification/Approval_Wait.thy ===== *)
theory Approval_Wait
  imports Control_Plane
begin

text \<open>
  Waiting for a human approval (\<open>src/nullrun/runtime.py\<close>): the thread that asked registers a cell
  and waits on its event, the channel's thread takes the cell out of the table, signals the event and
  then writes the outcome into the cell.  The two threads interleave, so the component is a step
  relation over a store of cells; the rest is the bound on the time waited.
\<close>

section \<open>How long to wait\<close>

definition max_approval_timeout :: rat where "max_approval_timeout = 3600"
definition min_approval_timeout :: rat where "min_approval_timeout = 1"

text \<open>
  \<open>float(x)\<close> of a JSON value: an integer too large for a double raises \<open>OverflowError\<close>, which the
  callers do not catch.  \<open>float_of\<close> reads a text.
\<close>

definition py_float :: "(string \<Rightarrow> rat option) \<Rightarrow> json \<Rightarrow> string + rat" where
  "py_float float_of j =
     (case j of
        JInt i \<Rightarrow> (if \<bar>i\<bar> \<ge> 2 ^ 1024 - 2 ^ 970 then Inl ''OverflowError'' else Inr (of_int i))
      | JFloat r \<Rightarrow> Inr r
      | JBool b \<Rightarrow> Inr (if b then 1 else 0)
      | JStr s \<Rightarrow> (case float_of s of Some r \<Rightarrow> Inr r | None \<Rightarrow> Inl ''ValueError'')
      | _ \<Rightarrow> Inl ''TypeError'')"

definition validate_approval_timeout :: "(string \<Rightarrow> rat option) \<Rightarrow> json \<Rightarrow> string + rat option" where
  "validate_approval_timeout float_of value =
     (if value = JNull then Inr None
      else (case py_float float_of value of
              Inl x \<Rightarrow> if x = ''OverflowError'' then Inl x else Inr None
            | Inr r \<Rightarrow>
                Inr (if r < min_approval_timeout \<or> r > max_approval_timeout then None else Some r)))"

text \<open>The wait re-validates the number it is given and falls back to the configured default.\<close>

definition effective_timeout :: "rat \<Rightarrow> rat option \<Rightarrow> rat" where
  "effective_timeout dflt given =
     (let kept = (case given of
                    None \<Rightarrow> None
                  | Some r \<Rightarrow> if r < min_approval_timeout \<or> r > max_approval_timeout then None else Some r) in
      case kept of Some r \<Rightarrow> (if r > 0 then r else dflt) | None \<Rightarrow> dflt)"

section \<open>Cells, handlers and their steps\<close>

datatype waiter = Waiting | Woken | Answered "string option" | TimedOut

record approval_cell =
  ac_id :: json
  ac_event :: bool
  ac_outcome :: "string option"
  ac_waiter :: waiter

text \<open>A push on its way through \<open>_handle_approval_resolved\<close>, with the cell it took.\<close>

datatype handler_stage =
    Arrived dict
  | Popped dict nat
  | Marked dict nat
  | Signalled dict nat
  | Handled dict nat
  | Ignored dict
  | Failed dict

record approvals =
  ap_pending :: "(json \<times> nat) list"
  ap_cells :: "approval_cell list"
  ap_by_execution :: "(json \<times> json) list"
  ap_handlers :: "handler_stage list"

definition no_approvals :: approvals where
  "no_approvals = \<lparr>ap_pending = [], ap_cells = [], ap_by_execution = [], ap_handlers = []\<rparr>"

definition new_cell :: "json \<Rightarrow> approval_cell" where
  "new_cell k = \<lparr>ac_id = k, ac_event = False, ac_outcome = None, ac_waiter = Waiting\<rparr>"

definition register :: "json \<Rightarrow> approvals \<Rightarrow> approvals" where
  "register k s =
     s\<lparr>ap_cells := ap_cells s @ [new_cell k], ap_pending := dict_set k (length (ap_cells s)) (ap_pending s)\<rparr>"

definition push_outcome :: "dict \<Rightarrow> string option" where
  "push_outcome d =
     (case py_or (get_or d ''outcome'' (JStr [])) (JStr []) of JStr s \<Rightarrow> Some (lower s) | _ \<Rightarrow> None)"

definition push_key :: "dict \<Rightarrow> json option" where
  "push_key d = py_key (get_or d ''approval_id'' (JStr []))"

definition set_stage :: "nat \<Rightarrow> handler_stage \<Rightarrow> approvals \<Rightarrow> approvals" where
  "set_stage i h s = s\<lparr>ap_handlers := (ap_handlers s)[i := h]\<rparr>"

definition set_cell :: "nat \<Rightarrow> (approval_cell \<Rightarrow> approval_cell) \<Rightarrow> approvals \<Rightarrow> approvals" where
  "set_cell a f s = s\<lparr>ap_cells := (ap_cells s)[a := f (ap_cells s ! a)]\<rparr>"

definition pop_approval :: "nat \<Rightarrow> dict \<Rightarrow> approvals \<Rightarrow> approvals" where
  "pop_approval i d s =
     (case (push_outcome d, push_key d) of
        (Some o', Some k) \<Rightarrow>
          (case dict_get (ap_pending s) k of
             None \<Rightarrow> set_stage i (Ignored d) s
           | Some a \<Rightarrow> set_stage i (Popped d a) (s\<lparr>ap_pending := dict_pop k (ap_pending s)\<rparr>))
      | _ \<Rightarrow> set_stage i (Failed d) s)"

definition mark_resolved :: "nat \<Rightarrow> dict \<Rightarrow> nat \<Rightarrow> approvals \<Rightarrow> approvals" where
  "mark_resolved i d a s =
     (let e = get_or d ''execution_id'' (JStr []) in
      if truthy e then
        (case py_key e of
           None \<Rightarrow> set_stage i (Failed d) s
         | Some k \<Rightarrow>
             set_stage i (Marked d a)
               (s\<lparr>ap_by_execution := dict_set k (get_or d ''approval_id'' (JStr [])) (ap_by_execution s)\<rparr>))
      else set_stage i (Marked d a) s)"

definition time_out :: "nat \<Rightarrow> approvals \<Rightarrow> approvals" where
  "time_out a s =
     set_cell a (\<lambda>c. c\<lparr>ac_waiter := TimedOut\<rparr>)
       (s\<lparr>ap_pending := dict_pop (ac_id (ap_cells s ! a)) (ap_pending s)\<rparr>)"

inductive approval_step :: "approvals \<Rightarrow> approvals \<Rightarrow> bool" where
  Register: "py_key j = Some k \<Longrightarrow> approval_step s (register k s)"
| Arrive: "approval_step s (s\<lparr>ap_handlers := ap_handlers s @ [Arrived d]\<rparr>)"
| Pop: "i < length (ap_handlers s) \<Longrightarrow> ap_handlers s ! i = Arrived d
          \<Longrightarrow> approval_step s (pop_approval i d s)"
| Mark: "i < length (ap_handlers s) \<Longrightarrow> ap_handlers s ! i = Popped d a
          \<Longrightarrow> approval_step s (mark_resolved i d a s)"
| Signal: "i < length (ap_handlers s) \<Longrightarrow> ap_handlers s ! i = Marked d a
          \<Longrightarrow> approval_step s (set_stage i (Signalled d a) (set_cell a (\<lambda>c. c\<lparr>ac_event := True\<rparr>) s))"
| Write: "i < length (ap_handlers s) \<Longrightarrow> ap_handlers s ! i = Signalled d a
          \<Longrightarrow> approval_step s (set_stage i (Handled d a)
                (set_cell a (\<lambda>c. c\<lparr>ac_outcome := push_outcome d\<rparr>) s))"
| Wake: "a < length (ap_cells s) \<Longrightarrow> ac_waiter (ap_cells s ! a) = Waiting \<Longrightarrow> ac_event (ap_cells s ! a)
          \<Longrightarrow> approval_step s (set_cell a (\<lambda>c. c\<lparr>ac_waiter := Woken\<rparr>) s)"
| Read: "a < length (ap_cells s) \<Longrightarrow> ac_waiter (ap_cells s ! a) = Woken
          \<Longrightarrow> approval_step s (set_cell a (\<lambda>c. c\<lparr>ac_waiter := Answered (ac_outcome c)\<rparr>) s)"
| TimeOut: "a < length (ap_cells s) \<Longrightarrow> ac_waiter (ap_cells s ! a) = Waiting
          \<Longrightarrow> \<not> ac_event (ap_cells s ! a) \<Longrightarrow> approval_step s (time_out a s)"

text \<open>What the gate makes of an answered wait.\<close>

datatype approval_verdict = Resume | DeniedExn | ExpiredExn

definition approval_verdict :: "waiter \<Rightarrow> approval_verdict option" where
  "approval_verdict w =
     (case w of
        Answered o' \<Rightarrow>
          Some (if o' = Some ''approved'' then Resume else if o' = Some ''denied'' then DeniedExn else ExpiredExn)
      | TimedOut \<Rightarrow> Some ExpiredExn
      | _ \<Rightarrow> None)"

section \<open>Bounds\<close>

text \<open>
  a wait for an approval is bounded.  A server value is used only between 1 and 3600 seconds,
  whatever JSON it is, and anything else falls back to the configured default; the default itself is
  not clamped.  Only an integer beyond the range of doubles escapes as an exception.
\<close>

theorem approval_wait_bounded:
  "case validate_approval_timeout float_of value of
     Inr r \<Rightarrow>
       (effective_timeout dflt r = dflt \<or> 1 \<le> effective_timeout dflt r \<and> effective_timeout dflt r \<le> 3600)
       \<and> (case r of Some t \<Rightarrow> effective_timeout dflt r = t | None \<Rightarrow> effective_timeout dflt r = dflt)
   | Inl x \<Rightarrow> x = ''OverflowError'' \<and> (\<exists>i. value = JInt i \<and> \<bar>i\<bar> \<ge> 2 ^ 1023)"
proof -
  have "\<bar>i\<bar> \<ge> 2 ^ 1023" if "\<bar>i\<bar> \<ge> 2 ^ 1024 - 2 ^ 970" for i :: int
  proof -
    have "(2::int) ^ 1023 \<le> 2 ^ 1024 - 2 ^ 970" by simp
    with that show ?thesis by linarith
  qed
  then show ?thesis
    by (auto simp: validate_approval_timeout_def py_float_def effective_timeout_def
          min_approval_timeout_def max_approval_timeout_def Let_def
        split: json.splits option.splits sum.splits if_splits)
qed

section \<open>Approved means approved\<close>

inductive reachable :: "approvals \<Rightarrow> bool" where
  Start: "reachable no_approvals"
| Step: "reachable s \<Longrightarrow> approval_step s s' \<Longrightarrow> reachable s'"

text \<open>The push a handler has matched to a cell.\<close>

fun matched :: "handler_stage \<Rightarrow> (dict \<times> nat) option" where
  "matched (Popped d a) = Some (d, a)"
| "matched (Marked d a) = Some (d, a)"
| "matched (Signalled d a) = Some (d, a)"
| "matched (Handled d a) = Some (d, a)"
| "matched _ = None"

definition written :: "approvals \<Rightarrow> nat \<Rightarrow> string option \<Rightarrow> bool" where
  "written s a v \<longleftrightarrow> (\<exists>d. Handled d a \<in> set (ap_handlers s) \<and> push_outcome d = v)"

definition approvals_ok :: "approvals \<Rightarrow> bool" where
  "approvals_ok s \<longleftrightarrow>
     (\<forall>h \<in> set (ap_handlers s). \<forall>d a. matched h = Some (d, a) \<longrightarrow>
        a < length (ap_cells s) \<and> push_key d = Some (ac_id (ap_cells s ! a)) \<and> push_outcome d \<noteq> None)
     \<and> (\<forall>k a. dict_get (ap_pending s) k = Some a \<longrightarrow> a < length (ap_cells s) \<and> ac_id (ap_cells s ! a) = k)
     \<and> (\<forall>a < length (ap_cells s). \<forall>v. ac_outcome (ap_cells s ! a) = Some v \<longrightarrow> written s a (Some v))
     \<and> (\<forall>a < length (ap_cells s). \<forall>v. ac_waiter (ap_cells s ! a) = Answered (Some v) \<longrightarrow> written s a (Some v))"

lemma ok_handlers:
  "approvals_ok s \<Longrightarrow> i < length (ap_handlers s) \<Longrightarrow> matched (ap_handlers s ! i) = Some (d, a) \<Longrightarrow>
     a < length (ap_cells s) \<and> push_key d = Some (ac_id (ap_cells s ! a)) \<and> push_outcome d \<noteq> None"
  using nth_mem unfolding approvals_ok_def by blast

text \<open>Replacing the stage of a handler that has not written keeps what others have written.\<close>

lemma written_keep:
  assumes "written s a v" "i < length (ap_handlers s)" "\<forall>d b. ap_handlers s ! i \<noteq> Handled d b"
  shows "written (set_stage i h s) a v"
proof -
  obtain d where d: "Handled d a \<in> set (ap_handlers s)" "push_outcome d = v"
    using assms(1) by (auto simp: written_def)
  then obtain j where j: "j < length (ap_handlers s)" "ap_handlers s ! j = Handled d a"
    by (auto simp: in_set_conv_nth)
  then have "i \<noteq> j" using assms(3) by auto
  with j have "(ap_handlers s)[i := h] ! j = Handled d a" "j < length ((ap_handlers s)[i := h])" by auto
  then have "Handled d a \<in> set ((ap_handlers s)[i := h])" by (metis nth_mem)
  with d(2) show ?thesis by (auto simp: written_def set_stage_def)
qed

lemma ok_set_stage:
  assumes ok: "approvals_ok s" and i: "i < length (ap_handlers s)" "\<forall>d b. ap_handlers s ! i \<noteq> Handled d b"
    and new: "\<And>d a. matched h = Some (d, a) \<Longrightarrow>
      a < length (ap_cells s) \<and> push_key d = Some (ac_id (ap_cells s ! a)) \<and> push_outcome d \<noteq> None"
  shows "approvals_ok (set_stage i h s)"
proof -
  have w: "written s a v \<Longrightarrow> written (set_stage i h s) a v" for a v
    by (rule written_keep [OF _ i])
  have "h' \<in> set (ap_handlers s) \<or> h' = h" if "h' \<in> set ((ap_handlers s)[i := h])" for h'
    using that set_update_subset_insert by fastforce
  with ok new w show ?thesis
    unfolding approvals_ok_def by (simp add: set_stage_def) blast
qed

lemma ok_set_cell:
  assumes ok: "approvals_ok s"
    and "\<And>c. ac_id (f c) = ac_id c"
    and "\<And>v. ac_outcome (f (ap_cells s ! a)) = Some v \<Longrightarrow> a < length (ap_cells s) \<Longrightarrow> written s a (Some v)"
    and "\<And>v. ac_waiter (f (ap_cells s ! a)) = Answered (Some v) \<Longrightarrow> a < length (ap_cells s) \<Longrightarrow> written s a (Some v)"
  shows "approvals_ok (set_cell a f s)"
proof -
  let ?cs = "(ap_cells s)[a := f (ap_cells s ! a)]"
  have id: "ac_id (?cs ! b) = ac_id (ap_cells s ! b)" for b
    using assms(2) by (cases "a < length (ap_cells s)") (auto simp: nth_list_update list_update_beyond)
  have "written s b (Some v)" if "b < length (ap_cells s)" "ac_outcome (?cs ! b) = Some v" for b v
    using that assms(3) ok by (cases "b = a") (auto simp: approvals_ok_def)
  moreover have "written s b (Some v)"
    if "b < length (ap_cells s)" "ac_waiter (?cs ! b) = Answered (Some v)" for b v
    using that assms(4) ok by (cases "b = a") (auto simp: approvals_ok_def)
  ultimately show ?thesis
    using ok unfolding approvals_ok_def by (simp add: set_cell_def written_def id)
qed

lemma ok_pending:
  assumes "approvals_ok s" "\<And>k a. dict_get m k = Some a \<Longrightarrow> dict_get (ap_pending s) k = Some a"
  shows "approvals_ok (s\<lparr>ap_pending := m\<rparr>)"
  using assms unfolding approvals_ok_def by (simp add: written_def) blast

lemma written_frame [simp]:
  "written (set_cell a f s) b v = written s b v" "written (s\<lparr>ap_pending := m\<rparr>) b v = written s b v"
  by (simp_all add: written_def set_cell_def)

lemma ok_register: "approvals_ok s \<Longrightarrow> approvals_ok (register k s)"
  unfolding approvals_ok_def
  by (auto simp: register_def new_cell_def nth_append written_def less_Suc_eq split: if_splits)

lemma ok_pop:
  assumes "approvals_ok s" "i < length (ap_handlers s)" "ap_handlers s ! i = Arrived d"
  shows "approvals_ok (pop_approval i d s)"
proof (cases "push_outcome d = None \<or> push_key d = None")
  case True
  then have "pop_approval i d s = set_stage i (Failed d) s"
    by (auto simp: pop_approval_def split: option.splits)
  moreover have "approvals_ok (set_stage i (Failed d) s)"
    using assms by (intro ok_set_stage) auto
  ultimately show ?thesis by simp
next
  case False
  then obtain v k where vk: "push_outcome d = Some v" "push_key d = Some k" by auto
  show ?thesis
  proof (cases "dict_get (ap_pending s) k")
    case None
    moreover have "approvals_ok (set_stage i (Ignored d) s)"
      using assms by (intro ok_set_stage) auto
    ultimately show ?thesis using vk by (simp add: pop_approval_def)
  next
    case (Some a)
    let ?s = "s\<lparr>ap_pending := dict_pop k (ap_pending s)\<rparr>"
    have "approvals_ok ?s"
      using assms(1) by (rule ok_pending) (simp split: if_splits)
    moreover have "a < length (ap_cells s)" "ac_id (ap_cells s ! a) = k"
      using assms(1) Some by (simp_all add: approvals_ok_def)
    ultimately have "approvals_ok (set_stage i (Popped d a) ?s)"
      using assms vk by (intro ok_set_stage) auto
    with vk Some show ?thesis by (simp add: pop_approval_def)
  qed
qed

lemma ok_mark:
  assumes "approvals_ok s" "i < length (ap_handlers s)" "ap_handlers s ! i = Popped d a"
  shows "approvals_ok (mark_resolved i d a s)"
proof -
  have "approvals_ok (s\<lparr>ap_by_execution := m\<rparr>)" for m
    using assms(1) by (simp add: approvals_ok_def written_def)
  moreover have "matched (Marked d a) = Some (d, a)" by simp
  note m = ok_handlers [OF assms(1,2), of d a]
  ultimately show ?thesis
    using assms m by (auto simp: mark_resolved_def Let_def intro!: ok_set_stage split: option.splits)
qed

lemma ok_cells:
  assumes "approvals_ok s" "a < length (ap_cells s)"
  shows "ac_outcome (ap_cells s ! a) = Some v \<Longrightarrow> written s a (Some v)"
    and "ac_waiter (ap_cells s ! a) = Answered (Some v) \<Longrightarrow> written s a (Some v)"
  using assms unfolding approvals_ok_def by blast+

lemma ok_arrive: "approvals_ok s \<Longrightarrow> approvals_ok (s\<lparr>ap_handlers := ap_handlers s @ [Arrived d]\<rparr>)"
  unfolding approvals_ok_def by (simp add: written_def ball_Un)

lemma ok_signal:
  assumes "approvals_ok s" "i < length (ap_handlers s)" "ap_handlers s ! i = Marked d a"
  shows "approvals_ok (set_stage i (Signalled d a) (set_cell a (\<lambda>c. c\<lparr>ac_event := True\<rparr>) s))"
proof -
  note m = ok_handlers [OF assms(1,2), of d a]
  have "approvals_ok (set_cell a (\<lambda>c. c\<lparr>ac_event := True\<rparr>) s)"
    using assms(1) by (intro ok_set_cell) (simp_all add: ok_cells)
  then show ?thesis
    using assms(2,3) m by (intro ok_set_stage) (auto simp: set_cell_def)
qed

lemma ok_write:
  assumes "approvals_ok s" "i < length (ap_handlers s)" "ap_handlers s ! i = Signalled d a"
  shows "approvals_ok (set_stage i (Handled d a) (set_cell a (\<lambda>c. c\<lparr>ac_outcome := push_outcome d\<rparr>) s))"
proof -
  let ?f = "\<lambda>c. c\<lparr>ac_outcome := push_outcome d\<rparr>" and ?s = "set_stage i (Handled d a) s"
  have st: "approvals_ok ?s"
    using assms ok_handlers [OF assms(1,2), of d a] by (intro ok_set_stage) auto
  have "written ?s a (push_outcome d)"
    using assms(2) by (auto simp: written_def set_stage_def intro: set_update_memI)
  with st have "approvals_ok (set_cell a ?f ?s)"
    by (intro ok_set_cell) (simp_all add: ok_cells)
  moreover have "set_cell a ?f ?s = set_stage i (Handled d a) (set_cell a ?f s)"
    by (simp add: set_cell_def set_stage_def)
  ultimately show ?thesis by simp
qed

lemma ok_wait:
  assumes "approvals_ok s" "w \<in> {Woken, TimedOut, Answered (ac_outcome (ap_cells s ! a))}"
  shows "approvals_ok (set_cell a (\<lambda>c. c\<lparr>ac_waiter := w\<rparr>) s)"
  using assms by (intro ok_set_cell) (auto simp: ok_cells, metis ok_cells(1))

lemma ok_time_out: "approvals_ok s \<Longrightarrow> approvals_ok (time_out a s)"
  unfolding time_out_def by (intro ok_wait ok_pending) (auto split: if_splits)

lemma approval_step_ok: "approval_step s s' \<Longrightarrow> approvals_ok s \<Longrightarrow> approvals_ok s'"
proof (induction rule: approval_step.induct)
  case (Read a s)
  have "set_cell a (\<lambda>c. c\<lparr>ac_waiter := Answered (ac_outcome c)\<rparr>) s
      = set_cell a (\<lambda>c. c\<lparr>ac_waiter := Answered (ac_outcome (ap_cells s ! a))\<rparr>) s"
    by (simp add: set_cell_def)
  with Read show ?case by (simp add: ok_wait)
qed (simp_all add: ok_register ok_arrive ok_pop ok_mark ok_signal ok_write ok_wait ok_time_out)

lemma reachable_ok: "reachable s \<Longrightarrow> approvals_ok s"
  by (induction rule: reachable.induct)
     (simp add: approvals_ok_def no_approvals_def, rule approval_step_ok)

text \<open>
  C21: a privileged call resumes only on an approval.  In every interleaving of waiting threads and
  channel pushes, a wait that ends in \<open>Resume\<close> was matched by a handled push for the same approval id
  whose outcome is \<open>approved\<close> in some letter case; a wait that ends in \<open>DeniedExn\<close> by one that says
  \<open>denied\<close>.
\<close>

theorem resume_needs_approval:
  assumes "reachable s" "a < length (ap_cells s)"
    and "approval_verdict (ac_waiter (ap_cells s ! a)) = Some v" "v \<noteq> ExpiredExn"
  shows "\<exists>d. Handled d a \<in> set (ap_handlers s) \<and> push_key d = Some (ac_id (ap_cells s ! a))
    \<and> push_outcome d = Some (if v = Resume then ''approved'' else ''denied'')"
proof -
  have ok: "approvals_ok s" using assms(1) by (rule reachable_ok)
  have "ac_waiter (ap_cells s ! a) = Answered (Some (if v = Resume then ''approved'' else ''denied''))"
    using assms(3,4) by (auto simp: approval_verdict_def split: waiter.splits if_splits)
  with ok assms(2) have "written s a (Some (if v = Resume then ''approved'' else ''denied''))"
    by (simp only: approvals_ok_def)
  then obtain d where "Handled d a \<in> set (ap_handlers s)"
      "push_outcome d = Some (if v = Resume then ''approved'' else ''denied'')"
    by (auto simp: written_def)
  moreover from this(1) ok have "push_key d = Some (ac_id (ap_cells s ! a))"
    by (auto simp: approvals_ok_def)
  ultimately show ?thesis by blast
qed

section \<open>Two ways to lose an approval\<close>

lemma reach [intro]: "approval_step s s' \<Longrightarrow> reachable s \<Longrightarrow> reachable s'"
  by (rule Step)

text \<open>
  an approval can be lost between the signal and the write.  The handler signals the event before
  it writes the outcome, so a waiter that wakes in between finds no outcome: the operator approved, the
  push was handled, and the call still ends as an expired approval.
\<close>

theorem approval_race_expires:
  assumes "py_key j = Some k" "push_key d = Some k" "push_outcome d = Some ''approved''"
    and "py_key (get_or d ''execution_id'' (JStr [])) = Some e"
  shows "\<exists>s. reachable s \<and> ap_handlers s = [Handled d 0] \<and> length (ap_cells s) = 1
    \<and> ac_id (ap_cells s ! 0) = k \<and> ac_outcome (ap_cells s ! 0) = Some ''approved''
    \<and> approval_verdict (ac_waiter (ap_cells s ! 0)) = Some ExpiredExn"
proof -
  define m where "m = ap_by_execution (mark_resolved 0 d 0 (no_approvals\<lparr>ap_handlers := [Popped d 0]\<rparr>))"
  define st where "st h ev out w b p =
    \<lparr>ap_pending = p, ap_cells = [\<lparr>ac_id = k, ac_event = ev, ac_outcome = out, ac_waiter = w\<rparr>],
     ap_by_execution = b, ap_handlers = h\<rparr>" for h ev out w b p
  have "approval_step no_approvals (register k no_approvals)" by (rule Register) (rule assms(1))
  then have "reachable (register k no_approvals)" using Start by blast
  then have "reachable (st [] False None Waiting [] [(k, 0)])"
    by (simp add: st_def register_def no_approvals_def new_cell_def dict_set_def)
  from reach [OF Arrive [of _ d] this] have "reachable (st [Arrived d] False None Waiting [] [(k, 0)])"
    by (simp add: st_def)
  from reach [OF Pop [of 0 _ d] this] have "reachable (st [Popped d 0] False None Waiting [] [])"
    using assms by (simp add: st_def pop_approval_def set_stage_def dict_pop_def)
  from reach [OF Mark [of 0 _ d 0] this] have "reachable (st [Marked d 0] False None Waiting m [])"
    using assms(4) by (cases "truthy (get_or d ''execution_id'' (JStr []))")
      (simp_all add: st_def mark_resolved_def m_def set_stage_def no_approvals_def Let_def)
  from reach [OF Signal [of 0 _ d 0] this] have "reachable (st [Signalled d 0] True None Waiting m [])"
    by (simp add: st_def set_stage_def set_cell_def)
  from reach [OF Wake [of 0] this] have "reachable (st [Signalled d 0] True None Woken m [])"
    by (simp add: st_def set_stage_def set_cell_def)
  from reach [OF Read [of 0] this] have "reachable (st [Signalled d 0] True None (Answered None) m [])"
    by (simp add: st_def set_stage_def set_cell_def)
  from reach [OF Write [of 0 _ d 0] this]
  have "reachable (st [Handled d 0] True (Some ''approved'') (Answered None) m [])"
    using assms(3) by (simp add: st_def set_stage_def set_cell_def)
  then show ?thesis
    by (intro exI [of _ "st [Handled d 0] True (Some ''approved'') (Answered None) m []"])
       (simp add: st_def approval_verdict_def)
qed

definition approved_push :: dict where
  "approved_push = [(''approval_id'', JStr ''a1''), (''outcome'', JStr ''approved'')]"

lemma approved_push_facts:
  "push_key approved_push = Some (JStr ''a1'')" "push_outcome approved_push = Some ''approved''"
  "py_key (JStr ''a1'') = Some (JStr ''a1'')"
  "py_key (get_or approved_push ''execution_id'' (JStr [])) = Some (JStr [])"
  by (simp_all add: approved_push_def push_key_def push_outcome_def py_key_def py_number_def py_or_def
        lower_def lower_char_def char_of_def bit_iff_odd)

lemma approval_race_expires_witness:
  "\<exists>s. reachable s \<and> ap_handlers s = [Handled approved_push 0] \<and> length (ap_cells s) = 1
    \<and> ac_id (ap_cells s ! 0) = JStr ''a1'' \<and> ac_outcome (ap_cells s ! 0) = Some ''approved''
    \<and> approval_verdict (ac_waiter (ap_cells s ! 0)) = Some ExpiredExn"
  by (rule approval_race_expires [OF approved_push_facts(3,1,2,4)])

text \<open>
  Two waits for one approval id: the time-out of the first removes the registration of the second, and
  the approval that then arrives is ignored.
\<close>

lemma second_wait_loses_push:
  assumes "py_key j = Some k" "push_key d = Some k" "push_outcome d = Some v"
  shows "\<exists>s. reachable s \<and> ap_handlers s = [Ignored d] \<and> length (ap_cells s) = 2
    \<and> ac_id (ap_cells s ! 1) = k \<and> ac_waiter (ap_cells s ! 1) = Waiting \<and> \<not> ac_event (ap_cells s ! 1)"
proof -
  let ?c = "\<lambda>w. \<lparr>ac_id = k, ac_event = False, ac_outcome = None, ac_waiter = w\<rparr>"
  let ?st = "\<lambda>p w h. \<lparr>ap_pending = p, ap_cells = [?c w, ?c Waiting], ap_by_execution = [], ap_handlers = h\<rparr>"
  have "reachable (register k (register k no_approvals))"
    using Start Register [OF assms(1)] by blast
  then have "reachable (?st [(k, 1)] Waiting [])"
    by (simp add: register_def no_approvals_def new_cell_def dict_set_def)
  from reach [OF TimeOut [of 0] this] have "reachable (?st [] TimedOut [])"
    by (simp add: time_out_def set_cell_def dict_pop_def)
  from reach [OF Arrive [of _ d] this] have "reachable (?st [] TimedOut [Arrived d])" by simp
  from reach [OF Pop [of 0 _ d] this] have "reachable (?st [] TimedOut [Ignored d])"
    using assms by (simp add: pop_approval_def set_stage_def)
  then show ?thesis by (intro exI [of _ "?st [] TimedOut [Ignored d]"]) simp
qed

text \<open>The run in which nothing is lost, with the resumed call.\<close>

lemma resume_needs_approval_witness:
  "\<exists>s d. reachable s \<and> approval_verdict (ac_waiter (ap_cells s ! 0)) = Some Resume
     \<and> Handled d 0 \<in> set (ap_handlers s) \<and> push_outcome d = Some ''approved''"
proof -
  let ?d = approved_push and ?k = "JStr ''a1''"
  define st where "st h ev out w p =
    \<lparr>ap_pending = p, ap_cells = [\<lparr>ac_id = ?k, ac_event = ev, ac_outcome = out, ac_waiter = w\<rparr>],
     ap_by_execution = [], ap_handlers = h\<rparr>" for h ev out w p
  have "reachable (register ?k no_approvals)" using Start Register [OF approved_push_facts(3)] by blast
  then have "reachable (st [] False None Waiting [(?k, 0)])"
    by (simp add: st_def register_def no_approvals_def new_cell_def dict_set_def)
  from reach [OF Arrive [of _ ?d] this] have "reachable (st [Arrived ?d] False None Waiting [(?k, 0)])"
    by (simp add: st_def)
  from reach [OF Pop [of 0 _ ?d] this] have "reachable (st [Popped ?d 0] False None Waiting [])"
    using approved_push_facts by (simp add: st_def pop_approval_def set_stage_def dict_pop_def)
  from reach [OF Mark [of 0 _ ?d 0] this] have "reachable (st [Marked ?d 0] False None Waiting [])"
    by (simp add: st_def mark_resolved_def set_stage_def approved_push_def)
  from reach [OF Signal [of 0 _ ?d 0] this] have "reachable (st [Signalled ?d 0] True None Waiting [])"
    by (simp add: st_def set_stage_def set_cell_def)
  from reach [OF Write [of 0 _ ?d 0] this] have "reachable (st [Handled ?d 0] True (Some ''approved'') Waiting [])"
    using approved_push_facts by (simp add: st_def set_stage_def set_cell_def)
  from reach [OF Wake [of 0] this] have "reachable (st [Handled ?d 0] True (Some ''approved'') Woken [])"
    by (simp add: st_def set_cell_def)
  from reach [OF Read [of 0] this]
  have r: "reachable (st [Handled ?d 0] True (Some ''approved'') (Answered (Some ''approved'')) [])"
    by (simp add: st_def set_cell_def)
  have v: "approval_verdict (ac_waiter (ap_cells (st [Handled ?d 0] True (Some ''approved'')
      (Answered (Some ''approved'')) []) ! 0)) = Some Resume"
    by (simp add: st_def approval_verdict_def)
  from resume_needs_approval [OF r _ v] r v show ?thesis
    by (intro exI) (auto simp: st_def)
qed

end
