(* ===== verification/Block_Exception.thy ===== *)
theory Block_Exception
  imports Gate Error_Contract
begin

text \<open>
  The exception a gate refusal becomes (\<open>_build_block_exception\<close> in \<open>src/nullrun/runtime.py\<close>): by the
  wire code of the refusal, else by words in its explanation.  The result is a construction, so a call
  of a constructor with the wrong arguments is \<open>Inl ''TypeError''\<close>.
\<close>

section \<open>Substrings\<close>

fun starts_with :: "string \<Rightarrow> string \<Rightarrow> bool" where
  "starts_with [] s = True"
| "starts_with (c # cs) [] = False"
| "starts_with (c # cs) (d # ds) = (c = d \<and> starts_with cs ds)"

fun contains :: "string \<Rightarrow> string \<Rightarrow> bool" where
  "contains p [] = (p = [])"
| "contains p (c # cs) = (starts_with p (c # cs) \<or> contains p cs)"

section \<open>The constructor call\<close>

text \<open>
  A class of the blocked family called with keyword arguments: \<open>extra\<close> are the attributes of its own
  constructor, \<open>surplus\<close> the keywords that end in \<open>**details\<close>.
\<close>

definition blocked_call ::
  "exc_class \<Rightarrow> dict \<Rightarrow> json \<Rightarrow> json \<Rightarrow> json \<Rightarrow> dict \<Rightarrow> construction" where
  "blocked_call cls extra workflow_id reason tool_name surplus =
     nullrun_init cls (case reason of JStr s \<Rightarrow> s | _ \<Rightarrow> [])
       ([(''workflow_id'', workflow_id), (''reason'', reason), (''action'', JStr ''block''),
         (''tool_name'', tool_name), (''status_code'', JNull),
         (''details'',
          JObj (dict_pop ''retryable'' (dict_pop ''user_action'' (dict_pop ''error_code'' surplus))))]
        @ extra)
       ((''error_code'', py_or (jget surplus ''error_code'') (JStr (class_code cls)))
        # truthy_kw ''user_action'' surplus @ [(''retryable'', jget surplus ''retryable'')])"

definition typed_kwarg_names :: "exc_class \<Rightarrow> string list" where
  "typed_kwarg_names cls =
     (case cls of
        NullRunBudgetRecheckFailedError \<Rightarrow> [''current_spend_cents'', ''budget_cents'', ''epsilon_cents'']
      | NullRunApprovalNotYetApprovedError \<Rightarrow> [''approval_id'']
      | NullRunApprovalDeniedError \<Rightarrow> [''approval_id'', ''denial_note'']
      | NullRunApprovalExpiredError \<Rightarrow> [''approval_id'', ''timeout_seconds'']
      | NullRunApprovalReplayRejectedError \<Rightarrow> [''approval_id'']
      | NullRunApprovalDigestMismatchError \<Rightarrow> [''approval_id'']
      | NullRunApprovalToolDigestMismatchError \<Rightarrow> [''approval_id'']
      | _ \<Rightarrow> [])"

definition typed_kwargs :: "exc_class \<Rightarrow> dict \<Rightarrow> dict" where
  "typed_kwargs cls details = filter (\<lambda>p. fst p \<in> set (typed_kwarg_names cls)) details"

text \<open>The attributes the approval classes keep, with the defaults of their parameters.\<close>

definition own_attributes :: "exc_class \<Rightarrow> dict \<Rightarrow> dict" where
  "own_attributes cls kw =
     (case cls of
        NullRunApprovalNotYetApprovedError \<Rightarrow> [(''approval_id'', jget kw ''approval_id'')]
      | NullRunApprovalReplayRejectedError \<Rightarrow> [(''approval_id'', jget kw ''approval_id'')]
      | NullRunApprovalDeniedError \<Rightarrow>
          [(''approval_id'', jget kw ''approval_id''), (''denial_note'', jget kw ''denial_note'')]
      | NullRunApprovalExpiredError \<Rightarrow>
          [(''approval_id'', jget kw ''approval_id''), (''timeout_seconds'', jget kw ''timeout_seconds''),
           (''local_timeout'', JBool False)]
      | _ \<Rightarrow> [])"

text \<open>
  The decision-shaped call: a class outside the blocked family, and the recheck class with its own
  constructor, misses the required \<open>message\<close>.
\<close>

definition decision_call :: "exc_class \<Rightarrow> json \<Rightarrow> json \<Rightarrow> json \<Rightarrow> dict \<Rightarrow> dict \<Rightarrow> construction" where
  "decision_call cls workflow_id reason tool_name payload kw =
     (if \<not> is_subclass cls NullRunBlockedException \<or> cls = NullRunBudgetRecheckFailedError
      then Inl ''TypeError''
      else blocked_call cls (own_attributes cls kw) workflow_id reason tool_name
             ((''details'', JObj payload) # (if own_attributes cls kw = [] then kw else [])))"

definition gate_retry_after :: "dict \<Rightarrow> json" where
  "gate_retry_after details =
     (case py_number (jget details ''retry_after_ms'') of
        Some r \<Rightarrow> JFloat (r / 1000)
      | None \<Rightarrow> JNull)"

definition transport_call :: "exc_class \<Rightarrow> json \<Rightarrow> json \<Rightarrow> dict \<Rightarrow> construction" where
  "transport_call cls explanation status details =
     (let text = (case explanation of JStr s \<Rightarrow> s | _ \<Rightarrow> []) in
      if cls = RateLimitError then
        rate_limit_init text GATEWAY_ERROR ''gate'' (gate_retry_after details) JNull []
      else if cls = NullRunBackendError then
        transport_init cls text GATEWAY_ERROR ''gate'' [] [(''status_code'', status)]
      else if cls = NullRunExecutionNotFoundError then
        map_sum id (\<lambda>e. e\<lparr>err_attrs := dict_set ''execution_id'' JNull
                            (dict_set ''regate_required'' (JBool True) (err_attrs e))\<rparr>)
          (transport_init cls text GATEWAY_ERROR ''gate'' [] [(''status_code'', status)])
      else transport_init cls text GATEWAY_ERROR ''gate'' [] [])"

definition infra_call :: "exc_class \<Rightarrow> json \<Rightarrow> construction" where
  "infra_call cls explanation =
     (let text = (case explanation of JStr s \<Rightarrow> s | _ \<Rightarrow> []) in
      if cls = NullRunAuthError then auth_init text [] [] else nullrun_init cls text [] [])"

section \<open>The dispatch\<close>

definition refusal_explanation :: "dict \<Rightarrow> json" where
  "refusal_explanation result = get_or result ''explanation'' (JStr ''policy violation'')"

definition refusal_details :: "dict \<Rightarrow> dict" where
  "refusal_details result = (case jget result ''details'' of JObj d \<Rightarrow> d | _ \<Rightarrow> [])"

definition explicit_code :: "dict \<Rightarrow> json" where
  "explicit_code result = py_or (jget (refusal_details result) ''error_code'') (jget result ''error_code'')"

definition refusal_code :: "dict \<Rightarrow> json" where
  "refusal_code result = py_or (explicit_code result) (refusal_explanation result)"

definition with_class :: "dict \<Rightarrow> string \<Rightarrow> dict" where
  "with_class payload name = dict_set ''mapped_class'' (JStr name) payload"

text \<open>A catalogued class, called by its family.\<close>

definition catalogued_call ::
  "exc_class \<Rightarrow> json \<Rightarrow> json \<Rightarrow> json \<Rightarrow> json \<Rightarrow> dict \<Rightarrow> string \<Rightarrow> construction" where
  "catalogued_call cls workflow_id expl tool_name status details name =
     (if is_subclass cls NullRunTransportError then transport_call cls expl status details
      else if is_subclass cls NullRunInfrastructureError then infra_call cls expl
      else decision_call cls workflow_id expl tool_name (with_class details name)
             (typed_kwargs cls details))"

definition keyword_code :: "string \<Rightarrow> string \<times> string" where
  "keyword_code text =
     (let t = lower text in
      if contains ''budget'' t \<or> contains ''exhausted'' t then (''NR-B004'', ''NullRunBudgetError'')
      else if contains ''loop'' t \<or> contains ''repetition'' t then (''NR-L001'', ''NullRunBlockedException'')
      else if contains ''rate'' t \<or> contains ''too many'' t then (''NR-R001'', ''NullRunBlockedException'')
      else if contains ''tool'' t \<and> contains ''block'' t then (''NR-T001'', ''NullRunToolBlockedError'')
      else (''NR-X001'', ''NullRunBlockedException''))"

text \<open>
  \<open>name_of\<close> is \<open>__name__\<close> of a class.  The three tiers: a catalogued code, an explicit code the catalog
  does not know, words of the explanation; the last needs the explanation to be a string.
\<close>

definition build_block_exception ::
  "(exc_class \<Rightarrow> string) \<Rightarrow> dict \<Rightarrow> json \<Rightarrow> json \<Rightarrow> construction" where
  "build_block_exception name_of result workflow_id tool_name =
     (let expl = refusal_explanation result;
          details = refusal_details result;
          base = (\<lambda>code mapped. blocked_call NullRunBlockedException [] workflow_id expl tool_name
                    [(''error_code'', code), (''details'', JObj (with_class details mapped))]);
          words = (case expl of
                     JStr s \<Rightarrow> (case keyword_code s of (c, mapped) \<Rightarrow> base (JStr c) mapped)
                   | _ \<Rightarrow> Inl ''AttributeError'')
      in
      (case refusal_code result of
         JStr code \<Rightarrow>
           (if code \<noteq> [] \<and> (truthy (explicit_code result) \<or> code_class code \<noteq> None) then
              (case code_class code of
                 None \<Rightarrow> base (JStr code) ''NullRunBlockedException''
               | Some cls \<Rightarrow>
                   (if cls = NullRunBlockedException then base (JStr code) ''NullRunBlockedException''
                    else catalogued_call cls workflow_id expl tool_name (jget result ''status_code'') details
                           (name_of cls)))
            else words)
       | _ \<Rightarrow> words))"

section \<open>What it builds\<close>

text \<open>
  The codes whose class the decision-shaped call does not fit: the chain, over-budget and
  inactive-workflow classes and the budget re-check have constructors of their own.
\<close>

definition misfit_codes :: "string list" where
  "misfit_codes =
     [''CHAIN_MAX_DURATION_EXCEEDED'', ''CHAIN_CROSS_ORG'', ''CHAIN_ORG_MISMATCH'',
      ''PARENT_EXECUTION_NOT_FOUND'', ''PARENT_EXECUTION_ORG_MISMATCH'',
      ''PARENT_EXECUTION_KEY_MISMATCH'', ''WORKFLOW_INACTIVE'', ''CONSUME_OVERBUDGET'',
      ''BUDGET_RECHECK_FAILED'', ''CHAIN_ID_INVALID'', ''WORKFLOW_CYCLE_DETECTED'',
      ''WORKFLOW_DEPTH_EXCEEDED'', ''WORKFLOW_PARENT_BINDING_EXPIRED'',
      ''WORKFLOW_DEPTH_LOOKUP_FAILED'', ''SUBWORKFLOW_INVOKE_DISABLED'']"

definition misfit_classes :: "exc_class list" where
  "misfit_classes =
     [NullRunChainError, NullRunConsumeOverbudgetError, NullRunWorkflowInactiveError,
      NullRunBudgetRecheckFailedError]"

lemma misfit_rows:
  "list_all (\<lambda>p. snd p \<in> set misfit_classes \<longleftrightarrow> fst p \<in> set misfit_codes) v3_error_code_map"
  by code_simp

lemma misfit_code_known: "code \<in> set misfit_codes \<Longrightarrow> code_class code \<noteq> None"
proof -
  have "list_all (\<lambda>c. code_class c \<noteq> None) misfit_codes" by code_simp
  then show "code \<in> set misfit_codes \<Longrightarrow> code_class code \<noteq> None" by (simp add: list_all_iff)
qed

lemma misfit_code_class:
  "code_class code = Some cls \<Longrightarrow> cls \<in> set misfit_classes \<longleftrightarrow> code \<in> set misfit_codes"
  using misfit_rows unfolding code_class_def list_all_iff by (metis fst_conv map_of_SomeD snd_conv)

lemma blocked_call_total: "\<exists>e. blocked_call cls x w r t s = Inr e \<and> err_class e = cls"
  by (simp add: blocked_call_def nullrun_init_def base_kwargs_def truthy_kw_def)

lemma transport_call_total: "\<exists>e. transport_call cls x s d = Inr e \<and> err_class e = cls"
  by (auto simp: transport_call_def Let_def rate_limit_init_def transport_init_def nullrun_init_def
        base_kwargs_def)

lemma infra_call_total: "\<exists>e. infra_call cls x = Inr e \<and> err_class e = cls"
  by (auto simp: infra_call_def Let_def auth_init_def nullrun_init_def base_kwargs_def)

lemma decision_class:
  "cls \<notin> {BreakerError, NullRunError, NullRunDecision, NullRunInfrastructureError,
     BreakerTransportError, InsecureTransportError, WorkflowKilledInterrupt,
     NullRunWorkflowKilledError, WorkflowPausedException} \<Longrightarrow>
   \<not> is_subclass cls NullRunTransportError \<Longrightarrow> \<not> is_subclass cls NullRunInfrastructureError \<Longrightarrow>
   (\<not> is_subclass cls NullRunBlockedException \<or> cls = NullRunBudgetRecheckFailedError)
     \<longleftrightarrow> cls \<in> set misfit_classes"
  by (cases cls) (simp_all add: is_subclass_def misfit_classes_def)

lemma infra_not_misfit:
  "is_subclass cls NullRunTransportError \<or> is_subclass cls NullRunInfrastructureError \<Longrightarrow>
     cls \<notin> set misfit_classes"
  by (auto simp: misfit_classes_def is_subclass_def)

lemma no_pause_row:
  "list_all (\<lambda>p. snd p \<noteq> WorkflowPausedException) v3_error_code_map"
  by (simp add: v3_error_code_map_def)

lemma catalog_class:
  assumes "code_class code = Some cls"
  shows "cls \<notin> {BreakerError, NullRunError, NullRunDecision, NullRunInfrastructureError,
     BreakerTransportError, InsecureTransportError, WorkflowKilledInterrupt,
     NullRunWorkflowKilledError, WorkflowPausedException}"
  using assms table_classes no_pause_row
  by (auto simp: code_class_def list_all_iff dest!: map_of_SomeD)

lemma no_empty_code: "code_class [] = None"
  by (simp add: code_class_def v3_error_code_map_def)

text \<open>The class the refusal asks for, and when there is none to be had.\<close>

definition refusal_class :: "dict \<Rightarrow> exc_class" where
  "refusal_class result =
     (case refusal_code result of
        JStr code \<Rightarrow> (case code_class code of Some cls \<Rightarrow> cls | None \<Rightarrow> NullRunBlockedException)
      | _ \<Rightarrow> NullRunBlockedException)"

definition by_words :: "dict \<Rightarrow> bool" where
  "by_words result \<longleftrightarrow>
     (case refusal_code result of
        JStr code \<Rightarrow> code = [] \<or> \<not> truthy (explicit_code result) \<and> code_class code = None
      | _ \<Rightarrow> True)"

definition has_words :: "dict \<Rightarrow> bool" where
  "has_words result \<longleftrightarrow> (\<exists>s. refusal_explanation result = JStr s)"

lemma catalogued_call:
  assumes "code_class code = Some cls"
  shows "catalogued_call cls w x t st d nm =
      (if code \<in> set misfit_codes then Inl ''TypeError'' else catalogued_call cls w x t st d nm)"
    and "code \<notin> set misfit_codes \<Longrightarrow> \<exists>e. catalogued_call cls w x t st d nm = Inr e \<and> err_class e = cls"
proof -
  show fit: "\<exists>e. catalogued_call cls w x t st d nm = Inr e \<and> err_class e = cls"
    if "code \<notin> set misfit_codes"
  proof (cases "is_subclass cls NullRunTransportError \<or> is_subclass cls NullRunInfrastructureError")
    case True
    then show ?thesis
      using transport_call_total [of cls x st d] infra_call_total [of cls x]
      by (auto simp: catalogued_call_def)
  next
    case False
    then have "is_subclass cls NullRunBlockedException \<and> cls \<noteq> NullRunBudgetRecheckFailedError"
      using decision_class [OF catalog_class [OF assms]] misfit_code_class [OF assms] that by simp
    with False show ?thesis
      by (simp add: catalogued_call_def decision_call_def blocked_call_total)
  qed
  show "catalogued_call cls w x t st d nm =
      (if code \<in> set misfit_codes then Inl ''TypeError'' else catalogued_call cls w x t st d nm)"
  proof (cases "code \<in> set misfit_codes")
    case True
    then have m: "cls \<in> set misfit_classes" using misfit_code_class [OF assms] by simp
    then have n: "\<not> is_subclass cls NullRunTransportError" "\<not> is_subclass cls NullRunInfrastructureError"
      using infra_not_misfit by blast+
    with m have "\<not> is_subclass cls NullRunBlockedException \<or> cls = NullRunBudgetRecheckFailedError"
      using decision_class [OF catalog_class [OF assms]] by simp
    with n True show ?thesis by (auto simp: catalogued_call_def decision_call_def)
  qed simp
qed

text \<open>
  when a gate refusal becomes a typed exception.  The dispatcher fails exactly on fifteen
  catalogued codes, with a \<open>TypeError\<close>, and, without a usable code, on an explanation that is not a
  string, with an \<open>AttributeError\<close>; otherwise it builds an exception of the class the catalog names
  for the code, or of the base class for an unknown code or none.
\<close>

theorem block_exception_exact:
  "(build_block_exception name_of result w t = Inl x \<longleftrightarrow>
      x = ''TypeError'' \<and> (\<exists>code. refusal_code result = JStr code \<and> code \<in> set misfit_codes)
    \<or> x = ''AttributeError'' \<and> by_words result \<and> \<not> has_words result)
   \<and> (build_block_exception name_of result w t = Inr e \<longrightarrow> err_class e = refusal_class result)"
proof (cases "by_words result")
  case True
  then have b: "build_block_exception name_of result w t =
      (case refusal_explanation result of
         JStr s \<Rightarrow> blocked_call NullRunBlockedException [] w (JStr s) t
           [(''error_code'', JStr (fst (keyword_code s))),
            (''details'', JObj (with_class (refusal_details result) (snd (keyword_code s))))]
       | _ \<Rightarrow> Inl ''AttributeError'')"
    by (auto simp: build_block_exception_def Let_def by_words_def split: json.splits prod.splits)
  have c: "refusal_class result = NullRunBlockedException"
    "\<not> (\<exists>code. refusal_code result = JStr code \<and> code \<in> set misfit_codes)"
    using True
    by (auto simp: by_words_def refusal_class_def no_empty_code dest: misfit_code_known
        split: json.splits option.splits)
  show ?thesis
  proof (cases "refusal_explanation result")
    case (JStr s)
    obtain e' where "blocked_call NullRunBlockedException [] w (JStr s) t
           [(''error_code'', JStr (fst (keyword_code s))),
            (''details'', JObj (with_class (refusal_details result) (snd (keyword_code s))))] = Inr e'"
        "err_class e' = NullRunBlockedException"
      using blocked_call_total by metis
    with b c JStr show ?thesis by (auto simp: has_words_def)
  qed (use b c True in \<open>auto simp: has_words_def\<close>)
next
  case False
  then obtain code where code: "refusal_code result = JStr code" "code \<noteq> []"
      "truthy (explicit_code result) \<or> code_class code \<noteq> None"
    by (auto simp: by_words_def split: json.splits)
  note tot = blocked_call_total [of NullRunBlockedException "[]" w "refusal_explanation result" t]
  show ?thesis
  proof (cases "code_class code")
    case None
    moreover from this have "code \<notin> set misfit_codes" using misfit_code_known by blast
    ultimately show ?thesis
      using code False tot [of "[(''error_code'', JStr code),
          (''details'', JObj (with_class (refusal_details result) ''NullRunBlockedException''))]"]
      by (auto simp: build_block_exception_def Let_def refusal_class_def)
  next
    case (Some cls)
    show ?thesis
    proof (cases "cls = NullRunBlockedException")
      case True
      with Some have "code \<notin> set misfit_codes"
        using misfit_code_class [OF Some] by (simp add: misfit_classes_def)
      with Some True show ?thesis
        using code False tot [of "[(''error_code'', JStr code),
            (''details'', JObj (with_class (refusal_details result) ''NullRunBlockedException''))]"]
        by (auto simp: build_block_exception_def Let_def refusal_class_def)
    next
      case other: False
      from Some code other have b: "build_block_exception name_of result w t =
          catalogued_call cls w (refusal_explanation result) t (jget result ''status_code'')
            (refusal_details result) (name_of cls)"
        by (simp add: build_block_exception_def Let_def)
      show ?thesis
      proof (cases "code \<in> set misfit_codes")
        case True
        with b catalogued_call(1) [OF Some] code False show ?thesis by auto
      next
        case fits: False
        from catalogued_call(2) [OF Some this] b
        obtain e' where "build_block_exception name_of result w t = Inr e'" "err_class e' = cls" by metis
        with fits Some code False show ?thesis by (auto simp: refusal_class_def)
      qed
    qed
  qed
qed

lemma block_exception_exact_witness:
  "build_block_exception (\<lambda>c. []) [(''error_code'', JStr ''WORKFLOW_INACTIVE'')] (JStr ''w'') JNull
     = Inl ''TypeError''
   \<and> (\<exists>e. build_block_exception (\<lambda>c. []) [(''error_code'', JStr ''TOOL_BLOCKED'')] (JStr ''w'') JNull = Inr e
        \<and> err_class e = NullRunToolBlockedError)"
proof
  have "refusal_code [(''error_code'', JStr ''WORKFLOW_INACTIVE'')] = JStr ''WORKFLOW_INACTIVE''"
    by (simp add: refusal_code_def explicit_code_def refusal_details_def py_or_def)
  then show "build_block_exception (\<lambda>c. []) [(''error_code'', JStr ''WORKFLOW_INACTIVE'')] (JStr ''w'') JNull
     = Inl ''TypeError''"
    using block_exception_exact [of "\<lambda>c. []" "[(''error_code'', JStr ''WORKFLOW_INACTIVE'')]" "JStr ''w''" JNull]
    by (simp add: misfit_codes_def)
  let ?t = "[(''error_code'', JStr ''TOOL_BLOCKED'')] :: dict"
  have c: "refusal_code ?t = JStr ''TOOL_BLOCKED''" "explicit_code ?t = JStr ''TOOL_BLOCKED''"
    by (simp_all add: refusal_code_def explicit_code_def refusal_details_def py_or_def)
  have "code_class ''TOOL_BLOCKED'' = Some NullRunToolBlockedError"
    by (simp add: code_class_def v3_error_code_map_def)
  then have cls: "refusal_class ?t = NullRunToolBlockedError" "\<not> by_words ?t"
    using c by (simp_all add: refusal_class_def by_words_def)
  have "build_block_exception (\<lambda>c. []) ?t (JStr ''w'') JNull \<noteq> Inl x" for x
    using block_exception_exact [of "\<lambda>c. []" ?t "JStr ''w''" JNull x] c cls(2) by (simp add: misfit_codes_def)
  then obtain e where "build_block_exception (\<lambda>c. []) ?t (JStr ''w'') JNull = Inr e"
    by (cases "build_block_exception (\<lambda>c. []) ?t (JStr ''w'') JNull") auto
  then show "\<exists>e. build_block_exception (\<lambda>c. []) ?t (JStr ''w'') JNull = Inr e
        \<and> err_class e = NullRunToolBlockedError"
    using block_exception_exact [of "\<lambda>c. []" ?t "JStr ''w''" JNull _ e] cls by auto
qed

end
