(* ===== verification/Runtime_Gate.thy ===== *)
theory Runtime_Gate
  imports Block_Exception Approval_Wait
begin

text \<open>
  The budget gate of the runtime (\<open>check_workflow_budget\<close> in \<open>src/nullrun/runtime.py\<close>): the development
  bypass and its production guard, the request, the chain-mode cache, the reading of the answer and
  what each decision turns into.  The metrics and log lines are left out; the answer of the backend,
  the clock, the ids and the end of an approval wait come from the environment.
\<close>

section \<open>Environment and configuration\<close>

text \<open>
  \<open>be_host\<close> is \<open>urlparse(url).hostname\<close>, \<open>be_uuid_ok\<close> whether \<open>uuid.UUID\<close> accepts a text.  \<open>be_wait\<close>
  is the approval wait: the waiter it ended with and the note of the push.
\<close>

record 'w budget_env =
  be_environ :: "string \<Rightarrow> string option"
  be_host :: "string \<Rightarrow> string option"
  be_uuid_ok :: "string \<Rightarrow> bool"
  be_float :: "string \<Rightarrow> rat option"
  be_name :: "exc_class \<Rightarrow> string"
  be_repr :: "json \<Rightarrow> string"
  be_uuid :: "'w \<Rightarrow> string \<times> 'w"
  be_now :: "'w \<Rightarrow> rat \<times> 'w"
  be_check :: "dict \<Rightarrow> 'w \<Rightarrow> (gate_exn + json) \<times> 'w"
  be_wait :: "json \<Rightarrow> rat option \<Rightarrow> 'w \<Rightarrow> (waiter \<times> json) \<times> 'w"
  be_consume :: "json \<Rightarrow> 'w \<Rightarrow> 'w"

record runtime_cfg =
  rc_api_url :: string
  rc_organization :: string
  rc_workflow :: string
  rc_on_denied :: string
  rc_approval_timeout :: rat

text \<open>
  What the call carries in its context variables and arguments.  The digest of the business impact is
  computed by \<open>business_impact.py\<close> and enters as a value.
\<close>

record call_ctx =
  cx_workflow :: string
  cx_model :: json
  cx_estimated_tokens :: json
  cx_max_output_tokens :: json
  cx_tools :: "json list"
  cx_chain :: json
  cx_chain_op :: json
  cx_digest :: string
  cx_impact :: json
  cx_mcp_class :: json
  cx_mcp_annotations :: json
  cx_use_cache :: bool

type_synonym gate_key = "string \<times> json \<times> json \<times> json"

text \<open>
  \<open>rs_minted\<close> is the server-minted execution id of the context, lost when none is captured, and
  \<open>rs_operation\<close> its operation id, drawn anew by every gate call (\<open>None\<close> is \<open>JNull\<close>).
\<close>

record runtime_state =
  rs_cache :: "(gate_key \<times> (rat \<times> json)) list"
  rs_minted :: json
  rs_operation :: json

section \<open>The development bypass\<close>

definition environ_flag :: "'w budget_env \<Rightarrow> string \<Rightarrow> bool" where
  "environ_flag E name =
     (case be_environ E name of None \<Rightarrow> False | Some s \<Rightarrow> strip s = ''1'')"

definition environ_or :: "'w budget_env \<Rightarrow> string \<Rightarrow> string \<Rightarrow> string" where
  "environ_or E name dflt = (case be_environ E name of None \<Rightarrow> dflt | Some s \<Rightarrow> s)"

definition rstrip_slash :: "string \<Rightarrow> string" where
  "rstrip_slash s = rev (dropWhile (\<lambda>c. c = CHR ''/'') (rev s))"

definition non_prod_hosts :: "string list" where
  "non_prod_hosts = [''localhost'', ''127.0.0.1'', ''0.0.0.0'', ''staging'', ''test'']"

definition is_production_environment :: "'w budget_env \<Rightarrow> string \<Rightarrow> bool" where
  "is_production_environment E api_url =
     (let url = (if api_url \<noteq> [] then api_url
                 else environ_or E ''NULLRUN_API_URL'' ''https://api.nullrun.io'');
          host = (case be_host E (rstrip_slash url) of None \<Rightarrow> [] | Some h \<Rightarrow> lower h) in
      host = ''api.nullrun.io''
      \<or> lower (strip (environ_or E ''NULLRUN_ENV'' [])) \<in> {''production'', ''prod''}
        \<and> \<not> list_ex (\<lambda>m. contains m host) non_prod_hosts)"

datatype bypass = NoBypass | Bypassed | BypassRefused

definition budget_bypass :: "'w budget_env \<Rightarrow> runtime_cfg \<Rightarrow> bypass" where
  "budget_bypass E cfg =
     (if \<not> environ_flag E ''NULLRUN_SKIP_BUDGET_CHECK'' then NoBypass
      else if is_production_environment E (rc_api_url cfg)
              \<and> \<not> environ_flag E ''NULLRUN_ALLOW_SKIP_BUDGET_CHECK'' then BypassRefused
      else Bypassed)"

definition sensitive_fail_open_enabled :: "'w budget_env \<Rightarrow> runtime_cfg \<Rightarrow> bool" where
  "sensitive_fail_open_enabled E cfg =
     (if \<not> environ_flag E ''NULLRUN_SENSITIVE_FAIL_OPEN'' then False
      else if is_production_environment E (rc_api_url cfg)
      then environ_flag E ''NULLRUN_ALLOW_SENSITIVE_FAIL_OPEN''
      else True)"

section \<open>The request\<close>

definition or_local :: "string \<Rightarrow> string" where
  "or_local org = (if org = [] then ''local'' else org)"

definition budget_request :: "runtime_cfg \<Rightarrow> call_ctx \<Rightarrow> string \<Rightarrow> string \<Rightarrow> dict" where
  "budget_request cfg cx op exec =
     dict_set ''idempotency_key'' (JStr op)
       ((if cx_chain cx = JNull then id
         else dict_set ''chain_op'' (if cx_chain_op cx = JStr ''auto'' then JNull else cx_chain_op cx)
              \<circ> dict_set ''chain_id'' (cx_chain cx))
        (put_given ''mcp_annotations'' (cx_mcp_annotations cx)
          (put_given ''tool_class'' (cx_mcp_class cx)
            ((if cx_tools cx = [] then id else dict_set ''tools'' (JList (cx_tools cx)))
              (put_given ''business_impact'' (cx_impact cx)
                (dict_set ''action_digest'' (JStr (cx_digest cx))
                  (put_given ''max_output_tokens'' (cx_max_output_tokens cx)
                    [(''organization_id'', JStr (or_local (rc_organization cfg))),
                     (''execution_id'', JStr exec), (''operation_id'', JStr op),
                     (''check_type'', JStr ''llm''), (''model'', cx_model cx),
                     (''estimated_tokens'',
                      if cx_estimated_tokens cx = JNull then JInt 1 else cx_estimated_tokens cx),
                     (''stream'', JBool False)])))))))"

section \<open>Reading the answer\<close>

definition known_gate_decisions :: "string list" where
  "known_gate_decisions = [''allow'', ''block'', ''soft_pass'', ''require_approval'', ''deny'']"

definition known_decision_sources :: "string list" where
  "known_decision_sources = [''gateway'', ''cached'', ''fallback'', ''local'', edge_lease]"

definition malformed :: "string \<Rightarrow> gate_exn" where
  "malformed text = built (nullrun_init NullRunMalformedGateResponseError text [] [])"

definition require_gate_decision :: "json \<Rightarrow> gate_exn + dict \<times> string" where
  "require_gate_decision response =
     (case response of
        JObj d \<Rightarrow>
          (case jget d ''decision_source'' of
             JStr src \<Rightarrow>
               (if src \<notin> set known_decision_sources then Inl (malformed ''decision_source'')
                else
                  (case jget d ''decision'' of
                     JStr dec \<Rightarrow>
                       (if dec \<in> set known_gate_decisions then Inr (d, dec)
                        else Inl (malformed ''unknown decision''))
                   | _ \<Rightarrow> Inl (malformed ''decision'')))
           | _ \<Rightarrow> Inl (malformed ''decision_source''))
      | _ \<Rightarrow> Inl (malformed ''not an object''))"

text \<open>\<open>_capture_server_minted_execution_id\<close>: the reservation id, when it is a UUID.\<close>

definition captured_reservation :: "'w budget_env \<Rightarrow> json \<Rightarrow> json" where
  "captured_reservation E response =
     (case response of
        JObj d \<Rightarrow>
          (case jget d ''reservation_id'' of
             JStr s \<Rightarrow> if s \<noteq> [] \<and> be_uuid_ok E s then JStr s else JNull
           | _ \<Rightarrow> JNull)
      | _ \<Rightarrow> JNull)"

text \<open>\<open>"; ".join(reasons)\<close> of whatever the server sent.\<close>

fun strings_only :: "json list \<Rightarrow> string list option" where
  "strings_only [] = Some []"
| "strings_only (JStr s # js) = map_option (Cons s) (strings_only js)"
| "strings_only _ = None"

definition joined_reasons :: "json \<Rightarrow> string + string" where
  "joined_reasons j =
     (case j of
        JList js \<Rightarrow> (case strings_only js of Some ss \<Rightarrow> Inr (join_with ''; '' ss) | None \<Rightarrow> Inl ''TypeError'')
      | JStr s \<Rightarrow> Inr (join_with ''; '' (map (\<lambda>c. [c]) s))
      | JObj d \<Rightarrow> Inr (join_with ''; '' (map fst d))
      | _ \<Rightarrow> Inl ''TypeError'')"

definition refusal_reasons :: "dict \<Rightarrow> string \<Rightarrow> json" where
  "refusal_reasons d dflt =
     py_or (jget d ''explanations'')
       (JList [if truthy (jget d ''explanation'') then jget d ''explanation'' else JStr dflt])"

text \<open>
  The block branch: the denied error for a category member under \<open>on_denied\<close>, else the typed
  exception, with the base class carrying the budget code turned into the budget class.
\<close>

definition block_exn :: "'w budget_env \<Rightarrow> runtime_cfg \<Rightarrow> call_ctx \<Rightarrow> string \<Rightarrow> dict \<Rightarrow> gate_exn" where
  "block_exn E cfg cx wid d =
     (let reasons = joined_reasons (refusal_reasons d ''block'') in
      if jget d ''category'' = JEnum ''denied'' \<and> rc_on_denied cfg = ''message'' then
        (case reasons of
           Inl x \<Rightarrow> PyError x
         | Inr text \<Rightarrow>
             built (blocked_call NullRunDeniedError [(''agent_message'', jget d ''agent_message'')]
                      (JStr wid) (JStr text) JNull
                      [(''decision_source'', jget d ''decision_source''), (''reasons'', JStr text)]))
      else
        (case build_block_exception (be_name E) d (JStr wid)
                (case cx_tools cx of [] \<Rightarrow> JNull | t # _ \<Rightarrow> t) of
           Inl x \<Rightarrow> PyError x
         | Inr e \<Rightarrow>
             (case reasons of
                Inl x \<Rightarrow> PyError x
              | Inr text \<Rightarrow>
                  (if err_class e = NullRunBlockedException \<and> err_code e = JStr ''NR-B004'' then
                     built (blocked_call NullRunBudgetError [] (JStr wid) (JStr text) JNull
                              [(''decision_source'', jget d ''decision_source''), (''reasons'', JStr text),
                               (''details'', jget (err_attrs e) ''details'')])
                   else SdkErr (e\<lparr>err_attrs := dict_set ''reasons'' (JStr text) (err_attrs e)\<rparr>)))))"

definition deny_exn :: "string \<Rightarrow> dict \<Rightarrow> gate_exn" where
  "deny_exn wid d =
     (case joined_reasons (refusal_reasons d ''deny'') of
        Inl x \<Rightarrow> PyError x
      | Inr text \<Rightarrow>
          built (blocked_call NullRunBlockedException [] (JStr wid) (JStr text) (jget d ''tool_name'')
                   [(''error_code'', JStr ''NR-B006'')]))"

text \<open>
  The approval branch.  Both outcomes of a wait that is not an approval raise; the reason text of an
  expired approval is shortened here.
\<close>

definition approval_missing :: "string \<Rightarrow> gate_exn" where
  "approval_missing wid =
     built (transport_init NullRunBackendError ''approval_id missing in require_approval response''
              GATEWAY_ERROR ''/api/v1/gate'' []
              [(''workflow_id'', JStr wid), (''status_code'', JNull)])"

definition approval_denied_exn :: "(json \<Rightarrow> string) \<Rightarrow> json \<Rightarrow> json \<Rightarrow> json \<Rightarrow> json \<Rightarrow> gate_exn" where
  "approval_denied_exn rep wid tool approval_id note =
     built (blocked_call NullRunApprovalDeniedError
       [(''approval_id'', approval_id), (''denial_note'', note)] wid
       (JStr (''approval denied: '' @ py_str rep (py_or note (JStr ''operator denied'')))) tool [])"

definition approval_expired_exn :: "json \<Rightarrow> json \<Rightarrow> json \<Rightarrow> json \<Rightarrow> gate_exn" where
  "approval_expired_exn wid tool approval_id timeout =
     built (blocked_call NullRunApprovalExpiredError
       [(''approval_id'', approval_id), (''timeout_seconds'', timeout), (''local_timeout'', JBool True)] wid
       (JStr ''approval timeout'') tool [])"

definition await_approval ::
  "'w budget_env \<Rightarrow> runtime_cfg \<Rightarrow> string \<Rightarrow> json \<Rightarrow> dict \<Rightarrow> 'w \<Rightarrow> (gate_exn + json) \<times> 'w" where
  "await_approval E cfg wid reservation d w =
     (let approval_id = py_or (jget d ''approval_id'') (JStr []) in
      if \<not> truthy approval_id then (Inl (approval_missing wid), w)
      else
        (case validate_approval_timeout (be_float E) (jget d ''approval_timeout_seconds'') of
           Inl x \<Rightarrow> (Inl (PyError x), w)
         | Inr timeout \<Rightarrow>
             (case be_wait E approval_id timeout w of
                ((answer, note), w1) \<Rightarrow>
                  (case approval_verdict answer of
                     Some Resume \<Rightarrow> (Inr reservation, be_consume E approval_id w1)
                   | Some DeniedExn \<Rightarrow>
                       (Inl (approval_denied_exn (be_repr E) (JStr wid) JNull approval_id note), w1)
                   | _ \<Rightarrow>
                       (Inl (approval_expired_exn (JStr wid) JNull approval_id
                          (JFloat (rc_approval_timeout cfg))), w1)))))"

definition act_on_answer ::
  "'w budget_env \<Rightarrow> runtime_cfg \<Rightarrow> call_ctx \<Rightarrow> string \<Rightarrow> json \<Rightarrow> runtime_state \<Rightarrow> 'w
     \<Rightarrow> (gate_exn + json) \<times> runtime_state \<times> 'w" where
  "act_on_answer E cfg cx wid response s w =
     (let reservation = captured_reservation E response; s1 = s\<lparr>rs_minted := reservation\<rparr> in
      (case require_gate_decision response of
         Inl x \<Rightarrow> (Inl x, s1, w)
       | Inr (d, dec) \<Rightarrow>
           (if is_fallback_decision_source (jget d ''decision_source'') then (Inr JNull, s1, w)
            else if dec = ''block'' then (Inl (block_exn E cfg cx wid d), s1, w)
            else if dec = ''soft_pass'' then (Inr JNull, s1, w)
            else if dec = ''require_approval'' then
              (case await_approval E cfg wid reservation d w of (res, w1) \<Rightarrow> (res, s1, w1))
            else if dec = ''deny'' then (Inl (deny_exn wid d), s1, w)
            else (Inr reservation, s1, w))))"

section \<open>Failures of the request\<close>

definition value_errors :: "string list" where
  "value_errors = [''ValueError'', ''JSONDecodeError'', ''UnicodeDecodeError'']"

definition httpx_errors :: "string list" where
  "httpx_errors =
     [''HTTPError'', ''RequestError'', ''TransportError'', ''NetworkError'', ''ConnectError'', ''ReadError'',
      ''WriteError'', ''CloseError'', ''TimeoutException'', ''ConnectTimeout'', ''ReadTimeout'',
      ''WriteTimeout'', ''PoolTimeout'', ''ProtocolError'', ''LocalProtocolError'',
      ''RemoteProtocolError'', ''ProxyError'', ''UnsupportedProtocol'', ''DecodingError'',
      ''TooManyRedirects'', ''HTTPStatusError'']"

text \<open>
  The two \<open>except\<close> ladders, for a call through the cache and for one past it: an exception is raised
  again, replaced by the malformed-answer error, or lets the call through (\<open>None\<close>).
\<close>

definition cached_failure :: "gate_exn \<Rightarrow> gate_exn option" where
  "cached_failure x =
     (case x of
        SdkErr e \<Rightarrow>
          (if is_subclass (err_class e) NullRunAuthenticationError then Some x
           else if is_subclass (err_class e) NullRunError then None
           else Some x)
      | UnclassifiedRefusal u \<Rightarrow> Some x
      | PyError c \<Rightarrow>
          (if c \<in> set httpx_errors then None
           else if c \<in> set value_errors then Some (malformed ''non-JSON body'')
           else Some x))"

definition uncached_failure :: "gate_exn \<Rightarrow> gate_exn option" where
  "uncached_failure x =
     (case x of
        SdkErr e \<Rightarrow> (if is_subclass (err_class e) NullRunAuthenticationError then Some x else None)
      | UnclassifiedRefusal u \<Rightarrow> Some x
      | PyError c \<Rightarrow> (if c \<in> set value_errors then Some (malformed ''non-JSON body'') else None))"

section \<open>The gate\<close>

definition gate_cache_ttl :: rat where "gate_cache_ttl = 5"

definition cache_enabled :: "'w budget_env \<Rightarrow> call_ctx \<Rightarrow> bool" where
  "cache_enabled E cx \<longleftrightarrow>
     cx_chain cx \<noteq> JNull \<and> cx_use_cache cx \<and> \<not> environ_flag E ''NULLRUN_GATE_CACHE_DISABLE''"

definition gate_cache_key :: "string \<Rightarrow> call_ctx \<Rightarrow> gate_key" where
  "gate_cache_key wid cx =
     (wid, cx_chain cx, cx_model cx,
      if cx_estimated_tokens cx = JNull then JInt 1 else cx_estimated_tokens cx)"

definition budget_workflow :: "runtime_cfg \<Rightarrow> call_ctx \<Rightarrow> string" where
  "budget_workflow cfg cx = (if cx_workflow cx \<noteq> [] then cx_workflow cx else rc_workflow cfg)"

definition skip_refused :: gate_exn where
  "skip_refused =
     built (nullrun_init NullRunInfrastructureError ''NULLRUN_SKIP_BUDGET_CHECK=1 is not allowed in production''
              [] [(''error_code'', JStr ''NR-S001''), (''retryable'', JBool False)])"

definition ask_gate ::
  "'w budget_env \<Rightarrow> runtime_cfg \<Rightarrow> call_ctx \<Rightarrow> string \<Rightarrow> string \<Rightarrow> string \<Rightarrow> runtime_state \<Rightarrow> 'w
     \<Rightarrow> (gate_exn option + json) \<times> runtime_state \<times> 'w" where
  "ask_gate E cfg cx wid op exec s w =
     (let req = budget_request cfg cx op exec; key = gate_cache_key wid cx in
      if cache_enabled E cx then
        (case (case dict_get (rs_cache s) key of
                 None \<Rightarrow> (None, w)
               | Some (t, j) \<Rightarrow>
                   (case be_now E w of
                      (now, w0) \<Rightarrow> (if now - t < gate_cache_ttl then Some j else None, w0))) of
           (Some j, w1) \<Rightarrow> (Inr j, s, w1)
         | (None, w1) \<Rightarrow>
             (case be_check E req w1 of
                (Inl x, w2) \<Rightarrow> (Inl (cached_failure x), s, w2)
              | (Inr j, w2) \<Rightarrow>
                  (case be_now E w2 of
                     (now, w3) \<Rightarrow>
                       (Inr j, s\<lparr>rs_cache := dict_set key (now, j) (rs_cache s)\<rparr>, w3))))
      else
        (case be_check E req w of
           (Inl x, w1) \<Rightarrow> (Inl (uncached_failure x), s, w1)
         | (Inr j, w1) \<Rightarrow> (Inr j, s, w1)))"

text \<open>The result is the reservation id, \<open>None\<close> when there is none, or the exception.\<close>

definition check_workflow_budget ::
  "'w budget_env \<Rightarrow> runtime_cfg \<Rightarrow> call_ctx \<Rightarrow> runtime_state \<Rightarrow> 'w
     \<Rightarrow> (gate_exn + json) \<times> runtime_state \<times> 'w" where
  "check_workflow_budget E cfg cx s w =
     (case budget_bypass E cfg of
        Bypassed \<Rightarrow> (Inr JNull, s, w)
      | BypassRefused \<Rightarrow> (Inl skip_refused, s, w)
      | NoBypass \<Rightarrow>
          (case be_uuid E w of
             (op, w0) \<Rightarrow>
               (let wid = budget_workflow cfg cx; s0 = s\<lparr>rs_operation := JStr op\<rparr> in
                if wid = [] then (Inr JNull, s0, w0)
                else
                  (case be_uuid E w0 of
                     (exec, w1) \<Rightarrow>
                       (case ask_gate E cfg cx wid op exec s0 w1 of
                          (Inl None, s1, w2) \<Rightarrow> (Inr JNull, s1, w2)
                        | (Inl (Some x), s1, w2) \<Rightarrow> (Inl x, s1, w2)
                        | (Inr j, s1, w2) \<Rightarrow> act_on_answer E cfg cx wid j s1 w2)))))"

section \<open>Dropping cached answers\<close>

definition invalidate_gate_cache_for_chain ::
  "string option \<Rightarrow> json \<Rightarrow> (gate_key \<times> 'a) list \<Rightarrow> nat \<times> (gate_key \<times> 'a) list" where
  "invalidate_gate_cache_for_chain wid chain cache =
     (let hit = (\<lambda>k. (case wid of None \<Rightarrow> True | Some x \<Rightarrow> fst k = x)
                     \<and> (chain = JNull \<or> fst (snd k) = chain)) in
      (length (filter (\<lambda>p. hit (fst p)) cache), filter (\<lambda>p. \<not> hit (fst p)) cache))"

end
