(* ===== verification/Runtime_Gate_Laws.thy ===== *)
theory Runtime_Gate_Laws
  imports Runtime_Gate Gate_Laws
begin

text \<open>
  What the budget gate lets through: the exact conditions under which a call proceeds, and the cases
  in which it proceeds against the gate's will or without having asked.
\<close>

section \<open>What the answer means\<close>

text \<open>An answer the runtime acts on by letting the call proceed.\<close>

definition admits :: "'w budget_env \<Rightarrow> json \<Rightarrow> bool" where
  "admits E j \<longleftrightarrow>
     (\<exists>d. j = JObj d \<and>
        (\<exists>src. jget d ''decision_source'' = JStr src \<and> src \<in> set known_decision_sources) \<and>
        (is_fallback_decision_source (jget d ''decision_source'')
           \<and> (\<exists>dec. jget d ''decision'' = JStr dec \<and> dec \<in> set known_gate_decisions)
         \<or> jget d ''decision'' \<in> {JStr ''allow'', JStr ''soft_pass''}
         \<or> jget d ''decision'' = JStr ''require_approval'' \<and> truthy (jget d ''approval_id'')
           \<and> (\<exists>t u. approval_verdict (fst (fst (be_wait E (jget d ''approval_id'') t u))) = Some Resume)))"

lemma require_gate_decision_iff:
  "require_gate_decision j = Inr (d, dec) \<longleftrightarrow>
     j = JObj d \<and> (\<exists>src. jget d ''decision_source'' = JStr src \<and> src \<in> set known_decision_sources)
     \<and> jget d ''decision'' = JStr dec \<and> dec \<in> set known_gate_decisions"
  by (auto simp: require_gate_decision_def split: json.splits if_splits)

lemma block_exn_raises [simp]: "Inl (block_exn E cfg cx wid d) \<noteq> Inr v"
  by simp

lemma known_decisions:
  assumes "dec \<in> set known_gate_decisions"
  obtains "dec = ''allow''" | "dec = ''block''" | "dec = ''soft_pass''" | "dec = ''require_approval''"
    | "dec = ''deny''"
  using assms by (auto simp: known_gate_decisions_def)

lemma await_approval_resumes:
  assumes "await_approval E cfg wid res d w = (Inr v, w')"
  shows "v = res \<and> truthy (jget d ''approval_id'')
    \<and> (\<exists>t u. approval_verdict (fst (fst (be_wait E (jget d ''approval_id'') t u))) = Some Resume)"
proof -
  have a: "truthy (jget d ''approval_id'')" "py_or (jget d ''approval_id'') (JStr []) = jget d ''approval_id''"
    using assms by (auto simp: await_approval_def Let_def py_or_def split: if_splits)
  then obtain t where t: "validate_approval_timeout (be_float E) (jget d ''approval_timeout_seconds'') = Inr t"
    using assms by (auto simp: await_approval_def Let_def split: sum.splits)
  obtain ans nt w1 where "be_wait E (jget d ''approval_id'') t w = ((ans, nt), w1)"
    by (metis surj_pair)
  moreover from this have "approval_verdict ans = Some Resume" "v = res"
    using assms a t
    by (auto simp: await_approval_def Let_def split: option.splits approval_verdict.splits)
  ultimately show ?thesis using a by (metis fst_conv)
qed

lemma act_on_answer_admits:
  assumes "act_on_answer E cfg cx wid j s w = (Inr v, s', w')"
  shows "admits E j"
proof -
  obtain d dec where r: "require_gate_decision j = Inr (d, dec)"
    using assms by (cases "require_gate_decision j") (auto simp: act_on_answer_def Let_def)
  then have facts: "j = JObj d" "jget d ''decision'' = JStr dec" "dec \<in> set known_gate_decisions"
    "\<exists>src. jget d ''decision_source'' = JStr src \<and> src \<in> set known_decision_sources"
    by (simp_all only: require_gate_decision_iff)
  show ?thesis
  proof (cases "is_fallback_decision_source (jget d ''decision_source'')")
    case True
    with facts show ?thesis unfolding admits_def by blast
  next
    case False
    from facts(3) show ?thesis
    proof (cases rule: known_decisions)
      case 4
      then obtain w1 where "await_approval E cfg wid (captured_reservation E j) d w = (Inr v, w1)"
        using assms r False by (auto simp: act_on_answer_def Let_def split: prod.splits)
      from await_approval_resumes [OF this] facts 4 show ?thesis unfolding admits_def by auto
    qed (use assms r False facts in \<open>auto simp: act_on_answer_def Let_def admits_def\<close>)
  qed
qed

section \<open>When a call proceeds\<close>

text \<open>
  The exceptions of the request that do not stop the call: every SDK error but a failed authentication, and
  every Python exception but those of an unreadable text; of the Python exceptions on the cached path only
  those of the HTTP client.
\<close>

definition lets_through :: "'w budget_env \<Rightarrow> call_ctx \<Rightarrow> gate_exn \<Rightarrow> bool" where
  "lets_through E cx x \<longleftrightarrow>
     (case x of
        SdkErr e \<Rightarrow> \<not> is_subclass (err_class e) NullRunAuthenticationError
          \<and> (cache_enabled E cx \<longrightarrow> is_subclass (err_class e) NullRunError)
      | UnclassifiedRefusal u \<Rightarrow> False
      | PyError c \<Rightarrow> if cache_enabled E cx then c \<in> set httpx_errors else c \<notin> set value_errors)"

lemma lets_through_None:
  "lets_through E cx x \<longleftrightarrow> (if cache_enabled E cx then cached_failure x = None else uncached_failure x = None)"
  by (cases x) (auto simp: lets_through_def cached_failure_def uncached_failure_def)

lemma ask_gate_cases:
  assumes "ask_gate E cfg cx wid op exec s w = (res, s', w')"
  shows "(\<exists>u x. fst (be_check E (budget_request cfg cx op exec) u) = Inl x
            \<and> res = Inl (if cache_enabled E cx then cached_failure x else uncached_failure x))
    \<or> (\<exists>u j. fst (be_check E (budget_request cfg cx op exec) u) = Inr j \<and> res = Inr j)
    \<or> (\<exists>t j. cache_enabled E cx \<and> dict_get (rs_cache s) (gate_cache_key wid cx) = Some (t, j)
          \<and> fst (be_now E w) - t < gate_cache_ttl \<and> res = Inr j)"
proof (cases "cache_enabled E cx")
  case False
  obtain r w1 where "be_check E (budget_request cfg cx op exec) w = (r, w1)" by fastforce
  with assms False show ?thesis
    by (cases r) (auto simp: ask_gate_def Let_def intro!: exI [of _ w])
next
  case True
  obtain hit w1 where hit: "(case dict_get (rs_cache s) (gate_cache_key wid cx) of
                 None \<Rightarrow> (None, w)
               | Some (t, j) \<Rightarrow>
                   (case be_now E w of
                      (now, w0) \<Rightarrow> (if now - t < gate_cache_ttl then Some j else None, w0))) = (hit, w1)"
    by fastforce
  show ?thesis
  proof (cases hit)
    case (Some j)
    with hit obtain t where "dict_get (rs_cache s) (gate_cache_key wid cx) = Some (t, j)"
      "fst (be_now E w) - t < gate_cache_ttl"
      by (auto split: option.splits prod.splits if_splits)
    with assms True hit Some show ?thesis by (auto simp: ask_gate_def Let_def)
  next
    case None
    obtain r w2 where "be_check E (budget_request cfg cx op exec) w1 = (r, w2)" by fastforce
    with assms True hit None show ?thesis
      by (cases r) (auto simp: ask_gate_def Let_def intro!: exI [of _ w1] split: prod.splits)
  qed
qed

text \<open>
  C5: the only ways past the budget gate.  A call proceeds only when the development bypass is on (in
  production only with the second variable), when no workflow is bound, when the request ended in an exception
  that is not taken for a refusal (any SDK error but a failed authentication, an unreadable 4xx among them, and
  any Python exception but a decoding error, with the cache only those of the HTTP client), or when the answer,
  fresh or less than five seconds old in the cache, names a known source and is an allow, a soft pass, an
  approval that was granted, or a made-up fallback with a known decision.
\<close>

theorem budget_gate_proceeds_only_when:
  assumes "check_workflow_budget E cfg cx s w = (Inr v, s', w')"
  shows "environ_flag E ''NULLRUN_SKIP_BUDGET_CHECK''
      \<and> (is_production_environment E (rc_api_url cfg)
           \<longrightarrow> environ_flag E ''NULLRUN_ALLOW_SKIP_BUDGET_CHECK'')
    \<or> budget_workflow cfg cx = []
    \<or> (\<exists>op exec u x. fst (be_check E (budget_request cfg cx op exec) u) = Inl x \<and> lets_through E cx x)
    \<or> (\<exists>op exec u j. fst (be_check E (budget_request cfg cx op exec) u) = Inr j \<and> admits E j)
    \<or> (\<exists>t j. cache_enabled E cx \<and> admits E j
         \<and> dict_get (rs_cache s) (gate_cache_key (budget_workflow cfg cx) cx) = Some (t, j)
         \<and> fst (be_now E (snd (be_uuid E (snd (be_uuid E w))))) - t < 5)"
proof (cases "budget_bypass E cfg")
  case Bypassed
  then show ?thesis by (auto simp: budget_bypass_def split: if_splits)
next
  case BypassRefused
  with assms show ?thesis by (simp add: check_workflow_budget_def)
next
  case NoBypass
  obtain op w0 where op: "be_uuid E w = (op, w0)" by fastforce
  obtain ex w1 where ex: "be_uuid E w0 = (ex, w1)" by fastforce
  obtain res s1 w2 where ask: "ask_gate E cfg cx (budget_workflow cfg cx) op ex (s\<lparr>rs_operation := JStr op\<rparr>) w1
      = (res, s1, w2)"
    by (metis surj_pair)
  show ?thesis
  proof (cases "budget_workflow cfg cx = []")
    case False
    from ask_gate_cases [OF ask] show ?thesis
    proof (elim disjE exE conjE)
      fix u x assume x: "fst (be_check E (budget_request cfg cx op ex) u) = Inl x"
        "res = Inl (if cache_enabled E cx then cached_failure x else uncached_failure x)"
      then have "lets_through E cx x"
        using assms NoBypass op ex ask False
        by (auto simp: check_workflow_budget_def lets_through_None Let_def split: option.splits if_splits)
      with x(1) show ?thesis by blast
    next
      fix u j assume j: "fst (be_check E (budget_request cfg cx op ex) u) = Inr j" "res = Inr j"
      then have "act_on_answer E cfg cx (budget_workflow cfg cx) j s1 w2 = (Inr v, s', w')"
        using assms NoBypass op ex ask False by (simp add: check_workflow_budget_def Let_def)
      from act_on_answer_admits [OF this] j(1) show ?thesis by blast
    next
      fix t j assume j: "cache_enabled E cx" "res = Inr j"
        "dict_get (rs_cache (s\<lparr>rs_operation := JStr op\<rparr>)) (gate_cache_key (budget_workflow cfg cx) cx) = Some (t, j)"
        "fst (be_now E w1) - t < gate_cache_ttl"
      then have "act_on_answer E cfg cx (budget_workflow cfg cx) j s1 w2 = (Inr v, s', w')"
        using assms NoBypass op ex ask False by (simp add: check_workflow_budget_def Let_def)
      from act_on_answer_admits [OF this] j op ex show ?thesis by (auto simp: gate_cache_ttl_def)
    qed
  qed simp
qed

section \<open>Refusals that are not read\<close>

lemma check_gate_first_answer:
  assumes "\<And>body v. fst (g_post G ''/api/v1/gate'' body v) = Inr r"
    and "resp_status r < 500" "resp_status r \<noteq> 401"
  shows "fst (check_gate G h parent req w) = check_answer h r"
proof -
  obtain trace w0 where t: "g_uuid G w = (trace, w0)" by fastforce
  obtain op w1 where o: "(if truthy (jget req ''operation_id'') then ([], w0) else g_uuid G w0) = (op, w1)"
    by fastforce
  let ?b = "check_gate_request trace op parent req"
  have "retry_with_backoff (gate_retry_env G ''/api/v1/gate'' ?b) (check_cfg G h) w1
      = (Inr r, snd (g_post G ''/api/v1/gate'' ?b w1))"
    by (rule gate_first_answer) (use assms in \<open>simp_all add: check_cfg_def\<close>)
  with t o show ?thesis by (simp add: check_gate_def)
qed

lemma first_item_errors:
  "first_item j = Inl x \<Longrightarrow> x \<in> {''IndexError'', ''KeyError'', ''TypeError''}"
  by (auto simp: first_item_def split: json.splits list.splits)

definition block_answer :: "json \<Rightarrow> bool" where
  "block_answer j \<longleftrightarrow> (\<exists>d. j = JObj d \<and> jget d ''decision'' = JStr ''block''
     \<and> jget d ''decision_source'' = JStr src_gateway)"

lemma check_refusal_gateway: "check_refusal r b = Inr j \<Longrightarrow> block_answer j"
  by (auto simp: check_refusal_def block_answer_def split: sum.splits json.splits)

lemma gateway_block_raises:
  assumes "block_answer j"
  shows "\<exists>x. fst (act_on_answer E cfg cx wid j s w) = Inl x"
proof -
  obtain d where d: "j = JObj d" "jget d ''decision'' = JStr ''block''"
      "jget d ''decision_source'' = JStr src_gateway"
    using assms by (auto simp: block_answer_def)
  have "src_gateway \<in> set known_decision_sources" "''block'' \<in> set known_gate_decisions"
    by (simp_all add: src_gateway_def known_decision_sources_def known_gate_decisions_def)
  then have "require_gate_decision j = Inr (d, ''block'')"
    using d by (simp only: require_gate_decision_iff) blast
  moreover have "\<not> is_fallback_decision_source (JStr src_gateway)"
    by (simp add: is_fallback_decision_source_def src_gateway_def src_fallback_def)
  ultimately show ?thesis using d by (simp add: act_on_answer_def Let_def)
qed

text \<open>What a 4xx answer of the gate does to a call that is not answered from the cache.\<close>

definition unread_refusal :: "http_response \<Rightarrow> json \<Rightarrow> bool" where
  "unread_refusal r j \<longleftrightarrow>
     (\<exists>c. resolve_refusal_category j = Inr c)
     \<and> (case j of JObj d \<Rightarrow> \<exists>x. first_item (refusal_explanations r d) = Inl x | _ \<Rightarrow> True)"

lemma check_refusal_unread:
  "check_refusal r j = Inl (PyError x) \<Longrightarrow> unread_refusal r j \<and> x \<notin> set value_errors"
  by (auto simp: check_refusal_def unread_refusal_def value_errors_def dest: first_item_errors
      split: sum.splits json.splits)

lemma check_refusal_read:
  "\<not> unread_refusal r j \<Longrightarrow> (\<exists>u. check_refusal r j = Inl (UnclassifiedRefusal u)) \<or> (\<exists>k. check_refusal r j = Inr k)"
  by (cases j) (auto simp: check_refusal_def unread_refusal_def split: sum.splits)

lemma check_refusal_unread_error:
  "unread_refusal r j \<Longrightarrow> \<exists>x. check_refusal r j = Inl (PyError x)"
  by (cases j) (auto simp: check_refusal_def unread_refusal_def split: sum.splits)

text \<open>
  C31: which refusals the gate fails open on.  Let a workflow be bound, no bypass be on and no edge box answer.  When the backend answers every attempt with the same 4xx
  refusal other than 401, of JSON, and the call does not go through the cache, the call proceeds exactly when the
  refusal cannot be read: its body is not an object, or its \<open>explanations\<close> are something true that is no list and no text, and its category is one the SDK resolves.
  Every other refusal raises.
\<close>

theorem refusal_4xx_exact:
  assumes "be_check E = check_gate G h parent" "\<not> cache_enabled E cx"
    and "budget_bypass E cfg = NoBypass" "budget_workflow cfg cx \<noteq> []"
    and post: "\<And>body v. fst (g_post G ''/api/v1/gate'' body v) = Inr r"
    and st: "400 \<le> resp_status r" "resp_status r < 500" "resp_status r \<noteq> 401" "resp_json r = Some j"
  shows "(\<exists>v. fst (check_workflow_budget E cfg cx s w) = Inr v) \<longleftrightarrow> unread_refusal r j"
proof -
  obtain op w0 where op: "be_uuid E w = (op, w0)" by fastforce
  obtain ex w1 where ex: "be_uuid E w0 = (ex, w1)" by fastforce
  obtain res w2 where chk: "be_check E (budget_request cfg cx op ex) w1 = (res, w2)" by fastforce
  have "fst (check_gate G h parent (budget_request cfg cx op ex) w1) = check_answer h r"
    by (rule check_gate_first_answer) (use post st in auto)
  moreover have "check_answer h r = check_refusal r j"
    using st by (simp add: check_answer_def)
  ultimately have res: "res = check_refusal r j" using chk assms(1) by simp
  have run: "check_workflow_budget E cfg cx s w =
    (case (case res of Inl x \<Rightarrow> Inl (uncached_failure x) | Inr k \<Rightarrow> Inr k) of
       Inl None \<Rightarrow> (Inr JNull, s\<lparr>rs_operation := JStr op\<rparr>, w2)
     | Inl (Some x) \<Rightarrow> (Inl x, s\<lparr>rs_operation := JStr op\<rparr>, w2)
     | Inr k \<Rightarrow> act_on_answer E cfg cx (budget_workflow cfg cx) k (s\<lparr>rs_operation := JStr op\<rparr>) w2)"
    using assms(2-4) op ex chk
    by (auto simp: check_workflow_budget_def ask_gate_def Let_def split: sum.splits option.splits)
  show ?thesis
  proof (cases "unread_refusal r j")
    case True
    from check_refusal_unread_error [OF this] obtain x where x: "check_refusal r j = Inl (PyError x)" ..
    with check_refusal_unread have "x \<notin> set value_errors" by blast
    with x True run res show ?thesis by (simp add: uncached_failure_def)
  next
    case False
    from check_refusal_read [OF this] show ?thesis
    proof (elim disjE exE)
      fix u assume "check_refusal r j = Inl (UnclassifiedRefusal u)"
      with False run res show ?thesis by (simp add: uncached_failure_def)
    next
      fix k assume k: "check_refusal r j = Inr k"
      obtain x where "fst (act_on_answer E cfg cx (budget_workflow cfg cx) k (s\<lparr>rs_operation := JStr op\<rparr>) w2) = Inl x"
        using gateway_block_raises [OF check_refusal_gateway [OF k],
            of E cfg cx "budget_workflow cfg cx" "s\<lparr>rs_operation := JStr op\<rparr>" w2] ..
      with False run res k show ?thesis by simp
    qed
  qed
qed

section \<open>One answer for many actions\<close>

text \<open>
  a cached allow covers any action.  While an answer that allowed one call of a chain is in the
  cache, every call of the same workflow, chain, model and token estimate is let through with the
  first call's reservation and without a request, whatever its tools, its business impact and its
  digest are.
\<close>

theorem cached_allow_covers_any_action:
  assumes "budget_bypass E cfg = NoBypass" "budget_workflow cfg cx = wid" "wid \<noteq> []" "cache_enabled E cx"
    and "dict_get (rs_cache s) (gate_cache_key wid cx) = Some (t, JObj d)"
    and "jget d ''decision'' = JStr ''allow''" "jget d ''decision_source'' = JStr src_gateway"
    and "be_uuid E w = (op, w0)" "be_uuid E w0 = (ex, w1)" "be_now E w1 = (now, w2)" "now - t < gate_cache_ttl"
  shows "check_workflow_budget E cfg
      (cx\<lparr>cx_tools := tools, cx_impact := impact, cx_digest := digest, cx_mcp_class := cls,
          cx_mcp_annotations := ann, cx_max_output_tokens := m\<rparr>) s w
    = (Inr (captured_reservation E (JObj d)),
       s\<lparr>rs_minted := captured_reservation E (JObj d), rs_operation := JStr op\<rparr>, w2)"
proof -
  let ?s = "s\<lparr>rs_operation := JStr op\<rparr>"
  let ?cx = "cx\<lparr>cx_tools := tools, cx_impact := impact, cx_digest := digest, cx_mcp_class := cls,
          cx_mcp_annotations := ann, cx_max_output_tokens := m\<rparr>"
  have same: "budget_workflow cfg ?cx = wid" "cache_enabled E ?cx" "gate_cache_key wid ?cx = gate_cache_key wid cx"
    using assms(2,4) by (auto simp: budget_workflow_def cache_enabled_def gate_cache_key_def)
  have "src_gateway \<in> set known_decision_sources" "''allow'' \<in> set known_gate_decisions"
    by (simp_all add: src_gateway_def known_decision_sources_def known_gate_decisions_def)
  then have "require_gate_decision (JObj d) = Inr (d, ''allow'')"
    using assms(6,7) by (simp only: require_gate_decision_iff) blast
  moreover have "\<not> is_fallback_decision_source (JStr src_gateway)"
    by (simp add: is_fallback_decision_source_def src_gateway_def src_fallback_def)
  ultimately have act: "act_on_answer E cfg ?cx wid (JObj d) ?s w2
      = (Inr (captured_reservation E (JObj d)), ?s\<lparr>rs_minted := captured_reservation E (JObj d)\<rparr>, w2)"
    using assms(7) by (simp add: act_on_answer_def Let_def)
  have "ask_gate E cfg ?cx wid op ex ?s w1 = (Inr (JObj d), ?s, w2)"
    using assms(5,10,11) same(2,3) by (simp add: ask_gate_def Let_def)
  with act assms(1,3,8,9) same(1) show ?thesis
    by (simp add: check_workflow_budget_def Let_def)
qed

section \<open>Denials\<close>

lemma no_denied_row: "list_all (\<lambda>p. snd p \<noteq> NullRunDeniedError) v3_error_code_map"
  by (simp add: v3_error_code_map_def)

lemma refusal_class_not_denied: "refusal_class d \<noteq> NullRunDeniedError"
  using no_denied_row
  by (auto simp: refusal_class_def code_class_def list_all_iff dest!: map_of_SomeD
      split: json.splits option.splits)

lemma built_blocked: "\<exists>e. built (blocked_call cls x w r t d) = SdkErr e \<and> err_class e = cls"
  using blocked_call_total [of cls x w r t d] by (auto simp: built_def)

lemma built_blocked_class: "built (blocked_call cls x w r t d) = SdkErr e \<Longrightarrow> err_class e = cls"
  using built_blocked [of cls x w r t d] by auto

text \<open>
  a denial is shown to the model only for a refusal of the transport.  The block branch raises
  the denied error exactly when the answer's category is the enumeration member, the runtime is
  configured for messages and the reasons are text; an answer of status 200 carries the category as a
  string, so its denials are never shown, whatever the configuration says.
\<close>

theorem denied_error_exact:
  "(\<exists>e. block_exn E cfg cx wid d = SdkErr e \<and> err_class e = NullRunDeniedError)
   \<longleftrightarrow> jget d ''category'' = JEnum ''denied'' \<and> rc_on_denied cfg = ''message''
       \<and> (\<exists>text. joined_reasons (refusal_reasons d ''block'') = Inr text)"
proof (cases "jget d ''category'' = JEnum ''denied'' \<and> rc_on_denied cfg = ''message''")
  case True
  then show ?thesis
    using built_blocked [of NullRunDeniedError]
    by (auto simp: block_exn_def Let_def split: sum.splits)
next
  case False
  have "\<not> (\<exists>e. block_exn E cfg cx wid d = SdkErr e \<and> err_class e = NullRunDeniedError)"
  proof
    assume "\<exists>e. block_exn E cfg cx wid d = SdkErr e \<and> err_class e = NullRunDeniedError"
    then obtain e where e: "block_exn E cfg cx wid d = SdkErr e" "err_class e = NullRunDeniedError" by blast
    define tool where "tool = (case cx_tools cx of [] \<Rightarrow> JNull | t # _ \<Rightarrow> t)"
    obtain e0 where e0: "build_block_exception (be_name E) d (JStr wid) tool = Inr e0"
      using e False
      by (auto simp: block_exn_def Let_def tool_def [symmetric] split: sum.splits)
    have "err_class e0 \<noteq> NullRunDeniedError"
      using block_exception_exact [of "be_name E" d "JStr wid" tool _ e0] e0 refusal_class_not_denied by metis
    with e e0 False show False
      by (auto simp: block_exn_def Let_def tool_def [symmetric] dest: built_blocked_class
          split: sum.splits if_splits)
  qed
  with False show ?thesis by blast
qed

section \<open>Concrete calls\<close>

definition runtime_with :: "(dict \<Rightarrow> nat \<Rightarrow> (gate_exn + json) \<times> nat) \<Rightarrow> nat budget_env" where
  "runtime_with check =
     \<lparr>be_environ = (\<lambda>n. None), be_host = (\<lambda>u. None), be_uuid_ok = (\<lambda>s. True), be_float = (\<lambda>s. None),
      be_name = (\<lambda>c. []), be_repr = (\<lambda>j. []), be_uuid = (\<lambda>n. (''op'', Suc n)), be_now = (\<lambda>n. (0, n)),
      be_check = check, be_wait = (\<lambda>a t n. ((TimedOut, JNull), n)), be_consume = (\<lambda>a n. n)\<rparr>"

definition sample_cfg :: runtime_cfg where
  "sample_cfg =
     \<lparr>rc_api_url = ''https://api.nullrun.io'', rc_organization = ''org'', rc_workflow = ''w'',
      rc_on_denied = ''raise'', rc_approval_timeout = 300\<rparr>"

definition sample_ctx :: "json \<Rightarrow> call_ctx" where
  "sample_ctx chain =
     \<lparr>cx_workflow = [], cx_model = JStr ''gpt'', cx_estimated_tokens = JNull,
      cx_max_output_tokens = JNull, cx_tools = [JStr ''search''], cx_chain = chain,
      cx_chain_op = JStr ''auto'', cx_digest = ''d'', cx_impact = JNull, cx_mcp_class = JNull,
      cx_mcp_annotations = JNull, cx_use_cache = True\<rparr>"

definition fresh_state :: runtime_state where
  "fresh_state = \<lparr>rs_cache = [], rs_minted = JNull, rs_operation = JNull\<rparr>"

definition allow_body :: dict where
  "allow_body =
     [(''decision'', JStr ''allow''), (''decision_source'', JStr src_gateway),
      (''reservation_id'', JStr ''r1'')]"

lemma sample_facts [simp]:
  "\<not> environ_flag (runtime_with check) name" "be_check (runtime_with check) = check" "budget_workflow sample_cfg (sample_ctx chain) = ''w''"
  "budget_bypass (runtime_with check) sample_cfg = NoBypass"
  "\<not> cache_enabled E (sample_ctx JNull)" "cache_enabled (runtime_with check) (sample_ctx (JStr c))"
  by (simp_all add: environ_flag_def runtime_with_def budget_workflow_def sample_cfg_def sample_ctx_def
        budget_bypass_def cache_enabled_def)

lemma runtime_with_draws:
  "be_uuid (runtime_with check) n = (''op'', Suc n)" "be_now (runtime_with check) n = (0, n)"
  by (simp_all add: runtime_with_def)

lemma allow_body_read:
  "require_gate_decision (JObj allow_body) = Inr (allow_body, ''allow'')"
  "captured_reservation (runtime_with check) (JObj allow_body) = JStr ''r1''"
  by (simp_all add: require_gate_decision_def allow_body_def src_gateway_def known_decision_sources_def
        known_gate_decisions_def captured_reservation_def runtime_with_def)

lemma budget_gate_proceeds_only_when_witness:
  "fst (check_workflow_budget (runtime_with (\<lambda>d n. (Inr (JObj allow_body), n))) sample_cfg (sample_ctx JNull)
      fresh_state 0) = Inr (JStr ''r1'')
   \<and> admits (runtime_with (\<lambda>d n. (Inr (JObj allow_body), n))) (JObj allow_body)"
proof -
  let ?E = "runtime_with (\<lambda>d n. (Inr (JObj allow_body), n))"
  have chk: "be_check ?E d u = (Inr (JObj allow_body), u)" for d u by (simp add: runtime_with_def)
  obtain s' w' where run: "check_workflow_budget ?E sample_cfg (sample_ctx JNull) fresh_state 0
      = (Inr (JStr ''r1''), s', w')"
    using allow_body_read
    by (auto simp: check_workflow_budget_def ask_gate_def chk runtime_with_draws act_on_answer_def Let_def
          allow_body_def is_fallback_decision_source_def src_gateway_def src_fallback_def split: prod.splits)
  from budget_gate_proceeds_only_when [OF run] show ?thesis
    using run by (auto simp: chk)
qed

definition list_refusal :: http_response where
  "list_refusal = \<lparr>resp_status = 403, resp_json = Some (JList []), resp_retry_after = None\<rparr>"

lemma refusal_4xx_exact_witness:
  "\<exists>v. fst (check_workflow_budget (runtime_with (check_gate (always list_refusal) NoHandler JNull))
      sample_cfg (sample_ctx JNull) fresh_state 0) = Inr v"
proof -
  have post: "fst (g_post (always list_refusal) ''/api/v1/gate'' b v) = Inr list_refusal" for b v
    by (simp add: always_def)
  have r: "400 \<le> resp_status list_refusal" "resp_status list_refusal < 500" "resp_status list_refusal \<noteq> 401"
    "resp_json list_refusal = Some (JList [])"
    by (simp_all add: list_refusal_def)
  have "unread_refusal list_refusal (JList [])"
    by (simp add: unread_refusal_def resolve_refusal_category_def is_gate_refusal_def)
  with refusal_4xx_exact [OF _ _ _ _ post r, of "runtime_with (check_gate (always list_refusal) NoHandler JNull)"
      NoHandler JNull "sample_ctx JNull" sample_cfg fresh_state 0]
  show ?thesis by simp
qed

lemma cached_allow_covers_any_action_witness:
  "\<exists>n. check_workflow_budget (runtime_with (\<lambda>d n. (Inl (PyError ''unused''), n))) sample_cfg
      ((sample_ctx (JStr ''chain''))\<lparr>cx_tools := [JStr ''delete_all''], cx_impact := JObj [(''amount'', JInt 1000000)],
          cx_digest := ''other'', cx_mcp_class := JNull, cx_mcp_annotations := JNull,
          cx_max_output_tokens := JNull\<rparr>)
      \<lparr>rs_cache = [((''w'', JStr ''chain'', JStr ''gpt'', JInt 1), (0, JObj allow_body))], rs_minted = JNull, rs_operation = JNull\<rparr> 0
    = (Inr (JStr ''r1''),
       \<lparr>rs_cache = [((''w'', JStr ''chain'', JStr ''gpt'', JInt 1), (0, JObj allow_body))], rs_minted = JStr ''r1'',
         rs_operation = JStr ''op''\<rparr>, n)"
proof -
  let ?E = "runtime_with (\<lambda>d n. (Inl (PyError ''unused''), n))"
  let ?s = "\<lparr>rs_cache = [((''w'', JStr ''chain'', JStr ''gpt'', JInt 1), (0 :: rat, JObj allow_body))], rs_minted = JNull, rs_operation = JNull\<rparr>"
  have "gate_cache_key ''w'' (sample_ctx (JStr ''chain'')) = (''w'', JStr ''chain'', JStr ''gpt'', JInt 1)"
    by (simp add: gate_cache_key_def sample_ctx_def)
  then have c: "dict_get (rs_cache ?s) (gate_cache_key ''w'' (sample_ctx (JStr ''chain''))) = Some (0, JObj allow_body)"
    by simp
  have b: "jget allow_body ''decision'' = JStr ''allow''" "jget allow_body ''decision_source'' = JStr src_gateway"
    by (simp_all add: allow_body_def)
  have w: "be_uuid ?E 0 = (''op'', 1)" "be_uuid ?E 1 = (''op'', 2)" "be_now ?E 2 = (0, 2)"
    by (simp_all add: runtime_with_def)
  have t: "(0 :: rat) - 0 < gate_cache_ttl" by (simp add: gate_cache_ttl_def)
  show ?thesis
    using cached_allow_covers_any_action [OF sample_facts(4) sample_facts(3) _ sample_facts(6) c b w t]
    by (auto simp: allow_body_read)
qed

end
