(* ===== verification/Runtime_Execute.thy ===== *)
theory Runtime_Execute
  imports Runtime_Gate_Laws
begin

text \<open>
  The policy call of the runtime (\<open>NullRunRuntime.execute\<close> in \<open>src/nullrun/runtime.py\<close>): the request it
  puts together, the first question to \<open>/execute\<close>, the wait for an approval with the second question,
  and what each answer turns into.  Metrics, log lines and the error hook are left out; the text of an
  exception is its first words.
\<close>

section \<open>The call\<close>

text \<open>\<open>xe_call\<close> is \<open>Transport.execute\<close> with the fallback mode and the handler the runtime passes.\<close>

record 'w execute_env =
  xe_gate :: "'w budget_env"
  xe_call :: "execute_args \<Rightarrow> 'w \<Rightarrow> (gate_exn + json) \<times> 'w"

text \<open>The arguments of the call, and the context variables it reads (\<open>None\<close> is \<open>JNull\<close>).\<close>

record execute_call =
  xc_tool :: string
  xc_input :: json
  xc_mode :: string
  xc_impact :: json
  xc_digest :: json
  xc_tools :: "json list option"
  xc_approval :: json
  xc_arguments :: json
  xc_workflow :: string
  xc_trace :: string
  xc_context_tools :: "json list"

definition unknown_workflow_id :: string where "unknown_workflow_id = ''__nullrun_unknown__''"

definition named_workflow :: "execute_call \<Rightarrow> string" where
  "named_workflow x = (if xc_workflow x = [] then unknown_workflow_id else xc_workflow x)"

definition inline_removed :: gate_exn where
  "inline_removed =
     built (nullrun_init NullRunConfigError ''mode=\"inline\" has been removed'' []
              [(''error_code'', JStr ''NR-S001'')])"

definition call_tools :: "execute_call \<Rightarrow> json list" where
  "call_tools x = (case xc_tools x of None \<Rightarrow> xc_context_tools x | Some ts \<Rightarrow> ts)"

definition execute_kwargs :: "runtime_cfg \<Rightarrow> execute_call \<Rightarrow> string \<Rightarrow> string \<Rightarrow> json \<Rightarrow> execute_args" where
  "execute_kwargs cfg x trace exec op =
     \<lparr>ex_organization_id = JStr (or_local (rc_organization cfg)), ex_execution_id = JStr exec,
      ex_trace_id = JStr trace, ex_tool = JStr (xc_tool x), ex_input = xc_input x,
      ex_mode = JStr (if xc_mode x = ''auto'' then ''strict'' else xc_mode x), ex_operation_id = op,
      ex_approval_id = xc_approval x, ex_business_impact = xc_impact x, ex_action_digest = xc_digest x,
      ex_tool_arguments = xc_arguments x,
      ex_tools = (if call_tools x = [] then JNull else JList (call_tools x))\<rparr>"

section \<open>The exceptions\<close>

text \<open>
  A refusal of the first question under \<open>on_denied\<close>.  The comparison is by value, so a category read
  from the wire counts as the enumeration member.
\<close>

definition denied_exn :: "runtime_cfg \<Rightarrow> execute_call \<Rightarrow> gate_exn \<Rightarrow> gate_exn" where
  "denied_exn cfg x exn =
     (case exn of
        SdkErr e \<Rightarrow>
          (if is_subclass (err_class e) NullRunBlockedException
              \<and> jget (err_attrs e) ''wire_category'' \<in> {JStr ''denied'', JEnum ''denied''}
              \<and> rc_on_denied cfg = ''message''
           then built (blocked_call NullRunDeniedError
                  [(''agent_message'', jget (err_attrs e) ''agent_message'')]
                  (JStr (named_workflow x)) (jget (err_attrs e) ''reason'') JNull
                  [(''decision_source'', JStr src_gateway), (''reasons'', jget (err_attrs e) ''reason'')])
           else exn)
      | _ \<Rightarrow> exn)"

definition blocked_tool :: "exc_class \<Rightarrow> dict \<Rightarrow> execute_call \<Rightarrow> string \<Rightarrow> gate_exn" where
  "blocked_tool cls extra x reason =
     built (blocked_call cls extra (JStr (named_workflow x)) (JStr reason) (JStr (xc_tool x)) [])"

text \<open>The outcome text of a finished wait, and the exception of one that is no approval.\<close>

definition wait_outcome :: "waiter \<Rightarrow> string" where
  "wait_outcome w =
     (case w of Answered (Some s) \<Rightarrow> s | TimedOut \<Rightarrow> ''timeout'' | _ \<Rightarrow> [])"

definition unapproved_exn ::
  "(json \<Rightarrow> string) \<Rightarrow> execute_call \<Rightarrow> json \<Rightarrow> rat option \<Rightarrow> string \<Rightarrow> json \<Rightarrow> gate_exn" where
  "unapproved_exn rep x approval_id timeout outcome note =
     (if outcome = ''denied'' then
        blocked_tool NullRunApprovalDeniedError [(''approval_id'', approval_id), (''denial_note'', note)] x
          (''approval denied: '' @ py_str rep (py_or note (JStr ''operator denied'')))
      else if outcome = ''timeout'' then
        blocked_tool NullRunApprovalExpiredError
          [(''approval_id'', approval_id),
           (''timeout_seconds'', case timeout of None \<Rightarrow> JNull | Some t \<Rightarrow> JFloat t),
           (''local_timeout'', JBool True)] x
          (''approval '' @ py_str rep approval_id @ '' timeout'')
      else
        blocked_tool NullRunBlockedException [] x
          (''approval '' @ py_str rep approval_id @ '' unresolved: outcome='' @ rep (JStr outcome)))"

section \<open>The answers\<close>

text \<open>The answer that is acted on last: a block raises, anything else is handed to the caller.\<close>

definition settle_answer :: "'w budget_env \<Rightarrow> execute_call \<Rightarrow> dict \<Rightarrow> gate_exn + json" where
  "settle_answer E x d =
     (if jget d ''decision'' = JStr ''block'' then
        (case build_block_exception (be_name E) d (JStr (named_workflow x)) (JStr (xc_tool x)) of
           Inl c \<Rightarrow> Inl (PyError c)
         | Inr e \<Rightarrow> Inl (SdkErr e))
      else Inr (JObj d))"

definition approved_again ::
  "'w execute_env \<Rightarrow> execute_call \<Rightarrow> execute_args \<Rightarrow> json \<Rightarrow> 'w \<Rightarrow> (gate_exn + json) \<times> 'w" where
  "approved_again R x a approval_id w =
     (case xe_call R (a\<lparr>ex_approval_id := JStr (py_str (be_repr (xe_gate R)) approval_id)\<rparr>) w of
        (Inl exn, w1) \<Rightarrow> (Inl exn, w1)
      | (Inr (JObj d), w1) \<Rightarrow>
          (if jget d ''decision'' = JStr ''require_approval''
           then (Inl (blocked_tool NullRunApprovalReplayRejectedError [(''approval_id'', approval_id)] x
                   ''approved action was not accepted on re-check''), w1)
           else (settle_answer (xe_gate R) x d, w1))
      | (Inr _, w1) \<Rightarrow> (Inl (PyError ''AttributeError''), w1))"

definition wait_then_again ::
  "'w execute_env \<Rightarrow> execute_call \<Rightarrow> execute_args \<Rightarrow> dict \<Rightarrow> 'w \<Rightarrow> (gate_exn + json) \<times> 'w" where
  "wait_then_again R x a d w =
     (let E = xe_gate R; rep = be_repr E; approval_id = py_or (jget d ''approval_id'') (JStr []) in
      if \<not> truthy approval_id then
        (Inl (blocked_tool NullRunApprovalResponseMissingError [] x
           ''approval_id missing in require_approval response''), w)
      else
        (case validate_approval_timeout (be_float E) (jget d ''approval_timeout_seconds'') of
           Inl c \<Rightarrow> (Inl (PyError c), w)
         | Inr timeout \<Rightarrow>
             (case be_wait E (JStr (py_str rep approval_id)) timeout w of
                ((answer, note), w1) \<Rightarrow>
                  (if wait_outcome answer = ''approved'' then approved_again R x a approval_id w1
                   else (Inl (unapproved_exn rep x approval_id timeout (wait_outcome answer) note), w1)))))"

definition act_on_execute ::
  "'w execute_env \<Rightarrow> execute_call \<Rightarrow> execute_args \<Rightarrow> json \<Rightarrow> runtime_state \<Rightarrow> 'w
     \<Rightarrow> (gate_exn + json) \<times> runtime_state \<times> 'w" where
  "act_on_execute R x a j s w =
     (let reservation = captured_reservation (xe_gate R) j;
          s1 = s\<lparr>rs_minted := reservation\<rparr>;
          a1 = (if reservation = JNull then a else a\<lparr>ex_execution_id := reservation\<rparr>) in
      (case j of
         JObj d \<Rightarrow>
           (if jget d ''decision'' = JStr ''require_approval''
            then (case wait_then_again R x a1 d w of (res, w1) \<Rightarrow> (res, s1, w1))
            else (settle_answer (xe_gate R) x d, s1, w))
       | _ \<Rightarrow> (Inl (PyError ''AttributeError''), s1, w)))"

section \<open>The policy call\<close>

definition draw_if :: "bool \<Rightarrow> 'w budget_env \<Rightarrow> string \<Rightarrow> 'w \<Rightarrow> string \<times> 'w" where
  "draw_if missing E given w = (if missing then be_uuid E w else (given, w))"

definition runtime_execute ::
  "'w execute_env \<Rightarrow> runtime_cfg \<Rightarrow> execute_call \<Rightarrow> runtime_state \<Rightarrow> 'w
     \<Rightarrow> (gate_exn + json) \<times> runtime_state \<times> 'w" where
  "runtime_execute R cfg x s w =
     (if xc_mode x = ''inline'' then (Inl inline_removed, s, w)
      else
        (case draw_if (xc_trace x = []) (xe_gate R) (xc_trace x) w of
           (trace, w1) \<Rightarrow>
             (case (case rs_operation s of
                      JNull \<Rightarrow> (case be_uuid (xe_gate R) w1 of (u, w') \<Rightarrow> (JStr u, w'))
                    | op \<Rightarrow> (op, w1)) of
                (op, w2) \<Rightarrow>
                  (case (case rs_minted s of
                           JStr m \<Rightarrow> (m, w2)
                         | _ \<Rightarrow> be_uuid (xe_gate R) w2) of
                     (exec, w3) \<Rightarrow>
                       (let a = execute_kwargs cfg x trace exec op; s1 = s\<lparr>rs_operation := op\<rparr> in
                        (case xe_call R a w3 of
                           (Inl exn, w4) \<Rightarrow> (Inl (denied_exn cfg x exn), s1, w4)
                         | (Inr j, w4) \<Rightarrow>
                             act_on_execute R x a j s1 w4))))))"


section \<open>What it hands over\<close>

definition asked_for :: "runtime_cfg \<Rightarrow> execute_call \<Rightarrow> execute_args \<Rightarrow> bool" where
  "asked_for cfg x a \<longleftrightarrow>
     ex_tool a = JStr (xc_tool x) \<and> ex_input a = xc_input x
     \<and> ex_mode a = JStr (if xc_mode x = ''auto'' then ''strict'' else xc_mode x)
     \<and> ex_business_impact a = xc_impact x \<and> ex_action_digest a = xc_digest x
     \<and> ex_tools a = (if call_tools x = [] then JNull else JList (call_tools x))"

lemma asked_kwargs: "asked_for cfg x (execute_kwargs cfg x trace exec op)"
  by (simp add: asked_for_def execute_kwargs_def)

lemma kwargs_approval [simp]: "ex_approval_id (execute_kwargs cfg x trace exec op) = xc_approval x"
  by (simp add: execute_kwargs_def)

lemma asked_update [simp]:
  "asked_for cfg x (a\<lparr>ex_execution_id := e\<rparr>) = asked_for cfg x a"
  "asked_for cfg x (a\<lparr>ex_approval_id := e\<rparr>) = asked_for cfg x a"
  by (simp_all add: asked_for_def)

lemma settle_answer_Inr:
  "settle_answer E x d = Inr j \<longleftrightarrow> j = JObj d \<and> jget d ''decision'' \<noteq> JStr ''block''"
  by (auto simp: settle_answer_def split: sum.splits)

definition approved_wait :: "'w budget_env \<Rightarrow> json \<Rightarrow> bool" where
  "approved_wait E approval_id \<longleftrightarrow>
     (\<exists>t u. wait_outcome (fst (fst (be_wait E approval_id t u))) = ''approved'')"

lemma wait_then_again_Inr:
  assumes "wait_then_again R x a d w = (Inr j, w')"
  shows "\<exists>d1 a1 v. j = JObj d1 \<and> fst (xe_call R a1 v) = Inr (JObj d1)
    \<and> jget d1 ''decision'' \<noteq> JStr ''block'' \<and> jget d1 ''decision'' \<noteq> JStr ''require_approval''
    \<and> a1 = a\<lparr>ex_approval_id := JStr (py_str (be_repr (xe_gate R)) (jget d ''approval_id''))\<rparr>
    \<and> truthy (jget d ''approval_id'') \<and> approved_wait (xe_gate R) (ex_approval_id a1)"
proof -
  let ?id = "py_or (jget d ''approval_id'') (JStr [])" and ?E = "xe_gate R"
  let ?a1 = "a\<lparr>ex_approval_id := JStr (py_str (be_repr ?E) (jget d ''approval_id''))\<rparr>"
  have id: "truthy ?id" "?id = jget d ''approval_id''"
    using assms by (auto simp: wait_then_again_def Let_def py_or_def split: if_splits)
  from assms id obtain t answer pushed w1 where
    wait: "be_wait ?E (JStr (py_str (be_repr ?E) (jget d ''approval_id''))) t w = ((answer, pushed), w1)"
      "wait_outcome answer = ''approved''"
    and again: "approved_again R x a (jget d ''approval_id'') w1 = (Inr j, w')"
    by (auto simp: wait_then_again_def Let_def split: sum.splits prod.splits if_splits)
  from again obtain d1 where "j = JObj d1" "fst (xe_call R ?a1 w1) = Inr (JObj d1)"
      "jget d1 ''decision'' \<noteq> JStr ''block''" "jget d1 ''decision'' \<noteq> JStr ''require_approval''"
    by (auto simp: approved_again_def settle_answer_Inr split: prod.splits sum.splits json.splits if_splits)
  moreover have "approved_wait ?E (ex_approval_id ?a1)"
    unfolding approved_wait_def by (intro exI [of _ t] exI [of _ w]) (simp add: wait)
  ultimately show ?thesis using id by (intro exI [of _ d1] exI [of _ ?a1] exI [of _ w1]) simp
qed


lemma act_on_execute_Inr:
  assumes "act_on_execute R x a j0 s w = (Inr j, s', w')" "asked_for cfg x a" "ex_approval_id a = xc_approval x"
    and "fst (xe_call R a v0) = Inr j0"
  shows "\<exists>d a v. j = JObj d \<and> fst (xe_call R a v) = Inr (JObj d) \<and> asked_for cfg x a
    \<and> jget d ''decision'' \<noteq> JStr ''block'' \<and> jget d ''decision'' \<noteq> JStr ''require_approval''
    \<and> (ex_approval_id a = xc_approval x
       \<or> (\<exists>d0 a0 v0. fst (xe_call R a0 v0) = Inr (JObj d0) \<and> asked_for cfg x a0
            \<and> jget d0 ''decision'' = JStr ''require_approval'' \<and> truthy (jget d0 ''approval_id'')
            \<and> ex_approval_id a = JStr (py_str (be_repr (xe_gate R)) (jget d0 ''approval_id''))
            \<and> approved_wait (xe_gate R) (ex_approval_id a)))"
proof -
  obtain d where j0: "j0 = JObj d" using assms(1) by (cases j0) (auto simp: act_on_execute_def Let_def)
  show ?thesis
  proof (cases "jget d ''decision'' = JStr ''require_approval''")
    case False
    with assms j0 show ?thesis
      by (intro exI [of _ d] exI [of _ a] exI [of _ v0])
         (auto simp: act_on_execute_def Let_def settle_answer_Inr)
  next
    case True
    with assms(1) j0 obtain a1 where "wait_then_again R x a1 d w = (Inr j, w')" "asked_for cfg x a1"
      using assms(2) by (auto simp: act_on_execute_def Let_def split: prod.splits)
    from wait_then_again_Inr [OF this(1)] this(2) obtain d1 a2 v where
      "j = JObj d1" "fst (xe_call R a2 v) = Inr (JObj d1)" "asked_for cfg x a2"
      "jget d1 ''decision'' \<noteq> JStr ''block''" "jget d1 ''decision'' \<noteq> JStr ''require_approval''"
      "truthy (jget d ''approval_id'')" "approved_wait (xe_gate R) (ex_approval_id a2)"
      "ex_approval_id a2 = JStr (py_str (be_repr (xe_gate R)) (jget d ''approval_id''))"
      by auto
    with True assms(2,4) j0 show ?thesis by blast
  qed
qed

lemma execute_returns:
  assumes "runtime_execute R cfg x s w = (Inr j, s', w')"
  shows "\<exists>d a v. j = JObj d \<and> fst (xe_call R a v) = Inr (JObj d) \<and> asked_for cfg x a
    \<and> jget d ''decision'' \<noteq> JStr ''block'' \<and> jget d ''decision'' \<noteq> JStr ''require_approval''
    \<and> (ex_approval_id a = xc_approval x
       \<or> (\<exists>d0 a0 v0. fst (xe_call R a0 v0) = Inr (JObj d0) \<and> asked_for cfg x a0
            \<and> jget d0 ''decision'' = JStr ''require_approval'' \<and> truthy (jget d0 ''approval_id'')
            \<and> ex_approval_id a = JStr (py_str (be_repr (xe_gate R)) (jget d0 ''approval_id''))
            \<and> approved_wait (xe_gate R) (ex_approval_id a)))"
proof -
  from assms obtain trace exec op v0 j0 w4 rs rs' where
    call: "xe_call R (execute_kwargs cfg x trace exec op) v0 = (Inr j0, w4)"
    and act: "act_on_execute R x (execute_kwargs cfg x trace exec op) j0 rs w4 = (Inr j, rs', w')"
    by (auto simp: runtime_execute_def Let_def split: if_splits prod.splits sum.splits)
  from call show ?thesis
    by (intro act_on_execute_Inr [OF act asked_kwargs kwargs_approval, where ?v0.0 = v0]) simp
qed

text \<open>The first question of a policy call and the world it is asked in.\<close>

definition first_question ::
  "'w execute_env \<Rightarrow> runtime_cfg \<Rightarrow> execute_call \<Rightarrow> runtime_state \<Rightarrow> 'w \<Rightarrow> execute_args \<times> 'w" where
  "first_question R cfg x s w =
     (case draw_if (xc_trace x = []) (xe_gate R) (xc_trace x) w of
        (trace, w1) \<Rightarrow>
          (case (case rs_operation s of
                   JNull \<Rightarrow> (case be_uuid (xe_gate R) w1 of (u, w') \<Rightarrow> (JStr u, w'))
                 | op \<Rightarrow> (op, w1)) of
             (op, w2) \<Rightarrow>
               (case (case rs_minted s of JStr m \<Rightarrow> (m, w2) | _ \<Rightarrow> be_uuid (xe_gate R) w2) of
                  (exec, w3) \<Rightarrow> (execute_kwargs cfg x trace exec op, w3))))"

lemma wait_then_again_trace:
  assumes "wait_then_again R x a d w = (Inr j, w')"
  shows "truthy (jget d ''approval_id'')
    \<and> (\<exists>d1 t answer msg v.
         be_wait (xe_gate R) (JStr (py_str (be_repr (xe_gate R)) (jget d ''approval_id''))) t w = ((answer, msg), v)
         \<and> wait_outcome answer = ''approved''
         \<and> xe_call R (a\<lparr>ex_approval_id := JStr (py_str (be_repr (xe_gate R)) (jget d ''approval_id''))\<rparr>) v
             = (Inr (JObj d1), w')
         \<and> j = JObj d1 \<and> jget d1 ''decision'' \<notin> {JStr ''block'', JStr ''require_approval''})"
proof -
  let ?id = "py_or (jget d ''approval_id'') (JStr [])" and ?E = "xe_gate R"
  have id: "truthy ?id" "?id = jget d ''approval_id''"
    using assms by (auto simp: wait_then_again_def Let_def py_or_def split: if_splits)
  from assms id obtain t answer msg v where
    wait: "be_wait ?E (JStr (py_str (be_repr ?E) (jget d ''approval_id''))) t w = ((answer, msg), v)"
      "wait_outcome answer = ''approved''"
    and again: "approved_again R x a (jget d ''approval_id'') v = (Inr j, w')"
    by (auto simp: wait_then_again_def Let_def split: sum.splits prod.splits if_splits)
  from again obtain d1 where
    "xe_call R (a\<lparr>ex_approval_id := JStr (py_str (be_repr ?E) (jget d ''approval_id''))\<rparr>) v = (Inr (JObj d1), w')"
    "j = JObj d1 \<and> jget d1 ''decision'' \<notin> {JStr ''block'', JStr ''require_approval''}"
    by (auto simp: approved_again_def settle_answer_Inr split: prod.splits sum.splits json.splits if_splits)
  with wait id show ?thesis by metis
qed

text \<open>
  C6: what the policy call hands to its caller.  The call asks \<open>/execute\<close> one question for this tool, input,
  impact, digest and tool list, under the approval the caller brought.  Unless the answer requires an approval,
  it is what the caller gets, and it is an object whose decision is not \<open>block\<close>.  If it requires one, it names
  its id, the wait for this id ended with \<open>approved\<close>, the same question was asked again under this id in the
  world the wait left, and the caller gets the second answer, an object whose decision is neither \<open>block\<close> nor
  \<open>require_approval\<close>.  Every other decision is handed over.
\<close>

theorem execute_hands_over_only:
  assumes "runtime_execute R cfg x s w = (Inr j, s', w')" "first_question R cfg x s w = (a, v)"
  shows "asked_for cfg x a \<and> ex_approval_id a = xc_approval x
    \<and> (\<exists>d v1. xe_call R a v = (Inr (JObj d), v1)
         \<and> (if jget d ''decision'' = JStr ''require_approval''
             then truthy (jget d ''approval_id'')
               \<and> (\<exists>a2 d2 t answer msg v2.
                    be_wait (xe_gate R) (ex_approval_id a2) t v1 = ((answer, msg), v2)
                    \<and> wait_outcome answer = ''approved'' \<and> asked_for cfg x a2
                    \<and> ex_approval_id a2 = JStr (py_str (be_repr (xe_gate R)) (jget d ''approval_id''))
                    \<and> xe_call R a2 v2 = (Inr (JObj d2), w') \<and> j = JObj d2
                    \<and> jget d2 ''decision'' \<notin> {JStr ''block'', JStr ''require_approval''})
             else j = JObj d \<and> w' = v1 \<and> jget d ''decision'' \<noteq> JStr ''block''))"
proof -
  obtain rs j0 v1 where call: "xe_call R a v = (Inr j0, v1)" and
    act: "act_on_execute R x a j0 rs v1 = (Inr j, s', w')"
    using assms by (auto simp: runtime_execute_def first_question_def Let_def split: if_splits prod.splits sum.splits)
  have a: "asked_for cfg x a" "ex_approval_id a = xc_approval x"
    using assms(2) by (auto simp: first_question_def asked_kwargs split: prod.splits)
  obtain d where d: "j0 = JObj d" using act by (cases j0) (auto simp: act_on_execute_def Let_def)
  show ?thesis
  proof (cases "jget d ''decision'' = JStr ''require_approval''")
    case False
    with act d call a show ?thesis by (auto simp: act_on_execute_def Let_def settle_answer_Inr)
  next
    case True
    with act d obtain a1 where "wait_then_again R x a1 d v1 = (Inr j, w')" "asked_for cfg x a1"
      using a(1) by (auto simp: act_on_execute_def Let_def split: prod.splits)
    let ?a2 = "a1\<lparr>ex_approval_id := JStr (py_str (be_repr (xe_gate R)) (jget d ''approval_id''))\<rparr>"
    from wait_then_again_trace [OF \<open>wait_then_again R x a1 d v1 = (Inr j, w')\<close>] \<open>asked_for cfg x a1\<close> show ?thesis
      using True d call a by (auto intro!: exI [of _ ?a2]) blast
  qed
qed

text \<open>Any decision the runtime does not know is handed over as it is.\<close>

lemma unlisted_decision_returned:
  assumes "jget d ''decision'' \<noteq> JStr ''block''" "jget d ''decision'' \<noteq> JStr ''require_approval''"
  shows "fst (act_on_execute R x a (JObj d) s w) = Inr (JObj d)"
  using assms by (simp add: act_on_execute_def Let_def settle_answer_def)

lemma answers_handed_over:
  assumes "\<And>a v. \<exists>d. fst (xe_call R a v) = Inr (JObj d) \<and> Q d" "xc_mode x \<noteq> ''inline''"
    and "\<And>d. Q d \<Longrightarrow> jget d ''decision'' \<noteq> JStr ''block'' \<and> jget d ''decision'' \<noteq> JStr ''require_approval''"
  shows "\<exists>d. Q d \<and> fst (runtime_execute R cfg x s w) = Inr (JObj d)"
proof -
  obtain trace w1 where trace: "draw_if (xc_trace x = []) (xe_gate R) (xc_trace x) w = (trace, w1)"
    by fastforce
  obtain op w2 where op: "(case rs_operation s of
      JNull \<Rightarrow> (case be_uuid (xe_gate R) w1 of (u, w') \<Rightarrow> (JStr u, w')) | op \<Rightarrow> (op, w1)) = (op, w2)"
    by fastforce
  obtain exec w3 where exec: "(case rs_minted s of JStr m \<Rightarrow> (m, w2) | _ \<Rightarrow> be_uuid (xe_gate R) w2) = (exec, w3)"
    by fastforce
  obtain d w4 where d: "xe_call R (execute_kwargs cfg x trace exec op) w3 = (Inr (JObj d), w4)" "Q d"
    using assms(1) by (metis prod.collapse)
  have "fst (runtime_execute R cfg x s w) = Inr (JObj d)"
    unfolding runtime_execute_def trace prod.case op exec using assms(2) assms(3) [OF d(2)]
    by (simp add: d(1) unlisted_decision_returned)
  with d(2) show ?thesis by blast
qed

lemma unlisted_decision_handed_over:
  assumes "\<And>a v. fst (xe_call R a v) = Inr (JObj d)" "xc_mode x \<noteq> ''inline''"
    and "jget d ''decision'' \<noteq> JStr ''block''" "jget d ''decision'' \<noteq> JStr ''require_approval''"
  shows "fst (runtime_execute R cfg x s w) = Inr (JObj d)"
  using answers_handed_over [of R "\<lambda>e. e = d"] assms by simp

section \<open>A concrete call\<close>

definition deny_body :: dict where "deny_body = [(''decision'', JStr ''deny'')]"

definition sample_execute :: "nat execute_env" where
  "sample_execute =
     \<lparr>xe_gate = runtime_with (\<lambda>d n. (Inl (PyError ''unused''), n)), xe_call = (\<lambda>a n. (Inr (JObj deny_body), n))\<rparr>"

definition sample_execute_call :: execute_call where
  "sample_execute_call =
     \<lparr>xc_tool = ''wire_money'', xc_input = JNull, xc_mode = ''auto'', xc_impact = JNull, xc_digest = JNull,
      xc_tools = None, xc_approval = JNull, xc_arguments = JNull, xc_workflow = ''w'', xc_trace = ''t'',
      xc_context_tools = []\<rparr>"

lemma sample_execute_run:
  "\<exists>s' w'. runtime_execute sample_execute sample_cfg sample_execute_call fresh_state 0
     = (Inr (JObj deny_body), s', w')"
  by (auto simp: runtime_execute_def sample_execute_def sample_execute_call_def
      draw_if_def Let_def fresh_state_def runtime_with_draws act_on_execute_def settle_answer_def deny_body_def)

definition approval_body :: dict where
  "approval_body = [(''decision'', JStr ''require_approval''), (''approval_id'', JStr ''ap1'')]"

text \<open>An environment that asks for an approval first, in which the operator approves at once.\<close>

definition approving_execute :: "nat execute_env" where
  "approving_execute =
     \<lparr>xe_gate = (runtime_with (\<lambda>d n. (Inl (PyError ''unused''), n)))
        \<lparr>be_wait := (\<lambda>i t n. ((Answered (Some ''approved''), JNull), n))\<rparr>,
      xe_call = (\<lambda>a n. (Inr (JObj (if ex_approval_id a = JNull then approval_body else deny_body)), Suc n))\<rparr>"

lemma execute_hands_over_only_witness:
  "\<exists>t answer msg v1 v2. be_wait (xe_gate approving_execute) (JStr ''ap1'') t v1 = ((answer, msg), v2)
     \<and> wait_outcome answer = ''approved''"
proof -
  obtain a v where q: "first_question approving_execute sample_cfg sample_execute_call fresh_state 0 = (a, v)"
    by fastforce
  have "\<exists>s' w'. runtime_execute approving_execute sample_cfg sample_execute_call fresh_state 0
      = (Inr (JObj deny_body), s', w')"
    by (auto simp: runtime_execute_def approving_execute_def sample_execute_call_def draw_if_def Let_def
        fresh_state_def runtime_with_def act_on_execute_def settle_answer_def deny_body_def approval_body_def
        wait_then_again_def approved_again_def py_or_def validate_approval_timeout_def wait_outcome_def execute_kwargs_def)
  then obtain s' w' where run: "runtime_execute approving_execute sample_cfg sample_execute_call fresh_state 0
      = (Inr (JObj deny_body), s', w')" by blast
  have "ex_approval_id a = JNull" if "ex_approval_id a = xc_approval sample_execute_call"
    using that by (simp add: sample_execute_call_def)
  with execute_hands_over_only [OF run q] show ?thesis
    by (auto simp: approving_execute_def approval_body_def)
qed

end
