(* ===== verification/Business_Impact.thy ===== *)
theory Business_Impact
  imports Nullrun_Prelude "HOL-Library.List_Lexorder" "HOL-Library.Char_ord"
begin

text \<open>
  The business impact of a tool call and its digest (\<open>src/nullrun/business_impact.py\<close>): validation,
  the canonical JSON text, and the SHA-256 digest an approval is bound to.  The order of strings is
  the order of their UTF-8 bytes, which is Python's order of their code points.  Lone surrogates,
  keys that are not strings and values outside JSON are left out.
\<close>

section \<open>JSON text\<close>

text \<open>\<open>json.dumps(value, ensure_ascii=False, separators=(",", ":"))\<close>; \<open>float_repr\<close> prints a float.\<close>

definition hex_char :: "nat \<Rightarrow> char" where
  "hex_char n = (if n < 10 then char_of (48 + n) else char_of (87 + n))"

definition escape :: "char \<Rightarrow> string" where
  "escape c =
     (let n = (of_char c :: nat) in
      if n = 34 then [CHR 0x5C, CHR 0x22]
      else if n = 92 then [CHR 0x5C, CHR 0x5C]
      else if n = 10 then [CHR 0x5C, CHR ''n'']
      else if n = 13 then [CHR 0x5C, CHR ''r'']
      else if n = 9 then [CHR 0x5C, CHR ''t'']
      else if n = 12 then [CHR 0x5C, CHR ''f'']
      else if n = 8 then [CHR 0x5C, CHR ''b'']
      else if n < 32 then [CHR 0x5C, CHR ''u'', CHR ''0'', CHR ''0'', hex_char (n div 16), hex_char (n mod 16)]
      else [c])"

definition quoted :: "string \<Rightarrow> string" where
  "quoted s = [CHR 0x22] @ concat (map escape s) @ [CHR 0x22]"

primrec dumps :: "(rat \<Rightarrow> string) \<Rightarrow> json \<Rightarrow> string" where
  "dumps float_repr JNull = ''null''"
| "dumps float_repr (JBool b) = (if b then ''true'' else ''false'')"
| "dumps float_repr (JInt i) = show_int i"
| "dumps float_repr (JFloat r) = float_repr r"
| "dumps float_repr (JStr s) = quoted s"
| "dumps float_repr (JList xs) = ''['' @ join_with '','' (map (dumps float_repr) xs) @ '']''"
| "dumps float_repr (JObj d) =
     ''{'' @ join_with '','' (map (\<lambda>(k, t). quoted k @ '':'' @ t) (map (map_prod id (dumps float_repr)) d)) @ ''}''"
| "dumps float_repr (JEnum s) = quoted s"

section \<open>The impact\<close>

datatype impact =
    NoImpactPayload
  | ToolCallParams string dict string string

definition digest_prefix :: string where
  "digest_prefix = ''nullrun/v1/business_impact:''"

definition extractor_id :: string where "extractor_id = ''nullrun.tool_call.path''"

definition extractor_version :: string where "extractor_version = ''1''"

definition max_tool_name_bytes :: nat where "max_tool_name_bytes = 128"

definition max_param_name_bytes :: nat where "max_param_name_bytes = 64"

text \<open>\<open>_reject_unsupported_value\<close>; every refusal of it is a \<open>ValueError\<close>.\<close>

primrec reject_unsupported_value :: "json \<Rightarrow> bool" where
  "reject_unsupported_value JNull = False"
| "reject_unsupported_value (JBool b) = False"
| "reject_unsupported_value (JInt i) = False"
| "reject_unsupported_value (JFloat r) = True"
| "reject_unsupported_value (JStr s) = False"
| "reject_unsupported_value (JList xs) = list_ex id (map reject_unsupported_value xs)"
| "reject_unsupported_value (JObj d) =
     list_ex (\<lambda>(k, bad). length k > max_param_name_bytes \<or> bad)
       (map (map_prod id reject_unsupported_value) d)"
| "reject_unsupported_value (JEnum s) = False"

definition printable :: "char \<Rightarrow> bool" where
  "printable c \<longleftrightarrow> 32 \<le> (of_char c :: nat) \<and> (of_char c :: nat) < 127"

definition validate :: "impact \<Rightarrow> string + unit" where
  "validate i =
     (case i of
        NoImpactPayload \<Rightarrow> Inr ()
      | ToolCallParams name params ext ver \<Rightarrow>
          (if name = [] \<or> length name > max_tool_name_bytes \<or> \<not> list_all printable name
              \<or> list_ex (\<lambda>(k, v). length k > max_param_name_bytes \<or> reject_unsupported_value v) params
           then Inl ''ValueError'' else Inr ()))"

definition to_wire_dict :: "impact \<Rightarrow> dict" where
  "to_wire_dict i =
     (case i of
        NoImpactPayload \<Rightarrow> [(''kind'', JStr ''none'')]
      | ToolCallParams name params ext ver \<Rightarrow>
          [(''kind'', JStr ''tool_call''), (''tool_name'', JStr name), (''params'', JObj params),
           (''extractor_id'', JStr ext), (''extractor_version'', JStr ver)])"

definition no_impact :: impact where "no_impact = NoImpactPayload"

definition tool_call :: "string \<Rightarrow> dict \<Rightarrow> string + impact" where
  "tool_call name params =
     (let i = ToolCallParams name params extractor_id extractor_version in
      map_sum id (\<lambda>_. i) (validate i))"

section \<open>The digest\<close>

primrec canonicalize_json :: "json \<Rightarrow> json" where
  "canonicalize_json JNull = JNull"
| "canonicalize_json (JBool b) = JBool b"
| "canonicalize_json (JInt i) = JInt i"
| "canonicalize_json (JFloat r) = JFloat r"
| "canonicalize_json (JStr s) = JStr s"
| "canonicalize_json (JList xs) = JList (map canonicalize_json xs)"
| "canonicalize_json (JObj d) = JObj (sort_key fst (map (map_prod id canonicalize_json) d))"
| "canonicalize_json (JEnum s) = JEnum s"

definition canonical_bytes :: "(rat \<Rightarrow> string) \<Rightarrow> impact \<Rightarrow> string + string" where
  "canonical_bytes float_repr i =
     map_sum id (\<lambda>_. dumps float_repr (canonicalize_json (JObj (to_wire_dict i)))) (validate i)"

text \<open>\<open>sha256\<close> is the hexadecimal digest of \<open>hashlib.sha256\<close>.\<close>

definition compute_action_digest ::
  "(string \<Rightarrow> string) \<Rightarrow> (rat \<Rightarrow> string) \<Rightarrow> impact \<Rightarrow> string + string" where
  "compute_action_digest sha256 float_repr i =
     map_sum id (\<lambda>b. sha256 (digest_prefix @ b)) (canonical_bytes float_repr i)"


section \<open>The text determines the value\<close>

text \<open>What may follow a value inside a text: nothing, a separator or a closing bracket.\<close>

definition stops :: "string \<Rightarrow> bool" where
  "stops r \<longleftrightarrow> r = [] \<or> hd r \<in> set '',]}''"

lemma stops_simps [simp]: "stops []" "stops (CHR '','' # r)" "stops (CHR '']'' # r)" "stops (CHR ''}'' # r)"
  by (simp_all add: stops_def)

definition is_digit :: "char \<Rightarrow> bool" where
  "is_digit c \<longleftrightarrow> 48 \<le> (of_char c :: nat) \<and> (of_char c :: nat) \<le> 57"

lemma stops_no_digit: "stops r \<Longrightarrow> r = [] \<or> \<not> is_digit (hd r)"
  by (auto simp: stops_def is_digit_def)

lemma digit_of [simp]: "n < 10 \<Longrightarrow> of_char (char_of (48 + n) :: char) = (48 + n :: nat)"
  by simp

fun digits_value :: "nat \<Rightarrow> string \<Rightarrow> nat" where
  "digits_value a [] = a"
| "digits_value a (c # cs) = digits_value (10 * a + (of_char c - 48)) cs"

lemma digits_value_append: "digits_value a (s @ t) = digits_value (digits_value a s) t"
  by (induction a s rule: digits_value.induct) simp_all

lemma show_nat_value: "digits_value 0 (show_nat n) = n"
proof (induction n rule: show_nat.induct)
  case (1 n)
  show ?case
  proof (cases "n < 10")
    case True
    then show ?thesis by (subst show_nat.simps) simp
  next
    case False
    with 1 show ?thesis
      by (subst show_nat.simps) (simp add: digits_value_append)
  qed
qed

lemma show_nat_digits: "list_all is_digit (show_nat n)"
proof (induction n rule: show_nat.induct)
  case (1 n)
  have d: "is_digit (char_of (48 + m :: nat))" if "m < 10" for m
    using that by (simp add: is_digit_def)
  show ?case
    using 1 d [of n] d [of "n mod 10"] by (subst show_nat.simps) auto
qed

lemma show_nat_nonempty: "show_nat n \<noteq> []"
  by (subst show_nat.simps) simp

lemma show_nat_inject: "show_nat m = show_nat n \<longleftrightarrow> m = n"
  by (metis show_nat_value)

lemma digits_end:
  assumes "list_all is_digit ds" "list_all is_digit es" "stops r" "stops r'" "ds @ r = es @ r'"
  shows "ds = es \<and> r = r'"
proof -
  have "takeWhile is_digit (ds @ r) = ds" "takeWhile is_digit (es @ r') = es"
    using assms(1-4) stops_no_digit [of r] stops_no_digit [of r']
    by (cases r; cases r'; simp add: takeWhile_append list_all_iff)+
  with assms(5) show ?thesis by simp
qed

lemma show_int_end:
  assumes "show_int i @ r = show_int j @ r'" "stops r" "stops r'"
  shows "i = j \<and> r = r'"
proof -
  have plus: "show_nat n @ x \<noteq> CHR ''-'' # y" for n x y
    using show_nat_digits [of n] show_nat_nonempty [of n] by (cases "show_nat n") (auto simp: is_digit_def)
  have e: "m = n \<and> r = r'" if "show_nat m @ r = show_nat n @ r'" for m n
    using digits_end [OF show_nat_digits show_nat_digits assms(2,3) that] show_nat_inject by blast
  show ?thesis
  proof (cases "i < 0"; cases "j < 0")
    assume "i < 0" "j < 0"
    with assms(1) e [of "nat (- i)" "nat (- j)"] show ?thesis by (auto simp: show_int_def)
  next
    assume "\<not> i < 0" "\<not> j < 0"
    with assms(1) e [of "nat i" "nat j"] show ?thesis by (auto simp: show_int_def)
  next
    assume "i < 0" "\<not> j < 0"
    with assms(1) plus [of "nat j" r', THEN not_sym] show ?thesis by (simp add: show_int_def)
  next
    assume "\<not> i < 0" "j < 0"
    with assms(1) plus [of "nat i" r] show ?thesis by (simp add: show_int_def)
  qed
qed


lemma hex_char_value: "n < 16 \<Longrightarrow> (of_char (hex_char n) :: nat) = (if n < 10 then 48 + n else 87 + n)"
  by (simp add: hex_char_def)

lemma hex_char_inject: "m < 16 \<Longrightarrow> n < 16 \<Longrightarrow> hex_char m = hex_char n \<longleftrightarrow> m = n"
proof
  assume mn: "m < 16" "n < 16" "hex_char m = hex_char n"
  then have "(if m < 10 then 48 + m else 87 + m) = (if n < 10 then 48 + n else 87 + n)"
    by (metis hex_char_value)
  with mn show "m = n" by (simp split: if_splits)
qed simp

text \<open>The kinds of characters in a quoted text, by what follows the backslash.\<close>

lemma escape_cases:
  obtains (named) e where "escape c = [CHR 0x5C, e]" "e \<noteq> CHR ''u''"
      "(of_char c :: nat, e) \<in> {(34, CHR 0x22), (92, CHR 0x5C), (10, CHR ''n''), (13, CHR ''r''),
         (9, CHR ''t''), (12, CHR ''f''), (8, CHR ''b'')}"
  | (control) "escape c = [CHR 0x5C, CHR ''u'', CHR ''0'', CHR ''0'',
        hex_char (of_char c div 16), hex_char (of_char c mod 16)]" "(of_char c :: nat) < 32"
  | (plain) "escape c = [c]" "c \<noteq> CHR 0x5C" "c \<noteq> CHR 0x22"
proof -
  let ?n = "of_char c :: nat"
  consider "?n \<in> {34, 92, 10, 13, 9, 12, 8}" | "?n \<notin> {34, 92, 10, 13, 9, 12, 8}" "?n < 32"
    | "?n \<notin> {34, 92, 10, 13, 9, 12, 8}" "\<not> ?n < 32" by blast
  then show thesis
  proof cases
    case 1
    then show thesis by (intro named [of "(if ?n = 34 then CHR 0x22 else if ?n = 92 then CHR 0x5C
        else if ?n = 10 then CHR ''n'' else if ?n = 13 then CHR ''r'' else if ?n = 9 then CHR ''t''
        else if ?n = 12 then CHR ''f'' else CHR ''b'')"]) (auto simp: escape_def)
  next
    case 2
    then show thesis by (intro control) (simp_all add: escape_def Let_def)
  next
    case 3
    then show thesis by (intro plain) (auto simp: escape_def)
  qed
qed

lemma of_char_same: "(of_char c :: nat) = n \<Longrightarrow> of_char d = n \<Longrightarrow> c = d"
  by (metis char_of_char)

lemma escape_inject: "escape c @ x = escape d @ y \<Longrightarrow> c = d \<and> x = y"
proof (cases c rule: escape_cases; cases d rule: escape_cases)
  assume eq: "escape c @ x = escape d @ y"
    and c: "escape c = [CHR 0x5C, CHR ''u'', CHR ''0'', CHR ''0'',
        hex_char (of_char c div 16), hex_char (of_char c mod 16)]" "(of_char c :: nat) < 32"
    and d: "escape d = [CHR 0x5C, CHR ''u'', CHR ''0'', CHR ''0'',
        hex_char (of_char d div 16), hex_char (of_char d mod 16)]" "(of_char d :: nat) < 32"
  then have "(of_char c :: nat) div 16 = of_char d div 16" "(of_char c :: nat) mod 16 = of_char d mod 16"
    by (simp_all add: hex_char_inject)
  then have "(of_char c :: nat) = of_char d"
    by (metis div_mult_mod_eq)
  with eq c d show ?thesis by (auto intro: of_char_same)
qed (auto intro: of_char_same)

lemma escape_no_quote: "escape c @ x \<noteq> CHR 0x22 # y"
  by (cases c rule: escape_cases) auto

lemma quoted_inject: "quoted s @ r = quoted t @ r' \<Longrightarrow> s = t \<and> r = r'"
proof -
  have "concat (map escape s) @ CHR 0x22 # r = concat (map escape t) @ CHR 0x22 # r' \<Longrightarrow> s = t \<and> r = r'"
  proof (induction s arbitrary: t)
    case Nil
    then show ?case
      using escape_no_quote [THEN not_sym] by (cases t) auto
  next
    case (Cons c s)
    show ?case
    proof (cases t)
      case Nil
      with Cons.prems escape_no_quote show ?thesis by auto
    next
      case (Cons d t')
      with Cons.prems have "escape c @ (concat (map escape s) @ CHR 0x22 # r)
          = escape d @ (concat (map escape t') @ CHR 0x22 # r')" by simp
      from escape_inject [OF this] Cons.IH [of t'] Cons show ?thesis by simp
    qed
  qed
  then show "quoted s @ r = quoted t @ r' \<Longrightarrow> s = t \<and> r = r'"
    by (simp add: quoted_def)
qed


text \<open>A value of a dictionary or list, apart from floats, which validation refuses.\<close>

primrec float_free :: "json \<Rightarrow> bool" where
  "float_free JNull = True"
| "float_free (JBool b) = True"
| "float_free (JInt i) = True"
| "float_free (JFloat r) = False"
| "float_free (JStr s) = True"
| "float_free (JList xs) = list_all id (map float_free xs)"
| "float_free (JObj d) = list_all snd (map (map_prod id float_free) d)"
| "float_free (JEnum s) = True"

text \<open>Joined texts that are each read off unambiguously are read off together.\<close>

definition reads :: "('a \<Rightarrow> string) \<Rightarrow> ('a \<Rightarrow> 'b) \<Rightarrow> ('a \<Rightarrow> bool) \<Rightarrow> 'a \<Rightarrow> bool" where
  "reads f g P x \<longleftrightarrow>
     (\<forall>y r r'. P y \<longrightarrow> stops r \<longrightarrow> stops r' \<longrightarrow> f x @ r = f y @ r' \<longrightarrow> g x = g y \<and> r = r')"

lemma readsD: "reads f g P x \<Longrightarrow> P y \<Longrightarrow> stops r \<Longrightarrow> stops r' \<Longrightarrow> f x @ r = f y @ r' \<Longrightarrow> g x = g y \<and> r = r'"
  unfolding reads_def by blast

lemma join_with_Cons: "join_with '','' (x # xs) = x @ concat (map ((#) CHR '','') xs)"
  by (induction xs arbitrary: x) simp_all

lemma tail_inject:
  assumes "\<And>x. x \<in> set xs \<Longrightarrow> reads f g P x" "list_all P ys" "c = CHR '']'' \<or> c = CHR ''}''"
    and "concat (map ((#) CHR '','') (map f xs)) @ c # r = concat (map ((#) CHR '','') (map f ys)) @ c # r'"
  shows "map g xs = map g ys \<and> r = r'"
  using assms
proof (induction xs arbitrary: ys)
  case Nil
  then show ?case by (cases ys) auto
next
  case (Cons x xs)
  from Cons.prems(3,4) obtain y ys' where ys: "ys = y # ys'" by (cases ys) auto
  have st: "stops (concat (map ((#) CHR '','') (map f zs)) @ c # q)" for zs q
    using Cons.prems(3) by (cases zs) auto
  have "g x = g y \<and> concat (map ((#) CHR '','') (map f xs)) @ c # r = concat (map ((#) CHR '','') (map f ys')) @ c # r'"
    using Cons.prems(2,4) ys by (intro readsD [OF Cons.prems(1)] st) simp_all
  with Cons.IH [of ys'] Cons.prems ys show ?case by simp
qed

lemma join_inject:
  assumes "\<And>x. x \<in> set xs \<Longrightarrow> reads f g P x" "list_all P xs" "list_all P ys" "c = CHR '']'' \<or> c = CHR ''}''"
    and "\<And>x. P x \<Longrightarrow> f x \<noteq> [] \<and> \<not> stops (f x)"
    and "join_with '','' (map f xs) @ c # r = join_with '','' (map f ys) @ c # r'"
  shows "map g xs = map g ys \<and> r = r'"
proof -
  have hd: "f x @ s \<noteq> c # t" if "P x" for x s t
    using assms(4) assms(5) [OF that] by (cases "f x") (auto simp: stops_def)
  have st: "stops (concat (map ((#) CHR '','') (map f zs)) @ c # q)" for zs q
    using assms(4) by (cases zs) auto
  show ?thesis
  proof (cases xs; cases ys)
    fix x xs' y ys' assume xs: "xs = x # xs'" and ys: "ys = y # ys'"
    have "g x = g y \<and> concat (map ((#) CHR '','') (map f xs')) @ c # r = concat (map ((#) CHR '','') (map f ys')) @ c # r'"
      using assms(3,6) xs ys by (intro readsD [OF assms(1)] st) (simp_all add: join_with_Cons)
    with tail_inject [of xs' f g P ys' c r r'] assms xs ys show ?thesis by simp
  qed (use assms(2,3,6) hd hd [THEN not_sym] in \<open>auto simp: join_with_Cons\<close>)
qed


lemma show_nat_hd: "is_digit (hd (show_nat n))"
  using show_nat_digits [of n] show_nat_nonempty [of n] by (cases "show_nat n") auto

lemma show_int_nonempty [simp]: "show_int i \<noteq> []"
  by (simp add: show_int_def show_nat_nonempty)

lemma show_int_hd: "hd (show_int i) = CHR ''-'' \<or> is_digit (hd (show_int i))"
  using show_nat_hd by (simp add: show_int_def)

lemma is_digit_not [simp]:
  "\<not> is_digit (CHR '','')" "\<not> is_digit (CHR '']'')" "\<not> is_digit (CHR ''}'')" "\<not> is_digit (CHR ''-'')"
  "\<not> is_digit (CHR ''n'')" "\<not> is_digit (CHR ''t'')" "\<not> is_digit (CHR ''f'')" "\<not> is_digit (CHR 0x22)"
  "\<not> is_digit (CHR ''['')" "\<not> is_digit (CHR ''{'')"
  by (simp_all add: is_digit_def)

lemma show_int_not_stops: "\<not> stops (show_int i)"
  using show_int_hd [of i] by (auto simp: stops_def)

lemma dumps_start: "float_free v \<Longrightarrow> dumps R v \<noteq> [] \<and> \<not> stops (dumps R v)"
  using show_int_not_stops by (cases v) (auto simp: stops_def quoted_def)

text \<open>Each kind of value starts its text with characters of its own.\<close>

definition text_of :: "json \<Rightarrow> string option" where
  "text_of v = (case v of JStr s \<Rightarrow> Some s | JEnum s \<Rightarrow> Some s | _ \<Rightarrow> None)"

lemma text_of_dumps: "text_of v = Some s \<Longrightarrow> dumps R v = quoted s \<and> plain v = JStr s"
  by (cases v) (auto simp: text_of_def)

definition kind_mark :: "json \<Rightarrow> char \<Rightarrow> bool" where
  "kind_mark v c \<longleftrightarrow>
     (case v of
        JNull \<Rightarrow> c = CHR ''n'' | JBool True \<Rightarrow> c = CHR ''t'' | JBool False \<Rightarrow> c = CHR ''f''
      | JInt i \<Rightarrow> c = CHR ''-'' \<or> is_digit c | JFloat r \<Rightarrow> False | JStr s \<Rightarrow> c = CHR 0x22
      | JEnum s \<Rightarrow> c = CHR 0x22 | JList xs \<Rightarrow> c = CHR ''['' | JObj d \<Rightarrow> c = CHR ''{'')"

lemma dumps_mark: "float_free v \<Longrightarrow> kind_mark v (hd (dumps R v))"
  using show_int_hd by (cases v) (auto simp: kind_mark_def quoted_def split: bool.splits)

lemma same_mark:
  assumes "float_free v" "float_free w" "dumps R v @ r = dumps R w @ r'"
  shows "\<exists>c. kind_mark v c \<and> kind_mark w c"
proof -
  have "hd (dumps R v) = hd (dumps R w)"
    using assms dumps_start by (metis hd_append2)
  then show ?thesis using dumps_mark [OF assms(1), of R] dumps_mark [OF assms(2), of R] by auto
qed

text \<open>The text of a value, followed by nothing that continues it, determines the value.\<close>

definition item_text :: "(rat \<Rightarrow> string) \<Rightarrow> string \<times> json \<Rightarrow> string" where
  "item_text R p = quoted (fst p) @ '':'' @ dumps R (snd p)"

lemma dumps_obj: "dumps R (JObj d) = CHR ''{'' # join_with '','' (map (item_text R) d) @ ''}''"
  by (simp add: item_text_def [abs_def] o_def case_prod_beta)

lemma item_start: "item_text R p \<noteq> [] \<and> \<not> stops (item_text R p)"
  by (simp add: item_text_def quoted_def stops_def)

lemma reads_item:
  assumes "reads (dumps R) plain float_free (snd p)"
  shows "reads (item_text R) (map_prod id plain) (\<lambda>q. float_free (snd q)) p"
proof -
  have "fst p = fst q \<and> plain (snd p) = plain (snd q) \<and> r = r'"
    if "float_free (snd q)" "stops r" "stops r'" "item_text R p @ r = item_text R q @ r'" for q r r'
  proof -
    have "fst p = fst q \<and> CHR '':'' # dumps R (snd p) @ r = CHR '':'' # dumps R (snd q) @ r'"
      using that(4) by (intro quoted_inject) (simp add: item_text_def)
    with readsD [OF assms that(1-3)] show ?thesis by simp
  qed
  then show ?thesis by (simp add: reads_def prod_eq_iff)
qed

text \<open>Which values can stand where \<open>v\<close> does, by the first character.\<close>

lemma same_kind:
  assumes "kind_mark v c" "kind_mark w c"
  shows "v = w \<or> (\<exists>i j. v = JInt i \<and> w = JInt j) \<or> (\<exists>s t. text_of v = Some s \<and> text_of w = Some t)
    \<or> (\<exists>xs ys. v = JList xs \<and> w = JList ys) \<or> (\<exists>d e. v = JObj d \<and> w = JObj e)"
  using assms
  by (cases v; cases w) (auto simp: kind_mark_def text_of_def split: bool.splits)

lemma readsI:
  assumes "float_free v"
    and "\<And>w r r'. float_free w \<Longrightarrow> stops r \<Longrightarrow> stops r' \<Longrightarrow> dumps R v @ r = dumps R w @ r' \<Longrightarrow>
      v = w \<or> (\<exists>i j. v = JInt i \<and> w = JInt j) \<or> (\<exists>s t. text_of v = Some s \<and> text_of w = Some t)
      \<or> (\<exists>xs ys. v = JList xs \<and> w = JList ys) \<or> (\<exists>d e. v = JObj d \<and> w = JObj e)
      \<Longrightarrow> plain v = plain w \<and> r = r'"
  shows "reads (dumps R) plain float_free v"
  unfolding reads_def
proof (intro allI impI)
  fix w r r' assume w: "float_free w" "stops r" "stops r'" "dumps R v @ r = dumps R w @ r'"
  from same_mark [OF assms(1) w(1,4)] obtain c where "kind_mark v c" "kind_mark w c" by blast
  from assms(2) [OF w same_kind [OF this]] show "plain v = plain w \<and> r = r'" .
qed

lemma dumps_reads: "float_free v \<Longrightarrow> reads (dumps R) plain float_free v"
proof (induction v)
  case (JList xs)
  have xs: "\<And>x. x \<in> set xs \<Longrightarrow> reads (dumps R) plain float_free x" "list_all float_free xs"
    using JList by (auto simp: list_all_iff)
  show ?case
  proof (rule readsI [OF JList.prems])
    fix w r r'
    assume w: "float_free w" "dumps R (JList xs) @ r = dumps R w @ r'"
      and "JList xs = w \<or> (\<exists>i j. JList xs = JInt i \<and> w = JInt j) \<or> (\<exists>s t. text_of (JList xs) = Some s \<and> text_of w = Some t)
        \<or> (\<exists>zs ys. JList xs = JList zs \<and> w = JList ys) \<or> (\<exists>d e. JList xs = JObj d \<and> w = JObj e)"
    then obtain ys where ys: "w = JList ys" by (auto simp: text_of_def)
    with w have "list_all float_free ys" by (simp add: list_all_iff)
    from join_inject [OF xs this _ dumps_start, where c = "CHR '']''" and r = r and r' = r'] w ys
    show "plain (JList xs) = plain w \<and> r = r'" by simp
  qed
next
  case (JObj d)
  have d: "\<And>p. p \<in> set d \<Longrightarrow> reads (item_text R) (map_prod id plain) (\<lambda>q. float_free (snd q)) p"
      "list_all (\<lambda>q. float_free (snd q)) d"
    using JObj by (auto simp: list_all_iff intro!: reads_item)
  show ?case
  proof (rule readsI [OF JObj.prems])
    fix w r r'
    assume w: "float_free w" "dumps R (JObj d) @ r = dumps R w @ r'"
      and "JObj d = w \<or> (\<exists>i j. JObj d = JInt i \<and> w = JInt j) \<or> (\<exists>s t. text_of (JObj d) = Some s \<and> text_of w = Some t)
        \<or> (\<exists>zs ys. JObj d = JList zs \<and> w = JList ys) \<or> (\<exists>e e'. JObj d = JObj e \<and> w = JObj e')"
    then obtain e where e: "w = JObj e" by (auto simp: text_of_def)
    with w have "list_all (\<lambda>q. float_free (snd q)) e" by (simp add: list_all_iff)
    from join_inject [OF d this _ item_start, where c = "CHR ''}''" and r = r and r' = r'] w e
    show "plain (JObj d) = plain w \<and> r = r'" by (simp only: dumps_obj) simp
  qed
qed (auto intro!: readsI simp: text_of_def dest!: show_int_end quoted_inject text_of_dumps [where R = R] split: if_splits)


section \<open>Equal up to the order of keys\<close>

text \<open>
  Two JSON values say the same when they differ at most in the order of the keys of their objects (and
  in an enumeration member standing for its text).
\<close>

inductive says_same :: "json \<Rightarrow> json \<Rightarrow> bool" where
  same_null: "says_same JNull JNull"
| same_bool: "says_same (JBool b) (JBool b)"
| same_int: "says_same (JInt i) (JInt i)"
| same_float: "says_same (JFloat r) (JFloat r)"
| same_text: "text_of v = Some s \<Longrightarrow> text_of w = Some s \<Longrightarrow> says_same v w"
| same_list: "list_all2 says_same xs ys \<Longrightarrow> says_same (JList xs) (JList ys)"
| same_obj: "fst ` set d = fst ` set e \<Longrightarrow>
    \<forall>k v w. dict_get d k = Some v \<longrightarrow> dict_get e k = Some w \<longrightarrow> says_same v w \<Longrightarrow>
    says_same (JObj d) (JObj e)"
monos list_all2_mono

inductive_simps says_same_list: "says_same (JList xs) w"
inductive_simps says_same_obj: "says_same (JObj d) w"

text \<open>Objects have distinct keys at every depth, as every \<open>dict\<close> does.\<close>

primrec wf_json :: "json \<Rightarrow> bool" where
  "wf_json JNull = True"
| "wf_json (JBool b) = True"
| "wf_json (JInt i) = True"
| "wf_json (JFloat r) = True"
| "wf_json (JStr s) = True"
| "wf_json (JList xs) = list_all id (map wf_json xs)"
| "wf_json (JObj d) = (wf_dict d \<and> list_all snd (map (map_prod id wf_json) d))"
| "wf_json (JEnum s) = True"

abbreviation canon :: "json \<Rightarrow> json" where "canon v \<equiv> plain (canonicalize_json v)"

text \<open>Sorting by distinct keys leaves nothing to choose.\<close>

lemma sort_key_map_eq_iff:
  assumes "distinct (map fst d)" "distinct (map fst e)"
  shows "sort_key fst (d :: (string \<times> 'a) list) = sort_key fst e \<longleftrightarrow> set d = set e"
proof
  assume "set d = set e"
  then have "mset d = mset e"
    using assms by (simp add: distinct_map set_eq_iff_mset_eq_distinct)
  moreover have "inj_on fst (set e)" using assms(2) by (simp add: distinct_map)
  ultimately show "sort_key fst d = sort_key fst e"
    by (intro sort_key_inj_key_eq) (auto dest: mset_eq_setD)
next
  assume "sort_key fst d = sort_key fst e"
  then show "set d = set e" by (metis set_sort)
qed

lemma map_prod_sort_key: "map (map_prod id f) (sort_key fst d) = sort_key fst (map (map_prod id f) d)"
proof -
  have ins: "map (map_prod id f) (insort_key fst p ps) = insort_key fst (map_prod id f p) (map (map_prod id f) ps)"
    for p ps by (induction ps) auto
  show ?thesis by (induction d) (simp_all only: list.map sort_key_simps ins)
qed

lemma canon_obj: "canon (JObj d) = JObj (sort_key fst (map (map_prod id canon) d))"
  by (simp only: canonicalize_json.simps plain.simps map_prod_sort_key map_map map_prod.comp id_o) (simp add: comp_def)

lemma map_option_eq_iff:
  "map_option f x = map_option f y \<longleftrightarrow>
     (\<exists>v. x = Some v) = (\<exists>w. y = Some w) \<and> (\<forall>v w. x = Some v \<longrightarrow> y = Some w \<longrightarrow> f v = f w)"
  by (cases x; cases y) auto

lemma mapped_items_eq:
  assumes "wf_dict d" "wf_dict e"
  shows "sort_key fst (map (map_prod id f) d) = sort_key fst (map (map_prod id f) (e :: (string \<times> 'a) list))
    \<longleftrightarrow> fst ` set d = fst ` set e \<and> (\<forall>k v w. dict_get d k = Some v \<longrightarrow> dict_get e k = Some w \<longrightarrow> f v = f w)"
proof -
  have keys: "map fst (map (map_prod id f) x) = map fst x" for x :: "(string \<times> 'a) list"
    by simp
  have look: "map_of (map (map_prod id f) x) = map_option f \<circ> map_of x" for x :: "(string \<times> 'a) list"
    using map_of_map [of f x] by (simp add: map_prod_def)
  have "sort_key fst (map (map_prod id f) d) = sort_key fst (map (map_prod id f) e)
      \<longleftrightarrow> set (map (map_prod id f) d) = set (map (map_prod id f) e)"
    using assms unfolding wf_dict_def by (intro sort_key_map_eq_iff) (simp_all only: keys)
  also have "\<dots> \<longleftrightarrow> (\<forall>k. map_option f (map_of d k) = map_option f (map_of e k))"
    using assms unfolding wf_dict_def
    by (subst map_of_inject_set [symmetric]) (simp_all only: keys look, simp add: fun_eq_iff)
  also have "\<dots> \<longleftrightarrow> dom (map_of d) = dom (map_of e)
      \<and> (\<forall>k v w. map_of d k = Some v \<longrightarrow> map_of e k = Some w \<longrightarrow> f v = f w)"
    unfolding map_option_eq_iff by (auto simp: dom_def set_eq_iff)
  finally show ?thesis by (simp add: dom_map_of_conv_image_fst dict_get_def)
qed

lemma wf_json_obj: "wf_json (JObj d) \<longleftrightarrow> wf_dict d \<and> (\<forall>k v. dict_get d k = Some v \<longrightarrow> wf_json v)"
  by (auto simp: list_all_iff wf_dict_def dict_get_def) (metis snd_conv)

lemma canon_obj_iff:
  "wf_dict d \<Longrightarrow> wf_dict e \<Longrightarrow> canon (JObj d) = canon (JObj e) \<longleftrightarrow>
     fst ` set d = fst ` set e \<and> (\<forall>k v w. dict_get d k = Some v \<longrightarrow> dict_get e k = Some w \<longrightarrow> canon v = canon w)"
  by (simp only: canon_obj json.inject mapped_items_eq)

declare wf_json.simps(7) [simp del]

lemma canon_same: "says_same v w \<Longrightarrow> wf_json v \<Longrightarrow> wf_json w \<Longrightarrow> canon v = canon w"
proof (induction rule: says_same.induct)
  case (same_text v s w)
  then show ?case by (cases v; cases w) (simp_all add: text_of_def)
next
  case (same_list xs ys)
  then show ?case by (auto simp: list_all_iff list_all2_conv_all_nth intro!: nth_equalityI)
next
  case (same_obj d e)
  have wf: "wf_dict d" "wf_dict e" using same_obj.prems by (simp_all add: wf_json_obj)
  show ?case
    unfolding canon_obj_iff [OF wf]
    using same_obj.hyps same_obj.IH same_obj.prems by (auto simp: wf_json_obj)
qed simp_all

lemma same_canon: "canon v = canon w \<Longrightarrow> wf_json v \<Longrightarrow> wf_json w \<Longrightarrow> says_same v w"
proof (induction v arbitrary: w)
  case (JList xs)
  from JList.prems(1) obtain ys where w: "w = JList ys" by (cases w) simp_all
  with JList.prems have len: "length xs = length ys" and "\<forall>i < length xs. canon (xs ! i) = canon (ys ! i)"
    by (auto simp: list_eq_iff_nth_eq)
  with JList w show ?case by (auto simp: list_all_iff list_all2_conv_all_nth intro!: same_list)
next
  case (JObj d)
  from JObj.prems(1) obtain e where w: "w = JObj e" by (cases w) simp_all
  have wf: "wf_dict d" "wf_dict e" using JObj.prems w by (simp_all add: wf_json_obj)
  have sub: "says_same v u" if "dict_get d k = Some v" "wf_json u" "canon v = canon u" for k v u
  proof (rule JObj.IH)
    show "(k, v) \<in> set d" using that(1) by (simp add: dict_get_def map_of_SomeD)
    show "v \<in> Basic_BNFs.snds (k, v)" by simp
    show "wf_json v" using that(1) JObj.prems by (auto simp: wf_json_obj)
  qed (use that in simp_all)
  have same: "fst ` set d = fst ` set e"
      "\<forall>k v u. dict_get d k = Some v \<longrightarrow> dict_get e k = Some u \<longrightarrow> canon v = canon u"
    using JObj.prems(1) unfolding w canon_obj_iff [OF wf] by simp_all
  show ?case
    unfolding w using same sub JObj.prems(3) by (intro same_obj) (auto simp: w wf_json_obj)
qed (case_tac w; simp add: same_null same_bool same_int same_float same_text text_of_def)+


section \<open>What the digest binds\<close>

text \<open>Two impacts describe the same action: the same tool, extractor and parameters.\<close>

definition same_action :: "impact \<Rightarrow> impact \<Rightarrow> bool" where
  "same_action i j \<longleftrightarrow>
     (case (i, j) of
        (NoImpactPayload, NoImpactPayload) \<Rightarrow> True
      | (ToolCallParams n p e v, ToolCallParams n' q e' v') \<Rightarrow>
          n = n' \<and> e = e' \<and> v = v' \<and> says_same (JObj p) (JObj q)
      | _ \<Rightarrow> False)"

definition wf_impact :: "impact \<Rightarrow> bool" where
  "wf_impact i \<longleftrightarrow> (case i of NoImpactPayload \<Rightarrow> True | ToolCallParams n p e v \<Rightarrow> wf_json (JObj p))"

lemma same_str: "says_same (JStr s) w \<longleftrightarrow> text_of w = Some s"
  by (subst says_same.simps) (auto simp: text_of_def)

lemma same_obj_iff:
  "says_same (JObj d) (JObj e) \<longleftrightarrow> fst ` set d = fst ` set e
     \<and> (\<forall>k v w. dict_get d k = Some v \<longrightarrow> dict_get e k = Some w \<longrightarrow> says_same v w)"
  by (simp add: says_same_obj text_of_def)

lemma same_items:
  assumes "map fst d = map fst e" "distinct (map fst d)"
  shows "(\<forall>k v w. dict_get d k = Some v \<longrightarrow> dict_get e k = Some w \<longrightarrow> P v w)
    \<longleftrightarrow> list_all2 P (map snd d) (map snd e)"
proof -
  have "length d = length e" using assms(1) by (rule map_eq_imp_length_eq)
  then show ?thesis
    using assms
  proof (induction d e rule: list_induct2)
    case (Cons p d q e)
    obtain k v w where pq: "p = (k, v)" "q = (k, w)"
      using Cons.prems(1) by (cases p; cases q) simp
    have out: "dict_get d k = None" "dict_get e k = None"
      using Cons.prems pq by (simp_all add: dict_get_def map_of_eq_None_iff) (metis Cons.prems(1) list.simps(9) list.inject set_map)
    have "(\<forall>k' x y. dict_get (p # d) k' = Some x \<longrightarrow> dict_get (q # e) k' = Some y \<longrightarrow> P x y)
        \<longleftrightarrow> P v w \<and> (\<forall>k' x y. dict_get d k' = Some x \<longrightarrow> dict_get e k' = Some y \<longrightarrow> P x y)"
      using out unfolding pq by (simp only: dict_get_Cons) (metis option.distinct(1) option.inject)
    with Cons pq show ?case by simp
  qed simp
qed

lemma same_wire: "says_same (JObj (to_wire_dict i)) (JObj (to_wire_dict j)) \<longleftrightarrow> same_action i j"
proof (cases i; cases j)
  fix n p e v n' q e' v'
  assume ij: "i = ToolCallParams n p e v" "j = ToolCallParams n' q e' v'"
  have "list_all2 says_same (map snd (to_wire_dict i)) (map snd (to_wire_dict j)) \<longleftrightarrow> same_action i j"
    by (auto simp: ij to_wire_dict_def same_action_def same_str text_of_def)
  then show ?thesis
    unfolding same_obj_iff by (subst same_items) (simp_all add: ij to_wire_dict_def)
qed (auto simp: text_of_def same_obj_iff to_wire_dict_def same_action_def same_str)

lemma wf_wire: "wf_impact i \<Longrightarrow> wf_json (JObj (to_wire_dict i))"
  by (cases i) (auto simp: wf_impact_def wf_json_obj wf_dict_def to_wire_dict_def)

lemma supported_float_free: "\<not> reject_unsupported_value v \<Longrightarrow> float_free v"
  by (induction v) (auto simp: list_ex_iff list_all_iff)

lemma canonical_float_free: "float_free v \<Longrightarrow> float_free (canonicalize_json v)"
  by (induction v) (auto simp: list_all_iff)

lemma wire_float_free: "validate i = Inr () \<Longrightarrow> float_free (JObj (to_wire_dict i))"
  using supported_float_free
  by (cases i) (auto simp: validate_def to_wire_dict_def list_ex_iff list_all_iff split: if_splits)

lemma dumps_plain: "dumps R (plain v) = dumps R v"
proof (induction v)
  case (JObj d)
  then have "map (item_text R) (map (map_prod id plain) d) = map (item_text R) d"
    by (auto simp: item_text_def prod_set_simps)
  then show ?case by (simp only: plain.simps dumps_obj)
qed (simp_all add: o_def cong: map_cong)

lemma dumps_plain_iff:
  assumes "float_free v" "float_free w"
  shows "dumps R v = dumps R w \<longleftrightarrow> plain v = plain w"
proof
  assume "dumps R v = dumps R w"
  with readsD [OF dumps_reads [OF assms(1)] assms(2), of "[]" "[]" R] show "plain v = plain w" by simp
next
  assume "plain v = plain w"
  then show "dumps R v = dumps R w" by (metis dumps_plain)
qed

lemma digest_binds:
  assumes "validate i = Inr ()" "validate j = Inr ()" "wf_impact i" "wf_impact j"
  shows "(canonical_bytes R i = canonical_bytes R j \<longleftrightarrow> same_action i j)
    \<and> (same_action i j \<longrightarrow> compute_action_digest sha256 R i = compute_action_digest sha256 R j)
    \<and> (compute_action_digest sha256 R i = compute_action_digest sha256 R j \<longrightarrow>
         same_action i j \<or> (\<exists>x y. x \<noteq> y \<and> sha256 x = sha256 y))"
proof -
  let ?t = "\<lambda>i. dumps R (canonicalize_json (JObj (to_wire_dict i)))"
  have ff: "float_free (canonicalize_json (JObj (to_wire_dict k)))" if "validate k = Inr ()" for k
    using canonical_float_free wire_float_free that by blast
  have "?t i = ?t j \<longleftrightarrow> canon (JObj (to_wire_dict i)) = canon (JObj (to_wire_dict j))"
    by (rule dumps_plain_iff [OF ff ff]) (rule assms)+
  also have "\<dots> \<longleftrightarrow> same_action i j"
    using canon_same same_canon wf_wire assms(3,4) unfolding same_wire [symmetric] by blast
  finally have same: "?t i = ?t j \<longleftrightarrow> same_action i j" .
  have bytes: "canonical_bytes R k = Inr (?t k)" "compute_action_digest sha256 R k = Inr (sha256 (digest_prefix @ ?t k))"
    if "validate k = Inr ()" for k
    using that by (simp_all add: canonical_bytes_def compute_action_digest_def)
  have collision: "sha256 (p @ s) = sha256 (p @ t) \<longrightarrow> s = t \<or> (\<exists>x y. x \<noteq> y \<and> sha256 x = sha256 y)" for p s t
    using same_append_eq by blast
  show ?thesis
    unfolding bytes [OF assms(1)] bytes [OF assms(2)] same [symmetric] sum.inject
    by (intro conjI impI collision [rule_format]) (simp_all only:)
qed

text \<open>
  C7: an approval is bound to the action.  Two valid impacts have the same canonical text exactly when
  they describe the same action: the same tool and extractor, and parameters that differ at most in the
  order of keys, at any depth.  Hence the order in which a caller writes the parameters never changes
  the digest, and two different actions with one digest are a collision of SHA-256.
\<close>

theorem digest_binds_action:
  assumes "validate i = Inr ()" "validate j = Inr ()" "wf_impact i" "wf_impact j"
  shows "(canonical_bytes R i = canonical_bytes R j \<longleftrightarrow> same_action i j)
    \<and> (same_action i j \<longrightarrow> compute_action_digest sha256 R i = compute_action_digest sha256 R j)
    \<and> (compute_action_digest sha256 R i = compute_action_digest sha256 R j \<longrightarrow>
         same_action i j \<or> (\<exists>x y. x \<noteq> y \<and> sha256 x = sha256 y))"
  using assms by (rule digest_binds)

definition transfer :: "bool \<Rightarrow> impact" where
  "transfer swap = ToolCallParams ''pay''
     ((if swap then rev else id) [(''amount'', JInt 5), (''to'', JStr ''bob'')]) extractor_id extractor_version"

lemma transfer_valid: "validate (transfer b) = Inr ()" "wf_impact (transfer b)"
  by (simp_all add: transfer_def validate_def wf_impact_def wf_json_obj wf_dict_def printable_def
      max_tool_name_bytes_def max_param_name_bytes_def)

lemma digest_binds_action_witness:
  "compute_action_digest (\<lambda>b. b) (\<lambda>r. []) (transfer True) = compute_action_digest (\<lambda>b. b) (\<lambda>r. []) (transfer False)
   \<and> canonical_bytes (\<lambda>r. []) (transfer True) \<noteq> canonical_bytes (\<lambda>r. []) NoImpactPayload"
proof -
  have "same_action (transfer True) (transfer False)"
    by (auto simp: same_action_def transfer_def same_obj_iff same_int same_str text_of_def split: if_splits)
  moreover have "\<not> same_action (transfer True) NoImpactPayload" "validate NoImpactPayload = Inr ()" "wf_impact NoImpactPayload"
    by (simp_all add: same_action_def transfer_def validate_def wf_impact_def)
  ultimately show ?thesis
    using digest_binds_action [OF transfer_valid(1) transfer_valid(1) transfer_valid(2) transfer_valid(2)]
      digest_binds_action [OF transfer_valid(1) _ transfer_valid(2)] by blast
qed

end
