(* ===== verification/Protect_Args.thy ===== *)
theory Protect_Args
  imports Business_Impact Block_Exception
begin

text \<open>
  What \<open>@protect\<close> tells the backend about the arguments of a call (\<open>src/nullrun/decorators.py\<close>): the
  redaction of \<open>details={...}\<close>, the preview of a value, the masks by name, and the impact built from
  them.  A value is its \<open>repr\<close>; a character is one character of that text (ASCII, so that it is also
  one byte of the canonical form).
\<close>

section \<open>Redaction\<close>

definition details_needle :: string where "details_needle = ''details=''"

definition details_redacted :: string where "details_redacted = ''<redacted>''"

text \<open>\<open>text.find(needle)\<close>: the text in front of the first occurrence and the text behind it.\<close>

fun cut_at :: "string \<Rightarrow> string \<Rightarrow> (string \<times> string) option" where
  "cut_at p [] = (if p = [] then Some ([], []) else None)"
| "cut_at p (c # cs) =
     (if starts_with p (c # cs) then Some ([], drop (length p) (c # cs))
      else map_option (apfst (Cons c)) (cut_at p cs))"

definition blank :: "char \<Rightarrow> bool" where "blank c \<longleftrightarrow> c = CHR '' '' \<or> c = CHR 0x09"

definition ends_value :: "char \<Rightarrow> bool" where
  "ends_value c \<longleftrightarrow> c = CHR '','' \<or> c = CHR '')'' \<or> c = CHR 0x0A"

text \<open>The inner loop: what is left after the brace that closes the first one, or nothing.\<close>

fun skip_braces :: "nat \<Rightarrow> char option \<Rightarrow> string \<Rightarrow> string" where
  "skip_braces depth q [] = []"
| "skip_braces depth (Some q) (c # cs) =
     (if c = CHR 0x5C \<and> cs \<noteq> [] then skip_braces depth (Some q) (tl cs)
      else if c = q then skip_braces depth None cs
      else skip_braces depth (Some q) cs)"
| "skip_braces depth None (c # cs) =
     (if c = CHR 0x22 \<or> c = CHR 0x27 then skip_braces depth (Some c) cs
      else if c = CHR ''{'' then skip_braces (Suc depth) None cs
      else if c = CHR ''}'' then (if depth = 1 then cs else skip_braces (depth - 1) None cs)
      else skip_braces depth None cs)"

lemma cut_at_shorter: "cut_at p s = Some (a, r) \<Longrightarrow> p \<noteq> [] \<Longrightarrow> length r < length s"
  by (induction p s arbitrary: a r rule: cut_at.induct) (auto split: if_splits)

lemma skip_braces_shorter: "length (skip_braces d q s) \<le> length s"
proof (induction d q s rule: skip_braces.induct)
  case (2 depth q c cs)
  then show ?case
    by (cases "c = CHR 0x5C \<and> cs \<noteq> []"; cases "c = q") auto
next
  case (3 depth c cs)
  then show ?case
    by (cases "c = CHR 0x22 \<or> c = CHR 0x27"; cases "c = CHR ''{''"; cases "c = CHR ''}''") auto
qed simp

lemma dropWhile_shorter: "length (dropWhile P s) \<le> length s"
  by (induction s) auto

function strip_details_balanced :: "string \<Rightarrow> string" where
  "strip_details_balanced s =
     (case cut_at details_needle s of
        None \<Rightarrow> s
      | Some (before, rest) \<Rightarrow>
          (let gap = takeWhile blank rest; value = dropWhile blank rest in
           if value \<noteq> [] \<and> hd value = CHR ''{''
           then before @ details_needle @ gap @ details_redacted
                  @ strip_details_balanced (skip_braces 0 None value)
           else before @ details_needle @ gap @ takeWhile (\<lambda>c. \<not> ends_value c) value
                  @ strip_details_balanced (dropWhile (\<lambda>c. \<not> ends_value c) value)))"
  by auto
termination
proof (relation "measure length")
  fix s p before rest gap v
  assume "cut_at details_needle s = Some p" "(before, rest) = p" "v = dropWhile blank rest"
  then have "length rest < length s" "length v \<le> length rest"
    using cut_at_shorter [of details_needle s before rest] dropWhile_shorter
    by (auto simp: details_needle_def)
  then show "(skip_braces 0 None v, s) \<in> measure length"
      "(dropWhile (\<lambda>c. \<not> ends_value c) v, s) \<in> measure length"
    using skip_braces_shorter [of 0 None v] dropWhile_shorter [of "\<lambda>c. \<not> ends_value c" v] by simp_all
qed simp

declare strip_details_balanced.simps [simp del]

section \<open>Previews and masks\<close>

definition max_preview :: nat where "max_preview = 50"

definition safe_repr :: "string \<Rightarrow> string" where
  "safe_repr shown =
     (let r = strip_details_balanced shown in
      if length r > max_preview then take max_preview r @ ''...<truncated>'' else r)"

definition sensitive_arg_keys :: "string list" where
  "sensitive_arg_keys =
     [''password'', ''passwd'', ''pwd'', ''token'', ''secret'', ''api_key'', ''apikey'', ''key'', ''auth'',
      ''authorization'', ''bearer'', ''session'', ''session_id'', ''cookie'', ''access_token'',
      ''refresh_token'', ''id_token'', ''private_key'', ''secret_key'', ''email'', ''phone'', ''ssn'',
      ''credit_card'', ''credit_card_number'', ''cvv'', ''cvc'', ''pin'', ''otp'', ''mfa'']"

definition masked :: "string \<Rightarrow> string \<Rightarrow> json" where
  "masked name shown = JStr (if lower name \<in> set sensitive_arg_keys then ''***'' else safe_repr shown)"

definition safe_kwargs :: "(string \<times> string) list \<Rightarrow> dict" where
  "safe_kwargs kwargs = map (\<lambda>(k, v). (k, masked k v)) kwargs"

text \<open>\<open>params\<close> are the names in the signature, \<open>None\<close> when there is none to inspect.\<close>

definition safe_args :: "string list option \<Rightarrow> string list \<Rightarrow> json list" where
  "safe_args params args =
     (case params of
        None \<Rightarrow> map (\<lambda>v. JStr (safe_repr v)) args
      | Some names \<Rightarrow>
          map (\<lambda>(n, v). masked n v) (zip (take (length args) names) args)
          @ map (\<lambda>v. JStr (safe_repr v)) (drop (length (take (length args) names)) args))"

text \<open>
  An exception of the \<open>__repr__\<close> of an argument: a \<open>ValueError\<close> or \<open>TypeError\<close>, any other
  \<open>Exception\<close>, or one from outside \<open>Exception\<close>.
\<close>

datatype show_exn = Unprintable string | ShowRaises string | ShowInterrupts string

text \<open>
  A call of a decorated callable: its name, when it has one (a \<open>functools.partial\<close> has none), the names
  of its signature, the texts of its arguments, and the first exception that printing the positional and
  printing the keyword arguments ends in, \<open>None\<close> where they all print.
\<close>

record protected_call =
  pc_named :: bool
  pc_name :: string
  pc_params :: "string list option"
  pc_args :: "string list"
  pc_kwargs :: "(string \<times> string) list"
  pc_args_fail :: "show_exn option"
  pc_kwargs_fail :: "show_exn option"

definition prints :: "protected_call \<Rightarrow> bool" where
  "prints c \<longleftrightarrow> pc_args_fail c = None \<and> pc_kwargs_fail c = None"

definition masked_arguments :: "protected_call \<Rightarrow> dict" where
  "masked_arguments c =
     [(''args'', JList (safe_args (pc_params c) (pc_args c))), (''kwargs'', JObj (safe_kwargs (pc_kwargs c)))]"

text \<open>The exception of building the impact that is not caught, or the impact, empty when it cannot be built.\<close>

definition build_call_impact :: "protected_call \<Rightarrow> show_exn + impact" where
  "build_call_impact c =
     (if \<not> pc_named c then Inl (ShowRaises ''AttributeError'')
      else
        (case (case pc_args_fail c of None \<Rightarrow> pc_kwargs_fail c | Some x \<Rightarrow> Some x) of
           Some (Unprintable x) \<Rightarrow> Inr no_impact
         | Some x \<Rightarrow> Inl x
         | None \<Rightarrow>
             (case tool_call (pc_name c) (masked_arguments c) of Inr i \<Rightarrow> Inr i | Inl x \<Rightarrow> Inr no_impact)))"


section \<open>Redaction hides the payload\<close>

lemma starts_with_append: "length p \<le> length x \<Longrightarrow> starts_with p (x @ y) = starts_with p x"
  by (induction p x rule: starts_with.induct) simp_all

lemma starts_with_self [simp]: "starts_with p (p @ r)"
  by (induction p) simp_all

lemma cut_at_append:
  "cut_at p (a @ p) = Some (a, []) \<Longrightarrow> p \<noteq> [] \<Longrightarrow> cut_at p (a @ p @ r) = Some (a, r)"
proof (induction a)
  case Nil
  then obtain x xs where "p = x # xs" by (cases p) simp_all
  with starts_with_self [of p r] show ?case by simp
next
  case (Cons c a)
  then have "\<not> starts_with p ((c # a) @ p)" by (auto split: if_splits)
  with starts_with_append [of p "(c # a) @ p" r] have no: "\<not> starts_with p (c # a @ p @ r)" by simp
  from Cons have "cut_at p (a @ p) = Some (a, [])" by (auto split: if_splits)
  with Cons no show ?case by simp
qed

lemma blank_split:
  "list_all blank g \<Longrightarrow> \<not> blank c \<Longrightarrow>
     takeWhile blank (g @ c # r) = g \<and> dropWhile blank (g @ c # r) = c # r"
  by (induction g) simp_all

text \<open>
  redaction hides the payload.  A \<open>details=\<close> followed by blanks and an open brace is replaced up to
  the brace that closes it, whatever quotes, escapes and nested braces the payload holds, and the text
  behind it is redacted in the same way; so two texts that differ in such a payload only become the
  same text.
\<close>

theorem redaction_hides_payload:
  assumes "cut_at details_needle (before @ details_needle) = Some (before, [])" "list_all blank gap"
    and "skip_braces 1 None (payload @ rest) = rest"
  shows "strip_details_balanced (before @ details_needle @ gap @ CHR ''{'' # payload @ rest)
    = before @ details_needle @ gap @ details_redacted @ strip_details_balanced rest"
proof -
  have "details_needle \<noteq> []" by (simp add: details_needle_def)
  with assms(1) have cut: "cut_at details_needle (before @ details_needle @ r) = Some (before, r)" for r
    by (rule cut_at_append)
  have brace: "\<not> blank (CHR ''{'')" by (simp add: blank_def)
  with assms(2) have split: "takeWhile blank (gap @ CHR ''{'' # payload @ rest) = gap"
      "dropWhile blank (gap @ CHR ''{'' # payload @ rest) = CHR ''{'' # payload @ rest"
    by (simp_all add: blank_split)
  show ?thesis
    using assms(3) by (subst strip_details_balanced.simps) (simp add: cut split brace Let_def)
qed

lemma redaction_hides_payload_witness:
  "strip_details_balanced ''Err(details={\"a\": {\"}\": 1}}, code=2)'' = ''Err(details=<redacted>, code=2)''"
proof -
  have tail: "strip_details_balanced '', code=2)'' = '', code=2)''"
    by (subst strip_details_balanced.simps) (simp add: details_needle_def)
  show ?thesis
    using redaction_hides_payload [of "''Err(''" "[]" "''\"a\": {\"}\": 1}}''" "'', code=2)''"]
    by (simp add: tail details_needle_def details_redacted_def)
qed

text \<open>
  A value without a brace is copied up to its end, so a second \<open>details={...}\<close> inside it is not seen.
\<close>

lemma later_details_are_copied:
  assumes "list_all (\<lambda>c. \<not> ends_value c) v" "v \<noteq> []" "\<not> blank (hd v)" "hd v \<noteq> CHR ''{''"
  shows "strip_details_balanced (details_needle @ v) = details_needle @ v"
proof -
  have cut: "cut_at details_needle (details_needle @ v) = Some ([], v)"
    by (rule cut_at_append [of details_needle "[]", simplified]) (simp_all add: details_needle_def)
  have gap: "takeWhile blank v = []" "dropWhile blank v = v"
    using assms(2,3) by (cases v; simp)+
  have rest: "takeWhile (\<lambda>c. \<not> ends_value c) v = v" "dropWhile (\<lambda>c. \<not> ends_value c) v = []"
    using assms(1) by (simp_all add: takeWhile_eq_all_conv dropWhile_eq_Nil_conv list_all_iff)
  have "strip_details_balanced [] = []"
    by (subst strip_details_balanced.simps) (simp add: details_needle_def)
  then show ?thesis
    using assms(4) by (subst strip_details_balanced.simps) (simp add: cut gap rest Let_def)
qed

lemma later_details_leak:
  "strip_details_balanced ''details=none details={card: 4111}'' = ''details=none details={card: 4111}''"
  using later_details_are_copied [of "''none details={card: 4111}''"]
  by (simp add: details_needle_def ends_value_def blank_def)

section \<open>What an approval is bound to\<close>

lemma masked_str: "\<exists>s. masked n v = JStr s"
  by (simp add: masked_def)

lemma safe_args_str: "j \<in> set (safe_args ps as) \<Longrightarrow> \<exists>s. j = JStr s"
  using masked_str by (auto simp: safe_args_def split: option.splits)

lemma safe_kwargs_str: "dict_get (safe_kwargs ks) k = Some v \<Longrightarrow> \<exists>s. v = JStr s"
  using masked_str by (auto simp: safe_kwargs_def dict_get_def dest!: map_of_SomeD)

lemma same_two_strs: "says_same (JStr s) (JStr t) \<longleftrightarrow> s = t"
  by (auto simp: same_str text_of_def)

lemma same_str_lists:
  "\<forall>j \<in> set xs. \<exists>s. j = JStr s \<Longrightarrow> \<forall>j \<in> set ys. \<exists>s. j = JStr s \<Longrightarrow> list_all2 says_same xs ys \<longleftrightarrow> xs = ys"
  by (induction xs arbitrary: ys) (auto simp: list_all2_Cons1 same_two_strs)

lemma same_str_dicts:
  assumes "\<And>k v. dict_get d k = Some v \<Longrightarrow> \<exists>s. v = JStr s" "\<And>k v. dict_get e k = Some v \<Longrightarrow> \<exists>s. v = JStr s"
  shows "says_same (JObj d) (JObj e) \<longleftrightarrow> dict_get d = dict_get e"
proof -
  have keys: "fst ` set x = {k. dict_get x k \<noteq> None}" for x :: dict
    by (simp add: dict_get_def flip: dom_map_of_conv_image_fst) (simp add: dom_def)
  have "says_same v w \<longleftrightarrow> v = w" if "dict_get d k = Some v" "dict_get e k = Some w" for k v w
    using assms(1) [OF that(1)] assms(2) [OF that(2)] same_two_strs by auto
  then show ?thesis
    unfolding same_obj_iff keys fun_eq_iff
    by (auto simp: set_eq_iff) (metis option.exhaust)+
qed

lemma tool_call_valid: "tool_call n p = Inr i \<Longrightarrow> i = ToolCallParams n p extractor_id extractor_version \<and> validate i = Inr ()"
  by (cases "validate (ToolCallParams n p extractor_id extractor_version)") (auto simp: tool_call_def Let_def)

lemma masked_wf:
  "distinct (map fst (pc_kwargs c)) \<Longrightarrow> wf_json (JObj (masked_arguments c))"
proof -
  assume "distinct (map fst (pc_kwargs c))"
  then have "wf_dict (safe_kwargs (pc_kwargs c))"
    by (simp add: wf_dict_def safe_kwargs_def o_def case_prod_beta)
  moreover have "list_all wf_json (safe_args (pc_params c) (pc_args c))"
    using safe_args_str by (fastforce simp: list_all_iff)
  ultimately show ?thesis
    using safe_kwargs_str by (fastforce simp: masked_arguments_def wf_json_obj wf_dict_def list_all_iff)
qed

definition same_masked :: "protected_call \<Rightarrow> protected_call \<Rightarrow> bool" where
  "same_masked c d \<longleftrightarrow>
     pc_name c = pc_name d \<and> safe_args (pc_params c) (pc_args c) = safe_args (pc_params d) (pc_args d)
     \<and> dict_get (safe_kwargs (pc_kwargs c)) = dict_get (safe_kwargs (pc_kwargs d))"

lemma same_action_masked:
  "same_action (ToolCallParams (pc_name c) (masked_arguments c) e v) (ToolCallParams (pc_name d) (masked_arguments d) e v)
   \<longleftrightarrow> same_masked c d"
proof -
  have "says_same (JObj (masked_arguments c)) (JObj (masked_arguments d))
      \<longleftrightarrow> list_all2 says_same (map snd (masked_arguments c)) (map snd (masked_arguments d))"
    unfolding same_obj_iff by (subst same_items) (simp_all add: masked_arguments_def)
  also have "\<dots> \<longleftrightarrow> safe_args (pc_params c) (pc_args c) = safe_args (pc_params d) (pc_args d)
      \<and> dict_get (safe_kwargs (pc_kwargs c)) = dict_get (safe_kwargs (pc_kwargs d))"
    using same_str_lists [of "safe_args (pc_params c) (pc_args c)" "safe_args (pc_params d) (pc_args d)"]
      same_str_dicts [of "safe_kwargs (pc_kwargs c)" "safe_kwargs (pc_kwargs d)", OF safe_kwargs_str safe_kwargs_str] safe_args_str
    by (auto simp: masked_arguments_def says_same_list text_of_def)
  finally show ?thesis by (simp add: same_action_def same_masked_def)
qed

lemma built_impact:
  assumes "build_call_impact c = Inr i" "i \<noteq> no_impact"
  shows "tool_call (pc_name c) (masked_arguments c) = Inr i" "pc_named c" "prints c"
  using assms
  by (auto simp: build_call_impact_def prints_def split: if_splits option.splits show_exn.splits sum.splits)

text \<open>
  C10: an approval is bound to the masked previews.  For two protected calls whose impact was built (it is
  not the empty one that stands for a name or key outside ASCII or over its length, or an argument that does
  not print), the digest of each is SHA-256 of the prefix and a text, and the two texts are the same exactly
  when the function name, the masked positional arguments and the masked keyword arguments (in any order)
  agree.  So calls that agree in these share a digest, and others only where these two texts collide.  What
  the masks and the fifty-character previews leave out is not bound.
\<close>

theorem approval_binds_masked_arguments:
  assumes "build_call_impact c = Inr i" "i \<noteq> no_impact" "build_call_impact d = Inr j" "j \<noteq> no_impact"
    and "distinct (map fst (pc_kwargs c))" "distinct (map fst (pc_kwargs d))"
  shows "\<exists>a b. compute_action_digest sha256 R i = Inr (sha256 (digest_prefix @ a))
    \<and> compute_action_digest sha256 R j = Inr (sha256 (digest_prefix @ b))
    \<and> (a = b \<longleftrightarrow> same_masked c d)"
proof -
  note t = built_impact(1) [OF assms(1,2)] built_impact(1) [OF assms(3,4)]
  have v: "i = ToolCallParams (pc_name c) (masked_arguments c) extractor_id extractor_version" "validate i = Inr ()"
      "j = ToolCallParams (pc_name d) (masked_arguments d) extractor_id extractor_version" "validate j = Inr ()"
    using tool_call_valid [OF t(1)] tool_call_valid [OF t(2)] by blast+
  have "wf_impact i" "wf_impact j"
    using masked_wf [OF assms(5)] masked_wf [OF assms(6)] by (simp_all add: v wf_impact_def)
  from digest_binds [OF v(2,4) this, of R] have "canonical_bytes R i = canonical_bytes R j \<longleftrightarrow> same_masked c d"
    using same_action_masked v(1,3) by metis
  then show ?thesis
    using v(2,4) by (auto simp: compute_action_digest_def canonical_bytes_def)
qed

definition long_call :: "char \<Rightarrow> protected_call" where
  "long_call c =
     \<lparr>pc_named = True, pc_name = ''send'', pc_params = Some [''body''],
      pc_args = [''Dear customer, please find the account number below: '' @ [c]], pc_kwargs = [],
      pc_args_fail = None, pc_kwargs_fail = None\<rparr>"

text \<open>Two calls that differ behind the fiftieth character of an argument share one digest.\<close>

lemma no_needle: "cut_at details_needle s = None \<Longrightarrow> strip_details_balanced s = s"
  by (subst strip_details_balanced.simps) simp

lemma long_call_preview:
  "c \<noteq> CHR ''d'' \<Longrightarrow> safe_repr (''Dear customer, please find the account number below: '' @ [c])
     = ''Dear customer, please find the account number belo...<truncated>''"
  by (simp add: safe_repr_def no_needle details_needle_def max_preview_def)

lemma long_call_built:
  "c \<noteq> CHR ''d'' \<Longrightarrow> \<exists>i. build_call_impact (long_call c) = Inr i \<and> i \<noteq> no_impact"
  by (simp add: build_call_impact_def long_call_def masked_arguments_def safe_args_def safe_kwargs_def masked_def
      tool_call_def validate_def max_tool_name_bytes_def max_param_name_bytes_def printable_def no_impact_def Let_def)

lemma approval_binds_masked_arguments_witness:
  "\<exists>i j a. build_call_impact (long_call CHR ''1'') = Inr i \<and> build_call_impact (long_call CHR ''2'') = Inr j
     \<and> compute_action_digest (\<lambda>b. b) (\<lambda>r. []) i = Inr (digest_prefix @ a)
     \<and> compute_action_digest (\<lambda>b. b) (\<lambda>r. []) j = Inr (digest_prefix @ a)"
proof -
  obtain i j where built: "build_call_impact (long_call CHR ''1'') = Inr i" "i \<noteq> no_impact"
      "build_call_impact (long_call CHR ''2'') = Inr j" "j \<noteq> no_impact"
    using long_call_built [of "CHR ''1''"] long_call_built [of "CHR ''2''"] by auto
  have "same_masked (long_call CHR ''1'') (long_call CHR ''2'')"
    using long_call_preview [of "CHR ''1''"] long_call_preview [of "CHR ''2''"]
    by (simp add: same_masked_def long_call_def safe_args_def masked_def)
  moreover have "distinct (map fst (pc_kwargs (long_call c)))" for c by (simp add: long_call_def)
  ultimately show ?thesis
    using approval_binds_masked_arguments [OF built, of "\<lambda>b. b" "\<lambda>r. []"] built(1,3) by auto
qed

end
