(* ===== verification/Protect.thy ===== *)
theory Protect
  imports Protect_Args Runtime_Execute
begin

text \<open>
  The decorator \<open>@protect\<close> (\<open>src/nullrun/decorators.py\<close>, with the spans of \<open>tracing.py\<close>): what it puts
  into the context variables, the gates it runs before the body and in which order, how it treats the
  body's end, and what it restores.  The body, the tracking of its end and the emission of span events
  are arbitrary functions of the state, so a body may call further protected functions; log lines, the
  error hook and the hints in the exceptions are left out.
\<close>

section \<open>Spans\<close>

record span_context =
  sp_trace_id :: string
  sp_span_id :: string
  sp_parent :: "string option"
  sp_depth :: nat

definition create_root_span :: "('w \<Rightarrow> string \<times> 'w) \<Rightarrow> 'w \<Rightarrow> span_context \<times> 'w" where
  "create_root_span uuid w =
     (case uuid w of
        (t, w1) \<Rightarrow>
          (case uuid w1 of
             (i, w2) \<Rightarrow> (\<lparr>sp_trace_id = t, sp_span_id = i, sp_parent = None, sp_depth = 0\<rparr>, w2)))"

definition create_child_span :: "('w \<Rightarrow> string \<times> 'w) \<Rightarrow> span_context \<Rightarrow> 'w \<Rightarrow> span_context \<times> 'w" where
  "create_child_span uuid p w =
     (case uuid w of
        (i, w1) \<Rightarrow>
          (\<lparr>sp_trace_id = sp_trace_id p, sp_span_id = i, sp_parent = Some (sp_span_id p),
            sp_depth = Suc (sp_depth p)\<rparr>, w1))"

definition next_span ::
  "('w \<Rightarrow> string \<times> 'w) \<Rightarrow> span_context option \<Rightarrow> 'w \<Rightarrow> span_context \<times> 'w" where
  "next_span uuid current w =
     (case current of None \<Rightarrow> create_root_span uuid w | Some p \<Rightarrow> create_child_span uuid p w)"

section \<open>State and environment\<close>

text \<open>The context variables a protected call reads and writes, with the runtime's own state.\<close>

record protect_state =
  ps_plane :: plane
  ps_runtime :: runtime_state
  ps_tools :: "string list"
  ps_impact :: "impact option"
  ps_trace :: string
  ps_span_id :: string
  ps_current :: "span_context option"
  ps_protected :: nat

text \<open>
  \<open>Interrupt\<close> is an exception outside \<open>Exception\<close>; \<open>Stopped\<close> is the pause or kill of the control plane.
\<close>

datatype protect_exn = Refused gate_exn | Stopped plane_verdict | Raising string | Interrupt string

record 'w protect_env =
  pr_plane :: "'w plane_env"
  pr_execute :: "'w execute_env"
  pr_cfg :: runtime_cfg
  pr_context :: call_ctx
  pr_sha256 :: "string \<Rightarrow> string"
  pr_float_repr :: "rat \<Rightarrow> string"
  pr_emit :: "protect_state \<Rightarrow> 'w \<Rightarrow> protect_state \<times> 'w"
  pr_deferred :: "'w \<Rightarrow> protect_exn option \<times> 'w"
  pr_body :: "protect_state \<Rightarrow> 'w \<Rightarrow> (protect_exn + json) \<times> protect_state \<times> 'w"
  pr_track :: "protect_state \<Rightarrow> 'w \<Rightarrow> protect_exn option \<times> protect_state \<times> 'w"
  pr_cancel :: "string \<Rightarrow> 'w \<Rightarrow> 'w"

section \<open>The gates\<close>

text \<open>The digest of an impact that was built, hence validated.\<close>

definition digest_of :: "'w protect_env \<Rightarrow> impact \<Rightarrow> string" where
  "digest_of P i =
     (case compute_action_digest (pr_sha256 P) (pr_float_repr P) i of Inr h \<Rightarrow> h | Inl x \<Rightarrow> [])"

definition impact_of :: "protect_state \<Rightarrow> impact" where
  "impact_of s = (case ps_impact s of Some i \<Rightarrow> i | None \<Rightarrow> no_impact)"

text \<open>What the budget gate finds in the context.\<close>

definition gate_context :: "'w protect_env \<Rightarrow> protect_state \<Rightarrow> call_ctx" where
  "gate_context P s =
     (pr_context P)
       \<lparr>cx_tools := map JStr (ps_tools s), cx_digest := digest_of P (impact_of s),
        cx_impact := (case ps_impact s of None \<Rightarrow> JNull | Some i \<Rightarrow> JObj (to_wire_dict i))\<rparr>"

definition policy_call :: "'w protect_env \<Rightarrow> protected_call \<Rightarrow> protect_state \<Rightarrow> execute_call" where
  "policy_call P c s =
     \<lparr>xc_tool = pc_name c, xc_input = JObj (masked_arguments c), xc_mode = ''auto'',
      xc_impact = JObj (to_wire_dict (impact_of s)), xc_digest = JStr (digest_of P (impact_of s)),
      xc_tools = Some (map JStr (ps_tools s)), xc_approval = JNull, xc_arguments = JNull,
      xc_workflow = cx_workflow (pr_context P), xc_trace = ps_trace s,
      xc_context_tools = map JStr (ps_tools s)\<rparr>"

text \<open>The block the policy gate raises in place of a failure, with the code of its source.\<close>

definition unavailable :: "'w protect_env \<Rightarrow> protected_call \<Rightarrow> string \<Rightarrow> string \<Rightarrow> gate_exn" where
  "unavailable P c code source =
     (let wid = budget_workflow (pr_cfg P) (pr_context P) in
      built (blocked_call NullRunBlockedException []
        (JStr (if wid = [] then unknown_workflow_id else wid))
        (JStr (''policy engine unavailable: '' @ source)) (JStr (pc_name c))
        [(''error_code'', JStr code)]))"

definition code_of_source :: "string \<Rightarrow> string" where
  "code_of_source source =
     (if source = source_value NETWORK_ERROR then ''NR-B001''
      else if source = source_value GATEWAY_ERROR then ''NR-B002''
      else if source = source_value AUTH_ERROR then ''NR-A003''
      else if source = source_value BREAKER_OPEN then ''NR-B005''
      else ''NR-B001'')"

definition json_text :: "json \<Rightarrow> string" where
  "json_text j = (case j of JStr s \<Rightarrow> s | _ \<Rightarrow> [])"

text \<open>\<open>None\<close> lets the body run.\<close>

definition policy_verdict ::
  "'w protect_env \<Rightarrow> protected_call \<Rightarrow> bool \<Rightarrow> gate_exn + json \<Rightarrow> gate_exn option" where
  "policy_verdict P c fail_open res =
     (case res of
        Inl (SdkErr e) \<Rightarrow>
          (if is_subclass (err_class e) NullRunExecutionNotFoundError
              \<or> is_subclass (err_class e) RateLimitError
              \<or> is_subclass (err_class e) NullRunBlockedException then Some (SdkErr e)
           else if is_subclass (err_class e) NullRunTransportError then
             (if fail_open then None
              else Some (unavailable P c (code_of_source (json_text (jget (err_attrs e) ''source'')))
                           (json_text (jget (err_attrs e) ''source''))))
           else if is_subclass (err_class e) NullRunDecision
                \<or> is_subclass (err_class e) NullRunInfrastructureError then Some (SdkErr e)
           else if fail_open then None
           else Some (unavailable P c ''NR-B001'' (err_text e)))
      | Inl (UnclassifiedRefusal u) \<Rightarrow> Some (UnclassifiedRefusal u)
      | Inl (PyError x) \<Rightarrow> (if fail_open then None else Some (unavailable P c ''NR-B001'' x))
      | Inr (JObj d) \<Rightarrow>
          (let source = get_or d ''decision_source'' (JStr []) in
           if is_fallback_decision_source source then
             (if fail_open then None
              else Some (unavailable P c (code_of_source (json_text source)) (json_text source)))
           else None)
      | Inr _ \<Rightarrow> None)"

text \<open>An exception of a \<open>__repr__\<close>, as the caller sees it.\<close>

definition repr_raises :: "show_exn \<Rightarrow> protect_exn" where
  "repr_raises x =
     (case x of Unprintable n \<Rightarrow> Raising n | ShowRaises n \<Rightarrow> Raising n | ShowInterrupts n \<Rightarrow> Interrupt n)"

text \<open>The arguments are printed once more, the keyword arguments first; what that raises is not caught.\<close>

definition run_tool_policy_gate ::
  "'w protect_env \<Rightarrow> protected_call \<Rightarrow> protect_state \<Rightarrow> 'w \<Rightarrow> protect_exn option \<times> protect_state \<times> 'w" where
  "run_tool_policy_gate P c s w =
     (case (case pc_kwargs_fail c of None \<Rightarrow> pc_args_fail c | Some x \<Rightarrow> Some x) of
        Some x \<Rightarrow> (Some (repr_raises x), s, w)
      | None \<Rightarrow>
          (case runtime_execute (pr_execute P) (pr_cfg P) (policy_call P c s) (ps_runtime s) w of
          (res, rs, w1) \<Rightarrow>
            (map_option Refused
               (policy_verdict P c (sensitive_fail_open_enabled (xe_gate (pr_execute P)) (pr_cfg P)) res),
             s\<lparr>ps_runtime := rs\<rparr>, w1)))"

text \<open>The gates in their order; the first refusal ends them.\<close>

definition protect_gates ::
  "'w protect_env \<Rightarrow> protected_call \<Rightarrow> protect_state \<Rightarrow> 'w \<Rightarrow> protect_exn option \<times> protect_state \<times> 'w" where
  "protect_gates P c s w =
     (case check_control_plane (pr_plane P) (cx_workflow (pr_context P)) (ps_plane s) w of
        (verdict, p, w1) \<Rightarrow>
          (let s1 = s\<lparr>ps_plane := p, ps_protected := Suc (ps_protected s)\<rparr> in
           if verdict \<noteq> Proceed then (Some (Stopped verdict), s1, w1)
           else
             (case check_workflow_budget (xe_gate (pr_execute P)) (pr_cfg P) (gate_context P s1)
                     (ps_runtime s1) w1 of
                (Inl x, rs, w2) \<Rightarrow> (Some (Refused x), s1\<lparr>ps_runtime := rs\<rparr>, w2)
              | (Inr reservation, rs, w2) \<Rightarrow>
                  (case pr_emit P (s1\<lparr>ps_runtime := rs\<rparr>) w2 of
                     (s2, w3) \<Rightarrow>
                       (case run_tool_policy_gate P c s2 w3 of
                          (Some x, s3, w4) \<Rightarrow> (Some x, s3, w4)
                        | (None, s3, w4) \<Rightarrow>
                            (case pr_deferred P w4 of (d, w5) \<Rightarrow> (d, s3, w5)))))))"

section \<open>The call\<close>

text \<open>
  The entry: the span is opened, the tools are named and the impact is built before the \<open>try\<close>, so an
  exception here (of a callable without a name, of an argument that does not print) leaves the call with
  the context as it is by then.
\<close>

definition protect_enter ::
  "'w protect_env \<Rightarrow> protected_call \<Rightarrow> protect_state \<Rightarrow> 'w \<Rightarrow> protect_exn option \<times> protect_state \<times> 'w" where
  "protect_enter P c s w =
     (case next_span (be_uuid (xe_gate (pr_execute P))) (ps_current s) w of
        (sp, w1) \<Rightarrow>
          (let s1 = s\<lparr>ps_current := Some sp, ps_trace := sp_trace_id sp, ps_span_id := sp_span_id sp\<rparr> in
           if ps_tools s = [] \<and> \<not> pc_named c then (Some (Raising ''AttributeError''), s1, w1)
           else
             (let s2 = s1\<lparr>ps_tools := (if ps_tools s = [] then [pc_name c] else ps_tools s)\<rparr> in
              (case build_call_impact c of
                 Inl x \<Rightarrow> (Some (repr_raises x), s2, w1)
               | Inr i \<Rightarrow> (None, s2\<lparr>ps_impact := Some i\<rparr>, w1)))))"

text \<open>The \<open>finally\<close> of the scaffolding: every token set on entry is reset.\<close>

definition protect_exit ::
  "'w protect_env \<Rightarrow> protect_state \<Rightarrow> protect_state \<Rightarrow> 'w \<Rightarrow> protect_state \<times> 'w" where
  "protect_exit P outer s w =
     pr_emit P
       (s\<lparr>ps_current := ps_current outer, ps_trace := ps_trace outer, ps_span_id := ps_span_id outer,
          ps_tools := (if ps_tools outer = [] then [] else ps_tools s),
          ps_impact := ps_impact outer\<rparr>) w"

text \<open>
  A pause or kill seen by a synchronous call becomes a block with the signal's code; the code, the
  workflow and the reason of the signal, when the exception is one.
\<close>

definition stop_signal :: "protect_exn \<Rightarrow> (string \<times> json \<times> json) option" where
  "stop_signal x =
     (case x of
        Stopped (KilledExn wid reason) \<Rightarrow> Some (''NR-W002'', wid, reason)
      | Stopped (PausedExn wid reason) \<Rightarrow> Some (''NR-W003'', wid, reason)
      | Refused (SdkErr e) \<Rightarrow>
          (if is_subclass (err_class e) WorkflowKilledInterrupt
           then Some (''NR-W002'', jget (err_attrs e) ''workflow_id'', jget (err_attrs e) ''reason'')
           else if is_subclass (err_class e) WorkflowPausedException
           then Some (''NR-W003'', jget (err_attrs e) ''workflow_id'', jget (err_attrs e) ''reason'')
           else None)
      | _ \<Rightarrow> None)"

definition unify_block :: "bool \<Rightarrow> protect_exn \<Rightarrow> protect_exn" where
  "unify_block sync x =
     (case (if sync then stop_signal x else None) of
        None \<Rightarrow> x
      | Some (code, wid, reason) \<Rightarrow>
          Refused (built (blocked_call NullRunBlockedException [] wid reason JNull
                            [(''error_code'', JStr code)])))"

text \<open>\<open>_safe_cancel_active_execution\<close>: the execution id that is in the context.\<close>

definition safe_cancel :: "'w protect_env \<Rightarrow> protect_state \<Rightarrow> 'w \<Rightarrow> 'w" where
  "safe_cancel P s w =
     (case rs_minted (ps_runtime s) of
        JStr e \<Rightarrow> (if e = [] then w else pr_cancel P e w)
      | _ \<Rightarrow> w)"

text \<open>The exceptions the wrapper cleans up after: all of them, or only \<open>Exception\<close> when asynchronous.\<close>

definition cleans_up :: "bool \<Rightarrow> protect_exn \<Rightarrow> bool" where
  "cleans_up sync x \<longleftrightarrow> sync \<or> (\<forall>n. x \<noteq> Interrupt n)"

text \<open>The end of a call that raised: the scaffolding is left, then the wrapper cleans up.\<close>

definition protect_fail ::
  "'w protect_env \<Rightarrow> bool \<Rightarrow> bool \<Rightarrow> protect_state \<Rightarrow> protect_exn \<Rightarrow> protect_state \<Rightarrow> 'w
     \<Rightarrow> (protect_exn + json) \<times> protect_state \<times> 'w" where
  "protect_fail P sync completed outer x s w =
     (let y = unify_block sync x in
      (case protect_exit P outer s w of
         (s1, w1) \<Rightarrow>
           (Inl y, s1, if \<not> completed \<and> cleans_up sync y then safe_cancel P s1 w1 else w1)))"

definition protected_body ::
  "'w protect_env \<Rightarrow> bool \<Rightarrow> protect_state \<Rightarrow> protect_state \<Rightarrow> 'w
     \<Rightarrow> (protect_exn + json) \<times> protect_state \<times> 'w" where
  "protected_body P sync outer s w =
     (case pr_body P s w of
        (Inl x, s1, w1) \<Rightarrow> protect_fail P sync False outer x s1 w1
      | (Inr v, s1, w1) \<Rightarrow>
          (case pr_track P s1 w1 of
             (Some x, s2, w2) \<Rightarrow> protect_fail P sync True outer x s2 w2
           | (None, s2, w2) \<Rightarrow>
               (case protect_exit P outer s2 w2 of (s3, w3) \<Rightarrow> (Inr v, s3, w3))))"

definition protect_call ::
  "'w protect_env \<Rightarrow> bool \<Rightarrow> protected_call \<Rightarrow> protect_state \<Rightarrow> 'w
     \<Rightarrow> (protect_exn + json) \<times> protect_state \<times> 'w" where
  "protect_call P sync c s w =
     (case protect_enter P c s w of
        (Some x, s1, w1) \<Rightarrow> (Inl x, s1, if cleans_up sync x then safe_cancel P s1 w1 else w1)
      | (None, s1, w1) \<Rightarrow>
          (case protect_gates P c s1 w1 of
             (Some x, s2, w2) \<Rightarrow> protect_fail P sync False s x s2 w2
           | (None, s2, w2) \<Rightarrow> protected_body P sync s s2 w2))"

end
