(* ===== verification/Protect_Laws.thy ===== *)
theory Protect_Laws
  imports Protect
begin

text \<open>
  The laws of a protected call: which gates stand before the body and what each must have said, that a
  refused call never reaches its body, when a reservation is cancelled, and that the context variables
  are restored; with the composition of the runtime's gates and the transport's calls.
\<close>

section \<open>The gates do not see the body\<close>

lemma body_update:
  "pr_plane (P\<lparr>pr_body := b\<rparr>) = pr_plane P" "pr_execute (P\<lparr>pr_body := b\<rparr>) = pr_execute P"
  "pr_cfg (P\<lparr>pr_body := b\<rparr>) = pr_cfg P" "pr_context (P\<lparr>pr_body := b\<rparr>) = pr_context P"
  "pr_sha256 (P\<lparr>pr_body := b\<rparr>) = pr_sha256 P" "pr_float_repr (P\<lparr>pr_body := b\<rparr>) = pr_float_repr P"
  "pr_emit (P\<lparr>pr_body := b\<rparr>) = pr_emit P" "pr_deferred (P\<lparr>pr_body := b\<rparr>) = pr_deferred P"
  "pr_cancel (P\<lparr>pr_body := b\<rparr>) = pr_cancel P"
  by simp_all

lemma parts_ignore_body:
  "gate_context (P\<lparr>pr_body := b\<rparr>) = gate_context P" "policy_call (P\<lparr>pr_body := b\<rparr>) = policy_call P"
  "policy_verdict (P\<lparr>pr_body := b\<rparr>) = policy_verdict P" "safe_cancel (P\<lparr>pr_body := b\<rparr>) = safe_cancel P"
  "protect_exit (P\<lparr>pr_body := b\<rparr>) = protect_exit P"
  unfolding gate_context_def [abs_def] policy_call_def [abs_def] policy_verdict_def [abs_def]
    safe_cancel_def [abs_def] protect_exit_def [abs_def] digest_of_def unavailable_def body_update
  by (rule refl)+

lemma gates_ignore_body [simp]: "protect_gates (P\<lparr>pr_body := b\<rparr>) c s w = protect_gates P c s w"
  unfolding protect_gates_def run_tool_policy_gate_def parts_ignore_body body_update by (rule refl)

lemma enter_ignores_body [simp]: "protect_enter (P\<lparr>pr_body := b\<rparr>) c s w = protect_enter P c s w"
  unfolding protect_enter_def body_update by (rule refl)

lemma fail_ignores_body [simp]:
  "protect_fail (P\<lparr>pr_body := b\<rparr>) sync fin outer x s w = protect_fail P sync fin outer x s w"
  unfolding protect_fail_def parts_ignore_body by (rule refl)

text \<open>A call whose gates refuse behaves the same whatever its body is.\<close>

lemma refused_ignores_body:
  assumes "protect_enter P c s w = (None, s1, w1)" "protect_gates P c s1 w1 = (Some x, s2, w2)"
  shows "protect_call (P\<lparr>pr_body := b\<rparr>) sync c s w = protect_call P sync c s w"
  using assms by (simp add: protect_call_def)

lemma failed_entry_ignores_body:
  assumes "protect_enter P c s w = (Some x, s1, w1)"
  shows "protect_call (P\<lparr>pr_body := b\<rparr>) sync c s w = protect_call P sync c s w"
  using assms by (simp add: protect_call_def parts_ignore_body)

section \<open>What lets a body run\<close>

lemma gates_pass:
  assumes "protect_gates P c s w = (None, s', w')"
  shows "fst (check_control_plane (pr_plane P) (cx_workflow (pr_context P)) (ps_plane s) w) = Proceed
    \<and> (\<exists>s1 rs u v. ps_tools s1 = ps_tools s \<and> ps_impact s1 = ps_impact s
         \<and> fst (check_workflow_budget (xe_gate (pr_execute P)) (pr_cfg P) (gate_context P s1) rs u) = Inr v)
    \<and> (\<exists>s1 s2 u u2 res. s2 = fst (pr_emit P s1 u) \<and> ps_tools s1 = ps_tools s \<and> ps_impact s1 = ps_impact s
         \<and> fst (runtime_execute (pr_execute P) (pr_cfg P) (policy_call P c s2) (ps_runtime s2) u2) = res
         \<and> policy_verdict P c (sensitive_fail_open_enabled (xe_gate (pr_execute P)) (pr_cfg P)) res = None)"
proof -
  obtain verdict p w1 where cp:
    "check_control_plane (pr_plane P) (cx_workflow (pr_context P)) (ps_plane s) w = (verdict, p, w1)"
    by (metis surj_pair)
  let ?s1 = "s\<lparr>ps_plane := p, ps_protected := Suc (ps_protected s)\<rparr>"
  obtain b rs w2 where bg: "check_workflow_budget (xe_gate (pr_execute P)) (pr_cfg P) (gate_context P ?s1)
      (ps_runtime ?s1) w1 = (b, rs, w2)" by (metis surj_pair)
  obtain s2 w3 where em: "pr_emit P (?s1\<lparr>ps_runtime := rs\<rparr>) w2 = (s2, w3)" by fastforce
  obtain res rs2 w4 where ex: "runtime_execute (pr_execute P) (pr_cfg P) (policy_call P c s2) (ps_runtime s2) w3
      = (res, rs2, w4)" by (metis surj_pair)
  have v: "verdict = Proceed" using assms cp by (auto simp: protect_gates_def Let_def split: if_splits)
  obtain r where b: "b = Inr r" using assms cp bg v by (cases b) (auto simp: protect_gates_def Let_def)
  have pv: "policy_verdict P c (sensitive_fail_open_enabled (xe_gate (pr_execute P)) (pr_cfg P)) res = None"
    using assms cp bg v b em ex
    by (auto simp: protect_gates_def run_tool_policy_gate_def Let_def split: option.splits)
  have "ps_tools ?s1 = ps_tools s \<and> ps_impact ?s1 = ps_impact s
      \<and> fst (check_workflow_budget (xe_gate (pr_execute P)) (pr_cfg P) (gate_context P ?s1) (ps_runtime ?s1) w1) = Inr r"
    using bg b by simp
  moreover have "s2 = fst (pr_emit P (?s1\<lparr>ps_runtime := rs\<rparr>) w2) \<and> ps_tools (?s1\<lparr>ps_runtime := rs\<rparr>) = ps_tools s
      \<and> ps_impact (?s1\<lparr>ps_runtime := rs\<rparr>) = ps_impact s
      \<and> fst (runtime_execute (pr_execute P) (pr_cfg P) (policy_call P c s2) (ps_runtime s2) w3) = res"
    using em ex by simp
  ultimately show ?thesis using cp v pv by (metis fst_conv)
qed

text \<open>Emitting a span event leaves the context variables alone.\<close>

definition same_context :: "protect_state \<Rightarrow> protect_state \<Rightarrow> bool" where
  "same_context s t \<longleftrightarrow>
     ps_current s = ps_current t \<and> ps_trace s = ps_trace t \<and> ps_span_id s = ps_span_id t
     \<and> ps_tools s = ps_tools t \<and> ps_impact s = ps_impact t"

definition quiet_emit :: "'w protect_env \<Rightarrow> bool" where
  "quiet_emit P \<longleftrightarrow> (\<forall>s w. same_context (fst (pr_emit P s w)) s)"

lemma policy_verdict_answer:
  assumes "policy_verdict P c False (Inr (JObj d)) = None"
  shows "\<not> is_fallback_decision_source (jget d ''decision_source'')"
proof -
  have "is_fallback_decision_source (jget d ''decision_source'') \<Longrightarrow>
      get_or d ''decision_source'' (JStr []) = jget d ''decision_source''"
    by (cases "dict_get d ''decision_source''") (auto simp: get_or_def jget_def is_fallback_decision_source_def)
  with assms show ?thesis by (auto simp: policy_verdict_def Let_def split: if_splits)
qed

lemma policy_verdict_raises: "policy_verdict P c False (Inl x) \<noteq> None"
  by (cases x) (auto simp: policy_verdict_def)


section \<open>Only a gateway answer lets the body run\<close>

definition entry_tools :: "protected_call \<Rightarrow> protect_state \<Rightarrow> string list" where
  "entry_tools c s = (if ps_tools s = [] then [pc_name c] else ps_tools s)"

lemma enter_state:
  assumes "protect_enter P c s w = (None, s1, w1)"
  shows "ps_plane s1 = ps_plane s" "ps_runtime s1 = ps_runtime s" "ps_tools s1 = entry_tools c s"
    "\<exists>i. build_call_impact c = Inr i \<and> ps_impact s1 = Some i"
  using assms by (auto simp: protect_enter_def entry_tools_def Let_def split: prod.splits if_splits sum.splits)

lemma quiet_emitD: "quiet_emit P \<Longrightarrow> same_context (fst (pr_emit P s w)) s"
  by (simp add: quiet_emit_def)

lemma transport_answer:
  assumes "fst (execute_gate G (Policy ''raise'') mode a v) = Inr (JObj d)"
    and "\<not> is_fallback_decision_source (jget d ''decision_source'')"
  shows "gateway_answer G a d"
proof -
  obtain w' where run: "execute_gate G (Policy ''raise'') mode a v = (Inr (JObj d), w')"
    using assms(1) by (metis prod.collapse)
  from execute_answer_cases [OF this] assms(2) show ?thesis
    by (auto simp: no_callback_def made_up_def)
qed

text \<open>
  C2: a protected body runs only behind all of its gates.  Let the policy calls go to the gateway (no via-edge
  box, where the transport answers them itself, see \<open>edge_skips_policy\<close>), and let sensitive calls not be allowed
  to fail open.  Then a call either behaves the same whatever its body is, or the control plane let the workflow
  proceed, the budget gate returned for this call's tools and impact, and the gateway itself answered a question
  of \<open>/execute\<close> about this tool, these masked arguments, this impact and this digest with status 200 and a
  decision other than \<open>block\<close> and \<open>require_approval\<close>.  An answer the SDK made up never runs a body, whatever the
  fallback mode is.
\<close>

theorem protected_body_needs_every_gate:
  assumes "\<And>a v. xe_call (pr_execute P) a v = execute_gate G (Policy ''raise'') mode a v"
    and "\<not> sensitive_fail_open_enabled (xe_gate (pr_execute P)) (pr_cfg P)" "quiet_emit P"
  shows "(\<forall>b. protect_call (P\<lparr>pr_body := b\<rparr>) sync c s w = protect_call P sync c s w)
    \<or> (\<exists>u. fst (check_control_plane (pr_plane P) (cx_workflow (pr_context P)) (ps_plane s) u) = Proceed)
      \<and> (\<exists>i. build_call_impact c = Inr i
        \<and> (\<exists>t rs u v. ps_tools t = entry_tools c s \<and> ps_impact t = Some i
             \<and> fst (check_workflow_budget (xe_gate (pr_execute P)) (pr_cfg P) (gate_context P t) rs u) = Inr v)
        \<and> (\<exists>t a d. ps_tools t = entry_tools c s \<and> ps_impact t = Some i
             \<and> asked_for (pr_cfg P) (policy_call P c t) a \<and> gateway_answer G a d
             \<and> jget d ''decision'' \<noteq> JStr ''block'' \<and> jget d ''decision'' \<noteq> JStr ''require_approval''))"
proof (cases "fst (protect_enter P c s w)")
  case (Some x)
  with failed_entry_ignores_body show ?thesis by (metis prod.collapse)
next
  case entered: None
  then obtain s1 w1 where enter: "protect_enter P c s w = (None, s1, w1)" by (metis prod.collapse)
  obtain x s2 w2 where gates: "protect_gates P c s1 w1 = (x, s2, w2)" by (metis surj_pair)
  show ?thesis
  proof (cases x)
    case (Some y)
    with refused_ignores_body enter gates show ?thesis by metis
  next
    case None
    note st = enter_state [OF enter]
    obtain i where i: "build_call_impact c = Inr i" "ps_impact s1 = Some i" using st(4) by blast
    from gates_pass [OF gates [unfolded None]] obtain t r rs u v u2 where
      plane: "fst (check_control_plane (pr_plane P) (cx_workflow (pr_context P)) (ps_plane s) w1) = Proceed"
      and budget: "ps_tools t = entry_tools c s" "ps_impact t = Some i"
        "fst (check_workflow_budget (xe_gate (pr_execute P)) (pr_cfg P) (gate_context P t) rs u) = Inr v"
      and emit: "ps_tools r = entry_tools c s" "ps_impact r = Some i"
      and verdict: "policy_verdict P c (sensitive_fail_open_enabled (xe_gate (pr_execute P)) (pr_cfg P))
          (fst (runtime_execute (pr_execute P) (pr_cfg P) (policy_call P c r) (ps_runtime r) u2)) = None"
      using quiet_emitD [OF assms(3)] unfolding same_context_def st(1-3) i(2) by metis
    obtain res rs' w' where run: "runtime_execute (pr_execute P) (pr_cfg P) (policy_call P c r) (ps_runtime r) u2
        = (res, rs', w')" by (metis surj_pair)
    have pv: "policy_verdict P c False res = None" using verdict run assms(2) by simp
    then obtain j where j: "res = Inr j" by (metis sum.exhaust policy_verdict_raises)
    from execute_returns [OF run [unfolded j]] obtain d a q where
      d: "j = JObj d" "fst (xe_call (pr_execute P) a q) = Inr (JObj d)"
        "asked_for (pr_cfg P) (policy_call P c r) a" "jget d ''decision'' \<noteq> JStr ''block''"
        "jget d ''decision'' \<noteq> JStr ''require_approval''" by blast
    have "\<not> is_fallback_decision_source (jget d ''decision_source'')"
      using pv d(1) j policy_verdict_answer by simp
    with d(2) have "gateway_answer G a d"
      unfolding assms(1) by (rule transport_answer)
    with plane budget emit d i(1) show ?thesis by blast
  qed
qed


section \<open>The context is restored\<close>

lemma exit_context:
  assumes "protect_exit P outer s w = (t, w')" "quiet_emit P"
  shows "ps_current t = ps_current outer" "ps_trace t = ps_trace outer" "ps_span_id t = ps_span_id outer"
    "ps_impact t = ps_impact outer" "ps_tools outer = [] \<Longrightarrow> ps_tools t = []"
proof -
  let ?s = "s\<lparr>ps_current := ps_current outer, ps_trace := ps_trace outer, ps_span_id := ps_span_id outer,
          ps_tools := (if ps_tools outer = [] then [] else ps_tools s), ps_impact := ps_impact outer\<rparr>"
  have "same_context t ?s"
    using quiet_emitD [OF assms(2), of ?s w] assms(1) by (simp add: protect_exit_def del: if_split)
  then show "ps_current t = ps_current outer" "ps_trace t = ps_trace outer" "ps_span_id t = ps_span_id outer"
    "ps_impact t = ps_impact outer" "ps_tools outer = [] \<Longrightarrow> ps_tools t = []"
    by (simp_all add: same_context_def)
qed

lemma call_exits:
  assumes "fst (protect_enter P c s w) = None"
  obtains r u v s1 w1 where "protect_exit P s r u = (s1, v)"
    "fst (snd (protect_call P sync c s w)) = s1" "snd (snd (protect_call P sync c s w)) = w1"
proof -
  have fail: "\<exists>r u v. protect_exit P s r u = (fst (snd (protect_fail P sync fin s x t q)), v)" for fin x t q
    by (auto simp: protect_fail_def Let_def split: prod.splits)
  have body: "\<exists>r u v. protect_exit P s r u = (fst (snd (protected_body P sync s t q)), v)" for t q
    using fail by (auto simp: protected_body_def split: prod.splits sum.splits option.splits)
  have "\<exists>r u v. protect_exit P s r u = (fst (snd (protect_call P sync c s w)), v)"
    using fail body assms by (auto simp: protect_call_def split: prod.splits option.splits)
  then show thesis using that by blast
qed

text \<open>
  The entry fails exactly for a callable without a name and for an argument whose \<open>__repr__\<close> raises
  anything but a \<open>ValueError\<close> or \<open>TypeError\<close>.
\<close>

lemma entry_succeeds: "fst (protect_enter P c s w) = None \<longleftrightarrow> (\<exists>i. build_call_impact c = Inr i)"
  by (cases "build_call_impact c")
    (auto simp: protect_enter_def build_call_impact_def Let_def split: prod.splits if_splits)

text \<open>
  C11: a protected call restores its context.  When the impact of the call is built (the callable has a name,
  and printing its arguments raises nothing, or a \<open>ValueError\<close> or \<open>TypeError\<close>), then however the call ends,
  refused at a gate, with the body's value, with any exception of the body, of the tracking or from outside
  \<open>Exception\<close>, and whatever the body did to the context variables, the span, the trace and span ids and the
  business impact are those of the caller again, and so is the tool list when the call had set it.  Where
  the impact is not built, the call raises with its own span left in the context (\<open>failed_entry_leaks_context\<close>).
\<close>

theorem protected_call_restores_context:
  assumes "build_call_impact c = Inr i" "quiet_emit P" "protect_call P sync c s w = (res, s', w')"
  shows "ps_current s' = ps_current s \<and> ps_trace s' = ps_trace s \<and> ps_span_id s' = ps_span_id s
    \<and> ps_impact s' = ps_impact s \<and> (ps_tools s = [] \<longrightarrow> ps_tools s' = [])"
proof -
  have "fst (protect_enter P c s w) = None" using assms(1) by (simp add: entry_succeeds)
  then obtain r u v where "protect_exit P s r u = (s', v)"
    using call_exits [of P c s w sync] assms(3) by (metis fst_conv snd_conv)
  from exit_context [OF this assms(2)] show ?thesis by simp
qed

text \<open>A call whose entry fails raises that exception and leaves its own span in the caller's context.\<close>

lemma failed_entry_leaks_context:
  assumes "build_call_impact c = Inl x"
  shows "\<exists>sp s' w'. protect_call P sync c s w = (Inl (repr_raises x), s', w')
    \<and> (\<exists>u. next_span (be_uuid (xe_gate (pr_execute P))) (ps_current s) w = (sp, u))
    \<and> ps_current s' = Some sp \<and> ps_trace s' = sp_trace_id sp \<and> ps_span_id s' = sp_span_id sp"
  using assms
  by (auto simp: protect_call_def protect_enter_def build_call_impact_def repr_raises_def Let_def
      split: prod.splits if_splits option.splits)

section \<open>Cancelling reservations\<close>

lemma cancel_update:
  "pr_plane (P\<lparr>pr_cancel := b\<rparr>) = pr_plane P" "pr_execute (P\<lparr>pr_cancel := b\<rparr>) = pr_execute P"
  "pr_cfg (P\<lparr>pr_cancel := b\<rparr>) = pr_cfg P" "pr_context (P\<lparr>pr_cancel := b\<rparr>) = pr_context P"
  "pr_sha256 (P\<lparr>pr_cancel := b\<rparr>) = pr_sha256 P" "pr_float_repr (P\<lparr>pr_cancel := b\<rparr>) = pr_float_repr P"
  "pr_emit (P\<lparr>pr_cancel := b\<rparr>) = pr_emit P" "pr_deferred (P\<lparr>pr_cancel := b\<rparr>) = pr_deferred P"
  "pr_body (P\<lparr>pr_cancel := b\<rparr>) = pr_body P" "pr_track (P\<lparr>pr_cancel := b\<rparr>) = pr_track P"
  by simp_all

lemma parts_ignore_cancel:
  "gate_context (P\<lparr>pr_cancel := b\<rparr>) = gate_context P" "policy_call (P\<lparr>pr_cancel := b\<rparr>) = policy_call P"
  "policy_verdict (P\<lparr>pr_cancel := b\<rparr>) = policy_verdict P" "protect_exit (P\<lparr>pr_cancel := b\<rparr>) = protect_exit P"
  unfolding gate_context_def [abs_def] policy_call_def [abs_def] policy_verdict_def [abs_def]
    protect_exit_def [abs_def] digest_of_def unavailable_def cancel_update
  by (rule refl)+

lemma gates_ignore_cancel [simp]:
  "protect_gates (P\<lparr>pr_cancel := b\<rparr>) c s w = protect_gates P c s w"
  "protect_enter (P\<lparr>pr_cancel := b\<rparr>) c s w = protect_enter P c s w"
  unfolding protect_gates_def run_tool_policy_gate_def protect_enter_def parts_ignore_cancel cancel_update
  by (rule refl)+

text \<open>
  only an unfinished call is cancelled.  When the body returned, the call's end never cancels a
  reservation, not even when the tracking of the finished call fails; and an asynchronous call that was
  interrupted from outside \<open>Exception\<close> sends no cancel either.
\<close>

theorem finished_call_not_cancelled:
  assumes "protect_enter P c s w = (None, s1, w1)" "protect_gates P c s1 w1 = (None, s2, w2)"
    and "(\<exists>v. fst (pr_body P s2 w2) = Inr v) \<or> \<not> sync \<and> (\<exists>n. fst (pr_body P s2 w2) = Inl (Interrupt n))"
  shows "protect_call (P\<lparr>pr_cancel := k\<rparr>) sync c s w = protect_call P sync c s w"
proof -
  have fin: "protect_fail (P\<lparr>pr_cancel := k\<rparr>) sync True s x t u = protect_fail P sync True s x t u" for x t u
    unfolding protect_fail_def parts_ignore_cancel by simp
  have interrupted: "protect_fail (P\<lparr>pr_cancel := k\<rparr>) False False s (Interrupt n) t u
      = protect_fail P False False s (Interrupt n) t u" for n t u
    unfolding protect_fail_def parts_ignore_cancel by (simp add: unify_block_def cleans_up_def)
  obtain r s3 w3 where body: "pr_body P s2 w2 = (r, s3, w3)" by (metis surj_pair)
  have "protected_body (P\<lparr>pr_cancel := k\<rparr>) sync s s2 w2 = protected_body P sync s s2 w2"
    unfolding protected_body_def cancel_update parts_ignore_cancel fin
    using assms(3) body interrupted by auto
  with assms(1,2) show ?thesis by (simp add: protect_call_def)
qed

text \<open>
  a refused call cancels an earlier execution.  When the control plane stops a synchronous call
  before any gate was asked, the execution id in the context is the one an earlier call left there; the
  clean-up cancels it, although that call may have completed its body.
\<close>

theorem stopped_call_cancels_earlier_execution:
  assumes "protect_enter P c s w = (None, s1, w1)"
    and "check_control_plane (pr_plane P) (cx_workflow (pr_context P)) (ps_plane s) w1 = (KilledExn wid reason, p, w2)"
    and "rs_minted (ps_runtime s) = JStr e" "e \<noteq> []"
    and "\<And>s w. ps_runtime (fst (pr_emit P s w)) = ps_runtime s"
  shows "\<exists>w3. snd (snd (protect_call P True c s w)) = pr_cancel P e w3"
proof -
  note st = enter_state [OF assms(1)]
  let ?s2 = "s1\<lparr>ps_plane := p, ps_protected := Suc (ps_protected s1)\<rparr>"
  have gates: "protect_gates P c s1 w1 = (Some (Stopped (KilledExn wid reason)), ?s2, w2)"
    using assms(2) by (simp add: protect_gates_def Let_def st)
  obtain s3 w3 where exit: "protect_exit P s ?s2 w2 = (s3, w3)" by fastforce
  have "ps_runtime s3 = ps_runtime s"
    using assms(5) exit st(2) unfolding protect_exit_def by (metis (no_types, lifting) fst_conv protect_state.select_convs(2) protect_state.surjective protect_state.update_convs)
  with assms(1,3,4) gates exit show ?thesis
    by (auto simp: protect_call_def protect_fail_def Let_def cleans_up_def safe_cancel_def)
qed

section \<open>Answers outside the vocabulary\<close>

lemma unlisted_gate:
  assumes "prints c" "\<And>a v. fst (xe_call (pr_execute P) a v) = Inr (JObj d)"
    and "jget d ''decision'' \<noteq> JStr ''block''" "jget d ''decision'' \<noteq> JStr ''require_approval''"
    and "get_or d ''decision_source'' (JStr []) = JStr src_gateway"
  shows "fst (run_tool_policy_gate P c s w) = None"
proof -
  obtain res rs w' where run: "runtime_execute (pr_execute P) (pr_cfg P) (policy_call P c s) (ps_runtime s) w
      = (res, rs, w')" by (metis surj_pair)
  have "xc_mode (policy_call P c s) \<noteq> ''inline''" by (simp add: policy_call_def)
  from unlisted_decision_handed_over [OF assms(2) this assms(3,4), of "pr_cfg P" "ps_runtime s" w] run
  have "res = Inr (JObj d)" by simp
  with run assms(1,5) show ?thesis
    by (simp add: run_tool_policy_gate_def policy_verdict_def prints_def Let_def)
qed

text \<open>
  a decision the runtime does not know runs the body.  When the gateway answers the policy question
  with any decision other than \<open>block\<close> and \<open>require_approval\<close>, \<open>deny\<close> and a missing one included,
  the policy gate lets the body run.
\<close>

theorem unlisted_decision_runs_body:
  assumes "prints c" "\<And>a v. fst (xe_call (pr_execute P) a v) = Inr (JObj d)"
    and "jget d ''decision'' \<noteq> JStr ''block''" "jget d ''decision'' \<noteq> JStr ''require_approval''"
    and "get_or d ''decision_source'' (JStr []) = JStr src_gateway"
  shows "fst (run_tool_policy_gate P c s w) = None"
  using assms by (rule unlisted_gate)

text \<open>
  With a via-edge box the policy question is never put to anyone: the transport answers it with an allow, for
  any tool, arguments, impact and digest, and the policy gate lets the body run.
\<close>

lemma edge_skips_policy:
  assumes "prints c" "\<And>a v. xe_call (pr_execute P) a v = (Inr (edge_execute b a), v)"
    and "last_source b \<in> {None, Some edge_lease}"
  shows "fst (run_tool_policy_gate P c s w) = None"
proof -
  let ?Q = "\<lambda>d. jget d ''decision'' = JStr ''allow'' \<and> get_or d ''decision_source'' (JStr []) = JStr edge_lease"
  have "\<exists>d. ?Q d \<and> fst (runtime_execute (pr_execute P) (pr_cfg P) (policy_call P c s) (ps_runtime s) w) = Inr (JObj d)"
    by (rule answers_handed_over)
      (use assms(3) in \<open>auto simp: assms(2) edge_execute_def jget_def get_or_def edge_lease_def policy_call_def\<close>)
  moreover have "\<not> is_fallback_decision_source (JStr edge_lease)" by code_simp
  ultimately show ?thesis
    using assms(1)
    by (auto simp: run_tool_policy_gate_def policy_verdict_def prints_def Let_def split: prod.splits)
qed

text \<open>A call inside another protected call asks with the outer call's tool list.\<close>

lemma nested_call_reports_outer_tools:
  assumes "protect_enter P c s w = (None, s1, w1)" "ps_tools s \<noteq> []"
  shows "call_tools (policy_call P c s1) = map JStr (ps_tools s)"
    and "cx_tools (gate_context P s1) = map JStr (ps_tools s)"
  using enter_state(3) [OF assms(1)] assms(2)
  by (simp_all add: call_tools_def policy_call_def gate_context_def entry_tools_def)

section \<open>Concrete calls\<close>

definition partial_call :: protected_call where
  "partial_call =
     \<lparr>pc_named = False, pc_name = [], pc_params = None, pc_args = [], pc_kwargs = [], pc_args_fail = None,
      pc_kwargs_fail = None\<rparr>"

text \<open>A decorated \<open>functools.partial\<close> always raises, with its span left behind.\<close>

lemma partial_call_always_fails:
  "\<exists>sp s' w'. protect_call P sync partial_call s w = (Inl (Raising ''AttributeError''), s', w') \<and> ps_current s' = Some sp"
  using failed_entry_leaks_context [of partial_call "ShowRaises ''AttributeError''" P sync s w]
  by (auto simp: build_call_impact_def partial_call_def repr_raises_def)

definition pay_impact :: impact where
  "pay_impact =
     ToolCallParams ''pay'' [(''args'', JList [JStr ''5'']), (''kwargs'', JObj [])] extractor_id extractor_version"

definition calm_env :: "(execute_args \<Rightarrow> nat \<Rightarrow> (gate_exn + json) \<times> nat) \<Rightarrow> json \<Rightarrow> nat protect_env" where
  "calm_env call v =
     \<lparr>pr_plane = \<lparr>pe_status = (\<lambda>k n. (Inl ''ConnectError'', n))\<rparr>,
      pr_execute = \<lparr>xe_gate = runtime_with (\<lambda>d n. (Inr (JObj allow_body), n)), xe_call = call\<rparr>,
      pr_cfg = sample_cfg, pr_context = sample_ctx JNull, pr_sha256 = (\<lambda>b. b), pr_float_repr = (\<lambda>r. []),
      pr_emit = (\<lambda>s n. (s, n)), pr_deferred = (\<lambda>n. (None, n)), pr_body = (\<lambda>s n. (Inr v, s, n)),
      pr_track = (\<lambda>s n. (None, s, n)), pr_cancel = (\<lambda>e n. n + 1000)\<rparr>"

definition pay_call :: protected_call where
  "pay_call =
     \<lparr>pc_named = True, pc_name = ''pay'', pc_params = Some [''amount''], pc_args = [''5''], pc_kwargs = [],
      pc_args_fail = None, pc_kwargs_fail = None\<rparr>"

lemma lower_amount: "lower ''amount'' = ''amount''"
  by code_simp

lemma pay_call_built: "prints pay_call" "build_call_impact pay_call = Inr pay_impact"
  by (simp_all add: prints_def pay_call_def pay_impact_def build_call_impact_def masked_arguments_def safe_args_def
      safe_kwargs_def masked_def safe_repr_def no_needle details_needle_def max_preview_def tool_call_def validate_def
      max_tool_name_bytes_def max_param_name_bytes_def printable_def lower_amount sensitive_arg_keys_def Let_def)

definition idle_context :: "plane \<Rightarrow> json \<Rightarrow> protect_state" where
  "idle_context p minted =
     \<lparr>ps_plane = p, ps_runtime = fresh_state\<lparr>rs_minted := minted\<rparr>, ps_tools = [], ps_impact = None,
      ps_trace = [], ps_span_id = [], ps_current = None, ps_protected = 0\<rparr>"

definition free_plane :: plane where "free_plane = \<lparr>p_states = [], p_bound = ''w''\<rparr>"

lemma calm_fields [simp]:
  "pr_plane (calm_env call v) = \<lparr>pe_status = (\<lambda>k n. (Inl ''ConnectError'', n))\<rparr>"
  "pr_execute (calm_env call v) = \<lparr>xe_gate = runtime_with (\<lambda>d n. (Inr (JObj allow_body), n)), xe_call = call\<rparr>"
  "pr_cfg (calm_env call v) = sample_cfg" "pr_context (calm_env call v) = sample_ctx JNull"
  "pr_emit (calm_env call v) = (\<lambda>s n. (s, n))" "pr_deferred (calm_env call v) = (\<lambda>n. (None, n))"
  "pr_body (calm_env call v) = (\<lambda>s n. (Inr v, s, n))" "pr_track (calm_env call v) = (\<lambda>s n. (None, s, n))"
  "pr_cancel (calm_env call v) = (\<lambda>e n. n + 1000)"
  by (simp_all add: calm_env_def)

lemma calm_quiet: "quiet_emit (calm_env call v)"
  by (simp add: quiet_emit_def same_context_def)

lemma calm_closed: "\<not> sensitive_fail_open_enabled (runtime_with check) sample_cfg"
  by (simp add: sensitive_fail_open_enabled_def)

lemma calm_plane:
  "fst (check_control_plane \<lparr>pe_status = (\<lambda>k n. (Inl ''ConnectError'', n))\<rparr> (cx_workflow (sample_ctx JNull)) free_plane n)
   = Proceed"
  by (simp add: check_control_plane_def resolve_workflow_id_def free_plane_def sample_ctx_def remote_state_for_def
      fetch_remote_state_def apply_status_def state_verdict_def get_or_def lower_def lower_char_def char_of_def
      bit_iff_odd Let_def split: prod.splits)

lemma calm_budget:
  "\<exists>v. fst (check_workflow_budget (runtime_with (\<lambda>d n. (Inr (JObj allow_body), n))) sample_cfg
     (gate_context (calm_env call b) s) rs n) = Inr v"
proof -
  let ?E = "runtime_with (\<lambda>d n. (Inr (JObj allow_body), n))" and ?cx = "gate_context (calm_env call b) s"
  have "budget_workflow sample_cfg ?cx = ''w''" "\<not> cache_enabled ?E ?cx"
    by (simp_all add: gate_context_def budget_workflow_def cache_enabled_def sample_ctx_def sample_cfg_def)
  then show ?thesis
    using allow_body_read
    by (auto simp: check_workflow_budget_def ask_gate_def runtime_with_draws act_on_answer_def Let_def
          allow_body_def is_fallback_decision_source_def src_gateway_def src_fallback_def split: prod.splits)
qed

text \<open>A calm environment in which every policy question gets the answer \<open>d\<close> of the gateway.\<close>

lemma calm_gates:
  assumes "prints c" "\<And>a n. fst (call a n) = Inr (JObj d)" "jget d ''decision'' \<noteq> JStr ''block''"
    and "jget d ''decision'' \<noteq> JStr ''require_approval''"
    and "get_or d ''decision_source'' (JStr []) = JStr src_gateway" "ps_plane s = free_plane"
  shows "fst (protect_gates (calm_env call v) c s n) = None"
proof -
  let ?P = "calm_env call v"
  obtain p w1 where cp: "check_control_plane (pr_plane ?P) (cx_workflow (pr_context ?P)) (ps_plane s) n = (Proceed, p, w1)"
    using calm_plane [of n] assms(6) by (metis calm_fields(1,4) prod.collapse)
  let ?s1 = "s\<lparr>ps_plane := p, ps_protected := Suc (ps_protected s)\<rparr>"
  obtain b rs w2 where bg: "check_workflow_budget (xe_gate (pr_execute ?P)) (pr_cfg ?P) (gate_context ?P ?s1)
      (ps_runtime ?s1) w1 = (Inr b, rs, w2)"
    using calm_budget [of call v ?s1 "ps_runtime ?s1" w1] by (metis calm_fields(2,3) execute_env.select_convs(1) prod.collapse)
  obtain s3 w4 where pg: "run_tool_policy_gate ?P c (?s1\<lparr>ps_runtime := rs\<rparr>) w2 = (None, s3, w4)"
    using unlisted_gate [of c ?P d "?s1\<lparr>ps_runtime := rs\<rparr>" w2] assms(1-5) by (metis calm_fields(2) execute_env.select_convs(2) prod.collapse)
  show ?thesis
    using cp bg pg by (simp add: protect_gates_def Let_def)
qed


lemma calm_call:
  assumes "prints c" "build_call_impact c = Inr i" "\<And>a n. fst (call a n) = Inr (JObj d)" "jget d ''decision'' \<noteq> JStr ''block''"
    and "jget d ''decision'' \<noteq> JStr ''require_approval''"
    and "get_or d ''decision_source'' (JStr []) = JStr src_gateway"
  shows "\<exists>s1 n1 s2 n2. protect_enter (calm_env call v) c (idle_context free_plane m) n = (None, s1, n1)
    \<and> protect_gates (calm_env call v) c s1 n1 = (None, s2, n2)
    \<and> fst (protect_call (calm_env call v) sync c (idle_context free_plane m) n) = Inr v"
proof -
  let ?s = "idle_context free_plane m"
  obtain s1 n1 where enter: "protect_enter (calm_env call v) c ?s n = (None, s1, n1)"
    using entry_succeeds [of "calm_env call v" c ?s n] assms(2) by (metis prod.collapse)
  have "ps_plane s1 = free_plane" using enter_state(1) [OF enter] by (simp add: idle_context_def)
  from calm_gates [of c call d s1 v n1, OF assms(1,3-6) this]
  obtain s2 n2 where gates: "protect_gates (calm_env call v) c s1 n1 = (None, s2, n2)"
    by (metis prod.collapse)
  with enter show ?thesis
    by (auto simp: protect_call_def protected_body_def protect_exit_def)
qed

definition allowed_body :: dict where
  "allowed_body = dict_set ''decision_source'' (JStr src_gateway) [(''decision'', JStr ''allow'')]"

lemma allowed_body_read:
  "jget allowed_body ''decision'' \<noteq> JStr ''block''" "jget allowed_body ''decision'' \<noteq> JStr ''require_approval''"
  "get_or allowed_body ''decision_source'' (JStr []) = JStr src_gateway"
  by (simp_all add: allowed_body_def jget_def get_or_def)

definition allowing_transport :: "execute_args \<Rightarrow> nat \<Rightarrow> (gate_exn + json) \<times> nat" where
  "allowing_transport a v = execute_gate (always allowing) (Policy ''raise'') ''strict'' a v"

lemma always_retries [simp]: "g_execute_retries (always r) = 10"
  by (simp add: always_def)

lemma allowing_transport: "fst (allowing_transport a n) = Inr (JObj allowed_body)"
  using gate_first_answer [of "always allowing" "''/api/v1/execute''" _ _ allowing, OF allowing_answers(1)]
  by (auto simp: allowing_transport_def execute_gate_def execute_cfg_def allowing_answers execute_accepted_def
      allowed_body_def split: prod.splits)

lemmas allowed_calm = calm_call [OF pay_call_built, of allowing_transport allowed_body, OF allowing_transport allowed_body_read]

lemma protected_body_needs_every_gate_witness:
  "\<exists>t a d. ps_tools t = [''pay''] \<and> gateway_answer (always allowing) a d
     \<and> asked_for sample_cfg (policy_call (calm_env allowing_transport (JInt 1)) pay_call t) a"
proof -
  let ?P = "\<lambda>v. calm_env allowing_transport v" and ?s = "idle_context free_plane JNull"
  have "fst (protect_call (?P (JInt 1)) True pay_call ?s 0) = Inr (JInt 1)"
      "fst (protect_call (?P (JInt 2)) True pay_call ?s 0) = Inr (JInt 2)"
    using allowed_calm by blast+
  moreover have "(?P (JInt 1))\<lparr>pr_body := \<lambda>s n. (Inr (JInt 2), s, n)\<rparr> = ?P (JInt 2)"
    by (simp add: calm_env_def)
  ultimately have "\<not> (\<forall>b. protect_call ((?P (JInt 1))\<lparr>pr_body := b\<rparr>) True pay_call ?s 0
      = protect_call (?P (JInt 1)) True pay_call ?s 0)"
    by (metis json.inject(2) one_eq_numeral_iff semiring_norm(85) sum.inject(2))
  moreover have "entry_tools pay_call ?s = [''pay'']"
    by (simp add: entry_tools_def idle_context_def pay_call_def)
  moreover have "xe_call (pr_execute (?P (JInt 1))) a v
      = execute_gate (always allowing) (Policy ''raise'') ''strict'' a v" for a v
    by (simp add: allowing_transport_def)
  ultimately show ?thesis
    using protected_body_needs_every_gate [of "?P (JInt 1)" "always allowing" "''strict''" True pay_call ?s 0]
      calm_quiet calm_closed by (metis calm_fields(2,3) execute_env.select_convs(1))
qed

lemma protected_call_restores_context_witness:
  "ps_impact (fst (snd (protect_call (calm_env allowing_transport JNull) False pay_call
      (idle_context free_plane JNull) 0))) = None"
proof -
  obtain res s' w' where run: "protect_call (calm_env allowing_transport JNull) False pay_call
      (idle_context free_plane JNull) 0 = (res, s', w')" by (metis surj_pair)
  from protected_call_restores_context [OF pay_call_built(2) calm_quiet run] run show ?thesis
    by (simp add: idle_context_def)
qed

lemma finished_call_not_cancelled_witness:
  "protect_call ((calm_env allowing_transport JNull)\<lparr>pr_cancel := \<lambda>e n. 0\<rparr>) True pay_call
      (idle_context free_plane (JStr ''r0'')) 0
   = protect_call (calm_env allowing_transport JNull) True pay_call (idle_context free_plane (JStr ''r0'')) 0"
proof -
  obtain s1 n1 s2 n2 where
    "protect_enter (calm_env allowing_transport JNull) pay_call (idle_context free_plane (JStr ''r0'')) 0 = (None, s1, n1)"
    "protect_gates (calm_env allowing_transport JNull) pay_call s1 n1 = (None, s2, n2)"
    using allowed_calm by blast
  then show ?thesis by (rule finished_call_not_cancelled) simp
qed

definition killed_plane :: plane where
  "killed_plane = \<lparr>p_states = [(JStr ''w'', [(''state'', JStr ''Killed'')])], p_bound = ''w''\<rparr>"

lemma killed_plane_verdict:
  "check_control_plane E (cx_workflow (sample_ctx JNull)) killed_plane n
   = (KilledExn (JStr ''w'') (JStr ''remote kill''), killed_plane, n)"
  by (simp add: check_control_plane_def resolve_workflow_id_def killed_plane_def sample_ctx_def remote_state_for_def
      state_verdict_def get_or_def lower_def lower_char_def char_of_def bit_iff_odd Let_def)

lemma stopped_call_cancels_earlier_execution_witness:
  "\<exists>n. snd (snd (protect_call (calm_env allowing_transport JNull) True pay_call
      (idle_context killed_plane (JStr ''r0'')) 0)) = n + 1000"
proof -
  let ?P = "calm_env allowing_transport JNull" and ?s = "idle_context killed_plane (JStr ''r0'')"
  obtain s1 n1 where enter: "protect_enter ?P pay_call ?s 0 = (None, s1, n1)"
    using entry_succeeds [of ?P pay_call ?s 0] pay_call_built(2) by (metis prod.collapse)
  have "check_control_plane (pr_plane ?P) (cx_workflow (pr_context ?P)) (ps_plane ?s) n1
      = (KilledExn (JStr ''w'') (JStr ''remote kill''), killed_plane, n1)"
    by (simp add: killed_plane_verdict idle_context_def)
  from stopped_call_cancels_earlier_execution [OF enter this, of "''r0''"] show ?thesis
    by (auto simp: idle_context_def)
qed

definition denied_body :: dict where
  "denied_body = [(''decision'', JStr ''deny''), (''decision_source'', JStr src_gateway)]"

lemma unlisted_decision_runs_body_witness:
  "fst (run_tool_policy_gate (calm_env (\<lambda>a n. (Inr (JObj denied_body), n)) JNull) pay_call
      (idle_context free_plane JNull) 0) = None"
  by (rule unlisted_decision_runs_body [where d = denied_body]) (simp_all add: denied_body_def pay_call_built)

end
