(* ===== verification/Uuid.thy ===== *)
theory Uuid
  imports Business_Impact "HOL-Library.Word"
begin

text \<open>
  Identifiers: Python's reading and printing of UUIDs as far as \<open>src/nullrun/context.py\<close> uses it to
  validate a chain id, and the time-ordered ids of \<open>src/nullrun/uuid7.py\<close>.  A UUID is its integer, below
  \<open>2 ^ 128\<close>; texts are ASCII.
\<close>

section \<open>UUID texts\<close>

text \<open>\<open>str.replace(old, "")\<close>, from left to right without overlaps.\<close>

function remove_all :: "string \<Rightarrow> string \<Rightarrow> string" where
  "remove_all pat [] = []"
| "remove_all pat (c # cs) =
     (if pat \<noteq> [] \<and> take (length pat) (c # cs) = pat then remove_all pat (drop (length pat) (c # cs))
      else c # remove_all pat cs)"
  by pat_completeness auto
termination
  by (relation "measure (\<lambda>(pat, s). length s)") (auto simp: neq_Nil_conv)

definition strip_chars :: "(char \<Rightarrow> bool) \<Rightarrow> string \<Rightarrow> string" where
  "strip_chars P s = rev (dropWhile P (rev (dropWhile P s)))"

definition hex_value :: "char \<Rightarrow> nat option" where
  "hex_value c =
     (let n = (of_char c :: nat) in
      if 48 \<le> n \<and> n \<le> 57 then Some (n - 48)
      else if 97 \<le> n \<and> n \<le> 102 then Some (n - 87)
      else if 65 \<le> n \<and> n \<le> 70 then Some (n - 55)
      else None)"

text \<open>
  \<open>int(s, 16)\<close>: blanks around, a sign, a \<open>0x\<close> prefix that one underscore may follow, single
  underscores between digits.  The second argument of the digit loop tells that a digit came last.
\<close>

fun hex_digits :: "nat \<Rightarrow> bool \<Rightarrow> string \<Rightarrow> nat option" where
  "hex_digits acc ok [] = (if ok then Some acc else None)"
| "hex_digits acc ok (c # cs) =
     (if c = CHR ''_'' then (if ok then hex_digits acc False cs else None)
      else (case hex_value c of None \<Rightarrow> None | Some v \<Rightarrow> hex_digits (16 * acc + v) True cs))"

definition int_blank :: "char \<Rightarrow> bool" where
  "int_blank c \<longleftrightarrow> (of_char c :: nat) \<in> {9, 10, 11, 12, 13, 32}"

definition after_prefix :: "string \<Rightarrow> string" where
  "after_prefix s =
     (if take 2 s = ''0x'' \<or> take 2 s = ''0X''
      then (if take 1 (drop 2 s) = ''_'' then drop 3 s else drop 2 s)
      else s)"

definition parse_hex :: "string \<Rightarrow> int option" where
  "parse_hex s =
     (let t = strip_chars int_blank s in
      if take 1 t = ''-'' then map_option (\<lambda>n. - int n) (hex_digits 0 False (after_prefix (drop 1 t)))
      else map_option int (hex_digits 0 False (after_prefix (if take 1 t = ''+'' then drop 1 t else t))))"

text \<open>\<open>uuid.UUID(text)\<close>; \<open>None\<close> is its \<open>ValueError\<close>.\<close>

definition parse_uuid :: "string \<Rightarrow> nat option" where
  "parse_uuid s =
     (let h = remove_all ''-''
                (strip_chars (\<lambda>c. c = CHR ''{'' \<or> c = CHR ''}'') (remove_all ''uuid:'' (remove_all ''urn:'' s))) in
      if length h \<noteq> 32 then None
      else (case parse_hex h of
              None \<Rightarrow> None
            | Some i \<Rightarrow> if 0 \<le> i \<and> i < 2 ^ 128 then Some (nat i) else None))"

text \<open>\<open>str(u)\<close>: \<open>'%032x' % u.int\<close> in its five groups.\<close>

primrec hex_text :: "nat \<Rightarrow> nat \<Rightarrow> string" where
  "hex_text 0 x = []"
| "hex_text (Suc n) x = hex_text n (x div 16) @ [hex_char (x mod 16)]"

definition uuid_text :: "nat \<Rightarrow> string" where
  "uuid_text u =
     (let h = hex_text 32 u in
      take 8 h @ ''-'' @ take 4 (drop 8 h) @ ''-'' @ take 4 (drop 12 h) @ ''-'' @ take 4 (drop 16 h)
        @ ''-'' @ drop 20 h)"

text \<open>The \<open>version\<close> property: \<open>None\<close> unless the two variant bits are \<open>10\<close>.\<close>

definition uuid_version :: "nat \<Rightarrow> nat option" where
  "uuid_version u =
     (if bit u 63 \<and> \<not> bit u 62 then Some (take_bit 4 (drop_bit 76 u)) else None)"

definition validate_chain_id :: "string \<Rightarrow> string + unit" where
  "validate_chain_id s =
     (case parse_uuid s of
        None \<Rightarrow> Inl ''ValueError''
      | Some u \<Rightarrow> if uuid_version u \<noteq> Some 4 then Inl ''ValueError'' else Inr ())"

section \<open>Time-ordered ids\<close>

text \<open>
  \<open>uuid7()\<close> for the time \<open>ts\<close> in milliseconds and ten random bytes, first byte first.  A time of more than
  six bytes is the \<open>OverflowError\<close> of \<open>to_bytes\<close>.
\<close>

definition from_bytes :: "8 word list \<Rightarrow> nat" where
  "from_bytes bs = foldl (\<lambda>a b. 256 * a + unat b) 0 bs"

definition time_bytes :: "nat \<Rightarrow> 8 word list" where
  "time_bytes ts = map (\<lambda>i. word_of_nat (ts div 256 ^ (5 - i))) [0..<6]"

definition stamp_version :: "8 word \<Rightarrow> 8 word" where
  "stamp_version b = or (and b 0x0F) (push_bit 4 0x7)"

definition stamp_variant :: "8 word \<Rightarrow> 8 word" where
  "stamp_variant b = or (and b 0x3F) (push_bit 6 0b10)"

definition uuid7 :: "nat \<Rightarrow> 8 word list \<Rightarrow> string + nat" where
  "uuid7 ts rand =
     (if ts \<ge> 2 ^ 48 then Inl ''OverflowError''
      else
        (let raw = time_bytes ts @ rand;
             raw1 = raw[6 := stamp_version (raw ! 6)];
             raw2 = raw1[8 := stamp_variant (raw1 ! 8)] in
         Inr (from_bytes raw2)))"

definition uuid7_str :: "nat \<Rightarrow> 8 word list \<Rightarrow> string + string" where
  "uuid7_str ts rand = (case uuid7 ts rand of Inl x \<Rightarrow> Inl x | Inr u \<Rightarrow> Inr (uuid_text u))"

section \<open>Laws of the texts\<close>

lemma remove_all_absent: "hd pat \<notin> set s \<Longrightarrow> remove_all pat s = s"
  by (induction pat s rule: remove_all.induct) (auto simp: neq_Nil_conv Cons_eq_append_conv split: if_splits)

lemma remove_all_filter: "remove_all [x] s = filter (\<lambda>c. c \<noteq> x) s"
  by (induction "[x]" s rule: remove_all.induct) auto

lemma dropWhile_none: "\<forall>c \<in> set s. \<not> P c \<Longrightarrow> dropWhile P s = s"
  by (cases s) auto

lemma strip_chars_same: "\<forall>c \<in> set s. \<not> P c \<Longrightarrow> strip_chars P s = s"
  by (simp add: strip_chars_def dropWhile_none)

lemma hex_value_char: "n < 16 \<Longrightarrow> hex_value (hex_char n) = Some n"
  by (auto simp: hex_char_def hex_value_def)

lemma length_hex_text [simp]: "length (hex_text n x) = n"
  by (induction n arbitrary: x) simp_all

definition is_hex :: "char \<Rightarrow> bool" where
  "is_hex c \<longleftrightarrow> (\<exists>n < 16. c = hex_char n)"

lemma is_hex_char [simp]: "n < 16 \<Longrightarrow> is_hex (hex_char n)"
  by (auto simp: is_hex_def)

lemma hex_text_chars: "\<forall>c \<in> set (hex_text n x). is_hex c"
  by (induction n arbitrary: x) simp_all

lemma of_hex_char: "n < 16 \<Longrightarrow> of_char (hex_char n) = (if n < 10 then 48 + n else 87 + n)"
  by (simp add: hex_char_def)

lemma is_hex_code: "is_hex c \<Longrightarrow> (of_char c :: nat) \<in> {48..57} \<union> {97..102}"
  by (auto simp: is_hex_def of_hex_char split: if_splits)

lemma is_hex_not:
  assumes "is_hex c"
  shows "c \<noteq> CHR ''_''" "c \<noteq> CHR ''-''" "c \<noteq> CHR ''u''" "c \<noteq> CHR ''x''" "c \<noteq> CHR ''X''" "c \<noteq> CHR ''+''"
    "c \<noteq> CHR ''{''" "c \<noteq> CHR ''}''" "\<not> int_blank c"
  using is_hex_code [OF assms] by (auto simp: int_blank_def)

lemma hex_digits_append:
  assumes "\<forall>c \<in> set s. is_hex c" "s \<noteq> []"
  shows "hex_digits a ok (s @ t) = hex_digits (the (hex_digits a ok s)) True t
         \<and> hex_digits a ok s \<noteq> None"
  using assms
proof (induction s arbitrary: a ok)
  case (Cons c s)
  from Cons.prems obtain n where n: "n < 16" "c = hex_char n"
    by (auto simp: is_hex_def)
  then have "hex_value c = Some n" "c \<noteq> CHR ''_''"
    using is_hex_not(1) [of c] by (simp_all add: hex_value_char)
  with Cons show ?case
    by (cases "s = []") auto
qed simp

lemma hex_digits_one: "hex_digits b ok [hex_char (x mod 16)] = Some (16 * b + x mod 16)"
  using is_hex_not(1) [of "hex_char (x mod 16)"] by (simp add: hex_value_char)

lemma hex_digits_text: "0 < n \<Longrightarrow> hex_digits a ok (hex_text n x) = Some (16 ^ n * a + x mod 16 ^ n)"
proof (induction n arbitrary: x)
  case (Suc n)
  show ?case
  proof (cases "n = 0")
    case True
    then show ?thesis by (simp add: hex_digits_one del: hex_digits.simps)
  next
    case False
    then have "hex_text n (x div 16) \<noteq> []"
      by (metis length_hex_text list.size(3))
    with hex_digits_append [OF hex_text_chars this, of a ok "[hex_char (x mod 16)]"] Suc.IH [of "x div 16"] False
    show ?thesis
      by (simp add: hex_digits_one algebra_simps mod_mult2_eq del: hex_digits.simps)
  qed
qed simp

text \<open>The five groups of a UUID text, read back.\<close>

lemma five_groups:
  "take 8 h @ take 4 (drop 8 h) @ take 4 (drop 12 h) @ take 4 (drop 16 h) @ drop 20 h = h"
proof -
  have step: "take m (drop n h) @ drop (m + n) h = drop n h" for m n
    by (metis append_take_drop_id drop_drop)
  show ?thesis
    using step [of 4 8] step [of 4 12] step [of 4 16] append_take_drop_id [of 8 h] by simp
qed

lemma uuid_text_round:
  assumes u: "u < 2 ^ 128"
  shows "parse_uuid (uuid_text u) = Some u"
proof -
  let ?h = "hex_text 32 u"
  have hex: "is_hex c" if "c \<in> set ?h" for c
    using that hex_text_chars by blast
  have in_text: "c \<in> set ?h \<or> c = CHR ''-''" if "c \<in> set (uuid_text u)" for c
    using that by (auto simp: uuid_text_def Let_def dest: in_set_takeD in_set_dropD)
  have no_u: "CHR ''u'' \<notin> set (uuid_text u)"
    using in_text hex is_hex_not(3) by fastforce
  have strip: "strip_chars (\<lambda>c. c = CHR ''{'' \<or> c = CHR ''}'') (uuid_text u) = uuid_text u"
    using in_text hex is_hex_not(7,8) by (intro strip_chars_same) fastforce
  have keep: "filter (\<lambda>c. c \<noteq> CHR ''-'') t = t" if "set t \<subseteq> set ?h" for t
    using that hex is_hex_not(2) by (intro filter_True) blast
  have sub: "set (take m ?h) \<subseteq> set ?h" "set (take m (drop n ?h)) \<subseteq> set ?h" "set (drop n ?h) \<subseteq> set ?h" for m n
    by (auto dest: in_set_takeD in_set_dropD)
  have dashes: "remove_all ''-'' (uuid_text u) = ?h"
    unfolding uuid_text_def Let_def remove_all_filter
    by (simp add: keep [OF sub(1)] keep [OF sub(2)] keep [OF sub(3)] five_groups)
  have read: "hex_digits 0 False ?h = Some u"
    using hex_digits_text [of 32 0 False u] u by simp
  have blanks: "strip_chars int_blank ?h = ?h"
    using hex is_hex_not(9) by (intro strip_chars_same) blast
  have absent: "take n ?h \<noteq> w" if "c \<in> set w" "\<not> is_hex c" for n c w
    using that hex in_set_takeD by metis
  have sign: "take 1 ?h \<noteq> ''-''" "take 1 ?h \<noteq> ''+''"
    using is_hex_not(2) [of "CHR ''-''"] is_hex_not(6) [of "CHR ''+''"]
      absent [of "CHR ''-''" "''-''" 1] absent [of "CHR ''+''" "''+''" 1] by auto
  have "take 2 ?h \<noteq> ''0x''" "take 2 ?h \<noteq> ''0X''"
    using is_hex_not(4) [of "CHR ''x''"] is_hex_not(5) [of "CHR ''X''"]
      absent [of "CHR ''x''" "''0x''" 2] absent [of "CHR ''X''" "''0X''" 2] by auto
  then have "after_prefix ?h = ?h"
    by (simp add: after_prefix_def)
  with sign read blanks have "parse_hex ?h = Some (int u)"
    by (simp add: parse_hex_def)
  then show ?thesis
    using u by (simp add: parse_uuid_def remove_all_absent no_u strip dashes)
qed

section \<open>Laws of the time-ordered ids\<close>

lemma from_bytes_snoc [simp]: "from_bytes (bs @ [b]) = 256 * from_bytes bs + unat b"
  by (simp add: from_bytes_def)

lemma from_bytes_Nil [simp]: "from_bytes [] = 0"
  by (simp add: from_bytes_def)

lemma from_bytes_append: "from_bytes (as @ bs) = from_bytes as * 256 ^ length bs + from_bytes bs"
proof (induction bs rule: rev_induct)
  case (snoc b bs)
  then show ?case
    using from_bytes_snoc [of "as @ bs" b] by (simp add: algebra_simps)
qed simp

lemma from_bytes_Cons: "from_bytes (b # bs) = unat b * 256 ^ length bs + from_bytes bs"
  using from_bytes_append [of "[b]" bs] from_bytes_snoc [of "[]" b] by simp

lemma from_bytes_less: "from_bytes bs < 256 ^ length bs"
proof (induction bs rule: rev_induct)
  case (snoc b bs)
  have "unat b < 256"
    by (rule order_less_le_trans [OF unsigned_less]) simp
  with snoc show ?case by simp
qed simp

lemma big_endian:
  "from_bytes (map (\<lambda>i. word_of_nat (x div 256 ^ (n - Suc i))) [0..<n]) = x mod 256 ^ n"
proof (induction n arbitrary: x)
  case (Suc n)
  have div_step: "x div 256 ^ (n - i) = x div 256 div 256 ^ (n - Suc i)" if "i < n" for i
  proof -
    from that have "n - i = Suc (n - Suc i)" by simp
    then show ?thesis by (simp add: div_mult2_eq)
  qed
  have digits: "map (\<lambda>i. word_of_nat (x div 256 ^ (Suc n - Suc i))) [0..<Suc n]
      = map (\<lambda>i. word_of_nat (x div 256 div 256 ^ (n - Suc i))) [0..<n] @ [word_of_nat x :: 8 word]"
    by (auto simp: div_step intro!: map_cong)
  show ?case
    unfolding digits from_bytes_snoc Suc.IH by (simp add: unat_of_nat take_bit_eq_mod mod_mult2_eq)
qed simp

lemma time_bytes_value: "ts < 2 ^ 48 \<Longrightarrow> from_bytes (time_bytes ts) = ts"
proof -
  assume ts: "ts < 2 ^ 48"
  have "time_bytes ts = map (\<lambda>i. word_of_nat (ts div 256 ^ (6 - Suc i))) [0..<6]"
    by (simp add: time_bytes_def)
  with ts show ?thesis
    using big_endian [of ts 6] by (simp del: upt_rec_numeral)
qed

lemma or_low_high: "or (take_bit n b) (push_bit n c) = take_bit n b + push_bit n (c :: 8 word)"
  by (rule disjunctive_add [symmetric]) (auto simp: bit_take_bit_iff bit_push_bit_iff)

lemma stamp_version_value: "unat (stamp_version b) = 112 + unat b mod 16"
proof -
  have low: "and b 0x0F = take_bit 4 b"
    by (simp add: take_bit_eq_mask mask_eq_exp_minus_1)
  have "or (take_bit 4 b) (push_bit 4 0x7) = take_bit 4 b + push_bit 4 (0x7 :: 8 word)"
    by (rule or_low_high)
  then have "stamp_version b = take_bit 4 b + 112"
    by (simp add: stamp_version_def low push_bit_eq_mult)
  moreover have "unat (take_bit 4 b) = unat b mod 16"
    by (rule trans [OF unsigned_take_bit_eq]) (simp add: take_bit_eq_mod)
  ultimately show ?thesis
    by (simp add: unat_word_ariths)
qed

lemma stamp_variant_value: "unat (stamp_variant b) = 128 + unat b mod 64"
proof -
  have low: "and b 0x3F = take_bit 6 b"
    by (simp add: take_bit_eq_mask mask_eq_exp_minus_1)
  have "or (take_bit 6 b) (push_bit 6 0b10) = take_bit 6 b + push_bit 6 (0b10 :: 8 word)"
    by (rule or_low_high)
  then have "stamp_variant b = take_bit 6 b + 128"
    by (simp add: stamp_variant_def low push_bit_eq_mult)
  moreover have "unat (take_bit 6 b) = unat b mod 64"
    by (rule trans [OF unsigned_take_bit_eq]) (simp add: take_bit_eq_mod)
  ultimately show ?thesis
    by (simp add: unat_word_ariths)
qed

lemma length_time_bytes [simp]: "length (time_bytes ts) = 6"
  by (simp add: time_bytes_def)

text \<open>The fields of a time-ordered id: time, version, variant, and what the random bytes leave.\<close>

lemma uuid7_fields:
  assumes "uuid7 ts rand = Inr u" "length rand = 10"
  obtains l r m rest where
    "u = ((ts * 16 + 7) * 16 + l) * 2 ^ 72 + r * 2 ^ 64 + (128 + m) * 2 ^ 56 + rest"
    "l < 16" "r < 256" "m < 64" "rest < 2 ^ 56" "ts < 2 ^ 48"
proof -
  from assms(1) have ts: "ts < 2 ^ 48"
    by (auto simp: uuid7_def split: if_splits)
  from assms(2) obtain r0 r1 r2 rs where rand: "rand = r0 # r1 # r2 # rs" "length rs = 7"
    by (auto simp: length_Suc_conv numeral_eq_Suc)
  have "from_bytes rs < 2 ^ 56"
    using from_bytes_less [of rs] rand by simp
  moreover have "unat r1 < 256"
    by (rule order_less_le_trans [OF unsigned_less]) simp
  moreover have "u = ((ts * 16 + 7) * 16 + unat r0 mod 16) * 2 ^ 72 + unat r1 * 2 ^ 64
      + (128 + unat r2 mod 64) * 2 ^ 56 + from_bytes rs"
    using assms(1) ts rand
    by (simp add: uuid7_def Let_def list_update_append nth_append from_bytes_append time_bytes_value
        from_bytes_Cons stamp_version_value stamp_variant_value algebra_simps)
  ultimately show ?thesis
    using ts by (intro that [of "unat r0 mod 16" "unat r1" "unat r2 mod 64" "from_bytes rs"]) simp_all
qed

lemma div_unique_sum: "r < b \<Longrightarrow> (q * b + r) div b = (q :: nat)"
  by simp

lemma uuid7_time:
  assumes "uuid7 ts rand = Inr u" "length rand = 10"
  shows "u div 2 ^ 80 = ts" "u < 2 ^ 128"
proof -
  obtain l r m rest where u: "u = ((ts * 16 + 7) * 16 + l) * 2 ^ 72 + r * 2 ^ 64 + (128 + m) * 2 ^ 56 + rest"
    and b: "l < 16" "r < 256" "m < 64" "rest < 2 ^ 56" "ts < 2 ^ 48"
    using uuid7_fields [OF assms] .
  let ?low = "(7 * 16 + l) * 2 ^ 72 + r * 2 ^ 64 + (128 + m) * 2 ^ 56 + rest"
  have "u = ts * 2 ^ 80 + ?low"
    by (simp add: u algebra_simps)
  moreover have "?low < 2 ^ 80"
    using b by simp
  ultimately show "u div 2 ^ 80 = ts" "u < 2 ^ 128"
    using b(5) div_unique_sum [of ?low "2 ^ 80" ts] by simp_all
qed

lemma uuid7_version:
  assumes "uuid7 ts rand = Inr u" "length rand = 10"
  shows "uuid_version u = Some 7"
proof -
  obtain l r m rest where u: "u = ((ts * 16 + 7) * 16 + l) * 2 ^ 72 + r * 2 ^ 64 + (128 + m) * 2 ^ 56 + rest"
    and b: "l < 16" "r < 256" "m < 64" "rest < 2 ^ 56" "ts < 2 ^ 48"
    using uuid7_fields [OF assms] .
  let ?top = "((ts * 16 + 7) * 16 + l) * 256 + r"
  have "u = (ts * 16 + 7) * 2 ^ 76 + (l * 2 ^ 72 + r * 2 ^ 64 + (128 + m) * 2 ^ 56 + rest)"
    by (simp add: u algebra_simps)
  then have version: "u div 2 ^ 76 = ts * 16 + 7"
    using b div_unique_sum [of "l * 2 ^ 72 + r * 2 ^ 64 + (128 + m) * 2 ^ 56 + rest" "2 ^ 76" "ts * 16 + 7"]
    by simp
  have "u = (?top * 2 + 1) * 2 ^ 63 + (m * 2 ^ 56 + rest)" "u = (?top * 4 + 2) * 2 ^ 62 + (m * 2 ^ 56 + rest)"
    by (simp_all add: u algebra_simps)
  then have variant: "u div 2 ^ 63 = ?top * 2 + 1" "u div 2 ^ 62 = ?top * 4 + 2"
    using b div_unique_sum [of "m * 2 ^ 56 + rest" "2 ^ 63" "?top * 2 + 1"]
      div_unique_sum [of "m * 2 ^ 56 + rest" "2 ^ 62" "?top * 4 + 2"] by simp_all
  have "bit u 63" "\<not> bit u 62"
    unfolding bit_iff_odd variant by simp_all
  moreover have "take_bit 4 (drop_bit 76 u) = 7"
    unfolding drop_bit_eq_div version by (simp add: take_bit_eq_mod)
  ultimately show ?thesis
    by (simp add: uuid_version_def)
qed

section \<open>What the ids promise\<close>

text \<open>
  the text of every UUID reads back as that UUID, and a chain id printed from a UUID is accepted
  exactly when it is of version 4 (and of the RFC variant).
\<close>

theorem uuid_text_roundtrip:
  assumes "u < 2 ^ 128"
  shows "parse_uuid (uuid_text u) = Some u
         \<and> (validate_chain_id (uuid_text u) = Inr () \<longleftrightarrow> uuid_version u = Some 4)"
  using uuid_text_round [OF assms] by (simp add: validate_chain_id_def)

lemma uuid_text_roundtrip_witness:
  "parse_uuid (uuid_text (4 * 2 ^ 76 + 2 ^ 63)) = Some (4 * 2 ^ 76 + 2 ^ 63)
   \<and> validate_chain_id (uuid_text (4 * 2 ^ 76 + 2 ^ 63)) = Inr ()"
proof -
  have "uuid_version (4 * 2 ^ 76 + 2 ^ 63) = Some 4"
    by (simp add: uuid_version_def bit_iff_odd drop_bit_eq_div take_bit_eq_mod)
  with uuid_text_roundtrip [of "4 * 2 ^ 76 + 2 ^ 63"] show ?thesis
    by simp
qed

text \<open>
  time-ordered ids.  The time of an id is its first 48 bits, so ids of different milliseconds sort by
  time whatever their random bytes; every id is of version 7, and its text is refused as a chain id.
\<close>

theorem time_ids_ordered:
  assumes "uuid7 ts rand = Inr u" "uuid7 ts' rand' = Inr u'" "length rand = 10" "length rand' = 10"
  shows "u div 2 ^ 80 = ts \<and> (ts < ts' \<longrightarrow> u < u') \<and> uuid_version u = Some 7
         \<and> validate_chain_id (uuid_text u) = Inl ''ValueError''"
proof -
  note t = uuid7_time [OF assms(1,3)] and t' = uuid7_time [OF assms(2,4)] and v = uuid7_version [OF assms(1,3)]
  have "u < u'" if "ts < ts'"
    using that div_le_mono [of u' u "2 ^ 80"] by (metis t(1) t'(1) linorder_not_less)
  then show ?thesis
    using t v uuid_text_round [OF t(2)] by (simp add: validate_chain_id_def)
qed

lemma time_ids_ordered_witness:
  "\<exists>u u'. uuid7 1 (replicate 10 255) = Inr u \<and> uuid7 2 (replicate 10 0) = Inr u' \<and> u < u'
          \<and> validate_chain_id (uuid_text u) = Inl ''ValueError''"
proof -
  obtain u u' where "uuid7 1 (replicate 10 255) = Inr u" "uuid7 2 (replicate 10 0) = Inr u'"
    by (simp add: uuid7_def Let_def)
  then show ?thesis
    using time_ids_ordered [of 1 "replicate 10 255" u 2 "replicate 10 0" u'] by auto
qed

text \<open>
  What the validation lets through beside the canonical text: Python reads braces, the URN prefix, a sign,
  a \<open>0x\<close> prefix and underscores, and the chain id is then forwarded as it was written.
\<close>

lemma padded_chain_id_accepted:
  "validate_chain_id ''{0x00000000004000800000000000000a}'' = Inr ()"
proof -
  have "parse_uuid ''{0x00000000004000800000000000000a}'' = Some (4 * 2 ^ 76 + 2 ^ 63 + 10)"
    by (simp add: parse_uuid_def parse_hex_def strip_chars_def after_prefix_def hex_value_def int_blank_def)
  moreover have "uuid_version (4 * 2 ^ 76 + 2 ^ 63 + 10) = Some 4"
    by (simp add: uuid_version_def bit_iff_odd drop_bit_eq_div take_bit_eq_mod)
  ultimately show ?thesis
    by (simp add: validate_chain_id_def)
qed

end
