(* ===== verification/Context.thy ===== *)
theory Context
  imports Protect Uuid
begin

text \<open>
  The context variables of \<open>src/nullrun/context.py\<close> and the managers that scope them.  A manager is its
  entry, the body of the \<open>with\<close> statement and its exit; the exit runs whether or not the body raised, and
  resetting a token puts back the value from before the entry.  The setters without a scope are the
  operations a body may run besides.
\<close>

section \<open>The variables\<close>

record ctx =
  v_workflow :: "string option"
  v_trace :: "string option"
  v_span :: "string option"
  v_agent :: "string option"
  v_attempt :: int
  v_model :: "string option"
  v_tools :: "string list"
  v_max_output :: "int option"
  v_mcp_class :: "string option"
  v_mcp_annotations :: "dict option"
  v_impact :: "impact option"
  v_chain :: "string option"
  v_chain_op :: string
  v_minted :: "string option"
  v_minted_at :: rat
  v_idempotency :: "string option"
  v_operation :: "string option"
  v_gate_digest :: "string option"
  v_policy_hash :: "string option"
  v_current :: "span_context option"

definition fresh_ctx :: ctx where
  "fresh_ctx =
     \<lparr>v_workflow = None, v_trace = None, v_span = None, v_agent = None, v_attempt = 0, v_model = None,
      v_tools = [], v_max_output = None, v_mcp_class = None, v_mcp_annotations = None, v_impact = None,
      v_chain = None, v_chain_op = ''auto'', v_minted = None, v_minted_at = 0, v_idempotency = None,
      v_operation = None, v_gate_digest = None, v_policy_hash = None, v_current = None\<rparr>"

section \<open>Setters\<close>

text \<open>\<open>set_call_context\<close>: an argument that is not given leaves its variable, and so does a bound below one.\<close>

definition set_call_context ::
  "string option \<Rightarrow> string list option \<Rightarrow> int option \<Rightarrow> ctx \<Rightarrow> ctx" where
  "set_call_context model tools max_output c =
     c\<lparr>v_model := (case model of None \<Rightarrow> v_model c | m \<Rightarrow> m),
       v_tools := (case tools of None \<Rightarrow> v_tools c | Some ts \<Rightarrow> ts),
       v_max_output := (case max_output of None \<Rightarrow> v_max_output c
                                          | Some n \<Rightarrow> if 0 < n then Some n else v_max_output c)\<rparr>"

definition set_mcp_tool_context :: "string option \<Rightarrow> dict option \<Rightarrow> ctx \<Rightarrow> ctx" where
  "set_mcp_tool_context tool_class annotations c =
     c\<lparr>v_mcp_class := (case tool_class of None \<Rightarrow> v_mcp_class c | t \<Rightarrow> t),
       v_mcp_annotations := (case annotations of None \<Rightarrow> v_mcp_annotations c | a \<Rightarrow> a)\<rparr>"

definition set_chain_id :: "string option \<Rightarrow> ctx \<Rightarrow> string + ctx" where
  "set_chain_id chain c =
     (case chain of
        None \<Rightarrow> Inr (c\<lparr>v_chain := None\<rparr>)
      | Some s \<Rightarrow> (case validate_chain_id s of Inl x \<Rightarrow> Inl x | Inr u \<Rightarrow> Inr (c\<lparr>v_chain := Some s\<rparr>)))"

definition clear_server_minted_execution_id :: "ctx \<Rightarrow> ctx" where
  "clear_server_minted_execution_id c =
     c\<lparr>v_minted := None, v_minted_at := 0, v_idempotency := None, v_gate_digest := None,
       v_policy_hash := None\<rparr>"

definition set_operation_id :: "string \<Rightarrow> ctx \<Rightarrow> ctx" where
  "set_operation_id op c = c\<lparr>v_operation := Some op\<rparr>"

definition set_call_impact :: "impact option \<Rightarrow> ctx \<Rightarrow> ctx" where
  "set_call_impact i c = c\<lparr>v_impact := i\<rparr>"

section \<open>Managers\<close>

datatype scope =
    Workflow "string option"
  | Span "string option"
  | Agent "string option"
  | Attempt int
  | Chain string string

text \<open>\<open>name or generate()\<close>.\<close>

definition name_or :: "('w \<Rightarrow> string \<times> 'w) \<Rightarrow> string option \<Rightarrow> 'w \<Rightarrow> string \<times> 'w" where
  "name_or uuid name w = (case name of Some n \<Rightarrow> if n = [] then uuid w else (n, w) | None \<Rightarrow> uuid w)"

definition set_workflow_root_span :: "string \<Rightarrow> string \<Rightarrow> ctx \<Rightarrow> ctx" where
  "set_workflow_root_span trace span_id c =
     c\<lparr>v_current := Some \<lparr>sp_trace_id = trace, sp_span_id = span_id, sp_parent = None, sp_depth = 0\<rparr>\<rparr>"

definition create_child_span_with_id :: "span_context \<Rightarrow> string \<Rightarrow> span_context" where
  "create_child_span_with_id p span_id =
     \<lparr>sp_trace_id = sp_trace_id p, sp_span_id = span_id, sp_parent = Some (sp_span_id p),
      sp_depth = Suc (sp_depth p)\<rparr>"

definition set_child_span_context :: "string \<Rightarrow> ctx \<Rightarrow> ctx" where
  "set_child_span_context span_id c =
     (case v_current c of
        None \<Rightarrow> c
      | Some p \<Rightarrow> c\<lparr>v_current := Some (create_child_span_with_id p span_id)\<rparr>)"

definition workflow_enter ::
  "('w \<Rightarrow> string \<times> 'w) \<Rightarrow> string option \<Rightarrow> ctx \<Rightarrow> 'w \<Rightarrow> ctx \<times> 'w" where
  "workflow_enter uuid name c w =
     (case name_or uuid name w of
        (wid, w1) \<Rightarrow>
          (case uuid w1 of
             (t, w2) \<Rightarrow>
               (case uuid w2 of
                  (s, w3) \<Rightarrow>
                    (set_workflow_root_span t s
                       (c\<lparr>v_workflow := Some wid, v_trace := Some t, v_span := Some s\<rparr>), w3))))"

definition workflow_exit :: "ctx \<Rightarrow> ctx \<Rightarrow> ctx" where
  "workflow_exit outer c =
     c\<lparr>v_workflow := v_workflow outer, v_trace := v_trace outer, v_span := v_span outer,
       v_current := v_current outer\<rparr>"

definition span_enter :: "('w \<Rightarrow> string \<times> 'w) \<Rightarrow> string option \<Rightarrow> ctx \<Rightarrow> 'w \<Rightarrow> ctx \<times> 'w" where
  "span_enter uuid name c w =
     (case name_or uuid name w of
        (s, w1) \<Rightarrow> (set_child_span_context s (c\<lparr>v_span := Some s\<rparr>), w1))"

text \<open>Without a current span on entry there is no span token to reset.\<close>

definition span_exit :: "ctx \<Rightarrow> ctx \<Rightarrow> ctx" where
  "span_exit outer c =
     c\<lparr>v_span := v_span outer,
       v_current := (if v_current outer = None then v_current c else v_current outer)\<rparr>"

definition chain_enter :: "string \<Rightarrow> string \<Rightarrow> ctx \<Rightarrow> string + ctx" where
  "chain_enter chain op c =
     (if op \<notin> {''start'', ''continue'', ''end'', ''auto''} then Inl ''ValueError''
      else (case validate_chain_id chain of
              Inl x \<Rightarrow> Inl x
            | Inr u \<Rightarrow> Inr (c\<lparr>v_chain := Some chain, v_chain_op := op\<rparr>)))"

definition chain_exit :: "ctx \<Rightarrow> ctx \<Rightarrow> ctx" where
  "chain_exit outer c = c\<lparr>v_chain := v_chain outer, v_chain_op := v_chain_op outer\<rparr>"

definition enter :: "('w \<Rightarrow> string \<times> 'w) \<Rightarrow> scope \<Rightarrow> ctx \<Rightarrow> 'w \<Rightarrow> (string + ctx) \<times> 'w" where
  "enter uuid sc c w =
     (case sc of
        Workflow name \<Rightarrow> (case workflow_enter uuid name c w of (c1, w1) \<Rightarrow> (Inr c1, w1))
      | Span name \<Rightarrow> (case span_enter uuid name c w of (c1, w1) \<Rightarrow> (Inr c1, w1))
      | Agent name \<Rightarrow> (case name_or uuid name w of (a, w1) \<Rightarrow> (Inr (c\<lparr>v_agent := Some a\<rparr>), w1))
      | Attempt n \<Rightarrow> (Inr (c\<lparr>v_attempt := n\<rparr>), w)
      | Chain chain op \<Rightarrow> (chain_enter chain op c, w))"

definition leave :: "scope \<Rightarrow> ctx \<Rightarrow> ctx \<Rightarrow> ctx" where
  "leave sc outer c =
     (case sc of
        Workflow name \<Rightarrow> workflow_exit outer c
      | Span name \<Rightarrow> span_exit outer c
      | Agent name \<Rightarrow> c\<lparr>v_agent := v_agent outer\<rparr>
      | Attempt n \<Rightarrow> c\<lparr>v_attempt := v_attempt outer\<rparr>
      | Chain chain op \<Rightarrow> chain_exit outer c)"

section \<open>Programs over the context\<close>

text \<open>
  A body runs operations on the context, may raise, and may open further scopes.  \<open>Captured\<close> is what a gate
  answer leaves (the reservation id with its time and the operation id).
\<close>

datatype ctx_op =
    CallContext "string option" "string list option" "int option"
  | McpContext "string option" "dict option"
  | Captured string rat string
  | Forget
  | Impact "impact option"

fun run_op :: "ctx_op \<Rightarrow> ctx \<Rightarrow> ctx" where
  "run_op (CallContext m ts n) c = set_call_context m ts n c"
| "run_op (McpContext t a) c = set_mcp_tool_context t a c"
| "run_op (Captured eid now op) c =
     (set_operation_id op c)\<lparr>v_minted := Some eid, v_minted_at := now, v_idempotency := Some op\<rparr>"
| "run_op Forget c = clear_server_minted_execution_id c"
| "run_op (Impact i) c = set_call_impact i c"

datatype stmt = Op ctx_op | Throw string | With scope "stmt list"

text \<open>Statements in order; the result is the exception that ended the block, if any.\<close>

fun run :: "('w \<Rightarrow> string \<times> 'w) \<Rightarrow> stmt list \<Rightarrow> ctx \<Rightarrow> 'w \<Rightarrow> string option \<times> ctx \<times> 'w" where
  "run uuid [] c w = (None, c, w)"
| "run uuid (Op p # ss) c w = run uuid ss (run_op p c) w"
| "run uuid (Throw x # ss) c w = (Some x, c, w)"
| "run uuid (With sc body # ss) c w =
     (case enter uuid sc c w of
        (Inl x, w1) \<Rightarrow> (Some x, c, w1)
      | (Inr c1, w1) \<Rightarrow>
          (case run uuid body c1 w1 of
             (Some x, c2, w2) \<Rightarrow> (Some x, leave sc c c2, w2)
           | (None, c2, w2) \<Rightarrow> run uuid ss (leave sc c c2) w2))"

section \<open>Laws\<close>

text \<open>What the managers scope.\<close>

definition scoped ::
  "ctx \<Rightarrow> (string option \<times> string option \<times> string option \<times> string option) \<times> int \<times> string option \<times> string
     \<times> span_context option" where
  "scoped c =
     ((v_workflow c, v_trace c, v_span c, v_agent c), v_attempt c, v_chain c, v_chain_op c, v_current c)"

lemma scoped_op [simp]: "scoped (run_op p c) = scoped c"
  by (cases p) (simp_all add: scoped_def set_call_context_def set_mcp_tool_context_def set_operation_id_def
      clear_server_minted_execution_id_def set_call_impact_def)

text \<open>An entry changes only what its exit puts back.\<close>

lemma enter_leave:
  assumes "enter uuid sc c w = (Inr c1, w1)" "scoped c2 = scoped c1"
  shows "scoped (leave sc c c2) = scoped c"
  using assms
  by (auto simp: enter_def leave_def scoped_def workflow_enter_def workflow_exit_def span_enter_def
      span_exit_def chain_enter_def chain_exit_def set_workflow_root_span_def set_child_span_context_def
      split: scope.splits prod.splits option.splits sum.splits if_splits)

lemma run_scoped: "run uuid ss c w = (x, c', w') \<Longrightarrow> scoped c' = scoped c"
proof (induction uuid ss c w arbitrary: x c' w' rule: run.induct)
  case (4 uuid sc body ss c w)
  show ?case
  proof (cases "enter uuid sc c w")
    case (Pair r w1)
    show ?thesis
    proof (cases r)
      case (Inl y)
      with Pair 4 show ?thesis by simp
    next
      case (Inr c1)
      obtain y c2 w2 where body: "run uuid body c1 w1 = (y, c2, w2)"
        by (cases "run uuid body c1 w1") auto
      have inner: "scoped (leave sc c c2) = scoped c"
        using "4.IH"(1) Pair Inr body by (intro enter_leave) auto
      then show ?thesis
        using "4.prems" "4.IH"(2) Pair Inr body by (cases y) auto
    qed
  qed
qed auto

text \<open>
  the managers restore their variables.  After any program of nested \<open>workflow\<close>, \<open>span\<close>, \<open>agent\<close>, \<open>attempt\<close>
  and \<open>chain\<close> blocks, whatever the bodies set and wherever an exception ended them, the workflow, the trace,
  span and agent ids, the attempt, the chain and the current span are those from before.
\<close>

theorem scopes_restore_context: "scoped (fst (snd (run uuid ss c w))) = scoped c"
  using run_scoped by (metis prod.collapse)

text \<open>
  a reservation outlives its block.  What a gate captured inside one \<open>with\<close> block is still the reservation,
  with its time and its idempotency key, in every block entered after it.
\<close>

theorem reservation_outlives_block:
  assumes "run uuid [With sc [Op (Captured eid now op)]] c w = (None, c1, w1)"
    "enter uuid sc' c1 w1 = (Inr c2, w2)"
  shows "v_minted c2 = Some eid \<and> v_minted_at c2 = now \<and> v_idempotency c2 = Some op"
proof -
  have kept: "v_minted (leave s b a) = v_minted a \<and> v_minted_at (leave s b a) = v_minted_at a
      \<and> v_idempotency (leave s b a) = v_idempotency a" for s a b
    by (simp add: leave_def workflow_exit_def span_exit_def chain_exit_def split: scope.split)
  have "v_minted c1 = Some eid \<and> v_minted_at c1 = now \<and> v_idempotency c1 = Some op"
    using assms(1) kept by (auto split: prod.splits sum.splits)
  with assms(2) show ?thesis
    by (auto simp: enter_def workflow_enter_def span_enter_def chain_enter_def set_workflow_root_span_def
        set_child_span_context_def split: scope.splits prod.splits option.splits sum.splits if_splits)
qed

definition uuid_a :: "unit \<Rightarrow> string \<times> unit" where
  "uuid_a w = (''a'', w)"

lemma reservation_outlives_block_witness:
  "\<exists>c1 c2. run uuid_a [With (Workflow (Some ''first'')) [Op (Captured ''r1'' 10 ''op1'')]] fresh_ctx () = (None, c1, ())
      \<and> enter uuid_a (Workflow (Some ''second'')) c1 () = (Inr c2, ())
      \<and> v_workflow c2 = Some ''second'' \<and> v_minted c2 = Some ''r1''"
proof -
  obtain c1 where run: "run uuid_a [With (Workflow (Some ''first'')) [Op (Captured ''r1'' 10 ''op1'')]] fresh_ctx ()
      = (None, c1, ())"
    by (simp add: enter_def workflow_enter_def name_or_def uuid_a_def)
  obtain c2 where next_block: "enter uuid_a (Workflow (Some ''second'')) c1 () = (Inr c2, ())"
    "v_workflow c2 = Some ''second''"
    by (simp add: enter_def workflow_enter_def name_or_def uuid_a_def set_workflow_root_span_def)
  show ?thesis
    using reservation_outlives_block [OF run next_block(1)] run next_block by blast
qed

end
