(* ===== verification/Capabilities.thy ===== *)
theory Capabilities
  imports Gate
begin

text \<open>
  The capability probe (\<open>src/nullrun/capabilities.py\<close>): the shape check of the backend's answer, its tolerant
  parser with the two layouts of the flags, the probe itself and the version warning.  Warnings are lists of
  the fields they name.
\<close>

section \<open>Records\<close>

record rate_limit_fail_scope =
  rl_aggregate :: string
  rl_per_key :: string

record server_capabilities =
  sc_min_protocol :: int
  sc_max_protocol :: int
  sc_protocol :: int
  sc_server_version :: string
  sc_built_at :: string
  sc_sdk_min_version :: string
  sc_lua_version :: string
  sc_minted_execution_id :: bool
  sc_reservations :: bool
  sc_modes_soft :: bool
  sc_heartbeat_time_based :: bool
  sc_heartbeat_interval :: int
  sc_heartbeat_skew :: int
  sc_chain_idle_ttl :: int
  sc_decision_log :: bool
  sc_outbox :: bool
  sc_idempotency_keys :: bool
  sc_execution_graph :: bool
  sc_wire_evidence :: bool
  sc_rate_limit_scope :: rate_limit_fail_scope

definition is_v3_ready :: "server_capabilities \<Rightarrow> bool" where
  "is_v3_ready c \<longleftrightarrow> sc_minted_execution_id c \<and> sc_reservations c \<and> sc_heartbeat_time_based c"

definition caps_as_dict :: "server_capabilities \<Rightarrow> dict" where
  "caps_as_dict c =
     [(''min_protocol_version'', JInt (sc_min_protocol c)), (''max_protocol_version'', JInt (sc_max_protocol c)),
      (''protocol_version'', JInt (sc_protocol c)), (''server_version'', JStr (sc_server_version c)),
      (''built_at'', JStr (sc_built_at c)), (''sdk_min_version'', JStr (sc_sdk_min_version c)),
      (''lua_script_version'', JStr (sc_lua_version c)),
      (''capabilities'',
       JObj [(''server_minted_execution_id'', JBool (sc_minted_execution_id c)),
             (''per_execution_reservations'', JBool (sc_reservations c)),
             (''enforcement_modes_soft'', JBool (sc_modes_soft c)),
             (''heartbeat_time_based'', JBool (sc_heartbeat_time_based c)),
             (''heartbeat_interval_seconds'', JInt (sc_heartbeat_interval c)),
             (''heartbeat_skew_tolerance_seconds'', JInt (sc_heartbeat_skew c)),
             (''chain_idle_ttl_seconds'', JInt (sc_chain_idle_ttl c)),
             (''decision_log'', JBool (sc_decision_log c)),
             (''outbox_async_drain'', JBool (sc_outbox c)),
             (''idempotency_keys'', JBool (sc_idempotency_keys c)),
             (''execution_graph'', JBool (sc_execution_graph c)),
             (''wire_evidence_echo'', JBool (sc_wire_evidence c)),
             (''rate_limit_fail_scope'',
              JObj [(''aggregate'', JStr (rl_aggregate (sc_rate_limit_scope c))),
                    (''per_key'', JStr (rl_per_key (sc_rate_limit_scope c)))])]),
      (''is_v3_ready'', JBool (is_v3_ready c))]"

section \<open>Shape check\<close>

definition is_int :: "json \<Rightarrow> bool" where
  "is_int v = (case v of JInt _ \<Rightarrow> True | JBool _ \<Rightarrow> True | _ \<Rightarrow> False)"

definition digit_char :: "char \<Rightarrow> bool" where
  "digit_char c \<longleftrightarrow> 48 \<le> (of_char c :: nat) \<and> (of_char c :: nat) \<le> 57"

definition int_shaped :: "json \<Rightarrow> bool" where
  "int_shaped v \<longleftrightarrow>
     v = JNull \<or> is_int v \<or> (case v of JStr s \<Rightarrow> s \<noteq> [] \<and> list_all digit_char s | _ \<Rightarrow> False)"

definition protocol_fields :: "string list" where
  "protocol_fields = [''min_protocol_version'', ''max_protocol_version'', ''protocol_version'']"

definition interval_fields :: "string list" where
  "interval_fields =
     [''heartbeat_interval_seconds'', ''heartbeat_skew_tolerance_seconds'', ''chain_idle_ttl_seconds'']"

definition is_object :: "json \<Rightarrow> bool" where
  "is_object v = (case v of JObj _ \<Rightarrow> True | _ \<Rightarrow> False)"

definition validate_capabilities_payload :: "json \<Rightarrow> string list" where
  "validate_capabilities_payload body =
     (case body of
        JObj d \<Rightarrow>
          (if jget d ''capabilities'' = JNull \<or> is_object (jget d ''capabilities'') then []
           else [''capabilities''])
          @ filter (\<lambda>f. \<not> int_shaped (jget d f)) protocol_fields
          @ (case jget d ''capabilities'' of
               JObj caps \<Rightarrow>
                 filter (\<lambda>f. \<not> int_shaped (jget caps f)) interval_fields
                 @ (if jget caps ''rate_limit_fail_scope'' = JNull \<or> is_object (jget caps ''rate_limit_fail_scope'')
                    then [] else [''rate_limit_fail_scope''])
             | _ \<Rightarrow> [])
      | _ \<Rightarrow> [''top-level''])"

section \<open>Parser\<close>

definition parse_rate_limit_scope :: "(json \<Rightarrow> string) \<Rightarrow> json \<Rightarrow> rate_limit_fail_scope" where
  "parse_rate_limit_scope rep v =
     (case v of
        JObj d \<Rightarrow> \<lparr>rl_aggregate = py_str rep (get_or d ''aggregate'' (JStr ''closed'')),
                    rl_per_key = py_str rep (get_or d ''per_key'' (JStr ''open''))\<rparr>
      | _ \<Rightarrow> \<lparr>rl_aggregate = ''closed'', rl_per_key = ''open''\<rparr>)"

text \<open>A flag: nested and not null, else at the top level.\<close>

definition v3_flag :: "dict \<Rightarrow> dict \<Rightarrow> string \<Rightarrow> bool" where
  "v3_flag caps d name =
     (if jget caps name \<noteq> JNull then truthy (jget caps name) else truthy (get_or d name (JBool False)))"

text \<open>\<open>int(d.get(k, dflt))\<close> over several fields; the first exception ends the reading.\<close>

fun read_ints :: "(dict \<times> string \<times> int) list \<Rightarrow> string + int list" where
  "read_ints [] = Inr []"
| "read_ints ((d, k, dflt) # rest) =
     (case py_int (get_or d k (JInt dflt)) of
        Inl x \<Rightarrow> Inl x
      | Inr i \<Rightarrow> (case read_ints rest of Inl x \<Rightarrow> Inl x | Inr ns \<Rightarrow> Inr (i # ns)))"

definition caps_of :: "dict \<Rightarrow> dict" where
  "caps_of d = (case py_or (jget d ''capabilities'') (JObj []) of JObj c \<Rightarrow> c | _ \<Rightarrow> [])"

definition int_fields :: "dict \<Rightarrow> (dict \<times> string \<times> int) list" where
  "int_fields d =
     map (\<lambda>k. (d, k, 0)) protocol_fields
     @ [(caps_of d, ''heartbeat_interval_seconds'', 30), (caps_of d, ''heartbeat_skew_tolerance_seconds'', 5),
        (caps_of d, ''chain_idle_ttl_seconds'', 300)]"

definition parse_capabilities :: "(json \<Rightarrow> string) \<Rightarrow> json \<Rightarrow> string + server_capabilities" where
  "parse_capabilities rep body =
     (case body of
        JObj d \<Rightarrow>
          (let caps = caps_of d; flag = v3_flag caps d in
           (case read_ints (int_fields d) of
              Inl x \<Rightarrow> Inl x
            | Inr ns \<Rightarrow>
                Inr \<lparr>sc_min_protocol = ns ! 0, sc_max_protocol = ns ! 1, sc_protocol = ns ! 2,
                     sc_server_version = py_str rep (get_or d ''server_version'' (JStr [])),
                     sc_built_at = py_str rep (get_or d ''built_at'' (JStr [])),
                     sc_sdk_min_version = py_str rep (get_or d ''sdk_min_version'' (JStr ''0.0.0'')),
                     sc_lua_version = py_str rep (get_or d ''lua_script_version'' (JStr ''unknown'')),
                     sc_minted_execution_id = flag ''server_minted_execution_id'',
                     sc_reservations = flag ''per_execution_reservations'',
                     sc_modes_soft = flag ''enforcement_modes_soft'',
                     sc_heartbeat_time_based = flag ''heartbeat_time_based'',
                     sc_heartbeat_interval = ns ! 3, sc_heartbeat_skew = ns ! 4, sc_chain_idle_ttl = ns ! 5,
                     sc_decision_log = flag ''decision_log'', sc_outbox = flag ''outbox_async_drain'',
                     sc_idempotency_keys = flag ''idempotency_keys'',
                     sc_execution_graph = flag ''execution_graph'',
                     sc_wire_evidence = flag ''wire_evidence_echo'',
                     sc_rate_limit_scope = parse_rate_limit_scope rep (jget caps ''rate_limit_fail_scope'')\<rparr>))
      | _ \<Rightarrow> Inl ''AttributeError'')"

section \<open>Probe\<close>

text \<open>
  What \<open>httpx.get\<close> did: \<open>None\<close> is an \<open>httpx.RequestError\<close>.  The \<open>except\<close> clause catches a \<open>ValueError\<close> of the JSON
  reader or of the parser; any other exception of the parser leaves the probe.
\<close>

definition probe_capabilities ::
  "(json \<Rightarrow> string) \<Rightarrow> http_response option \<Rightarrow> string + server_capabilities option" where
  "probe_capabilities rep answer =
     (case answer of
        None \<Rightarrow> Inr None
      | Some r \<Rightarrow>
          (if resp_status r \<noteq> 200 then Inr None
           else
             (case resp_json r of
                None \<Rightarrow> Inr None
              | Some body \<Rightarrow>
                  (case parse_capabilities rep body of
                     Inl x \<Rightarrow> if x = ''ValueError'' then Inr None else Inl x
                   | Inr c \<Rightarrow> Inr (Some c)))))"

section \<open>Version warning\<close>

fun split_dots :: "string \<Rightarrow> string list" where
  "split_dots [] = [[]]"
| "split_dots (c # cs) =
     (if c = CHR ''.'' then [] # split_dots cs
      else (case split_dots cs of [] \<Rightarrow> [[c]] | p # ps \<Rightarrow> (c # p) # ps))"

fun all_ints :: "string list \<Rightarrow> int list option" where
  "all_ints [] = Some []"
| "all_ints (p # ps) =
     (case parse_int p of
        None \<Rightarrow> None
      | Some i \<Rightarrow> (case all_ints ps of None \<Rightarrow> None | Some ns \<Rightarrow> Some (i # ns)))"

definition parse_version :: "string \<Rightarrow> int list" where
  "parse_version v = (case all_ints (split_dots v) of None \<Rightarrow> [0] | Some ns \<Rightarrow> ns)"

fun version_less :: "int list \<Rightarrow> int list \<Rightarrow> bool" where
  "version_less xs [] = False"
| "version_less [] (y # ys) = True"
| "version_less (x # xs) (y # ys) = (x < y \<or> x = y \<and> version_less xs ys)"

definition sdk_min_version_for_v3 :: string where "sdk_min_version_for_v3 = ''0.12.0''"

datatype version_warning = NotV3Ready | SdkTooOld

definition validate_sdk_version :: "string \<Rightarrow> server_capabilities \<Rightarrow> version_warning list" where
  "validate_sdk_version sdk c =
     (if \<not> is_v3_ready c then [NotV3Ready]
      else if version_less (parse_version sdk) (parse_version sdk_min_version_for_v3) then [SdkTooOld]
      else [])"

section \<open>Laws\<close>

text \<open>The fields that \<open>int()\<close> cannot take at all.\<close>

definition not_a_number :: "json \<Rightarrow> bool" where
  "not_a_number v = (case v of JNull \<Rightarrow> True | JList _ \<Rightarrow> True | JObj _ \<Rightarrow> True | JEnum _ \<Rightarrow> True | _ \<Rightarrow> False)"

lemma py_int_cases:
  "py_int v = Inl x \<longleftrightarrow>
     (not_a_number v \<and> x = ''TypeError'') \<or> (\<exists>s. v = JStr s \<and> parse_int s = None \<and> x = ''ValueError'')"
  by (cases v) (auto simp: py_int_def not_a_number_def split: option.split)

text \<open>\<open>TypeError\<close> leaves the reading when no unreadable text comes before the field.\<close>

fun type_error_first :: "(dict \<times> string \<times> int) list \<Rightarrow> bool" where
  "type_error_first [] = False"
| "type_error_first ((d, k, dflt) # rest) =
     (let v = get_or d k (JInt dflt) in
      not_a_number v \<or> (case v of JStr s \<Rightarrow> parse_int s \<noteq> None | _ \<Rightarrow> True) \<and> type_error_first rest)"

lemma read_ints_raises: "read_ints fs = Inl x \<and> x \<noteq> ''ValueError'' \<longleftrightarrow> x = ''TypeError'' \<and> type_error_first fs"
proof (induction fs)
  case (Cons f fs)
  obtain d k n where f: "f = (d, k, n)"
    by (cases f) auto
  show ?case
  proof (cases "py_int (get_or d k (JInt n))")
    case (Inl y)
    then have "read_ints (f # fs) = Inl y"
      by (simp add: f)
    from Inl py_int_cases consider "not_a_number (get_or d k (JInt n))" "y = ''TypeError''"
      | t where "get_or d k (JInt n) = JStr t" "parse_int t = None" "y = ''ValueError''"
      by blast
    then show ?thesis
    proof cases
      case 1
      then have "type_error_first (f # fs)" by (simp add: f Let_def)
      with 1 \<open>read_ints (f # fs) = Inl y\<close> show ?thesis by auto
    next
      case 2
      then have "\<not> type_error_first (f # fs)" by (simp add: f Let_def not_a_number_def)
      with 2 \<open>read_ints (f # fs) = Inl y\<close> show ?thesis by auto
    qed
  next
    case (Inr i)
    then have "\<not> not_a_number (get_or d k (JInt n))"
      using py_int_cases [of "get_or d k (JInt n)" "''TypeError''"] by simp
    moreover have "case get_or d k (JInt n) of JStr s \<Rightarrow> parse_int s \<noteq> None | _ \<Rightarrow> True"
      using Inr py_int_cases [of "get_or d k (JInt n)" "''ValueError''"] by (simp split: json.split)
    ultimately have "type_error_first (f # fs) = type_error_first fs"
      by (simp add: f Let_def)
    moreover have "read_ints (f # fs) = Inl x \<longleftrightarrow> read_ints fs = Inl x"
      by (simp add: f Inr split: sum.split)
    ultimately show ?thesis
      using Cons by simp
  qed
qed simp

text \<open>
  what the probe raises.  It answers \<open>None\<close> for an unreachable backend, another status and a body that is
  not JSON; it raises exactly when the backend answers 200 with a JSON value that is not an object, or with an
  object in which a number is \<open>null\<close>, a list or an object and no unreadable number text comes before it.
\<close>

theorem probe_raises_exactly:
  "probe_capabilities rep answer = Inl x \<longleftrightarrow>
     (\<exists>r body. answer = Some r \<and> resp_status r = 200 \<and> resp_json r = Some body
       \<and> (\<not> is_object body \<and> x = ''AttributeError''
          \<or> (\<exists>d. body = JObj d \<and> type_error_first (int_fields d) \<and> x = ''TypeError'')))"
proof -
  have obj: "parse_capabilities rep (JObj d) = Inl y \<longleftrightarrow> read_ints (int_fields d) = Inl y" for d y
    by (auto simp: parse_capabilities_def Let_def split: sum.split)
  have other: "parse_capabilities rep body = Inl ''AttributeError''" if "\<not> is_object body" for body
    using that by (cases body) (auto simp: parse_capabilities_def is_object_def)
  have cases: "parse_capabilities rep body = Inl y \<and> y \<noteq> ''ValueError'' \<longleftrightarrow>
      \<not> is_object body \<and> y = ''AttributeError''
      \<or> (\<exists>d. body = JObj d \<and> type_error_first (int_fields d) \<and> y = ''TypeError'')" for body y
  proof (cases "is_object body")
    case True
    then obtain d where "body = JObj d"
      by (auto simp: is_object_def split: json.splits)
    with True show ?thesis
      using read_ints_raises [of "int_fields d" y] by (auto simp: obj)
  next
    case False
    then show ?thesis
      using other [of body] by (auto simp: is_object_def)
  qed
  have "probe_capabilities rep answer = Inl x \<longleftrightarrow>
     (\<exists>r body. answer = Some r \<and> resp_status r = 200 \<and> resp_json r = Some body
       \<and> parse_capabilities rep body = Inl x \<and> x \<noteq> ''ValueError'')"
    by (auto simp: probe_capabilities_def split: option.split sum.split)
  with cases show ?thesis
    by simp
qed

text \<open>
  The minimum version the backend announces plays no part in the warning, only the constant of the SDK does.
\<close>

lemma announced_minimum_ignored:
  "validate_sdk_version sdk (c\<lparr>sc_sdk_min_version := v\<rparr>) = validate_sdk_version sdk c"
  by (simp add: validate_sdk_version_def is_v3_ready_def)

text \<open>Missing keys read as not supported.\<close>

lemma empty_answer_fails_closed:
  "parse_capabilities rep (JObj []) = Inr c \<Longrightarrow> \<not> is_v3_ready c"
  by (auto simp: parse_capabilities_def Let_def is_v3_ready_def v3_flag_def caps_of_def py_or_def
      split: sum.splits)

end
