(* ===== verification/Usage_Extract.thy ===== *)
theory Usage_Extract
  imports Block_Exception
begin

text \<open>
  Reading the usage block of a provider's answer (\<open>src/nullrun/instrumentation/auto.py\<close>): the five
  extractors with every exception Python raises on an answer of an unexpected shape, the table of provider
  hosts, the profile of a request and the labels.  \<open>json.loads\<close> is a function passed in; its failure is \<open>None\<close>.
\<close>

section \<open>Reading untyped JSON\<close>

definition and_then :: "'e + 'a \<Rightarrow> ('a \<Rightarrow> 'e + 'b) \<Rightarrow> 'e + 'b" where
  "and_then x f = (case x of Inl e \<Rightarrow> Inl e | Inr a \<Rightarrow> f a)"

text \<open>\<open>x.get\<close> on anything but a dictionary is an \<open>AttributeError\<close>.\<close>

definition dict_of :: "json \<Rightarrow> string + dict" where
  "dict_of j = (case j of JObj d \<Rightarrow> Inr d | _ \<Rightarrow> Inl ''AttributeError'')"

text \<open>\<open>for x in j\<close>: a dictionary gives its keys, a text its characters.\<close>

definition py_iter :: "json \<Rightarrow> string + json list" where
  "py_iter j =
     (case j of
        JList xs \<Rightarrow> Inr xs
      | JObj d \<Rightarrow> Inr (map (JStr \<circ> fst) d)
      | JStr s \<Rightarrow> Inr (map (\<lambda>c. JStr [c]) s)
      | _ \<Rightarrow> Inl ''TypeError'')"

fun collect :: "('a \<Rightarrow> string + 'b list) \<Rightarrow> 'a list \<Rightarrow> string + 'b list" where
  "collect f [] = Inr []"
| "collect f (x # xs) = and_then (f x) (\<lambda>ys. and_then (collect f xs) (\<lambda>zs. Inr (ys @ zs)))"

definition each_of :: "(json \<Rightarrow> string + 'b list) \<Rightarrow> json \<Rightarrow> string + 'b list" where
  "each_of f j = and_then (py_iter (py_or j (JList []))) (collect f)"

text \<open>\<open>(x or {}).get(k)\<close>.\<close>

definition sub_get :: "json \<Rightarrow> string \<Rightarrow> string + json" where
  "sub_get j k = and_then (dict_of (py_or j (JObj []))) (\<lambda>d. Inr (jget d k))"

text \<open>\<open>int(x or 0)\<close>.\<close>

definition int_or_zero :: "json \<Rightarrow> string + int" where
  "int_or_zero j = py_int (py_or j (JInt 0))"

definition is_dict :: "json \<Rightarrow> bool" where
  "is_dict j = (case j of JObj _ \<Rightarrow> True | _ \<Rightarrow> False)"

section \<open>Finish reasons\<close>

definition finish_reason_map :: "(string \<times> string) list" where
  "finish_reason_map =
     [(''stop'', ''stop''), (''length'', ''length''), (''tool_calls'', ''tool_calls''),
      (''content_filter'', ''blocked''), (''function_call'', ''tool_calls''), (''end_turn'', ''stop''),
      (''max_tokens'', ''length''), (''tool_use'', ''tool_calls''), (''stop_sequence'', ''stop''),
      (''STOP'', ''stop''), (''MAX_TOKENS'', ''length''), (''SAFETY'', ''blocked''),
      (''RECITATION'', ''blocked''), (''FINISH_REASON_UNSPECIFIED'', ''unknown''), (''COMPLETE'', ''stop''),
      (''ERROR_TOXIC'', ''blocked''), (''ERROR'', ''blocked'')]"

definition normalize_finish_reason :: "json \<Rightarrow> string + json" where
  "normalize_finish_reason raw =
     (case raw of
        JNull \<Rightarrow> Inr JNull
      | JStr s \<Rightarrow>
          Inr (case map_of finish_reason_map s of
                 Some v \<Rightarrow> JStr v
               | None \<Rightarrow> if s = [] then JNull else JStr (lower s))
      | JList _ \<Rightarrow> Inl ''TypeError''
      | JObj _ \<Rightarrow> Inl ''TypeError''
      | _ \<Rightarrow> Inl ''AttributeError'')"

section \<open>Extractors\<close>

record llm_usage =
  u_prompt :: int
  u_completion :: int
  u_total :: int
  u_model :: json
  u_id :: json
  u_cache_read :: int
  u_cache_write :: int
  u_reasoning :: int
  u_finish :: json
  u_tools :: "json list"

type_synonym extraction = "string + llm_usage option"

text \<open>The common start: an error status, an empty body or no JSON object with a usage block is no usage.\<close>

definition usage_block :: "(string \<Rightarrow> json option) \<Rightarrow> string \<Rightarrow> string \<Rightarrow> int \<Rightarrow> (dict \<times> dict) option" where
  "usage_block loads key body status =
     (if status \<ge> 400 \<or> body = [] then None
      else (case loads body of
              Some (JObj d) \<Rightarrow> (case jget d key of JObj u \<Rightarrow> Some (d, u) | _ \<Rightarrow> None)
            | _ \<Rightarrow> None))"

text \<open>\<open>(tc.get("function") or {}).get("name")\<close>, kept when it is true.\<close>

definition keep_name :: "json \<Rightarrow> json list" where
  "keep_name name = (if truthy name then [name] else [])"

definition function_name :: "json \<Rightarrow> string + json list" where
  "function_name tc =
     and_then (dict_of tc) (\<lambda>t. and_then (sub_get (jget t ''function'') ''name'') (\<lambda>n. Inr (keep_name n)))"

definition choice_tools :: "json \<Rightarrow> string + json list" where
  "choice_tools choice =
     and_then (dict_of choice)
       (\<lambda>c. and_then (sub_get (jget c ''message'') ''tool_calls'') (each_of function_name))"

text \<open>\<open>(choices[0] if choices else {}).get(key)\<close> once the loop over the choices went through.\<close>

definition first_get :: "json \<Rightarrow> string \<Rightarrow> string + json" where
  "first_get choices key =
     (case choices of
        JList (c # cs) \<Rightarrow> and_then (dict_of c) (\<lambda>d. Inr (jget d key))
      | _ \<Rightarrow> Inr JNull)"

definition openai_extractor :: "(string \<Rightarrow> json option) \<Rightarrow> string \<Rightarrow> int \<Rightarrow> extraction" where
  "openai_extractor loads body status =
     (case usage_block loads ''usage'' body status of
        None \<Rightarrow> Inr None
      | Some (d, u) \<Rightarrow>
          and_then (int_or_zero (jget u ''prompt_tokens'')) (\<lambda>prompt.
          and_then (int_or_zero (jget u ''completion_tokens'')) (\<lambda>completion.
          and_then (int_or_zero (jget u ''total_tokens'')) (\<lambda>reported.
            (let total = (if reported = 0 \<and> (prompt \<noteq> 0 \<or> completion \<noteq> 0) then prompt + completion else reported) in
             if prompt = 0 \<and> completion = 0 \<and> total = 0 then Inr None
             else
               and_then (each_of choice_tools (jget d ''choices'')) (\<lambda>tools.
               and_then (first_get (py_or (jget d ''choices'') (JList [])) ''finish_reason'') (\<lambda>raw.
               and_then (sub_get (jget u ''prompt_tokens_details'') ''cached_tokens'') (\<lambda>cached.
               and_then (int_or_zero (py_or cached (jget u ''num_cached_tokens''))) (\<lambda>cache_read.
               and_then (sub_get (jget u ''completion_tokens_details'') ''reasoning_tokens'') (\<lambda>rsn.
               and_then (int_or_zero rsn) (\<lambda>reasoning.
               and_then (normalize_finish_reason raw) (\<lambda>finish.
                 Inr (Some \<lparr>u_prompt = prompt, u_completion = completion, u_total = total,
                            u_model = jget d ''model'', u_id = jget d ''id'', u_cache_read = cache_read,
                            u_cache_write = 0, u_reasoning = reasoning, u_finish = finish,
                            u_tools = tools\<rparr>)))))))))))))"

text \<open>A block of type \<open>tool_use\<close> with a true name; other blocks are skipped.\<close>

definition tool_use_block :: "json \<Rightarrow> string + json list" where
  "tool_use_block block =
     Inr (case block of
            JObj b \<Rightarrow> if jget b ''type'' = JStr ''tool_use'' then keep_name (jget b ''name'') else []
          | _ \<Rightarrow> [])"

definition anthropic_extractor :: "(string \<Rightarrow> json option) \<Rightarrow> string \<Rightarrow> int \<Rightarrow> extraction" where
  "anthropic_extractor loads body status =
     (case usage_block loads ''usage'' body status of
        None \<Rightarrow> Inr None
      | Some (d, u) \<Rightarrow>
          and_then (int_or_zero (jget u ''input_tokens'')) (\<lambda>inp.
          and_then (int_or_zero (jget u ''output_tokens'')) (\<lambda>out.
            (if inp = 0 \<and> out = 0 then Inr None
             else
               and_then (each_of tool_use_block (jget d ''content'')) (\<lambda>tools.
               and_then (int_or_zero (jget u ''cache_read_input_tokens'')) (\<lambda>cache_read.
               and_then (int_or_zero (jget u ''cache_creation_input_tokens'')) (\<lambda>cache_write.
               and_then (sub_get (jget u ''output_tokens_details'') ''thinking_tokens'') (\<lambda>thinking.
               and_then (int_or_zero thinking) (\<lambda>reasoning.
               and_then (normalize_finish_reason (jget d ''stop_reason'')) (\<lambda>finish.
                 Inr (Some \<lparr>u_prompt = inp, u_completion = out, u_total = inp + out, u_model = jget d ''model'',
                            u_id = jget d ''id'', u_cache_read = cache_read, u_cache_write = cache_write,
                            u_reasoning = reasoning, u_finish = finish, u_tools = tools\<rparr>)))))))))))"

text \<open>The function call of a part of a Gemini candidate.\<close>

definition part_tools :: "json \<Rightarrow> string + json list" where
  "part_tools part =
     Inr (case part of
            JObj p \<Rightarrow> (case jget p ''functionCall'' of JObj fc \<Rightarrow> keep_name (jget fc ''name'') | _ \<Rightarrow> [])
          | _ \<Rightarrow> [])"

definition candidate_tools :: "json \<Rightarrow> string + json list" where
  "candidate_tools candidate =
     and_then (dict_of candidate)
       (\<lambda>c. and_then (sub_get (jget c ''content'') ''parts'') (each_of part_tools))"

definition gemini_extractor :: "(string \<Rightarrow> json option) \<Rightarrow> string \<Rightarrow> int \<Rightarrow> extraction" where
  "gemini_extractor loads body status =
     (case usage_block loads ''usageMetadata'' body status of
        None \<Rightarrow> Inr None
      | Some (d, u) \<Rightarrow>
          and_then (int_or_zero (jget u ''promptTokenCount'')) (\<lambda>prompt.
          and_then (int_or_zero (jget u ''candidatesTokenCount'')) (\<lambda>completion.
          and_then (int_or_zero (jget u ''totalTokenCount'')) (\<lambda>total.
            (if prompt = 0 \<and> completion = 0 \<and> total = 0 then Inr None
             else
               and_then (each_of candidate_tools (jget d ''candidates'')) (\<lambda>tools.
               and_then (first_get (py_or (jget d ''candidates'') (JList [])) ''finishReason'') (\<lambda>raw.
               and_then (int_or_zero (jget u ''cachedContentTokenCount'')) (\<lambda>cache_read.
               and_then (int_or_zero (jget u ''thoughtsTokenCount'')) (\<lambda>reasoning.
               and_then (normalize_finish_reason raw) (\<lambda>finish.
                 Inr (Some \<lparr>u_prompt = prompt, u_completion = completion,
                            u_total = (if total \<noteq> 0 then total else prompt + completion),
                            u_model = jget d ''modelVersion'', u_id = py_or (jget d ''responseId'') (jget d ''id''),
                            u_cache_read = cache_read, u_cache_write = 0, u_reasoning = reasoning,
                            u_finish = finish, u_tools = tools\<rparr>)))))))))))"

text \<open>A tool call of Cohere, in the OpenAI shape or with its name at the top.\<close>

definition cohere_tool :: "json \<Rightarrow> string + json list" where
  "cohere_tool tc =
     Inr (case tc of
            JObj t \<Rightarrow>
              (case jget t ''function'' of
                 JObj f \<Rightarrow> if truthy (jget f ''name'') then [jget f ''name''] else keep_name (jget t ''name'')
               | _ \<Rightarrow> keep_name (jget t ''name''))
          | _ \<Rightarrow> [])"

definition cohere_tools :: "dict \<Rightarrow> string + json list" where
  "cohere_tools d =
     and_then (case jget d ''message'' of JObj msg \<Rightarrow> each_of cohere_tool (jget msg ''tool_calls'') | _ \<Rightarrow> Inr [])
       (\<lambda>names. if names = [] then each_of cohere_tool (jget d ''tool_calls'') else Inr names)"

definition cohere_extractor :: "(string \<Rightarrow> json option) \<Rightarrow> string \<Rightarrow> int \<Rightarrow> extraction" where
  "cohere_extractor loads body status =
     (case usage_block loads ''usage'' body status of
        None \<Rightarrow> Inr None
      | Some (d, u) \<Rightarrow>
          and_then (int_or_zero (py_or (jget u ''input_tokens'') (jget u ''prompt_tokens''))) (\<lambda>inp.
          and_then (int_or_zero (py_or (jget u ''output_tokens'') (jget u ''completion_tokens''))) (\<lambda>out.
            (if inp = 0 \<and> out = 0 then Inr None
             else
               and_then (sub_get (jget u ''tokens'') ''cached_tokens'') (\<lambda>cached.
               and_then (int_or_zero (py_or cached (jget u ''cached_tokens''))) (\<lambda>cache_read.
               and_then (cohere_tools d) (\<lambda>tools.
               and_then (normalize_finish_reason (jget d ''finish_reason'')) (\<lambda>finish.
                 Inr (Some \<lparr>u_prompt = inp, u_completion = out, u_total = inp + out, u_model = jget d ''model'',
                            u_id = py_or (jget d ''id'') (jget d ''generation_id''), u_cache_read = cache_read,
                            u_cache_write = 0, u_reasoning = 0, u_finish = finish, u_tools = tools\<rparr>)))))))))"

text \<open>Bedrock answers in the shape of the model behind it: the tool names and which shape gave them.\<close>

definition bedrock_tools :: "dict \<Rightarrow> string + (json list \<times> bool)" where
  "bedrock_tools d =
     and_then (each_of tool_use_block (jget d ''content'')) (\<lambda>t1.
       if t1 \<noteq> [] then Inr (t1, False)
       else
         and_then (each_of choice_tools (jget d ''choices'')) (\<lambda>t2.
           if t2 \<noteq> [] then Inr (t2, True)
           else
             (case py_or (jget d ''output'') (JObj []) of
                JObj out \<Rightarrow>
                  (case jget out ''message'' of
                     JObj msg \<Rightarrow> and_then (each_of tool_use_block (jget msg ''content'')) (\<lambda>t3. Inr (t3, False))
                   | _ \<Rightarrow> Inr ([], False))
              | _ \<Rightarrow> Inr ([], False))))"

text \<open>The finish reason of the first choice that has one.\<close>

fun first_finish :: "json list \<Rightarrow> json" where
  "first_finish [] = JNull"
| "first_finish (JObj c # cs) =
     (if truthy (jget c ''finish_reason'') then jget c ''finish_reason'' else first_finish cs)"
| "first_finish (_ # cs) = first_finish cs"

definition bedrock_usage :: "dict \<Rightarrow> dict option" where
  "bedrock_usage d =
     (case jget d ''usage'' of
        JObj u \<Rightarrow> Some u
      | _ \<Rightarrow> if dict_get d ''inputTokens'' \<noteq> None \<or> dict_get d ''outputTokens'' \<noteq> None then Some d else None)"

definition bedrock_extractor :: "(string \<Rightarrow> json option) \<Rightarrow> string \<Rightarrow> int \<Rightarrow> extraction" where
  "bedrock_extractor loads body status =
     (if status \<ge> 400 \<or> body = [] then Inr None
      else
        (case loads body of
           Some (JObj d) \<Rightarrow>
             (case bedrock_usage d of
                None \<Rightarrow> Inr None
              | Some u \<Rightarrow>
                  and_then (int_or_zero (py_or (jget u ''inputTokens'') (jget u ''input_tokens''))) (\<lambda>inp.
                  and_then (int_or_zero (py_or (jget u ''outputTokens'') (jget u ''output_tokens''))) (\<lambda>out.
                  and_then (int_or_zero (jget u ''totalTokens'')) (\<lambda>reported.
                    (let total = (if reported \<noteq> 0 then reported else inp + out) in
                     if inp = 0 \<and> out = 0 \<and> total = 0 then Inr None
                     else
                       and_then (bedrock_tools d) (\<lambda>(tools, chosen).
                       and_then (int_or_zero (py_or (jget u ''cacheReadInputTokenCount'')
                                                    (jget u ''cache_read_input_tokens''))) (\<lambda>cache_read.
                       and_then (int_or_zero (py_or (jget u ''cacheWriteInputTokenCount'')
                                                    (jget u ''cache_creation_input_tokens''))) (\<lambda>cache_write.
                       (let raw = py_or (jget d ''stopReason'') (jget d ''stop_reason'');
                            raw1 = (if raw = JNull \<and> chosen
                                    then (case py_or (jget d ''choices'') (JList []) of
                                            JList cs \<Rightarrow> first_finish cs | _ \<Rightarrow> JNull)
                                    else raw) in
                        and_then (normalize_finish_reason raw1) (\<lambda>finish.
                          Inr (Some \<lparr>u_prompt = inp, u_completion = out, u_total = total,
                                     u_model = py_or (jget d ''modelId'') (jget d ''model''), u_id = jget d ''id'',
                                     u_cache_read = cache_read, u_cache_write = cache_write, u_reasoning = 0,
                                     u_finish = finish, u_tools = tools\<rparr>)))))))))))
         | _ \<Rightarrow> Inr None))"

section \<open>Hosts\<close>

datatype provider = OpenAI | Anthropic | Gemini | Cohere | Bedrock

fun extract_usage :: "provider \<Rightarrow> (string \<Rightarrow> json option) \<Rightarrow> string \<Rightarrow> int \<Rightarrow> extraction" where
  "extract_usage OpenAI = openai_extractor"
| "extract_usage Anthropic = anthropic_extractor"
| "extract_usage Gemini = gemini_extractor"
| "extract_usage Cohere = cohere_extractor"
| "extract_usage Bedrock = bedrock_extractor"

definition provider_extractors :: "(string \<times> provider) list" where
  "provider_extractors =
     [(''api.openai.com'', OpenAI), (''openai.azure.com'', OpenAI), (''api.mistral.ai'', OpenAI),
      (''api.anthropic.com'', Anthropic), (''generativelanguage.googleapis.com'', Gemini),
      (''api.cohere.ai'', Cohere), (''bedrock-runtime.amazonaws.com'', Bedrock)]"

definition ends_with :: "string \<Rightarrow> string \<Rightarrow> bool" where
  "ends_with s t \<longleftrightarrow> length t \<le> length s \<and> drop (length s - length t) s = t"

definition match_extractor :: "string \<Rightarrow> provider option" where
  "match_extractor host =
     (if host = [] then None
      else
        (case map_of provider_extractors host of
           Some p \<Rightarrow> Some p
         | None \<Rightarrow> map_option snd (find (\<lambda>(s, p). ends_with host (''.'' @ s)) provider_extractors)))"

definition provider_label :: "string \<Rightarrow> string" where
  "provider_label host =
     (if contains ''openai'' host then ''openai''
      else if contains ''anthropic'' host then ''anthropic''
      else if contains ''mistral'' host then ''mistral''
      else if contains ''googleapis'' host then ''gemini''
      else if contains ''cohere'' host then ''cohere''
      else if contains ''bedrock'' host \<or> contains ''amazonaws'' host then ''bedrock''
      else if host \<noteq> [] then host else ''unknown'')"

section \<open>The profile of a request\<close>

text \<open>
  Texts are decoded to code points by \<open>points\<close>; \<open>blank\<close> is \<open>str.isspace\<close> of one of them.
\<close>

definition is_cjk :: "nat \<Rightarrow> bool" where
  "is_cjk n \<longleftrightarrow>
     0x3040 \<le> n \<and> n \<le> 0x30FF \<or> 0x3400 \<le> n \<and> n \<le> 0x4DBF \<or> 0x4E00 \<le> n \<and> n \<le> 0x9FFF
     \<or> 0xAC00 \<le> n \<and> n \<le> 0xD7AF"

definition looks_like_data_blob :: "(nat \<Rightarrow> bool) \<Rightarrow> nat list \<Rightarrow> bool" where
  "looks_like_data_blob blank text =
     (if length text \<le> 4096 then False
      else \<not> list_ex blank (take 2048 text @ drop (length text - 2048) text))"

definition estimate_tokens :: "nat list \<Rightarrow> nat" where
  "estimate_tokens text =
     (let cjk = length (filter is_cjk text); other = length text - cjk in cjk + (other + 2) div 3)"

primrec collect_prompt_text :: "(string \<Rightarrow> nat list) \<Rightarrow> (nat \<Rightarrow> bool) \<Rightarrow> json \<Rightarrow> nat list" where
  "collect_prompt_text points blank JNull = []"
| "collect_prompt_text points blank (JBool b) = []"
| "collect_prompt_text points blank (JInt i) = []"
| "collect_prompt_text points blank (JFloat r) = []"
| "collect_prompt_text points blank (JEnum v) = []"
| "collect_prompt_text points blank (JStr s) =
     (if looks_like_data_blob blank (points s) then [] else points s)"
| "collect_prompt_text points blank (JList xs) = concat (map (collect_prompt_text points blank) xs)"
| "collect_prompt_text points blank (JObj d) =
     concat (map (\<lambda>(k, text). if k = ''model'' then [] else text)
               (map (map_prod id (collect_prompt_text points blank)) d))"

definition max_output_token_fields :: "string list" where
  "max_output_token_fields = [''max_completion_tokens'', ''max_tokens'', ''maxOutputTokens'']"

definition max_estimated_input_tokens :: nat where "max_estimated_input_tokens = 32768"

record request_profile =
  rq_model :: string
  rq_estimated :: nat
  rq_declared_max :: "int option"

fun positive_int :: "json \<Rightarrow> bool" where
  "positive_int (JInt n) = (0 < n)"
| "positive_int _ = False"

definition declared_max :: "dict \<Rightarrow> int option" where
  "declared_max d =
     (case filter positive_int (map (jget d) max_output_token_fields) of
        JInt n # _ \<Rightarrow> Some n
      | _ \<Rightarrow> None)"

definition profile_of_body ::
  "(string \<Rightarrow> nat list) \<Rightarrow> (nat \<Rightarrow> bool) \<Rightarrow> (string \<Rightarrow> json option) \<Rightarrow> string \<Rightarrow> request_profile option" where
  "profile_of_body points blank loads body =
     (if body = [] then None
      else
        (case loads body of
           Some (JObj d) \<Rightarrow>
             (case jget d ''model'' of
                JStr m \<Rightarrow>
                  (if m = [] then None
                   else Some \<lparr>rq_model = m,
                              rq_estimated = min (estimate_tokens (collect_prompt_text points blank (JObj d)))
                                                 max_estimated_input_tokens,
                              rq_declared_max = declared_max d\<rparr>)
              | _ \<Rightarrow> None)
         | _ \<Rightarrow> None))"

definition model_of_body :: "(string \<Rightarrow> json option) \<Rightarrow> string \<Rightarrow> json" where
  "model_of_body loads body =
     (if body = [] then JNull
      else (case loads body of
              Some (JObj d) \<Rightarrow> (case jget d ''model'' of JStr m \<Rightarrow> if m = [] then JNull else JStr m | _ \<Rightarrow> JNull)
            | _ \<Rightarrow> JNull))"

section \<open>Laws\<close>

lemma and_then_Inr: "and_then x f = Inr b \<longleftrightarrow> (\<exists>a. x = Inr a \<and> f a = Inr b)"
  by (cases x) (simp_all add: and_then_def)

lemma usage_block_some:
  "usage_block loads key body status = Some (d, u) \<Longrightarrow> status < 400 \<and> body \<noteq> [] \<and> loads body = Some (JObj d)"
  by (auto simp: usage_block_def split: if_splits option.splits json.splits)

text \<open>
  what an extractor reads is never nothing.  Usage is only read from a non-empty JSON object of an answer
  below status 400, and when the prompt and completion counts are not negative the total is not zero, so a
  reservation is never settled by an empty usage.
\<close>

theorem extracted_usage_counts:
  assumes "extract_usage p loads body status = Inr (Some u)"
  shows "status < 400 \<and> (\<exists>d. body \<noteq> [] \<and> loads body = Some (JObj d))
         \<and> (0 \<le> u_prompt u \<and> 0 \<le> u_completion u \<longrightarrow> u_total u \<noteq> 0)"
proof (cases p)
  case OpenAI
  then show ?thesis
    using assms
    by (auto dest!: usage_block_some simp: openai_extractor_def and_then_Inr Let_def split: option.splits if_splits)
next
  case Anthropic
  then show ?thesis
    using assms
    by (auto dest!: usage_block_some simp: anthropic_extractor_def and_then_Inr Let_def split: option.splits if_splits)
next
  case Gemini
  then show ?thesis
    using assms
    by (auto dest!: usage_block_some simp: gemini_extractor_def and_then_Inr Let_def split: option.splits if_splits)
next
  case Cohere
  then show ?thesis
    using assms
    by (auto dest!: usage_block_some simp: cohere_extractor_def and_then_Inr Let_def split: option.splits if_splits)
next
  case Bedrock
  then show ?thesis
    using assms
    by (auto simp: bedrock_extractor_def and_then_Inr Let_def split: option.splits if_splits json.splits)
qed

definition one_answer :: "string \<Rightarrow> json option" where
  "one_answer body = Some (JObj [(''usage'', JObj [(''prompt_tokens'', JInt 5), (''completion_tokens'', JInt 2)])])"

lemma extracted_usage_counts_witness:
  "\<exists>u. extract_usage OpenAI one_answer ''x'' 200 = Inr (Some u) \<and> u_prompt u = 5 \<and> u_total u \<noteq> 0"
proof -
  obtain u where u: "extract_usage OpenAI one_answer ''x'' 200 = Inr (Some u)" "u_prompt u = 5" "u_completion u = 2"
    by (simp add: openai_extractor_def usage_block_def one_answer_def int_or_zero_def py_int_def py_or_def
        and_then_def Let_def each_of_def py_iter_def first_get_def sub_get_def dict_of_def
        normalize_finish_reason_def)
  show ?thesis
    using extracted_usage_counts [OF u(1)] u by auto
qed

lemma ends_with_iff: "ends_with s t \<longleftrightarrow> (\<exists>r. s = r @ t)"
  by (auto simp: ends_with_def) (metis append_take_drop_id)

text \<open>A host has an extractor exactly when it is a listed one or a subdomain of a listed one.\<close>

lemma match_extractor_exact:
  "match_extractor host \<noteq> None \<longleftrightarrow>
     (\<exists>s \<in> set (map fst provider_extractors). host = s \<or> (\<exists>r. host = r @ ''.'' @ s))"
proof -
  have keys: "map_of provider_extractors host \<noteq> None \<longleftrightarrow> host \<in> set (map fst provider_extractors)"
    by (simp add: map_of_eq_None_iff)
  have found: "find (\<lambda>(s, p). ends_with host (''.'' @ s)) provider_extractors \<noteq> None
      \<longleftrightarrow> (\<exists>s \<in> set (map fst provider_extractors). \<exists>r. host = r @ ''.'' @ s)"
    by (auto simp: find_None_iff ends_with_iff) force
  have "[] \<notin> set (map fst provider_extractors)"
    by (simp add: provider_extractors_def)
  then show ?thesis
    using keys found by (cases "map_of provider_extractors host") (auto simp: match_extractor_def)
qed

lemma bedrock_regional_host_unmatched:
  "match_extractor ''bedrock-runtime.us-east-1.amazonaws.com'' = None
   \<and> provider_label ''bedrock-runtime.us-east-1.amazonaws.com'' = ''bedrock''"
  by (simp add: match_extractor_def provider_extractors_def ends_with_def provider_label_def)

text \<open>A provider's answer with a usage block whose list of choices is malformed makes the extractor raise.\<close>

lemma malformed_choice_raises:
  assumes "loads body = Some (JObj [(''usage'', JObj [(''total_tokens'', JInt 7)]), (''choices'', JList [JStr c])])"
    "body \<noteq> []" "status < 400"
  shows "openai_extractor loads body status = Inl ''AttributeError''"
  using assms
  by (simp add: openai_extractor_def usage_block_def int_or_zero_def py_int_def py_or_def and_then_def Let_def
      each_of_def py_iter_def choice_tools_def dict_of_def)

lemma estimate_bound: "estimate_tokens text \<le> length text"
proof -
  have "length (filter is_cjk text) \<le> length text" by simp
  then show ?thesis
    unfolding estimate_tokens_def Let_def by linarith
qed

text \<open>
  the profile of a request is bounded.  It names a non-empty model, the estimated input is at most 32768
  tokens and at most the number of characters of its texts, and a declared output bound is positive.
\<close>

theorem request_profile_bounds:
  assumes "profile_of_body points blank loads body = Some q"
  shows "rq_model q \<noteq> [] \<and> rq_estimated q \<le> 32768
         \<and> (\<exists>d. loads body = Some (JObj d) \<and> rq_estimated q \<le> length (collect_prompt_text points blank (JObj d)))
         \<and> (\<forall>n. rq_declared_max q = Some n \<longrightarrow> 0 < n)"
proof -
  obtain d m where d: "loads body = Some (JObj d)" "m \<noteq> []"
    "q = \<lparr>rq_model = m,
          rq_estimated = min (estimate_tokens (collect_prompt_text points blank (JObj d))) max_estimated_input_tokens,
          rq_declared_max = declared_max d\<rparr>"
    using assms by (auto simp: profile_of_body_def split: if_splits option.splits json.splits)
  have pos: "0 < n" if n: "declared_max d = Some n" for n
  proof -
    let ?vs = "filter positive_int (map (jget d) max_output_token_fields)"
    obtain v vs where vs: "?vs = v # vs"
      using n by (cases ?vs) (simp_all add: declared_max_def)
    then have "v = JInt n"
      using n by (simp add: declared_max_def split: json.splits)
    moreover have "v \<in> set ?vs"
      unfolding vs by simp
    ultimately show ?thesis by simp
  qed
  show ?thesis
    using d pos estimate_bound [of "collect_prompt_text points blank (JObj d)"]
    by (simp add: max_estimated_input_tokens_def min_le_iff_disj)
qed

definition one_request :: "string \<Rightarrow> json option" where
  "one_request body =
     Some (JObj [(''model'', JStr ''m''), (''max_tokens'', JInt 9), (''prompt'', JStr ''hello'')])"

lemma request_profile_bounds_witness:
  "\<exists>q. profile_of_body (map of_char) (\<lambda>n. n = 32) one_request ''x'' = Some q \<and> rq_declared_max q = Some 9
      \<and> rq_estimated q \<le> 32768"
proof -
  obtain q where q: "profile_of_body (map of_char) (\<lambda>n. n = 32) one_request ''x'' = Some q"
    "rq_declared_max q = Some 9"
    by (simp add: profile_of_body_def one_request_def declared_max_def max_output_token_fields_def)
  show ?thesis
    using request_profile_bounds [OF q(1)] q by auto
qed

end
