(* ===== verification/Endpoints.thy ===== *)
theory Endpoints
  imports Runtime_Gate Error_Contract
begin

text \<open>
  The calls of the transport that send one request and no more (\<open>src/nullrun/transport.py\<close>): the settlement
  of a reservation, cancellation, consumption of an approval, heartbeats, the end of a chain, the approximate
  budget and the audit log; with the query string of \<open>src/nullrun/audit.py\<close> and the wrappers of
  \<open>src/nullrun/runtime.py\<close>.
\<close>

section \<open>One request\<close>

text \<open>\<open>c_get\<close> is an unsigned GET; a request ends with a response or the class of the exception of \<open>httpx\<close>.\<close>

record 'w call_env = "'w gate_env" +
  c_get :: "string \<Rightarrow> 'w \<Rightarrow> (string + http_response) \<times> 'w"

text \<open>The classes below \<open>httpx.RequestError\<close>.\<close>

definition request_errors :: "string list" where
  "request_errors = filter (\<lambda>c. c \<noteq> ''HTTPError'' \<and> c \<noteq> ''HTTPStatusError'') httpx_errors"

definition network_error :: "string \<Rightarrow> string \<Rightarrow> string \<Rightarrow> gate_exn" where
  "network_error path endpoint cls =
     built (transport_init NullRunTransportError (''Network error on '' @ path @ '': '' @ cls) NETWORK_ERROR
              endpoint [] [])"

text \<open>What every one of these calls makes of the end of its request.\<close>

definition settle_request ::
  "('w, 'a) gate_env_scheme \<Rightarrow> string \<Rightarrow> string \<Rightarrow> string + http_response \<Rightarrow> gate_exn + json" where
  "settle_request G path endpoint res =
     (case res of
        Inl cls \<Rightarrow> Inl (if cls \<in> set request_errors then network_error path endpoint cls else PyError cls)
      | Inr r \<Rightarrow>
          (if resp_status r = 200 then
             (case resp_json r of Some j \<Rightarrow> Inr j | None \<Rightarrow> Inl (PyError ''JSONDecodeError''))
           else Inl (built (parse_v3_error_envelope (g_repr G) endpoint
                              (http_response.extend r \<lparr>resp_text = g_text G r\<rparr>)))))"

definition post_once ::
  "('w, 'a) gate_env_scheme \<Rightarrow> string \<Rightarrow> string \<Rightarrow> string \<Rightarrow> dict \<Rightarrow> 'w \<Rightarrow> (gate_exn + json) \<times> 'w" where
  "post_once G url path endpoint body w =
     (case g_post G url body w of (res, w1) \<Rightarrow> (settle_request G path endpoint res, w1))"

definition get_once ::
  "'w call_env \<Rightarrow> string \<Rightarrow> string \<Rightarrow> string \<Rightarrow> 'w \<Rightarrow> (gate_exn + json) \<times> 'w" where
  "get_once G url path endpoint w =
     (case c_get G url w of (res, w1) \<Rightarrow> (settle_request G path endpoint res, w1))"

section \<open>Settlement, cancellation, approvals and chains\<close>

definition track_single :: "('w, 'a) gate_env_scheme \<Rightarrow> dict \<Rightarrow> 'w \<Rightarrow> (gate_exn + json) \<times> 'w" where
  "track_single G req w = post_once G ''/api/v1/track'' ''/track'' ''track'' req w"

definition cancel ::
  "('w, 'a) gate_env_scheme \<Rightarrow> string \<Rightarrow> string \<Rightarrow> 'w \<Rightarrow> (gate_exn + json) \<times> 'w" where
  "cancel G execution_id reason w =
     post_once G ''/api/v1/cancel'' ''/cancel'' ''cancel''
       ((''execution_id'', JStr execution_id) # (if reason = [] then [] else [(''reason'', JStr reason)])) w"

definition consume_approval ::
  "('w, 'a) gate_env_scheme \<Rightarrow> string \<Rightarrow> dict \<Rightarrow> 'w \<Rightarrow> (gate_exn + json) \<times> 'w" where
  "consume_approval G approval_id body w =
     post_once G (''/api/v1/approvals/'' @ approval_id @ ''/consume'') ''/approvals/.../consume''
       ''consume_approval'' body w"

definition heartbeat ::
  "('w, 'a) gate_env_scheme \<Rightarrow> string \<Rightarrow> 'w \<Rightarrow> (gate_exn + json) \<times> 'w" where
  "heartbeat G chain_id w =
     post_once G ''/api/v1/heartbeat'' ''/heartbeat'' ''heartbeat'' [(''chain_id'', JStr chain_id)] w"

definition config_missing :: gate_exn where
  "config_missing = built (nullrun_init NullRunConfigError ''chain_end requires organization_id'' [] [])"

definition str_or_fresh :: "('w \<Rightarrow> string \<times> 'w) \<Rightarrow> string option \<Rightarrow> 'w \<Rightarrow> string \<times> 'w" where
  "str_or_fresh uuid v w = (case v of Some s \<Rightarrow> if s = [] then uuid w else (s, w) | None \<Rightarrow> uuid w)"

text \<open>\<open>digest\<close> is the digest of the empty impact.\<close>

definition chain_end ::
  "('w, 'a) gate_env_scheme \<Rightarrow> string \<Rightarrow> string \<Rightarrow> string option \<Rightarrow> string option \<Rightarrow> string option \<Rightarrow> 'w
     \<Rightarrow> (gate_exn + json) \<times> 'w" where
  "chain_end G digest chain_id organization_id trace_id operation_id w =
     (case organization_id of
        None \<Rightarrow> (Inl config_missing, w)
      | Some org \<Rightarrow>
          (case g_uuid G w of
             (exec, w1) \<Rightarrow>
               (case str_or_fresh (g_uuid G) trace_id w1 of
                  (trace, w2) \<Rightarrow>
                    (case str_or_fresh (g_uuid G) operation_id w2 of
                       (op, w3) \<Rightarrow>
                         post_once G ''/api/v1/gate'' ''/gate (chain_end)'' ''chain_end''
                           [(''organization_id'', JStr org), (''execution_id'', JStr exec),
                            (''trace_id'', JStr trace), (''tool'', JNull), (''input'', JNull),
                            (''mode'', JStr ''auto''), (''operation_id'', JStr op),
                            (''chain_id'', JStr chain_id), (''chain_op'', JStr ''end''),
                            (''action_digest'', JStr digest)] w3))))"

definition approximate_budget :: "'w call_env \<Rightarrow> 'w \<Rightarrow> (gate_exn + json) \<times> 'w" where
  "approximate_budget G w =
     get_once G ''/api/v1/budget/approximate'' ''/budget/approximate'' ''approximate_budget'' w"

section \<open>The audit log\<close>

text \<open>\<open>urllib.parse.urlencode\<close> over bytes.\<close>

definition url_safe :: "char \<Rightarrow> bool" where
  "url_safe c \<longleftrightarrow>
     (let n = (of_char c :: nat) in
      48 \<le> n \<and> n \<le> 57 \<or> 65 \<le> n \<and> n \<le> 90 \<or> 97 \<le> n \<and> n \<le> 122 \<or> c \<in> set ''_.-~'')"

definition upper_hex :: "nat \<Rightarrow> char" where
  "upper_hex n = (if n < 10 then char_of (48 + n) else char_of (55 + n))"

definition quote_plus :: "string \<Rightarrow> string" where
  "quote_plus s =
     concat (map (\<lambda>c. if url_safe c then [c]
                      else if c = CHR '' '' then ''+''
                      else (let n = (of_char c :: nat) in [CHR ''%'', upper_hex (n div 16), upper_hex (n mod 16)])) s)"

definition urlencode :: "(string \<times> string) list \<Rightarrow> string" where
  "urlencode ps = join_with ''&'' (map (\<lambda>(k, v). quote_plus k @ ''='' @ quote_plus v) ps)"

text \<open>A time is given by its \<open>isoformat()\<close>.\<close>

record audit_query =
  aq_action :: "string option"
  aq_event_type :: "string option"
  aq_actor :: "string option"
  aq_resource_type :: "string option"
  aq_resource_id :: "string option"
  aq_decision :: "string option"
  aq_policy_id :: "string option"
  aq_execution_id :: "string option"
  aq_since :: "string option"
  aq_until :: "string option"
  aq_limit :: "int option"

definition empty_query :: audit_query where
  "empty_query =
     \<lparr>aq_action = None, aq_event_type = None, aq_actor = None, aq_resource_type = None, aq_resource_id = None,
      aq_decision = None, aq_policy_id = None, aq_execution_id = None, aq_since = None, aq_until = None,
      aq_limit = None\<rparr>"

definition zulu :: "string \<Rightarrow> string" where
  "zulu ts = (if drop (length ts - 6) ts = ''+00:00'' then take (length ts - 6) ts @ ''Z'' else ts)"

definition to_query_string :: "audit_query \<Rightarrow> string" where
  "to_query_string q =
     urlencode
       (concat (map (\<lambda>(k, v). case v of None \<Rightarrow> [] | Some s \<Rightarrow> [(k, s)])
          [(''action'', aq_action q), (''event_type'', aq_event_type q), (''actor'', aq_actor q),
           (''resource_type'', aq_resource_type q), (''resource_id'', aq_resource_id q),
           (''decision'', aq_decision q), (''policy_id'', aq_policy_id q),
           (''execution_id'', aq_execution_id q), (''since'', map_option zulu (aq_since q)),
           (''until'', map_option zulu (aq_until q)), (''limit'', map_option show_int (aq_limit q))]))"

definition with_query :: "string \<Rightarrow> string \<Rightarrow> string" where
  "with_query url qs = (if qs = [] then url else url @ ''?'' @ qs)"

definition org_path :: "string \<Rightarrow> string \<Rightarrow> string" where
  "org_path org rest = ''/api/v1/orgs/'' @ org @ rest"

definition audit_log ::
  "'w call_env \<Rightarrow> string \<Rightarrow> audit_query option \<Rightarrow> 'w \<Rightarrow> (gate_exn + json) \<times> 'w" where
  "audit_log G org q w =
     get_once G
       (with_query (org_path org ''/audit-log'')
          (to_query_string (case q of None \<Rightarrow> empty_query | Some x \<Rightarrow> x)))
       ''/audit-log'' ''audit_log'' w"

text \<open>The \<open>since\<close> of the verification is put into the URL as it is.\<close>

definition audit_verify ::
  "'w call_env \<Rightarrow> string \<Rightarrow> string option \<Rightarrow> 'w \<Rightarrow> (gate_exn + json) \<times> 'w" where
  "audit_verify G org since w =
     get_once G
       (with_query (org_path org ''/audit-log/verify'')
          (case since of Some s \<Rightarrow> if s = [] then [] else ''since='' @ s | None \<Rightarrow> []))
       ''/audit-log/verify'' ''audit_verify'' w"

definition audit_list_exports :: "'w call_env \<Rightarrow> string \<Rightarrow> 'w \<Rightarrow> (gate_exn + json) \<times> 'w" where
  "audit_list_exports G org w =
     (case get_once G (org_path org ''/audit-log/export'') ''/audit-log/export (list)'' ''audit_list_exports'' w of
        (Inl x, w1) \<Rightarrow> (Inl x, w1)
      | (Inr j, w1) \<Rightarrow>
          (Inr (case j of
                  JObj d \<Rightarrow> py_or (get_or d ''exports'' (JList [])) (JList [])
                | JList xs \<Rightarrow> JList xs
                | _ \<Rightarrow> JList []), w1))"

definition audit_create_export :: "'w call_env \<Rightarrow> string \<Rightarrow> 'w \<Rightarrow> (gate_exn + json) \<times> 'w" where
  "audit_create_export G org w =
     post_once G (org_path org ''/audit-log/export'') ''/audit-log/export (create)'' ''audit_create_export'' [] w"

definition audit_export_status :: "'w call_env \<Rightarrow> string \<Rightarrow> string \<Rightarrow> 'w \<Rightarrow> (gate_exn + json) \<times> 'w" where
  "audit_export_status G org job w =
     get_once G (org_path org (''/audit-log/export/'' @ job @ ''/status''))
       (''/audit-log/export/'' @ job @ ''/status'') ''audit_export_status'' w"

section \<open>The wrappers of the runtime\<close>

definition cancel_execution ::
  "('w, 'a) gate_env_scheme \<Rightarrow> string \<Rightarrow> string \<Rightarrow> 'w \<Rightarrow> (gate_exn + json) \<times> 'w" where
  "cancel_execution G execution_id reason w = cancel G execution_id reason w"

text \<open>Best effort: every exception becomes an answer with the status \<open>error\<close>.\<close>

definition runtime_consume_approval ::
  "('w, 'a) gate_env_scheme \<Rightarrow> string \<Rightarrow> string \<Rightarrow> string \<Rightarrow> 'w \<Rightarrow> json \<times> 'w" where
  "runtime_consume_approval G org approval_id execution_id w =
     (case consume_approval G approval_id
             ((''organization_id'', JStr org)
               # (if execution_id = [] then [] else [(''execution_id'', JStr execution_id)])) w of
        (Inr j, w1) \<Rightarrow> (j, w1)
      | (Inl x, w1) \<Rightarrow> (JObj [(''status'', JStr ''error''), (''approval_id'', JStr approval_id)], w1))"

text \<open>The end of a chain drops its cached gate answers, for the workflow the key is bound to or for all.\<close>

definition runtime_chain_end ::
  "('w, 'a) gate_env_scheme \<Rightarrow> runtime_cfg \<Rightarrow> string \<Rightarrow> string \<Rightarrow> string option \<Rightarrow> runtime_state \<Rightarrow> 'w
     \<Rightarrow> (gate_exn + json) \<times> runtime_state \<times> 'w" where
  "runtime_chain_end G cfg digest chain_id trace_id s w =
     (case chain_end G digest chain_id
             (if rc_organization cfg = [] then None else Some (rc_organization cfg)) trace_id None w of
        (Inl x, w1) \<Rightarrow> (Inl x, s, w1)
      | (Inr j, w1) \<Rightarrow>
          (Inr j,
           s\<lparr>rs_cache :=
               snd (invalidate_gate_cache_for_chain
                      (if rc_workflow cfg = [] then None else Some (rc_workflow cfg)) (JStr chain_id)
                      (rs_cache s))\<rparr>, w1))"

text \<open>
  \<open>ping_chain\<close>: the interval is checked, then the thread alternates a wait with a heartbeat until it is told
  to stop; \<open>stop k\<close> tells whether the stop came during the wait after the \<open>k\<close>th heartbeat.
\<close>

definition ping_interval_ok :: "rat \<Rightarrow> bool" where
  "ping_interval_ok interval \<longleftrightarrow> \<not> (interval < 10 \<or> interval > 120)"

fun heartbeat_loop ::
  "nat \<Rightarrow> ('w, 'a) gate_env_scheme \<Rightarrow> string \<Rightarrow> (nat \<Rightarrow> bool) \<Rightarrow> nat \<Rightarrow> 'w \<Rightarrow> nat \<times> 'w" where
  "heartbeat_loop 0 G chain_id stop k w = (k, w)"
| "heartbeat_loop (Suc n) G chain_id stop k w =
     (if stop k then (k, w)
      else heartbeat_loop n G chain_id stop (Suc k) (snd (heartbeat G chain_id w)))"

section \<open>Laws\<close>

lemma settle_value:
  "settle_request G path endpoint res = Inr j \<longleftrightarrow>
     (\<exists>r. res = Inr r \<and> resp_status r = 200 \<and> resp_json r = Some j)"
  by (auto simp: settle_request_def split: sum.split option.split)

lemma network_error_class: "network_error path endpoint cls = SdkErr e \<Longrightarrow> err_class e = NullRunTransportError"
  by (auto simp: network_error_def built_def split: sum.splits dest: transport_init_class)

text \<open>A decision is only raised for an error answer that names a decision's code.\<close>

lemma settle_decision:
  assumes "settle_request G path endpoint res = Inl (SdkErr e)" "is_subclass (err_class e) NullRunDecision"
  shows "\<exists>r cls. res = Inr r \<and> resp_status r \<noteq> 200
    \<and> code_class (wire_code_of (g_repr G) (http_response.extend r \<lparr>resp_text = g_text G r\<rparr>)) = Some cls
    \<and> is_subclass cls NullRunDecision"
proof (cases res)
  case (Inl cls)
  then have "err_class e = NullRunTransportError"
    using assms(1) network_error_class by (auto simp: settle_request_def split: if_splits)
  with assms(2) show ?thesis
    by (simp add: is_subclass_def)
next
  case (Inr r)
  let ?r = "http_response.extend r \<lparr>resp_text = g_text G r\<rparr>"
  from assms(1) Inr have bad: "resp_status r \<noteq> 200" and "parse_v3_error_envelope (g_repr G) endpoint ?r = Inr e"
    by (auto simp: settle_request_def built_def split: if_splits option.splits sum.splits)
  from parsed_class_split [OF this(2)] assms(2) obtain cls where
    "code_class (wire_code_of (g_repr G) ?r) = Some cls" "is_subclass cls NullRunDecision"
    by blast
  with Inr bad show ?thesis by blast
qed

text \<open>
  the settlement of a reservation is one request.  \<open>track_single\<close> posts the payload once; it returns
  exactly what an answer with status 200 said, and it raises an enforcement decision only when the server
  answered with an error whose code names one: a dead network, a broken body and an unknown error never look
  like a refusal.
\<close>

theorem settlement_exact:
  assumes "track_single G req w = (res, w1)"
  shows "\<exists>ended. g_post G ''/api/v1/track'' req w = (ended, w1)
    \<and> (\<forall>j. res = Inr j \<longleftrightarrow> (\<exists>r. ended = Inr r \<and> resp_status r = 200 \<and> resp_json r = Some j))
    \<and> (\<forall>e. res = Inl (SdkErr e) \<and> is_subclass (err_class e) NullRunDecision \<longrightarrow>
         (\<exists>r cls. ended = Inr r \<and> resp_status r \<noteq> 200
            \<and> code_class (wire_code_of (g_repr G) (http_response.extend r \<lparr>resp_text = g_text G r\<rparr>)) = Some cls
            \<and> is_subclass cls NullRunDecision))"
proof -
  obtain ended where ended: "g_post G ''/api/v1/track'' req w = (ended, w1)"
    "res = settle_request G ''/track'' ''track'' ended"
    using assms by (auto simp: track_single_def post_once_def split: prod.splits)
  show ?thesis
  proof (intro exI conjI)
    show "g_post G ''/api/v1/track'' req w = (ended, w1)"
      by (rule ended)
    show "\<forall>j. res = Inr j \<longleftrightarrow> (\<exists>r. ended = Inr r \<and> resp_status r = 200 \<and> resp_json r = Some j)"
      unfolding ended(2) settle_value by simp
    show "\<forall>e. res = Inl (SdkErr e) \<and> is_subclass (err_class e) NullRunDecision \<longrightarrow>
         (\<exists>r cls. ended = Inr r \<and> resp_status r \<noteq> 200
            \<and> code_class (wire_code_of (g_repr G) (http_response.extend r \<lparr>resp_text = g_text G r\<rparr>)) = Some cls
            \<and> is_subclass cls NullRunDecision)"
      unfolding ended(2) by (intro allI impI) (elim conjE, rule settle_decision)
  qed
qed

definition accepting_backend :: "'w gate_env" where
  "accepting_backend =
     \<lparr>g_post = (\<lambda>path body w. (Inr \<lparr>resp_status = 200, resp_json = Some (JObj body), resp_retry_after = None\<rparr>, w)),
      g_random = (\<lambda>w. (0, w)), g_now = (\<lambda>w. (0, w)), g_sleep = (\<lambda>d w. (False, w)), g_inc = (\<lambda>k w. w),
      g_uuid = (\<lambda>w. ([], w)), g_text = (\<lambda>r. []), g_repr = (\<lambda>j. []), g_execute_retries = 0,
      g_ceiling = 0\<rparr>"

lemma settlement_exact_witness:
  "track_single accepting_backend [(''tokens'', JInt 3)] () = (Inr (JObj [(''tokens'', JInt 3)]), ())
   \<and> (\<exists>r. g_post accepting_backend ''/api/v1/track'' [(''tokens'', JInt 3)] () = (Inr r, ()) \<and> resp_status r = 200)"
proof -
  have sent: "track_single accepting_backend [(''tokens'', JInt 3)] () = (Inr (JObj [(''tokens'', JInt 3)]), ())"
    by (simp add: track_single_def post_once_def settle_request_def accepting_backend_def)
  show ?thesis
    using settlement_exact [OF sent] sent by auto
qed

text \<open>
  A chain that ends drops the cached answers of the workflow the key is bound to; those of a workflow the
  context named stay.
\<close>

lemma other_workflow_stays_cached:
  assumes "runtime_chain_end G cfg digest chain_id trace s w = (Inr j, s1, w1)"
    and "rc_workflow cfg \<noteq> []" "(key, entry) \<in> set (rs_cache s)" "fst key \<noteq> rc_workflow cfg"
  shows "(key, entry) \<in> set (rs_cache s1)"
  using assms
  by (auto simp: runtime_chain_end_def invalidate_gate_cache_for_chain_def Let_def split: prod.splits sum.splits)

lemma heartbeat_count: "fst (heartbeat_loop n G chain_id stop k w) \<le> k + n"
proof (induction n arbitrary: k w)
  case (Suc n)
  then show ?case
    using Suc.IH [of "Suc k" "snd (heartbeat G chain_id w)"] by simp
qed simp

end
