(* ===== verification/Track.thy ===== *)
theory Track
  imports Context Endpoints
begin

text \<open>
  Reporting an event (\<open>NullRunRuntime.track\<close> and its helpers in \<open>src/nullrun/runtime.py\<close>): the filter of
  repeated observations, the fields added from the context, the check of the control plane, what is stripped
  before the wire, and the choice between the batch and the settlement of a reservation.  Workflow ids are
  texts; the two calls of the transport are logged in the order they are made.
\<close>

section \<open>State and environment\<close>

datatype wire_call = BatchTrack dict | SingleTrack dict

record track_state =
  tr_ctx :: ctx
  tr_plane :: plane
  tr_seen :: "string list"
  tr_cache :: "(gate_key \<times> (rat \<times> json)) list"
  tr_calls :: "wire_call list"
  tr_llm_events :: nat

record 'w track_env =
  te_plane :: "'w plane_env"
  te_gate :: "'w gate_env"
  te_environ :: "string \<Rightarrow> string option"
  te_uuid :: "'w \<Rightarrow> string \<times> 'w"
  te_uuid7 :: "'w \<Rightarrow> string \<times> 'w"
  te_now :: "'w \<Rightarrow> rat \<times> 'w"
  te_repr :: "json \<Rightarrow> string"
  te_fingerprint :: "dict \<Rightarrow> string"

section \<open>Repeated observations\<close>

definition dedup_max :: nat where "dedup_max = 4096"

text \<open>\<open>_fingerprint_is_seen\<close>: the keys of the ordered dictionary, least recently used first.\<close>

definition fingerprint_is_seen :: "string list \<Rightarrow> string \<Rightarrow> bool \<times> string list" where
  "fingerprint_is_seen seen fp =
     (if fp = [] then (False, seen)
      else if fp \<in> set seen then (True, filter (\<lambda>x. x \<noteq> fp) seen @ [fp])
      else (let seen1 = seen @ [fp] in (False, if dedup_max < length seen1 then tl seen1 else seen1)))"

section \<open>Enrichment\<close>

definition opt_text :: "string option \<Rightarrow> string" where
  "opt_text v = (case v of None \<Rightarrow> [] | Some s \<Rightarrow> s)"

definition set_missing :: "string \<Rightarrow> json \<Rightarrow> dict \<Rightarrow> dict" where
  "set_missing k v d = (if dict_get d k = None then dict_set k v d else d)"

text \<open>An id from the context, else a fresh one; only drawn when the key is missing.\<close>

definition add_id ::
  "('w \<Rightarrow> string \<times> 'w) \<Rightarrow> string \<Rightarrow> string option \<Rightarrow> dict \<Rightarrow> 'w \<Rightarrow> dict \<times> 'w" where
  "add_id uuid k v d w =
     (if dict_get d k \<noteq> None then (d, w)
      else (case str_or_fresh uuid v w of (i, w1) \<Rightarrow> (dict_set k (JStr i) d, w1)))"

definition max_reservation_age :: rat where "max_reservation_age = 295"

text \<open>The minted execution id, unless it is older than the server keeps it: then the capture is erased.\<close>

definition add_execution_id ::
  "'w track_env \<Rightarrow> dict \<Rightarrow> ctx \<Rightarrow> 'w \<Rightarrow> dict \<times> ctx \<times> 'w" where
  "add_execution_id E d c w =
     (if dict_get d ''execution_id'' \<noteq> None then (d, c, w)
      else
        (case v_minted c of
           None \<Rightarrow> (d, c, w)
         | Some eid \<Rightarrow>
             (if eid = [] then (d, c, w)
              else
                (case te_now E w of
                   (now, w1) \<Rightarrow>
                     (if now - v_minted_at c \<ge> max_reservation_age
                      then (d, clear_server_minted_execution_id c, w1)
                      else (dict_set ''execution_id'' (JStr eid) d, c, w1))))))"

definition compound_key :: "(json \<Rightarrow> string) \<Rightarrow> json \<Rightarrow> string \<Rightarrow> string" where
  "compound_key rep span_id key =
     (if truthy span_id \<and> CHR '':'' \<notin> set key then key @ '':'' @ take 16 (py_str rep span_id) else key)"

definition add_idempotency_key :: "(json \<Rightarrow> string) \<Rightarrow> ctx \<Rightarrow> dict \<Rightarrow> dict" where
  "add_idempotency_key rep c d =
     (if dict_get d ''idempotency_key'' \<noteq> None \<or> opt_text (v_idempotency c) = [] then d
      else dict_set ''idempotency_key''
             (JStr (compound_key rep (jget d ''span_id'') (opt_text (v_idempotency c)))) d)"

definition enrich_event :: "'w track_env \<Rightarrow> dict \<Rightarrow> track_state \<Rightarrow> 'w \<Rightarrow> dict \<times> track_state \<times> 'w" where
  "enrich_event E ev s w =
     (let c = tr_ctx s;
          wid = resolve_workflow_id (opt_text (v_workflow c)) (tr_plane s);
          d1 = (if wid = [] then ev else set_missing ''workflow_id'' (JStr wid) ev) in
      (case add_id (te_uuid E) ''trace_id'' (v_trace c) d1 w of
         (d2, w1) \<Rightarrow>
           (case add_id (te_uuid E) ''span_id'' (v_span c) d2 w1 of
              (d3, w2) \<Rightarrow>
                (let agent = opt_text (v_agent c);
                     d4 = (if agent = [] then d3 else set_missing ''agent_id'' (JStr agent) d3);
                     d5 = (if v_attempt c > 0 then set_missing ''attempt_index'' (JInt (v_attempt c)) d4 else d4) in
                 (case add_execution_id E d5 c w2 of
                    (d6, c1, w3) \<Rightarrow>
                      (let d7 = add_idempotency_key (te_repr E) c1 d6;
                           trace = opt_text (v_trace c1);
                           d8 = (if trace = [] then d7 else dict_set ''parent_trace_id'' (JStr trace) d7) in
                       (set_missing ''operation_name'' JNull
                          (set_missing ''is_retry'' (JBool False) (set_missing ''type'' (JStr ''event'') d8)),
                        s\<lparr>tr_ctx := c1\<rparr>, w3)))))))"

section \<open>The payload of a settlement\<close>

text \<open>One optional field: copied, or read with \<open>int\<close>.\<close>

datatype field = Whole string | Truthy string | Number string

definition add_field :: "dict \<Rightarrow> field \<Rightarrow> string + dict \<Rightarrow> string + dict" where
  "add_field src f acc =
     (case acc of
        Inl x \<Rightarrow> Inl x
      | Inr p \<Rightarrow>
          (case f of
             Whole k \<Rightarrow> Inr (if jget src k = JNull then p else dict_set k (jget src k) p)
           | Truthy k \<Rightarrow> Inr (if truthy (jget src k) then dict_set k (jget src k) p else p)
           | Number k \<Rightarrow>
               (if jget src k = JNull then Inr p
                else (case py_int (jget src k) of Inl x \<Rightarrow> Inl x | Inr n \<Rightarrow> Inr (dict_set k (JInt n) p)))))"

definition payload_fields :: "field list" where
  "payload_fields =
     [Number ''input_tokens'', Number ''output_tokens'', Truthy ''model'', Truthy ''provider'',
      Number ''latency_ms'', Truthy ''metadata'', Truthy ''trace_id'', Truthy ''span_id'',
      Truthy ''parent_trace_id'', Whole ''agent_id'', Whole ''environment'', Whole ''agent_type'',
      Whole ''attempt_index'', Whole ''is_retry'', Whole ''cache_read_tokens'', Whole ''cache_write_tokens'',
      Whole ''reasoning_tokens'', Whole ''finish_reason'', Whole ''tool_names'']"

definition settlement_key :: "(json \<Rightarrow> string) \<Rightarrow> ctx \<Rightarrow> dict \<Rightarrow> string" where
  "settlement_key rep c d =
     (if truthy (jget d ''idempotency_key'') then py_str rep (jget d ''idempotency_key'')
      else opt_text (v_idempotency c))"

text \<open>\<open>None\<close> when the event has no workflow or no tokens; \<open>Inl\<close> is an exception of \<open>int()\<close>.\<close>

definition build_v3_track_payload ::
  "(json \<Rightarrow> string) \<Rightarrow> ctx \<Rightarrow> dict \<Rightarrow> string \<Rightarrow> string + dict option" where
  "build_v3_track_payload rep c d rid =
     (if \<not> truthy (jget d ''workflow_id'') \<or> jget d ''tokens'' = JNull then Inr None
      else
        (case py_int (jget d ''tokens'') of
           Inl x \<Rightarrow> Inl x
         | Inr n \<Rightarrow>
             (case fold (add_field d) payload_fields
                     (Inr [(''reservation_id'', JStr rid), (''workflow_id'', jget d ''workflow_id''),
                           (''tokens'', JInt n), (''cost_source'', JStr ''provisional'')]) of
                Inl x \<Rightarrow> Inl x
              | Inr p \<Rightarrow>
                  (let key = settlement_key rep c d in
                   Inr (Some (if key = [] then p else dict_set ''idempotency_key'' (JStr key) p))))))"

section \<open>Routing\<close>

definition v3_disabled :: "'w track_env \<Rightarrow> bool" where
  "v3_disabled E =
     (case te_environ E ''NULLRUN_V3_TRACK_DISABLE'' of None \<Rightarrow> False | Some v \<Rightarrow> strip v = ''1'')"

definition log_call :: "wire_call \<Rightarrow> track_state \<Rightarrow> track_state" where
  "log_call x s = s\<lparr>tr_calls := tr_calls s @ [x]\<rparr>"

definition opt_json :: "string option \<Rightarrow> json" where
  "opt_json v = (case v of None \<Rightarrow> JNull | Some s \<Rightarrow> JStr s)"

text \<open>\<open>getattr(exc, "status_code", None) in (402, 422)\<close>.\<close>

definition refused_status :: "gate_exn \<Rightarrow> bool" where
  "refused_status x =
     (case x of SdkErr e \<Rightarrow> jget (err_attrs e) ''status_code'' \<in> {JInt 402, JInt 422} | _ \<Rightarrow> False)"

definition is_decision :: "gate_exn \<Rightarrow> bool" where
  "is_decision x = (case x of SdkErr e \<Rightarrow> is_subclass (err_class e) NullRunDecision | _ \<Rightarrow> False)"

definition drop_cached_for :: "dict \<Rightarrow> track_state \<Rightarrow> track_state" where
  "drop_cached_for d s =
     s\<lparr>tr_cache := snd (invalidate_gate_cache_for_chain
                         (case jget d ''workflow_id'' of JStr wid \<Rightarrow> Some wid | _ \<Rightarrow> None)
                         (opt_json (v_chain (tr_ctx s))) (tr_cache s))\<rparr>"

definition settle_single ::
  "'w track_env \<Rightarrow> dict \<Rightarrow> dict \<Rightarrow> track_state \<Rightarrow> 'w \<Rightarrow> protect_exn option \<times> track_state \<times> 'w" where
  "settle_single E d p s w =
     (case track_single (te_gate E) p w of
        (Inr j, w1) \<Rightarrow> (None, log_call (SingleTrack p) s, w1)
      | (Inl x, w1) \<Rightarrow>
          (let s1 = log_call (SingleTrack p) s; s2 = (if refused_status x then drop_cached_for d s1 else s1) in
           (if is_decision x then Some (Refused x) else None, s2, w1)))"

definition reservation_for :: "string option \<Rightarrow> ctx \<Rightarrow> string" where
  "reservation_for given c = (if opt_text given \<noteq> [] then opt_text given else opt_text (v_minted c))"

definition route_track ::
  "'w track_env \<Rightarrow> dict \<Rightarrow> string option \<Rightarrow> track_state \<Rightarrow> 'w \<Rightarrow> protect_exn option \<times> track_state \<times> 'w"
where
  "route_track E d given s w =
     (if jget d ''type'' \<noteq> JStr ''llm_call'' \<or> v3_disabled E then (None, log_call (BatchTrack d) s, w)
      else
        (let rid = reservation_for given (tr_ctx s) in
         if rid = [] then (None, s, w)
         else
           (case build_v3_track_payload (te_repr E) (tr_ctx s) d rid of
              Inl x \<Rightarrow> (Some (Raising x), s, w)
            | Inr None \<Rightarrow> (None, log_call (BatchTrack d) s, w)
            | Inr (Some p) \<Rightarrow> settle_single E d p s w)))"

section \<open>Tracking\<close>

definition wire_strip_fields :: "string list" where
  "wire_strip_fields = [''cost_cents'', ''_fingerprint'', ''raw_usage'']"

definition wire_event_of :: "dict \<Rightarrow> dict" where
  "wire_event_of d =
     (let wire = filter (\<lambda>(k, v). k \<notin> set wire_strip_fields \<and> v \<noteq> JNull) d in
      if jget wire ''type'' = JStr ''llm_call'' \<and> \<not> truthy (jget wire ''model'')
      then dict_set ''__missing_model'' (JBool True) wire else wire)"

definition track_result :: "bool \<Rightarrow> dict" where
  "track_result deduped =
     [(''allowed'', JBool True), (''actions'', JList []), (''local_cost_cents'', JInt 0)]
     @ (if deduped then [(''deduped'', JBool True)] else [])"

definition known_workflow :: "string \<Rightarrow> plane \<Rightarrow> plane" where
  "known_workflow wid p = (if wid = [] then p else snd (remote_state_for (JStr wid) p))"

text \<open>The part of \<open>track\<close> behind the filter.\<close>

definition track_fresh ::
  "'w track_env \<Rightarrow> dict \<Rightarrow> string option \<Rightarrow> track_state \<Rightarrow> 'w \<Rightarrow> (protect_exn + dict) \<times> track_state \<times> 'w"
where
  "track_fresh E ev given s w =
     (case enrich_event E ev s w of
        (d0, s1, w1) \<Rightarrow>
          (let d = set_missing ''tokens'' (JInt 0) d0; wid = json_text (jget d ''workflow_id'') in
           (case check_control_plane (te_plane E) wid (known_workflow wid (tr_plane s1)) w1 of
              (verdict, p, w2) \<Rightarrow>
                (let s2 = s1\<lparr>tr_plane := p\<rparr> in
                 if verdict \<noteq> Proceed then (Inl (Stopped verdict), s2, w2)
                 else
                   (case route_track E (wire_event_of d) given s2 w2 of
                      (Some x, s3, w3) \<Rightarrow> (Inl x, s3, w3)
                    | (None, s3, w3) \<Rightarrow> (Inr (track_result False), s3, w3))))))"

definition runtime_track ::
  "'w track_env \<Rightarrow> dict \<Rightarrow> string option \<Rightarrow> track_state \<Rightarrow> 'w \<Rightarrow> (protect_exn + dict) \<times> track_state \<times> 'w"
where
  "runtime_track E ev given s w =
     (case fingerprint_is_seen (tr_seen s) (json_text (jget ev ''_fingerprint'')) of
        (True, seen) \<Rightarrow> (Inr (track_result True), s\<lparr>tr_seen := seen\<rparr>, w)
      | (False, seen) \<Rightarrow> track_fresh E ev given (s\<lparr>tr_seen := seen\<rparr>) w)"

text \<open>The fields of the current span.\<close>

definition span_fields :: "ctx \<Rightarrow> dict \<Rightarrow> dict" where
  "span_fields c d =
     (case v_current c of
        None \<Rightarrow> d
      | Some sp \<Rightarrow>
          dict_set ''depth'' (JInt (int (sp_depth sp)))
            (dict_set ''parent_span_id'' (opt_json (sp_parent sp))
              (dict_set ''span_id'' (JStr (sp_span_id sp)) (dict_set ''trace_id'' (JStr (sp_trace_id sp)) d))))"

definition track_llm ::
  "'w track_env \<Rightarrow> int \<Rightarrow> int \<Rightarrow> string \<Rightarrow> int option \<Rightarrow> dict \<Rightarrow> track_state \<Rightarrow> 'w
     \<Rightarrow> (protect_exn + dict) \<times> track_state \<times> 'w" where
  "track_llm E inp out model latency metadata s w =
     runtime_track E
       (span_fields (tr_ctx s)
          ([(''type'', JStr ''llm_call''), (''input_tokens'', JInt inp), (''output_tokens'', JInt out),
            (''tokens'', JInt (inp + out))]
           @ (if model = [] then [] else [(''model'', JStr model)])
           @ (case latency of None \<Rightarrow> [] | Some l \<Rightarrow> [(''latency_ms'', JInt l)])
           @ (if metadata = [] then [] else [(''metadata'', JObj metadata)])))
       None (s\<lparr>tr_llm_events := Suc (tr_llm_events s)\<rparr>) w"

definition track_tool ::
  "'w track_env \<Rightarrow> string \<Rightarrow> int option \<Rightarrow> bool \<Rightarrow> dict \<Rightarrow> track_state \<Rightarrow> 'w
     \<Rightarrow> (protect_exn + dict) \<times> track_state \<times> 'w" where
  "track_tool E tool duration is_retry metadata s w =
     (case te_uuid7 E w of
        (eid, w1) \<Rightarrow>
          runtime_track E
            (span_fields (tr_ctx s)
               ([(''type'', JStr ''tool_call''), (''tool_name'', JStr tool), (''tokens'', JInt 0),
                 (''execution_id'', JStr eid), (''is_retry'', JBool is_retry)]
                @ (case duration of None \<Rightarrow> [] | Some l \<Rightarrow> [(''latency_ms'', JInt l)])
                @ (if metadata = [] then [] else [(''metadata'', JObj metadata)])))
            None s w1)"

text \<open>A custom event carries the fingerprint of its own content.\<close>

definition track_event ::
  "'w track_env \<Rightarrow> string \<Rightarrow> dict \<Rightarrow> track_state \<Rightarrow> 'w \<Rightarrow> (protect_exn + dict) \<times> track_state \<times> 'w" where
  "track_event E event_type kwargs s w =
     (let ev = set_missing ''tokens'' (JInt 0) (fold (\<lambda>(k, v). dict_set k v) kwargs [(''type'', JStr event_type)]) in
      runtime_track E (set_missing ''_fingerprint'' (JStr (te_fingerprint E ev)) ev) None s w)"

end
