(* ===== verification/Track_Laws.thy ===== *)
theory Track_Laws
  imports Track
begin

text \<open>
  What reporting an event promises: an LLM event reaches the wire only with a reservation and never through
  the batch, a stopped workflow reports nothing, a stale reservation is not settled, a refused settlement is
  raised; and where the code and its comments part.
\<close>

section \<open>Effects of the parts\<close>

lemma add_execution_ctx:
  "add_execution_id E d c w = (d', c', w') \<Longrightarrow> c' = c \<or> c' = clear_server_minted_execution_id c"
  by (auto simp: add_execution_id_def split: if_splits option.splits prod.splits)

text \<open>Enrichment changes nothing but the context, and that only by erasing a capture.\<close>

lemma enrich_state:
  assumes "enrich_event E ev s w = (d, s1, w1)"
  obtains c1 where "s1 = s\<lparr>tr_ctx := c1\<rparr>" "c1 = tr_ctx s \<or> c1 = clear_server_minted_execution_id (tr_ctx s)"
  using assms unfolding enrich_event_def Let_def
  by (auto split: prod.splits dest!: add_execution_ctx)

lemma set_missing_keep: "dict_get d k \<noteq> None \<Longrightarrow> dict_get (set_missing k' v d) k = dict_get d k"
  by (auto simp: set_missing_def)

lemma add_id_keep:
  "add_id uuid k' v d w = (d', w') \<Longrightarrow> dict_get d k \<noteq> None \<Longrightarrow> dict_get d' k = dict_get d k"
  by (auto simp: add_id_def split: if_splits prod.splits)

lemma add_execution_keep:
  "add_execution_id E d c w = (d', c', w') \<Longrightarrow> dict_get d k \<noteq> None \<Longrightarrow> dict_get d' k = dict_get d k"
  by (auto simp: add_execution_id_def split: if_splits option.splits prod.splits)

lemma add_key_keep: "dict_get d k \<noteq> None \<Longrightarrow> dict_get (add_idempotency_key rep c d) k = dict_get d k"
  by (auto simp: add_idempotency_key_def)

text \<open>The last steps of the enrichment, after the fields that depend on the clock and on fresh ids.\<close>

definition finish_event :: "(json \<Rightarrow> string) \<Rightarrow> ctx \<Rightarrow> dict \<Rightarrow> dict" where
  "finish_event rep c d =
     set_missing ''operation_name'' JNull
       (set_missing ''is_retry'' (JBool False)
         (set_missing ''type'' (JStr ''event'')
           (if opt_text (v_trace c) = [] then add_idempotency_key rep c d
            else dict_set ''parent_trace_id'' (JStr (opt_text (v_trace c))) (add_idempotency_key rep c d))))"

text \<open>Before them, the fields of the event are kept and no idempotency key is added.\<close>

lemma enrich_parts:
  assumes "enrich_event E ev s w = (d, s1, w1)"
  shows "\<exists>d6. d = finish_event (te_repr E) (tr_ctx s1) d6
    \<and> (\<forall>k v. dict_get ev k = Some v \<longrightarrow> dict_get d6 k = Some v)
    \<and> (dict_get ev ''idempotency_key'' = None \<longrightarrow> dict_get d6 ''idempotency_key'' = None)"
proof -
  let ?c = "tr_ctx s"
  let ?wid = "resolve_workflow_id (opt_text (v_workflow ?c)) (tr_plane s)"
  let ?d1 = "if ?wid = [] then ev else set_missing ''workflow_id'' (JStr ?wid) ev"
  obtain d2 wa where a: "add_id (te_uuid E) ''trace_id'' (v_trace ?c) ?d1 w = (d2, wa)" by fastforce
  obtain d3 wb where b: "add_id (te_uuid E) ''span_id'' (v_span ?c) d2 wa = (d3, wb)" by fastforce
  let ?d4 = "if opt_text (v_agent ?c) = [] then d3 else set_missing ''agent_id'' (JStr (opt_text (v_agent ?c))) d3"
  let ?d5 = "if v_attempt ?c > 0 then set_missing ''attempt_index'' (JInt (v_attempt ?c)) ?d4 else ?d4"
  obtain d6 c1 wc where e: "add_execution_id E ?d5 ?c wb = (d6, c1, wc)"
    by (cases "add_execution_id E ?d5 ?c wb") auto
  have shape: "d = finish_event (te_repr E) (tr_ctx s1) d6"
    using assms a b e unfolding enrich_event_def Let_def finish_event_def by auto
  have kept: "dict_get d6 k = Some v" if "dict_get ev k = Some v" for k v
  proof -
    have "dict_get ?d1 k = Some v"
      using that set_missing_keep [of ev k] by simp
    then have "dict_get d3 k = Some v"
      using add_id_keep [OF a] add_id_keep [OF b] by force
    then have "dict_get ?d5 k = Some v"
      using set_missing_keep by (simp split: if_split)
    then show ?thesis
      using add_execution_keep [OF e, of k] by simp
  qed
  have unset: "dict_get d6 ''idempotency_key'' = None" if "dict_get ev ''idempotency_key'' = None"
  proof -
    have "dict_get ?d1 ''idempotency_key'' = None"
      using that by (simp add: set_missing_def)
    then have "dict_get d3 ''idempotency_key'' = None"
      using a b by (auto simp: add_id_def split: if_splits prod.splits)
    then have "dict_get ?d5 ''idempotency_key'' = None"
      by (simp add: set_missing_def)
    then show ?thesis
      using e by (auto simp: add_execution_id_def split: if_splits option.splits prod.splits)
  qed
  show ?thesis
    by (intro exI [of _ d6] conjI allI impI) (fact shape, rule kept, assumption, rule unset, assumption)
qed

lemma finish_keep:
  "dict_get d k = Some v \<Longrightarrow> k \<noteq> ''parent_trace_id'' \<Longrightarrow> dict_get (finish_event rep c d) k = Some v"
  using set_missing_keep add_key_keep by (simp add: finish_event_def)

text \<open>A field the event has is kept, but for the parent trace.\<close>

lemma enrich_keep:
  assumes "enrich_event E ev s w = (d, s1, w1)" "dict_get ev k = Some v" "k \<noteq> ''parent_trace_id''"
  shows "dict_get d k = Some v"
  using enrich_parts [OF assms(1)] assms(2,3) by (blast intro: finish_keep)

text \<open>The idempotency key of the context, compounded with the span.\<close>

lemma enrich_key:
  assumes "enrich_event E ev s w = (d, s1, w1)" "dict_get ev ''idempotency_key'' = None"
    and "dict_get ev ''span_id'' = Some (JStr sid)" "sid \<noteq> []"
    and "v_idempotency (tr_ctx s1) = Some op" "op \<noteq> []" "CHR '':'' \<notin> set op"
  shows "dict_get d ''idempotency_key'' = Some (JStr (op @ '':'' @ take 16 sid))"
proof -
  obtain d6 where d6: "d = finish_event (te_repr E) (tr_ctx s1) d6"
    and kept: "\<forall>k v. dict_get ev k = Some v \<longrightarrow> dict_get d6 k = Some v"
    and unset: "dict_get ev ''idempotency_key'' = None \<longrightarrow> dict_get d6 ''idempotency_key'' = None"
    using enrich_parts [OF assms(1)] by (elim exE conjE) (rule that)
  have "dict_get d6 ''span_id'' = Some (JStr sid)" "dict_get d6 ''idempotency_key'' = None"
    by (rule kept [rule_format, OF assms(3)], rule unset [rule_format, OF assms(2)])
  then have "dict_get (add_idempotency_key (te_repr E) (tr_ctx s1) d6) ''idempotency_key''
      = Some (JStr (op @ '':'' @ take 16 sid))"
    using assms(4-7) by (simp add: add_idempotency_key_def opt_text_def compound_key_def jget_def py_str_def)
  then show ?thesis
    unfolding d6 finish_event_def using set_missing_keep by simp
qed

lemma fold_field_Inl [simp]: "fold (add_field d) fs (Inl x) = Inl x"
  by (induction fs) (simp_all add: add_field_def)

fun field_key :: "field \<Rightarrow> string" where
  "field_key (Whole k) = k"
| "field_key (Truthy k) = k"
| "field_key (Number k) = k"

lemma add_field_keep:
  "add_field d f (Inr p) = Inr p' \<Longrightarrow> k \<noteq> field_key f \<Longrightarrow> dict_get p' k = dict_get p k"
  by (cases f) (auto simp: add_field_def split: if_splits sum.splits)

lemma fold_field_keep:
  "fold (add_field d) fs (Inr p) = Inr p' \<Longrightarrow> k \<notin> set (map field_key fs) \<Longrightarrow> dict_get p' k = dict_get p k"
proof (induction fs arbitrary: p)
  case (Cons f fs)
  then show ?case
    by (cases "add_field d f (Inr p)") (auto dest: add_field_keep)
qed simp

lemma payload_reservation:
  assumes "build_v3_track_payload rep c d rid = Inr (Some p)"
  shows "dict_get p ''reservation_id'' = Some (JStr rid)"
    and "settlement_key rep c d \<noteq> [] \<Longrightarrow> dict_get p ''idempotency_key'' = Some (JStr (settlement_key rep c d))"
proof -
  obtain n p0 where p0: "fold (add_field d) payload_fields
      (Inr [(''reservation_id'', JStr rid), (''workflow_id'', jget d ''workflow_id''),
            (''tokens'', JInt n), (''cost_source'', JStr ''provisional'')]) = Inr p0"
    "p = (if settlement_key rep c d = [] then p0 else dict_set ''idempotency_key'' (JStr (settlement_key rep c d)) p0)"
    using assms by (auto simp: build_v3_track_payload_def Let_def split: if_splits sum.splits)
  then show "dict_get p ''reservation_id'' = Some (JStr rid)"
    "settlement_key rep c d \<noteq> [] \<Longrightarrow> dict_get p ''idempotency_key'' = Some (JStr (settlement_key rep c d))"
    using fold_field_keep [OF p0(1), of "''reservation_id''"] by (simp_all add: payload_fields_def)
qed

text \<open>What a route leaves in the log of transport calls.\<close>

lemma drop_cached_keeps [simp]:
  "tr_calls (drop_cached_for d s) = tr_calls s" "tr_ctx (drop_cached_for d s) = tr_ctx s"
  "tr_seen (drop_cached_for d s) = tr_seen s"
  by (simp_all add: drop_cached_for_def)

lemma log_call_simps [simp]:
  "tr_calls (log_call x s) = tr_calls s @ [x]" "tr_ctx (log_call x s) = tr_ctx s"
  "tr_seen (log_call x s) = tr_seen s"
  by (simp_all add: log_call_def)

lemma settle_single_effect:
  assumes "settle_single E d p s w = (r, s', w')"
  shows "tr_calls s' = tr_calls s @ [SingleTrack p]" "tr_ctx s' = tr_ctx s" "tr_seen s' = tr_seen s"
    "(\<exists>j. fst (track_single (te_gate E) p w) = Inr j \<and> r = None)
     \<or> (\<exists>x. fst (track_single (te_gate E) p w) = Inl x \<and> r = (if is_decision x then Some (Refused x) else None))"
  using assms by (auto simp: settle_single_def Let_def split: prod.splits sum.splits if_splits)

text \<open>The four ends of a route.\<close>

lemma route_track_cases:
  assumes "route_track E d given s w = (r, s', w')"
  obtains (dropped) "s' = s" "r = None" "w' = w" "jget d ''type'' = JStr ''llm_call''"
      "reservation_for given (tr_ctx s) = []"
    | (batched) "s' = log_call (BatchTrack d) s" "r = None" "w' = w"
      "jget d ''type'' \<noteq> JStr ''llm_call'' \<or> v3_disabled E \<or> \<not> truthy (jget d ''workflow_id'')
       \<or> jget d ''tokens'' = JNull"
    | (unreadable) x where "s' = s" "r = Some (Raising x)" "w' = w"
    | (settled) p where "jget d ''type'' = JStr ''llm_call''" "\<not> v3_disabled E"
      "reservation_for given (tr_ctx s) \<noteq> []"
      "build_v3_track_payload (te_repr E) (tr_ctx s) d (reservation_for given (tr_ctx s)) = Inr (Some p)"
      "settle_single E d p s w = (r, s', w')"
proof -
  let ?rid = "reservation_for given (tr_ctx s)"
  show thesis
  proof (cases "jget d ''type'' \<noteq> JStr ''llm_call'' \<or> v3_disabled E")
    case True
    with assms show thesis by (intro batched) (auto simp: route_track_def)
  next
    case llm: False
    show thesis
    proof (cases "?rid = []")
      case True
      with assms llm show thesis by (intro dropped) (auto simp: route_track_def)
    next
      case False
      show thesis
      proof (cases "build_v3_track_payload (te_repr E) (tr_ctx s) d ?rid")
        case (Inl x)
        with assms llm False show thesis by (intro unreadable) (auto simp: route_track_def)
      next
        case (Inr po)
        show thesis
        proof (cases po)
          case None
          then have "\<not> truthy (jget d ''workflow_id'') \<or> jget d ''tokens'' = JNull"
            using Inr by (auto simp: build_v3_track_payload_def Let_def split: if_splits sum.splits)
          with assms llm False Inr None show thesis by (intro batched) (auto simp: route_track_def)
        next
          case (Some p)
          with assms llm False Inr show thesis by (intro settled) (auto simp: route_track_def)
        qed
      qed
    qed
  qed
qed

text \<open>Past the filter: the control plane stops the event, or it is routed.\<close>

lemma track_fresh_cases:
  assumes "track_fresh E ev given s w = (r, s', w')"
  obtains d s1 w1 verdict p w2 where "enrich_event E ev s w = (d, s1, w1)"
    "check_control_plane (te_plane E) (json_text (jget (set_missing ''tokens'' (JInt 0) d) ''workflow_id''))
       (known_workflow (json_text (jget (set_missing ''tokens'' (JInt 0) d) ''workflow_id'')) (tr_plane s1)) w1
     = (verdict, p, w2)"
    "verdict \<noteq> Proceed \<and> r = Inl (Stopped verdict) \<and> s' = s1\<lparr>tr_plane := p\<rparr>
     \<or> verdict = Proceed \<and> (\<exists>x. route_track E (wire_event_of (set_missing ''tokens'' (JInt 0) d)) given
                               (s1\<lparr>tr_plane := p\<rparr>) w2 = (x, s', w')
                             \<and> r = (case x of Some y \<Rightarrow> Inl y | None \<Rightarrow> Inr (track_result False)))"
proof -
  obtain d s1 w1 where e: "enrich_event E ev s w = (d, s1, w1)"
    by (cases "enrich_event E ev s w") auto
  let ?d = "set_missing ''tokens'' (JInt 0) d"
  let ?wid = "json_text (jget ?d ''workflow_id'')"
  obtain verdict p w2 where c: "check_control_plane (te_plane E) ?wid (known_workflow ?wid (tr_plane s1)) w1
      = (verdict, p, w2)"
    by (cases "check_control_plane (te_plane E) ?wid (known_workflow ?wid (tr_plane s1)) w1") auto
  show thesis
    using assms by (intro that [OF e c]) (auto simp: track_fresh_def e c Let_def split: prod.splits option.splits if_splits)
qed

lemma runtime_track_cases:
  assumes "runtime_track E ev given s w = (r, s', w')"
  obtains (seen) seen where "fingerprint_is_seen (tr_seen s) (json_text (jget ev ''_fingerprint'')) = (True, seen)"
      "r = Inr (track_result True)" "s' = s\<lparr>tr_seen := seen\<rparr>"
    | (fresh) seen where "fingerprint_is_seen (tr_seen s) (json_text (jget ev ''_fingerprint'')) = (False, seen)"
      "track_fresh E ev given (s\<lparr>tr_seen := seen\<rparr>) w = (r, s', w')"
  using assms by (auto simp: runtime_track_def split: prod.splits bool.splits)

lemma wire_event_clean:
  "\<forall>(k, v) \<in> set (wire_event_of d). k \<notin> set wire_strip_fields \<and> v \<noteq> JNull"
proof -
  let ?w = "filter (\<lambda>(k, v). k \<notin> set wire_strip_fields \<and> v \<noteq> JNull) d"
  have "set (dict_set k x q) \<subseteq> insert (k, x) (set q)" for k :: string and x :: json and q
    unfolding dict_set_def by (induction q) auto
  from this [of "''__missing_model''" "JBool True" ?w] show ?thesis
    by (auto simp: wire_event_of_def Let_def wire_strip_fields_def)
qed

section \<open>What is sent\<close>

text \<open>
  C9: an LLM event is settled with a reservation or not sent.  One call of \<open>track\<close> makes at most one call of
  the transport.  A batched event carries no null field and none of the private fields, and it is an LLM event
  only when the settlement is switched off or the event lacks its workflow or tokens; a settlement names the
  reservation the caller gave, else the one minted in the context.
\<close>

theorem llm_event_needs_reservation:
  assumes "runtime_track E ev given s w = (r, s', w')"
  shows "tr_calls s' = tr_calls s
    \<or> (\<exists>d. tr_calls s' = tr_calls s @ [BatchTrack d]
          \<and> (\<forall>(k, v) \<in> set d. k \<notin> set wire_strip_fields \<and> v \<noteq> JNull)
          \<and> (jget d ''type'' \<noteq> JStr ''llm_call'' \<or> v3_disabled E \<or> \<not> truthy (jget d ''workflow_id'')
              \<or> jget d ''tokens'' = JNull))
    \<or> (\<exists>p. tr_calls s' = tr_calls s @ [SingleTrack p]
          \<and> reservation_for given (tr_ctx s') \<noteq> []
          \<and> dict_get p ''reservation_id'' = Some (JStr (reservation_for given (tr_ctx s'))))"
  using assms
proof (cases rule: runtime_track_cases)
  case (seen sn)
  then show ?thesis by simp
next
  case (fresh sn)
  obtain d s1 w1 verdict p w2 where e: "enrich_event E ev (s\<lparr>tr_seen := sn\<rparr>) w = (d, s1, w1)"
    and ends: "verdict \<noteq> Proceed \<and> r = Inl (Stopped verdict) \<and> s' = s1\<lparr>tr_plane := p\<rparr>
     \<or> verdict = Proceed \<and> (\<exists>x. route_track E (wire_event_of (set_missing ''tokens'' (JInt 0) d)) given
                               (s1\<lparr>tr_plane := p\<rparr>) w2 = (x, s', w')
                             \<and> r = (case x of Some y \<Rightarrow> Inl y | None \<Rightarrow> Inr (track_result False)))"
    using track_fresh_cases [OF fresh(2)] by metis
  have same: "tr_calls s1 = tr_calls s"
    by (rule enrich_state [OF e]) simp
  from ends show ?thesis
  proof (elim disjE conjE exE)
    fix x
    assume "route_track E (wire_event_of (set_missing ''tokens'' (JInt 0) d)) given (s1\<lparr>tr_plane := p\<rparr>) w2 = (x, s', w')"
    then show ?thesis
    proof (cases rule: route_track_cases)
      case batched
      then show ?thesis
        using same wire_event_clean [of "set_missing ''tokens'' (JInt 0) d"] by auto
    next
      case (settled pl)
      then show ?thesis
        using same settle_single_effect(1,2) [OF settled(5)] payload_reservation(1) [OF settled(4)] by auto
    qed (simp_all add: same)
  qed (simp add: same)
qed

section \<open>A stopped workflow\<close>

lemma jget_some: "dict_get d k = Some v \<Longrightarrow> jget d k = v"
  by (simp add: jget_def)

text \<open>An event of a workflow that the control plane has stopped ends there.\<close>

lemma stopped_fresh:
  assumes "track_fresh E ev given s w = (r, s', w')"
    and "dict_get ev ''workflow_id'' = Some (JStr wid)" "wid \<noteq> []"
    and "dict_get (p_states (tr_plane s)) (JStr wid) = Some st" "st \<noteq> []" "state_verdict (JStr wid) st \<noteq> Proceed"
  shows "r = Inl (Stopped (state_verdict (JStr wid) st)) \<and> tr_calls s' = tr_calls s \<and> tr_seen s' = tr_seen s"
proof -
  obtain d s1 w1 verdict p w2 where e: "enrich_event E ev s w = (d, s1, w1)"
    and c: "check_control_plane (te_plane E) (json_text (jget (set_missing ''tokens'' (JInt 0) d) ''workflow_id''))
       (known_workflow (json_text (jget (set_missing ''tokens'' (JInt 0) d) ''workflow_id'')) (tr_plane s1)) w1
     = (verdict, p, w2)"
    and ends: "verdict \<noteq> Proceed \<and> r = Inl (Stopped verdict) \<and> s' = s1\<lparr>tr_plane := p\<rparr>
     \<or> verdict = Proceed \<and> (\<exists>x. route_track E (wire_event_of (set_missing ''tokens'' (JInt 0) d)) given
                               (s1\<lparr>tr_plane := p\<rparr>) w2 = (x, s', w')
                             \<and> r = (case x of Some y \<Rightarrow> Inl y | None \<Rightarrow> Inr (track_result False)))"
    using track_fresh_cases [OF assms(1)] by metis
  have state: "tr_plane s1 = tr_plane s" "tr_calls s1 = tr_calls s" "tr_seen s1 = tr_seen s"
    by (rule enrich_state [OF e], simp)+
  have "dict_get d ''workflow_id'' = Some (JStr wid)"
    by (rule enrich_keep [OF e assms(2)]) simp
  then have "json_text (jget (set_missing ''tokens'' (JInt 0) d) ''workflow_id'') = wid"
    using set_missing_keep [of d "''workflow_id''"] by (simp add: jget_some json_text_def)
  moreover have "known_workflow wid (tr_plane s) = tr_plane s"
    using assms(3,4) by (simp add: known_workflow_def remote_state_for_def)
  ultimately have "verdict = state_verdict (JStr wid) st"
    using c check_known [OF assms(3,4,5), of "te_plane E" w1] state(1) by simp
  with ends assms(6) state show ?thesis by auto
qed

lemma unseen_then_seen:
  assumes "fingerprint_is_seen seen fp = (False, seen1)" "fp \<noteq> []"
  shows "fst (fingerprint_is_seen seen1 fp)"
  using assms by (cases seen) (auto simp: fingerprint_is_seen_def Let_def dedup_max_def split: if_splits)

text \<open>
  a stopped event is never reported.  An event of a workflow that is paused or killed is not sent and
  raises the stop; its fingerprint counts as seen from then on, so reporting the same event again, when the
  workflow runs again or in any other state with that filter, drops it as a repetition.
\<close>

theorem stopped_event_never_reported:
  assumes "runtime_track E ev given s w = (r, s', w')"
    and "dict_get ev ''workflow_id'' = Some (JStr wid)" "wid \<noteq> []"
    and "dict_get (p_states (tr_plane s)) (JStr wid) = Some st" "st \<noteq> []" "state_verdict (JStr wid) st \<noteq> Proceed"
    and "jget ev ''_fingerprint'' = JStr fp" "fp \<noteq> []" "fp \<notin> set (tr_seen s)"
    and "tr_seen s2 = tr_seen s'"
  shows "r = Inl (Stopped (state_verdict (JStr wid) st)) \<and> tr_calls s' = tr_calls s
    \<and> fst (runtime_track E ev given s2 w2) = Inr (track_result True)
    \<and> tr_calls (fst (snd (runtime_track E ev given s2 w2))) = tr_calls s2"
proof -
  have fp: "json_text (jget ev ''_fingerprint'') = fp"
    using assms(7) by (simp add: json_text_def)
  have first: "r = Inl (Stopped (state_verdict (JStr wid) st)) \<and> tr_calls s' = tr_calls s
      \<and> fst (fingerprint_is_seen (tr_seen s') fp)"
    using assms(1)
  proof (cases rule: runtime_track_cases)
    case (seen sn)
    then have "fp \<in> set (tr_seen s)"
      using fp assms(8) by (auto simp: fingerprint_is_seen_def Let_def split: if_splits)
    with assms(9) show ?thesis by blast
  next
    case (fresh sn)
    have "dict_get (p_states (tr_plane (s\<lparr>tr_seen := sn\<rparr>))) (JStr wid) = Some st"
      using assms(4) by simp
    from stopped_fresh [OF fresh(2) assms(2,3) this assms(5,6)]
    show ?thesis
      using unseen_then_seen [of "tr_seen s" fp sn] fresh(1) fp assms(8) by simp
  qed
  then obtain seen2 where "fingerprint_is_seen (tr_seen s2) fp = (True, seen2)"
    using assms(10) by (cases "fingerprint_is_seen (tr_seen s2) fp") auto
  then have "runtime_track E ev given s2 w2 = (Inr (track_result True), s2\<lparr>tr_seen := seen2\<rparr>, w2)"
    by (simp add: runtime_track_def fp)
  with first show ?thesis by simp
qed

section \<open>Reservations\<close>

lemma enrich_execution:
  assumes "enrich_event E ev s w = (d, s1, w1)" "dict_get ev ''execution_id'' = None"
    and "v_minted (tr_ctx s) = Some eid" "eid \<noteq> []"
    and "\<And>v. fst (te_now E v) - v_minted_at (tr_ctx s) \<ge> max_reservation_age"
  shows "tr_ctx s1 = clear_server_minted_execution_id (tr_ctx s)"
proof -
  have none: "add_execution_id E q (tr_ctx s) v = (q', c', v') \<Longrightarrow> dict_get q ''execution_id'' = None
      \<Longrightarrow> c' = clear_server_minted_execution_id (tr_ctx s)" for q q' c' v v'
    using assms(3,4) assms(5) [of v] by (auto simp: add_execution_id_def split: prod.splits if_splits)
  have missing: "dict_get (set_missing k x q) ''execution_id'' = None"
    if "dict_get q ''execution_id'' = None" "k \<noteq> ''execution_id''" for k x q
    using that by (simp add: set_missing_def)
  have drawn: "dict_get q' ''execution_id'' = None"
    if "add_id (te_uuid E) k x q v = (q', v')" "dict_get q ''execution_id'' = None" "k \<noteq> ''execution_id''"
    for k x q q' v v'
    using that by (auto simp: add_id_def split: if_splits prod.splits)
  show ?thesis
    using assms(1,2) unfolding enrich_event_def Let_def
    by (auto split: prod.splits if_splits dest!: none intro!: missing dest: drawn)
qed

text \<open>
  a stale reservation is not settled.  When the capture in the context is older than the server keeps a
  reservation and the event brings no execution id of its own, tracking an LLM event without an explicit
  reservation sends nothing to the settlement, and the capture is erased unless the event was a repetition.
\<close>

theorem stale_reservation_not_settled:
  assumes "runtime_track E ev None s w = (r, s', w')"
    and "dict_get ev ''execution_id'' = None" "v_minted (tr_ctx s) = Some eid" "eid \<noteq> []"
    and "\<And>v. fst (te_now E v) - v_minted_at (tr_ctx s) \<ge> 295"
  shows "(\<forall>p. tr_calls s' \<noteq> tr_calls s @ [SingleTrack p])
    \<and> (v_minted (tr_ctx s') = None \<or> r = Inr (track_result True))"
  using assms(1)
proof (cases rule: runtime_track_cases)
  case (seen sn)
  then show ?thesis by simp
next
  case (fresh sn)
  obtain d s1 w1 verdict p w2 where e: "enrich_event E ev (s\<lparr>tr_seen := sn\<rparr>) w = (d, s1, w1)"
    and ends: "verdict \<noteq> Proceed \<and> r = Inl (Stopped verdict) \<and> s' = s1\<lparr>tr_plane := p\<rparr>
     \<or> verdict = Proceed \<and> (\<exists>x. route_track E (wire_event_of (set_missing ''tokens'' (JInt 0) d)) None
                               (s1\<lparr>tr_plane := p\<rparr>) w2 = (x, s', w')
                             \<and> r = (case x of Some y \<Rightarrow> Inl y | None \<Rightarrow> Inr (track_result False)))"
    using track_fresh_cases [OF fresh(2)] by metis
  have "tr_ctx s1 = clear_server_minted_execution_id (tr_ctx (s\<lparr>tr_seen := sn\<rparr>))"
    using assms(3,4,5) by (intro enrich_execution [OF e assms(2), of eid]) (simp_all add: max_reservation_age_def)
  then have gone: "v_minted (tr_ctx s1) = None"
    by (simp add: clear_server_minted_execution_id_def)
  have same: "tr_calls s1 = tr_calls s"
    by (rule enrich_state [OF e]) simp
  from ends show ?thesis
  proof (elim disjE conjE exE)
    fix x
    assume "route_track E (wire_event_of (set_missing ''tokens'' (JInt 0) d)) None (s1\<lparr>tr_plane := p\<rparr>) w2 = (x, s', w')"
    then show ?thesis
    proof (cases rule: route_track_cases)
      case (settled pl)
      with gone show ?thesis
        by (simp add: reservation_for_def opt_text_def)
    qed (simp_all add: same gone)
  qed (simp add: same gone)
qed

section \<open>Refused settlements\<close>

text \<open>
  a refused settlement is raised and every other failure is swallowed.  When \<open>track\<close> made a settlement, its
  result is the decision the settlement was refused with, or the ordinary result, also after a network error,
  an error without a decision's code and a broken answer.
\<close>

theorem refused_settlement_is_raised:
  assumes "runtime_track E ev given s w = (r, s', w')" "tr_calls s' = tr_calls s @ [SingleTrack p]"
  shows "\<exists>v. r = (case fst (track_single (te_gate E) p v) of
                    Inr j \<Rightarrow> Inr (track_result False)
                  | Inl x \<Rightarrow> if is_decision x then Inl (Refused x) else Inr (track_result False))"
  using assms(1)
proof (cases rule: runtime_track_cases)
  case (seen sn)
  with assms(2) show ?thesis by simp
next
  case (fresh sn)
  obtain d s1 w1 verdict q w2 where e: "enrich_event E ev (s\<lparr>tr_seen := sn\<rparr>) w = (d, s1, w1)"
    and ends: "verdict \<noteq> Proceed \<and> r = Inl (Stopped verdict) \<and> s' = s1\<lparr>tr_plane := q\<rparr>
     \<or> verdict = Proceed \<and> (\<exists>x. route_track E (wire_event_of (set_missing ''tokens'' (JInt 0) d)) given
                               (s1\<lparr>tr_plane := q\<rparr>) w2 = (x, s', w')
                             \<and> r = (case x of Some y \<Rightarrow> Inl y | None \<Rightarrow> Inr (track_result False)))"
    using track_fresh_cases [OF fresh(2)] by metis
  have same: "tr_calls s1 = tr_calls s"
    by (rule enrich_state [OF e]) simp
  from ends show ?thesis
  proof (elim disjE conjE exE)
    fix x
    assume r: "r = (case x of Some y \<Rightarrow> Inl y | None \<Rightarrow> Inr (track_result False))"
    assume "route_track E (wire_event_of (set_missing ''tokens'' (JInt 0) d)) given (s1\<lparr>tr_plane := q\<rparr>) w2 = (x, s', w')"
    then show ?thesis
    proof (cases rule: route_track_cases)
      case (settled pl)
      then have "pl = p"
        using settle_single_effect(1) [OF settled(5)] assms(2) same by simp
      then show ?thesis
        using settle_single_effect(4) [OF settled(5)] r by (intro exI [of _ w2]) auto
    qed (use assms(2) same in simp_all)
  qed (use assms(2) same in simp)
qed

section \<open>Keys of settlements\<close>

lemma map_of_filter_kept: "map_of d k = Some v \<Longrightarrow> P (k, v) \<Longrightarrow> map_of (filter P d) k = Some v"
  by (induction d) (auto split: if_splits)

lemma wire_keeps:
  assumes "dict_get d k = Some v" "k \<notin> set wire_strip_fields" "v \<noteq> JNull" "k \<noteq> ''__missing_model''"
  shows "dict_get (wire_event_of d) k = Some v"
proof -
  have "dict_get (filter (\<lambda>(k, v). k \<notin> set wire_strip_fields \<and> v \<noteq> JNull) d) k = Some v"
    using assms(1-3) by (simp add: dict_get_def map_of_filter_kept)
  with assms(4) show ?thesis
    by (simp add: wire_event_of_def Let_def)
qed

text \<open>The settlement of a fresh event, with the context it was made in.\<close>

lemma settlement_of_track:
  assumes "runtime_track E ev given s w = (r, s', w')" "tr_calls s' = tr_calls s @ [SingleTrack p]"
  obtains sn d s1 w1 where "enrich_event E ev (s\<lparr>tr_seen := sn\<rparr>) w = (d, s1, w1)"
    "tr_ctx s' = tr_ctx s1" "reservation_for given (tr_ctx s1) \<noteq> []"
    "build_v3_track_payload (te_repr E) (tr_ctx s1) (wire_event_of (set_missing ''tokens'' (JInt 0) d))
       (reservation_for given (tr_ctx s1)) = Inr (Some p)"
  using assms(1)
proof (cases rule: runtime_track_cases)
  case (seen sn)
  with assms(2) show thesis by simp
next
  case (fresh sn)
  obtain d s1 w1 verdict q w2 where e: "enrich_event E ev (s\<lparr>tr_seen := sn\<rparr>) w = (d, s1, w1)"
    and ends: "verdict \<noteq> Proceed \<and> r = Inl (Stopped verdict) \<and> s' = s1\<lparr>tr_plane := q\<rparr>
     \<or> verdict = Proceed \<and> (\<exists>x. route_track E (wire_event_of (set_missing ''tokens'' (JInt 0) d)) given
                               (s1\<lparr>tr_plane := q\<rparr>) w2 = (x, s', w')
                             \<and> r = (case x of Some y \<Rightarrow> Inl y | None \<Rightarrow> Inr (track_result False)))"
    using track_fresh_cases [OF fresh(2)] by metis
  have same: "tr_calls s1 = tr_calls s"
    by (rule enrich_state [OF e]) simp
  from ends show thesis
  proof (elim disjE conjE exE)
    fix x
    assume "route_track E (wire_event_of (set_missing ''tokens'' (JInt 0) d)) given (s1\<lparr>tr_plane := q\<rparr>) w2 = (x, s', w')"
    then show thesis
    proof (cases rule: route_track_cases)
      case (settled pl)
      then have "pl = p"
        using settle_single_effect(1) [OF settled(5)] assms(2) same by simp
      with settled settle_single_effect(2) [OF settled(5)] show thesis
        by (intro that [OF e]) simp_all
    qed (use assms(2) same in simp_all)
  qed (use assms(2) same in simp)
qed

text \<open>
  two LLM calls in one span share their settlement.  Every settlement an LLM event of a span makes without
  an explicit reservation carries the reservation of the context and one idempotency key that is a function of
  the gate call and the span alone, so a second call of the span is a replay of the first for the server.
\<close>

theorem span_calls_share_settlement_key:
  assumes "track_llm E inp out model latency metadata s w = (r, s', w')"
    and "tr_calls s' = tr_calls s @ [SingleTrack p]"
    and "v_current (tr_ctx s) = Some sp" "sp_span_id sp \<noteq> []"
    and "v_idempotency (tr_ctx s) = Some op" "op \<noteq> []" "CHR '':'' \<notin> set op"
  shows "dict_get p ''idempotency_key'' = Some (JStr (op @ '':'' @ take 16 (sp_span_id sp)))
    \<and> dict_get p ''reservation_id'' = Some (opt_json (v_minted (tr_ctx s)))"
proof -
  let ?s0 = "s\<lparr>tr_llm_events := Suc (tr_llm_events s)\<rparr>"
  let ?base = "[(''type'', JStr ''llm_call''), (''input_tokens'', JInt inp), (''output_tokens'', JInt out),
       (''tokens'', JInt (inp + out))] @ (if model = [] then [] else [(''model'', JStr model)])
     @ (case latency of None \<Rightarrow> [] | Some l \<Rightarrow> [(''latency_ms'', JInt l)])
     @ (if metadata = [] then [] else [(''metadata'', JObj metadata)])"
  let ?ev = "span_fields (tr_ctx s) ?base"
  have track: "runtime_track E ?ev None ?s0 w = (r, s', w')"
    using assms(1) by (simp add: track_llm_def)
  have span: "dict_get ?ev ''span_id'' = Some (JStr (sp_span_id sp))"
    using assms(3) by (simp add: span_fields_def)
  have no_key: "dict_get ?ev ''idempotency_key'' = None"
    using assms(3) by (simp add: span_fields_def split: option.split)
  have called: "tr_calls s' = tr_calls ?s0 @ [SingleTrack p]"
    using assms(2) by simp
  obtain sn d s1 w1 where e: "enrich_event E ?ev (?s0\<lparr>tr_seen := sn\<rparr>) w = (d, s1, w1)"
    and rid: "reservation_for None (tr_ctx s1) \<noteq> []"
    and payload: "build_v3_track_payload (te_repr E) (tr_ctx s1) (wire_event_of (set_missing ''tokens'' (JInt 0) d))
       (reservation_for None (tr_ctx s1)) = Inr (Some p)"
    by (rule settlement_of_track [OF track called])
  have ctx: "tr_ctx s1 = tr_ctx s"
    by (rule enrich_state [OF e]) (use rid in \<open>auto simp: reservation_for_def opt_text_def
        clear_server_minted_execution_id_def\<close>)
  then have "dict_get d ''idempotency_key'' = Some (JStr (op @ '':'' @ take 16 (sp_span_id sp)))"
    using assms(4-7) by (intro enrich_key [OF e no_key span]) simp_all
  then have "dict_get (wire_event_of (set_missing ''tokens'' (JInt 0) d)) ''idempotency_key''
      = Some (JStr (op @ '':'' @ take 16 (sp_span_id sp)))"
    using set_missing_keep [of d "''idempotency_key''"] by (intro wire_keeps) (simp_all add: wire_strip_fields_def)
  then have key: "settlement_key (te_repr E) (tr_ctx s1) (wire_event_of (set_missing ''tokens'' (JInt 0) d))
      = op @ '':'' @ take 16 (sp_span_id sp)"
    by (simp add: settlement_key_def jget_def py_str_def)
  have "reservation_for None (tr_ctx s) = opt_text (v_minted (tr_ctx s))"
    by (simp add: reservation_for_def opt_text_def)
  moreover have "opt_text (v_minted (tr_ctx s)) \<noteq> []"
    using rid ctx by (simp add: reservation_for_def opt_text_def split: if_splits)
  ultimately show ?thesis
    using payload_reservation [OF payload] key ctx
    by (auto simp: opt_json_def opt_text_def split: option.splits)
qed

section \<open>Concrete runs\<close>

text \<open>A client whose backend accepts everything, with a workflow the plane knows to run.\<close>

definition unit_track_env :: "string option \<Rightarrow> rat \<Rightarrow> 'w gate_env \<Rightarrow> 'w track_env" where
  "unit_track_env disable now G =
     \<lparr>te_plane = \<lparr>pe_status = (\<lambda>k w. (Inl ''ConnectionError'', w))\<rparr>, te_gate = G, te_environ = (\<lambda>k. disable),
      te_uuid = (\<lambda>w. (''u'', w)), te_uuid7 = (\<lambda>w. (''v'', w)), te_now = (\<lambda>w. (now, w)), te_repr = (\<lambda>j. []),
      te_fingerprint = (\<lambda>d. ''fp'')\<rparr>"

definition sample_state :: "string \<Rightarrow> string option \<Rightarrow> track_state" where
  "sample_state remote minted =
     \<lparr>tr_ctx = fresh_ctx\<lparr>v_minted := minted, v_idempotency := Some ''op1'',
          v_current := Some \<lparr>sp_trace_id = ''t'', sp_span_id = ''s'', sp_parent = None, sp_depth = 0\<rparr>\<rparr>,
      tr_plane = \<lparr>p_states = [(JStr ''wf'', [(''state'', JStr remote)])], p_bound = ''wf''\<rparr>,
      tr_seen = [], tr_cache = [], tr_calls = [], tr_llm_events = 0\<rparr>"

definition llm_sample :: dict where
  "llm_sample = [(''type'', JStr ''llm_call''), (''workflow_id'', JStr ''wf''), (''tokens'', JInt 3)]"

definition refusing_backend :: "unit gate_env" where
  "refusing_backend =
     accepting_backend\<lparr>g_post := (\<lambda>path body w.
       (Inr \<lparr>resp_status = 402, resp_json = Some (JObj [(''error_code'', JStr ''BUDGET_HARD_BLOCKED'')]),
             resp_retry_after = None\<rparr>, w))\<rparr>"

definition sample_payload :: dict where
  "sample_payload =
     [(''reservation_id'', JStr ''r1''), (''workflow_id'', JStr ''wf''), (''tokens'', JInt 3),
      (''cost_source'', JStr ''provisional''), (''input_tokens'', JInt 1), (''output_tokens'', JInt 2),
      (''model'', JStr ''m''), (''trace_id'', JStr ''t''), (''span_id'', JStr ''s''),
      (''is_retry'', JBool False), (''idempotency_key'', JStr ''op1:s'')]"

abbreviation (input) sample_llm_call ::
  "unit gate_env \<Rightarrow> string option \<Rightarrow> (protect_exn + dict) \<times> track_state \<times> unit" where
  "sample_llm_call G minted \<equiv>
     track_llm (unit_track_env None 0 G) 1 2 ''m'' None [] (sample_state ''Normal'' minted) ()"

lemma unit_result:
  obtains r s' where "(x :: 'a \<times> 'b \<times> unit) = (r, s', ())"
  by (cases x) auto

fun is_single :: "wire_call list \<Rightarrow> bool" where
  "is_single [SingleTrack p] \<longleftrightarrow> True"
| "is_single _ \<longleftrightarrow> False"

lemma sample_call_settles:
  "tr_calls (fst (snd (sample_llm_call accepting_backend (Some ''r1'')))) = [SingleTrack sample_payload]"
  by code_simp

lemma sample_state_simps [simp]:
  "tr_calls (sample_state x m) = []" "tr_seen (sample_state x m) = []"
  "v_minted (tr_ctx (sample_state x m)) = m" "v_minted_at (tr_ctx (sample_state x m)) = 0"
  "v_idempotency (tr_ctx (sample_state x m)) = Some ''op1''"
  "v_current (tr_ctx (sample_state x m))
     = Some \<lparr>sp_trace_id = ''t'', sp_span_id = ''s'', sp_parent = None, sp_depth = 0\<rparr>"
  "p_states (tr_plane (sample_state x m)) = [(JStr ''wf'', [(''state'', JStr x)])]"
  by (simp_all add: sample_state_def fresh_ctx_def)

lemma span_calls_share_settlement_key_witness:
  "dict_get sample_payload ''idempotency_key'' = Some (JStr ''op1:s'')
   \<and> dict_get sample_payload ''reservation_id'' = Some (JStr ''r1'')"
proof -
  obtain r s' where run: "sample_llm_call accepting_backend (Some ''r1'') = (r, s', ())"
    by (rule unit_result)
  then have "tr_calls s' = tr_calls (sample_state ''Normal'' (Some ''r1'')) @ [SingleTrack sample_payload]"
    using sample_call_settles by simp
  from span_calls_share_settlement_key [OF run this] show ?thesis
    by (simp add: opt_json_def)
qed

lemma llm_event_needs_reservation_witness:
  "tr_calls (fst (snd (runtime_track (unit_track_env None 0 accepting_backend) llm_sample None
      (sample_state ''Normal'' None) ()))) = []"
proof -
  obtain r s' where run: "runtime_track (unit_track_env None 0 accepting_backend) llm_sample None
      (sample_state ''Normal'' None) () = (r, s', ())"
    by (rule unit_result)
  have "tr_calls (fst (snd (runtime_track (unit_track_env None 0 accepting_backend) llm_sample None
      (sample_state ''Normal'' None) ()))) = []"
    by code_simp
  with llm_event_needs_reservation [OF run] run show ?thesis
    by simp
qed

lemma stopped_event_never_reported_witness:
  "fst (runtime_track (unit_track_env None 0 accepting_backend)
      ((''_fingerprint'', JStr ''fp'') # llm_sample) None (sample_state ''Killed'' (Some ''r1'')) ())
   = Inl (Stopped (KilledExn (JStr ''wf'') (JStr ''remote kill'')))"
proof -
  let ?ev = "(''_fingerprint'', JStr ''fp'') # llm_sample"
  let ?s = "sample_state ''Killed'' (Some ''r1'')"
  obtain r s' where run: "runtime_track (unit_track_env None 0 accepting_backend) ?ev None ?s () = (r, s', ())"
    by (rule unit_result)
  have "dict_get ?ev ''workflow_id'' = Some (JStr ''wf'')" "jget ?ev ''_fingerprint'' = JStr ''fp''"
    by (simp_all add: llm_sample_def jget_def)
  moreover have "dict_get (p_states (tr_plane ?s)) (JStr ''wf'') = Some [(''state'', JStr ''Killed'')]"
    by simp
  moreover have "state_verdict (JStr ''wf'') [(''state'', JStr ''Killed'')]
      = KilledExn (JStr ''wf'') (JStr ''remote kill'')"
    by code_simp
  ultimately show ?thesis
    using stopped_event_never_reported [OF run, of "''wf''" "[(''state'', JStr ''Killed'')]" "''fp''" s'] run by simp
qed

lemma stale_reservation_not_settled_witness:
  "tr_calls (fst (snd (runtime_track (unit_track_env None 500 accepting_backend) llm_sample None
      (sample_state ''Normal'' (Some ''r1'')) ()))) \<noteq> [SingleTrack sample_payload]"
proof -
  obtain r s' where run: "runtime_track (unit_track_env None 500 accepting_backend) llm_sample None
      (sample_state ''Normal'' (Some ''r1'')) () = (r, s', ())"
    by (rule unit_result)
  have "dict_get llm_sample ''execution_id'' = None"
    by (simp add: llm_sample_def)
  from stale_reservation_not_settled [OF run this, of "''r1''"] run show ?thesis
    by (simp add: unit_track_env_def)
qed

lemma refused_settlement_is_raised_witness:
  "\<exists>x. fst (runtime_track (unit_track_env None 0 refusing_backend) llm_sample None
        (sample_state ''Normal'' (Some ''r1'')) ()) = Inl (Refused x) \<and> is_decision x"
proof -
  let ?E = "unit_track_env None 0 refusing_backend"
  let ?s = "sample_state ''Normal'' (Some ''r1'')"
  obtain r s' where run: "runtime_track ?E llm_sample None ?s () = (r, s', ())"
    by (rule unit_result)
  have "is_single (tr_calls (fst (snd (runtime_track ?E llm_sample None ?s ()))))"
    by code_simp
  then obtain p where "tr_calls s' = tr_calls ?s @ [SingleTrack p]"
    using run by (auto elim: is_single.elims)
  from refused_settlement_is_raised [OF run this]
  have "\<exists>v. r = (case fst (track_single (te_gate ?E) p v) of Inr j \<Rightarrow> Inr (track_result False)
      | Inl x \<Rightarrow> if is_decision x then Inl (Refused x) else Inr (track_result False))" .
  moreover have "\<not> isl r \<Longrightarrow> False"
  proof -
    have "isl (fst (runtime_track ?E llm_sample None ?s ()))"
      by code_simp
    then show "\<not> isl r \<Longrightarrow> False"
      using run by simp
  qed
  ultimately show ?thesis
    using run by (auto split: sum.splits if_splits)
qed

section \<open>Where the code and its comments part\<close>

text \<open>Tracking never touches the filter of repeated observations after the event has passed it.\<close>

lemma track_fresh_seen:
  assumes "track_fresh E ev given s w = (r, s', w')"
  shows "tr_seen s' = tr_seen s"
proof -
  obtain d s1 w1 verdict p w2 where e: "enrich_event E ev s w = (d, s1, w1)"
    and ends: "verdict \<noteq> Proceed \<and> r = Inl (Stopped verdict) \<and> s' = s1\<lparr>tr_plane := p\<rparr>
     \<or> verdict = Proceed \<and> (\<exists>x. route_track E (wire_event_of (set_missing ''tokens'' (JInt 0) d)) given
                               (s1\<lparr>tr_plane := p\<rparr>) w2 = (x, s', w')
                             \<and> r = (case x of Some y \<Rightarrow> Inl y | None \<Rightarrow> Inr (track_result False)))"
    using track_fresh_cases [OF assms] by metis
  have same: "tr_seen s1 = tr_seen s"
    by (rule enrich_state [OF e]) simp
  from ends show ?thesis
  proof (elim disjE conjE exE)
    fix x
    assume "route_track E (wire_event_of (set_missing ''tokens'' (JInt 0) d)) given (s1\<lparr>tr_plane := p\<rparr>) w2 = (x, s', w')"
    then show ?thesis
    proof (cases rule: route_track_cases)
      case (settled pl)
      from settle_single_effect(3) [OF settled(5)] show ?thesis
        using same by simp
    qed (simp_all add: same)
  qed (simp add: same)
qed

text \<open>
  Two custom events of one content are one event: the fingerprint \<open>track_event\<close> gives them is a function of the
  content alone, so the second is dropped as a repetition of the first, whatever became of that.
\<close>

lemma repeated_custom_event_dropped:
  assumes "track_event E label [] s w = (r, s', w')" "tr_seen s2 = tr_seen s'"
    and "te_fingerprint E [(''type'', JStr label), (''tokens'', JInt 0)] \<noteq> []"
  shows "fst (track_event E label [] s2 w2) = Inr (track_result True)"
proof -
  define fp where "fp = te_fingerprint E [(''type'', JStr label), (''tokens'', JInt 0)]"
  define ev where "ev = [(''type'', JStr label), (''tokens'', JInt 0), (''_fingerprint'', JStr fp)]"
  have event: "track_event E label [] t v = runtime_track E ev None t v" for t v
    by (simp add: track_event_def set_missing_def ev_def fp_def Let_def dict_get_def dict_set_def)
  have read: "json_text (jget ev ''_fingerprint'') = fp"
    by (simp add: ev_def jget_def json_text_def)
  have "fst (fingerprint_is_seen (tr_seen s') fp)"
    using assms(1) unfolding event
  proof (cases rule: runtime_track_cases)
    case (seen sn)
    then show ?thesis
      using assms(3) by (auto simp: read fingerprint_is_seen_def Let_def fp_def split: if_splits)
  next
    case (fresh sn)
    then show ?thesis
      using track_fresh_seen [OF fresh(2)] unseen_then_seen [of "tr_seen s" fp sn] assms(3)
      by (simp add: read fp_def)
  qed
  then obtain seen2 where "fingerprint_is_seen (tr_seen s2) fp = (True, seen2)"
    using assms(2) by (cases "fingerprint_is_seen (tr_seen s2) fp") auto
  then show ?thesis
    by (simp add: event runtime_track_def read)
qed

text \<open>
  The age check is skipped for an event with an execution id of its own, and its settlement still names the
  stale reservation; the mark of a missing model is computed and then lost on the way to a settlement.
\<close>

lemma own_execution_settles_stale_reservation:
  "is_single (tr_calls (fst (snd (runtime_track (unit_track_env None 500 accepting_backend)
      ((''execution_id'', JStr ''x'') # llm_sample) None (sample_state ''Normal'' (Some ''r1'')) ()))))"
  by code_simp

lemma missing_model_mark_lost:
  assumes "build_v3_track_payload rep c d rid = Inr (Some p)"
  shows "dict_get p ''__missing_model'' = None"
proof -
  obtain n p0 where p0: "fold (add_field d) payload_fields
      (Inr [(''reservation_id'', JStr rid), (''workflow_id'', jget d ''workflow_id''),
            (''tokens'', JInt n), (''cost_source'', JStr ''provisional'')]) = Inr p0"
    "p = (if settlement_key rep c d = [] then p0 else dict_set ''idempotency_key'' (JStr (settlement_key rep c d)) p0)"
    using assms by (auto simp: build_v3_track_payload_def Let_def split: if_splits sum.splits)
  then show ?thesis
    using fold_field_keep [OF p0(1), of "''__missing_model''"] by (simp add: payload_fields_def)
qed

end
