(* ===== verification/Llm_Transport.thy ===== *)
theory Llm_Transport
  imports Usage_Extract Track_Laws
begin

text \<open>
  The transport that wraps the HTTP client of an LLM provider (\<open>NullRunSyncTransport\<close> and its asynchronous
  twin in \<open>src/nullrun/instrumentation/auto.py\<close>): the kill check before the request, the reservation taken for
  it, the capped reading of the answer, the event reported from it and the release of a reservation no event
  consumes.  The wrapped transport, the JSON reader and SHA-256 come from the environment; bodies are texts.
\<close>

section \<open>Requests, answers, environment\<close>

record llm_request =
  lq_host :: string
  lq_body :: string

text \<open>
  An answer streams its chunks and may break off after them; \<open>lr_read\<close> is what \<open>read\<close> gives then, \<open>None\<close> when
  it raises.  The names of the headers are in lower case, as \<open>httpx\<close> compares them.
\<close>

record llm_response =
  lr_status :: int
  lr_headers :: "(string \<times> string) list"
  lr_chunks :: "string list"
  lr_broken :: bool
  lr_read :: "string option"

text \<open>\<open>le_captured_at\<close> is the clock reading the gate's answer was captured with, known once the gate has returned.\<close>

record 'w llm_env =
  le_track :: "'w track_env"
  le_budget :: "'w budget_env"
  le_cfg :: runtime_cfg
  le_captured_at :: "'w \<Rightarrow> rat"
  le_inner :: "llm_request \<Rightarrow> 'w \<Rightarrow> (protect_exn + llm_response) \<times> 'w"
  le_loads :: "string \<Rightarrow> json option"
  le_points :: "string \<Rightarrow> nat list"
  le_blank :: "nat \<Rightarrow> bool"
  le_sha256 :: "string \<Rightarrow> string"
  le_float_repr :: "rat \<Rightarrow> string"
  le_cap :: nat

section \<open>Before the request\<close>

text \<open>The workflow of the key alone is looked up, and the spelling of the state is compared as it is.\<close>

definition check_kill_before_send :: "plane \<Rightarrow> protect_exn option \<times> plane" where
  "check_kill_before_send p =
     (let wid = resolve_workflow_id [] p in
      if wid = [] then (None, p)
      else
        (case remote_state_for (JStr wid) p of
           (d, p1) \<Rightarrow>
             (let name = get_or d ''state'' (JStr ''Normal'') in
              (if name = JStr ''Killed''
               then Some (Stopped (KilledExn (JStr wid) (get_or d ''reason'' (JStr ''remote kill''))))
               else if name = JStr ''Paused''
               then Some (Stopped (PausedExn (JStr wid) (get_or d ''reason'' (JStr ''remote pause''))))
               else None, p1))))"

definition ambient_reservation :: "'w llm_env \<Rightarrow> ctx \<Rightarrow> 'w \<Rightarrow> string option \<times> 'w" where
  "ambient_reservation L c w =
     (if opt_text (v_minted c) = [] then (None, w)
      else
        (case te_now (le_track L) w of
           (now, w1) \<Rightarrow>
             (if now - v_minted_at c \<ge> max_reservation_age then None else v_minted c, w1)))"

text \<open>What the budget gate reads from the context and the arguments of the pre-flight.\<close>

definition preflight_context :: "'w llm_env \<Rightarrow> request_profile \<Rightarrow> ctx \<Rightarrow> call_ctx" where
  "preflight_context L q c =
     \<lparr>cx_workflow = opt_text (v_workflow c), cx_model = JStr (rq_model q),
      cx_estimated_tokens = (if rq_estimated q = 0 then JNull else JInt (int (rq_estimated q))),
      cx_max_output_tokens =
        (case rq_declared_max q of
           Some n \<Rightarrow> JInt n
         | None \<Rightarrow> (case v_max_output c of Some n \<Rightarrow> JInt n | None \<Rightarrow> JNull)),
      cx_tools = map JStr (v_tools c), cx_chain = opt_json (v_chain c), cx_chain_op = JStr (v_chain_op c),
      cx_digest =
        (case compute_action_digest (le_sha256 L) (le_float_repr L)
                (case v_impact c of Some i \<Rightarrow> i | None \<Rightarrow> no_impact) of
           Inr h \<Rightarrow> h
         | Inl x \<Rightarrow> []),
      cx_impact = (case v_impact c of Some i \<Rightarrow> JObj (to_wire_dict i) | None \<Rightarrow> JNull),
      cx_mcp_class = opt_json (v_mcp_class c),
      cx_mcp_annotations = (case v_mcp_annotations c of Some d \<Rightarrow> JObj d | None \<Rightarrow> JNull),
      cx_use_cache = False\<rparr>"

text \<open>
  The capture of the gate in the context.  The slot of the minted id is handed to the gate with a mark that is
  no id, so that a slot left alone is told from an erased one.
\<close>

definition slot_mark :: json where "slot_mark = JBool False"

definition absorb_gate :: "runtime_state \<Rightarrow> rat \<Rightarrow> track_state \<Rightarrow> track_state" where
  "absorb_gate rs at_time s =
     (let c = (case rs_operation rs of JStr op \<Rightarrow> set_operation_id op (tr_ctx s) | _ \<Rightarrow> tr_ctx s);
          op = opt_text (v_operation c) in
      s\<lparr>tr_cache := rs_cache rs,
        tr_ctx :=
          (case rs_minted rs of
             JStr eid \<Rightarrow> c\<lparr>v_minted := Some eid, v_minted_at := at_time, v_idempotency := Some op\<rparr>
           | JNull \<Rightarrow> clear_server_minted_execution_id c
           | _ \<Rightarrow> c)\<rparr>)"

definition check_llm_budget ::
  "'w llm_env \<Rightarrow> request_profile \<Rightarrow> track_state \<Rightarrow> 'w \<Rightarrow> (gate_exn + json) \<times> track_state \<times> 'w" where
  "check_llm_budget L q s w =
     (case check_workflow_budget (le_budget L) (le_cfg L) (preflight_context L q (tr_ctx s))
             \<lparr>rs_cache = tr_cache s, rs_minted = slot_mark, rs_operation = opt_json (v_operation (tr_ctx s))\<rparr> w of
        (res, rs, w1) \<Rightarrow> (res, absorb_gate rs (le_captured_at L w1) s, w1))"

text \<open>The reservation taken for this request, and the model a release would name.\<close>

definition preflight_llm_call ::
  "'w llm_env \<Rightarrow> request_profile option \<Rightarrow> track_state \<Rightarrow> 'w
     \<Rightarrow> (protect_exn + string option \<times> string option) \<times> track_state \<times> 'w" where
  "preflight_llm_call L profile s w =
     (case profile of
        None \<Rightarrow> (Inr (None, None), s, w)
      | Some q \<Rightarrow>
          (case ambient_reservation L (tr_ctx s) w of
             (Some rid, w1) \<Rightarrow> (Inr (None, Some (rq_model q)), s, w1)
           | (None, w1) \<Rightarrow>
               (case check_llm_budget L q s w1 of
                  (Inl x, s1, w2) \<Rightarrow> (Inl (Refused x), s1, w2)
                | (Inr j, s1, w2) \<Rightarrow>
                    (Inr (case j of JStr rid \<Rightarrow> if rid = [] then None else Some rid | _ \<Rightarrow> None,
                          Some (rq_model q)), s1, w2))))"

section \<open>Events\<close>

definition fingerprint_for_llm_call :: "'w llm_env \<Rightarrow> json \<Rightarrow> string \<Rightarrow> json \<Rightarrow> string" where
  "fingerprint_for_llm_call L model provider response_id =
     (let shown = (\<lambda>j. py_str (te_repr (le_track L)) (py_or j (JStr []))) in
      take 16 (le_sha256 L
        (''llm_call|'' @ shown model @ ''|'' @ provider @ ''|'' @ shown response_id)))"

definition usage_json :: "llm_usage \<Rightarrow> dict" where
  "usage_json u =
     [(''prompt_tokens'', JInt (u_prompt u)), (''completion_tokens'', JInt (u_completion u)),
      (''total_tokens'', JInt (u_total u)), (''model'', u_model u), (''id'', u_id u),
      (''cache_read_tokens'', JInt (u_cache_read u)), (''cache_write_tokens'', JInt (u_cache_write u)),
      (''reasoning_tokens'', JInt (u_reasoning u)), (''finish_reason'', u_finish u),
      (''tool_names'', JList (u_tools u))]"

definition build_llm_call_event :: "'w llm_env \<Rightarrow> string \<Rightarrow> llm_usage \<Rightarrow> json \<Rightarrow> dict" where
  "build_llm_call_event L host u model =
     [(''type'', JStr ''llm_call''), (''provider'', JStr (provider_label host)), (''host'', JStr host),
      (''model'', model), (''tokens'', JInt (u_total u)), (''input_tokens'', JInt (u_prompt u)),
      (''output_tokens'', JInt (u_completion u)), (''cache_read_tokens'', JInt (u_cache_read u)),
      (''cache_write_tokens'', JInt (u_cache_write u)), (''reasoning_tokens'', JInt (u_reasoning u)),
      (''finish_reason'', u_finish u), (''tool_names'', JList (u_tools u)), (''has_usage'', JBool True),
      (''metadata'', JObj [(''tracked'', JBool True)]), (''raw_usage'', JObj (usage_json u)),
      (''_fingerprint'', JStr (fingerprint_for_llm_call L model (provider_label host) (u_id u)))]"

text \<open>The common part of the two events without usage.\<close>

definition empty_call_event :: "string \<Rightarrow> json \<Rightarrow> dict \<Rightarrow> string \<Rightarrow> dict" where
  "empty_call_event host model metadata fp =
     [(''type'', JStr ''llm_call''), (''provider'', JStr (provider_label host)), (''host'', JStr host),
      (''model'', model), (''tokens'', JInt 0), (''input_tokens'', JInt 0), (''output_tokens'', JInt 0),
      (''has_usage'', JBool False), (''metadata'', JObj metadata), (''_fingerprint'', JStr fp)]"

definition release_event :: "string \<Rightarrow> string \<Rightarrow> string \<Rightarrow> string \<Rightarrow> dict" where
  "release_event rid model host reason =
     empty_call_event host (JStr model)
       [(''tracked'', JBool True), (''reservation_released'', JBool True), (''release_reason'', JStr reason)]
       (''nullrun-release-'' @ rid)"

definition skipped_event :: "'w llm_env \<Rightarrow> llm_request \<Rightarrow> dict" where
  "skipped_event L rq =
     (let model = model_of_body (le_loads L) (lq_body rq) in
      empty_call_event (lq_host rq) model [(''tracked'', JBool False), (''streaming_skipped'', JBool True)]
        (fingerprint_for_llm_call L model (provider_label (lq_host rq)) JNull))"

text \<open>Reporting swallows whatever \<open>track\<close> raises.\<close>

definition track_quietly ::
  "'w llm_env \<Rightarrow> dict \<Rightarrow> string option \<Rightarrow> track_state \<Rightarrow> 'w \<Rightarrow> track_state \<times> 'w" where
  "track_quietly L ev rid s w = snd (runtime_track (le_track L) ev rid s w)"

definition release_reservation ::
  "'w llm_env \<Rightarrow> string option \<Rightarrow> string option \<Rightarrow> string \<Rightarrow> string \<Rightarrow> track_state \<Rightarrow> 'w \<Rightarrow> track_state \<times> 'w"
where
  "release_reservation L rid model host reason s w =
     (if opt_text rid = [] \<or> opt_text model = [] then (s, w)
      else track_quietly L (release_event (opt_text rid) (opt_text model) host reason) rid s w)"

definition emit_usage ::
  "'w llm_env \<Rightarrow> llm_request \<Rightarrow> llm_usage \<Rightarrow> string option \<Rightarrow> track_state \<Rightarrow> 'w \<Rightarrow> track_state \<times> 'w" where
  "emit_usage L rq u rid s w =
     track_quietly L
       (build_llm_call_event L (lq_host rq) u (py_or (u_model u) (model_of_body (le_loads L) (lq_body rq)))) rid s w"

section \<open>The answer\<close>

fun take_chunks :: "nat \<Rightarrow> string \<Rightarrow> string list \<Rightarrow> string option" where
  "take_chunks cap acc [] = Some acc"
| "take_chunks cap acc (c # cs) =
     (if cap < length acc + length c then None else take_chunks cap (acc @ c) cs)"

definition read_body_with_cap :: "llm_response \<Rightarrow> nat \<Rightarrow> string option" where
  "read_body_with_cap r cap =
     (if (case map_of (lr_headers r) ''content-length'' of
            None \<Rightarrow> False
          | Some v \<Rightarrow> (case parse_int v of None \<Rightarrow> False | Some n \<Rightarrow> int cap < n)) then None
      else (case take_chunks cap [] (lr_chunks r) of
              None \<Rightarrow> None
            | Some b \<Rightarrow> if lr_broken r then lr_read r else Some b))"

text \<open>The answer handed on: decoded, so without its encodings, and with the length of the body it now has.\<close>

definition rebuild_response :: "llm_response \<Rightarrow> string \<Rightarrow> llm_response" where
  "rebuild_response r body =
     \<lparr>lr_status = lr_status r,
      lr_headers =
        map (\<lambda>(k, v). (k, if k = ''content-length'' then show_nat (length body) else v))
          (filter (\<lambda>(k, v). k \<notin> {''content-encoding'', ''transfer-encoding''}) (lr_headers r)),
      lr_chunks = [body], lr_broken = False, lr_read = Some body\<rparr>"

section \<open>The call\<close>

text \<open>The reservation and the model the pre-flight gave, after the provider has answered.\<close>

definition answer_received ::
  "'w llm_env \<Rightarrow> provider \<Rightarrow> llm_request \<Rightarrow> string option \<Rightarrow> string option \<Rightarrow> llm_response \<Rightarrow> track_state \<Rightarrow> 'w
     \<Rightarrow> (protect_exn + llm_response) \<times> track_state \<times> 'w" where
  "answer_received L pv rq rid model r s w =
     (case read_body_with_cap r (le_cap L) of
        None \<Rightarrow>
          (case track_quietly L (skipped_event L rq) None s w of
             (s1, w1) \<Rightarrow>
               (Inr (case lr_read r of Some b \<Rightarrow> rebuild_response r b | None \<Rightarrow> r),
                release_reservation L rid model (lq_host rq) ''body_exceeded_cap'' s1 w1))
      | Some body \<Rightarrow>
          (if body = [] then (Inr r, release_reservation L rid model (lq_host rq) ''empty_body'' s w)
           else
             (case extract_usage pv (le_loads L) body (lr_status r) of
                Inl x \<Rightarrow> (Inl (Raising x), s, w)
              | Inr None \<Rightarrow>
                  (Inr (rebuild_response r body),
                   release_reservation L rid model (lq_host rq) ''usage_not_extractable'' s w)
              | Inr (Some u) \<Rightarrow> (Inr (rebuild_response r body), emit_usage L rq u rid s w))))"

definition handle_request ::
  "'w llm_env \<Rightarrow> llm_request \<Rightarrow> track_state \<Rightarrow> 'w \<Rightarrow> (protect_exn + llm_response) \<times> track_state \<times> 'w" where
  "handle_request L rq s w =
     (case check_kill_before_send (tr_plane s) of
        (Some x, p) \<Rightarrow> (Inl x, s\<lparr>tr_plane := p\<rparr>, w)
      | (None, p) \<Rightarrow>
          (let s1 = s\<lparr>tr_plane := p\<rparr> in
           (case match_extractor (lq_host rq) of
              None \<Rightarrow> (case le_inner L rq w of (res, w1) \<Rightarrow> (res, s1, w1))
            | Some pv \<Rightarrow>
                (case preflight_llm_call L (profile_of_body (le_points L) (le_blank L) (le_loads L) (lq_body rq))
                        s1 w of
                   (Inl x, s2, w1) \<Rightarrow> (Inl x, s2, w1)
                 | (Inr (rid, model), s2, w1) \<Rightarrow>
                     (case le_inner L rq w1 of
                        (Inl (Interrupt x), w2) \<Rightarrow> (Inl (Interrupt x), s2, w2)
                      | (Inl x, w2) \<Rightarrow>
                          (Inl x, release_reservation L rid model (lq_host rq) ''request_failed'' s2 w2)
                      | (Inr r, w2) \<Rightarrow> answer_received L pv rq rid model r s2 w2)))))"

text \<open>
  The asynchronous transport awaits the same steps; a cancelled request is an exception outside \<open>Exception\<close>.
\<close>

definition handle_async_request ::
  "'w llm_env \<Rightarrow> llm_request \<Rightarrow> track_state \<Rightarrow> 'w \<Rightarrow> (protect_exn + llm_response) \<times> track_state \<times> 'w" where
  "handle_async_request L rq s w =
     (case check_kill_before_send (tr_plane s) of
        (Some x, p) \<Rightarrow> (Inl x, s\<lparr>tr_plane := p\<rparr>, w)
      | (None, p) \<Rightarrow>
          (let s1 = s\<lparr>tr_plane := p\<rparr> in
           (case match_extractor (lq_host rq) of
              None \<Rightarrow> (case le_inner L rq w of (res, w1) \<Rightarrow> (res, s1, w1))
            | Some pv \<Rightarrow>
                (case preflight_llm_call L (profile_of_body (le_points L) (le_blank L) (le_loads L) (lq_body rq))
                        s1 w of
                   (Inl x, s2, w1) \<Rightarrow> (Inl x, s2, w1)
                 | (Inr (rid, model), s2, w1) \<Rightarrow>
                     (case le_inner L rq w1 of
                        (Inl (Interrupt x), w2) \<Rightarrow> (Inl (Interrupt x), s2, w2)
                      | (Inl x, w2) \<Rightarrow>
                          (Inl x, release_reservation L rid model (lq_host rq) ''request_failed'' s2 w2)
                      | (Inr r, w2) \<Rightarrow> answer_received L pv rq rid model r s2 w2)))))"

lemma async_as_sync: "handle_async_request = handle_request"
  by (intro ext) (simp only: handle_async_request_def handle_request_def)

end
