(* ===== verification/Llm_Transport_Laws.thy ===== *)
theory Llm_Transport_Laws
  imports Llm_Transport
begin

text \<open>
  What the instrumented transport promises: a refused call is never sent, the caller sees the provider's answer
  or the exception of one of four sources, a failed request gives its reservation back; and what it does not:
  after a call has taken a reservation, the calls that follow in its scope are not priced or gated.
\<close>

section \<open>Before the request\<close>

lemma parts_ignore_inner:
  "check_llm_budget (L\<lparr>le_inner := f\<rparr>) = check_llm_budget L"
  "ambient_reservation (L\<lparr>le_inner := f\<rparr>) = ambient_reservation L"
  by (intro ext, simp add: check_llm_budget_def preflight_context_def ambient_reservation_def)+

lemma preflight_ignores_inner [simp]:
  "preflight_llm_call (L\<lparr>le_inner := f\<rparr>) q s w = preflight_llm_call L q s w"
  unfolding preflight_llm_call_def parts_ignore_inner by (rule refl)

text \<open>What the pre-request check reads off the cached state of the workflow the key is bound to.\<close>

lemma check_kill_cached:
  assumes "p_bound p = wid" "wid \<noteq> []" "dict_get (p_states p) (JStr wid) = Some d"
  shows "check_kill_before_send p =
    (if jget d ''state'' = JStr ''Killed''
     then Some (Stopped (KilledExn (JStr wid) (get_or d ''reason'' (JStr ''remote kill''))))
     else if jget d ''state'' = JStr ''Paused''
     then Some (Stopped (PausedExn (JStr wid) (get_or d ''reason'' (JStr ''remote pause''))))
     else None, p)"
  using assms
  by (cases "dict_get d ''state''")
    (simp_all add: check_kill_before_send_def remote_state_for_def resolve_workflow_id_def get_or_def jget_def Let_def)

text \<open>
  C8: a refused call never reaches the provider.  Let the key be bound to a workflow whose state is cached.  When
  that state is \<open>Killed\<close> or \<open>Paused\<close>, spelled so, or when it is neither, the host is a known provider and the
  gate refuses the pre-flight, the caller gets that stop or that refusal, and the outcome is the same for any
  two wrapped transports.  Another spelling passes this check (\<open>kill_spelling\<close>).
\<close>

theorem refused_call_never_sent:
  assumes "p_bound (tr_plane s) = wid" "wid \<noteq> []" "dict_get (p_states (tr_plane s)) (JStr wid) = Some d"
    and "jget d ''state'' = JStr ''Killed''
           \<and> x = Stopped (KilledExn (JStr wid) (get_or d ''reason'' (JStr ''remote kill'')))
         \<or> jget d ''state'' = JStr ''Paused''
           \<and> x = Stopped (PausedExn (JStr wid) (get_or d ''reason'' (JStr ''remote pause'')))
         \<or> jget d ''state'' \<notin> {JStr ''Killed'', JStr ''Paused''} \<and> match_extractor (lq_host rq) \<noteq> None
           \<and> fst (preflight_llm_call L (profile_of_body (le_points L) (le_blank L) (le_loads L) (lq_body rq)) s w) = Inl x"
  shows "fst (handle_request L rq s w) = Inl x
    \<and> handle_request (L\<lparr>le_inner := f\<rparr>) rq s w = handle_request (L\<lparr>le_inner := g\<rparr>) rq s w"
  using assms(4)
  by (auto simp: handle_request_def check_kill_cached [OF assms(1-3)] split: prod.splits sum.splits)

text \<open>The states are compared as they are spelled, while the control plane folds them to lower case.\<close>

lemma kill_spelling:
  assumes "p_bound p = wid" "wid \<noteq> []" "p_states p = [(JStr wid, [(''state'', JStr ''KILLED'')])]"
  shows "fst (check_kill_before_send p) = None"
    and "state_verdict (JStr wid) [(''state'', JStr ''KILLED'')] = KilledExn (JStr wid) (JStr ''remote kill'')"
proof -
  show "fst (check_kill_before_send p) = None"
    using assms by (simp add: check_kill_before_send_def remote_state_for_def resolve_workflow_id_def get_or_def)
  have "lower ''KILLED'' = ''killed''"
    by code_simp
  then show "state_verdict (JStr wid) [(''state'', JStr ''KILLED'')] = KilledExn (JStr wid) (JStr ''remote kill'')"
    by (simp add: state_verdict_def get_or_def)
qed

text \<open>A kill of the workflow the context names is not seen by the pre-request check: only the key's is looked up.\<close>

lemma context_workflow_not_checked:
  "p_bound p = [] \<Longrightarrow> check_kill_before_send p = (None, p)"
  by (simp add: check_kill_before_send_def resolve_workflow_id_def)

section \<open>The caller's view\<close>

lemma take_chunks_all: "take_chunks cap acc cs = Some b \<Longrightarrow> b = acc @ concat cs"
  by (induction cap acc cs rule: take_chunks.induct) (auto split: if_splits)

lemma take_chunks_bound: "take_chunks cap acc cs = Some b \<Longrightarrow> length acc \<le> cap \<Longrightarrow> length b \<le> cap"
  by (induction cap acc cs rule: take_chunks.induct) (auto split: if_splits)

lemma read_whole:
  "read_body_with_cap r cap = Some b \<Longrightarrow> \<not> lr_broken r \<Longrightarrow> b = concat (lr_chunks r) \<and> length b \<le> cap"
  using take_chunks_all [of cap "[]" "lr_chunks r" b] take_chunks_bound [of cap "[]" "lr_chunks r" b]
  by (simp add: read_body_with_cap_def split: if_splits option.splits)

text \<open>What the caller is handed for an answer: the answer, or one rebuilt from the body that was read.\<close>

definition hands_on :: "nat \<Rightarrow> llm_response \<Rightarrow> llm_response \<Rightarrow> bool" where
  "hands_on cap r r' \<longleftrightarrow>
     r' = r
     \<or> (\<exists>b. r' = rebuild_response r b
            \<and> (read_body_with_cap r cap = Some b \<or> read_body_with_cap r cap = None \<and> lr_read r = Some b))"

lemma answer_received_result:
  assumes "answer_received L pv rq rid model r s w = (res, s', w')"
  shows "(\<exists>r'. res = Inr r' \<and> hands_on (le_cap L) r r')
    \<or> (\<exists>body e. res = Inl (Raising e) \<and> read_body_with_cap r (le_cap L) = Some body
              \<and> extract_usage pv (le_loads L) body (lr_status r) = Inl e)"
  using assms
  by (auto simp: answer_received_def hands_on_def split: option.splits prod.splits if_splits sum.splits)

text \<open>
  C15: the caller sees the provider.  The result of an instrumented request is an answer of the wrapped transport,
  handed on or rebuilt with the body that was read; or an exception of the kill check, of the pre-flight, of the
  wrapped transport or of an extractor.  No exception of the reporting, not even a refused settlement, reaches
  the caller.
\<close>

theorem caller_sees_provider:
  "case fst (handle_request L rq s w) of
     Inr r' \<Rightarrow> (\<exists>v r. fst (le_inner L rq v) = Inr r \<and> hands_on (le_cap L) r r')
   | Inl x \<Rightarrow>
       fst (check_kill_before_send (tr_plane s)) = Some x
       \<or> (\<exists>t v. fst (preflight_llm_call L
                   (profile_of_body (le_points L) (le_blank L) (le_loads L) (lq_body rq)) t v) = Inl x)
       \<or> (\<exists>v. fst (le_inner L rq v) = Inl x)
       \<or> (\<exists>pv body status e. x = Raising e \<and> match_extractor (lq_host rq) = Some pv
              \<and> extract_usage pv (le_loads L) body status = Inl e)"
proof -
  let ?q = "profile_of_body (le_points L) (le_blank L) (le_loads L) (lq_body rq)"
  obtain stop p where kill: "check_kill_before_send (tr_plane s) = (stop, p)" by fastforce
  show ?thesis
  proof (cases stop)
    case (Some x)
    with kill show ?thesis by (simp add: handle_request_def)
  next
    case go: None
    let ?s = "s\<lparr>tr_plane := p\<rparr>"
    show ?thesis
    proof (cases "match_extractor (lq_host rq)")
      case None
      obtain res v where inner: "le_inner L rq w = (res, v)" by fastforce
      then have "fst (handle_request L rq s w) = res"
        by (simp add: handle_request_def kill go None)
      with inner show ?thesis
        by (cases res) (auto simp: hands_on_def, metis fst_conv, metis fst_conv)
    next
      case (Some pv)
      obtain pre s2 w1 where pre: "preflight_llm_call L ?q ?s w = (pre, s2, w1)"
        by (cases "preflight_llm_call L ?q ?s w") auto
      show ?thesis
      proof (cases pre)
        case (Inl x)
        then have "fst (handle_request L rq s w) = Inl x"
          by (simp add: handle_request_def kill go Some pre)
        moreover have "fst (preflight_llm_call L ?q ?s w) = Inl x"
          by (simp add: pre Inl)
        ultimately show ?thesis by auto
      next
        case (Inr pair)
        obtain rid model where pair: "pair = (rid, model)" by fastforce
        obtain got w2 where inner: "le_inner L rq w1 = (got, w2)" by fastforce
        show ?thesis
        proof (cases got)
          case (Inl x)
          then have "fst (handle_request L rq s w) = Inl x"
            by (cases x) (simp_all add: handle_request_def kill go Some pre Inr pair inner)
          moreover have "fst (le_inner L rq w1) = Inl x"
            by (simp add: inner Inl)
          ultimately show ?thesis by auto
        next
          case (Inr r)
          obtain res s' w' where answer: "answer_received L pv rq rid model r s2 w2 = (res, s', w')"
            by (cases "answer_received L pv rq rid model r s2 w2") auto
          have "fst (handle_request L rq s w) = res"
            by (simp add: handle_request_def kill go Some pre \<open>pre = Inr pair\<close> pair inner Inr answer)
          moreover have "fst (le_inner L rq w1) = Inr r"
            by (simp add: inner Inr)
          ultimately show ?thesis
            using answer_received_result [OF answer] Some
            by (elim disjE exE conjE) (simp, blast, simp, blast)
        qed
      qed
    qed
  qed
qed

section \<open>The reservation outlives its call\<close>

text \<open>
  A clock that shows the time \<open>t\<close> of the world it is read in and that no call of the runtime turns back.  The
  reports of a request leave the context as it is, or erase the capture in it, once it is too old.
\<close>

definition time_flows :: "('w \<Rightarrow> rat) \<Rightarrow> 'w track_env \<Rightarrow> bool" where
  "time_flows t E \<longleftrightarrow>
     (\<forall>w. fst (te_now E w) = t w \<and> t w \<le> t (snd (te_now E w)) \<and> t w \<le> t (snd (te_uuid E w)))
     \<and> (\<forall>k w. t w \<le> t (snd (pe_status (te_plane E) k w)))
     \<and> (\<forall>p w. t w \<le> t (snd (track_single (te_gate E) p w)))"

definition ages :: "('w \<Rightarrow> rat) \<Rightarrow> ctx \<Rightarrow> ctx \<Rightarrow> 'w \<Rightarrow> 'w \<Rightarrow> bool" where
  "ages t c c' w w' \<longleftrightarrow> t w \<le> t w' \<and> (c' = c \<or> max_reservation_age \<le> t w' - v_minted_at c)"

lemma ages_refl [simp]: "ages t c c w w"
  by (simp add: ages_def)

lemma ages_trans: "ages t c c1 w w1 \<Longrightarrow> ages t c1 c2 w1 w2 \<Longrightarrow> ages t c c2 w w2"
  by (auto simp: ages_def)

lemma flows_now: "time_flows t E \<Longrightarrow> te_now E w = (now, w1) \<Longrightarrow> now = t w \<and> t w \<le> t w1"
  unfolding time_flows_def by (metis fst_conv snd_conv)

lemma flows_id: "time_flows t E \<Longrightarrow> add_id (te_uuid E) k v d w = (d', w1) \<Longrightarrow> t w \<le> t w1"
  unfolding time_flows_def add_id_def str_or_fresh_def
  by (auto split: if_splits option.splits prod.splits) (metis snd_conv)+

lemma flows_plane: "time_flows t E \<Longrightarrow> check_control_plane (te_plane E) wid p w = (verdict, p', w1) \<Longrightarrow> t w \<le> t w1"
  unfolding time_flows_def check_control_plane_def fetch_remote_state_def
  by (auto simp: Let_def split: if_splits prod.splits sum.splits) (metis snd_conv)+

lemma flows_settle: "time_flows t E \<Longrightarrow> settle_single E d p s w = (r, s', w1) \<Longrightarrow> t w \<le> t w1"
  unfolding time_flows_def settle_single_def
  by (auto simp: Let_def split: prod.splits sum.splits) (metis snd_conv)+

lemma execution_id_ages:
  "time_flows t E \<Longrightarrow> add_execution_id E d c w = (d', c', w1) \<Longrightarrow> ages t c c' w w1"
  by (auto simp: add_execution_id_def ages_def split: if_splits option.splits prod.splits dest!: flows_now)

lemma enrich_ages:
  assumes "time_flows t E" "enrich_event E ev s w = (d, s1, w1)"
  shows "ages t (tr_ctx s) (tr_ctx s1) w w1"
proof -
  obtain d1 k v d2 u1 k2 v2 d3 u2 d4 c1 d5 where "add_id (te_uuid E) k v d1 w = (d2, u1)"
    "add_id (te_uuid E) k2 v2 d2 u1 = (d3, u2)" "add_execution_id E d4 (tr_ctx s) u2 = (d5, c1, w1)" "tr_ctx s1 = c1"
    using assms(2) unfolding enrich_event_def Let_def by (auto split: prod.splits)
  then show ?thesis
    using flows_id [OF assms(1)] execution_id_ages [OF assms(1)] unfolding ages_def by (metis order_trans)
qed

lemma track_ages:
  assumes "time_flows t E" "runtime_track E ev given s w = (r, s', w')"
  shows "ages t (tr_ctx s) (tr_ctx s') w w'"
  using assms(2)
proof (cases rule: runtime_track_cases)
  case (fresh sn)
  obtain d s1 w1 verdict p w2 wid q where e: "enrich_event E ev (s\<lparr>tr_seen := sn\<rparr>) w = (d, s1, w1)"
    and plane: "check_control_plane (te_plane E) wid q w1 = (verdict, p, w2)"
    and ends: "s' = s1\<lparr>tr_plane := p\<rparr> \<and> w' = w2
     \<or> (\<exists>x. route_track E (wire_event_of (set_missing ''tokens'' (JInt 0) d)) given (s1\<lparr>tr_plane := p\<rparr>) w2 = (x, s', w'))"
    using fresh(2) by (auto simp: track_fresh_def Let_def split: prod.splits if_splits option.splits)
  have "tr_ctx s' = tr_ctx s1 \<and> t w2 \<le> t w'"
    using ends
  proof (elim disjE conjE exE)
    fix x
    assume "route_track E (wire_event_of (set_missing ''tokens'' (JInt 0) d)) given (s1\<lparr>tr_plane := p\<rparr>) w2 = (x, s', w')"
    then show ?thesis
    proof (cases rule: route_track_cases)
      case (settled pl)
      from settle_single_effect(2) [OF settled(5)] flows_settle [OF assms(1) settled(5)] show ?thesis by simp
    qed simp_all
  qed simp
  then show ?thesis
    using enrich_ages [OF assms(1) e] flows_plane [OF assms(1) plane] by (auto simp: ages_def)
next
  case (seen sn)
  with assms(2) show ?thesis by (simp add: runtime_track_def)
qed

lemma quiet_ages:
  "time_flows t (le_track L) \<Longrightarrow> track_quietly L ev rid s w = (s', w') \<Longrightarrow> ages t (tr_ctx s) (tr_ctx s') w w'"
  by (cases "runtime_track (le_track L) ev rid s w") (auto simp: track_quietly_def dest: track_ages)

lemma release_ages:
  "time_flows t (le_track L) \<Longrightarrow> release_reservation L rid model host reason s w = (s', w')
    \<Longrightarrow> ages t (tr_ctx s) (tr_ctx s') w w'"
  by (auto simp: release_reservation_def dest: quiet_ages split: if_splits)

lemma answer_ages:
  assumes "time_flows t (le_track L)" "answer_received L pv rq rid model r s w = (res, s', w')"
  shows "ages t (tr_ctx s) (tr_ctx s') w w'"
proof (cases "read_body_with_cap r (le_cap L)")
  case None
  obtain s1 w1 where skipped: "track_quietly L (skipped_event L rq) None s w = (s1, w1)" by fastforce
  have "ages t (tr_ctx s1) (tr_ctx s') w1 w'"
    using assms None skipped by (intro release_ages) (auto simp: answer_received_def)
  with quiet_ages [OF assms(1) skipped] show ?thesis by (rule ages_trans)
next
  case (Some body)
  with assms show ?thesis
    by (auto simp: answer_received_def emit_usage_def dest: release_ages quiet_ages
        split: if_splits sum.splits option.splits)
qed

text \<open>While the capture is fresh the gate is not asked, whatever it would say.\<close>

lemma preflight_rides:
  assumes "opt_text (v_minted (tr_ctx s)) \<noteq> []"
    and "fst (te_now (le_track L) w) - v_minted_at (tr_ctx s) < max_reservation_age"
  shows "preflight_llm_call (L\<lparr>le_budget := B\<rparr>) q s w = preflight_llm_call L q s w
    \<and> (\<exists>m w'. preflight_llm_call L q s w = (Inr (None, m), s, w'))"
proof -
  obtain eid where eid: "v_minted (tr_ctx s) = Some eid" "eid \<noteq> []"
    using assms(1) by (cases "v_minted (tr_ctx s)") (simp_all add: opt_text_def)
  obtain now w1 where now: "te_now (le_track L) w = (now, w1)" by fastforce
  then have "\<not> now - v_minted_at (tr_ctx s) \<ge> max_reservation_age"
    using assms(2) by simp
  then have "ambient_reservation L (tr_ctx s) w = (Some eid, w1)"
    and "ambient_reservation (L\<lparr>le_budget := B\<rparr>) (tr_ctx s) w = (Some eid, w1)"
    using now eid by (simp_all add: ambient_reservation_def opt_text_def)
  then show ?thesis
    by (cases q) (simp_all add: preflight_llm_call_def)
qed

text \<open>The gate returns the reservation it has captured.\<close>

lemma gate_returns_capture:
  assumes "check_workflow_budget E cfg cx s w = (Inr (JStr rid), s', w')"
  shows "rs_minted s' = JStr rid"
proof -
  have await: "res = JStr rid" if "await_approval E cfg wid res d v = (Inr (JStr rid), v')" for wid res d v v'
    using that by (auto simp: await_approval_def Let_def split: if_splits sum.splits prod.splits option.splits
        approval_verdict.splits)
  have act: "rs_minted t' = JStr rid" if "act_on_answer E cfg cx wid j t v = (Inr (JStr rid), t', v')"
    for wid j t t' v v'
    using that by (auto simp: act_on_answer_def Let_def dest!: await split: if_splits sum.splits prod.splits)
  show ?thesis
    using assms by (auto simp: check_workflow_budget_def Let_def dest!: act
        split: bypass.splits prod.splits if_splits sum.splits option.splits)
qed

lemma preflight_captures:
  assumes "preflight_llm_call L q s w = (Inr (Some rid, m), s1, w1)"
  shows "v_minted (tr_ctx s1) = Some rid \<and> rid \<noteq> []"
  using assms by (auto simp: preflight_llm_call_def check_llm_budget_def absorb_gate_def Let_def
      dest!: gate_returns_capture split: option.splits prod.splits sum.splits json.splits if_splits)

lemma events_ignore_budget:
  "track_quietly (L\<lparr>le_budget := B\<rparr>) = track_quietly L"
  "fingerprint_for_llm_call (L\<lparr>le_budget := B\<rparr>) = fingerprint_for_llm_call L"
  by (intro ext, simp add: track_quietly_def fingerprint_for_llm_call_def)+

lemma fields_ignore_budget:
  "le_loads (L\<lparr>le_budget := B\<rparr>) = le_loads L" "le_points (L\<lparr>le_budget := B\<rparr>) = le_points L"
  "le_blank (L\<lparr>le_budget := B\<rparr>) = le_blank L" "le_inner (L\<lparr>le_budget := B\<rparr>) = le_inner L"
  "le_cap (L\<lparr>le_budget := B\<rparr>) = le_cap L"
  by simp_all

lemma reports_ignore_budget:
  "release_reservation (L\<lparr>le_budget := B\<rparr>) = release_reservation L"
  "emit_usage (L\<lparr>le_budget := B\<rparr>) = emit_usage L"
  "skipped_event (L\<lparr>le_budget := B\<rparr>) = skipped_event L"
  by (intro ext, simp add: release_reservation_def emit_usage_def skipped_event_def build_llm_call_event_def
      events_ignore_budget)+

lemma answer_ignores_budget:
  "answer_received (L\<lparr>le_budget := B\<rparr>) pv rq rid m r s w = answer_received L pv rq rid m r s w"
  unfolding answer_received_def reports_ignore_budget events_ignore_budget fields_ignore_budget by (rule refl)

lemma handle_rides:
  assumes "opt_text (v_minted (tr_ctx s)) \<noteq> []"
    and "fst (te_now (le_track L) w) - v_minted_at (tr_ctx s) < max_reservation_age"
  shows "handle_request (L\<lparr>le_budget := B\<rparr>) rq s w = handle_request L rq s w"
proof -
  have "preflight_llm_call (L\<lparr>le_budget := B\<rparr>) q (s\<lparr>tr_plane := p\<rparr>) w
      = preflight_llm_call L q (s\<lparr>tr_plane := p\<rparr>) w" for q p
    using preflight_rides [of "s\<lparr>tr_plane := p\<rparr>" L w B q] assms by simp
  then show ?thesis
    unfolding handle_request_def Let_def reports_ignore_budget answer_ignores_budget fields_ignore_budget
    by (simp only:)
qed

lemma request_keeps_capture:
  assumes "check_kill_before_send (tr_plane s) = (None, p)" "match_extractor (lq_host rq) = Some pv"
    and "preflight_llm_call L (profile_of_body (le_points L) (le_blank L) (le_loads L) (lq_body rq))
           (s\<lparr>tr_plane := p\<rparr>) w = (Inr (rid, m), s1, w1)"
    and "handle_request L rq s w = (res, s2, w2)" "time_flows t (le_track L)"
  shows "tr_ctx s2 = tr_ctx s1 \<or> max_reservation_age \<le> t w2 - v_minted_at (tr_ctx s1)"
proof -
  obtain got v where inner: "le_inner L rq w1 = (got, v)" by fastforce
  show ?thesis
  proof (cases got)
    case (Inr r)
    with assms inner have "answer_received L pv rq rid m r s1 v = (res, s2, w2)"
      by (simp add: handle_request_def)
    from answer_ages [OF assms(5) this] show ?thesis by (auto simp: ages_def)
  next
    case (Inl x)
    show ?thesis
    proof (cases "\<exists>y. x = Interrupt y")
      case True
      with assms inner Inl show ?thesis by (auto simp: handle_request_def)
    next
      case False
      with assms inner Inl have "release_reservation L rid m (lq_host rq) ''request_failed'' s1 v = (s2, w2)"
        by (cases x) (auto simp: handle_request_def)
      from release_ages [OF assms(5) this] show ?thesis by (auto simp: ages_def)
    qed
  qed
qed

text \<open>
  C14: one reservation answers for the next call too.  After an instrumented request took a reservation, whatever
  became of that request and of its settlement, the next request that begins less than 295 seconds after the
  capture, on a clock that runs forward, still holds that reservation and does not depend on the gate at all: a
  backend that would refuse it is not asked, and no reservation is made for it.
\<close>

theorem one_reservation_answers_for_later_calls:
  assumes "check_kill_before_send (tr_plane s) = (None, p)" "match_extractor (lq_host rq) = Some pv"
    and "preflight_llm_call L (profile_of_body (le_points L) (le_blank L) (le_loads L) (lq_body rq))
           (s\<lparr>tr_plane := p\<rparr>) w = (Inr (Some rid, m), s1, w1)"
    and "handle_request L rq s w = (res, s2, w2)"
    and "time_flows t (le_track L)" "t w2 - v_minted_at (tr_ctx s1) < 295"
  shows "v_minted (tr_ctx s2) = Some rid
    \<and> handle_request (L\<lparr>le_budget := B\<rparr>) rq2 s2 w2 = handle_request L rq2 s2 w2"
proof -
  have kept: "tr_ctx s2 = tr_ctx s1"
    using request_keeps_capture [OF assms(1-5)] assms(6) by (simp add: max_reservation_age_def)
  have minted: "v_minted (tr_ctx s2) = Some rid" "rid \<noteq> []"
    using preflight_captures [OF assms(3)] kept by simp_all
  have "fst (te_now (le_track L) w2) = t w2" using assms(5) by (simp add: time_flows_def)
  then have "handle_request (L\<lparr>le_budget := B\<rparr>) rq2 s2 w2 = handle_request L rq2 s2 w2"
    using minted assms(6) kept by (intro handle_rides) (simp_all add: opt_text_def max_reservation_age_def)
  with minted show ?thesis by simp
qed

end
