(* ===== verification/Llm_Release.thy ===== *)
theory Llm_Release
  imports Llm_Transport_Laws
begin

text \<open>
  A reservation that no usage event will consume is given back: the settlement of an event of a running
  workflow, the release after a failed request, and the two ways a reservation is left to the server.
\<close>

section \<open>Fields the enrichment leaves alone\<close>

definition enriched_keys :: "string list" where
  "enriched_keys =
     [''workflow_id'', ''trace_id'', ''span_id'', ''agent_id'', ''attempt_index'', ''execution_id'',
      ''idempotency_key'', ''parent_trace_id'', ''operation_name'', ''is_retry'', ''type'']"

lemma set_missing_other: "k \<noteq> k' \<Longrightarrow> dict_get (set_missing k' v d) k = dict_get d k"
  by (simp add: set_missing_def)

lemma add_id_other: "add_id uuid k' v d w = (d', w') \<Longrightarrow> k \<noteq> k' \<Longrightarrow> dict_get d' k = dict_get d k"
  by (auto simp: add_id_def split: if_splits prod.splits)

lemma add_execution_other:
  "add_execution_id E d c w = (d', c', w') \<Longrightarrow> k \<noteq> ''execution_id'' \<Longrightarrow> dict_get d' k = dict_get d k"
  by (auto simp: add_execution_id_def split: if_splits option.splits prod.splits)

lemma add_key_other:
  "k \<noteq> ''idempotency_key'' \<Longrightarrow> dict_get (add_idempotency_key rep c d) k = dict_get d k"
  by (simp add: add_idempotency_key_def)

text \<open>One lemma for the whole enrichment, with the workflow it adds.\<close>

lemma enrich_fields:
  assumes "enrich_event E ev s w = (d, s1, w1)"
  shows "k \<notin> set enriched_keys \<Longrightarrow> dict_get d k = dict_get ev k"
    and "dict_get ev ''workflow_id'' = None \<Longrightarrow> resolve_workflow_id (opt_text (v_workflow (tr_ctx s))) (tr_plane s) = wid
      \<Longrightarrow> wid \<noteq> [] \<Longrightarrow> dict_get d ''workflow_id'' = Some (JStr wid)"
proof -
  let ?c = "tr_ctx s"
  let ?wid = "resolve_workflow_id (opt_text (v_workflow ?c)) (tr_plane s)"
  let ?d1 = "if ?wid = [] then ev else set_missing ''workflow_id'' (JStr ?wid) ev"
  obtain d2 wa where a: "add_id (te_uuid E) ''trace_id'' (v_trace ?c) ?d1 w = (d2, wa)" by fastforce
  obtain d3 wb where b: "add_id (te_uuid E) ''span_id'' (v_span ?c) d2 wa = (d3, wb)" by fastforce
  let ?d4 = "if opt_text (v_agent ?c) = [] then d3 else set_missing ''agent_id'' (JStr (opt_text (v_agent ?c))) d3"
  let ?d5 = "if v_attempt ?c > 0 then set_missing ''attempt_index'' (JInt (v_attempt ?c)) ?d4 else ?d4"
  obtain d6 c1 wc where e: "add_execution_id E ?d5 ?c wb = (d6, c1, wc)"
    by (cases "add_execution_id E ?d5 ?c wb") auto
  have shape: "d = finish_event (te_repr E) (tr_ctx s1) d6"
    using assms a b e unfolding enrich_event_def Let_def finish_event_def by auto
  have later: "dict_get d j = dict_get ?d1 j" if "j \<notin> set enriched_keys - {''workflow_id''}" for j
  proof -
    have "dict_get d j = dict_get d6 j"
      using that unfolding shape finish_event_def
      by (simp add: set_missing_other add_key_other enriched_keys_def)
    also have "\<dots> = dict_get ?d5 j"
      using that by (intro add_execution_other [OF e]) (simp add: enriched_keys_def)
    also have "\<dots> = dict_get d3 j"
      using that by (simp add: set_missing_other enriched_keys_def)
    also have "\<dots> = dict_get d2 j"
      using that by (intro add_id_other [OF b]) (simp add: enriched_keys_def)
    also have "\<dots> = dict_get ?d1 j"
      using that by (intro add_id_other [OF a]) (simp add: enriched_keys_def)
    finally show ?thesis .
  qed
  show "dict_get d k = dict_get ev k" if "k \<notin> set enriched_keys"
  proof -
    have "k \<noteq> ''workflow_id''" and "k \<notin> set enriched_keys - {''workflow_id''}"
      using that by (auto simp: enriched_keys_def)
    then show ?thesis
      using later [of k] by (simp add: set_missing_other)
  qed
  show "dict_get d ''workflow_id'' = Some (JStr wid)" if "dict_get ev ''workflow_id'' = None" "?wid = wid" "wid \<noteq> []"
    using later [of "''workflow_id''"] that by (simp add: set_missing_def)
qed

section \<open>An event of a running workflow is settled\<close>

lemma fold_fields_total:
  assumes "\<And>k. Number k \<in> set fs \<Longrightarrow> jget d k = JNull \<or> (\<exists>n. jget d k = JInt n)"
  shows "\<exists>p'. fold (add_field d) fs (Inr p) = Inr p'"
  using assms
proof (induction fs arbitrary: p)
  case (Cons f fs)
  have "\<exists>p1. add_field d f (Inr p) = Inr p1"
  proof (cases f)
    case (Number k)
    then show ?thesis
      using Cons.prems [of k] by (auto simp: add_field_def py_int_def)
  qed (simp_all add: add_field_def)
  then obtain p1 where "add_field d f (Inr p) = Inr p1" ..
  moreover have "\<exists>p'. fold (add_field d) fs (Inr p1) = Inr p'"
    using Cons.prems by (intro Cons.IH) simp
  ultimately show ?case by simp
qed simp

lemma payload_total:
  assumes "truthy (jget d ''workflow_id'')" "jget d ''tokens'' = JInt n"
    and "\<And>k. Number k \<in> set payload_fields \<Longrightarrow> jget d k = JNull \<or> (\<exists>i. jget d k = JInt i)"
  obtains p where "build_v3_track_payload rep c d rid = Inr (Some p)"
    "dict_get p ''tokens'' = Some (JInt n)" "dict_get p ''reservation_id'' = Some (JStr rid)"
proof -
  let ?p0 = "[(''reservation_id'', JStr rid), (''workflow_id'', jget d ''workflow_id''),
              (''tokens'', JInt n), (''cost_source'', JStr ''provisional'')]"
  obtain p1 where p1: "fold (add_field d) payload_fields (Inr ?p0) = Inr p1"
    using fold_fields_total [OF assms(3)] by blast
  let ?key = "settlement_key rep c d"
  let ?p = "if ?key = [] then p1 else dict_set ''idempotency_key'' (JStr ?key) p1"
  have built: "build_v3_track_payload rep c d rid = Inr (Some ?p)"
    using assms(1,2) p1 by (simp add: build_v3_track_payload_def py_int_def Let_def)
  have "dict_get p1 ''tokens'' = Some (JInt n)"
    using fold_field_keep [OF p1, of "''tokens''"] by (simp add: payload_fields_def)
  then have tokens: "dict_get ?p ''tokens'' = Some (JInt n)"
    by simp
  show thesis
    by (rule that [OF built tokens payload_reservation(1) [OF built]])
qed

lemma wire_get:
  "k \<noteq> ''__missing_model'' \<Longrightarrow> k \<notin> set wire_strip_fields
     \<Longrightarrow> jget (wire_event_of d) k = jget (filter (\<lambda>(k, v). k \<notin> set wire_strip_fields \<and> v \<noteq> JNull) d) k"
  by (simp add: wire_event_of_def Let_def jget_def)

lemma wire_none:
  assumes "dict_get d k = None" "k \<noteq> ''__missing_model''"
  shows "dict_get (wire_event_of d) k = None"
proof -
  have "map_of (filter P d) k = None" for P
    using assms(1) by (induction d) (auto simp: dict_get_def split: if_splits)
  with assms(2) show ?thesis
    by (simp add: wire_event_of_def Let_def dict_get_def [symmetric])
qed

text \<open>The event: an LLM call with integer counts and no workflow of its own, reported with a reservation.\<close>

lemma running_event_settles:
  assumes "json_text (jget ev ''_fingerprint'') = fp" "fp \<noteq> []" "fp \<notin> set (tr_seen s)"
    and "dict_get ev ''type'' = Some (JStr ''llm_call'')" "dict_get ev ''tokens'' = Some (JInt n)"
    and "dict_get ev ''input_tokens'' = Some (JInt i)" "dict_get ev ''output_tokens'' = Some (JInt out)"
    and "dict_get ev ''latency_ms'' = None" "dict_get ev ''workflow_id'' = None"
    and "resolve_workflow_id (opt_text (v_workflow (tr_ctx s))) (tr_plane s) = wid" "wid \<noteq> []"
    and "dict_get (p_states (tr_plane s)) (JStr wid) = Some st" "st \<noteq> []" "state_verdict (JStr wid) st = Proceed"
    and "\<not> v3_disabled E" "rid \<noteq> []"
  obtains p s' w' where "snd (runtime_track E ev (Some rid) s w) = (s', w')"
    "tr_calls s' = tr_calls s @ [SingleTrack p]"
    "dict_get p ''tokens'' = Some (JInt n)" "dict_get p ''reservation_id'' = Some (JStr rid)"
proof -
  obtain sn where sn: "fingerprint_is_seen (tr_seen s) fp = (False, sn)"
    using assms(2,3) by (simp add: fingerprint_is_seen_def Let_def)
  obtain d s1 w1 where e: "enrich_event E ev (s\<lparr>tr_seen := sn\<rparr>) w = (d, s1, w1)"
    by (cases "enrich_event E ev (s\<lparr>tr_seen := sn\<rparr>) w") auto
  have state: "tr_plane s1 = tr_plane s" "tr_calls s1 = tr_calls s"
    by (rule enrich_state [OF e], simp)+
  have wid: "dict_get d ''workflow_id'' = Some (JStr wid)"
    using assms(9-11) by (intro enrich_fields(2) [OF e]) simp_all
  have counts: "dict_get d ''tokens'' = Some (JInt n)" "dict_get d ''input_tokens'' = Some (JInt i)"
    "dict_get d ''output_tokens'' = Some (JInt out)" "dict_get d ''latency_ms'' = None"
    using assms(5-8) by (simp_all add: enrich_fields(1) [OF e] enriched_keys_def)
  have kind: "dict_get d ''type'' = Some (JStr ''llm_call'')"
    by (rule enrich_keep [OF e assms(4)]) simp
  let ?d = "set_missing ''tokens'' (JInt 0) d"
  have same: "?d = d"
    using counts(1) by (simp add: set_missing_def)
  let ?wire = "wire_event_of d"
  have wire: "jget ?wire ''workflow_id'' = JStr wid" "jget ?wire ''type'' = JStr ''llm_call''"
    "jget ?wire ''tokens'' = JInt n" "jget ?wire ''input_tokens'' = JInt i" "jget ?wire ''output_tokens'' = JInt out"
    "jget ?wire ''latency_ms'' = JNull"
    using wire_keeps [OF wid] wire_keeps [OF kind] wire_keeps [OF counts(1)] wire_keeps [OF counts(2)]
      wire_keeps [OF counts(3)] wire_none [OF counts(4)]
    by (simp_all add: wire_strip_fields_def jget_def)
  obtain p where p: "build_v3_track_payload (te_repr E) (tr_ctx s1) ?wire rid = Inr (Some p)"
    "dict_get p ''tokens'' = Some (JInt n)" "dict_get p ''reservation_id'' = Some (JStr rid)"
    using wire assms(11) by (rule_tac payload_total [of ?wire n "te_repr E" "tr_ctx s1" rid])
      (auto simp: payload_fields_def)
  have check: "check_control_plane (te_plane E) wid (known_workflow wid (tr_plane s1)) w1 = (Proceed, tr_plane s, w1)"
    using check_known [OF assms(11-13)] assms(11,12,14) state(1)
    by (simp add: known_workflow_def remote_state_for_def)
  obtain r s2 w2 where settle: "settle_single E ?wire p (s1\<lparr>tr_plane := tr_plane s\<rparr>) w1 = (r, s2, w2)"
    by (cases "settle_single E ?wire p (s1\<lparr>tr_plane := tr_plane s\<rparr>) w1") auto
  have "reservation_for (Some rid) (tr_ctx s1) = rid"
    using assms(16) by (simp add: reservation_for_def opt_text_def)
  then have "route_track E ?wire (Some rid) (s1\<lparr>tr_plane := tr_plane s\<rparr>) w1 = (r, s2, w2)"
    using assms(15,16) wire(2) p(1) settle by (simp add: route_track_def)
  then have "snd (runtime_track E ev (Some rid) s w) = (s2, w2)"
    using assms(1) sn e wid check same
    by (simp add: runtime_track_def track_fresh_def jget_def json_text_def split: option.split)
  then show thesis
    using settle_single_effect(1) [OF settle] state(2) p by (intro that) simp_all
qed

section \<open>A failed request\<close>

lemma release_fields:
  "dict_get (release_event rid model host reason) ''type'' = Some (JStr ''llm_call'')"
  "dict_get (release_event rid model host reason) ''tokens'' = Some (JInt 0)"
  "dict_get (release_event rid model host reason) ''input_tokens'' = Some (JInt 0)"
  "dict_get (release_event rid model host reason) ''output_tokens'' = Some (JInt 0)"
  "dict_get (release_event rid model host reason) ''latency_ms'' = None"
  "dict_get (release_event rid model host reason) ''workflow_id'' = None"
  "json_text (jget (release_event rid model host reason) ''_fingerprint'') = ''nullrun-release-'' @ rid"
  by (simp_all add: release_event_def empty_call_event_def jget_def json_text_def)

text \<open>
  C13: a failed request gives its reservation back.  Let the wrapped transport raise an \<open>Exception\<close> after the pre-flight
  took a reservation for a named model, in a workflow whose state is cached and not a stop, with the v3
  settlement not switched off and the fingerprint of this release not seen before.  Then exactly one
  settlement call is made to \<open>track\<close>: it names that reservation and charges no token; the caller gets the
  exception of the transport.  Whether the backend accepts that call is outside the claim.
\<close>

theorem failed_request_releases:
  assumes "check_kill_before_send (tr_plane s) = (None, p)" "match_extractor (lq_host rq) = Some pv"
    and "preflight_llm_call L (profile_of_body (le_points L) (le_blank L) (le_loads L) (lq_body rq))
           (s\<lparr>tr_plane := p\<rparr>) w = (Inr (Some rid, Some model), s1, w1)" "model \<noteq> []"
    and "le_inner L rq w1 = (Inl (Raising x), w2)"
    and "resolve_workflow_id (opt_text (v_workflow (tr_ctx s1))) (tr_plane s1) = wid" "wid \<noteq> []"
    and "dict_get (p_states (tr_plane s1)) (JStr wid) = Some st" "st \<noteq> []" "state_verdict (JStr wid) st = Proceed"
    and "\<not> v3_disabled (le_track L)" "''nullrun-release-'' @ rid \<notin> set (tr_seen s1)"
  shows "\<exists>pl s' w'. handle_request L rq s w = (Inl (Raising x), s', w')
    \<and> tr_calls s' = tr_calls s1 @ [SingleTrack pl]
    \<and> dict_get pl ''tokens'' = Some (JInt 0) \<and> dict_get pl ''reservation_id'' = Some (JStr rid)"
proof -
  let ?ev = "release_event rid model (lq_host rq) ''request_failed''"
  have rid: "rid \<noteq> []"
    using preflight_captures [OF assms(3)] by simp
  obtain pl s' w' where settled: "snd (runtime_track (le_track L) ?ev (Some rid) s1 w2) = (s', w')"
    "tr_calls s' = tr_calls s1 @ [SingleTrack pl]"
    "dict_get pl ''tokens'' = Some (JInt 0)" "dict_get pl ''reservation_id'' = Some (JStr rid)"
    by (rule running_event_settles [OF release_fields(7) _ assms(12) release_fields(1-6) assms(6-11) rid]) simp
  have "handle_request L rq s w = (Inl (Raising x), s', w')"
    using assms(1-5) rid settled(1)
    by (simp add: handle_request_def release_reservation_def track_quietly_def opt_text_def)
  with settled(2-4) show ?thesis by blast
qed

section \<open>Reservations left behind\<close>

text \<open>An answer whose fingerprint has been seen settles nothing, and nothing releases its reservation.\<close>

lemma repeated_answer_keeps_reservation:
  assumes "read_body_with_cap r (le_cap L) = Some body" "body \<noteq> []"
    and "extract_usage pv (le_loads L) body (lr_status r) = Inr (Some u)"
    and "fingerprint_for_llm_call L (py_or (u_model u) (model_of_body (le_loads L) (lq_body rq)))
           (provider_label (lq_host rq)) (u_id u) \<in> set (tr_seen s) - {[]}"
  shows "tr_calls (fst (snd (answer_received L pv rq rid model r s w))) = tr_calls s"
proof -
  let ?m = "py_or (u_model u) (model_of_body (le_loads L) (lq_body rq))"
  let ?ev = "build_llm_call_event L (lq_host rq) u ?m"
  have "json_text (jget ?ev ''_fingerprint'') = fingerprint_for_llm_call L ?m (provider_label (lq_host rq)) (u_id u)"
    by (simp add: build_llm_call_event_def jget_def json_text_def)
  then have "fst (fingerprint_is_seen (tr_seen s) (json_text (jget ?ev ''_fingerprint'')))"
    using assms(4) by (auto simp: fingerprint_is_seen_def)
  then have "tr_calls (fst (snd (runtime_track (le_track L) ?ev rid s w))) = tr_calls s"
    by (auto simp: runtime_track_def split: prod.splits bool.splits)
  then show ?thesis
    using assms(1-3) by (simp add: answer_received_def emit_usage_def track_quietly_def)
qed

section \<open>Concrete requests\<close>

definition allowing_gate :: "'w budget_env" where
  "allowing_gate =
     \<lparr>be_environ = (\<lambda>n. None), be_host = (\<lambda>u. None), be_uuid_ok = (\<lambda>s. True), be_float = (\<lambda>s. None),
      be_name = (\<lambda>c. []), be_repr = (\<lambda>j. []), be_uuid = (\<lambda>w. (''op'', w)), be_now = (\<lambda>w. (0, w)),
      be_check = (\<lambda>d w. (Inr (JObj allow_body), w)), be_wait = (\<lambda>a t w. ((TimedOut, JNull), w)),
      be_consume = (\<lambda>a w. w)\<rparr>"

definition failing_client :: "llm_request \<Rightarrow> 'w \<Rightarrow> (protect_exn + llm_response) \<times> 'w" where
  "failing_client rq w = (Inl (Raising ''ConnectError''), w)"

definition unit_llm_env :: "unit llm_env" where
  "unit_llm_env =
     \<lparr>le_track = unit_track_env None 0 accepting_backend, le_budget = allowing_gate, le_cfg = sample_cfg,
      le_captured_at = (\<lambda>w. 0), le_inner = failing_client, le_loads = one_request, le_points = (\<lambda>s. []),
      le_blank = (\<lambda>n. n = 32), le_sha256 = id, le_float_repr = (\<lambda>r. []), le_cap = 100\<rparr>"

definition openai_request :: llm_request where
  "openai_request = \<lparr>lq_host = ''api.openai.com'', lq_body = ''x''\<rparr>"

definition openai_profile :: request_profile where
  "openai_profile = \<lparr>rq_model = ''m'', rq_estimated = 0, rq_declared_max = Some 9\<rparr>"

lemma sample_env_simps [simp]:
  "le_points unit_llm_env = (\<lambda>s. [])" "le_blank unit_llm_env = (\<lambda>n. n = 32)"
  "le_loads unit_llm_env = one_request" "le_inner unit_llm_env = failing_client"
  "le_track unit_llm_env = unit_track_env None 0 accepting_backend"
  "lq_body openai_request = ''x''" "lq_host openai_request = ''api.openai.com''"
  by (simp_all add: unit_llm_env_def openai_request_def)

lemma openai_profile_read:
  "profile_of_body (\<lambda>s. []) (\<lambda>n. n = 32) one_request ''x'' = Some openai_profile"
  by (simp add: profile_of_body_def one_request_def declared_max_def max_output_token_fields_def
      openai_profile_def estimate_tokens_def max_estimated_input_tokens_def looks_like_data_blob_def)

definition running_state :: track_state where
  "running_state = sample_state ''Normal'' None"

definition after_preflight :: track_state where
  "after_preflight = fst (snd (preflight_llm_call unit_llm_env (Some openai_profile) running_state ()))"

lemma openai_host: "match_extractor ''api.openai.com'' = Some OpenAI"
  by code_simp

lemma running_check: "check_kill_before_send (tr_plane running_state) = (None, tr_plane running_state)"
  by code_simp

lemma running_preflight:
  "preflight_llm_call unit_llm_env (Some openai_profile) running_state ()
     = (Inr (Some ''r1'', Some ''m''), after_preflight, ())"
proof -
  have "fst (preflight_llm_call unit_llm_env (Some openai_profile) running_state ()) = Inr (Some ''r1'', Some ''m'')"
    by code_simp
  then show ?thesis
    by (simp add: after_preflight_def prod_eq_iff)
qed

lemma after_preflight_facts:
  "resolve_workflow_id (opt_text (v_workflow (tr_ctx after_preflight))) (tr_plane after_preflight) = ''wf''"
  "dict_get (p_states (tr_plane after_preflight)) (JStr ''wf'') = Some [(''state'', JStr ''Normal'')]"
  "tr_seen after_preflight = []" "v_minted_at (tr_ctx after_preflight) = 0"
  by code_simp+

lemma running_preflight_read:
  "preflight_llm_call unit_llm_env
     (profile_of_body (le_points unit_llm_env) (le_blank unit_llm_env) (le_loads unit_llm_env) (lq_body openai_request))
     (running_state\<lparr>tr_plane := tr_plane running_state\<rparr>) ()
   = (Inr (Some ''r1'', Some ''m''), after_preflight, ())"
  by (simp add: openai_profile_read running_preflight)

lemma failed_request_releases_witness:
  "\<exists>pl s' w'. handle_request unit_llm_env openai_request running_state () = (Inl (Raising ''ConnectError''), s', w')
    \<and> tr_calls s' = tr_calls after_preflight @ [SingleTrack pl]
    \<and> dict_get pl ''tokens'' = Some (JInt 0) \<and> dict_get pl ''reservation_id'' = Some (JStr ''r1'')"
proof -
  have "match_extractor (lq_host openai_request) = Some OpenAI"
    by (simp add: openai_host)
  moreover have "le_inner unit_llm_env openai_request () = (Inl (Raising ''ConnectError''), ())"
    by (simp add: failing_client_def)
  moreover have "state_verdict (JStr ''wf'') [(''state'', JStr ''Normal'')] = Proceed"
    by code_simp
  moreover have "\<not> v3_disabled (le_track unit_llm_env)"
    by (simp add: v3_disabled_def unit_track_env_def)
  ultimately show ?thesis
    using failed_request_releases [OF running_check _ running_preflight_read _ _ after_preflight_facts(1) _
        after_preflight_facts(2)] after_preflight_facts(3)
    by simp
qed

text \<open>The same on a clock that moves by one second with every reading.\<close>

definition ticking_env :: "rat llm_env" where
  "ticking_env =
     \<lparr>le_track = (unit_track_env None 0 accepting_backend)\<lparr>te_now := (\<lambda>w. (w, w + 1))\<rparr>, le_budget = allowing_gate,
      le_cfg = sample_cfg, le_captured_at = id, le_inner = failing_client, le_loads = one_request,
      le_points = (\<lambda>s. []), le_blank = (\<lambda>n. n = 32), le_sha256 = id, le_float_repr = (\<lambda>r. []), le_cap = 100\<rparr>"

lemma ticking_flows: "time_flows id (le_track ticking_env)"
  by (simp add: time_flows_def ticking_env_def unit_track_env_def track_single_def post_once_def settle_request_def
      accepting_backend_def)

definition ticked :: track_state where
  "ticked = fst (snd (preflight_llm_call ticking_env (Some openai_profile) running_state 0))"

lemma ticking_preflight:
  "preflight_llm_call ticking_env
     (profile_of_body (le_points ticking_env) (le_blank ticking_env) (le_loads ticking_env) (lq_body openai_request))
     (running_state\<lparr>tr_plane := tr_plane running_state\<rparr>) 0
   = (Inr (Some ''r1'', Some ''m''), ticked, 0)"
proof -
  have "fst (preflight_llm_call ticking_env (Some openai_profile) running_state 0) = Inr (Some ''r1'', Some ''m'')"
    "snd (snd (preflight_llm_call ticking_env (Some openai_profile) running_state 0)) = 0"
    by code_simp+
  then show ?thesis
    by (simp add: ticked_def prod_eq_iff openai_profile_read ticking_env_def)
qed

lemma ticking_run:
  "snd (snd (handle_request ticking_env openai_request running_state 0)) = 1" "v_minted_at (tr_ctx ticked) = 0"
  by code_simp+

lemma one_reservation_answers_for_later_calls_witness:
  "\<exists>res s2. handle_request ticking_env openai_request running_state 0 = (res, s2, 1)
    \<and> v_minted (tr_ctx s2) = Some ''r1''
    \<and> handle_request (ticking_env\<lparr>le_budget := allowing_gate\<lparr>be_check := (\<lambda>d w. (Inl (PyError ''Refused''), w))\<rparr>\<rparr>)
         openai_request s2 1
       = handle_request ticking_env openai_request s2 1"
proof -
  have host: "match_extractor (lq_host openai_request) = Some OpenAI"
    by (simp add: openai_host)
  obtain res s2 where run: "handle_request ticking_env openai_request running_state 0 = (res, s2, 1)"
    using ticking_run(1) by (metis prod.collapse)
  have "id 1 - v_minted_at (tr_ctx ticked) < 295"
    by (simp add: ticking_run(2))
  from one_reservation_answers_for_later_calls [OF running_check host ticking_preflight run ticking_flows this] run
  show ?thesis by blast
qed

lemma refused_call_never_sent_witness:
  "fst (handle_request unit_llm_env openai_request (sample_state ''Killed'' None) ())
     = Inl (Stopped (KilledExn (JStr ''wf'') (JStr ''remote kill'')))"
proof -
  let ?s = "sample_state ''Killed'' None"
  obtain d where d: "dict_get (p_states (tr_plane ?s)) (JStr ''wf'') = Some d" "jget d ''state'' = JStr ''Killed''"
      "get_or d ''reason'' (JStr ''remote kill'') = JStr ''remote kill''" "p_bound (tr_plane ?s) = ''wf''"
    by (simp add: sample_state_def get_or_def jget_def)
  from refused_call_never_sent [OF d(4) _ d(1), of "Stopped (KilledExn (JStr ''wf'') (JStr ''remote kill''))"
      openai_request unit_llm_env "()" failing_client failing_client]
  show ?thesis using d by simp
qed

end
