(* ===== verification/Lc_Usage.thy ===== *)
theory Lc_Usage
  imports Usage_Extract
begin

text \<open>
  Reading usage, model and provider out of a LangChain answer (\<open>instrumentation/langgraph.py\<close>).  An answer and
  its first message are objects with attributes; some attributes hold dictionaries, some objects again.
\<close>

section \<open>Answers\<close>

text \<open>A value that is read as a dictionary or through its attributes; a missing attribute is \<open>JNull\<close>.\<close>

datatype py_value = Data json | Attrs dict

text \<open>The simple attributes (\<open>id\<close>, \<open>model\<close>, \<open>finish_reason\<close> ...) and the structured ones.\<close>

record lc_object =
  lo_attrs :: dict
  lo_usage_metadata :: py_value
  lo_usage :: py_value
  lo_response_metadata :: json
  lo_llm_output :: json
  lo_additional_kwargs :: json
  lo_tool_calls :: "py_value list"

text \<open>An answer with the message of its first generation, when it has one.\<close>

record lc_response =
  lc_self :: lc_object
  lc_message :: "lc_object option"

definition str_of :: "(json \<Rightarrow> string) \<Rightarrow> json \<Rightarrow> json" where
  "str_of rep j = (if truthy j then JStr (py_str rep j) else JNull)"

text \<open>The first true value, as text.\<close>

fun first_text :: "(json \<Rightarrow> string) \<Rightarrow> json list \<Rightarrow> json" where
  "first_text rep [] = JNull"
| "first_text rep (j # js) = (if truthy j then JStr (py_str rep j) else first_text rep js)"

definition under_keys :: "json \<Rightarrow> string list \<Rightarrow> json list" where
  "under_keys j ks = (case j of JObj d \<Rightarrow> map (jget d) ks | _ \<Rightarrow> [])"

section \<open>Token counts\<close>

text \<open>The three counts and the raw block; \<open>None\<close> when there is nothing, \<open>Inl\<close> an exception of \<open>int\<close>.\<close>

type_synonym token_block = "int \<times> int \<times> int \<times> dict"

definition counts_of :: "json \<Rightarrow> json \<Rightarrow> json \<Rightarrow> dict \<Rightarrow> string + token_block option" where
  "counts_of i out whole raw =
     (if \<not> (truthy i \<or> truthy out \<or> truthy whole) then Inr None
      else and_then (py_int i) (\<lambda>a. and_then (py_int out) (\<lambda>b. and_then (py_int whole) (\<lambda>c.
             Inr (Some (a, b, c, raw))))))"

definition read_token_attrs :: "py_value \<Rightarrow> string + token_block option" where
  "read_token_attrs v =
     (case v of
        Data (JObj d) \<Rightarrow>
          counts_of (py_or (jget d ''input_tokens'') (py_or (jget d ''prompt_tokens'') (JInt 0)))
            (py_or (jget d ''output_tokens'') (py_or (jget d ''completion_tokens'') (JInt 0)))
            (py_or (jget d ''total_tokens'') (JInt 0)) d
      | Data _ \<Rightarrow> Inr None
      | Attrs a \<Rightarrow>
          (if dict_get a ''input_tokens'' = None \<and> dict_get a ''total_tokens'' = None then Inr None
           else
             (let i = py_or (jget a ''input_tokens'') (JInt 0);
                  out = py_or (jget a ''output_tokens'') (JInt 0);
                  whole = py_or (jget a ''total_tokens'') (JInt 0) in
              counts_of i out whole
                [(''input_tokens'', i), (''output_tokens'', out), (''total_tokens'', whole)])))"

definition usage_sources :: "lc_response \<Rightarrow> py_value list" where
  "usage_sources r =
     [lo_usage_metadata (lc_self r),
      (case lc_message r of None \<Rightarrow> Data JNull | Some m \<Rightarrow> lo_usage_metadata m),
      lo_usage (lc_self r),
      (case py_or (lo_response_metadata (lc_self r)) (JObj []) of
         JObj d \<Rightarrow> Data (jget d ''token_usage'') | _ \<Rightarrow> Data JNull),
      (case py_or (lo_llm_output (lc_self r)) (JObj []) of
         JObj d \<Rightarrow> Data (jget d ''token_usage'') | _ \<Rightarrow> Data JNull)]"

text \<open>Every source is read; a later one overwrites an earlier one.\<close>

fun apply_sources :: "py_value list \<Rightarrow> token_block option \<Rightarrow> string + token_block option" where
  "apply_sources [] acc = Inr acc"
| "apply_sources (v # vs) acc =
     and_then (read_token_attrs v)
       (\<lambda>got. apply_sources vs (case got of None \<Rightarrow> acc | Some b \<Rightarrow> Some b))"

section \<open>Details\<close>

text \<open>A positive count of the raw block replaces the one found before it.\<close>

definition count_or :: "json \<Rightarrow> int \<Rightarrow> string + int" where
  "count_or j n = (if truthy j then py_int j else Inr n)"

definition detail_of :: "dict \<Rightarrow> string \<Rightarrow> string \<Rightarrow> json" where
  "detail_of raw block k =
     (case py_or (jget raw block) (JObj []) of JObj d \<Rightarrow> jget d k | _ \<Rightarrow> JNull)"

definition cache_counts :: "dict \<Rightarrow> string + int \<times> int \<times> int" where
  "cache_counts raw =
     and_then (count_or (py_or (jget raw ''cache_read_input_tokens'') (jget raw ''cacheReadInputTokenCount'')) 0)
       (\<lambda>rd0. and_then
         (count_or (py_or (jget raw ''cache_creation_input_tokens'') (jget raw ''cacheWriteInputTokenCount'')) 0)
         (\<lambda>wr. and_then (count_or (detail_of raw ''prompt_tokens_details'' ''cached_tokens'') rd0)
           (\<lambda>rd. and_then (count_or (detail_of raw ''completion_tokens_details'' ''reasoning_tokens'') 0)
             (\<lambda>th. Inr (rd, wr, th)))))"

definition finish_keys :: "string list" where
  "finish_keys = [''finish_reason'', ''stop_reason'', ''stopReason'']"

definition get_finish_reason :: "(json \<Rightarrow> string) \<Rightarrow> lc_response \<Rightarrow> json" where
  "get_finish_reason rep r =
     first_text rep
       (map (jget (lo_attrs (lc_self r))) finish_keys
        @ under_keys (lo_response_metadata (lc_self r)) finish_keys
        @ (case lc_message r of
             None \<Rightarrow> []
           | Some m \<Rightarrow> map (jget (lo_attrs m)) finish_keys @ under_keys (lo_response_metadata m) finish_keys)
        @ under_keys (lo_llm_output (lc_self r)) finish_keys)"

section \<open>Tool names\<close>

text \<open>\<open>tc.get("function")\<close> is a dictionary with a name, else the name of the call itself.\<close>

definition call_name :: "dict \<Rightarrow> json" where
  "call_name d =
     (let n = (case py_or (jget d ''function'') (JObj []) of JObj f \<Rightarrow> jget f ''name'' | _ \<Rightarrow> JNull) in
      if truthy n then n else jget d ''name'')"

definition names_of_dict :: "(json \<Rightarrow> string) \<Rightarrow> dict \<Rightarrow> string + string list" where
  "names_of_dict rep d =
     each_of (\<lambda>tc. (case tc of
                      JObj t \<Rightarrow> Inr (if truthy (call_name t) then [py_str rep (call_name t)] else [])
                    | _ \<Rightarrow> Inr []))
       (jget d ''tool_calls'')"

text \<open>The calls an object carries are dictionaries or objects whose function is an object again.\<close>

definition names_of_object :: "(json \<Rightarrow> string) \<Rightarrow> lc_object \<Rightarrow> string list" where
  "names_of_object rep x =
     concat (map (\<lambda>tc. (let n = (case tc of
                                   Data (JObj d) \<Rightarrow> call_name d
                                 | Data _ \<Rightarrow> JNull
                                 | Attrs a \<Rightarrow> call_name a) in
                        if truthy n then [py_str rep n] else []))
              (lo_tool_calls x))"

definition names_of_json :: "(json \<Rightarrow> string) \<Rightarrow> json \<Rightarrow> string + string list" where
  "names_of_json rep j = (case j of JObj d \<Rightarrow> names_of_dict rep d | _ \<Rightarrow> Inr [])"

text \<open>The first occurrence of every name, in order.\<close>

fun first_seen :: "string list \<Rightarrow> string list \<Rightarrow> string list" where
  "first_seen seen [] = []"
| "first_seen seen (n # ns) = (if n \<in> set seen then first_seen seen ns else n # first_seen (n # seen) ns)"

definition tool_names_of :: "(json \<Rightarrow> string) \<Rightarrow> lc_response \<Rightarrow> string + string list" where
  "tool_names_of rep r =
     and_then (names_of_json rep (lo_additional_kwargs (lc_self r)))
       (\<lambda>b. and_then (names_of_json rep (lo_response_metadata (lc_self r)))
         (\<lambda>c. Inr (first_seen []
                 (names_of_object rep (lc_self r) @ b @ c
                  @ (case lc_message r of None \<Rightarrow> [] | Some m \<Rightarrow> names_of_object rep m)))))"

section \<open>The usage of an answer\<close>

record lc_usage =
  lu_input :: int
  lu_output :: int
  lu_total :: int
  lu_has_usage :: bool
  lu_raw :: dict
  lu_cache_read :: int
  lu_cache_write :: int
  lu_reasoning :: int
  lu_finish :: json
  lu_tools :: "string list"

definition extract_usage_from_response :: "(json \<Rightarrow> string) \<Rightarrow> lc_response \<Rightarrow> string + lc_usage" where
  "extract_usage_from_response rep r =
     and_then (apply_sources (usage_sources r) None)
       (\<lambda>got. (case (case got of None \<Rightarrow> (0, 0, 0, []) | Some b \<Rightarrow> b) of
          (i, out, whole, raw) \<Rightarrow>
            and_then (cache_counts raw)
              (\<lambda>(rd, wr, th). and_then (tool_names_of rep r)
                (\<lambda>names. Inr \<lparr>lu_input = i, lu_output = out, lu_total = whole,
                             lu_has_usage = (whole > 0 \<or> i > 0 \<or> out > 0), lu_raw = raw,
                             lu_cache_read = rd, lu_cache_write = wr, lu_reasoning = th,
                             lu_finish = get_finish_reason rep r, lu_tools = names\<rparr>))))"

section \<open>Model and provider\<close>

definition nonempty_texts :: "json list \<Rightarrow> json list" where
  "nonempty_texts js = filter (\<lambda>j. (case j of JStr s \<Rightarrow> s \<noteq> [] | _ \<Rightarrow> False)) js"

definition model_from_output :: "json \<Rightarrow> json list" where
  "model_from_output out =
     (case out of
        JObj d \<Rightarrow>
          nonempty_texts
            (map (jget d) [''model_name'', ''model'']
             @ map snd (filter (\<lambda>(k, v). contains ''model'' (lower k)) d))
      | _ \<Rightarrow> [])"

definition extract_model_from_response :: "(json \<Rightarrow> string) \<Rightarrow> lc_response \<Rightarrow> json" where
  "extract_model_from_response rep r =
     (let names = [''model_name'', ''model''] in
      first_text rep
        (model_from_output (lo_llm_output (lc_self r))
         @ under_keys (lo_response_metadata (lc_self r)) names
         @ (case lc_message r of
              None \<Rightarrow> []
            | Some m \<Rightarrow> under_keys (lo_response_metadata m) names @ map (jget (lo_attrs m)) names)
         @ map (jget (lo_attrs (lc_self r))) names))"

definition extract_provider_from_response :: "(json \<Rightarrow> string) \<Rightarrow> lc_response \<Rightarrow> json" where
  "extract_provider_from_response rep r =
     (let names = [''model_provider'', ''provider''] in
      first_text rep
        (under_keys (lo_response_metadata (lc_self r)) names
         @ (case lc_message r of None \<Rightarrow> [] | Some m \<Rightarrow> under_keys (lo_response_metadata m) names)))"

section \<open>Laws\<close>

lemma first_seen_set: "set (first_seen seen ns) = set ns - set seen"
  by (induction seen ns rule: first_seen.induct) auto

lemma first_seen_distinct: "distinct (first_seen seen ns)"
  by (induction seen ns rule: first_seen.induct) (auto simp: first_seen_set)

text \<open>The blocks of the sources that have one.\<close>

definition blocks_of :: "py_value list \<Rightarrow> token_block list" where
  "blocks_of vs = List.map_filter (\<lambda>v. case read_token_attrs v of Inr b \<Rightarrow> b | Inl x \<Rightarrow> None) vs"

lemma blocks_of_Nil: "blocks_of [] = []"
  by (simp add: blocks_of_def map_filter_simps)

lemma blocks_of_Cons:
  "read_token_attrs v = Inr b \<Longrightarrow>
     blocks_of (v # vs) = (case b of None \<Rightarrow> blocks_of vs | Some k \<Rightarrow> k # blocks_of vs)"
  by (simp add: blocks_of_def map_filter_simps split: option.split)

lemma apply_sources_last:
  "apply_sources vs acc = Inr got \<Longrightarrow> got = (if blocks_of vs = [] then acc else Some (last (blocks_of vs)))"
proof (induction vs arbitrary: acc)
  case Nil
  then show ?case by (simp add: blocks_of_Nil)
next
  case (Cons v vs)
  obtain b where b: "read_token_attrs v = Inr b"
    using Cons.prems by (auto simp: and_then_Inr)
  show ?case
  proof (cases b)
    case None
    with Cons.prems b have "apply_sources vs acc = Inr got"
      by (simp add: and_then_def)
    from Cons.IH [OF this] show ?thesis
      by (simp add: blocks_of_Cons [OF b] None)
  next
    case (Some blk)
    with Cons.prems b have "apply_sources vs (Some blk) = Inr got"
      by (simp add: and_then_def)
    from Cons.IH [OF this] show ?thesis
      by (simp add: blocks_of_Cons [OF b] Some)
  qed
qed

text \<open>
  the usage of an answer.  The counts and the raw block are those of the last source of the answer that has
  any, all zero when none has; usage is reported exactly when a count is positive; every tool name is listed
  once.
\<close>

theorem lc_usage_exact:
  assumes "extract_usage_from_response rep r = Inr u"
  shows "(lu_input u, lu_output u, lu_total u, lu_raw u)
       = (if blocks_of (usage_sources r) = [] then (0, 0, 0, []) else last (blocks_of (usage_sources r)))
    \<and> (lu_has_usage u \<longleftrightarrow> lu_total u > 0 \<or> lu_input u > 0 \<or> lu_output u > 0)
    \<and> distinct (lu_tools u)"
proof -
  obtain got where got: "apply_sources (usage_sources r) None = Inr got"
    using assms by (auto simp: extract_usage_from_response_def and_then_Inr)
  let ?b = "case got of None \<Rightarrow> (0, 0, 0, []) | Some b \<Rightarrow> b"
  obtain i out whole raw where b: "?b = (i, out, whole, raw)"
    by (cases ?b) auto
  have "(lu_input u, lu_output u, lu_total u, lu_raw u) = ?b
      \<and> lu_has_usage u = (lu_total u > 0 \<or> lu_input u > 0 \<or> lu_output u > 0)
      \<and> (\<exists>ns. lu_tools u = first_seen [] ns)"
    using assms unfolding b extract_usage_from_response_def got and_then_def sum.case prod.case
    by (auto simp: tool_names_of_def and_then_def split: sum.splits)
  then show ?thesis
    using apply_sources_last [OF got] first_seen_distinct by auto
qed

text \<open>A block without a sum of its own is reported with a sum of zero, however many tokens it lists.\<close>

lemma missing_sum_is_zero:
  assumes "dict_get d ''input_tokens'' = Some (JInt i)" "dict_get d ''output_tokens'' = Some (JInt out)"
    and "dict_get d ''total_tokens'' = None" "i > 0" "out > 0"
  shows "read_token_attrs (Data (JObj d)) = Inr (Some (i, out, 0, d))"
  using assms by (simp add: read_token_attrs_def counts_of_def jget_def py_or_def py_int_def and_then_def)

definition sample_answer :: lc_response where
  "sample_answer =
     (let x = \<lparr>lo_attrs = [], lo_usage_metadata = Data JNull, lo_usage = Data JNull, lo_response_metadata = JNull,
               lo_llm_output = JObj [(''token_usage'', JObj [(''prompt_tokens'', JInt 7), (''completion_tokens'', JInt 2),
                                                             (''total_tokens'', JInt 9)])],
               lo_additional_kwargs = JNull, lo_tool_calls = []\<rparr> in
      \<lparr>lc_self = x, lc_message = None\<rparr>)"

lemma lc_usage_exact_witness:
  "\<exists>u. extract_usage_from_response (\<lambda>j. []) sample_answer = Inr u \<and> lu_total u = 9 \<and> lu_has_usage u
      \<and> distinct (lu_tools u)"
proof -
  let ?e = "extract_usage_from_response (\<lambda>j. []) sample_answer"
  have "case ?e of Inr u \<Rightarrow> lu_total u = 9 | Inl x \<Rightarrow> False"
    by code_simp
  then obtain u where u: "?e = Inr u" "lu_total u = 9"
    by (cases ?e) simp_all
  from lc_usage_exact [OF u(1)] u show ?thesis by auto
qed

end
