(* ===== verification/Mcp.thy ===== *)
theory Mcp
  imports Context Runtime_Execute
begin

text \<open>
  The adapter around a connected MCP client (\<open>toolbox/mcp.py\<close>): the cache of the server's tool list, the
  class and annotations of a tool stamped on the context, and a call with its pre-flight, its policy call and
  the client behind them.  The client, the listing and the gates' backends come from the environment; the
  capture of the gate is kept in the state of the runtime.
\<close>

section \<open>Tools and the cache\<close>

text \<open>A tool as the client lists it; \<open>annotations\<close> are read as attributes or keys alike.\<close>

record mcp_tool =
  mt_name :: json
  mt_tool_name :: json
  mt_annotations :: "dict option"

record cached_tool =
  ct_name :: string
  ct_read_only :: "bool option"
  ct_destructive :: "bool option"
  ct_open_world :: "bool option"

definition read_ann :: "mcp_tool \<Rightarrow> string \<Rightarrow> bool option" where
  "read_ann t hint =
     (case mt_annotations t of
        None \<Rightarrow> None
      | Some a \<Rightarrow> (case dict_get a hint of Some (JBool b) \<Rightarrow> Some b | _ \<Rightarrow> None))"

text \<open>\<open>None\<close> is the \<open>ValueError\<close> of a tool without a name.\<close>

definition normalize_annotation :: "(json \<Rightarrow> string) \<Rightarrow> mcp_tool \<Rightarrow> cached_tool option" where
  "normalize_annotation rep t =
     (let name = py_or (mt_name t) (mt_tool_name t) in
      if \<not> truthy name then None
      else Some \<lparr>ct_name = py_str rep name, ct_read_only = read_ann t ''readOnlyHint'',
                 ct_destructive = read_ann t ''destructiveHint'', ct_open_world = read_ann t ''openWorldHint''\<rparr>)"

record adapter =
  ma_server :: string
  ma_ttl :: rat
  ma_cache :: "(string \<times> cached_tool) list"
  ma_cached_at :: rat

definition default_cache_seconds :: rat where "default_cache_seconds = 300"

definition new_adapter :: "string \<Rightarrow> rat \<Rightarrow> string + adapter" where
  "new_adapter server ttl =
     (if server = [] \<or> ttl < 30 then Inl ''ValueError''
      else Inr \<lparr>ma_server = server, ma_ttl = ttl, ma_cache = [], ma_cached_at = 0\<rparr>)"

text \<open>
  \<open>me_list\<close> is the listing (or the exception that ended it), \<open>me_call\<close> the client's own call, \<open>me_resolve\<close> the
  exception of a runtime that cannot be built.
\<close>

record 'w mcp_env =
  me_list :: "'w \<Rightarrow> (string + mcp_tool list) \<times> 'w"
  me_now :: "'w \<Rightarrow> rat \<times> 'w"
  me_repr :: "json \<Rightarrow> string"
  me_resolve :: "gate_exn option"
  me_execute :: "'w execute_env"
  me_cfg :: runtime_cfg
  me_sha256 :: "string \<Rightarrow> string"
  me_float_repr :: "rat \<Rightarrow> string"
  me_call :: "string \<Rightarrow> dict option \<Rightarrow> 'w \<Rightarrow> (protect_exn + json) \<times> 'w"

definition tool_table :: "(json \<Rightarrow> string) \<Rightarrow> mcp_tool list \<Rightarrow> (string \<times> cached_tool) list" where
  "tool_table rep ts =
     fold (\<lambda>t d. (case normalize_annotation rep t of None \<Rightarrow> d | Some c \<Rightarrow> dict_set (ct_name c) c d)) ts []"

definition refresh_cache :: "'w mcp_env \<Rightarrow> adapter \<Rightarrow> 'w \<Rightarrow> adapter \<times> 'w" where
  "refresh_cache M a w =
     (case me_list M w of
        (Inl x, w1) \<Rightarrow> (a, w1)
      | (Inr ts, w1) \<Rightarrow>
          (case me_now M w1 of
             (now, w2) \<Rightarrow> (a\<lparr>ma_cache := tool_table (me_repr M) ts, ma_cached_at := now\<rparr>, w2)))"

definition maybe_refresh :: "'w mcp_env \<Rightarrow> adapter \<Rightarrow> 'w \<Rightarrow> adapter \<times> 'w" where
  "maybe_refresh M a w =
     (if ma_cache a = [] then refresh_cache M a w
      else (case me_now M w of
              (now, w1) \<Rightarrow> (if now - ma_cached_at a > ma_ttl a then refresh_cache M a w1 else (a, w1))))"

definition list_cached_tools :: "'w mcp_env \<Rightarrow> adapter \<Rightarrow> 'w \<Rightarrow> string list \<times> adapter \<times> 'w" where
  "list_cached_tools M a w =
     (case maybe_refresh M a w of (a1, w1) \<Rightarrow> (sort_key (map of_char) (map fst (ma_cache a1)), a1, w1))"

definition cached_annotations :: "'w mcp_env \<Rightarrow> string \<Rightarrow> adapter \<Rightarrow> 'w \<Rightarrow> cached_tool option \<times> adapter \<times> 'w" where
  "cached_annotations M name a w =
     (case maybe_refresh M a w of (a1, w1) \<Rightarrow> (dict_get (ma_cache a1) name, a1, w1))"

section \<open>The call\<close>

record mcp_state =
  ms_adapter :: adapter
  ms_runtime :: runtime_state
  ms_ctx :: ctx

definition hint_json :: "bool option \<Rightarrow> json" where
  "hint_json h = (case h of None \<Rightarrow> JNull | Some b \<Rightarrow> JBool b)"

text \<open>What is stamped on the context: an unknown tool is of class \<open>invalid\<close> with nothing known.\<close>

definition stamp_of :: "cached_tool option \<Rightarrow> string \<times> dict" where
  "stamp_of c =
     (case c of
        None \<Rightarrow> (''invalid'', [(''read_only'', JNull), (''destructive'', JNull), (''open_world'', JNull)])
      | Some t \<Rightarrow>
          (''mcp'', [(''read_only'', hint_json (ct_read_only t)), (''destructive'', hint_json (ct_destructive t)),
                     (''open_world'', hint_json (ct_open_world t))]))"

definition json_or_null :: "string option \<Rightarrow> json" where
  "json_or_null v = (case v of None \<Rightarrow> JNull | Some s \<Rightarrow> JStr s)"

text \<open>The context a pre-flight without arguments reads.\<close>

definition direct_context :: "(string \<Rightarrow> string) \<Rightarrow> (rat \<Rightarrow> string) \<Rightarrow> ctx \<Rightarrow> call_ctx" where
  "direct_context sha256 float_repr c =
     \<lparr>cx_workflow = (case v_workflow c of None \<Rightarrow> [] | Some s \<Rightarrow> s), cx_model = json_or_null (v_model c),
      cx_estimated_tokens = JNull,
      cx_max_output_tokens = (case v_max_output c of Some n \<Rightarrow> JInt n | None \<Rightarrow> JNull),
      cx_tools = map JStr (v_tools c), cx_chain = json_or_null (v_chain c), cx_chain_op = JStr (v_chain_op c),
      cx_digest =
        (case compute_action_digest sha256 float_repr
                (case v_impact c of Some i \<Rightarrow> i | None \<Rightarrow> no_impact) of
           Inr h \<Rightarrow> h
         | Inl x \<Rightarrow> []),
      cx_impact = (case v_impact c of Some i \<Rightarrow> JObj (to_wire_dict i) | None \<Rightarrow> JNull),
      cx_mcp_class = json_or_null (v_mcp_class c),
      cx_mcp_annotations = (case v_mcp_annotations c of Some d \<Rightarrow> JObj d | None \<Rightarrow> JNull),
      cx_use_cache = True\<rparr>"

text \<open>The optional arguments of a call; \<open>JNull\<close> is \<open>None\<close>.\<close>

record gate_kwargs =
  gk_approval :: json
  gk_impact :: json
  gk_digest :: json

definition mcp_execute_call :: "string \<Rightarrow> dict option \<Rightarrow> gate_kwargs \<Rightarrow> ctx \<Rightarrow> execute_call" where
  "mcp_execute_call name args g c =
     (let bag = JObj (case args of None \<Rightarrow> [] | Some d \<Rightarrow> d) in
      \<lparr>xc_tool = name, xc_input = bag, xc_mode = ''auto'', xc_impact = gk_impact g, xc_digest = gk_digest g,
       xc_tools = None, xc_approval = gk_approval g, xc_arguments = bag,
       xc_workflow = (case v_workflow c of None \<Rightarrow> [] | Some s \<Rightarrow> s),
       xc_trace = (case v_trace c of None \<Rightarrow> [] | Some s \<Rightarrow> s), xc_context_tools = map JStr (v_tools c)\<rparr>)"

definition mcp_blocked :: "string \<Rightarrow> dict \<Rightarrow> string \<Rightarrow> string \<Rightarrow> gate_exn" where
  "mcp_blocked name d fallback code =
     built (blocked_call NullRunBlockedException [] (py_or (jget d ''workflow_id'') (JStr ''unknown''))
              (get_or d ''explanation'' (JStr fallback)) (JStr name) [(''error_code'', JStr code)])"

text \<open>The guards behind the policy call, \<open>None\<close> when the client is called.\<close>

definition mcp_guard :: "string \<Rightarrow> dict \<Rightarrow> gate_exn option" where
  "mcp_guard name d =
     (if jget d ''decision'' = JStr ''block'' then Some (mcp_blocked name d ''MCP gate blocked call'' ''NR-T003'')
      else if jget d ''decision'' = JStr ''require_approval''
      then Some (mcp_blocked name d ''MCP gate requires operator approval''
                   (if truthy (jget d ''approval_id'') then ''NR-A001'' else ''NR-A010''))
      else None)"

text \<open>The pre-flight, only when no execution id is in the context.\<close>

definition mcp_preflight ::
  "'w mcp_env \<Rightarrow> ctx \<Rightarrow> runtime_state \<Rightarrow> 'w \<Rightarrow> gate_exn option \<times> runtime_state \<times> 'w" where
  "mcp_preflight M c rs w =
     (if rs_minted rs \<noteq> JNull then (None, rs, w)
      else (case check_workflow_budget (xe_gate (me_execute M)) (me_cfg M)
                 (direct_context (me_sha256 M) (me_float_repr M) c) rs w of
              (Inl x, rs1, w1) \<Rightarrow> (Some x, rs1, w1)
            | (Inr j, rs1, w1) \<Rightarrow> (None, rs1, w1)))"

definition mcp_gates ::
  "'w mcp_env \<Rightarrow> string \<Rightarrow> dict option \<Rightarrow> gate_kwargs \<Rightarrow> ctx \<Rightarrow> runtime_state \<Rightarrow> 'w
     \<Rightarrow> gate_exn option \<times> runtime_state \<times> 'w" where
  "mcp_gates M name args g c rs w =
     (case mcp_preflight M c rs w of
        (Some x, rs1, w1) \<Rightarrow> (Some x, rs1, w1)
      | (None, rs1, w1) \<Rightarrow>
          (case runtime_execute (me_execute M) (me_cfg M) (mcp_execute_call name args g c) rs1 w1 of
             (Inl x, rs2, w2) \<Rightarrow> (Some x, rs2, w2)
           | (Inr j, rs2, w2) \<Rightarrow>
               (case j of
                  JObj d \<Rightarrow> (mcp_guard name d, rs2, w2)
                | _ \<Rightarrow> (Some (PyError ''AttributeError''), rs2, w2))))"

definition call_tool ::
  "'w mcp_env \<Rightarrow> string \<Rightarrow> dict option \<Rightarrow> gate_kwargs \<Rightarrow> mcp_state \<Rightarrow> 'w
     \<Rightarrow> (protect_exn + json) \<times> mcp_state \<times> 'w" where
  "call_tool M name args g s w =
     (case cached_annotations M name (ms_adapter s) w of
        (cached, a, w1) \<Rightarrow>
          (case stamp_of cached of
             (tool_class, annotations) \<Rightarrow>
               (let c = set_mcp_tool_context (Some tool_class) (Some annotations) (ms_ctx s);
                    s1 = s\<lparr>ms_adapter := a, ms_ctx := c\<rparr> in
                (case me_resolve M of
                   Some x \<Rightarrow> (Inl (Refused x), s1, w1)
                 | None \<Rightarrow>
                     (case mcp_gates M name args g c (ms_runtime s) w1 of
                        (Some x, rs, w2) \<Rightarrow> (Inl (Refused x), s1\<lparr>ms_runtime := rs\<rparr>, w2)
                      | (None, rs, w2) \<Rightarrow>
                          (case me_call M name args w2 of (res, w3) \<Rightarrow> (res, s1\<lparr>ms_runtime := rs\<rparr>, w3)))))))"

section \<open>The cache\<close>

text \<open>A name is looked up as the last listed tool of that name; tools without a name are left out.\<close>

lemma tool_table_from:
  "dict_get (fold (\<lambda>t d. (case normalize_annotation rep t of None \<Rightarrow> d | Some c \<Rightarrow> dict_set (ct_name c) c d)) ts d0) n
   = (case filter (\<lambda>c. ct_name c = n) (List.map_filter (normalize_annotation rep) ts) of
        [] \<Rightarrow> dict_get d0 n
      | c # cs \<Rightarrow> Some (last (c # cs)))"
  by (induction ts arbitrary: d0) (auto simp: map_filter_simps split: option.split list.split)

lemma tool_table_exact:
  "dict_get (tool_table rep ts) n
   = (case filter (\<lambda>c. ct_name c = n) (List.map_filter (normalize_annotation rep) ts) of
        [] \<Rightarrow> None
      | c # cs \<Rightarrow> Some (last (c # cs)))"
  unfolding tool_table_def tool_table_from by (simp split: list.split)

text \<open>A listing that fails leaves the adapter as it is, and a fresh cache is not listed again.\<close>

lemma listing_failure_keeps: "fst (me_list M w) = Inl x \<Longrightarrow> fst (refresh_cache M a w) = a"
  by (auto simp: refresh_cache_def split: prod.splits)

lemma fresh_cache_kept:
  assumes "ma_cache a \<noteq> []" "fst (me_now M w) \<le> ma_cached_at a + ma_ttl a"
  shows "maybe_refresh M a w = (a, snd (me_now M w))"
  using assms by (auto simp: maybe_refresh_def split: prod.splits)

section \<open>The gates\<close>

text \<open>The policy call never hands over what the guards behind it look for.\<close>

lemma guards_unreachable:
  assumes "runtime_execute R cfg x rs w = (Inr (JObj d), rs', w')"
  shows "mcp_guard name d = None"
  using execute_returns [OF assms] by (auto simp: mcp_guard_def)

lemma gates_open:
  assumes "mcp_gates M name args g c rs w = (None, rs', w')"
  shows "\<exists>d a v. fst (xe_call (me_execute M) a v) = Inr (JObj d)
    \<and> asked_for (me_cfg M) (mcp_execute_call name args g c) a
    \<and> jget d ''decision'' \<noteq> JStr ''block'' \<and> jget d ''decision'' \<noteq> JStr ''require_approval''
    \<and> (ex_approval_id a = gk_approval g \<or> approved_wait (xe_gate (me_execute M)) (ex_approval_id a))"
proof -
  obtain rs1 w1 j where "runtime_execute (me_execute M) (me_cfg M) (mcp_execute_call name args g c) rs1 w1
      = (Inr j, rs', w')"
    using assms by (auto simp: mcp_gates_def split: prod.splits option.splits sum.splits json.splits)
  from execute_returns [OF this] show ?thesis
    by (auto simp: mcp_execute_call_def Let_def)
qed

lemma fields_ignore_client:
  "me_list (M\<lparr>me_call := f\<rparr>) = me_list M" "me_now (M\<lparr>me_call := f\<rparr>) = me_now M"
  "me_repr (M\<lparr>me_call := f\<rparr>) = me_repr M" "me_execute (M\<lparr>me_call := f\<rparr>) = me_execute M"
  "me_cfg (M\<lparr>me_call := f\<rparr>) = me_cfg M" "me_sha256 (M\<lparr>me_call := f\<rparr>) = me_sha256 M"
  "me_float_repr (M\<lparr>me_call := f\<rparr>) = me_float_repr M"
  by simp_all

lemma gates_ignore_client [simp]:
  "mcp_gates (M\<lparr>me_call := f\<rparr>) name args g c rs w = mcp_gates M name args g c rs w"
  unfolding mcp_gates_def mcp_preflight_def fields_ignore_client by (rule refl)

lemma cached_ignores_client [simp]:
  "cached_annotations (M\<lparr>me_call := f\<rparr>) name a w = cached_annotations M name a w"
  unfolding cached_annotations_def maybe_refresh_def refresh_cache_def fields_ignore_client by (rule refl)

text \<open>
  C12: the MCP server is called only behind the gate call.  If the outcome of a call can depend on the client at
  all, the runtime could be resolved and the transport's \<open>execute\<close> returned, to a question for this tool with
  these arguments and the approval the caller brought or one that was waited for, an object with a decision
  other than block and require_approval.  That object is whatever \<open>execute\<close> returned: unlike \<open>@protect\<close>, this path does
  not ask whether it is a gateway answer, so one made up by a permissive fallback or granted by an edge box
  counts (\<open>fallback_answer_runs_mcp_tool\<close>).
\<close>

theorem mcp_call_needs_gate:
  assumes "call_tool (M\<lparr>me_call := f\<rparr>) name args g s w \<noteq> call_tool (M\<lparr>me_call := h\<rparr>) name args g s w"
  shows "me_resolve M = None
    \<and> (\<exists>d a v c. fst (xe_call (me_execute M) a v) = Inr (JObj d)
          \<and> asked_for (me_cfg M) (mcp_execute_call name args g c) a
          \<and> jget d ''decision'' \<noteq> JStr ''block'' \<and> jget d ''decision'' \<noteq> JStr ''require_approval''
          \<and> (ex_approval_id a = gk_approval g \<or> approved_wait (xe_gate (me_execute M)) (ex_approval_id a)))"
proof -
  obtain cached a w1 where look: "cached_annotations M name (ms_adapter s) w = (cached, a, w1)"
    by (cases "cached_annotations M name (ms_adapter s) w") auto
  obtain cls ann where stamp: "stamp_of cached = (cls, ann)" by fastforce
  let ?c = "set_mcp_tool_context (Some cls) (Some ann) (ms_ctx s)"
  obtain refused rs w2 where gates: "mcp_gates M name args g ?c (ms_runtime s) w1 = (refused, rs, w2)"
    by (cases "mcp_gates M name args g ?c (ms_runtime s) w1") auto
  from assms have "me_resolve M = None" "refused = None"
    by (auto simp: call_tool_def look stamp gates Let_def split: option.splits)
  with gates_open [of M name args g ?c "ms_runtime s" w1 rs w2] gates show ?thesis by blast
qed

section \<open>Where the adapter is weaker than the decorator\<close>

text \<open>
  a made-up answer runs an MCP tool.  In permissive mode an unreachable \<open>/execute\<close> is answered by the SDK itself
  with an allow whose source is a fallback; the decorator refuses it, the adapter calls the server.
\<close>

theorem fallback_answer_runs_mcp_tool:
  assumes "\<And>a v. fst (xe_call (me_execute M) a v)
             = Inr (JObj [(''decision'', JStr ''allow''), (''decision_source'', JStr src_fallback)])"
    and "me_resolve M = None" "rs_minted (ms_runtime s) \<noteq> JNull"
  shows "\<exists>v. fst (call_tool M name args g s w) = fst (me_call M name args v)"
proof -
  obtain cached a w1 where look: "cached_annotations M name (ms_adapter s) w = (cached, a, w1)"
    by (cases "cached_annotations M name (ms_adapter s) w") auto
  obtain cls ann where stamp: "stamp_of cached = (cls, ann)" by fastforce
  let ?c = "set_mcp_tool_context (Some cls) (Some ann) (ms_ctx s)"
  let ?x = "mcp_execute_call name args g ?c"
  let ?d = "[(''decision'', JStr ''allow''), (''decision_source'', JStr src_fallback)]"
  obtain res rs w2 where run: "runtime_execute (me_execute M) (me_cfg M) ?x (ms_runtime s) w1 = (res, rs, w2)"
    by (cases "runtime_execute (me_execute M) (me_cfg M) ?x (ms_runtime s) w1") auto
  have "fst (runtime_execute (me_execute M) (me_cfg M) ?x (ms_runtime s) w1) = Inr (JObj ?d)"
    using assms(1) by (intro unlisted_decision_handed_over) (simp_all add: mcp_execute_call_def Let_def jget_def)
  then have "res = Inr (JObj ?d)"
    using run by simp
  then have "mcp_gates M name args g ?c (ms_runtime s) w1 = (None, rs, w2)"
    using assms(3) run by (simp add: mcp_gates_def mcp_preflight_def mcp_guard_def jget_def)
  then have "fst (call_tool M name args g s w) = fst (me_call M name args w2)"
    using assms(2) by (simp add: call_tool_def look stamp Let_def split: prod.splits)
  then show ?thesis by blast
qed

lemma decorator_refuses_fallback:
  "policy_verdict P c False (Inr (JObj [(''decision'', JStr ''allow''), (''decision_source'', JStr src_fallback)])) \<noteq> None"
  by (simp add: policy_verdict_def get_or_def is_fallback_decision_source_def src_fallback_def Let_def)

text \<open>
  the stamp outlives the call.  However a call ends, the class and annotations of its tool stay in the context,
  so every later question to the gate from that context carries them, whatever it is about.
\<close>

theorem mcp_stamp_outlives_call:
  "\<exists>cls ann. stamp_of (fst (cached_annotations M name (ms_adapter s) w)) = (cls, ann)
     \<and> cx_mcp_class (direct_context h r (ms_ctx (fst (snd (call_tool M name args g s w))))) = JStr cls
     \<and> cx_mcp_annotations (direct_context h r (ms_ctx (fst (snd (call_tool M name args g s w))))) = JObj ann"
proof -
  obtain cached a w1 where look: "cached_annotations M name (ms_adapter s) w = (cached, a, w1)"
    by (cases "cached_annotations M name (ms_adapter s) w") auto
  obtain cls ann where stamp: "stamp_of cached = (cls, ann)" by fastforce
  let ?c = "set_mcp_tool_context (Some cls) (Some ann) (ms_ctx s)"
  have "ms_ctx (fst (snd (call_tool M name args g s w))) = ?c"
    by (auto simp: call_tool_def look stamp Let_def split: option.splits prod.splits)
  then show ?thesis
    by (simp add: look stamp direct_context_def set_mcp_tool_context_def json_or_null_def)
qed

text \<open>An execution id of any age in the context replaces the pre-flight.\<close>

lemma held_execution_skips_budget: "rs_minted rs \<noteq> JNull \<Longrightarrow> mcp_preflight M c rs w = (None, rs, w)"
  by (simp add: mcp_preflight_def)

section \<open>A concrete adapter\<close>

definition sample_mcp :: "nat mcp_env" where
  "sample_mcp =
     \<lparr>me_list = (\<lambda>n. (Inr [\<lparr>mt_name = JStr ''drop'', mt_tool_name = JNull,
                            mt_annotations = Some [(''destructiveHint'', JBool True)]\<rparr>], n)),
      me_now = (\<lambda>n. (0, n)), me_repr = (\<lambda>j. []), me_resolve = None,
      me_execute =
        \<lparr>xe_gate = runtime_with (\<lambda>d n. (Inl (PyError ''unused''), n)),
         xe_call = (\<lambda>a n. (Inr (JObj [(''decision'', JStr ''allow''), (''decision_source'', JStr src_fallback)]), n))\<rparr>,
      me_cfg = sample_cfg, me_sha256 = id, me_float_repr = (\<lambda>r. []), me_call = (\<lambda>name args n. (Inr (JStr ''done''), n))\<rparr>"

definition sample_adapter :: mcp_state where
  "sample_adapter =
     \<lparr>ms_adapter = \<lparr>ma_server = ''db'', ma_ttl = 300, ma_cache = [], ma_cached_at = 0\<rparr>,
      ms_runtime = \<lparr>rs_cache = [], rs_minted = JStr ''r1'', rs_operation = JNull\<rparr>, ms_ctx = fresh_ctx\<rparr>"

definition plain_kwargs :: gate_kwargs where
  "plain_kwargs = \<lparr>gk_approval = JNull, gk_impact = JNull, gk_digest = JNull\<rparr>"

lemma fallback_answer_runs_mcp_tool_witness:
  "fst (call_tool sample_mcp ''drop'' None plain_kwargs sample_adapter 0) = Inr (JStr ''done'')"
proof -
  have "\<And>a v. fst (xe_call (me_execute sample_mcp) a v)
      = Inr (JObj [(''decision'', JStr ''allow''), (''decision_source'', JStr src_fallback)])"
    "me_resolve sample_mcp = None" "rs_minted (ms_runtime sample_adapter) \<noteq> JNull"
    by (simp_all add: sample_mcp_def sample_adapter_def)
  from fallback_answer_runs_mcp_tool [OF this] show ?thesis
    by (simp add: sample_mcp_def)
qed

lemma mcp_call_needs_gate_witness:
  "\<exists>d a v. fst (xe_call (me_execute sample_mcp) a v) = Inr (JObj d)
     \<and> jget d ''decision'' \<noteq> JStr ''block'' \<and> ex_tool a = JStr ''drop''"
proof -
  let ?f = "\<lambda>name args n. (Inr (JStr ''f''), n)" and ?h = "\<lambda>name args n. (Inr (JStr ''h''), n)"
  have f: "fst (call_tool (sample_mcp\<lparr>me_call := ?f\<rparr>) ''drop'' None plain_kwargs sample_adapter 0) = Inr (JStr ''f'')"
    by code_simp
  have h: "fst (call_tool (sample_mcp\<lparr>me_call := ?h\<rparr>) ''drop'' None plain_kwargs sample_adapter 0) = Inr (JStr ''h'')"
    by code_simp
  have "call_tool (sample_mcp\<lparr>me_call := ?f\<rparr>) ''drop'' None plain_kwargs sample_adapter 0
      \<noteq> call_tool (sample_mcp\<lparr>me_call := ?h\<rparr>) ''drop'' None plain_kwargs sample_adapter 0"
  proof
    assume "call_tool (sample_mcp\<lparr>me_call := ?f\<rparr>) ''drop'' None plain_kwargs sample_adapter 0
      = call_tool (sample_mcp\<lparr>me_call := ?h\<rparr>) ''drop'' None plain_kwargs sample_adapter 0"
    with f h show False by simp
  qed
  from mcp_call_needs_gate [OF this] show ?thesis
    by (auto simp: asked_for_def mcp_execute_call_def Let_def)
qed

end
