(* ===== verification/Langgraph.thy ===== *)
theory Langgraph
  imports Lc_Usage Mcp Llm_Release
begin

text \<open>
  The LangChain callback (\<open>NullRunCallback\<close> in \<open>instrumentation/langgraph.py\<close>): the table of active runs, the
  spans it opens and closes, the gate call and the deferred refusals of \<open>on_llm_start\<close>, the event of
  \<open>on_llm_end\<close>.  The callback shares the environment of the instrumented transport.
\<close>

section \<open>State\<close>

text \<open>\<open>lg_deferred\<close> are the decisions stashed on this thread for the next protected call.\<close>

record lc_state =
  lg_runs :: "(string \<times> span_context) list"
  lg_deferred :: "gate_exn list"
  lg_track :: track_state

definition active_runs_max :: nat where "active_runs_max = 4096"

definition register_active_run ::
  "string \<Rightarrow> span_context \<Rightarrow> (string \<times> span_context) list \<Rightarrow> (string \<times> span_context) list" where
  "register_active_run rn sp runs =
     dict_set rn sp (if length runs \<ge> active_runs_max then tl runs else runs)"

text \<open>The span a rn is opened under: the one of its parent run, else the current one.\<close>

definition run_parent :: "string option \<Rightarrow> lc_state \<Rightarrow> span_context option" where
  "run_parent parent st =
     (case (if opt_text parent = [] then None else dict_get (lg_runs st) (opt_text parent)) of
        None \<Rightarrow> v_current (tr_ctx (lg_track st))
      | Some sp \<Rightarrow> Some sp)"

definition span_kwargs :: "span_context \<Rightarrow> dict" where
  "span_kwargs sp =
     [(''trace_id'', JStr (sp_trace_id sp)), (''span_id'', JStr (sp_span_id sp)),
      (''parent_span_id'', opt_json (sp_parent sp)), (''depth'', JInt (int (sp_depth sp)))]"

text \<open>An emission never raises out of the callback.\<close>

definition emit_span :: "'w llm_env \<Rightarrow> string \<Rightarrow> dict \<Rightarrow> lc_state \<Rightarrow> 'w \<Rightarrow> lc_state \<times> 'w" where
  "emit_span L kind kwargs st w =
     (case track_event (le_track L) kind kwargs (lg_track st) w of (r, s, w1) \<Rightarrow> (st\<lparr>lg_track := s\<rparr>, w1))"

definition open_run :: "'w llm_env \<Rightarrow> string \<Rightarrow> string option \<Rightarrow> lc_state \<Rightarrow> 'w \<Rightarrow> span_context \<times> lc_state \<times> 'w" where
  "open_run L rn parent st w =
     (case next_span (te_uuid (le_track L)) (run_parent parent st) w of
        (sp, w1) \<Rightarrow> (sp, st\<lparr>lg_runs := register_active_run rn sp (lg_runs st)\<rparr>, w1))"

definition begin_run ::
  "'w llm_env \<Rightarrow> string \<Rightarrow> string option \<Rightarrow> string \<Rightarrow> string \<Rightarrow> lc_state \<Rightarrow> 'w \<Rightarrow> lc_state \<times> 'w" where
  "begin_run L rn parent name kind st w =
     (case open_run L rn parent st w of
        (sp, st1, w1) \<Rightarrow>
          emit_span L ''span_start'' (span_kwargs sp @ [(''fn_name'', JStr name), (''span_kind'', JStr kind)]) st1 w1)"

definition end_run :: "'w llm_env \<Rightarrow> string option \<Rightarrow> json \<Rightarrow> lc_state \<Rightarrow> 'w \<Rightarrow> lc_state \<times> 'w" where
  "end_run L rn error st w =
     (case rn of
        None \<Rightarrow> (st, w)
      | Some r \<Rightarrow>
          (case dict_get (lg_runs st) r of
             None \<Rightarrow> (st, w)
           | Some sp \<Rightarrow>
               emit_span L ''span_end'' (span_kwargs sp @ [(''fn_name'', JNull), (''error'', error)])
                 (st\<lparr>lg_runs := dict_pop r (lg_runs st)\<rparr>) w))"

text \<open>The name of a chain or a tool.\<close>

definition extract_node_name :: "(json \<Rightarrow> string) \<Rightarrow> json \<Rightarrow> string \<Rightarrow> string" where
  "extract_node_name rep serialized dflt =
     (case serialized of
        JObj d \<Rightarrow>
          (case jget d ''id'' of
             JStr s \<Rightarrow> s
           | JList (x # xs) \<Rightarrow> py_str rep (last (x # xs))
           | _ \<Rightarrow> (case jget d ''name'' of JStr s \<Rightarrow> s | _ \<Rightarrow> dflt))
      | _ \<Rightarrow> dflt)"

section \<open>Deferred refusals\<close>

definition is_enforcement :: "gate_exn \<Rightarrow> bool" where
  "is_enforcement x =
     (case x of
        SdkErr e \<Rightarrow>
          is_subclass (err_class e) NullRunBudgetError \<or> is_subclass (err_class e) WorkflowKilledInterrupt
          \<or> is_subclass (err_class e) WorkflowPausedException
      | _ \<Rightarrow> False)"

definition record_deferred_enforcement :: "gate_exn \<Rightarrow> lc_state \<Rightarrow> lc_state" where
  "record_deferred_enforcement x st = st\<lparr>lg_deferred := lg_deferred st @ [x]\<rparr>"

definition drain_deferred_enforcement :: "lc_state \<Rightarrow> gate_exn option \<times> lc_state" where
  "drain_deferred_enforcement st =
     (case lg_deferred st of [] \<Rightarrow> (None, st) | x # xs \<Rightarrow> (Some x, st\<lparr>lg_deferred := xs\<rparr>))"

section \<open>A model call\<close>

text \<open>The gate call without arguments.\<close>

definition check_default_budget ::
  "'w llm_env \<Rightarrow> track_state \<Rightarrow> 'w \<Rightarrow> (gate_exn + json) \<times> track_state \<times> 'w" where
  "check_default_budget L s w =
     (case check_workflow_budget (le_budget L) (le_cfg L) (direct_context (le_sha256 L) (le_float_repr L) (tr_ctx s))
             \<lparr>rs_cache = tr_cache s, rs_minted = slot_mark, rs_operation = opt_json (v_operation (tr_ctx s))\<rparr> w of
        (res, rs, w1) \<Rightarrow> (res, absorb_gate rs (le_captured_at L w1) s, w1))"

definition on_llm_start :: "'w llm_env \<Rightarrow> string option \<Rightarrow> string option \<Rightarrow> lc_state \<Rightarrow> 'w \<Rightarrow> lc_state \<times> 'w" where
  "on_llm_start L rn parent st w =
     (case rn of
        None \<Rightarrow> (st, w)
      | Some r \<Rightarrow>
          (case open_run L r parent st w of
             (sp, st1, w1) \<Rightarrow>
               (case check_default_budget L (lg_track st1) w1 of
                  (res, s, w2) \<Rightarrow>
                    (let st2 = st1\<lparr>lg_track := s\<rparr>;
                         st3 = (case res of
                                  Inl x \<Rightarrow> if is_enforcement x then record_deferred_enforcement x st2 else st2
                                | Inr j \<Rightarrow> st2) in
                     emit_span L ''span_start''
                       (span_kwargs sp @ [(''fn_name'', JStr ''llm_call''), (''span_kind'', JStr ''llm'')]) st3 w2))))"

text \<open>The id of the answer: from the output, the answer, its first message, the metadata.\<close>

definition response_id :: "lc_response \<Rightarrow> json" where
  "response_id r =
     py_or (case lo_llm_output (lc_self r) of JObj d \<Rightarrow> jget d ''id'' | _ \<Rightarrow> JNull)
       (py_or (jget (lo_attrs (lc_self r)) ''id'')
         (py_or (case lc_message r of None \<Rightarrow> JNull | Some m \<Rightarrow> jget (lo_attrs m) ''id'')
           (case lo_response_metadata (lc_self r) of JObj d \<Rightarrow> jget d ''id'' | _ \<Rightarrow> JNull)))"

definition llm_end_event :: "'w llm_env \<Rightarrow> json \<Rightarrow> json \<Rightarrow> lc_response \<Rightarrow> lc_usage \<Rightarrow> dict" where
  "llm_end_event L model provider r u =
     [(''type'', JStr ''llm_call''), (''model'', model), (''provider'', provider), (''tokens'', JInt (lu_total u)),
      (''input_tokens'', JInt (lu_input u)), (''output_tokens'', JInt (lu_output u)),
      (''cache_read_tokens'', JInt (lu_cache_read u)), (''cache_write_tokens'', JInt (lu_cache_write u)),
      (''reasoning_tokens'', JInt (lu_reasoning u)), (''finish_reason'', lu_finish u),
      (''tool_names'', JList (map JStr (lu_tools u))), (''has_usage'', JBool (lu_has_usage u)),
      (''metadata'', JObj [(''tracked'', JBool (model \<noteq> JStr ''unknown''))]), (''raw_usage'', JObj (lu_raw u)),
      (''_fingerprint'', JStr (fingerprint_for_llm_call L model (py_str (te_repr (le_track L)) provider) (response_id r)))]"

definition run_fields :: "span_context option \<Rightarrow> dict \<Rightarrow> dict" where
  "run_fields sp d =
     (case sp of
        None \<Rightarrow> d
      | Some x \<Rightarrow>
          fold (\<lambda>(k, v). dict_set k v) (span_kwargs x @ [(''parent_trace_id'', JStr (sp_trace_id x))]) d)"

text \<open>Model and provider of the call's parameters, else of the answer, else a default.\<close>

definition on_llm_end ::
  "'w llm_env \<Rightarrow> string option \<Rightarrow> json \<Rightarrow> json \<Rightarrow> lc_response \<Rightarrow> lc_state \<Rightarrow> 'w \<Rightarrow> lc_state \<times> 'w" where
  "on_llm_end L rn given_model given_provider r st w =
     (let rep = te_repr (le_track L);
          model = py_or given_model (py_or (extract_model_from_response rep r) (JStr ''unknown''));
          provider = py_or given_provider (py_or (extract_provider_from_response rep r) (JStr ''openai'')) in
      (case (case extract_usage_from_response rep r of
               Inl x \<Rightarrow> (st, w)
             | Inr u \<Rightarrow>
                 (case runtime_track (le_track L)
                         (run_fields (if opt_text rn = [] then None else dict_get (lg_runs st) (opt_text rn))
                            (llm_end_event L model provider r u))
                         None (lg_track st) w of
                    (res, s, w1) \<Rightarrow> (st\<lparr>lg_track := s\<rparr>, w1))) of
         (st1, w1) \<Rightarrow> end_run L rn JNull st1 w1))"

section \<open>Every callback\<close>

datatype lc_call =
    LlmStart "string option" "string option"
  | LlmEnd "string option" json json lc_response
  | RunStart "string option" "string option" string string
  | RunEnd "string option" json
  | Drain

fun lc_step :: "'w llm_env \<Rightarrow> lc_call \<Rightarrow> lc_state \<times> 'w \<Rightarrow> lc_state \<times> 'w" where
  "lc_step L (LlmStart rn parent) (st, w) = on_llm_start L rn parent st w"
| "lc_step L (LlmEnd rn m p r) (st, w) = on_llm_end L rn m p r st w"
| "lc_step L (RunStart rn parent name kind) (st, w) =
     (case rn of None \<Rightarrow> (st, w) | Some r \<Rightarrow> begin_run L r parent name kind st w)"
| "lc_step L (RunEnd rn error) (st, w) = end_run L rn error st w"
| "lc_step L Drain (st, w) = (snd (drain_deferred_enforcement st), w)"

end
