(* ===== verification/Langgraph_Laws.thy ===== *)
theory Langgraph_Laws
  imports Langgraph
begin

text \<open>
  Laws of the LangChain callback: the bound of its table of runs under any sequence of callbacks, the one end of
  a span, which refusals of the gate survive \<open>on_llm_start\<close>, and what its gate call does to the reservation a
  protected call holds.
\<close>

section \<open>The table of active runs\<close>

definition runs_ok :: "(string \<times> span_context) list \<Rightarrow> bool" where
  "runs_ok runs \<longleftrightarrow> wf_dict runs \<and> length runs \<le> active_runs_max"

lemma length_dict_set: "length (dict_set k v d) \<le> Suc (length d)"
  by (induction d) (auto simp: dict_set_def)

lemma length_dict_pop: "length (dict_pop k d) \<le> length d"
  by (simp add: dict_pop_def length_delete_le)

lemma wf_dict_tl: "wf_dict d \<Longrightarrow> wf_dict (tl d)"
  by (cases d) (simp_all add: wf_dict_def)

lemma register_keeps: "runs_ok runs \<Longrightarrow> runs_ok (register_active_run rn sp runs)"
proof -
  assume ok: "runs_ok runs"
  let ?kept = "if length runs \<ge> active_runs_max then tl runs else runs"
  have "length ?kept < active_runs_max"
    using ok by (auto simp: runs_ok_def active_runs_max_def)
  moreover have "wf_dict ?kept"
    using ok by (simp add: runs_ok_def wf_dict_tl)
  ultimately show ?thesis
    using length_dict_set [of rn sp ?kept] by (simp add: runs_ok_def register_active_run_def)
qed

lemma pop_keeps: "runs_ok runs \<Longrightarrow> runs_ok (dict_pop r runs)"
  using length_dict_pop [of r runs] by (simp add: runs_ok_def)

text \<open>Only opening and ending a run touch the table.\<close>

lemma emit_span_fields [simp]:
  "lg_runs (fst (emit_span L k d st w)) = lg_runs st"
  "lg_deferred (fst (emit_span L k d st w)) = lg_deferred st"
  by (simp_all add: emit_span_def split: prod.split)

lemma open_run_fields:
  assumes "open_run L r parent st w = (sp, st1, w1)"
  shows "lg_runs st1 = register_active_run r sp (lg_runs st)" "lg_deferred st1 = lg_deferred st"
    "lg_track st1 = lg_track st"
  using assms by (auto simp: open_run_def split: prod.splits)

lemma end_run_table:
  "lg_runs (fst (end_run L rn e st w)) = (case rn of None \<Rightarrow> lg_runs st | Some r \<Rightarrow> dict_pop r (lg_runs st))"
proof (cases rn)
  case (Some r)
  have "dict_get (lg_runs st) r = None \<Longrightarrow> dict_pop r (lg_runs st) = lg_runs st"
    by (simp add: dict_pop_def dict_get_def delete_id map_of_eq_None_iff)
  with Some show ?thesis
    by (simp add: end_run_def split: option.split)
qed (simp add: end_run_def)

lemma begin_run_table:
  "\<exists>sp. lg_runs (fst (begin_run L r parent name kind st w)) = register_active_run r sp (lg_runs st)"
  by (cases "open_run L r parent st w") (auto simp: begin_run_def open_run_fields)

lemma llm_start_table:
  "\<exists>sp. lg_runs (fst (on_llm_start L (Some r) parent st w)) = register_active_run r sp (lg_runs st)"
  by (cases "open_run L r parent st w")
    (auto simp: on_llm_start_def open_run_fields record_deferred_enforcement_def Let_def split: prod.split sum.split)

lemma llm_end_table:
  "lg_runs (fst (on_llm_end L rn m p r st w)) = (case rn of None \<Rightarrow> lg_runs st | Some x \<Rightarrow> dict_pop x (lg_runs st))"
  by (simp add: on_llm_end_def Let_def end_run_table split: sum.split prod.split option.split)

lemma step_keeps: "runs_ok (lg_runs (fst x)) \<Longrightarrow> runs_ok (lg_runs (fst (lc_step L c x)))"
proof (cases x)
  case (Pair st w)
  assume "runs_ok (lg_runs (fst x))"
  with Pair have ok: "runs_ok (lg_runs st)" by simp
  show ?thesis
  proof (cases c)
    case (LlmStart rn parent)
    then show ?thesis
      using ok llm_start_table [of L _ parent st w] Pair
      by (cases rn) (simp add: on_llm_start_def, metis lc_step.simps(1) fst_conv register_keeps)
  next
    case (LlmEnd rn m p r)
    then show ?thesis
      using ok Pair by (auto simp: llm_end_table pop_keeps split: option.split)
  next
    case (RunStart rn parent name kind)
    then show ?thesis
      using ok begin_run_table [of L _ parent name kind st w] Pair
      by (cases rn) (simp, metis lc_step.simps(3) option.simps(5) fst_conv register_keeps)
  next
    case (RunEnd rn e)
    then show ?thesis
      using ok Pair by (auto simp: end_run_table pop_keeps split: option.split)
  next
    case Drain
    then show ?thesis
      using ok Pair by (simp add: drain_deferred_enforcement_def split: list.split)
  qed
qed

interpretation callbacks: invariant_machine "lc_step L" "\<lambda>x. runs_ok (lg_runs (fst x))" for L :: "'w llm_env"
  by unfold_locales (rule step_keeps)

text \<open>
  the callback cannot grow without bound.  Whatever callbacks arrive, in whatever order, with ends that never
  come, the table of active runs of a fresh handler holds at most 4096 spans, one for each run id.
\<close>

theorem active_runs_bounded:
  "length (lg_runs (fst (fold (lc_step L) cs (\<lparr>lg_runs = [], lg_deferred = ds, lg_track = s\<rparr>, w)))) \<le> 4096
   \<and> wf_dict (lg_runs (fst (fold (lc_step L) cs (\<lparr>lg_runs = [], lg_deferred = ds, lg_track = s\<rparr>, w))))"
  using callbacks.run_inv [of "(\<lparr>lg_runs = [], lg_deferred = ds, lg_track = s\<rparr>, w)" L cs]
  by (simp add: runs_ok_def wf_dict_def active_runs_max_def)

section \<open>The end of a run\<close>

text \<open>The second end of a run is silent, and so is the end of a run that was evicted.\<close>

lemma end_run_twice:
  "end_run L rn e2 (fst (end_run L rn e1 st w)) w2 = (fst (end_run L rn e1 st w), w2)"
  by (cases rn) (simp_all add: end_run_def [of L _ e2] end_run_table)

lemma unknown_run_silent: "dict_get (lg_runs st) r = None \<Longrightarrow> end_run L (Some r) e st w = (st, w)"
  by (simp add: end_run_def)

section \<open>Deferred refusals\<close>

text \<open>The stash is a queue.\<close>

lemma drain_after_record:
  "drain_deferred_enforcement (record_deferred_enforcement x st)
     = (case lg_deferred st of
          [] \<Rightarrow> (Some x, st\<lparr>lg_deferred := []\<rparr>)
        | y # ys \<Rightarrow> (Some y, st\<lparr>lg_deferred := ys @ [x]\<rparr>))"
  by (simp add: drain_deferred_enforcement_def record_deferred_enforcement_def split: list.split)

lemma llm_start_deferred:
  assumes "open_run L r parent st w = (sp, st1, w1)"
    and "check_default_budget L (lg_track st) w1 = (res, s, w2)"
  shows "lg_deferred (fst (on_llm_start L (Some r) parent st w))
    = lg_deferred st @ (case res of Inl x \<Rightarrow> if is_enforcement x then [x] else [] | Inr j \<Rightarrow> [])"
  using assms open_run_fields [OF assms(1)]
  by (auto simp: on_llm_start_def record_deferred_enforcement_def Let_def split: sum.split)

lemma blocked_class_kept:
  assumes "\<not> is_subclass cls NullRunBudgetError" "\<not> is_subclass cls WorkflowKilledInterrupt"
    "\<not> is_subclass cls WorkflowPausedException"
  shows "\<not> is_enforcement (built (blocked_call cls extra wid reason tool surplus))"
  using built_blocked [of cls extra wid reason tool surplus] assms by (auto simp: is_enforcement_def)

lemma refusals_not_enforcement:
  "\<not> is_enforcement (deny_exn wid d)"
  "\<not> is_enforcement (approval_denied_exn rep j tool a note)"
  "\<not> is_enforcement (approval_expired_exn j tool a t)"
  by (auto simp: deny_exn_def approval_denied_exn_def approval_expired_exn_def is_enforcement_def [of "PyError _"]
      blocked_class_kept is_subclass_def split: sum.split)

lemma gate_answer_deny:
  assumes "require_gate_decision j = Inr (d, ''deny'')" "\<not> is_fallback_decision_source (jget d ''decision_source'')"
  shows "fst (act_on_answer E cfg cx wid j s w) = Inl (deny_exn wid d)"
  using assms by (simp add: act_on_answer_def Let_def)

lemma default_budget_denied:
  assumes "\<And>req v. fst (be_check (le_budget L) req v) = Inr (JObj d)"
    and "jget d ''decision'' = JStr ''deny''" "jget d ''decision_source'' = JStr ''gateway''"
    and "tr_cache s = []" "check_default_budget L s w = (Inl x, s1, w1)"
  shows "\<not> is_enforcement x"
proof -
  have read: "require_gate_decision (JObj d) = Inr (d, ''deny'')"
    using assms(2,3) by (simp add: require_gate_decision_def known_decision_sources_def known_gate_decisions_def)
  have real: "\<not> is_fallback_decision_source (jget d ''decision_source'')"
    unfolding assms(3) by code_simp
  have skip: "\<not> is_enforcement skip_refused"
    by code_simp
  have backend: "res = Inr (JObj d)" if "be_check (le_budget L) req v = (res, v')" for req v res v'
    using assms(1) [of req v] that by simp
  have answered: "fst (ask_gate (le_budget L) (le_cfg L) cx wid op exec rs v) = Inr (JObj d)"
    if "rs_cache rs = []" for cx wid op exec rs v
    using that by (auto simp: ask_gate_def Let_def dict_get_def split: prod.splits sum.splits dest!: backend)
  have answered_pair: "res = Inr (JObj d)"
    if "ask_gate (le_budget L) (le_cfg L) cx wid op exec rs v = (res, rs', v')" "rs_cache rs = []"
    for cx wid op exec rs v res rs' v'
    using answered [OF that(2), of cx wid op exec v] that(1) by simp
  have acted: "\<not> is_enforcement y"
    if "fst (act_on_answer (le_budget L) (le_cfg L) cx wid (JObj d) rs v) = Inl y" for cx wid rs v y
    using gate_answer_deny [OF read real] that refusals_not_enforcement(1) by (metis sum.inject(1))
  let ?rs = "\<lparr>rs_cache = tr_cache s, rs_minted = slot_mark, rs_operation = opt_json (v_operation (tr_ctx s))\<rparr>"
  let ?cx = "direct_context (le_sha256 L) (le_float_repr L) (tr_ctx s)"
  have "fst (check_workflow_budget (le_budget L) (le_cfg L) ?cx ?rs w) = Inl x"
    using assms(5) by (auto simp: check_default_budget_def split: prod.splits)
  with acted skip show ?thesis
    by (auto simp: check_workflow_budget_def Let_def assms(4) split: bypass.splits prod.splits if_splits sum.splits
        dest!: answered_pair)
qed

text \<open>
  C22: a denied model call of LangChain leaves no trace.  When the backend answers every gate question with
  \<open>deny\<close> and nothing is cached, \<open>on_llm_start\<close> stashes no refusal that the next protected call would raise, and it
  returns, so that LangChain makes the call.
\<close>

theorem callback_drops_denials:
  assumes "\<And>req v. fst (be_check (le_budget L) req v) = Inr (JObj d)"
    and "jget d ''decision'' = JStr ''deny''" "jget d ''decision_source'' = JStr ''gateway''"
    and "tr_cache (lg_track st) = []"
  shows "lg_deferred (fst (on_llm_start L (Some r) parent st w)) = lg_deferred st"
proof -
  obtain sp st1 w1 where opened: "open_run L r parent st w = (sp, st1, w1)"
    by (cases "open_run L r parent st w") auto
  obtain res s w2 where asked: "check_default_budget L (lg_track st) w1 = (res, s, w2)"
    by (cases "check_default_budget L (lg_track st) w1") auto
  show ?thesis
    using llm_start_deferred [OF opened asked] default_budget_denied [OF assms] asked
    by (auto split: sum.split)
qed

section \<open>The reservation of the surrounding call\<close>

text \<open>
  The pre-flight of the transport rides a fresh capture without asking the gate; the callback always asks, and
  an answer with a reservation takes the place of the capture, of which no settlement will speak again.
\<close>

lemma default_budget_replaces:
  assumes "check_default_budget L s w = (Inr (JStr rid), s1, w1)"
  shows "v_minted (tr_ctx s1) = Some rid"
  using assms by (auto simp: check_default_budget_def absorb_gate_def Let_def dest!: gate_returns_capture
      split: prod.splits json.splits)

lemma callback_replaces_reservation:
  assumes "v_minted (tr_ctx s) = Some old" "old \<noteq> []"
    and "fst (te_now (le_track L) w) - v_minted_at (tr_ctx s) < max_reservation_age"
    and "check_default_budget L s w = (Inr (JStr rid), s1, w1)"
  shows "v_minted (tr_ctx (fst (snd (preflight_llm_call L q s w)))) = Some old \<and> v_minted (tr_ctx s1) = Some rid"
  using preflight_rides [of s L w "le_budget L" q] assms default_budget_replaces [OF assms(4)]
  by (auto simp: opt_text_def)

section \<open>A concrete run\<close>

definition denial_body :: dict where
  "denial_body = [(''decision'', JStr ''deny''), (''decision_source'', JStr ''gateway'')]"

definition denying_env :: "unit llm_env" where
  "denying_env = unit_llm_env\<lparr>le_budget := allowing_gate\<lparr>be_check := (\<lambda>d w. (Inr (JObj denial_body), w))\<rparr>\<rparr>"

definition idle_callback :: lc_state where
  "idle_callback = \<lparr>lg_runs = [], lg_deferred = [], lg_track = sample_state ''Normal'' None\<rparr>"

lemma denied_question:
  "(case fst (check_default_budget denying_env (lg_track idle_callback) ()) of
      Inl (SdkErr e) \<Rightarrow> err_class e = NullRunBlockedException
    | _ \<Rightarrow> False)"
  by code_simp

lemma callback_drops_denials_witness:
  "lg_deferred (fst (on_llm_start denying_env (Some ''r'') None idle_callback ())) = []"
proof -
  have answer: "fst (be_check (le_budget denying_env) req v) = Inr (JObj denial_body)" for req v
    by (simp add: denying_env_def)
  have body: "jget denial_body ''decision'' = JStr ''deny''" "jget denial_body ''decision_source'' = JStr ''gateway''"
    "tr_cache (lg_track idle_callback) = []"
    by code_simp+
  show ?thesis
    using callback_drops_denials [OF answer body, of "''r''" None "()"] by (simp add: idle_callback_def)
qed

end
