(* ===== verification/Requests_Transport.thy ===== *)
theory Requests_Transport
  imports Llm_Release
begin

text \<open>
  The patched \<open>requests.Session.send\<close> (\<open>instrumentation/auto_requests.py\<close>), the second road to a provider: it
  shares the pre-flight, the extractors and the release with the transport of \<open>httpx\<close>, but not the kill check,
  the fingerprint and the model of its events.
\<close>

section \<open>Requests\<close>

text \<open>
  \<open>hc_stream\<close> is the keyword \<open>stream=True\<close>, \<open>hc_tracked\<close> the mark a reported request carries.  The answer is a status
  and its content, \<open>None\<close> when reading it raises.
\<close>

record http_call =
  hc_request :: llm_request
  hc_stream :: bool
  hc_accept :: string
  hc_tracked :: bool

record requests_answer =
  ra_status :: int
  ra_content :: "string option"

definition is_streaming_request :: "http_call \<Rightarrow> bool" where
  "is_streaming_request c \<longleftrightarrow> hc_stream c \<or> contains ''text/event-stream'' (hc_accept c)"

definition fingerprint_for :: "'w llm_env \<Rightarrow> string \<Rightarrow> string \<Rightarrow> int \<Rightarrow> string" where
  "fingerprint_for L host body status =
     take 16 (le_sha256 L
       (host @ ''|'' @ (if status < 0 then ''-'' @ show_nat (nat (- status)) else show_nat (nat status))
        @ ''|'' @ body))"

definition requests_event :: "'w llm_env \<Rightarrow> string \<Rightarrow> llm_usage \<Rightarrow> string \<Rightarrow> int \<Rightarrow> dict" where
  "requests_event L host u body status =
     [(''type'', JStr ''llm_call''), (''provider'', JStr (provider_label host)), (''host'', JStr host),
      (''model'', u_model u), (''tokens'', JInt (u_total u)), (''input_tokens'', JInt (u_prompt u)),
      (''output_tokens'', JInt (u_completion u)), (''has_usage'', JBool True),
      (''metadata'', JObj [(''tracked'', JBool True)]), (''raw_usage'', JObj (usage_json u)),
      (''_fingerprint'', JStr (fingerprint_for L host body status))]"

text \<open>A prepared request has no \<open>content\<close>, so the model of a skipped event is never read; it has no fingerprint.\<close>

definition streaming_skipped_event :: "string \<Rightarrow> dict" where
  "streaming_skipped_event host =
     [(''type'', JStr ''llm_call''), (''provider'', JStr (provider_label host)), (''host'', JStr host),
      (''model'', JNull), (''tokens'', JInt 0), (''input_tokens'', JInt 0), (''output_tokens'', JInt 0),
      (''has_usage'', JBool False),
      (''metadata'', JObj [(''tracked'', JBool False), (''streaming_skipped'', JBool True)])]"

section \<open>Sending\<close>

type_synonym 'w session_send = "http_call \<Rightarrow> 'w \<Rightarrow> (protect_exn + requests_answer) \<times> 'w"

definition call_profile :: "'w llm_env \<Rightarrow> http_call \<Rightarrow> request_profile option" where
  "call_profile L c = profile_of_body (le_points L) (le_blank L) (le_loads L) (lq_body (hc_request c))"

text \<open>A streamed call: reserved, reported as skipped, released, and then sent.\<close>

definition send_streaming ::
  "'w llm_env \<Rightarrow> 'w session_send \<Rightarrow> http_call \<Rightarrow> track_state \<Rightarrow> 'w
     \<Rightarrow> (protect_exn + requests_answer) \<times> track_state \<times> 'w" where
  "send_streaming L send c s w =
     (let host = lq_host (hc_request c) in
      (case (if match_extractor host = None then (Inr (None, None), s, w)
             else preflight_llm_call L (call_profile L c) s w) of
         (Inl x, s1, w1) \<Rightarrow> (Inl x, s1, w1)
       | (Inr (rid, model), s1, w1) \<Rightarrow>
           (case track_quietly L (streaming_skipped_event host) None s1 w1 of
              (s2, w2) \<Rightarrow>
                (case release_reservation L rid model host ''streaming_skipped'' s2 w2 of
                   (s3, w3) \<Rightarrow> (case send c w3 of (res, w4) \<Rightarrow> (res, s3, w4))))))"

text \<open>What follows an answer; the second component is the mark of the request.\<close>

definition requests_answered ::
  "'w llm_env \<Rightarrow> provider \<Rightarrow> string \<Rightarrow> string option \<Rightarrow> string option \<Rightarrow> requests_answer \<Rightarrow> track_state \<Rightarrow> 'w
     \<Rightarrow> (protect_exn + requests_answer) \<times> bool \<times> track_state \<times> 'w" where
  "requests_answered L pv host rid model r s w =
     (case ra_content r of
        None \<Rightarrow> (Inr r, False, release_reservation L rid model host ''body_unreadable'' s w)
      | Some body \<Rightarrow>
          (if body = [] then (Inr r, False, release_reservation L rid model host ''empty_body'' s w)
           else
             (case extract_usage pv (le_loads L) body (ra_status r) of
                Inl x \<Rightarrow> (Inl (Raising x), False, s, w)
              | Inr None \<Rightarrow> (Inr r, False, release_reservation L rid model host ''usage_not_extractable'' s w)
              | Inr (Some u) \<Rightarrow>
                  (Inr r, True, track_quietly L (requests_event L host u body (ra_status r)) rid s w))))"

definition wrapped_send ::
  "'w llm_env \<Rightarrow> 'w session_send \<Rightarrow> http_call \<Rightarrow> track_state \<Rightarrow> 'w
     \<Rightarrow> (protect_exn + requests_answer) \<times> http_call \<times> track_state \<times> 'w" where
  "wrapped_send L send c s w =
     (let host = lq_host (hc_request c) in
      if hc_tracked c then (case send c w of (res, w1) \<Rightarrow> (res, c, s, w1))
      else if is_streaming_request c then
        (case send_streaming L send c s w of (res, s1, w1) \<Rightarrow> (res, c, s1, w1))
      else
        (case match_extractor host of
           None \<Rightarrow> (case send c w of (res, w1) \<Rightarrow> (res, c, s, w1))
         | Some pv \<Rightarrow>
             (case preflight_llm_call L (call_profile L c) s w of
                (Inl x, s1, w1) \<Rightarrow> (Inl x, c, s1, w1)
              | (Inr (rid, model), s1, w1) \<Rightarrow>
                  (case send c w1 of
                     (Inl (Interrupt x), w2) \<Rightarrow> (Inl (Interrupt x), c, s1, w2)
                   | (Inl x, w2) \<Rightarrow> (Inl x, c, release_reservation L rid model host ''request_failed'' s1 w2)
                   | (Inr r, w2) \<Rightarrow>
                       (case requests_answered L pv host rid model r s1 w2 of
                          (res, mark, s2, w3) \<Rightarrow> (res, c\<lparr>hc_tracked := mark\<rparr>, s2, w3))))))"

section \<open>Laws\<close>

text \<open>
  what reaches a provider through \<open>requests\<close>.  A refusal of the pre-flight reaches the caller and the outcome does
  not depend on the session; a request of any other outcome, of an unknown host and one that carries the mark
  is sent, in whatever state the control plane has the workflow.
\<close>

theorem requests_refused_only_by_gate:
  assumes "\<not> hc_tracked c" "match_extractor (lq_host (hc_request c)) \<noteq> None"
    and "preflight_llm_call L (call_profile L c) s w = (Inl x, s1, w1)"
  shows "wrapped_send L f c s w = (Inl x, c, s1, w1)"
  using assms by (auto simp: wrapped_send_def send_streaming_def Let_def split: option.splits)

text \<open>
  C24: a kill alone does not stop a call through \<open>requests\<close>.  Take an untracked, non-streaming call to a known host, whose
  pre-flight lets it pass (as it does without asking while a reservation is fresh in the context or the body
  has no profile) and whose answer has an empty body.  With the kill check of the plane raising, the httpx
  transport raises that stop, and \<open>requests\<close> sends the call and hands the caller the provider's answer; a
  pre-flight that is refused does stop it (\<open>requests_refused_only_by_gate\<close>).
\<close>

theorem killed_workflow_still_sends:
  assumes "check_kill_before_send (tr_plane s) = (Some stop, p)"
    and "\<not> hc_tracked c" "\<not> is_streaming_request c" "match_extractor (lq_host (hc_request c)) = Some pv"
    and "preflight_llm_call L (call_profile L c) s w = (Inr (rid, model), s1, w1)"
    and "send c w1 = (Inr r, w2)" "ra_content r = Some []"
  shows "fst (handle_request L (hc_request c) s w) = Inl stop
    \<and> fst (wrapped_send L send c s w) = Inr r"
proof -
  obtain s2 w3 where rel: "release_reservation L rid model (lq_host (hc_request c)) ''empty_body'' s1 w2 = (s2, w3)"
    by fastforce
  with assms show ?thesis
    by (simp add: handle_request_def wrapped_send_def Let_def requests_answered_def)
qed

text \<open>The mark makes the next sending of the same request invisible: neither gated nor reported.\<close>

lemma marked_request_ungated:
  "hc_tracked c \<Longrightarrow> wrapped_send L send c s w = (fst (send c w), c, s, snd (send c w))"
  by (simp add: wrapped_send_def Let_def split: prod.split)

lemma reported_request_is_marked:
  assumes "\<not> hc_tracked c" "\<not> is_streaming_request c" "match_extractor (lq_host (hc_request c)) = Some pv"
    and "preflight_llm_call L (call_profile L c) s w = (Inr (rid, model), s1, w1)"
    and "send c w1 = (Inr r, w2)" "ra_content r = Some body" "body \<noteq> []"
    and "extract_usage pv (le_loads L) body (ra_status r) = Inr (Some u)"
  shows "hc_tracked (fst (snd (wrapped_send L send c s w)))"
  using assms by (simp add: wrapped_send_def Let_def requests_answered_def split: prod.split)

text \<open>Any host that is asked for an event stream is reported as a call of a model.\<close>

lemma streamed_host_reported:
  assumes "\<not> hc_tracked c" "hc_stream c" "match_extractor (lq_host (hc_request c)) = None"
  shows "\<exists>s1 w1. track_quietly L (streaming_skipped_event (lq_host (hc_request c))) None s w = (s1, w1)
    \<and> wrapped_send L send c s w = (fst (send c w1), c, s1, snd (send c w1))"
  using assms
  by (auto simp: wrapped_send_def send_streaming_def is_streaming_request_def Let_def
      release_reservation_def opt_text_def split: prod.split)

section \<open>A concrete request\<close>

definition openai_call :: http_call where
  "openai_call = \<lparr>hc_request = openai_request, hc_stream = False, hc_accept = [], hc_tracked = False\<rparr>"

definition silent_answer :: requests_answer where
  "silent_answer = \<lparr>ra_status = 200, ra_content = Some []\<rparr>"

definition silent_session :: "unit session_send" where
  "silent_session c w = (Inr silent_answer, w)"

text \<open>The workflow is killed, and the context still holds a reservation captured now.\<close>

definition killed_state :: track_state where
  "killed_state = sample_state ''Killed'' (Some ''r1'')"

lemma openai_call_request: "hc_request openai_call = openai_request"
  by (simp add: openai_call_def)

lemma call_profile_read: "call_profile unit_llm_env openai_call = Some openai_profile"
  by (simp add: call_profile_def openai_call_def openai_profile_read)

lemma killed_check:
  "check_kill_before_send (tr_plane killed_state)
     = (Some (Stopped (KilledExn (JStr ''wf'') (JStr ''remote kill''))), tr_plane killed_state)"
  by code_simp

lemma killed_preflight:
  "preflight_llm_call unit_llm_env (Some openai_profile) killed_state () = (Inr (None, Some ''m''), killed_state, ())"
  by (simp add: preflight_llm_call_def ambient_reservation_def killed_state_def opt_text_def max_reservation_age_def
      unit_track_env_def openai_profile_def)

lemma killed_workflow_still_sends_witness:
  "fst (handle_request unit_llm_env openai_request killed_state ())
       = Inl (Stopped (KilledExn (JStr ''wf'') (JStr ''remote kill'')))
   \<and> fst (wrapped_send unit_llm_env silent_session openai_call killed_state ()) = Inr silent_answer"
proof -
  have pre: "preflight_llm_call unit_llm_env (call_profile unit_llm_env openai_call) killed_state ()
      = (Inr (None, Some ''m''), killed_state, ())"
    by (simp only: call_profile_read killed_preflight)
  have host: "match_extractor (lq_host (hc_request openai_call)) = Some OpenAI"
    by (simp add: openai_call_request openai_host)
  have plain: "\<not> hc_tracked openai_call" "\<not> is_streaming_request openai_call"
    by code_simp+
  have sent: "silent_session openai_call () = (Inr silent_answer, ())" "ra_content silent_answer = Some []"
    by (simp_all add: silent_session_def silent_answer_def)
  show ?thesis
    using killed_workflow_still_sends [OF killed_check plain host pre, of silent_session silent_answer "()"] sent by (simp add: openai_call_request)
qed

end
