(* ===== verification/Session.thy ===== *)
theory Session
  imports Runtime_Gate Control_Plane
begin

text \<open>
  The session of a runtime (\<open>NullRunRuntime\<close> in \<open>runtime.py\<close>): the verification of the API key with its retries, the
  construction, the choice of the control listener, the ring of recent errors and the status snapshot
  (\<open>observability/status.py\<close>).  The answers of the backend, the environment and \<open>float\<close> come from the
  environment of the model.
\<close>

section \<open>Environment\<close>

text \<open>A value of \<open>float\<close>, and the exception of \<open>time.sleep\<close> for a value it does not take.\<close>

datatype float_value = Fin rat | PosInf | NegInf | NaN

definition sleep_error :: "float_value \<Rightarrow> string option" where
  "sleep_error f =
     (case f of
        Fin r \<Rightarrow>
          (if r < 0 then Some ''ValueError''
           else if r * 10 ^ 9 \<ge> 2 ^ 63 then Some ''OverflowError'' else None)
      | PosInf \<Rightarrow> Some ''OverflowError''
      | NegInf \<Rightarrow> Some ''OverflowError''
      | NaN \<Rightarrow> Some ''ValueError'')"

text \<open>\<open>aa_json\<close> is the parsed body, \<open>None\<close> when it is no JSON; a missing header is the empty text.\<close>

record auth_answer =
  aa_status :: int
  aa_json :: "json option"
  aa_retry_after :: string

text \<open>
  \<open>se_post\<close> posts to \<open>/auth/verify\<close>; \<open>se_transport\<close> is the exception of the transport's constructor.
  \<open>se_hooks\<close> are the registered error hooks, with what they raise already swallowed.
\<close>

record 'w session_env =
  se_environ :: "string \<Rightarrow> string option"
  se_float :: "string \<Rightarrow> float_value option"
  se_post :: "dict \<Rightarrow> 'w \<Rightarrow> (string + auth_answer) \<times> 'w"
  se_sleep :: "float_value \<Rightarrow> 'w \<Rightarrow> 'w"
  se_transport :: "string \<Rightarrow> gate_exn option"
  se_hooks :: "(gate_exn \<Rightarrow> string \<Rightarrow> 'w \<Rightarrow> 'w) list"

text \<open>\<open>httpx.RequestError\<close> and its subclasses.\<close>

definition verify_errors :: "string list" where
  "verify_errors =
     [''RequestError'', ''TransportError'', ''TimeoutException'', ''ConnectTimeout'', ''ReadTimeout'',
      ''WriteTimeout'', ''PoolTimeout'', ''NetworkError'', ''ConnectError'', ''ReadError'', ''WriteError'',
      ''CloseError'', ''ProxyError'', ''UnsupportedProtocol'', ''ProtocolError'', ''LocalProtocolError'',
      ''RemoteProtocolError'', ''DecodingError'', ''TooManyRedirects'']"

section \<open>Posting the key\<close>

definition auth_backoff :: "nat \<Rightarrow> rat" where
  "auth_backoff attempt = min (1 / 2 * 2 ^ attempt) 5"

definition auth_delay :: "'w session_env \<Rightarrow> nat \<Rightarrow> string \<Rightarrow> float_value" where
  "auth_delay E attempt header =
     (if header = [] then Fin (auth_backoff attempt)
      else (case se_float E header of Some f \<Rightarrow> f | None \<Rightarrow> Fin (auth_backoff attempt)))"

text \<open>The loop with the attempts left; after none the assertion on the last exception fails.\<close>

fun post_auth_from :: "'w session_env \<Rightarrow> dict \<Rightarrow> nat \<Rightarrow> nat \<Rightarrow> 'w \<Rightarrow> (string + auth_answer) \<times> 'w" where
  "post_auth_from E body attempt 0 w = (Inl ''AssertionError'', w)"
| "post_auth_from E body attempt (Suc left) w =
     (case se_post E body w of
        (Inl x, w1) \<Rightarrow>
          (if x \<in> set verify_errors \<and> left > 0
           then post_auth_from E body (Suc attempt) left (se_sleep E (Fin (auth_backoff attempt)) w1)
           else (Inl x, w1))
      | (Inr r, w1) \<Rightarrow>
          (if aa_status r \<ge> 500 \<and> left > 0 then
             (let f = auth_delay E attempt (aa_retry_after r) in
              (case sleep_error f of
                 Some x \<Rightarrow> (Inl x, w1)
               | None \<Rightarrow> post_auth_from E body (Suc attempt) left (se_sleep E f w1)))
           else (Inr r, w1)))"

definition post_auth_with_retry :: "'w session_env \<Rightarrow> dict \<Rightarrow> nat \<Rightarrow> 'w \<Rightarrow> (string + auth_answer) \<times> 'w" where
  "post_auth_with_retry E body max_attempts w = post_auth_from E body 0 max_attempts w"

section \<open>The session\<close>

record recent_error =
  re_code :: json
  re_stage :: string
  re_workflow :: json

datatype listener = NoListener | HttpPoller | WsListener

text \<open>
  \<open>ss_secret\<close> is the signing secret of the runtime, \<open>ss_transport_secret\<close> the one its transport signs with;
  \<open>ss_attempt\<close> the outcome of the last attempt to reach the backend.
\<close>

record session =
  ss_key :: string
  ss_url :: string
  ss_secret :: json
  ss_transport_secret :: json
  ss_on_denied :: string
  ss_permissive :: bool
  ss_timeout :: float_value
  ss_approval_timeout :: float_value
  ss_org :: json
  ss_workflow :: json
  ss_key_version :: json
  ss_attempt :: "bool option"
  ss_errors :: "recent_error list"
  ss_started :: bool
  ss_listener :: listener

definition recent_capacity :: nat where "recent_capacity = 10"

definition push_recent :: "recent_error \<Rightarrow> recent_error list \<Rightarrow> recent_error list" where
  "push_recent e es = (let all = es @ [e] in drop (length all - recent_capacity) all)"

definition error_code_of :: "gate_exn \<Rightarrow> json" where
  "error_code_of x = (case x of SdkErr e \<Rightarrow> err_code e | _ \<Rightarrow> JStr ''NR-0000'')"

definition record_error :: "gate_exn \<Rightarrow> string \<Rightarrow> json \<Rightarrow> session \<Rightarrow> session" where
  "record_error x stage wid s =
     s\<lparr>ss_errors := push_recent
         \<lparr>re_code = error_code_of x, re_stage = stage,
          re_workflow = (if wid = JNull then ss_workflow s else wid)\<rparr> (ss_errors s)\<rparr>"

definition emit_error :: "'w session_env \<Rightarrow> gate_exn \<Rightarrow> string \<Rightarrow> 'w \<Rightarrow> 'w" where
  "emit_error E x stage w = fold (\<lambda>h. h x stage) (se_hooks E) w"

definition emit_sdk_error :: "'w session_env \<Rightarrow> gate_exn \<Rightarrow> string \<Rightarrow> json \<Rightarrow> session \<Rightarrow> 'w \<Rightarrow> session \<times> 'w" where
  "emit_sdk_error E x stage wid s w = (record_error x stage wid s, emit_error E x stage w)"

section \<open>Authentication\<close>

definition auth_failed :: "string \<Rightarrow> dict \<Rightarrow> gate_exn" where
  "auth_failed text kw = built (nullrun_init NullRunAuthenticationError text [] kw)"

definition missing_organization :: gate_exn where
  "missing_organization =
     auth_failed ''Auth response missing organization_id'' [(''error_code'', JStr ''NR-A002'')]"

definition status_failure :: "int \<Rightarrow> gate_exn" where
  "status_failure status =
     (if 500 \<le> status \<and> status < 600
      then built (backend_init NullRunBackendError ''Auth backend failed'' ''auth'' status [])
      else auth_failed ''Auth failed''
             [(''error_code'', JStr (if status = 401 then ''NR-A003'' else ''NR-A001''))])"

definition network_failure :: gate_exn where
  "network_failure = built (transport_init NullRunTransportError ''Auth request failed'' NETWORK_ERROR ''auth'' [] [])"

definition bad_json :: gate_exn where
  "bad_json =
     built (transport_init NullRunTransportError ''Received malformed JSON from auth'' GATEWAY_ERROR ''auth'' []
              [(''error_code'', JStr ''NR-T-PARSE'')])"

text \<open>What a 200 answer with an organisation does: the workflow as it is, the secret only with its version.\<close>

definition bind_identity :: "dict \<Rightarrow> session \<Rightarrow> session" where
  "bind_identity d s =
     (let s1 = s\<lparr>ss_org := jget d ''organization_id'', ss_workflow := jget d ''workflow_id''\<rparr> in
      (if jget d ''key_version'' \<noteq> JNull \<and> jget d ''secret_key'' \<noteq> JNull
       then s1\<lparr>ss_key_version := jget d ''key_version'', ss_secret := jget d ''secret_key'',
               ss_transport_secret := jget d ''secret_key''\<rparr>
       else s1)\<lparr>ss_attempt := Some True\<rparr>)"

definition read_identity :: "'w session_env \<Rightarrow> auth_answer \<Rightarrow> session \<Rightarrow> 'w \<Rightarrow> gate_exn option \<times> session \<times> 'w" where
  "read_identity E r s w =
     (case aa_json r of
        None \<Rightarrow> (Some bad_json, s, w)
      | Some (JObj d) \<Rightarrow>
          (if truthy (jget d ''organization_id'') then (None, bind_identity d s, w)
           else (case emit_sdk_error E missing_organization ''auth'' JNull s w of
                   (s1, w1) \<Rightarrow> (Some missing_organization, s1, w1)))
      | Some j \<Rightarrow> (Some (PyError ''AttributeError''), s, w))"

definition fail_auth :: "'w session_env \<Rightarrow> gate_exn \<Rightarrow> bool \<Rightarrow> session \<Rightarrow> 'w \<Rightarrow> gate_exn option \<times> session \<times> 'w" where
  "fail_auth E x answered s w =
     (case emit_sdk_error E x ''auth'' JNull (s\<lparr>ss_attempt := Some answered\<rparr>) w of (s1, w1) \<Rightarrow> (Some x, s1, w1))"

definition no_key :: gate_exn where
  "no_key =
     built (nullrun_init NullRunConfigError ''API key required for cloud mode'' [] [(''error_code'', JStr ''NR-C001'')])"

definition authenticate :: "'w session_env \<Rightarrow> session \<Rightarrow> 'w \<Rightarrow> gate_exn option \<times> session \<times> 'w" where
  "authenticate E s w =
     (if ss_key s = [] then
        (case emit_sdk_error E no_key ''auth'' JNull s w of (s1, w1) \<Rightarrow> (Some no_key, s1, w1))
      else
        (case post_auth_with_retry E [(''api_key'', JStr (ss_key s))] 3 w of
           (Inl x, w1) \<Rightarrow>
             (if x \<in> set verify_errors then fail_auth E network_failure False s w1 else (Some (PyError x), s, w1))
         | (Inr r, w1) \<Rightarrow>
             (if aa_status r = 200 then read_identity E r s w1
              else fail_auth E (status_failure (aa_status r)) True s w1)))"

text \<open>\<open>Transport._refetch_credentials\<close>: a single post, whose failures are swallowed.\<close>

definition refetch_credentials :: "'w session_env \<Rightarrow> session \<Rightarrow> 'w \<Rightarrow> session \<times> 'w" where
  "refetch_credentials E s w =
     (case se_post E [(''api_key'', JStr (ss_key s))] w of
        (Inr r, w1) \<Rightarrow>
          (if aa_status r = 200 then
             (case aa_json r of
                Some (JObj d) \<Rightarrow>
                  (if truthy (jget d ''secret_key'') then s\<lparr>ss_transport_secret := jget d ''secret_key''\<rparr> else s, w1)
              | _ \<Rightarrow> (s, w1))
           else (s, w1))
      | (Inl x, w1) \<Rightarrow> (s, w1))"

section \<open>Construction\<close>

record init_args =
  ia_key :: "string option"
  ia_secret :: json
  ia_url :: string
  ia_fallback :: "string option"
  ia_test_mode :: bool
  ia_polling :: bool
  ia_timeout :: "float_value option"
  ia_on_denied :: string

definition environ_text :: "'w session_env \<Rightarrow> string \<Rightarrow> string \<Rightarrow> string" where
  "environ_text E name dflt = (case se_environ E name of None \<Rightarrow> dflt | Some s \<Rightarrow> s)"

definition resolve_key :: "'w session_env \<Rightarrow> string option \<Rightarrow> string" where
  "resolve_key E given =
     (case given of
        Some k \<Rightarrow> strip k
      | None \<Rightarrow> (case se_environ E ''NULLRUN_API_KEY'' of Some k \<Rightarrow> strip k | None \<Rightarrow> []))"

definition float_or :: "'w session_env \<Rightarrow> string \<Rightarrow> rat \<Rightarrow> float_value" where
  "float_or E text dflt = (case se_float E text of Some f \<Rightarrow> f | None \<Rightarrow> Fin dflt)"

definition request_timeout :: "'w session_env \<Rightarrow> float_value option \<Rightarrow> float_value" where
  "request_timeout E given =
     (case given of
        Some f \<Rightarrow> f
      | None \<Rightarrow>
          (let text = environ_text E ''NULLRUN_REQUEST_TIMEOUT'' [] in
           if text = [] then Fin 30 else float_or E text 30))"

definition upper_is :: "string \<Rightarrow> string \<Rightarrow> bool" where
  "upper_is name s \<longleftrightarrow> lower s = lower name"

definition blank_session :: "'w session_env \<Rightarrow> init_args \<Rightarrow> session" where
  "blank_session E a =
     (let secret = py_or (ia_secret a)
                     (case se_environ E ''NULLRUN_SECRET_KEY'' of Some t \<Rightarrow> JStr t | None \<Rightarrow> JNull) in
      \<lparr>ss_key = resolve_key E (ia_key a),
       ss_url = (if ia_url a \<noteq> [] then ia_url a else environ_text E ''NULLRUN_API_URL'' ''https://api.nullrun.io''),
       ss_secret = secret, ss_transport_secret = secret, ss_on_denied = ia_on_denied a,
       ss_permissive = (case ia_fallback a of Some m \<Rightarrow> upper_is ''permissive'' m | None \<Rightarrow> False),
       ss_timeout = request_timeout E (ia_timeout a),
       ss_approval_timeout = float_or E (environ_text E ''NULLRUN_APPROVAL_TIMEOUT_SECONDS'' ''300'') 300,
       ss_org = JNull, ss_workflow = JNull, ss_key_version = JNull, ss_attempt = None, ss_errors = [],
       ss_started = False, ss_listener = NoListener\<rparr>)"

definition start_remote_polling :: "'w session_env \<Rightarrow> session \<Rightarrow> session" where
  "start_remote_polling E s =
     s\<lparr>ss_listener :=
         if lower (environ_text E ''NULLRUN_TRANSPORT'' ''ws'') = ''http'' \<or> \<not> truthy (ss_org s)
         then HttpPoller else WsListener\<rparr>"

definition runtime_init :: "'w session_env \<Rightarrow> init_args \<Rightarrow> 'w \<Rightarrow> (gate_exn + session) \<times> 'w" where
  "runtime_init E a w =
     (let s = blank_session E a in
      if ia_on_denied a \<notin> {''raise'', ''message''} then (Inl (PyError ''ValueError''), w)
      else if ss_key s = [] then (Inl (auth_failed ''NullRunRuntime() requires an api_key'' []), w)
      else
        (case se_transport E (ss_url s) of
           Some x \<Rightarrow> (Inl x, w)
         | None \<Rightarrow>
             (if environ_text E ''NULLRUN_USE_GRPC'' [] \<noteq> [] then (Inl (PyError ''RuntimeError''), w)
              else if ia_test_mode a then (Inr (s\<lparr>ss_started := True\<rparr>), w)
              else
                (case authenticate E s w of
                   (Some x, s1, w1) \<Rightarrow> (Inl x, w1)
                 | (None, s1, w1) \<Rightarrow>
                     (let s2 = s1\<lparr>ss_started := True\<rparr> in
                      (Inr (if ia_polling a then start_remote_polling E s2 else s2), w1))))))"

end
