(* ===== verification/Session_Laws.thy ===== *)
theory Session_Laws
  imports Session
begin

text \<open>
  The status snapshot, the registry of sensitive tools, the warning about missing model calls, and the laws of a
  session: a runtime has an identity the backend gave it, the key is posted at most three times, the ring of
  errors is a window, and what the headline of the status can and cannot say.
\<close>

section \<open>The status snapshot\<close>

record snapshot =
  st_state :: string
  st_key_valid :: "bool option"
  st_prefix :: "string option"
  st_org :: json
  st_workflow :: json
  st_url :: string
  st_reachable :: "bool option"
  st_ws :: "bool option"
  st_workflow_state :: "(json \<times> json \<times> json) option"
  st_errors :: "recent_error list"

text \<open>A session without a key cannot be constructed, so the empty key stands for \<open>None\<close>.  A connection object with its flag, no connection with the stop event set, or neither.\<close>

definition ws_view :: "bool option \<Rightarrow> bool \<Rightarrow> bool option" where
  "ws_view conn stopped = (case conn of Some running \<Rightarrow> Some running | None \<Rightarrow> if stopped then Some False else None)"

definition workflow_view :: "json \<Rightarrow> plane \<Rightarrow> string + (json \<times> json \<times> json) option \<times> plane" where
  "workflow_view wid p =
     (if wid = JNull then Inr (None, p)
      else
        (case py_key wid of
           None \<Rightarrow> Inl ''TypeError''
         | Some k \<Rightarrow>
             (case remote_state_for k p of
                (d, p1) \<Rightarrow>
                  Inr (if d = [] then None
                       else Some (get_or d ''state'' (JStr ''Normal''), get_or d ''version'' (JInt 0), jget d ''reason''),
                       p1))))"

definition headline :: "session \<Rightarrow> bool option \<Rightarrow> (json \<times> json \<times> json) option \<Rightarrow> string" where
  "headline s ws wstate =
     (if ss_key s = [] \<or> ss_org s = JNull \<and> ss_attempt s \<noteq> None then ''misconfigured''
      else if ws = Some False \<or> ss_attempt s = Some False
              \<or> (case wstate of Some (st, v, r) \<Rightarrow> st \<noteq> JStr ''Normal'' | None \<Rightarrow> False) then ''degraded''
      else ''ok'')"

definition status :: "session \<Rightarrow> bool option \<Rightarrow> bool \<Rightarrow> plane \<Rightarrow> string + snapshot \<times> plane" where
  "status s conn stopped p =
     (case workflow_view (ss_workflow s) p of
        Inl x \<Rightarrow> Inl x
      | Inr (wstate, p1) \<Rightarrow>
          (let ws = ws_view conn stopped in
           Inr (\<lparr>st_state = headline s ws wstate, st_key_valid = (if ss_org s \<noteq> JNull then Some True else None),
                 st_prefix = (if ss_key s = [] then None else Some (take 10 (ss_key s))), st_org = ss_org s,
                 st_workflow = ss_workflow s, st_url = ss_url s, st_reachable = ss_attempt s, st_ws = ws,
                 st_workflow_state = wstate, st_errors = ss_errors s\<rparr>, p1)))"

section \<open>The key is posted at most three times\<close>

lemma post_auth_bounded:
  assumes "\<And>b v. posts (snd (se_post E b v)) = Suc (posts v)" "\<And>f v. posts (se_sleep E f v) = posts v"
  shows "posts (snd (post_auth_from E body attempt left w)) \<le> posts w + left"
proof (induction left arbitrary: attempt w)
  case (Suc left)
  obtain res w1 where sent: "se_post E body w = (res, w1)" by fastforce
  then have one: "posts w1 = Suc (posts w)"
    using assms(1) [of body w] by simp
  have more: "posts (snd (post_auth_from E body (Suc attempt) left (se_sleep E f w1))) \<le> Suc (posts w) + left" for f
    using Suc.IH [of "Suc attempt" "se_sleep E f w1"] assms(2) one by simp
  show ?case
    using sent one more by (auto simp: Let_def split: sum.split option.split)
qed simp

text \<open>An answer is handed over only when it was posted for, and is no retried failure.\<close>

lemma post_auth_answer:
  "post_auth_from E body attempt left w = (Inr r, w') \<Longrightarrow> \<exists>v. fst (se_post E body v) = Inr r"
proof (induction E body attempt left w rule: post_auth_from.induct)
  case (2 E body attempt left w)
  then show ?case
    by (auto simp: Let_def split: prod.splits sum.splits if_splits option.splits) (metis fst_conv)+
qed simp

text \<open>A negative \<open>Retry-After\<close> ends the verification with the exception of \<open>time.sleep\<close>.\<close>

lemma negative_retry_after_raises:
  assumes "se_post E [(''api_key'', JStr (ss_key s))] w = (Inr r, w1)" "aa_status r \<ge> 500" "ss_key s \<noteq> []"
    and "aa_retry_after r \<noteq> []" "se_float E (aa_retry_after r) = Some (Fin q)" "q < 0"
  shows "authenticate E s w = (Some (PyError ''ValueError''), s, w1)"
  using assms by (simp add: authenticate_def post_auth_with_retry_def numeral_3_eq_3 Let_def auth_delay_def
      sleep_error_def verify_errors_def)

section \<open>Identity\<close>

lemma read_identity_binds:
  assumes "read_identity E r s w = (None, s', w')"
  shows "\<exists>d. aa_json r = Some (JObj d) \<and> truthy (jget d ''organization_id'') \<and> s' = bind_identity d s"
  using assms by (auto simp: read_identity_def emit_sdk_error_def split: option.splits json.splits if_splits)

lemma authenticate_binds:
  assumes "authenticate E s w = (None, s', w')"
  shows "\<exists>r v d. fst (se_post E [(''api_key'', JStr (ss_key s))] v) = Inr r \<and> aa_status r = 200
    \<and> aa_json r = Some (JObj d) \<and> truthy (jget d ''organization_id'') \<and> s' = bind_identity d s"
proof -
  obtain r w1 where r: "post_auth_from E [(''api_key'', JStr (ss_key s))] 0 3 w = (Inr r, w1)" "aa_status r = 200"
    "read_identity E r s w1 = (None, s', w')"
    using assms by (auto simp: authenticate_def post_auth_with_retry_def fail_auth_def emit_sdk_error_def
        split: if_splits prod.splits sum.splits)
  from post_auth_answer [OF r(1)] read_identity_binds [OF r(3)] r(2) show ?thesis by blast
qed

lemma bind_identity_fields [simp]:
  "ss_org (bind_identity d s) = jget d ''organization_id''" "ss_workflow (bind_identity d s) = jget d ''workflow_id''"
  "ss_attempt (bind_identity d s) = Some True" "ss_key (bind_identity d s) = ss_key s"
  "ss_on_denied (bind_identity d s) = ss_on_denied s" "ss_url (bind_identity d s) = ss_url s"
  by (simp_all add: bind_identity_def Let_def)

text \<open>
  C25: a runtime never runs without an identity.  A constructed runtime outside the test mode has a key, and the
  backend answered a post of that key with 200 and the organisation and workflow the runtime is bound to; its
  transport is started, and it listens to the push channel or polls when asked to.
\<close>

theorem runtime_has_identity:
  assumes "runtime_init E a w = (Inr s, w')" "\<not> ia_test_mode a"
  shows "ss_key s \<noteq> [] \<and> ss_key s = resolve_key E (ia_key a) \<and> ss_started s \<and> ss_attempt s = Some True
    \<and> (ss_listener s = NoListener \<longleftrightarrow> \<not> ia_polling a)
    \<and> (\<exists>r v d. fst (se_post E [(''api_key'', JStr (ss_key s))] v) = Inr r \<and> aa_status r = 200
          \<and> aa_json r = Some (JObj d) \<and> truthy (ss_org s)
          \<and> ss_org s = jget d ''organization_id'' \<and> ss_workflow s = jget d ''workflow_id'')"
proof -
  let ?b = "blank_session E a"
  obtain s1 where auth: "authenticate E ?b w = (None, s1, w')" and key: "ss_key ?b \<noteq> []"
    and s: "s = (if ia_polling a then start_remote_polling E (s1\<lparr>ss_started := True\<rparr>) else s1\<lparr>ss_started := True\<rparr>)"
    using assms by (auto simp: runtime_init_def Let_def split: if_splits option.splits prod.splits)
  obtain r v d where ans: "fst (se_post E [(''api_key'', JStr (ss_key ?b))] v) = Inr r" "aa_status r = 200"
    "aa_json r = Some (JObj d)" "truthy (jget d ''organization_id'')" "s1 = bind_identity d ?b"
    using authenticate_binds [OF auth] by blast
  have fields: "ss_key s = ss_key ?b" "ss_org s = jget d ''organization_id''" "ss_workflow s = jget d ''workflow_id''"
    "ss_started s" "ss_attempt s = Some True" "ss_listener s = NoListener \<longleftrightarrow> \<not> ia_polling a"
    "ss_key ?b = resolve_key E (ia_key a)"
    using ans(5) by (auto simp: s start_remote_polling_def bind_identity_def blank_session_def Let_def)
  show ?thesis
    using fields ans(1-4) key by metis
qed

section \<open>Errors of the verification\<close>

lemma network_failure_class: "\<exists>e. network_failure = SdkErr e \<and> err_class e = NullRunTransportError"
  by (simp add: network_failure_def built_def transport_init_def nullrun_init_def Let_def base_kwargs_def)

lemma status_failure_class:
  "\<exists>e. status_failure n = SdkErr e
     \<and> err_class e = (if 500 \<le> n \<and> n < 600 then NullRunBackendError else NullRunAuthenticationError)"
  by (simp add: status_failure_def auth_failed_def built_def backend_init_def transport_init_def nullrun_init_def Let_def
      base_kwargs_def)

lemma last_push_recent [simp]: "last (push_recent e es) = e"
  by (simp add: push_recent_def Let_def recent_capacity_def)

text \<open>
  what a refused verification raises.  A network failure and an answer of the 5xx range are no judgement of the
  key: the class is a transport or backend error; every other status is an authentication error, and each of
  them is in the ring of recent errors when it is raised.
\<close>

theorem failed_verification_exact:
  assumes "post_auth_with_retry E [(''api_key'', JStr (ss_key s))] 3 w = (res, w1)" "ss_key s \<noteq> []"
    and "authenticate E s w = (Some x, s', w')"
    and "case res of Inl c \<Rightarrow> c \<in> set verify_errors | Inr r \<Rightarrow> aa_status r \<noteq> 200"
  shows "\<exists>e. x = SdkErr e
    \<and> err_class e = (case res of
         Inl c \<Rightarrow> NullRunTransportError
       | Inr r \<Rightarrow> if 500 \<le> aa_status r \<and> aa_status r < 600 then NullRunBackendError else NullRunAuthenticationError)
    \<and> re_code (last (ss_errors s')) = err_code e
    \<and> ss_attempt s' = Some (case res of Inl c \<Rightarrow> False | Inr r \<Rightarrow> True)"
proof -
  obtain e where e: "(case res of Inl c \<Rightarrow> network_failure | Inr r \<Rightarrow> status_failure (aa_status r)) = SdkErr e"
    "err_class e = (case res of
         Inl c \<Rightarrow> NullRunTransportError
       | Inr r \<Rightarrow> if 500 \<le> aa_status r \<and> aa_status r < 600 then NullRunBackendError else NullRunAuthenticationError)"
    using network_failure_class status_failure_class by (cases res) (force, force)
  have "authenticate E s w = fail_auth E (SdkErr e) (case res of Inl c \<Rightarrow> False | Inr r \<Rightarrow> True) s w1"
    using assms(1,2,4) e(1) by (auto simp: authenticate_def split: sum.splits)
  then have "x = SdkErr e" "ss_errors s' = push_recent \<lparr>re_code = err_code e, re_stage = ''auth'', re_workflow = ss_workflow s\<rparr> (ss_errors s)"
    "ss_attempt s' = Some (case res of Inl c \<Rightarrow> False | Inr r \<Rightarrow> True)"
    using assms(3) by (auto simp: fail_auth_def emit_sdk_error_def record_error_def error_code_of_def)
  with e(2) show ?thesis by simp
qed

section \<open>The ring of recent errors\<close>

lemma push_recent_drop: "push_recent e (drop (length es - recent_capacity) es) = drop (Suc (length es) - recent_capacity) (es @ [e])"
  by (cases "recent_capacity \<le> length es") (auto simp: push_recent_def Let_def Suc_diff_le)

text \<open>After any pushes the ring holds the last ten errors in order.\<close>

lemma ring_is_window: "fold push_recent es [] = drop (length es - recent_capacity) es"
proof (induction es rule: rev_induct)
  case (snoc e es)
  then show ?case
    using push_recent_drop [of e es] by simp
qed simp

section \<open>What the status says\<close>

text \<open>
  the headline of a running client.  For a runtime that was constructed, a status is never misconfigured and
  never offline; it is degraded exactly when a connection object reports itself stopped or the stop event is
  set, the last attempt found the backend unreachable, or the cached state is not spelled \<open>Normal\<close>.
\<close>

theorem status_headline_exact:
  assumes "truthy (ss_org s)" "ss_key s \<noteq> []" "status s conn stopped p = Inr (snap, p')"
  shows "st_state snap \<in> {''ok'', ''degraded''}
    \<and> (st_state snap = ''degraded'' \<longleftrightarrow>
      conn = Some False \<or> conn = None \<and> stopped \<or> ss_attempt s = Some False
      \<or> (\<exists>st v r. st_workflow_state snap = Some (st, v, r) \<and> st \<noteq> JStr ''Normal''))"
  using assms by (auto simp: status_def Let_def headline_def ws_view_def split: sum.splits prod.splits option.splits if_splits)

text \<open>A lost channel, whose connection object is gone, does not show; asking for the status writes the table.\<close>

lemma lost_channel_not_degraded:
  assumes "truthy (ss_org s)" "ss_key s \<noteq> []" "ss_attempt s = Some True" "ss_workflow s = JNull"
  shows "map_sum id (st_state \<circ> fst) (status s None False p) = Inr ''ok''"
  using assms by (auto simp: status_def Let_def headline_def ws_view_def workflow_view_def)

lemma py_key_text [simp]: "py_key (JStr s) = Some (JStr s)"
  by (simp add: py_key_def py_number_def)

lemma status_writes_table:
  assumes "dict_get (p_states p) (JStr wid) = None"
  shows "workflow_view (JStr wid) p = Inr (None, p\<lparr>p_states := dict_set (JStr wid) [] (p_states p)\<rparr>)"
  using assms by (simp add: workflow_view_def remote_state_for_def)

text \<open>The headline compares the spelling that the control plane folds.\<close>

lemma headline_spelling:
  assumes "dict_get (p_states p) (JStr wid) = Some [(''state'', JStr ''NORMAL'')]" "truthy (ss_org s)" "ss_key s \<noteq> []"
    and "ss_workflow s = JStr wid"
  shows "map_sum id (st_state \<circ> fst) (status s (Some True) False p) = Inr ''degraded''"
    and "state_verdict (JStr wid) [(''state'', JStr ''NORMAL'')] = Proceed"
proof -
  have "lower ''NORMAL'' = ''normal''" by code_simp
  then show "state_verdict (JStr wid) [(''state'', JStr ''NORMAL'')] = Proceed"
    by (simp add: state_verdict_def get_or_def dict_get_def Let_def)
  show "map_sum id (st_state \<circ> fst) (status s (Some True) False p) = Inr ''degraded''"
    using assms by (auto simp: status_def workflow_view_def remote_state_for_def headline_def get_or_def dict_get_def Let_def)
qed

section \<open>Sensitive tools\<close>

record tool_registry =
  tg_builtin :: "string list"
  tg_strict :: "string list"

definition builtin_sensitive :: "string list" where
  "builtin_sensitive =
     [''stripe.charge'', ''stripe.refund'', ''stripe.payout'', ''payment.process'', ''send_email'', ''send_sms'',
      ''send_slack'', ''send_discord'', ''db.delete'', ''db.drop'', ''db.truncate'', ''db.write'', ''api.post'',
      ''api.put'', ''api.delete'', ''file.delete'', ''file.write'', ''s3.delete'', ''admin.delete'',
      ''admin.create_user'', ''admin.disable_user'']"

definition new_registry :: tool_registry where
  "new_registry = \<lparr>tg_builtin = builtin_sensitive, tg_strict = []\<rparr>"

definition is_sensitive_tool :: "string \<Rightarrow> tool_registry \<Rightarrow> bool" where
  "is_sensitive_tool name g \<longleftrightarrow>
     lower name \<in> lower ` set (tg_builtin g) \<or> lower name \<in> lower ` set (tg_strict g)"

definition add_sensitive_tool :: "string \<Rightarrow> tool_registry \<Rightarrow> tool_registry" where
  "add_sensitive_tool name g = g\<lparr>tg_strict := List.insert name (tg_strict g)\<rparr>"

definition remove_sensitive_tool :: "string \<Rightarrow> tool_registry \<Rightarrow> tool_registry" where
  "remove_sensitive_tool name g = g\<lparr>tg_strict := removeAll name (tg_strict g)\<rparr>"

definition register_sensitive_tools :: "string list \<Rightarrow> tool_registry \<Rightarrow> tool_registry" where
  "register_sensitive_tools names g = fold add_sensitive_tool names g"

definition get_sensitive_tools :: "tool_registry \<Rightarrow> string list" where
  "get_sensitive_tools g = remdups (tg_builtin g @ tg_strict g)"

lemma registered_fields:
  "set (tg_strict (register_sensitive_tools names g)) = set (tg_strict g) \<union> set names"
  "tg_builtin (register_sensitive_tools names g) = tg_builtin g"
  by (induction names arbitrary: g) (auto simp: register_sensitive_tools_def add_sensitive_tool_def)

lemma registered_is_sensitive:
  "is_sensitive_tool t (register_sensitive_tools names g) \<longleftrightarrow> is_sensitive_tool t g \<or> lower t \<in> lower ` set names"
  by (auto simp: is_sensitive_tool_def registered_fields)

text \<open>The lookup folds the case and the removal does not: a tool removed by another spelling stays sensitive.\<close>

lemma removal_is_exact:
  assumes "name \<noteq> added" "lower name = lower added"
  shows "is_sensitive_tool name (remove_sensitive_tool name (add_sensitive_tool added g))"
  using assms by (auto simp: is_sensitive_tool_def remove_sensitive_tool_def add_sensitive_tool_def)

lemma builtin_not_removable:
  "name \<in> set (tg_builtin g) \<Longrightarrow> is_sensitive_tool name (remove_sensitive_tool name g)"
  by (auto simp: is_sensitive_tool_def remove_sensitive_tool_def)

section \<open>The warning about missing model calls\<close>

record activity =
  av_protects :: nat
  av_llm_events :: nat
  av_warned :: bool

definition bump_protect_count :: "activity \<Rightarrow> bool \<times> activity" where
  "bump_protect_count a =
     (let b = a\<lparr>av_protects := Suc (av_protects a)\<rparr> in
      if av_warned b \<or> av_protects b < 50 \<or> av_llm_events b > 0 then (False, b) else (True, b\<lparr>av_warned := True\<rparr>))"

fun bumps :: "nat \<Rightarrow> activity \<Rightarrow> nat \<times> activity" where
  "bumps 0 a = (0, a)"
| "bumps (Suc n) a =
     (case bump_protect_count a of
        (b, a1) \<Rightarrow> (case bumps n a1 of (k, a2) \<Rightarrow> (k + (if b then 1 else 0), a2)))"

text \<open>A client that never counts a model call is warned once, at its fiftieth protected call.\<close>

lemma warned_never_again: "av_warned a \<Longrightarrow> fst (bumps n a) = 0"
  by (induction n arbitrary: a) (auto simp: bump_protect_count_def Let_def split: prod.splits) 

lemma warned_exactly_once:
  "\<not> av_warned a \<Longrightarrow> av_llm_events a = 0 \<Longrightarrow> av_protects a \<le> 49
     \<Longrightarrow> fst (bumps n a) = (if av_protects a + n \<ge> 50 then 1 else 0)"
proof (induction n arbitrary: a)
  case (Suc n)
  let ?b = "a\<lparr>av_protects := Suc (av_protects a)\<rparr>"
  show ?case
  proof (cases "av_protects a = 49")
    case True
    have "fst (bumps n (?b\<lparr>av_warned := True\<rparr>)) = 0"
      by (rule warned_never_again) simp
    with True Suc.prems show ?thesis
      by (auto simp: bump_protect_count_def Let_def split: prod.split)
  next
    case False
    with Suc.prems Suc.IH [of ?b] show ?thesis
      by (auto simp: bump_protect_count_def Let_def split: prod.split)
  qed
qed simp

section \<open>A concrete client\<close>

definition verified_answer :: auth_answer where
  "verified_answer =
     \<lparr>aa_status = 200,
      aa_json = Some (JObj [(''organization_id'', JStr ''org''), (''workflow_id'', JStr ''wf'')]),
      aa_retry_after = []\<rparr>"

text \<open>The first post meets a backend that is down, every later one is answered.\<close>

definition waking_env :: "nat session_env" where
  "waking_env =
     \<lparr>se_environ = (\<lambda>n. None), se_float = (\<lambda>s. None),
      se_post = (\<lambda>b n. (Inr (if n = 0 then verified_answer\<lparr>aa_status := 503\<rparr> else verified_answer), Suc n)),
      se_sleep = (\<lambda>f n. n), se_transport = (\<lambda>u. None), se_hooks = []\<rparr>"

definition plain_args :: init_args where
  "plain_args =
     \<lparr>ia_key = Some '' nr_live_k '', ia_secret = JNull, ia_url = [], ia_fallback = None, ia_test_mode = False,
      ia_polling = True, ia_timeout = None, ia_on_denied = ''raise''\<rparr>"

definition verified_session :: session where
  "verified_session =
     (blank_session waking_env plain_args)
       \<lparr>ss_org := JStr ''org'', ss_workflow := JStr ''wf'', ss_attempt := Some True, ss_started := True,
        ss_listener := WsListener\<rparr>"

lemma waking_init: "runtime_init waking_env plain_args 0 = (Inr verified_session, 2)"
  by code_simp

lemma runtime_has_identity_witness:
  "ss_key verified_session = ''nr_live_k'' \<and> ss_started verified_session \<and> ss_listener verified_session \<noteq> NoListener"
proof -
  have "ss_key verified_session = ''nr_live_k''" "ia_polling plain_args" "\<not> ia_test_mode plain_args"
    by code_simp+
  with runtime_has_identity [OF waking_init] show ?thesis by simp
qed

definition dead_env :: "nat session_env" where
  "dead_env = waking_env\<lparr>se_post := (\<lambda>b n. (Inl ''ConnectError'', Suc n))\<rparr>"

lemma failed_verification_exact_witness:
  "\<exists>x s' w'. authenticate dead_env verified_session 0 = (Some x, s', w') \<and> (\<exists>e. x = SdkErr e
    \<and> err_class e = NullRunTransportError \<and> ss_attempt s' = Some False)"
proof -
  have posted: "post_auth_with_retry dead_env [(''api_key'', JStr (ss_key verified_session))] 3 0
      = (Inl ''ConnectError'', 3)"
    by code_simp
  have key: "ss_key verified_session \<noteq> []"
    by code_simp
  have known: "''ConnectError'' \<in> set verify_errors"
    by code_simp
  obtain x s' where run: "authenticate dead_env verified_session 0 = (Some x, s', 3)"
    using posted key known by (simp add: authenticate_def fail_auth_def emit_sdk_error_def dead_env_def waking_env_def
        emit_error_def)
  from failed_verification_exact [OF posted key run] known run show ?thesis by auto
qed

lemma status_headline_exact_witness:
  "\<exists>snap p'. status verified_session (Some True) False \<lparr>p_states = [], p_bound = ''wf''\<rparr> = Inr (snap, p')
    \<and> st_state snap \<in> {''ok'', ''degraded''}"
proof -
  have org: "truthy (ss_org verified_session)" "ss_key verified_session \<noteq> []"
    by code_simp+
  obtain snap p' where run: "status verified_session (Some True) False \<lparr>p_states = [], p_bound = ''wf''\<rparr> = Inr (snap, p')"
    by (simp add: status_def status_writes_table verified_session_def dict_get_def Let_def)
  from status_headline_exact [OF org run] run show ?thesis by blast
qed

end
