(* ===== verification/Registry.thy ===== *)
theory Registry
  imports Nullrun_Prelude
begin

text \<open>
  The runtimes of a process (\<open>_registry.py\<close>, \<open>_singleton.py\<close>, \<open>get_instance\<close>, \<open>reset_instance\<close> and \<open>shutdown\<close> of
  \<open>runtime.py\<close>, \<open>init\<close> and \<open>shutdown\<close> of \<open>__init__.py\<close>, the lookups of \<open>decorators.py\<close>): which runtimes run
  and which one the slot of the process holds.  What the construction of a runtime does inside is the theory
  of the session; here it is a fresh runtime or an exception.
\<close>

section \<open>State\<close>

text \<open>
  A runtime is named by a number.  \<open>rn_running\<close> holds from its construction until its \<open>shutdown\<close> has stopped the
  transport.
\<close>

record runtime_info =
  ri_key :: string
  ri_url :: string
  rn_running :: bool

text \<open>
  \<open>pc_slot\<close> is the slot of the registry, \<open>pc_hook\<close> the flag of \<open>init\<close> and \<open>pc_atexit\<close> how often \<open>shutdown\<close> is
  registered to run at exit.
\<close>

record process =
  pc_runtimes :: "(nat \<times> runtime_info) list"
  pc_slot :: "nat option"
  pc_hook :: bool
  pc_atexit :: nat

definition fresh_process :: process where
  "fresh_process = \<lparr>pc_runtimes = [], pc_slot = None, pc_hook = False, pc_atexit = 0\<rparr>"

text \<open>
  \<open>pe_key\<close> and \<open>pe_url\<close> are the variables as \<open>os.getenv\<close> gives them, \<open>pe_strip\<close> is \<open>str.strip\<close>; \<open>pe_refuses\<close> is the
  exception of the constructor for a key and an address, \<open>pe_stop_fails\<close> whether \<open>stop\<close> of the transport
  raises.
\<close>

record process_env =
  pe_key :: "string option"
  pe_url :: "string option"
  pe_strip :: "string \<Rightarrow> string"
  pe_refuses :: "string \<Rightarrow> string \<Rightarrow> string option"
  pe_stop_fails :: "nat \<Rightarrow> string option"

section \<open>Registry\<close>

definition registry_get :: "process \<Rightarrow> nat option" where
  "registry_get p = pc_slot p"

definition registry_set :: "nat \<Rightarrow> process \<Rightarrow> nat option \<times> process" where
  "registry_set i p = (pc_slot p, p\<lparr>pc_slot := Some i\<rparr>)"

definition registry_clear :: "process \<Rightarrow> nat option \<times> process" where
  "registry_clear p = (pc_slot p, p\<lparr>pc_slot := None\<rparr>)"

text \<open>Assigning to \<open>_instance\<close> through the proxies of \<open>_singleton.py\<close>.\<close>

definition set_instance :: "nat option \<Rightarrow> process \<Rightarrow> process" where
  "set_instance v p = (case v of None \<Rightarrow> snd (registry_clear p) | Some i \<Rightarrow> snd (registry_set i p))"

section \<open>Construction and shutdown\<close>

definition url_default :: string where "url_default = ''https://api.nullrun.io''"

definition env_url :: "process_env \<Rightarrow> string" where
  "env_url E = (case pe_url E of None \<Rightarrow> url_default | Some u \<Rightarrow> u)"

definition resolved_key :: "process_env \<Rightarrow> string option \<Rightarrow> string" where
  "resolved_key E given =
     (case given of
        Some k \<Rightarrow> pe_strip E k
      | None \<Rightarrow> (case pe_key E of Some k \<Rightarrow> pe_strip E k | None \<Rightarrow> []))"

definition resolved_url :: "process_env \<Rightarrow> string \<Rightarrow> string" where
  "resolved_url E given = (if given \<noteq> [] then given else env_url E)"

definition construct :: "process_env \<Rightarrow> string option \<Rightarrow> string \<Rightarrow> process \<Rightarrow> (string + nat) \<times> process" where
  "construct E key url p =
     (let k = resolved_key E key; u = resolved_url E url; i = length (pc_runtimes p) in
      if k = [] then (Inl ''NullRunAuthenticationError'', p)
      else
        (case pe_refuses E k u of
           Some x \<Rightarrow> (Inl x, p)
         | None \<Rightarrow>
             (Inr i, p\<lparr>pc_runtimes := pc_runtimes p @ [(i, \<lparr>ri_key = k, ri_url = u, rn_running = True\<rparr>)]\<rparr>)))"

definition stop_runtime :: "nat \<Rightarrow> process \<Rightarrow> process" where
  "stop_runtime i p =
     p\<lparr>pc_runtimes := map (\<lambda>(j, r). (j, if j = i then r\<lparr>rn_running := False\<rparr> else r)) (pc_runtimes p)\<rparr>"

text \<open>\<open>NullRunRuntime.shutdown\<close>: it empties the slot of the process, whichever runtime is in it.\<close>

definition runtime_shutdown :: "process_env \<Rightarrow> nat \<Rightarrow> process \<Rightarrow> string option \<times> process" where
  "runtime_shutdown E i p =
     (case pe_stop_fails E i of
        Some x \<Rightarrow> (Some x, p)
      | None \<Rightarrow> (None, set_instance None (stop_runtime i p)))"

section \<open>The operations of a process\<close>

definition shutdown_all :: "process_env \<Rightarrow> process \<Rightarrow> string option \<times> process" where
  "shutdown_all E p =
     (case registry_get p of
        None \<Rightarrow> (None, p)
      | Some i \<Rightarrow>
          (case runtime_shutdown E i p of
             (Some x, p1) \<Rightarrow> (Some x, p1)
           | (None, p1) \<Rightarrow> (None, p1\<lparr>pc_hook := False\<rparr>)))"

definition init :: "process_env \<Rightarrow> string option \<Rightarrow> string \<Rightarrow> process \<Rightarrow> (string + nat) \<times> process" where
  "init E key url p =
     (if resolved_key E key = [] then (Inl ''NullRunAuthenticationError'', p)
      else
        (let p1 = (case registry_get p of None \<Rightarrow> p | Some i \<Rightarrow> snd (runtime_shutdown E i p)) in
         (case construct E key url p1 of
            (Inl x, p2) \<Rightarrow> (Inl x, p2)
          | (Inr i, p2) \<Rightarrow>
              (let p3 = set_instance (Some i) (snd (registry_set i p2)) in
               (Inr i, if pc_hook p3 then p3 else p3\<lparr>pc_hook := True, pc_atexit := Suc (pc_atexit p3)\<rparr>)))))"

definition key_changed :: "process_env \<Rightarrow> runtime_info \<Rightarrow> bool" where
  "key_changed E r \<longleftrightarrow> pe_key E \<noteq> Some (ri_key r)"

definition get_instance :: "process_env \<Rightarrow> process \<Rightarrow> (string + nat) \<times> process" where
  "get_instance E p =
     (let renew = (\<lambda>q. (case construct E (pe_key E) (env_url E) q of
                          (Inl x, q1) \<Rightarrow> (Inl x, q1)
                        | (Inr i, q1) \<Rightarrow> (Inr i, set_instance (Some i) q1))) in
      (case registry_get p of
         None \<Rightarrow> renew p
       | Some i \<Rightarrow>
           (case map_of (pc_runtimes p) i of
              None \<Rightarrow> (Inr i, p)
            | Some r \<Rightarrow>
                (if key_changed E r \<or> env_url E \<noteq> ri_url r then
                   (case runtime_shutdown E i p of
                      (Some x, p1) \<Rightarrow> (Inl x, p1)
                    | (None, p1) \<Rightarrow> renew p1)
                 else (Inr i, p)))))"

definition reset_instance :: "process_env \<Rightarrow> process \<Rightarrow> string option \<times> process" where
  "reset_instance E p =
     (case registry_get p of
        None \<Rightarrow> (None, set_instance None p)
      | Some i \<Rightarrow>
          (case runtime_shutdown E i p of
             (Some x, p1) \<Rightarrow> (Some x, p1)
           | (None, p1) \<Rightarrow> (None, set_instance None p1)))"

text \<open>\<open>decorators.reset\<close> swallows what the shutdown raises.\<close>

definition reset_process :: "process_env \<Rightarrow> process \<Rightarrow> process" where
  "reset_process E p =
     snd (registry_clear (case registry_get p of None \<Rightarrow> p | Some i \<Rightarrow> snd (runtime_shutdown E i p)))"

text \<open>The runtime of a protected call and of \<open>get_runtime\<close>.\<close>

definition get_runtime :: "process_env \<Rightarrow> process \<Rightarrow> (string + nat) \<times> process" where
  "get_runtime E p = (case registry_get p of Some i \<Rightarrow> (Inr i, p) | None \<Rightarrow> get_instance E p)"

definition get_protected_runtime :: "process_env \<Rightarrow> process \<Rightarrow> nat option \<times> process" where
  "get_protected_runtime E p =
     (case get_runtime E p of (Inr i, p1) \<Rightarrow> (Some i, p1) | (Inl x, p1) \<Rightarrow> (None, p1))"

text \<open>\<open>Close i\<close> is \<open>shutdown\<close> called on a runtime the program kept.\<close>

datatype process_op =
    Init "string option" string
  | GetInstance
  | GetRuntime
  | ShutdownAll
  | ResetInstance
  | Reset
  | Close nat

fun process_step :: "process_env \<Rightarrow> process_op \<Rightarrow> process \<Rightarrow> process" where
  "process_step E (Init key url) p = snd (init E key url p)"
| "process_step E GetInstance p = snd (get_instance E p)"
| "process_step E GetRuntime p = snd (get_runtime E p)"
| "process_step E ShutdownAll p = snd (shutdown_all E p)"
| "process_step E ResetInstance p = snd (reset_instance E p)"
| "process_step E Reset p = reset_process E p"
| "process_step E (Close i) p = snd (runtime_shutdown E i p)"

section \<open>One running runtime\<close>

definition running :: "process \<Rightarrow> nat set" where
  "running p = {i. \<exists>r. map_of (pc_runtimes p) i = Some r \<and> rn_running r}"

text \<open>Runtimes are named in the order of their construction, and only the one in the slot runs.\<close>

definition process_ok :: "process \<Rightarrow> bool" where
  "process_ok p \<longleftrightarrow> (\<forall>x\<in>set (pc_runtimes p). fst x < length (pc_runtimes p)) \<and> running p \<subseteq> set_option (pc_slot p)"

lemma set_instance_fields [simp]:
  "pc_runtimes (set_instance v p) = pc_runtimes p" "pc_slot (set_instance v p) = v"
  "running (set_instance v p) = running p"
  by (cases v; simp add: set_instance_def registry_clear_def registry_set_def running_def)+

lemma stop_runtime_fields [simp]:
  "pc_slot (stop_runtime i p) = pc_slot p" "length (pc_runtimes (stop_runtime i p)) = length (pc_runtimes p)"
  "(\<forall>x\<in>set (pc_runtimes (stop_runtime i p)). fst x < n) \<longleftrightarrow> (\<forall>x\<in>set (pc_runtimes p). fst x < n)"
  by (auto simp: stop_runtime_def)

lemma map_of_stop:
  "map_of (map (\<lambda>(j, r). (j, if j = i then f r else r)) xs) k = map_option (if k = i then f else id) (map_of xs k)"
  by (induction xs) auto

lemma running_stop [simp]: "running (stop_runtime i p) = running p - {i}"
  by (auto simp: running_def stop_runtime_def map_of_stop split: if_splits)

lemma running_hook [simp]:
  "running (p\<lparr>pc_hook := b, pc_atexit := n\<rparr>) = running p" "running (p\<lparr>pc_hook := b\<rparr>) = running p"
  by (simp_all add: running_def)

lemma construct_running:
  assumes "construct E key url p = (Inr i, p')" "\<forall>x\<in>set (pc_runtimes p). fst x < length (pc_runtimes p)"
  shows "i = length (pc_runtimes p)" "pc_slot p' = pc_slot p" "running p' = insert i (running p)"
    "\<forall>x\<in>set (pc_runtimes p'). fst x < length (pc_runtimes p')"
    "map_of (pc_runtimes p') i = Some \<lparr>ri_key = resolved_key E key, ri_url = resolved_url E url, rn_running = True\<rparr>"
proof -
  have new: "map_of (pc_runtimes p) (length (pc_runtimes p)) = None"
    using assms(2) by (fastforce simp: map_of_eq_None_iff)
  have shape: "i = length (pc_runtimes p)"
    "p' = p\<lparr>pc_runtimes := pc_runtimes p @
            [(i, \<lparr>ri_key = resolved_key E key, ri_url = resolved_url E url, rn_running = True\<rparr>)]\<rparr>"
    using assms(1) by (auto simp: construct_def Let_def split: if_splits option.splits)
  show "i = length (pc_runtimes p)" "pc_slot p' = pc_slot p"
    using shape by simp_all
  show "running p' = insert i (running p)"
    using shape new by (auto simp: running_def map_add_def split: option.splits)
  show "\<forall>x\<in>set (pc_runtimes p'). fst x < length (pc_runtimes p')"
    using shape assms(2) by (auto intro: less_SucI)
  show "map_of (pc_runtimes p') i = Some \<lparr>ri_key = resolved_key E key, ri_url = resolved_url E url, rn_running = True\<rparr>"
    using shape new by (simp add: map_add_def)
qed

lemma construct_refused: "construct E key url p = (Inl x, p') \<Longrightarrow> p' = p"
  by (auto simp: construct_def Let_def split: if_splits option.splits)

text \<open>Stopping the runtime in the slot leaves none running; filling an empty slot with a new one is harmless.\<close>

lemma shutdown_slot_ok:
  assumes "process_ok p" "pc_slot p = Some i" "pe_stop_fails E i = None"
  shows "process_ok (snd (runtime_shutdown E i p)) \<and> pc_slot (snd (runtime_shutdown E i p)) = None"
  using assms by (auto simp: runtime_shutdown_def process_ok_def)

lemma stopped_ok: "process_ok p \<Longrightarrow> pc_slot p = Some i \<Longrightarrow> process_ok (set_instance None (stop_runtime i p))"
  by (auto simp: process_ok_def)

lemma emptied_ok: "process_ok p \<Longrightarrow> pc_slot p = None \<Longrightarrow> process_ok (set_instance None p)"
  by (auto simp: process_ok_def)

lemma registry_clear_instance: "snd (registry_clear p) = set_instance None p"
  by (simp add: set_instance_def)

lemma renew_ok:
  assumes "process_ok p" "pc_slot p = None" "construct E key url p = (Inr i, p')"
  shows "process_ok (set_instance (Some i) p')"
  using assms construct_running [OF assms(3)] by (auto simp: process_ok_def)

lemma hook_ok [simp]:
  "process_ok (p\<lparr>pc_hook := b, pc_atexit := n\<rparr>) = process_ok p" "process_ok (p\<lparr>pc_hook := b\<rparr>) = process_ok p"
  by (simp_all add: process_ok_def)

lemma get_instance_ok:
  assumes "process_ok p" "\<And>i. pe_stop_fails E i = None"
  shows "process_ok (snd (get_instance E p))"
proof -
  have renew: "process_ok (snd (case construct E (pe_key E) (env_url E) q of
        (Inl x, q1) \<Rightarrow> (Inl x, q1) | (Inr i, q1) \<Rightarrow> (Inr i, set_instance (Some i) q1)))"
    if "process_ok q" "pc_slot q = None" for q
    using that renew_ok [of q] by (auto split: prod.split sum.split dest: construct_refused)
  show ?thesis
    using assms renew stopped_ok [OF assms(1)]
    by (auto simp: get_instance_def registry_get_def runtime_shutdown_def Let_def split: option.split)
qed

lemma init_ok:
  assumes "process_ok p" "\<And>i. pe_stop_fails E i = None"
  shows "process_ok (snd (init E key url p))"
proof -
  let ?p1 = "case registry_get p of None \<Rightarrow> p | Some i \<Rightarrow> snd (runtime_shutdown E i p)"
  have "process_ok ?p1" "pc_slot ?p1 = None"
    using assms shutdown_slot_ok [OF assms(1)] by (auto simp: registry_get_def split: option.split)
  then show ?thesis
    using assms(1) renew_ok [of ?p1 E key url] construct_refused [of E key url ?p1]
    by (auto simp: init_def Let_def registry_set_def set_instance_def split: sum.split prod.split)
qed

definition no_close :: "process_op \<Rightarrow> bool" where
  "no_close op = (case op of Close i \<Rightarrow> False | _ \<Rightarrow> True)"

lemma step_ok:
  assumes "process_ok p" "\<And>i. pe_stop_fails E i = None" "no_close op"
  shows "process_ok (process_step E op p)"
proof (cases op)
  case (Init key url)
  with init_ok [OF assms(1,2)] show ?thesis by simp
next
  case GetInstance
  with get_instance_ok [OF assms(1,2)] show ?thesis by simp
next
  case GetRuntime
  with assms(1) get_instance_ok [OF assms(1,2)] show ?thesis
    by (simp add: get_runtime_def split: option.split)
next
  case ShutdownAll
  with assms shutdown_slot_ok [OF assms(1)] show ?thesis
    by (auto simp: shutdown_all_def registry_get_def runtime_shutdown_def split: option.split)
next
  case ResetInstance
  with assms shutdown_slot_ok [OF assms(1)] show ?thesis
    by (auto simp: reset_instance_def registry_get_def runtime_shutdown_def process_ok_def split: option.split)
next
  case Reset
  with assms shutdown_slot_ok [OF assms(1)] show ?thesis
    by (auto simp: reset_process_def registry_get_def registry_clear_instance intro: emptied_ok split: option.split)
next
  case (Close i)
  with assms(3) show ?thesis by (simp add: no_close_def)
qed

text \<open>
  A step in the environment of its moment: the variables, the answer of the backend and the end of a stop may
  be others at every step.  The machine is that of a process whose transports stop without an exception and
  that does not close a runtime it kept.
\<close>

definition step_in :: "process_env \<times> process_op \<Rightarrow> process \<Rightarrow> process" where
  "step_in x p = process_step (fst x) (snd x) p"

definition calm_step :: "process_env \<times> process_op \<Rightarrow> bool" where
  "calm_step x \<longleftrightarrow> no_close (snd x) \<and> (\<forall>i. pe_stop_fails (fst x) i = None)"

definition guarded_step :: "process_env \<times> process_op \<Rightarrow> process \<Rightarrow> process" where
  "guarded_step x p = (if no_close (snd x) then process_step ((fst x)\<lparr>pe_stop_fails := \<lambda>i. None\<rparr>) (snd x) p else p)"

interpretation processes: invariant_machine guarded_step process_ok
  by unfold_locales (simp add: guarded_step_def step_ok)

lemma guarded_run: "list_all calm_step xs \<Longrightarrow> fold step_in xs p = fold guarded_step xs p"
proof (induction xs arbitrary: p)
  case (Cons x xs)
  then have "(fst x)\<lparr>pe_stop_fails := \<lambda>i. None\<rparr> = fst x"
    by (cases "fst x") (auto simp: calm_step_def fun_eq_iff)
  with Cons show ?case
    by (simp add: guarded_step_def step_in_def calm_step_def)
qed simp

text \<open>
  C27: a process runs one runtime at a time, the one it would use.  Whatever the order of initialisations,
  lookups, resets and shutdowns of the module, with any keys and any refusals of the constructor, and however
  the environment changes from one operation to the next, a running runtime is the one in the slot, as long as
  stopping a transport does not raise and the program does not call \<open>shutdown()\<close> of a runtime it kept; such a
  call can leave a running runtime outside the slot (\<open>stale_shutdown_orphans_active\<close>).
\<close>

theorem only_slot_runs:
  assumes "list_all calm_step xs"
  shows "running (fold step_in xs fresh_process) \<subseteq> set_option (pc_slot (fold step_in xs fresh_process))"
proof -
  have "process_ok fresh_process"
    by (simp add: process_ok_def fresh_process_def running_def)
  from processes.run_inv [OF this, of xs] show ?thesis
    by (simp add: guarded_run [OF assms] process_ok_def)
qed

section \<open>Where the slot is lost\<close>

text \<open>
  shutting down a runtime the program kept unregisters another one.  The shutdown of a runtime that is not in the slot
  empties the slot all the same: the active runtime goes on running, unreachable, and the next protected call
  constructs a second one.
\<close>

theorem stale_shutdown_orphans_active:
  assumes "process_ok p" "pc_slot p = Some j" "j \<in> running p" "i \<noteq> j" "pe_stop_fails E i = None"
    and "resolved_key E (pe_key E) \<noteq> []" "pe_refuses E (resolved_key E (pe_key E)) (env_url E) = None"
  shows "\<exists>k q. get_runtime E (process_step E (Close i) p) = (Inr k, q) \<and> k \<noteq> j \<and> {j, k} \<subseteq> running q"
proof -
  let ?q = "set_instance None (stop_runtime i p)"
  have closed: "process_step E (Close i) p = ?q" "pc_slot ?q = None" "j \<in> running ?q"
    using assms(3-5) by (simp_all add: runtime_shutdown_def)
  have "pe_refuses E (resolved_key E (pe_key E)) (resolved_url E (env_url E)) = None"
    using assms(7) by (simp add: resolved_url_def)
  then obtain k q where new: "construct E (pe_key E) (env_url E) ?q = (Inr k, q)"
    using assms(6) by (simp add: construct_def Let_def)
  have names: "\<forall>x\<in>set (pc_runtimes ?q). fst x < length (pc_runtimes ?q)"
    using assms(1) by (simp add: process_ok_def)
  note built = construct_running [OF new names]
  have "j < length (pc_runtimes p)"
    using assms(1,3) by (auto simp: process_ok_def running_def dest!: map_of_SomeD)
  then have "k \<noteq> j"
    using built(1) by simp
  moreover have "get_runtime E ?q = (Inr k, set_instance (Some k) q)"
    using closed(2) new by (simp add: get_runtime_def get_instance_def registry_get_def)
  ultimately show ?thesis
    using closed built(3) by auto
qed

text \<open>
  a failing \<open>init\<close> takes the working runtime with it.  When the constructor refuses (a revoked key, an unreachable
  backend), the runtime that was active is stopped and the slot is empty.
\<close>

theorem failed_init_stops_runtime:
  assumes "pc_slot p = Some i" "\<And>i. pe_stop_fails E i = None" "resolved_key E key \<noteq> []"
    and "pe_refuses E (resolved_key E key) (resolved_url E url) = Some x"
  shows "fst (init E key url p) = Inl x \<and> pc_slot (snd (init E key url p)) = None
    \<and> running (snd (init E key url p)) = running p - {i}"
  using assms by (simp add: init_def registry_get_def runtime_shutdown_def construct_def Let_def)

text \<open>A key with blanks around it in the environment is never equal to the key of the runtime it makes.\<close>

lemma padded_key_restarts:
  assumes "pe_key E = Some k" "pe_strip E k \<noteq> k" "pe_strip E k \<noteq> []" "\<And>i. pe_stop_fails E i = None"
    and "\<And>a b. pe_refuses E a b = None" "process_ok p" "pc_slot p = None"
  shows "\<exists>i q. get_instance E p = (Inr i, q) \<and> fst (get_instance E q) = Inr (Suc i)"
proof -
  have names: "\<forall>x\<in>set (pc_runtimes p). fst x < length (pc_runtimes p)"
    using assms(6) by (simp add: process_ok_def)
  obtain i q where new: "construct E (pe_key E) (env_url E) p = (Inr i, q)"
    using assms(1,3,5) by (simp add: construct_def Let_def resolved_key_def)
  note built = construct_running [OF new names]
  let ?q = "set_instance (Some i) q"
  have "length (pc_runtimes q) = Suc (length (pc_runtimes p))"
    using new assms(1,3,5) by (auto simp: construct_def Let_def resolved_key_def)
  moreover have "get_instance E p = (Inr i, ?q)"
    using assms(7) new by (simp add: get_instance_def registry_get_def)
  moreover have "key_changed E \<lparr>ri_key = resolved_key E (pe_key E), ri_url = resolved_url E (env_url E), rn_running = True\<rparr>"
    using assms(1,2) by (simp add: key_changed_def resolved_key_def)
  then have "fst (get_instance E ?q) = Inr (length (pc_runtimes q))"
    using built(5) assms(1,3-5)
    by (simp add: get_instance_def registry_get_def runtime_shutdown_def construct_def Let_def resolved_key_def)
  ultimately show ?thesis
    using built(1) by auto
qed

text \<open>After \<open>shutdown\<close> a protected call makes a new runtime from the environment; a second \<open>init\<close> adds a second hook.\<close>

lemma shutdown_not_final:
  assumes "pc_slot p = Some i" "pe_stop_fails E i = None" "resolved_key E (pe_key E) \<noteq> []"
    "\<And>a b. pe_refuses E a b = None"
  shows "\<exists>k. fst (get_runtime E (snd (shutdown_all E p))) = Inr k"
  using assms by (auto simp: shutdown_all_def registry_get_def runtime_shutdown_def get_runtime_def get_instance_def
      construct_def Let_def)

lemma second_init_hooks_again:
  assumes "pc_slot p = Some i" "pc_hook p" "pe_stop_fails E i = None" "resolved_key E key \<noteq> []"
    "\<And>a b. pe_refuses E a b = None"
  shows "pc_atexit (snd (init E key url (snd (shutdown_all E p)))) = Suc (pc_atexit p)"
  using assms by (simp add: shutdown_all_def registry_get_def runtime_shutdown_def init_def construct_def Let_def
      set_instance_def registry_clear_def registry_set_def stop_runtime_def)

section \<open>A concrete process\<close>

definition calm_process :: process_env where
  "calm_process =
     \<lparr>pe_key = Some ''k'', pe_url = None, pe_strip = id, pe_refuses = (\<lambda>k u. if k = ''revoked'' then Some ''auth'' else None),
      pe_stop_fails = (\<lambda>i. None)\<rparr>"

definition two_inits :: process where
  "two_inits = fold (process_step calm_process) [Init (Some ''a'') [], Init (Some ''b'') []] fresh_process"

lemma calm_stops: "pe_stop_fails calm_process i = None"
  by (simp add: calm_process_def)

lemma fresh_ok: "process_ok fresh_process"
  by (simp add: process_ok_def fresh_process_def running_def)

lemma two_inits_ok: "process_ok two_inits"
  by (simp add: two_inits_def init_ok fresh_ok calm_stops)

lemma two_inits_fields: "pc_slot two_inits = Some 1" "map_of (pc_runtimes two_inits) (Suc 0)
    = Some \<lparr>ri_key = ''b'', ri_url = url_default, rn_running = True\<rparr>"
  by code_simp+

definition changing_steps :: "(process_env \<times> process_op) list" where
  "changing_steps =
     [(calm_process, Init (Some ''a'') []), (calm_process\<lparr>pe_key := Some ''b''\<rparr>, GetInstance), (calm_process, ShutdownAll),
      (calm_process\<lparr>pe_key := None\<rparr>, GetRuntime)]"

lemma only_slot_runs_witness:
  "running (fold step_in changing_steps fresh_process) \<subseteq> set_option (pc_slot (fold step_in changing_steps fresh_process))"
  by (rule only_slot_runs) (simp add: changing_steps_def calm_step_def no_close_def calm_process_def)

lemma stale_shutdown_orphans_active_witness:
  "\<exists>k q. get_runtime calm_process (process_step calm_process (Close 0) two_inits) = (Inr k, q) \<and> k \<noteq> 1
    \<and> {1, k} \<subseteq> running q"
  by (rule stale_shutdown_orphans_active [OF two_inits_ok two_inits_fields(1)])
    (simp_all add: running_def two_inits_fields(2) calm_process_def resolved_key_def)

lemma failed_init_stops_runtime_witness:
  "fst (init calm_process (Some ''revoked'') [] two_inits) = Inl ''auth''
    \<and> pc_slot (snd (init calm_process (Some ''revoked'') [] two_inits)) = None"
  using failed_init_stops_runtime [OF two_inits_fields(1), of calm_process "Some ''revoked''" "[]" "''auth''"]
  by (simp add: calm_process_def resolved_key_def)

end
