(* ===== verification/User_Surface.thy ===== *)
theory User_Surface
  imports Runtime_Gate
begin

text \<open>
  What a refusal looks like outside the SDK: the catalogue of messages (\<open>messages.py\<close>), the \<open>guard\<close> that ends a
  program with a report (\<open>_handle.py\<close>) and the handlers of a FastAPI application
  (\<open>integrations/fastapi.py\<close>).  An exception is an SDK error, the refusal without a category, or another
  Python exception.
\<close>

section \<open>The catalogue\<close>

text \<open>One constructor for each distinct text; \<open>Custom\<close> is a text set by the program.\<close>

datatype message =
    Ended_By_Administrator | Try_Moment | Usage_Limit | Action_Unavailable | Different_Approach | Too_Many
  | Unable | Trouble_Connecting | Service_Unavailable | Configuration_Issue | Awaiting_Approval | Not_Approved
  | Approval_Expired | Other_Action | Tools_Changed | Approval_Used | No_Longer_Available | Capacity_Changed
  | Accounting_Discrepancy | Try_Shortly | Needs_Update | Session_Interrupted | Something_Wrong | Custom string

definition default_messages :: "(string \<times> message) list" where
  "default_messages =
     [(''NR-W002'', Ended_By_Administrator), (''NR-W003'', Try_Moment), (''NR-B004'', Usage_Limit),
      (''NR-T001'', Action_Unavailable), (''NR-L001'', Different_Approach), (''NR-R001'', Too_Many),
      (''NR-X001'', Unable), (''NR-B001'', Trouble_Connecting), (''NR-B002'', Service_Unavailable),
      (''NR-B005'', Service_Unavailable), (''NR-A001'', Configuration_Issue), (''NR-A003'', Configuration_Issue),
      (''NR-A010'', Awaiting_Approval), (''NR-A011'', Not_Approved), (''NR-A012'', Approval_Expired),
      (''NR-A013'', Other_Action), (''NR-A014'', Tools_Changed), (''NR-A015'', Approval_Used),
      (''NR-W004'', No_Longer_Available), (''NR-B006'', Capacity_Changed), (''NR-O001'', Accounting_Discrepancy),
      (''NR-MCP01'', Action_Unavailable), (''NR-MCP02'', Action_Unavailable), (''NR-MCP03'', Awaiting_Approval),
      (''NR-A016'', Try_Shortly), (''NR-P001'', Needs_Update), (''NR-CH001'', Session_Interrupted),
      (''NR-R002'', Service_Unavailable), (''NR-C000'', Configuration_Issue), (''NR-C001'', Configuration_Issue),
      (''NR-C004'', Configuration_Issue), (''NR-EX01'', Configuration_Issue), (''NR-0000'', Something_Wrong)]"

type_synonym overrides = "(json \<times> string) list"

definition set_user_message :: "json \<Rightarrow> string \<Rightarrow> overrides \<Rightarrow> string + overrides" where
  "set_user_message code text ov =
     (case py_key code of
        None \<Rightarrow> Inl ''TypeError''
      | Some k \<Rightarrow> Inr (if text \<noteq> [] then dict_set k text ov else dict_pop k ov))"

definition get_user_message :: "overrides \<Rightarrow> json \<Rightarrow> string + message" where
  "get_user_message ov code =
     (case py_key code of
        None \<Rightarrow> Inl ''TypeError''
      | Some k \<Rightarrow>
          Inr (case dict_get ov k of
                 Some t \<Rightarrow> Custom t
               | None \<Rightarrow>
                   (case k of
                      JStr s \<Rightarrow> (case map_of default_messages s of Some m \<Rightarrow> m | None \<Rightarrow> Something_Wrong)
                    | _ \<Rightarrow> Something_Wrong)))"

definition exn_code :: "gate_exn \<Rightarrow> json" where
  "exn_code x =
     (case x of SdkErr e \<Rightarrow> err_code e | UnclassifiedRefusal u \<Rightarrow> JStr ''NR-P003'' | PyError c \<Rightarrow> JNull)"

definition format_user_message :: "overrides \<Rightarrow> gate_exn \<Rightarrow> string + message" where
  "format_user_message ov x = (if \<not> truthy (exn_code x) then Inr Something_Wrong else get_user_message ov (exn_code x))"

section \<open>Guard\<close>

text \<open>\<open>su_name\<close> is \<open>type(exc).__name__\<close>, \<open>su_text\<close> is \<open>str(exc)\<close>, \<open>su_action\<close> and \<open>su_docs\<close> the attributes of that name.\<close>

record surface_env =
  su_name :: "gate_exn \<Rightarrow> string"
  su_text :: "gate_exn \<Rightarrow> string"
  su_action :: "gate_exn \<Rightarrow> string"
  su_docs :: "gate_exn \<Rightarrow> string"
  su_repr :: "json \<Rightarrow> string"

definition exn_attr :: "gate_exn \<Rightarrow> string \<Rightarrow> json" where
  "exn_attr x k = (case x of SdkErr e \<Rightarrow> jget (err_attrs e) k | _ \<Rightarrow> JNull)"

definition exn_retryable :: "gate_exn \<Rightarrow> json" where
  "exn_retryable x =
     (case x of SdkErr e \<Rightarrow> err_retryable e | UnclassifiedRefusal u \<Rightarrow> JBool True | PyError c \<Rightarrow> JBool False)"

function erase_all :: "string \<Rightarrow> string \<Rightarrow> string" where
  "erase_all pat s =
     (if pat = [] then s
      else (case s of
              [] \<Rightarrow> []
            | c # cs \<Rightarrow> if take (length pat) s = pat then erase_all pat (drop (length pat) s) else c # erase_all pat cs))"
  by pat_completeness auto

termination
  by (relation "measure (\<lambda>(p, s). length s)") auto

declare erase_all.simps [simp del]

record report =
  rp_message :: message
  rp_code :: json
  rp_stage :: string
  rp_hint :: string
  rp_where :: string
  rp_why :: string
  rp_fix :: string
  rp_docs :: string

definition render_dev_error_report :: "surface_env \<Rightarrow> gate_exn \<Rightarrow> message \<Rightarrow> report" where
  "render_dev_error_report S x m =
     (let code = py_or (exn_code x) (JStr ''NR-0000'');
          endpoint = py_str (su_repr S) (py_or (exn_attr x ''endpoint'') (JStr []));
          stage = lower (if endpoint \<noteq> [] then endpoint
                         else erase_all ''Error'' (erase_all ''NullRun'' (su_name S x)));
          status = exn_attr x ''status_code''; source = exn_attr x ''source'';
          why = strip (su_text S x) in
      \<lparr>rp_message = m, rp_code = code, rp_stage = (if stage = [] then ''unknown'' else stage),
       rp_hint = (if truthy (exn_retryable x) then '' (retryable)''
                  else if exn_retryable x = JBool False \<and> code \<noteq> JStr ''NR-0000'' then '' (not retryable)'' else []),
       rp_where = (if endpoint \<noteq> [] then ''endpoint='' @ endpoint else ''endpoint=N/A (config-time failure)'')
         @ (if status = JNull then [] else '' status='' @ py_str (su_repr S) status)
         @ (if source = JNull then [] else '' source='' @ py_str (su_repr S) source),
       rp_why = (let t = (if why = [] then ''(no detail)'' else why) in
                 if length t > 400 then take 397 t @ ''...'' else t),
       rp_fix = su_action S x, rp_docs = su_docs S x\<rparr>)"

definition is_nullrun_error :: "gate_exn \<Rightarrow> bool" where
  "is_nullrun_error x =
     (case x of SdkErr e \<Rightarrow> is_subclass (err_class e) NullRunError | UnclassifiedRefusal u \<Rightarrow> True | PyError c \<Rightarrow> False)"

definition is_kill :: "gate_exn \<Rightarrow> bool" where
  "is_kill x = (case x of SdkErr e \<Rightarrow> is_subclass (err_class e) WorkflowKilledInterrupt | _ \<Rightarrow> False)"

datatype 'v guarded = Finished 'v | Propagated gate_exn | Exited int report

text \<open>The fall-back report after a failed rendering formats the same code, so it fails like the first attempt.\<close>

definition guard :: "surface_env \<Rightarrow> overrides \<Rightarrow> int \<Rightarrow> gate_exn + 'v \<Rightarrow> 'v guarded" where
  "guard S ov exit_code body =
     (case body of
        Inr v \<Rightarrow> Finished v
      | Inl x \<Rightarrow>
          (if is_nullrun_error x \<and> \<not> is_kill x then
             (case format_user_message ov x of
                Inl e \<Rightarrow> Propagated (PyError e)
              | Inr m \<Rightarrow> Exited exit_code (render_dev_error_report S x m))
           else Propagated x))"

section \<open>FastAPI\<close>

datatype category = DecisionAnswer | InfrastructureAnswer | KilledAnswer

record http_reply =
  hr_status :: int
  hr_code :: json
  hr_message :: message
  hr_category :: category
  hr_retryable :: json
  hr_retry_after :: "string option"

definition decision_status :: "(string \<times> int) list" where
  "decision_status =
     [(''NR-B004'', 429), (''NR-L001'', 429), (''NR-R001'', 429), (''NR-T001'', 403), (''NR-X001'', 403),
      (''NR-W003'', 503)]"

definition default_decision_status :: int where "default_decision_status = 429"
definition default_infrastructure_status :: int where "default_infrastructure_status = 503"
definition kill_status :: int where "kill_status = 503"

definition build_headers :: "gate_exn \<Rightarrow> string option" where
  "build_headers x =
     (let raw = (if exn_attr x ''retry_after'' \<noteq> JNull then exn_attr x ''retry_after'' else exn_attr x ''resume_after'') in
      (if raw = JNull then None
       else (case py_int raw of
               Inl e \<Rightarrow> None
             | Inr n \<Rightarrow> if n \<le> 0 then None else Some (show_int n))))"

definition status_for :: "json \<Rightarrow> string + int" where
  "status_for code =
     (case py_key code of
        None \<Rightarrow> Inl ''TypeError''
      | Some k \<Rightarrow>
          Inr (case k of
                 JStr s \<Rightarrow> (case map_of decision_status s of Some n \<Rightarrow> n | None \<Rightarrow> default_decision_status)
               | _ \<Rightarrow> default_decision_status))"

definition decision_handler :: "overrides \<Rightarrow> gate_exn \<Rightarrow> gate_exn + http_reply" where
  "decision_handler ov x =
     (case status_for (exn_code x) of
        Inl e \<Rightarrow> Inl (PyError e)
      | Inr n \<Rightarrow>
          (case format_user_message ov x of
             Inl e \<Rightarrow> Inl (PyError e)
           | Inr m \<Rightarrow>
               Inr \<lparr>hr_status = n, hr_code = exn_code x, hr_message = m, hr_category = DecisionAnswer,
                    hr_retryable = exn_retryable x, hr_retry_after = build_headers x\<rparr>))"

definition plain_reply :: "overrides \<Rightarrow> int \<Rightarrow> category \<Rightarrow> json \<Rightarrow> gate_exn \<Rightarrow> gate_exn + http_reply" where
  "plain_reply ov n cat retryable x =
     (case format_user_message ov x of
        Inl e \<Rightarrow> Inl (PyError e)
      | Inr m \<Rightarrow>
          Inr \<lparr>hr_status = n, hr_code = exn_code x, hr_message = m, hr_category = cat, hr_retryable = retryable,
               hr_retry_after = build_headers x\<rparr>)"

definition infrastructure_handler :: "overrides \<Rightarrow> gate_exn \<Rightarrow> gate_exn + http_reply" where
  "infrastructure_handler ov x = plain_reply ov default_infrastructure_status InfrastructureAnswer (exn_retryable x) x"

text \<open>
  The exception middleware of Starlette looks a handler up along the classes of the exception; it is not used
  once the response has started.
\<close>

definition exn_handler :: "gate_exn \<Rightarrow> (overrides \<Rightarrow> gate_exn \<Rightarrow> gate_exn + http_reply) option" where
  "exn_handler x =
     (case x of
        SdkErr e \<Rightarrow>
          (if is_subclass (err_class e) NullRunDecision then Some decision_handler
           else if is_subclass (err_class e) NullRunInfrastructureError then Some infrastructure_handler
           else None)
      | UnclassifiedRefusal u \<Rightarrow> Some infrastructure_handler
      | PyError c \<Rightarrow> None)"

text \<open>\<open>NullRunMiddleware\<close> around what the inner application raised; \<open>None\<close> is a response already sent.\<close>

definition kill_middleware :: "overrides \<Rightarrow> bool \<Rightarrow> bool \<Rightarrow> gate_exn + http_reply option \<Rightarrow> gate_exn + http_reply option" where
  "kill_middleware ov is_http started inner =
     (case inner of
        Inr r \<Rightarrow> Inr r
      | Inl x \<Rightarrow>
          (if is_http \<and> is_kill x \<and> \<not> started
           then map_sum id Some (plain_reply ov kill_status KilledAnswer JNull x) else Inl x))"

text \<open>
  A request whose endpoint raised \<open>x\<close>: the exception middleware of Starlette inside, which raises when a
  handler exists and the response has started, and \<open>NullRunMiddleware\<close> around it.  On a web socket the
  handlers answer the handshake and \<open>NullRunMiddleware\<close> passes everything through.
\<close>

definition answer_exception :: "overrides \<Rightarrow> bool \<Rightarrow> bool \<Rightarrow> gate_exn \<Rightarrow> gate_exn + http_reply option" where
  "answer_exception ov is_http started x =
     kill_middleware ov is_http started
       (case exn_handler x of
          None \<Rightarrow> Inl x
        | Some h \<Rightarrow> if started then Inl (PyError ''RuntimeError'') else map_sum id Some (h ov x))"

section \<open>Messages\<close>

definition overrides_ok :: "overrides \<Rightarrow> bool" where
  "overrides_ok ov \<longleftrightarrow> (\<forall>(k, t)\<in>set ov. t \<noteq> [])"

lemma dict_set_keeps: "\<forall>(k, t)\<in>set d. P t \<Longrightarrow> P v \<Longrightarrow> \<forall>(k, t)\<in>set (dict_set k' v d). P t"
  by (induction d) (auto simp: dict_set_def)

lemma dict_pop_keeps: "\<forall>(k, t)\<in>set d. P t \<Longrightarrow> \<forall>(k, t)\<in>set (dict_pop k' d). P t"
  by (induction d) (auto simp: dict_pop_def)

lemma set_user_message_ok: "overrides_ok ov \<Longrightarrow> set_user_message c t ov = Inr ov' \<Longrightarrow> overrides_ok ov'"
  using dict_set_keeps [of ov "\<lambda>t. t \<noteq> []" t] dict_pop_keeps [of ov "\<lambda>t. t \<noteq> []"]
  by (auto simp: overrides_ok_def set_user_message_def split: option.splits if_splits)

text \<open>Every message is non-empty, and an override is read back until it is cleared.\<close>

lemma default_not_custom: "map_of default_messages s \<noteq> Some (Custom t)"
proof
  assume "map_of default_messages s = Some (Custom t)"
  then have "Custom t \<in> set (map snd default_messages)"
    by (force dest: map_of_SomeD)
  then show False
    by (simp add: default_messages_def)
qed

lemma formatted_not_empty:
  assumes "overrides_ok ov"
  shows "format_user_message ov x \<noteq> Inr (Custom [])"
proof -
  have "dict_get ov k \<noteq> Some []" for k
    using assms by (auto simp: overrides_ok_def dict_get_def dest!: map_of_SomeD)
  then show ?thesis
    using default_not_custom by (auto simp: format_user_message_def get_user_message_def split: option.splits json.splits)
qed

lemma override_read_back:
  assumes "set_user_message c t ov = Inr ov'"
  shows "get_user_message ov' c = (if t \<noteq> [] then Inr (Custom t) else get_user_message (dict_pop (the (py_key c)) ov) c)"
  using assms by (auto simp: set_user_message_def get_user_message_def split: option.splits)

lemma text_code_formats: "exn_code x = JStr s \<Longrightarrow> \<exists>m. format_user_message ov x = Inr m"
  by (auto simp: format_user_message_def get_user_message_def py_key_def py_number_def)

text \<open>The classes whose own code has no entry: a denied call and a lost approval answer read as an internal error.\<close>

lemma uncatalogued_classes:
  "map_of default_messages (class_code c) = None \<longleftrightarrow>
     c \<in> {BreakerError, BreakerTransportError, InsecureTransportError, NullRunDeniedError,
          NullRunApprovalResponseMissingError, NullRunMalformedGateResponseError}"
  by (induction c; code_simp)

section \<open>Who is answered\<close>

lemma family_disjoint:
  "(is_subclass c NullRunDecision \<longrightarrow> \<not> is_subclass c NullRunInfrastructureError \<and> c \<noteq> NullRunError \<and> is_subclass c NullRunError)
   \<and> (is_subclass c NullRunInfrastructureError \<longrightarrow> c \<noteq> NullRunError \<and> is_subclass c NullRunError)
   \<and> (is_subclass c WorkflowKilledInterrupt \<longrightarrow> c \<noteq> NullRunError \<and> is_subclass c NullRunError
        \<and> \<not> is_subclass c NullRunDecision \<and> \<not> is_subclass c NullRunInfrastructureError)"
  by (induction c; code_simp)

lemma text_status: "\<exists>n. status_for (JStr s) = Inr n \<and> n \<in> {403, 429, 503}"
  by (auto simp: status_for_def py_key_def py_number_def decision_status_def default_decision_status_def)

lemma error_families:
  "is_subclass c NullRunError \<longleftrightarrow>
     c = NullRunError \<or> is_subclass c NullRunDecision \<or> is_subclass c NullRunInfrastructureError
     \<or> is_subclass c WorkflowKilledInterrupt"
  by (cases c) (simp_all add: is_subclass_def)

text \<open>What the documentation promises for an exception: the kind of the answer and its status.\<close>

definition promised_status :: "json \<Rightarrow> int" where
  "promised_status code =
     (if code = JStr ''NR-T001'' \<or> code = JStr ''NR-X001'' then 403 else if code = JStr ''NR-W003'' then 503 else 429)"

definition promised :: "gate_exn \<Rightarrow> (category \<times> int) option" where
  "promised x =
     (case x of
        SdkErr e \<Rightarrow>
          (if is_subclass (err_class e) WorkflowKilledInterrupt then Some (KilledAnswer, 503)
           else if is_subclass (err_class e) NullRunInfrastructureError then Some (InfrastructureAnswer, 503)
           else if is_subclass (err_class e) NullRunDecision then Some (DecisionAnswer, promised_status (err_code e))
           else None)
      | UnclassifiedRefusal u \<Rightarrow> Some (InfrastructureAnswer, 503)
      | PyError c \<Rightarrow> None)"

lemma status_promised: "status_for (JStr s) = Inr (promised_status (JStr s))"
  by (simp add: status_for_def py_key_def py_number_def decision_status_def default_decision_status_def
      promised_status_def)

lemma promised_formats:
  assumes "\<And>e. x = SdkErr e \<Longrightarrow> \<exists>s. err_code e = JStr s" "promised x \<noteq> None"
  shows "\<exists>m. format_user_message ov x = Inr m"
proof -
  obtain s where "exn_code x = JStr s"
    using assms by (cases x) (auto simp: exn_code_def promised_def)
  then show ?thesis by (rule text_code_formats)
qed

lemma answered_fresh:
  assumes "\<And>e. x = SdkErr e \<Longrightarrow> \<exists>s. err_code e = JStr s"
  shows "case promised x of
      Some (cat, n) \<Rightarrow> \<exists>r. answer_exception ov True False x = Inr (Some r)
        \<and> hr_category r = cat \<and> hr_status r = n \<and> hr_code r = exn_code x
    | None \<Rightarrow> answer_exception ov True False x = Inl x"
proof (cases x)
  case (SdkErr e)
  obtain s where code: "err_code e = JStr s" using assms SdkErr by blast
  note defs = answer_exception_def kill_middleware_def exn_handler_def plain_reply_def exn_code_def is_kill_def promised_def
  show ?thesis
  proof (cases "promised x")
    case None
    with SdkErr show ?thesis by (simp add: defs split: if_splits)
  next
    case (Some p)
    then obtain m where "format_user_message ov x = Inr m" using promised_formats assms by blast
    with SdkErr code Some family_disjoint [of "err_class e"] show ?thesis
      by (auto simp: defs decision_handler_def infrastructure_handler_def default_infrastructure_status_def
          kill_status_def status_promised is_nullrun_error_def split: if_splits)
  qed
next
  case (UnclassifiedRefusal u)
  obtain m where "format_user_message ov x = Inr m"
    using promised_formats [of x ov] UnclassifiedRefusal by (auto simp: promised_def)
  with UnclassifiedRefusal show ?thesis
    by (simp add: answer_exception_def kill_middleware_def exn_handler_def infrastructure_handler_def plain_reply_def
        is_kill_def default_infrastructure_status_def promised_def exn_code_def)
next
  case (PyError c)
  then show ?thesis
    by (simp add: answer_exception_def kill_middleware_def exn_handler_def is_kill_def promised_def)
qed

text \<open>
  C30: which exceptions an application answers, and how.  Before its response has started, an HTTP request whose
  endpoint raises an exception with a textual code is answered exactly for the three families: 503 for a kill
  and for an infrastructure failure (an unclassified refusal among them), and for a decision 403 for the codes
  \<open>NR-T001\<close> and \<open>NR-X001\<close>, 503 for \<open>NR-W003\<close> and 429 for every other code; the answer carries the code.  Every
  other exception is raised on as it is.  Once the response has started nothing is answered, and outside HTTP a
  kill is not.  A kill that reached a synchronous protected call is a decision by then (\<open>sync_kill_answered_429\<close>).
\<close>

theorem answered_exactly:
  assumes "\<And>e. x = SdkErr e \<Longrightarrow> \<exists>s. err_code e = JStr s"
  shows "(case promised x of
      Some (cat, n) \<Rightarrow> \<exists>r. answer_exception ov True False x = Inr (Some r)
        \<and> hr_category r = cat \<and> hr_status r = n \<and> hr_code r = exn_code x
    | None \<Rightarrow> answer_exception ov True False x = Inl x)
    \<and> (\<exists>y. answer_exception ov is_http True x = Inl y)
    \<and> (is_kill x \<longrightarrow> answer_exception ov False started x = Inl x)"
proof (intro conjI impI)
  show "case promised x of
      Some (cat, n) \<Rightarrow> \<exists>r. answer_exception ov True False x = Inr (Some r)
        \<and> hr_category r = cat \<and> hr_status r = n \<and> hr_code r = exn_code x
    | None \<Rightarrow> answer_exception ov True False x = Inl x"
    using assms by (rule answered_fresh)
  show "\<exists>y. answer_exception ov is_http True x = Inl y"
    by (auto simp: answer_exception_def kill_middleware_def split: option.split)
  assume kill: "is_kill x"
  then obtain e where "x = SdkErr e" by (cases x) (auto simp: is_kill_def)
  with kill family_disjoint [of "err_class e"] show "answer_exception ov False started x = Inl x"
    by (simp add: answer_exception_def kill_middleware_def exn_handler_def is_kill_def)
qed

text \<open>The block that a synchronous call raises in place of a kill is answered 429, against the documented 503.\<close>

lemma sync_kill_answered_429:
  assumes "err_class e = NullRunBlockedException" "err_code e = JStr ''NR-W002''"
  shows "\<exists>r. answer_exception ov True False (SdkErr e) = Inr (Some r) \<and> hr_status r = 429"
proof -
  have "promised (SdkErr e) = Some (DecisionAnswer, 429)"
    using assms by (simp add: promised_def promised_status_def is_subclass_def)
  with answered_fresh [of "SdkErr e" ov] assms(2) show ?thesis by auto
qed

text \<open>
  when \<open>guard\<close> ends the program.  A block under \<open>guard\<close> that raises an SDK error with a textual code other than a kill ends
  the process with the code given to \<open>guard\<close> and a report; a kill and every foreign exception go on unchanged.
\<close>

theorem guard_exits_exactly:
  assumes "\<And>e. x = SdkErr e \<Longrightarrow> \<exists>s. err_code e = JStr s"
  shows "if is_nullrun_error x \<and> \<not> is_kill x
    then \<exists>r. guard S ov n (Inl x :: gate_exn + 'v) = Exited n r \<and> rp_stage r \<noteq> [] \<and> rp_why r \<noteq> []
          \<and> length (rp_why r) \<le> 400
    else guard S ov n (Inl x :: gate_exn + 'v) = Propagated x"
proof (cases "is_nullrun_error x \<and> \<not> is_kill x")
  case True
  then obtain s where "exn_code x = JStr s"
    using assms by (cases x) (auto simp: is_nullrun_error_def exn_code_def)
  then obtain m where "format_user_message ov x = Inr m"
    using text_code_formats by blast
  with True have "guard S ov n (Inl x :: gate_exn + 'v) = Exited n (render_dev_error_report S x m)"
    by (simp add: guard_def)
  with True show ?thesis
    by (auto simp: render_dev_error_report_def Let_def)
next
  case False
  then show ?thesis by (auto simp: guard_def)
qed

text \<open>A refused approval and a policy denial are answered as if the client had called too often.\<close>

lemma refusals_as_rate_limit:
  "status_for (JStr (class_code NullRunApprovalDeniedError)) = Inr 429"
  "status_for (JStr (class_code NullRunDeniedError)) = Inr 429"
  by code_simp+

section \<open>A concrete refusal\<close>

definition budget_refusal :: gate_exn where
  "budget_refusal =
     SdkErr \<lparr>err_class = NullRunBudgetError, err_text = ''over'', err_code = JStr ''NR-B004'',
             err_retryable = JBool False, err_attrs = [(''retry_after'', JInt 7)]\<rparr>"

lemma budget_code: "budget_refusal = SdkErr e \<Longrightarrow> \<exists>s. err_code e = JStr s"
  by (auto simp: budget_refusal_def)

lemma answered_exactly_witness:
  "\<exists>r. answer_exception [] True False budget_refusal = Inr (Some r) \<and> hr_status r = 429 \<and> hr_category r = DecisionAnswer"
proof -
  have "promised budget_refusal = Some (DecisionAnswer, 429)"
    by (simp add: budget_refusal_def promised_def promised_status_def is_subclass_def)
  with answered_exactly [where x = budget_refusal and ov = "[]" and is_http = True and started = True] budget_code
  show ?thesis by auto
qed

definition plain_surface :: surface_env where
  "plain_surface =
     \<lparr>su_name = (\<lambda>x. ''NullRunBudgetError''), su_text = (\<lambda>x. ''over''), su_action = (\<lambda>x. []), su_docs = (\<lambda>x. []),
      su_repr = (\<lambda>j. [])\<rparr>"

lemma budget_report: "rp_stage (render_dev_error_report plain_surface budget_refusal Usage_Limit) = ''budget''"
  by code_simp

lemma guard_exits_exactly_witness:
  "\<exists>r. guard plain_surface [] 2 (Inl budget_refusal :: gate_exn + unit) = Exited 2 r \<and> rp_stage r \<noteq> []"
proof -
  have "is_nullrun_error budget_refusal \<and> \<not> is_kill budget_refusal"
    by (simp add: budget_refusal_def is_nullrun_error_def is_kill_def is_subclass_def)
  with guard_exits_exactly [where x = budget_refusal and S = plain_surface and ov = "[]" and n = 2] budget_code
  show ?thesis by auto
qed

end
