(* ===== verification/Frameworks.thy ===== *)
theory Frameworks
  imports Registry Usage_Extract Track_Laws
begin

text \<open>
  The installation of the instrumentation and its adapters for frameworks (\<open>auto_instrument\<close> and the patches of
  \<open>instrumentation/auto.py\<close>, \<open>_safe_patch.py\<close>, \<open>crewai.py\<close>, \<open>autogen.py\<close>, \<open>llama_index.py\<close>): which runtime a
  patch reports to, how the callback is put into the configuration of a call, and the events the adapters
  build.  The frameworks are outside; what they hand to an adapter is an argument.
\<close>

section \<open>Installing\<close>

datatype framework =
    Httpx | LangchainCallback | ChatModelInvoke | OpenaiAgents | LanggraphCompiled | RequestsLib | LlamaIndex | Crewai
  | Autogen

text \<open>What a patch function does: \<open>True\<close>, \<open>False\<close>, nothing, an \<open>ImportError\<close>, another exception.\<close>

datatype patch_outcome = PatchTrue | PatchFalse | PatchNone | PatchImportError | PatchRaises

definition safe_patch :: "patch_outcome \<Rightarrow> bool" where
  "safe_patch r = (case r of PatchTrue \<Rightarrow> True | PatchNone \<Rightarrow> True | _ \<Rightarrow> False)"

text \<open>\<open>au_bound\<close> names the runtime the closures of an installed patch hold.\<close>

record instrumentation =
  au_installed :: bool
  au_bound :: "(framework \<times> nat) list"

definition all_frameworks :: "framework list" where
  "all_frameworks =
     [Httpx, LangchainCallback, ChatModelInvoke, OpenaiAgents, LanggraphCompiled, RequestsLib, LlamaIndex, Crewai, Autogen]"

text \<open>A patch that is in place is left as it is.\<close>

definition patch_framework ::
  "(framework \<Rightarrow> patch_outcome) \<Rightarrow> nat \<Rightarrow> framework \<Rightarrow> instrumentation \<Rightarrow> bool \<times> instrumentation" where
  "patch_framework F rt f st =
     (if map_of (au_bound st) f \<noteq> None then (True, st)
      else (safe_patch (F f),
            case F f of PatchTrue \<Rightarrow> st\<lparr>au_bound := au_bound st @ [(f, rt)]\<rparr> | _ \<Rightarrow> st))"

fun patch_all ::
  "(framework \<Rightarrow> patch_outcome) \<Rightarrow> nat \<Rightarrow> framework list \<Rightarrow> instrumentation \<Rightarrow> nat \<times> instrumentation" where
  "patch_all F rt [] st = (0, st)"
| "patch_all F rt (f # fs) st =
     (case patch_framework F rt f st of
        (ok, st1) \<Rightarrow> (case patch_all F rt fs st1 of (n, st2) \<Rightarrow> ((if ok then Suc n else n), st2)))"

definition auto_instrument ::
  "(framework \<Rightarrow> patch_outcome) \<Rightarrow> nat \<Rightarrow> instrumentation \<Rightarrow> bool \<times> instrumentation" where
  "auto_instrument F rt st =
     (if au_installed st then (True, st)
      else (case patch_all F rt all_frameworks st of (n, st1) \<Rightarrow> (n > 0, st1\<lparr>au_installed := True\<rparr>)))"

text \<open>The reset between tests restores the patches of \<open>auto.py\<close>; the adapters in files of their own keep theirs.\<close>

definition restored_frameworks :: "framework list" where
  "restored_frameworks = [Httpx, LangchainCallback, ChatModelInvoke, OpenaiAgents, LanggraphCompiled]"

definition reset_instrumentation :: "instrumentation \<Rightarrow> instrumentation" where
  "reset_instrumentation st =
     \<lparr>au_installed = False, au_bound = filter (\<lambda>b. fst b \<notin> set restored_frameworks) (au_bound st)\<rparr>"

text \<open>
  The sweep over the HTTP clients that exist when the patch is installed: a client holds the runtime its
  transport is wrapped for, and a wrapped one is passed over.
\<close>

definition wrap_client :: "nat \<Rightarrow> nat option \<Rightarrow> nat option" where
  "wrap_client rt c = (case c of None \<Rightarrow> Some rt | Some i \<Rightarrow> Some i)"

definition wrap_existing_clients :: "nat \<Rightarrow> nat option list \<Rightarrow> nat \<times> nat option list" where
  "wrap_existing_clients rt cs = (length (filter (\<lambda>c. c = None) cs), map (wrap_client rt) cs)"

text \<open>The first protected call installs as well, once, with the runtime it runs under.\<close>

definition ensure_auto_instrumented ::
  "(framework \<Rightarrow> patch_outcome) \<Rightarrow> nat \<Rightarrow> bool \<Rightarrow> instrumentation \<Rightarrow> bool \<times> instrumentation" where
  "ensure_auto_instrumented F rt triggered st =
     (if triggered then (True, st) else (True, snd (auto_instrument F rt st)))"

record client =
  cl_process :: process
  cl_patches :: instrumentation

definition fresh_client :: client where
  "fresh_client = \<lparr>cl_process = fresh_process, cl_patches = \<lparr>au_installed = False, au_bound = []\<rparr>\<rparr>"

text \<open>The end of \<open>init\<close>: the instrumentation is handed the new runtime.\<close>

definition init_client ::
  "process_env \<Rightarrow> (framework \<Rightarrow> patch_outcome) \<Rightarrow> string option \<Rightarrow> string \<Rightarrow> client \<Rightarrow> (string + nat) \<times> client" where
  "init_client E F key url c =
     (case init E key url (cl_process c) of
        (Inl x, p) \<Rightarrow> (Inl x, c\<lparr>cl_process := p\<rparr>)
      | (Inr i, p) \<Rightarrow>
          (Inr i, c\<lparr>cl_process := p, cl_patches := snd (auto_instrument F i (cl_patches c))\<rparr>))"

section \<open>The callback in the configuration of a call\<close>

text \<open>\<open>Opaque\<close> is a value that cannot be iterated, such as a manager of callbacks, with its truth.\<close>

datatype cb_handler = NullRunHandler | OtherHandler string
datatype callbacks = NoCallbacks | Handlers "cb_handler list" | Opaque bool
datatype call_config = NoConfig | Config "callbacks option" | OtherConfig

definition ensure_cb :: "callbacks \<Rightarrow> string + callbacks" where
  "ensure_cb cb =
     (case cb of
        NoCallbacks \<Rightarrow> Inr (Handlers [NullRunHandler])
      | Handlers hs \<Rightarrow> Inr (Handlers (if NullRunHandler \<in> set hs then hs else hs @ [NullRunHandler]))
      | Opaque b \<Rightarrow> if b then Inl ''TypeError'' else Inr (Handlers []))"

definition inject_handler_into_config :: "call_config \<Rightarrow> string + call_config" where
  "inject_handler_into_config c =
     (case c of
        NoConfig \<Rightarrow> map_sum id (\<lambda>cb. Config (Some cb)) (ensure_cb NoCallbacks)
      | OtherConfig \<Rightarrow> Inr OtherConfig
      | Config None \<Rightarrow> map_sum id (\<lambda>cb. Config (Some cb)) (ensure_cb NoCallbacks)
      | Config (Some cb) \<Rightarrow> map_sum id (\<lambda>cb. Config (Some cb)) (ensure_cb cb))"

text \<open>The same for a compiled graph, which leaves what it cannot iterate alone.\<close>

definition ensure_callback :: "call_config \<Rightarrow> call_config" where
  "ensure_callback c =
     (case c of
        OtherConfig \<Rightarrow> OtherConfig
      | NoConfig \<Rightarrow> Config (Some (Handlers [NullRunHandler]))
      | Config cb \<Rightarrow>
          (case (case cb of None \<Rightarrow> NoCallbacks | Some x \<Rightarrow> x) of
             NoCallbacks \<Rightarrow> Config (Some (Handlers [NullRunHandler]))
           | Handlers hs \<Rightarrow>
               if NullRunHandler \<in> set hs then c else Config (Some (Handlers (hs @ [NullRunHandler])))
           | Opaque b \<Rightarrow> c))"

text \<open>The constructor of a manager of callbacks adds the handler to its own list.\<close>

definition manager_handlers :: "cb_handler list \<Rightarrow> cb_handler list" where
  "manager_handlers hs = (if NullRunHandler \<in> set hs then hs else hs @ [NullRunHandler])"

section \<open>Counts and events\<close>

definition framework_counts :: "json \<Rightarrow> json \<Rightarrow> json \<Rightarrow> string + int \<times> int \<times> int" where
  "framework_counts prompt completion reported =
     and_then (int_or_zero prompt) (\<lambda>p.
     and_then (int_or_zero completion) (\<lambda>c.
     and_then (int_or_zero reported) (\<lambda>t. Inr (p, c, if t = 0 then p + c else t))))"

definition framework_event :: "string \<Rightarrow> dict \<Rightarrow> int \<times> int \<times> int \<Rightarrow> dict \<Rightarrow> dict" where
  "framework_event provider model counts raw =
     (case counts of
        (p, c, t) \<Rightarrow>
          [(''type'', JStr ''llm_call''), (''provider'', JStr provider)] @ model
          @ [(''tokens'', JInt t), (''input_tokens'', JInt p), (''output_tokens'', JInt c), (''has_usage'', JBool True)]
          @ raw)"

definition no_counts :: "int \<times> int \<times> int \<Rightarrow> bool" where
  "no_counts n \<longleftrightarrow> n = (0, 0, 0)"

section \<open>CrewAI\<close>

text \<open>The counts are read outside the handler of exceptions, the report inside it.\<close>

fun emit_usage_metrics :: "'w track_env \<Rightarrow> dict \<Rightarrow> track_state \<Rightarrow> 'w \<Rightarrow> string option \<times> track_state \<times> 'w" where
  "emit_usage_metrics E [] s w = (None, s, w)"
| "emit_usage_metrics E ((model, m) # ms) s w =
     (case m of
        JObj d \<Rightarrow>
          (case framework_counts (jget d ''prompt_tokens'') (jget d ''completion_tokens'') (jget d ''total_tokens'') of
             Inl x \<Rightarrow> (Some x, s, w)
           | Inr n \<Rightarrow>
               (if no_counts n then emit_usage_metrics E ms s w
                else (case runtime_track E
                             (framework_event ''crewai'' [(''model'', JStr model)] n [(''raw_usage'', JObj d)]) None s w of
                        (r, s1, w1) \<Rightarrow> emit_usage_metrics E ms s1 w1)))
      | _ \<Rightarrow> emit_usage_metrics E ms s w)"

definition wrap_kickoff ::
  "'w track_env \<Rightarrow> ('w \<Rightarrow> (string + 'v) \<times> 'w) \<Rightarrow> json \<Rightarrow> track_state \<Rightarrow> 'w \<Rightarrow> (string + 'v) \<times> track_state \<times> 'w" where
  "wrap_kickoff E kickoff metrics s w =
     (case kickoff w of
        (Inl x, w1) \<Rightarrow> (Inl x, s, w1)
      | (Inr v, w1) \<Rightarrow>
          (case emit_usage_metrics E (case metrics of JObj d \<Rightarrow> d | _ \<Rightarrow> []) s w1 of
             (Some x, s1, w2) \<Rightarrow> (Inl x, s1, w2)
           | (None, s1, w2) \<Rightarrow> (Inr v, s1, w2)))"

definition span_pair :: "string \<Rightarrow> string \<Rightarrow> dict" where
  "span_pair fn kind = [(''fn_name'', JStr fn), (''span_kind'', JStr kind)]"

text \<open>The class of an event of the bus and what is reported for it; \<open>error\<close> is the text of a failed kickoff.\<close>

definition crewai_event :: "string \<Rightarrow> json \<Rightarrow> (string \<times> dict) option" where
  "crewai_event cls error =
     map_of
       [(''CrewKickoffStartedEvent'', (''span_start'', span_pair ''crewai_kickoff'' ''crew'')),
        (''CrewKickoffCompletedEvent'', (''span_end'', span_pair ''crewai_kickoff'' ''crew'')),
        (''CrewKickoffFailedEvent'', (''span_end'', span_pair ''crewai_kickoff'' ''crew'' @ [(''error'', error)])),
        (''AgentExecutionStartedEvent'', (''span_start'', span_pair ''crewai_agent'' ''agent'')),
        (''AgentExecutionCompletedEvent'',
         (''span_end'', span_pair ''crewai_agent'' ''agent'' @ [(''error'', JBool False)])),
        (''AgentExecutionFailedEvent'',
         (''span_end'', span_pair ''crewai_agent'' ''agent'' @ [(''error'', JBool True)])),
        (''TaskStartedEvent'', (''span_start'', span_pair ''crewai_task'' ''task'')),
        (''TaskCompletedEvent'', (''span_end'', span_pair ''crewai_task'' ''task'' @ [(''error'', JBool False)])),
        (''TaskFailedEvent'', (''span_end'', span_pair ''crewai_task'' ''task'' @ [(''error'', JBool True)])),
        (''LLMCallStartedEvent'', (''span_start'', span_pair ''crewai_llm'' ''llm'')),
        (''LLMCallCompletedEvent'', (''span_end'', span_pair ''crewai_llm'' ''llm'')),
        (''ToolUsageStartedEvent'', (''span_start'', span_pair ''crewai_tool'' ''tool'')),
        (''ToolUsageFinishedEvent'', (''span_end'', span_pair ''crewai_tool'' ''tool''))] cls"

definition on_crewai_event :: "'w track_env \<Rightarrow> string \<Rightarrow> json \<Rightarrow> track_state \<Rightarrow> 'w \<Rightarrow> track_state \<times> 'w" where
  "on_crewai_event E cls error s w =
     (case crewai_event cls error of
        None \<Rightarrow> (s, w)
      | Some (kind, kw) \<Rightarrow> snd (track_event E kind kw s w))"

section \<open>AutoGen and LlamaIndex\<close>

text \<open>\<open>inner\<close> raises with the text of the exception and whether it is an \<open>Exception\<close>.\<close>

definition wrap_on_messages ::
  "'w track_env \<Rightarrow> string \<Rightarrow> ('w \<Rightarrow> (bool \<times> string + 'v) \<times> 'w) \<Rightarrow> track_state \<Rightarrow> 'w
     \<Rightarrow> (bool \<times> string + 'v) \<times> track_state \<times> 'w" where
  "wrap_on_messages E name inner s w =
     (case snd (track_event E ''span_start''
                  (span_pair (if name = [] then ''agent'' else name) ''agent'') s w) of
        (s1, w1) \<Rightarrow>
          (case inner w1 of
             (Inl (True, msg), w2) \<Rightarrow>
               (Inl (True, msg), snd (track_event E ''span_end'' [(''error'', JStr msg)] s1 w2))
           | (Inl (False, msg), w2) \<Rightarrow> (Inl (False, msg), s1, w2)
           | (Inr v, w2) \<Rightarrow> (Inr v, snd (track_event E ''span_end'' [] s1 w2))))"

text \<open>\<open>usage\<close> is \<open>None\<close> without an attribute \<open>usage\<close>; the counts are read outside the handler of exceptions.\<close>

definition wrap_create ::
  "'w track_env \<Rightarrow> ('w \<Rightarrow> (string + dict option \<times> json \<times> 'v) \<times> 'w) \<Rightarrow> json \<Rightarrow> track_state \<Rightarrow> 'w
     \<Rightarrow> (string + 'v) \<times> track_state \<times> 'w" where
  "wrap_create E create client_model s w =
     (case create w of
        (Inl x, w1) \<Rightarrow> (Inl x, s, w1)
      | (Inr (None, m, v), w1) \<Rightarrow> (Inr v, s, w1)
      | (Inr (Some u, m, v), w1) \<Rightarrow>
          (case framework_counts (jget u ''prompt_tokens'') (jget u ''completion_tokens'') (jget u ''total_tokens'') of
             Inl x \<Rightarrow> (Inl x, s, w1)
           | Inr n \<Rightarrow>
               (if no_counts n then (Inr v, s, w1)
                else
                  (let model = py_or client_model m;
                       raw = [(''raw_usage'', JObj [(''prompt_tokens'', JInt (fst n)),
                                                    (''completion_tokens'', JInt (fst (snd n)))])] in
                   (Inr v, snd (runtime_track E
                                  (framework_event ''autogen'' [] n
                                     (raw @ (if truthy model then [(''model'', model)] else []))) None s w1))))))"

text \<open>In LlamaIndex everything is inside the handler.\<close>

definition on_chat_end :: "'w track_env \<Rightarrow> dict \<Rightarrow> json \<Rightarrow> json \<Rightarrow> track_state \<Rightarrow> 'w \<Rightarrow> track_state \<times> 'w" where
  "on_chat_end E usage response_model raw_model s w =
     (case framework_counts (jget usage ''prompt_tokens'') (jget usage ''completion_tokens'')
             (jget usage ''total_tokens'') of
        Inl x \<Rightarrow> (s, w)
      | Inr n \<Rightarrow>
          (if no_counts n then (s, w)
           else
             (let model = py_or response_model (py_or raw_model (jget usage ''model'')) in
              snd (runtime_track E
                     (framework_event ''llama_index'' [] n (if truthy model then [(''model'', model)] else []))
                     None s w))))"

definition on_function_call :: "'w track_env \<Rightarrow> json \<Rightarrow> track_state \<Rightarrow> 'w \<Rightarrow> track_state \<times> 'w" where
  "on_function_call E tool_name s w =
     snd (runtime_track E
            [(''type'', JStr ''tool_call''), (''tool_name'', py_or tool_name (JStr ''tool''))] None s w)"

section \<open>OpenAI Agents\<close>

definition agents_choice :: "json \<Rightarrow> string + json list" where
  "agents_choice choice = (if is_dict choice then choice_tools choice else Inr [])"

definition agents_finish :: "json \<Rightarrow> string + json" where
  "agents_finish choices =
     (if \<not> truthy choices then Inr JNull
      else (case choices of
              JList (c # cs) \<Rightarrow> and_then (dict_of c) (\<lambda>d. Inr (jget d ''finish_reason''))
            | _ \<Rightarrow> Inl ''AttributeError''))"

definition span_model :: "dict \<Rightarrow> dict \<Rightarrow> json" where
  "span_model sp u =
     py_or (jget sp ''model'')
       (py_or (jget u ''model'') (case jget sp ''response_metadata'' of JObj d \<Rightarrow> jget d ''model_name'' | _ \<Rightarrow> JNull))"

text \<open>\<open>addr\<close> is the text of the address of a span without an id.  An exception in here is swallowed.\<close>

definition agents_event :: "(json \<Rightarrow> string) \<Rightarrow> string \<Rightarrow> dict \<Rightarrow> dict \<Rightarrow> int \<times> int \<times> int \<Rightarrow> string + dict" where
  "agents_event rep addr sp u n =
     and_then (each_of agents_choice (jget u ''choices'')) (\<lambda>tools.
     and_then (sub_get (jget u ''prompt_tokens_details'') ''cached_tokens'') (\<lambda>cached.
     and_then (int_or_zero cached) (\<lambda>cache_read.
     and_then (sub_get (jget u ''completion_tokens_details'') ''reasoning_tokens'') (\<lambda>rsn.
     and_then (int_or_zero rsn) (\<lambda>reasoning.
     and_then (agents_finish (jget u ''choices'')) (\<lambda>raw.
     and_then (normalize_finish_reason raw) (\<lambda>finish.
       Inr ([(''type'', JStr ''llm_call''), (''provider'', JStr ''openai_agents''), (''tokens'', JInt (snd (snd n))),
             (''input_tokens'', JInt (fst n)), (''output_tokens'', JInt (fst (snd n))),
             (''cache_read_tokens'', JInt cache_read), (''cache_write_tokens'', JInt 0),
             (''reasoning_tokens'', JInt reasoning), (''finish_reason'', finish), (''tool_names'', JList tools),
             (''has_usage'', JBool True), (''raw_usage'', JObj u),
             (''_fingerprint'',
              JStr (''agents-'' @ (case dict_get sp ''id'' of Some j \<Rightarrow> py_str rep j | None \<Rightarrow> addr)))]
            @ (if truthy (span_model sp u) then [(''model'', span_model sp u)] else [])))))))))"

fun emit_from_agents_result ::
  "'w track_env \<Rightarrow> string \<Rightarrow> json list \<Rightarrow> track_state \<Rightarrow> 'w \<Rightarrow> string option \<times> track_state \<times> 'w" where
  "emit_from_agents_result E addr [] s w = (None, s, w)"
| "emit_from_agents_result E addr (sp # sps) s w =
     (case (case sp of
              JObj d \<Rightarrow> if jget d ''type'' = JStr ''llm_call'' then (case jget d ''usage'' of JObj u \<Rightarrow> Some (d, u) | _ \<Rightarrow> None)
                        else None
            | _ \<Rightarrow> None) of
        None \<Rightarrow> emit_from_agents_result E addr sps s w
      | Some (d, u) \<Rightarrow>
          (case framework_counts (py_or (jget u ''input_tokens'') (jget u ''prompt_tokens''))
                  (py_or (jget u ''output_tokens'') (jget u ''completion_tokens'')) (jget u ''total_tokens'') of
             Inl x \<Rightarrow> (Some x, s, w)
           | Inr n \<Rightarrow>
               (if no_counts n then emit_from_agents_result E addr sps s w
                else
                  (case agents_event (te_repr E) addr d u n of
                     Inl x \<Rightarrow> emit_from_agents_result E addr sps s w
                   | Inr ev \<Rightarrow>
                       (case runtime_track E ev None s w of
                          (r, s1, w1) \<Rightarrow> emit_from_agents_result E addr sps s1 w1)))))"

section \<open>Which runtime the patches report to\<close>

lemma bound_once: "au_installed st \<Longrightarrow> auto_instrument F rt st = (True, st)"
  by (simp add: auto_instrument_def)

lemma patch_keeps:
  "map_of (au_bound st) f = Some i \<Longrightarrow> map_of (au_bound (snd (patch_framework F rt g st))) f = Some i"
  by (auto simp: patch_framework_def map_add_def split: patch_outcome.split)

lemma patch_all_keeps: "map_of (au_bound st) f = Some i \<Longrightarrow> map_of (au_bound (snd (patch_all F rt fs st))) f = Some i"
proof (induction fs arbitrary: st)
  case (Cons g fs)
  obtain ok st1 where st1: "patch_framework F rt g st = (ok, st1)" by fastforce
  then have "map_of (au_bound st1) f = Some i"
    using patch_keeps [OF Cons.prems, of F rt g] by simp
  from Cons.IH [OF this] st1 show ?case by (cases "patch_all F rt fs st1") auto
qed simp

lemma patch_all_binds:
  "f \<in> set fs \<Longrightarrow> F f = PatchTrue \<Longrightarrow> map_of (au_bound st) f = None
     \<Longrightarrow> map_of (au_bound (snd (patch_all F rt fs st))) f = Some rt"
proof (induction fs arbitrary: st)
  case (Cons g fs)
  obtain ok st1 where st1: "patch_framework F rt g st = (ok, st1)" by fastforce
  have "map_of (au_bound (snd (patch_all F rt fs st1))) f = Some rt"
  proof (cases "g = f")
    case True
    then have "map_of (au_bound st1) f = Some rt"
      using st1 Cons.prems by (auto simp: patch_framework_def map_add_def)
    then show ?thesis by (rule patch_all_keeps)
  next
    case False
    then have "map_of (au_bound st1) f = None"
      using st1 Cons.prems by (auto simp: patch_framework_def map_add_def split: patch_outcome.splits if_splits)
    with False Cons show ?thesis by simp
  qed
  then show ?case
    using st1 by (auto split: prod.split)
qed simp

lemma init_runs_one:
  assumes "init E key url p = (Inr j, p')" "process_ok p" "\<And>k. pe_stop_fails E k = None"
  shows "j = length (pc_runtimes p) \<and> length (pc_runtimes p') = Suc j \<and> pc_slot p' = Some j \<and> running p' = {j}"
proof -
  let ?p1 = "case registry_get p of None \<Rightarrow> p | Some i \<Rightarrow> snd (runtime_shutdown E i p)"
  have closed: "process_ok ?p1" "pc_slot ?p1 = None" "length (pc_runtimes ?p1) = length (pc_runtimes p)"
    using assms(2,3) shutdown_slot_ok [OF assms(2)] by (auto simp: registry_get_def runtime_shutdown_def split: option.split)
  then have none: "running ?p1 = {}" and names: "\<forall>x\<in>set (pc_runtimes ?p1). fst x < length (pc_runtimes ?p1)"
    by (simp_all add: process_ok_def)
  obtain q where new: "construct E key url ?p1 = (Inr j, q)"
    and p': "p' = (let r = set_instance (Some j) (snd (registry_set j q)) in
                 if pc_hook r then r else r\<lparr>pc_hook := True, pc_atexit := Suc (pc_atexit r)\<rparr>)"
    using assms(1) by (auto simp: init_def Let_def split: if_splits prod.splits sum.splits)
  note built = construct_running [OF new names]
  have "length (pc_runtimes q) = Suc j"
    using new built(1) by (auto simp: construct_def Let_def split: if_splits option.splits)
  then show ?thesis
    using built(1,3) none closed(3) by (auto simp: p' Let_def registry_set_def set_instance_def running_def)
qed

text \<open>
  C28: a second \<open>init\<close> leaves the instrumentation on the stopped runtime.  After two successful initialisations the
  slot holds the second runtime and only that one runs, but every framework the first one patched still asks
  and reports to the first, which has been shut down.
\<close>

theorem reinit_reports_to_stopped_runtime:
  assumes "init_client E F key url fresh_client = (Inr i, c1)" "init_client E F key' url' c1 = (Inr j, c2)"
    and "\<And>k. pe_stop_fails E k = None" "F f = PatchTrue"
  shows "map_of (au_bound (cl_patches c2)) f = Some i \<and> i \<noteq> j
    \<and> pc_slot (cl_process c2) = Some j \<and> running (cl_process c2) = {j}"
proof -
  obtain p1 where p1: "init E key url fresh_process = (Inr i, p1)"
    and c1: "c1 = \<lparr>cl_process = p1, cl_patches = snd (auto_instrument F i \<lparr>au_installed = False, au_bound = []\<rparr>)\<rparr>"
    using assms(1) by (auto simp: init_client_def fresh_client_def split: prod.splits sum.splits)
  obtain p2 where p2: "init E key' url' p1 = (Inr j, p2)"
    and c2: "c2 = c1\<lparr>cl_process := p2, cl_patches := snd (auto_instrument F j (cl_patches c1))\<rparr>"
    using assms(2) c1 by (auto simp: init_client_def split: prod.splits sum.splits)
  have "process_ok p1"
    using init_ok [OF fresh_ok, of E key url] assms(3) p1 by simp
  note first = init_runs_one [OF p1 fresh_ok assms(3)] and second = init_runs_one [OF p2 this assms(3)]
  have "f \<in> set all_frameworks"
    by (cases f) (simp_all add: all_frameworks_def)
  then have "map_of (au_bound (cl_patches c1)) f = Some i" "au_installed (cl_patches c1)"
    using patch_all_binds [of f all_frameworks F "\<lparr>au_installed = False, au_bound = []\<rparr>" i] assms(4)
    by (auto simp: c1 auto_instrument_def split: prod.split)
  then show ?thesis
    using first second by (simp add: c2 bound_once)
qed

text \<open>A reset gives the patches of \<open>auto.py\<close> to the next runtime; the others stay with the first.\<close>

lemma reset_rebinds:
  assumes "f \<in> set restored_frameworks" "F f = PatchTrue"
  shows "map_of (au_bound (snd (auto_instrument F rt (reset_instrumentation st)))) f = Some rt"
proof -
  have "map_of (au_bound (reset_instrumentation st)) f = None"
    using assms(1) by (auto simp: reset_instrumentation_def map_of_eq_None_iff)
  moreover have "f \<in> set all_frameworks"
    by (cases f) (simp_all add: all_frameworks_def)
  ultimately show ?thesis
    using patch_all_binds [of f all_frameworks F "reset_instrumentation st" rt] assms(2)
    by (auto simp: auto_instrument_def reset_instrumentation_def split: prod.split)
qed

lemma reset_keeps_adapters:
  assumes "f \<notin> set restored_frameworks" "map_of (au_bound st) f = Some i"
  shows "map_of (au_bound (snd (auto_instrument F rt (reset_instrumentation st)))) f = Some i"
proof -
  have "map_of (filter (\<lambda>b. fst b \<notin> set restored_frameworks) bs) f = map_of bs f" for bs :: "(framework \<times> nat) list"
    using assms(1) by (induction bs) auto
  then have "map_of (au_bound (reset_instrumentation st)) f = Some i"
    using assms(2) by (simp add: reset_instrumentation_def)
  from patch_all_keeps [OF this, of F rt all_frameworks] show ?thesis
    by (auto simp: auto_instrument_def reset_instrumentation_def split: prod.split)
qed

text \<open>A client wrapped for the first runtime stays with it.\<close>

lemma wrapped_client_stays:
  "snd (wrap_existing_clients j (snd (wrap_existing_clients i cs))) = snd (wrap_existing_clients i cs)"
  "fst (wrap_existing_clients j (snd (wrap_existing_clients i cs))) = 0"
  by (auto simp: wrap_existing_clients_def wrap_client_def filter_empty_conv split: option.splits)

section \<open>The callback is put in once\<close>

definition handlers_of :: "call_config \<Rightarrow> cb_handler list" where
  "handlers_of c = (case c of Config (Some (Handlers hs)) \<Rightarrow> hs | _ \<Rightarrow> [])"

text \<open>Injecting the callback adds it once, keeps the handlers of the program, and is idempotent.\<close>

lemma injected_once:
  assumes "inject_handler_into_config c = Inr c'" "c \<noteq> OtherConfig" "c \<noteq> Config (Some (Opaque False))"
  shows "NullRunHandler \<in> set (handlers_of c')"
    and "filter (\<lambda>h. h \<noteq> NullRunHandler) (handlers_of c') = filter (\<lambda>h. h \<noteq> NullRunHandler) (handlers_of c)"
    and "inject_handler_into_config c' = Inr c'"
  using assms by (auto simp: inject_handler_into_config_def ensure_cb_def handlers_of_def
      split: call_config.splits option.splits callbacks.splits if_splits)

text \<open>The three ways in agree: after any of them the others add nothing.\<close>

lemma handler_added_once:
  "count_list (manager_handlers hs) NullRunHandler = max 1 (count_list hs NullRunHandler)"
  "ensure_cb (Handlers (manager_handlers hs)) = Inr (Handlers (manager_handlers hs))"
  "ensure_callback (Config (Some (Handlers (manager_handlers hs)))) = Config (Some (Handlers (manager_handlers hs)))"
  "ensure_cb (Handlers hs) = Inr (Handlers (manager_handlers hs))"
proof -
  have "NullRunHandler \<in> set hs \<longleftrightarrow> 1 \<le> count_list hs NullRunHandler"
    by (induction hs) auto
  moreover have "count_list (hs @ [NullRunHandler]) NullRunHandler = Suc (count_list hs NullRunHandler)"
    by (induction hs) auto
  ultimately show "count_list (manager_handlers hs) NullRunHandler = max 1 (count_list hs NullRunHandler)"
    by (auto simp: manager_handlers_def)
qed (simp_all add: manager_handlers_def ensure_cb_def ensure_callback_def)

text \<open>A manager of callbacks makes the call of the model raise; the graph adapter leaves it alone.\<close>

lemma manager_raises:
  "inject_handler_into_config (Config (Some (Opaque True))) = Inl ''TypeError''"
  "ensure_callback (Config (Some (Opaque True))) = Config (Some (Opaque True))"
  by (simp_all add: inject_handler_into_config_def ensure_cb_def ensure_callback_def)

section \<open>Adapters\<close>

text \<open>A malformed count loses the result of a finished CrewAI run, an AutoGen completion and an Agents run.\<close>

lemma malformed_count_loses_kickoff:
  assumes "kickoff w = (Inr v, w1)" "int_or_zero (jget d ''prompt_tokens'') = Inl x"
  shows "wrap_kickoff E kickoff (JObj [(m, JObj d)]) s w = (Inl x, s, w1)"
  using assms by (simp add: wrap_kickoff_def framework_counts_def and_then_def)

lemma malformed_count_loses_completion:
  assumes "create w = (Inr (Some u, m, v), w1)" "int_or_zero (jget u ''prompt_tokens'') = Inl x"
  shows "wrap_create E create cm s w = (Inl x, s, w1)"
  using assms by (simp add: wrap_create_def framework_counts_def and_then_def)

text \<open>
  A custom event with the content of an earlier one is dropped, whatever became of that: of the spans the
  CrewAI bridge opens and closes, only the first of every kind is ever reported.
\<close>

definition event_base :: "string \<Rightarrow> dict \<Rightarrow> dict" where
  "event_base label kw = set_missing ''tokens'' (JInt 0) (fold (\<lambda>(k, v). dict_set k v) kw [(''type'', JStr label)])"

lemma same_event_dropped:
  assumes "track_event E label kw s w = (r, s', w')" "tr_seen s2 = tr_seen s'"
    and "dict_get (event_base label kw) ''_fingerprint'' = None" "te_fingerprint E (event_base label kw) \<noteq> []"
  shows "tr_calls (fst (snd (track_event E label kw s2 w2))) = tr_calls s2"
proof -
  define fp where "fp = te_fingerprint E (event_base label kw)"
  define ev where "ev = set_missing ''_fingerprint'' (JStr fp) (event_base label kw)"
  have event: "track_event E label kw t v = runtime_track E ev None t v" for t v
    by (simp add: track_event_def event_base_def ev_def fp_def Let_def)
  have read: "json_text (jget ev ''_fingerprint'') = fp"
    using assms(3) by (simp add: ev_def set_missing_def jget_def json_text_def)
  have "fst (fingerprint_is_seen (tr_seen s') fp)"
    using assms(1) unfolding event
  proof (cases rule: runtime_track_cases)
    case (seen sn)
    then show ?thesis
      using assms(4) by (auto simp: read fingerprint_is_seen_def Let_def fp_def split: if_splits)
  next
    case (fresh sn)
    then show ?thesis
      using track_fresh_seen [OF fresh(2)] unseen_then_seen [of "tr_seen s" fp sn] assms(4)
      by (simp add: read fp_def)
  qed
  then obtain seen2 where "fingerprint_is_seen (tr_seen s2) fp = (True, seen2)"
    using assms(2) by (cases "fingerprint_is_seen (tr_seen s2) fp") auto
  then show ?thesis
    unfolding event by (simp add: runtime_track_def read)
qed

lemma second_crew_unreported:
  assumes "on_crewai_event E ''CrewKickoffStartedEvent'' JNull s w = (s', w')" "tr_seen s2 = tr_seen s'"
    and "te_fingerprint E (event_base ''span_start'' (span_pair ''crewai_kickoff'' ''crew'')) \<noteq> []"
  shows "tr_calls (fst (on_crewai_event E ''CrewKickoffStartedEvent'' JNull s2 w2)) = tr_calls s2"
proof -
  have kind: "crewai_event ''CrewKickoffStartedEvent'' JNull
      = Some (''span_start'', span_pair ''crewai_kickoff'' ''crew'')"
    by (simp add: crewai_event_def)
  obtain r where "track_event E ''span_start'' (span_pair ''crewai_kickoff'' ''crew'') s w = (r, s', w')"
    using assms(1) by (cases "track_event E ''span_start'' (span_pair ''crewai_kickoff'' ''crew'') s w")
      (simp add: on_crewai_event_def kind)
  from same_event_dropped [OF this assms(2) _ assms(3)] show ?thesis
    by (simp add: on_crewai_event_def kind event_base_def span_pair_def set_missing_def dict_get_def dict_set_def)
qed

section \<open>A concrete client\<close>

definition httpx_only :: "framework \<Rightarrow> patch_outcome" where
  "httpx_only f = (if f = Httpx then PatchTrue else PatchImportError)"

definition client_one :: client where
  "client_one = snd (init_client calm_process httpx_only (Some ''a'') [] fresh_client)"

definition client_two :: client where
  "client_two = snd (init_client calm_process httpx_only (Some ''b'') [] client_one)"

lemma two_initialisations:
  "init_client calm_process httpx_only (Some ''a'') [] fresh_client = (Inr 0, client_one)"
  "init_client calm_process httpx_only (Some ''b'') [] client_one = (Inr 1, client_two)"
proof -
  have "fst (init_client calm_process httpx_only (Some ''a'') [] fresh_client) = Inr 0"
    "fst (init_client calm_process httpx_only (Some ''b'') [] client_one) = Inr 1"
    by code_simp+
  then show "init_client calm_process httpx_only (Some ''a'') [] fresh_client = (Inr 0, client_one)"
    "init_client calm_process httpx_only (Some ''b'') [] client_one = (Inr 1, client_two)"
    by (simp_all add: client_one_def client_two_def prod_eq_iff)
qed

lemma reinit_reports_to_stopped_runtime_witness:
  "map_of (au_bound (cl_patches client_two)) Httpx = Some 0 \<and> running (cl_process client_two) = {1}"
proof -
  have "httpx_only Httpx = PatchTrue"
    by (simp add: httpx_only_def)
  from reinit_reports_to_stopped_runtime [OF two_initialisations calm_stops this] show ?thesis by simp
qed

end
