(* ===== verification/Audit_Results.thy ===== *)
theory Audit_Results
  imports Endpoints Usage_Extract
begin

text \<open>
  The typed results of the audit endpoints (\<open>src/nullrun/audit.py\<close>) and the proxy of the runtime that reads
  them (\<open>AuditProxy\<close> in \<open>src/nullrun/runtime.py\<close>).  A field holds the value of the answer as it is.  \<open>dt\<close> is
  \<open>datetime.fromisoformat\<close>; an error of Python is its class name.
\<close>

section \<open>Times and integers of an answer\<close>

text \<open>A time that is a text is read, another value is kept.\<close>

datatype 'd stamp = Read_Time 'd | Kept_Value json

fun replace_z :: "string \<Rightarrow> string" where
  "replace_z [] = []"
| "replace_z (c # cs) = (if c = CHR ''Z'' then ''+00:00'' @ replace_z cs else c # replace_z cs)"

definition normal_time :: "string \<Rightarrow> string" where
  "normal_time s = (if s \<noteq> [] \<and> List.last s = CHR ''Z'' then replace_z s else s)"

definition read_time :: "(string \<Rightarrow> 'd option) \<Rightarrow> string \<Rightarrow> string + 'd" where
  "read_time dt s = (case dt (normal_time s) of Some t \<Rightarrow> Inr t | None \<Rightarrow> Inl ''ValueError'')"

definition entry_time :: "(string \<Rightarrow> 'd option) \<Rightarrow> json \<Rightarrow> string + 'd stamp" where
  "entry_time dt j = (case j of JStr s \<Rightarrow> map_sum id Read_Time (read_time dt s) | _ \<Rightarrow> Inr (Kept_Value j))"

text \<open>An empty value is no time; a value that is no text has no method \<open>endswith\<close>.\<close>

definition parse_dt :: "(string \<Rightarrow> 'd option) \<Rightarrow> json \<Rightarrow> string + 'd option" where
  "parse_dt dt j =
     (if \<not> truthy j then Inr None
      else (case j of JStr s \<Rightarrow> map_sum id Some (read_time dt s) | _ \<Rightarrow> Inl ''AttributeError''))"

definition policy_number :: "json \<Rightarrow> json" where
  "policy_number j =
     (case j of
        JNull \<Rightarrow> JNull
      | JInt i \<Rightarrow> j
      | JBool b \<Rightarrow> j
      | _ \<Rightarrow> (case py_int j of Inr i \<Rightarrow> JInt i | Inl x \<Rightarrow> JNull))"

section \<open>Entries and pages\<close>

text \<open>The fields that are read with \<open>get\<close> and no default are one table, in the order of the class.\<close>

definition entry_optional :: "string list" where
  "entry_optional =
     [''metadata'', ''current_event_hash'', ''previous_event_hash'', ''agent_id'', ''principal_id'', ''decision'',
      ''policy_id'', ''policy_hash'', ''matched_rule'', ''reason_code'', ''execution_id'', ''action_digest'',
      ''tool_name'', ''tool_version'', ''tool_digest'']"

record 'd audit_entry =
  ae_id :: json
  ae_action :: json
  ae_event_type :: json
  ae_actor :: json
  ae_actor_label :: json
  ae_actor_type :: json
  ae_actor_id :: json
  ae_resource_type :: json
  ae_resource_id :: json
  ae_outcome :: json
  ae_timestamp :: "'d stamp"
  ae_policy_version :: json
  ae_optional :: dict

definition is_governance :: "'d audit_entry \<Rightarrow> bool" where
  "is_governance e \<longleftrightarrow>
     ae_event_type e \<in> {JStr ''authorization_decision'', JStr ''approval_decision'', JStr ''execution_lifecycle''}"

definition entry_from_wire :: "(string \<Rightarrow> 'd option) \<Rightarrow> dict \<Rightarrow> string + 'd audit_entry" where
  "entry_from_wire dt raw =
     and_then (entry_time dt (jget raw ''timestamp'')) (\<lambda>t.
       case dict_get raw ''id'' of
         None \<Rightarrow> Inl ''KeyError''
       | Some i \<Rightarrow>
           Inr \<lparr>ae_id = i,
                ae_action = get_or raw ''action'' (get_or raw ''event_type'' (JStr [])),
                ae_event_type = get_or raw ''event_type'' (get_or raw ''action'' (JStr [])),
                ae_actor = get_or raw ''actor'' (JStr []),
                ae_actor_label = get_or raw ''actor_label'' (JStr []),
                ae_actor_type = get_or raw ''actor_type'' (JStr []),
                ae_actor_id = get_or raw ''actor_id'' (JStr []),
                ae_resource_type = get_or raw ''resource_type'' (JStr []),
                ae_resource_id = get_or raw ''resource_id'' (JStr []),
                ae_outcome = get_or raw ''outcome'' (JStr []),
                ae_timestamp = t,
                ae_policy_version = policy_number (jget raw ''policy_version''),
                ae_optional = map (\<lambda>k. (k, jget raw k)) entry_optional\<rparr>)"

record log_meta =
  lm_returned :: int
  lm_matching :: int
  lm_filtered :: bool
  lm_limit :: int

definition meta_from_wire :: "json \<Rightarrow> string + log_meta" where
  "meta_from_wire j =
     and_then (dict_of j) (\<lambda>raw.
     and_then (py_int (get_or raw ''total_returned'' (JInt 0))) (\<lambda>r.
     and_then (py_int (get_or raw ''total_matching'' (JInt 0))) (\<lambda>n.
     and_then (py_int (get_or raw ''limit'' (JInt 0))) (\<lambda>l.
       Inr \<lparr>lm_returned = r, lm_matching = n, lm_filtered = truthy (get_or raw ''filtered'' (JBool False)),
            lm_limit = l\<rparr>))))"

record 'd log_page =
  lp_entries :: "'d audit_entry list"
  lp_meta :: log_meta

definition row_from_wire :: "(string \<Rightarrow> 'd option) \<Rightarrow> json \<Rightarrow> string + 'd audit_entry" where
  "row_from_wire dt j = and_then (dict_of j) (entry_from_wire dt)"

fun rows_from_wire :: "(json \<Rightarrow> string + 'e) \<Rightarrow> json list \<Rightarrow> string + 'e list" where
  "rows_from_wire f [] = Inr []"
| "rows_from_wire f (j # js) = and_then (f j) (\<lambda>e. and_then (rows_from_wire f js) (\<lambda>es. Inr (e # es)))"

definition page_from_wire :: "(string \<Rightarrow> 'd option) \<Rightarrow> json \<Rightarrow> string + 'd log_page" where
  "page_from_wire dt j =
     and_then (dict_of j) (\<lambda>raw.
     and_then (py_iter (py_or (get_or raw ''data'' (JList [])) (JList []))) (\<lambda>rows.
     and_then (rows_from_wire (row_from_wire dt) rows) (\<lambda>es.
     and_then (meta_from_wire (get_or raw ''meta'' (JObj []))) (\<lambda>m.
       Inr \<lparr>lp_entries = es, lp_meta = m\<rparr>))))"

section \<open>Verification and exports\<close>

record 'd verify_outcome =
  vo_verified :: bool
  vo_chain_valid :: bool
  vo_count :: int
  vo_first_hash :: json
  vo_last_hash :: json
  vo_reason :: json
  vo_timestamp :: "'d option"
  vo_hmac :: bool

definition verify_from_wire :: "(string \<Rightarrow> 'd option) \<Rightarrow> json \<Rightarrow> string + 'd verify_outcome" where
  "verify_from_wire dt j =
     and_then (dict_of j) (\<lambda>raw.
     and_then (case get_or raw ''timestamp'' (JStr []) of JStr s \<Rightarrow> Inr s | _ \<Rightarrow> Inl ''AttributeError'') (\<lambda>s.
     and_then (py_int (get_or raw ''record_count'' (JInt 0))) (\<lambda>n.
     and_then (if s = [] then Inr None else map_sum id Some (read_time dt s)) (\<lambda>t.
       Inr \<lparr>vo_verified = truthy (get_or raw ''verified'' (JBool False)),
            vo_chain_valid = truthy (get_or raw ''chain_valid'' (JBool False)), vo_count = n,
            vo_first_hash = jget raw ''first_hash'', vo_last_hash = jget raw ''last_hash'',
            vo_reason = jget raw ''first_failure_reason'', vo_timestamp = t,
            vo_hmac = truthy (get_or raw ''hmac_checked'' (JBool False))\<rparr>))))"

record 'd export_info =
  ei_id :: json
  ei_status :: json
  ei_created :: "'d option"
  ei_completed :: "'d option"
  ei_count :: "int option"
  ei_url :: json
  ei_error :: json

definition opt_count :: "dict \<Rightarrow> string + int option" where
  "opt_count raw =
     (if jget raw ''record_count'' = JNull then Inr None else map_sum id Some (py_int (jget raw ''record_count'')))"

definition job_from_wire :: "(string \<Rightarrow> 'd option) \<Rightarrow> json \<Rightarrow> string + 'd export_info" where
  "job_from_wire dt j =
     and_then (dict_of j) (\<lambda>raw.
     and_then (parse_dt dt (jget raw ''created_at'')) (\<lambda>c.
     and_then (parse_dt dt (jget raw ''completed_at'')) (\<lambda>f.
     and_then (opt_count raw) (\<lambda>n.
       Inr \<lparr>ei_id = py_or (jget raw ''id'') (get_or raw ''job_id'' (JStr [])),
            ei_status = get_or raw ''status'' (JStr []), ei_created = c, ei_completed = f, ei_count = n,
            ei_url = py_or (jget raw ''file_url'') (jget raw ''download_url''),
            ei_error = jget raw ''error_message''\<rparr>))))"

definition export_status_from_wire :: "(string \<Rightarrow> 'd option) \<Rightarrow> json \<Rightarrow> string + 'd export_info" where
  "export_status_from_wire dt j =
     and_then (dict_of j) (\<lambda>raw.
     and_then (opt_count raw) (\<lambda>n.
     and_then (parse_dt dt (jget raw ''created_at'')) (\<lambda>c.
     and_then (parse_dt dt (jget raw ''completed_at'')) (\<lambda>f.
       Inr \<lparr>ei_id = get_or raw ''job_id'' (JStr []), ei_status = get_or raw ''status'' (JStr []),
            ei_created = c, ei_completed = f, ei_count = n, ei_url = jget raw ''file_url'',
            ei_error = jget raw ''error_message''\<rparr>))))"

section \<open>The proxy\<close>

text \<open>\<open>own\<close> is the organisation of the runtime, empty before the key was verified.\<close>

definition no_audit_org :: gate_exn where
  "no_audit_org =
     built (nullrun_init NullRunAuthenticationError ''AuditProxy requires an authenticated runtime'' [] [])"

definition audit_org :: "string option \<Rightarrow> string \<Rightarrow> gate_exn + string" where
  "audit_org given own =
     (let org = (case given of Some org \<Rightarrow> if org \<noteq> [] then org else own | None \<Rightarrow> own) in
      if org = [] then Inl no_audit_org else Inr org)"

definition parsed_as :: "(json \<Rightarrow> string + 'r) \<Rightarrow> (gate_exn + json) \<times> 'w \<Rightarrow> (gate_exn + 'r) \<times> 'w" where
  "parsed_as f a =
     (case a of
        (Inl x, w) \<Rightarrow> (Inl x, w)
      | (Inr j, w) \<Rightarrow> ((case f j of Inl c \<Rightarrow> Inl (PyError c) | Inr r \<Rightarrow> Inr r), w))"

definition for_org :: "string option \<Rightarrow> string \<Rightarrow> (string \<Rightarrow> 'w \<Rightarrow> (gate_exn + 'r) \<times> 'w) \<Rightarrow> 'w \<Rightarrow> (gate_exn + 'r) \<times> 'w" where
  "for_org given own f w = (case audit_org given own of Inl x \<Rightarrow> (Inl x, w) | Inr org \<Rightarrow> f org w)"

definition proxy_list ::
  "'w call_env \<Rightarrow> (string \<Rightarrow> 'd option) \<Rightarrow> string option \<Rightarrow> string \<Rightarrow> audit_query option \<Rightarrow> 'w
     \<Rightarrow> (gate_exn + 'd log_page) \<times> 'w" where
  "proxy_list G dt given own q =
     for_org given own (\<lambda>org w. parsed_as (page_from_wire dt) (audit_log G org q w))"

definition proxy_verify ::
  "'w call_env \<Rightarrow> (string \<Rightarrow> 'd option) \<Rightarrow> string option \<Rightarrow> string \<Rightarrow> string option \<Rightarrow> 'w
     \<Rightarrow> (gate_exn + 'd verify_outcome) \<times> 'w" where
  "proxy_verify G dt given own since =
     for_org given own (\<lambda>org w. parsed_as (verify_from_wire dt) (audit_verify G org since w))"

definition proxy_list_exports ::
  "'w call_env \<Rightarrow> (string \<Rightarrow> 'd option) \<Rightarrow> string option \<Rightarrow> string \<Rightarrow> 'w
     \<Rightarrow> (gate_exn + 'd export_info list) \<times> 'w" where
  "proxy_list_exports G dt given own =
     for_org given own (\<lambda>org w.
       parsed_as (\<lambda>j. and_then (py_iter j) (rows_from_wire (job_from_wire dt))) (audit_list_exports G org w))"

definition proxy_create_export ::
  "'w call_env \<Rightarrow> string option \<Rightarrow> string \<Rightarrow> 'w \<Rightarrow> (gate_exn + json) \<times> 'w" where
  "proxy_create_export G given own = for_org given own (\<lambda>org w. audit_create_export G org w)"

definition proxy_export_status ::
  "'w call_env \<Rightarrow> (string \<Rightarrow> 'd option) \<Rightarrow> string option \<Rightarrow> string \<Rightarrow> string \<Rightarrow> 'w
     \<Rightarrow> (gate_exn + 'd export_info) \<times> 'w" where
  "proxy_export_status G dt given own job =
     for_org given own (\<lambda>org w. parsed_as (export_status_from_wire dt) (audit_export_status G org job w))"

section \<open>Laws\<close>

lemma rows_from_wire_ok: "rows_from_wire f js = Inr es \<longleftrightarrow> map f js = map Inr es"
proof (induction js arbitrary: es)
  case (Cons j js)
  show ?case
    by (cases "rows_from_wire f js"; cases es) (auto simp: and_then_def Cons[symmetric] split: sum.split)
qed auto

lemma rows_from_wire_total: "(\<exists>es. rows_from_wire f js = Inr es) \<longleftrightarrow> (\<forall>j\<in>set js. \<exists>e. f j = Inr e)"
  by (induction js) (auto simp: and_then_def split: sum.splits)

text \<open>A row is read exactly when it is an object with an id whose time, if it is a text, is readable.\<close>

definition row_ok :: "(string \<Rightarrow> 'd option) \<Rightarrow> json \<Rightarrow> bool" where
  "row_ok dt j =
     (case j of
        JObj d \<Rightarrow> dict_get d ''id'' \<noteq> None
          \<and> (case jget d ''timestamp'' of JStr s \<Rightarrow> dt (normal_time s) \<noteq> None | _ \<Rightarrow> True)
      | _ \<Rightarrow> False)"

lemma row_read_iff: "(\<exists>e. row_from_wire dt j = Inr e) \<longleftrightarrow> row_ok dt j"
  by (cases j) (auto simp: row_from_wire_def dict_of_def and_then_def entry_from_wire_def entry_time_def read_time_def
      row_ok_def map_sum_def split: option.split json.split sum.split)

lemma row_keeps_id: "row_from_wire dt j = Inr e \<Longrightarrow> \<exists>d. j = JObj d \<and> dict_get d ''id'' = Some (ae_id e)"
  by (cases j) (auto simp: row_from_wire_def dict_of_def and_then_def entry_from_wire_def split: option.splits sum.splits)

definition meta_ok :: "json \<Rightarrow> bool" where
  "meta_ok j =
     (case j of
        JObj d \<Rightarrow> (\<forall>k \<in> {''total_returned'', ''total_matching'', ''limit''}. \<exists>n. py_int (get_or d k (JInt 0)) = Inr n)
      | _ \<Rightarrow> False)"

lemma meta_read_iff: "(\<exists>m. meta_from_wire j = Inr m) \<longleftrightarrow> meta_ok j"
  by (cases j) (auto simp: meta_from_wire_def meta_ok_def dict_of_def and_then_def split: sum.splits)

lemma page_read_iff:
  assumes "get_or raw ''data'' (JList []) = JList rows"
  shows "(\<exists>p. page_from_wire dt (JObj raw) = Inr p)
    \<longleftrightarrow> (\<forall>j\<in>set rows. row_ok dt j) \<and> meta_ok (get_or raw ''meta'' (JObj []))"
proof -
  have "py_iter (py_or (JList rows) (JList [])) = Inr rows"
    by (simp add: py_or_def py_iter_def)
  then have "(\<exists>p. page_from_wire dt (JObj raw) = Inr p)
      \<longleftrightarrow> (\<exists>es. rows_from_wire (row_from_wire dt) rows = Inr es) \<and> (\<exists>m. meta_from_wire (get_or raw ''meta'' (JObj [])) = Inr m)"
    by (auto simp: page_from_wire_def assms dict_of_def and_then_def split: sum.splits)
  then show ?thesis
    by (simp add: rows_from_wire_total row_read_iff meta_read_iff)
qed

lemma page_keeps_rows:
  assumes "page_from_wire dt (JObj raw) = Inr p" "get_or raw ''data'' (JList []) = JList rows"
  shows "map (\<lambda>j. case j of JObj d \<Rightarrow> dict_get d ''id'' | _ \<Rightarrow> None) rows = map (Some \<circ> ae_id) (lp_entries p)"
proof -
  have "py_iter (py_or (JList rows) (JList [])) = Inr rows"
    by (simp add: py_or_def py_iter_def)
  then have "rows_from_wire (row_from_wire dt) rows = Inr (lp_entries p)"
    using assms by (auto simp: page_from_wire_def dict_of_def and_then_def split: sum.splits)
  then have rows: "map (row_from_wire dt) rows = map Inr (lp_entries p)"
    by (simp add: rows_from_wire_ok)
  then have "list_all2 (\<lambda>j e. row_from_wire dt j = Inr e) rows (lp_entries p)"
    by (simp add: list_all2_conv_all_nth list_eq_iff_nth_eq)
  then show ?thesis
    by (induction rule: list_all2_induct) (auto dest: row_keeps_id)
qed

text \<open>
  An audit page is read as a whole or not at all.  \<open>AuditProxy.list\<close> on an answer with a list of rows
  returns a page exactly when every row is an object with an id and a readable time and the summary is an
  object of numbers; the page then has the entries of the answer, one for one and in order.  So one bad row, or
  an explicit null as summary, loses every entry.
\<close>

theorem audit_page_exact:
  assumes "audit_org given own = Inr org" "audit_log G org q w = (Inr (JObj raw), w')"
    and "get_or raw ''data'' (JList []) = JList rows"
  shows "((\<exists>p. fst (proxy_list G dt given own q w) = Inr p)
        \<longleftrightarrow> (\<forall>j\<in>set rows. row_ok dt j) \<and> meta_ok (get_or raw ''meta'' (JObj [])))
    \<and> (\<forall>p. fst (proxy_list G dt given own q w) = Inr p
        \<longrightarrow> map (\<lambda>j. case j of JObj d \<Rightarrow> dict_get d ''id'' | _ \<Rightarrow> None) rows = map (Some \<circ> ae_id) (lp_entries p))"
proof -
  have "fst (proxy_list G dt given own q w)
      = (case page_from_wire dt (JObj raw) of Inl c \<Rightarrow> Inl (PyError c) | Inr r \<Rightarrow> Inr r)"
    using assms(1,2) by (simp add: proxy_list_def for_org_def parsed_as_def)
  then show ?thesis
    using page_read_iff [OF assms(3), of dt] page_keeps_rows [OF _ assms(3), of dt] by (auto split: sum.splits)
qed

definition one_row :: dict where
  "one_row = [(''data'', JList [JObj [(''id'', JStr ''e1''), (''timestamp'', JStr ''now'')]])]"

definition auditing_backend :: "unit call_env" where
  "auditing_backend =
     gate_env.extend accepting_backend
       \<lparr>c_get = (\<lambda>url w. (Inr \<lparr>resp_status = 200, resp_json = Some (JObj one_row), resp_retry_after = None\<rparr>, w))\<rparr>"

lemma audit_page_exact_witness:
  "\<exists>p. fst (proxy_list auditing_backend (\<lambda>s. if s = ''now'' then Some (0::nat) else None) None ''org'' None ()) = Inr p"
proof -
  let ?dt = "\<lambda>s. if s = ''now'' then Some (0::nat) else None"
  have org: "audit_org None ''org'' = Inr ''org''"
    by (simp add: audit_org_def)
  have wire: "audit_log auditing_backend ''org'' None () = (Inr (JObj one_row), ())"
    by (simp add: audit_log_def get_once_def settle_request_def auditing_backend_def gate_env.defs)
  have rows: "get_or one_row ''data'' (JList []) = JList [JObj [(''id'', JStr ''e1''), (''timestamp'', JStr ''now'')]]"
    by (simp add: one_row_def)
  have ok: "row_ok ?dt (JObj [(''id'', JStr ''e1''), (''timestamp'', JStr ''now'')])" "meta_ok (get_or one_row ''meta'' (JObj []))"
    by (simp_all add: row_ok_def normal_time_def meta_ok_def one_row_def py_int_def)
  show ?thesis
    using audit_page_exact [OF org wire rows, of ?dt] ok by simp
qed

text \<open>A null time fails the verification and leaves an entry alone; a missing one is accepted by both.\<close>

lemma null_time_breaks_verify:
  "verify_from_wire dt (JObj [(''verified'', JBool True), (''timestamp'', JNull)]) = Inl ''AttributeError''"
  "row_ok dt (JObj [(''id'', i), (''timestamp'', JNull)])"
  "\<exists>v. verify_from_wire dt (JObj [(''verified'', JBool True)]) = Inr v \<and> vo_verified v"
  by (simp_all add: verify_from_wire_def dict_of_def and_then_def row_ok_def get_or_def jget_def py_int_def)

text \<open>A row without an id is refused, although missing keys are meant to be tolerated.\<close>

lemma row_needs_id: "row_from_wire dt (JObj []) = Inl ''KeyError''"
  by (simp add: row_from_wire_def dict_of_def and_then_def entry_from_wire_def entry_time_def)

text \<open>The list of exports reads two spellings of the id and the URL, the status of one export a single one.\<close>

lemma export_spellings:
  "map_sum id ei_url (job_from_wire dt (JObj [(''download_url'', JStr u)])) = Inr (JStr u) \<or> u = []"
  "map_sum id ei_url (export_status_from_wire dt (JObj [(''download_url'', JStr u)])) = Inr JNull"
  by (simp_all add: job_from_wire_def export_status_from_wire_def dict_of_def and_then_def parse_dt_def opt_count_def
      py_or_def)

end
