(* ===== verification/Observability.thy ===== *)
theory Observability
  imports Nullrun_Prelude
begin

text \<open>
  The process-wide counters (\<open>MetricsRegistry\<close> in \<open>src/nullrun/observability/__init__.py\<close>) and the hooks called
  for errors (\<open>observability/error_hooks.py\<close>).  The two objects of counters are their attributes by name.
\<close>

section \<open>The counters\<close>

definition transport_counters :: dict where
  "transport_counters =
     [(''events_enqueued'', JInt 0), (''events_sent'', JInt 0), (''events_dropped'', JInt 0),
      (''batches_sent'', JInt 0), (''batches_failed'', JInt 0), (''retries_total'', JInt 0),
      (''circuit_breaker_opens'', JInt 0), (''last_flush_at'', JNull), (''last_error'', JNull),
      (''circuit_open_count'', JInt 0), (''circuit_half_open_count'', JInt 0), (''circuit_closed_count'', JInt 0),
      (''fallback_mode_activations'', JInt 0), (''hmac_verify_failures_total'', JInt 0),
      (''hmac_verify_expired_total'', JInt 0), (''wal_dir_fsync'', JNull), (''wal_lock'', JNull),
      (''wal_lock_timeouts_total'', JInt 0), (''dlq_bytes'', JInt 0), (''dlq_overflow_total'', JInt 0),
      (''dlq_overflow_reason'', JNull), (''dlq_holdover'', JInt 0), (''dlq_holdover_total'', JInt 0),
      (''dlq_holdover_index_truncated'', JInt 0), (''dlq_holdover_persist_failures'', JInt 0),
      (''batches_bisect_budget_exhausted'', JInt 0), (''retry_after_deferred'', JInt 0),
      (''retries_interrupted_by_shutdown'', JInt 0), (''events_recorded_overage'', JInt 0)]"

definition runtime_counters :: dict where
  "runtime_counters =
     [(''track_calls'', JInt 0), (''execute_calls'', JInt 0), (''execute_allowed'', JInt 0),
      (''execute_blocked'', JInt 0), (''check_calls'', JInt 0), (''cost_limit_exceeded'', JInt 0),
      (''timeouts'', JInt 0), (''loop_detections'', JInt 0), (''gate_fail_open_total'', JInt 0),
      (''dropped_llm_call_no_reservation'', JInt 0)]"

record registry =
  mr_transport :: dict
  mr_runtime :: dict

definition fresh_registry :: registry where
  "fresh_registry = \<lparr>mr_transport = transport_counters, mr_runtime = runtime_counters\<rparr>"

text \<open>\<open>current + value\<close> of an attribute; \<open>None\<close> and a text cannot be added to.\<close>

definition plus_counter :: "json \<Rightarrow> int \<Rightarrow> json option" where
  "plus_counter j n =
     (case j of
        JInt i \<Rightarrow> Some (JInt (i + n))
      | JBool b \<Rightarrow> Some (JInt ((if b then 1 else 0) + n))
      | JFloat r \<Rightarrow> Some (JFloat (r + of_int n))
      | _ \<Rightarrow> None)"

definition inc_attribute :: "dict \<Rightarrow> string \<Rightarrow> int \<Rightarrow> dict option" where
  "inc_attribute d k n = map_option (\<lambda>v. dict_set k v d) (plus_counter (get_or d k (JInt 0)) n)"

datatype metric_op =
    IncTransport string int
  | IncRuntime string int
  | SetTransport string json
  | ResetMetrics

text \<open>A step; \<open>None\<close> is a \<open>TypeError\<close>, which leaves the counters as they were.\<close>

definition metric_step :: "metric_op \<Rightarrow> registry \<Rightarrow> registry option" where
  "metric_step op r =
     (case op of
        IncTransport k n \<Rightarrow> map_option (\<lambda>d. r\<lparr>mr_transport := d\<rparr>) (inc_attribute (mr_transport r) k n)
      | IncRuntime k n \<Rightarrow> map_option (\<lambda>d. r\<lparr>mr_runtime := d\<rparr>) (inc_attribute (mr_runtime r) k n)
      | SetTransport k v \<Rightarrow> Some (r\<lparr>mr_transport := dict_set k v (mr_transport r)\<rparr>)
      | ResetMetrics \<Rightarrow> Some fresh_registry)"

definition metric_run :: "metric_op list \<Rightarrow> registry \<Rightarrow> registry" where
  "metric_run ops r = fold (\<lambda>op r. case metric_step op r of Some r1 \<Rightarrow> r1 | None \<Rightarrow> r) ops r"

section \<open>The export\<close>

definition exported_transport :: "string list" where
  "exported_transport =
     [''events_enqueued'', ''events_sent'', ''events_dropped'', ''batches_sent'', ''batches_failed'',
      ''retries_total'', ''circuit_breaker_opens'', ''last_flush_at'', ''last_error'', ''circuit_open_count'',
      ''circuit_half_open_count'', ''circuit_closed_count'', ''fallback_mode_activations'',
      ''hmac_verify_failures_total'', ''hmac_verify_expired_total'', ''wal_dir_fsync'', ''wal_lock'',
      ''wal_lock_timeouts_total'', ''dlq_bytes'', ''dlq_overflow_total'', ''dlq_overflow_reason'',
      ''dlq_holdover'', ''dlq_holdover_total'', ''dlq_holdover_index_truncated'',
      ''dlq_holdover_persist_failures'', ''batches_bisect_budget_exhausted'', ''retry_after_deferred'',
      ''retries_interrupted_by_shutdown'']"

definition exported_runtime :: "string list" where
  "exported_runtime =
     [''track_calls'', ''execute_calls'', ''execute_allowed'', ''execute_blocked'', ''check_calls'',
      ''cost_limit_exceeded'', ''timeouts'', ''loop_detections'', ''gate_fail_open_total'']"

definition metrics_dict :: "registry \<Rightarrow> dict" where
  "metrics_dict r =
     [(''transport'', JObj (map (\<lambda>k. (k, jget (mr_transport r) k)) exported_transport)),
      (''runtime'', JObj (map (\<lambda>k. (k, jget (mr_runtime r) k)) exported_runtime))]"

definition exported :: "registry \<Rightarrow> string \<Rightarrow> string \<Rightarrow> json option" where
  "exported r part k = (case jget (metrics_dict r) part of JObj d \<Rightarrow> dict_get d k | _ \<Rightarrow> None)"

section \<open>What the export shows\<close>

text \<open>What a counter should show: the increments since the last reset.\<close>

fun counted_after :: "int \<Rightarrow> string \<Rightarrow> metric_op list \<Rightarrow> int" where
  "counted_after a k [] = a"
| "counted_after a k (IncTransport k' n # ops) = counted_after (if k' = k then a + n else a) k ops"
| "counted_after a k (ResetMetrics # ops) = counted_after 0 k ops"
| "counted_after a k (_ # ops) = counted_after a k ops"

lemma metric_run_Cons:
  "metric_run (op # ops) r = metric_run ops (case metric_step op r of Some r1 \<Rightarrow> r1 | None \<Rightarrow> r)"
  by (simp add: metric_run_def)

lemma jget_dict_set [simp]: "jget (dict_set k v d) k' = (if k' = k then v else jget d k')"
  by (simp add: jget_def)

lemma get_or_value: "jget d k = JInt a \<Longrightarrow> get_or d k z = JInt a"
  by (auto simp: jget_def get_or_def split: option.splits)

lemma counter_after:
  assumes "jget (mr_transport r) k = JInt a" "jget transport_counters k = JInt 0"
    and "\<forall>v. SetTransport k v \<notin> set ops"
  shows "jget (mr_transport (metric_run ops r)) k = JInt (counted_after a k ops)"
  using assms
proof (induction ops arbitrary: r a)
  case (Cons op ops)
  show ?case
  proof (cases op)
    case (IncTransport k' n)
    with Cons show ?thesis
      by (cases "plus_counter (get_or (mr_transport r) k' (JInt 0)) n")
        (auto simp: metric_run_Cons metric_step_def inc_attribute_def get_or_value plus_counter_def)
  next
    case (IncRuntime k' n)
    with Cons show ?thesis
      by (cases "inc_attribute (mr_runtime r) k' n") (auto simp: metric_run_Cons metric_step_def)
  next
    case (SetTransport k' v)
    with Cons show ?thesis
      by (auto simp: metric_run_Cons metric_step_def)
  next
    case ResetMetrics
    with Cons show ?thesis
      by (simp add: metric_run_Cons metric_step_def fresh_registry_def)
  qed
qed (simp add: metric_run_def)

text \<open>
  An exported counter is the sum of its increments since the last reset, whatever happened to the others
  in between, as long as no code assigns it; failed operations change nothing.
\<close>

theorem exported_counter_exact:
  assumes "k \<in> set exported_transport" "jget transport_counters k = JInt 0" "\<forall>v. SetTransport k v \<notin> set ops"
  shows "exported (metric_run ops fresh_registry) ''transport'' k = Some (JInt (counted_after 0 k ops))"
proof -
  have "jget (mr_transport (metric_run ops fresh_registry)) k = JInt (counted_after 0 k ops)"
    using counter_after [OF _ assms(2,3)] assms(2) by (simp add: fresh_registry_def)
  moreover have "dict_get (map (\<lambda>k. (k, f k)) ks) k = Some (f k)" if "k \<in> set ks" for f :: "string \<Rightarrow> json" and ks
    using that by (induction ks) auto
  ultimately show ?thesis
    using assms(1) by (simp add: exported_def metrics_dict_def)
qed

theorem exported_counter_exact_witness:
  "exported (metric_run [IncTransport ''events_sent'' 5, ResetMetrics, IncTransport ''events_sent'' 2,
       IncTransport ''last_error'' 1] fresh_registry) ''transport'' ''events_sent'' = Some (JInt 2)"
  using exported_counter_exact [of "''events_sent''"
      "[IncTransport ''events_sent'' 5, ResetMetrics, IncTransport ''events_sent'' 2, IncTransport ''last_error'' 1]"]
  by (simp add: exported_transport_def transport_counters_def)

text \<open>The names the program counts on the transport and on the runtime.\<close>

definition counted_on_transport :: "string list" where
  "counted_on_transport =
     [''batches_auth_blocked'', ''batches_bisect_budget_exhausted'', ''batches_bisected'', ''batches_resplit'',
      ''batches_deterministic_refusal'', ''batches_failed'', ''batches_retried'', ''batches_sent'',
      ''circuit_breaker_opens'', ''circuit_closed_count'', ''circuit_half_open_count'', ''circuit_open_count'',
      ''dlq_holdover_index_truncated'', ''dlq_holdover_persist_failures'', ''dlq_holdover_total'',
      ''dlq_overflow_total'', ''events_dead_lettered'', ''events_dropped'', ''events_enqueued'',
      ''events_partial_refused'', ''events_recorded_overage'', ''events_sent'', ''execute_block_decision_typed'',
      ''execute_block_infra_typed'', ''execute_block_replay_rejected'', ''execute_block_typed'',
      ''fallback_mode_activations'', ''hmac_verify_expired_total'', ''hmac_verify_failures_total'',
      ''retries_interrupted_by_shutdown'', ''retries_total'', ''retry_after_deferred'', ''timeouts'',
      ''unknown_ws_message_type_total'', ''wal_lock_timeouts_total'']"

definition counted_on_runtime :: "string list" where
  "counted_on_runtime =
     [''budget_preflight_no_workflow_total'', ''check_calls'', ''control_plane_no_workflow_total'',
      ''cost_limit_exceeded'', ''dropped_llm_call_no_model'', ''dropped_llm_call_no_reservation'',
      ''execute_allowed'', ''execute_blocked'', ''execute_calls'', ''gate_fail_open_total'',
      ''gate_malformed_response_total'', ''sensitive_fail_open_allowed_in_prod'',
      ''sensitive_fail_open_blocked_in_prod'', ''skip_budget_allowed_in_prod'', ''skip_budget_blocked_in_prod'',
      ''skip_budget_used_non_prod'', ''soft_overdraft_used'', ''track_calls'']"

text \<open>Dead-lettered events and dropped model calls are among the counters that are never exported.\<close>

lemma never_exported:
  "filter (\<lambda>k. k \<notin> set exported_transport) counted_on_transport =
     [''batches_auth_blocked'', ''batches_bisected'', ''batches_resplit'', ''batches_deterministic_refusal'',
      ''batches_retried'', ''events_dead_lettered'', ''events_partial_refused'', ''events_recorded_overage'',
      ''execute_block_decision_typed'', ''execute_block_infra_typed'', ''execute_block_replay_rejected'',
      ''execute_block_typed'', ''timeouts'', ''unknown_ws_message_type_total'']"
  "set (filter (\<lambda>k. k \<in> set exported_runtime) counted_on_runtime) = set exported_runtime - {''timeouts'', ''loop_detections''}"
  by code_simp+

text \<open>Timeouts are counted on the transport and exported from the runtime, so the export stays at zero.\<close>

lemma runtime_untouched:
  assumes "\<forall>op \<in> set ops. \<forall>n. op \<noteq> IncRuntime k n" "jget (mr_runtime r) k = jget runtime_counters k"
  shows "jget (mr_runtime (metric_run ops r)) k = jget runtime_counters k"
  using assms
proof (induction ops arbitrary: r)
  case (Cons op ops)
  show ?case
    unfolding metric_run_Cons using Cons.prems
    by (intro Cons.IH)
      (auto simp: metric_step_def inc_attribute_def fresh_registry_def split: metric_op.split option.split)
qed (simp add: metric_run_def)

lemma timeouts_exported_as_zero:
  assumes "\<forall>op \<in> set ops. \<forall>k n. op = IncRuntime k n \<longrightarrow> k \<in> set counted_on_runtime"
  shows "exported (metric_run ops fresh_registry) ''runtime'' ''timeouts'' = Some (JInt 0)"
proof -
  have "jget (mr_runtime (metric_run ops fresh_registry)) ''timeouts'' = jget runtime_counters ''timeouts''"
  proof (rule runtime_untouched)
    have "''timeouts'' \<notin> set counted_on_runtime" by code_simp
    with assms show "\<forall>op\<in>set ops. \<forall>n. op \<noteq> IncRuntime ''timeouts'' n" by blast
  qed (simp add: fresh_registry_def)
  then show ?thesis
    by (simp add: exported_def metrics_dict_def exported_runtime_def runtime_counters_def)
qed

section \<open>Error hooks\<close>

text \<open>
  A hook may register and remove hooks and may raise; only an \<open>Exception\<close> is swallowed.  Hooks are compared by
  equality.
\<close>

datatype hook_end = HookReturns | HookRaises | HookKills string

type_synonym ('h, 'x, 'w) hook_body = "'h \<Rightarrow> 'x \<Rightarrow> 'h list \<Rightarrow> 'w \<Rightarrow> hook_end \<times> 'h list \<times> 'w"

definition register_hook :: "'h \<Rightarrow> 'h list \<Rightarrow> 'h list" where
  "register_hook h hooks = hooks @ [h]"

definition unregister_hook :: "'h \<Rightarrow> 'h list \<Rightarrow> 'h list" where
  "unregister_hook h hooks = remove1 h hooks"

definition clear_hooks :: "'h list \<Rightarrow> 'h list" where
  "clear_hooks hooks = []"

definition has_hooks :: "'h list \<Rightarrow> bool" where
  "has_hooks hooks \<longleftrightarrow> hooks \<noteq> []"

fun call_hooks :: "('h, 'x, 'w) hook_body \<Rightarrow> 'x \<Rightarrow> 'h list \<Rightarrow> 'h list \<Rightarrow> 'w \<Rightarrow> string option \<times> 'h list \<times> 'w" where
  "call_hooks B x [] hooks w = (None, hooks, w)"
| "call_hooks B x (h # hs) hooks w =
     (case B h x hooks w of
        (HookKills c, hooks1, w1) \<Rightarrow> (Some c, hooks1, w1)
      | (_, hooks1, w1) \<Rightarrow> call_hooks B x hs hooks1 w1)"

definition fire_hooks :: "('h, 'x, 'w) hook_body \<Rightarrow> 'x \<Rightarrow> 'h list \<Rightarrow> 'w \<Rightarrow> string option \<times> 'h list \<times> 'w" where
  "fire_hooks B x hooks w = call_hooks B x hooks hooks w"

text \<open>A hook that also writes its name down.\<close>

definition logged :: "('h, 'x, 'w) hook_body \<Rightarrow> ('h, 'x, 'h list \<times> 'w) hook_body" where
  "logged B h x hooks v = (case B h x hooks (snd v) of (r, hooks1, w1) \<Rightarrow> (r, hooks1, (fst v @ [h], w1)))"

lemma logged_calls:
  "(\<forall>h x hs w c. fst (B h x hs w) \<noteq> HookKills c)
     \<Longrightarrow> fst (call_hooks (logged B) x hs hooks v) = None \<and> fst (snd (snd (call_hooks (logged B) x hs hooks v))) = fst v @ hs"
proof (induction hs arbitrary: hooks v)
  case (Cons h hs)
  obtain r hooks1 w1 where b: "B h x hooks (snd v) = (r, hooks1, w1)"
    by (cases "B h x hooks (snd v)")
  with Cons show ?case
    by (cases r) (auto simp: logged_def, metis fst_conv)
qed simp

text \<open>
  Every registered hook is called once, in order of registration, and the error goes on.  This holds
  whatever the hooks do to the registry while they run, and though they raise, as long as what they raise is an
  \<open>Exception\<close>.
\<close>

theorem hooks_called_once:
  assumes "\<forall>h x hs w c. fst (B h x hs w) \<noteq> HookKills c"
  shows "fst (fire_hooks (logged B) x hooks ([], w)) = None
    \<and> fst (snd (snd (fire_hooks (logged B) x hooks ([], w)))) = hooks"
  using logged_calls [OF assms, of x hooks hooks "([], w)"] by (simp add: fire_hooks_def)

definition greedy_hook :: "(nat, unit, unit) hook_body" where
  "greedy_hook h x hooks w = (if h = 0 then (HookRaises, [], w) else (HookReturns, register_hook 7 hooks, w))"

theorem hooks_called_once_witness:
  "fst (snd (snd (fire_hooks (logged greedy_hook) () [0, 3] ([], ())))) = [0, 3]"
  by (rule hooks_called_once [where B = greedy_hook and x = "()" and w = "()", THEN conjunct2])
    (simp add: greedy_hook_def)

text \<open>
  Removing is by equality and not by registration: the same hook registered twice is gone after the handle of
  one registration was used twice, although a second use is meant to do nothing.
\<close>

lemma unregister_takes_other:
  "h \<notin> set hooks \<Longrightarrow> unregister_hook h (unregister_hook h (register_hook h (register_hook h hooks))) = hooks"
  by (simp add: register_hook_def unregister_hook_def remove1_append)

end
