(* ===== verification/Transport_Setup.thy ===== *)
theory Transport_Setup
  imports Control_Channel Observability
begin

text \<open>
  The construction of a transport and what it sets up (\<open>Transport.__init__\<close>, the durability probes, the lock
  of the WAL, the headers of a request and the address of the control channel, in \<open>src/nullrun/transport.py\<close>).
  URLs are ASCII.  The environment of the process, the calls of the operating system and the clock are
  arguments.
\<close>

section \<open>URLs\<close>

text \<open>
  \<open>urllib.parse.urlsplit\<close>: \<open>None\<close> is the \<open>ValueError\<close> of a bracket without its partner; the address between
  brackets is not looked at, as in Python before 3.11.4.
\<close>

record url_parts =
  up_scheme :: string
  up_netloc :: string

definition letter :: "char \<Rightarrow> bool" where
  "letter c \<longleftrightarrow> (let n = (of_char (lower_char c) :: nat) in 97 \<le> n \<and> n \<le> 122)"

definition scheme_char :: "char \<Rightarrow> bool" where
  "scheme_char c \<longleftrightarrow> letter c \<or> (let n = (of_char c :: nat) in 48 \<le> n \<and> n \<le> 57) \<or> c \<in> set ''+-.''"

definition clean_url :: "string \<Rightarrow> string" where
  "clean_url s = filter (\<lambda>c. (of_char c :: nat) \<notin> {9, 10, 13}) (dropWhile (\<lambda>c. (of_char c :: nat) \<le> 32) s)"

definition split_scheme :: "string \<Rightarrow> string \<times> string" where
  "split_scheme s =
     (let a = takeWhile (\<lambda>c. c \<noteq> CHR '':'') s in
      if a \<noteq> [] \<and> length a < length s \<and> letter (hd a) \<and> list_all scheme_char a
      then (lower a, drop (Suc (length a)) s)
      else ([], s))"

definition urlsplit :: "string \<Rightarrow> url_parts option" where
  "urlsplit url =
     (case split_scheme (clean_url url) of
        (scheme, r) \<Rightarrow>
          (let netloc = (if take 2 r = ''//'' then takeWhile (\<lambda>c. c \<notin> set ''/?#'') (drop 2 r) else []) in
           if (CHR ''['' \<in> set netloc) = (CHR '']'' \<in> set netloc)
           then Some \<lparr>up_scheme = scheme, up_netloc = netloc\<rparr> else None))"

text \<open>\<open>hostname\<close>: what follows the last \<open>@\<close>, up to the bracket or the port.\<close>

definition url_host :: "url_parts \<Rightarrow> string" where
  "url_host u =
     (let info = rev (takeWhile (\<lambda>c. c \<noteq> CHR ''@'') (rev (up_netloc u))) in
      lower (if CHR ''['' \<in> set info
             then takeWhile (\<lambda>c. c \<noteq> CHR '']'') (tl (dropWhile (\<lambda>c. c \<noteq> CHR ''['') info))
             else takeWhile (\<lambda>c. c \<noteq> CHR '':'') info))"

section \<open>Which hosts may be asked in plain text\<close>

fun octets_of :: "string \<Rightarrow> string list" where
  "octets_of [] = [[]]"
| "octets_of (c # cs) =
     (if c = CHR ''.'' then [] # octets_of cs
      else (case octets_of cs of [] \<Rightarrow> [[c]] | p # ps \<Rightarrow> (c # p) # ps))"

text \<open>An octet of \<open>ip_address\<close>: one to three digits, no leading zero, at most 255.\<close>

definition octet :: "string \<Rightarrow> int option" where
  "octet s =
     (if s = [] \<or> length s > 3 \<or> (length s > 1 \<and> hd s = CHR ''0'') then None
      else (case digits_value 0 s of Some n \<Rightarrow> if n \<le> 255 then Some n else None | None \<Rightarrow> None))"

definition loopback4 :: "string \<Rightarrow> bool" where
  "loopback4 host =
     (case map octet (octets_of host) of
        [Some a, Some b, Some c, Some d] \<Rightarrow> a = 127
      | _ \<Rightarrow> False)"

text \<open>\<open>loopback6\<close> is the answer of \<open>ip_address\<close> for the spellings of IPv6.\<close>

definition plain_allowed :: "(string \<Rightarrow> bool) \<Rightarrow> string \<Rightarrow> bool" where
  "plain_allowed loopback6 host \<longleftrightarrow> host = ''localhost'' \<or> host = ''::1'' \<or> loopback4 host \<or> loopback6 host"

section \<open>Settings\<close>

datatype verify_setting = VerifyDefault | VerifyCa string

definition env_or :: "(string \<Rightarrow> string option) \<Rightarrow> string \<Rightarrow> string" where
  "env_or env name = (case env name of None \<Rightarrow> [] | Some s \<Rightarrow> s)"

definition tls_setting :: "(string \<Rightarrow> string option) \<Rightarrow> verify_setting \<times> (string \<times> string) option" where
  "tls_setting env =
     (let crt = env_or env ''NULLRUN_TLS_CLIENT_CERT''; key = env_or env ''NULLRUN_TLS_CLIENT_KEY'';
          ca = env_or env ''NULLRUN_TLS_CA_CERT'';
          trust = (if ca = [] then VerifyDefault else VerifyCa ca) in
      (trust, if crt \<noteq> [] \<and> key \<noteq> [] then Some (crt, key) else None))"

text \<open>A setting that is not read keeps its default; the last two raise.\<close>

definition int_setting :: "(string \<Rightarrow> string option) \<Rightarrow> string \<Rightarrow> int \<Rightarrow> int" where
  "int_setting env name dflt =
     (case env name of
        None \<Rightarrow> dflt
      | Some s \<Rightarrow> (case parse_int s of None \<Rightarrow> dflt | Some n \<Rightarrow> n))"

definition strict_int :: "(string \<Rightarrow> string option) \<Rightarrow> string \<Rightarrow> int \<Rightarrow> string + int" where
  "strict_int env name dflt =
     (case env name of
        None \<Rightarrow> Inr dflt
      | Some s \<Rightarrow> (case parse_int s of None \<Rightarrow> Inl ''ValueError'' | Some n \<Rightarrow> Inr n))"

text \<open>The caps of the WAL, of the dead letters and of the index of the holdover, read at every use.\<close>

definition positive_setting :: "(string \<Rightarrow> string option) \<Rightarrow> string \<Rightarrow> int \<Rightarrow> int" where
  "positive_setting env name dflt =
     (let raw = env_text env name in
      if raw = [] then dflt
      else (case parse_int raw of None \<Rightarrow> dflt | Some n \<Rightarrow> if n > 0 then n else dflt))"

definition wal_max_setting :: "(string \<Rightarrow> string option) \<Rightarrow> int" where
  "wal_max_setting env = positive_setting env ''NULLRUN_WAL_MAX_BYTES'' (64 * 1024 * 1024)"

definition dlq_max_setting :: "int \<Rightarrow> (string \<Rightarrow> string option) \<Rightarrow> int" where
  "dlq_max_setting dflt env = positive_setting env ''NULLRUN_DLQ_MAX_BYTES'' dflt"

definition holdover_index_setting :: "(string \<Rightarrow> string option) \<Rightarrow> int" where
  "holdover_index_setting env = positive_setting env ''NULLRUN_DLQ_HOLDOVER_MAX_EVENTS'' 10000"

definition lock_timeout_setting :: "(string \<Rightarrow> rat option) \<Rightarrow> (string \<Rightarrow> string option) \<Rightarrow> rat" where
  "lock_timeout_setting float_of env =
     (let raw = env_text env ''NULLRUN_WAL_LOCK_TIMEOUT_MS'' in
      if raw = [] then 5
      else (case float_of raw of None \<Rightarrow> 5 | Some v \<Rightarrow> if v / 1000 > 0 then v / 1000 else 5))"

definition wal_base :: "string \<Rightarrow> (string \<Rightarrow> string option) \<Rightarrow> string" where
  "wal_base tmp env = (if env_or env ''NULLRUN_WAL_PATH'' \<noteq> [] then env_or env ''NULLRUN_WAL_PATH'' else tmp @ ''/nullrun.wal'')"

definition hardened_paths :: "string \<Rightarrow> string list" where
  "hardened_paths base = map (\<lambda>sfx. base @ sfx) [[], ''.1'', ''.inflight'', ''.holdover'', ''.dlq'', ''.lock'']"

text \<open>A path that is missing or cannot be changed is passed over.\<close>

definition harden_wal_permissions :: "(string \<Rightarrow> 'w \<Rightarrow> bool \<times> 'w) \<Rightarrow> string \<Rightarrow> 'w \<Rightarrow> 'w" where
  "harden_wal_permissions chmod base w = fold (\<lambda>p v. snd (chmod p v)) (hardened_paths base) w"

section \<open>Construction\<close>

datatype setup_error = InsecureTransport string | SetupRaises string | EdgeRefused string

record flush_cfg =
  fc_batch_size :: int
  fc_interval :: rat

record transport_setup =
  ts_url :: string
  ts_key :: string
  ts_secret :: string
  ts_flush :: flush_cfg
  ts_attempts :: int
  ts_bisects :: int
  ts_tls :: "verify_setting \<times> (string \<times> string) option"
  ts_edge :: edge_setup

definition flush_setting :: "(string \<Rightarrow> string option) \<Rightarrow> flush_cfg \<Rightarrow> flush_cfg" where
  "flush_setting env c =
     \<lparr>fc_batch_size = int_setting env ''NULLRUN_BATCH_SIZE'' (fc_batch_size c),
      fc_interval =
        (case env ''NULLRUN_FLUSH_INTERVAL_MS'' of
           None \<Rightarrow> fc_interval c
         | Some s \<Rightarrow> (case parse_int s of None \<Rightarrow> fc_interval c | Some n \<Rightarrow> of_int n / 1000))\<rparr>"

definition strip_slashes :: "string \<Rightarrow> string" where
  "strip_slashes s = rev (dropWhile (\<lambda>c. c = CHR ''/'') (rev s))"

text \<open>\<open>client\<close> is the construction of the HTTP client, which raises for a certificate it cannot load.\<close>

definition transport_setup ::
  "(string \<Rightarrow> bool) \<Rightarrow> (string \<Rightarrow> rat option) \<Rightarrow> (verify_setting \<times> (string \<times> string) option \<Rightarrow> string option)
     \<Rightarrow> (string \<Rightarrow> string option) \<Rightarrow> string \<Rightarrow> string \<Rightarrow> string \<Rightarrow> flush_cfg \<Rightarrow> setup_error + transport_setup" where
  "transport_setup loopback6 float_of client env api_url key secret c =
     (let url = strip_slashes api_url in
      case urlsplit url of
        None \<Rightarrow> Inl (SetupRaises ''ValueError'')
      | Some u \<Rightarrow>
          (if up_scheme u = ''http'' \<and> \<not> plain_allowed loopback6 (url_host u) then Inl (InsecureTransport url)
           else
             (case strict_int env ''NULLRUN_MAX_BATCH_ATTEMPTS'' 10 of
                Inl x \<Rightarrow> Inl (SetupRaises x)
              | Inr tries \<Rightarrow>
                  (case strict_int env ''NULLRUN_MAX_BISECT_REQUESTS'' 64 of
                     Inl x \<Rightarrow> Inl (SetupRaises x)
                   | Inr bisects \<Rightarrow>
                       (case client (tls_setting env) of
                          Some x \<Rightarrow> Inl (SetupRaises x)
                        | None \<Rightarrow>
                            (case edge_transport_from_env float_of env of
                               EdgeMisconfigured x \<Rightarrow> Inl (EdgeRefused x)
                             | edge \<Rightarrow>
                                 Inr \<lparr>ts_url = url, ts_key = key, ts_secret = secret, ts_flush = flush_setting env c,
                                      ts_attempts = tries, ts_bisects = bisects, ts_tls = tls_setting env,
                                      ts_edge = edge\<rparr>))))))"

section \<open>Headers and addresses\<close>

definition auth_headers :: "string \<Rightarrow> (string \<times> string) list" where
  "auth_headers key =
     (''Content-Type'', ''application/json'')
     # (if key = [] then [] else [(''X-API-Key'', key), (''Authorization'', ''Bearer '' @ key)])"

definition set_all :: "(string \<times> string) list \<Rightarrow> (string \<times> string) list \<Rightarrow> (string \<times> string) list" where
  "set_all kvs d = fold (\<lambda>(k, v). dict_set k v) kvs d"

text \<open>\<open>trace\<close> are the headers of the tracing library, empty without it; \<open>proto\<close> is the protocol version.\<close>

definition auth_headers_for_get :: "string \<Rightarrow> (string \<times> string) list \<Rightarrow> string \<Rightarrow> (string \<times> string) list" where
  "auth_headers_for_get proto trace key =
     set_all trace (dict_set ''X-NULLRUN-PROTOCOL'' proto (auth_headers key))"

definition build_signed_headers ::
  "chan_env \<Rightarrow> string \<Rightarrow> (string \<times> string) list \<Rightarrow> int \<Rightarrow> string \<Rightarrow> string \<Rightarrow> string option \<Rightarrow> (string \<times> string) list
     \<Rightarrow> (string \<times> string) list" where
  "build_signed_headers E proto trace now key secret body extra =
     (let d = (case body of
                 Some b \<Rightarrow>
                   if secret \<noteq> [] \<and> key \<noteq> []
                   then auth_headers key @ [(''X-Signature-Timestamp'', show_int now),
                                            (''X-Signature'', generate_hmac_signature E key secret now b)]
                   else auth_headers key
               | None \<Rightarrow> auth_headers key) in
      set_all trace (dict_set ''X-NULLRUN-PROTOCOL'' proto (set_all extra d)))"

text \<open>The address of the control channel, with the path replaced; other schemes are refused.\<close>

definition control_url :: "string \<Rightarrow> string \<Rightarrow> string + string" where
  "control_url url org =
     (case urlsplit url of
        None \<Rightarrow> Inl ''ValueError''
      | Some u \<Rightarrow>
          (if up_scheme u \<notin> {''http'', ''https''} then Inl ''ValueError''
           else Inr ((if up_scheme u = ''https'' then ''wss'' else ''ws'') @ ''://'' @ up_netloc u @ ''/ws/control/'' @ org)))"

section \<open>Durability probes and the lock\<close>

text \<open>\<open>lk_warned\<close> are the aspects already warned of, \<open>lk_fsync\<close> the cached probe of the directory.\<close>

record 'w durable =
  lk_warned :: "string list"
  lk_fsync :: "bool option"
  lk_metrics :: registry
  lk_world :: 'w

definition set_metric :: "string \<Rightarrow> json \<Rightarrow> 'w durable \<Rightarrow> 'w durable" where
  "set_metric k v s = s\<lparr>lk_metrics := metric_run [SetTransport k v] (lk_metrics s)\<rparr>"

definition warn_degraded_once :: "string \<Rightarrow> string \<Rightarrow> 'w durable \<Rightarrow> 'w durable" where
  "warn_degraded_once aspect state s =
     (let s1 = set_metric (''wal_'' @ aspect) (JStr state) s in
      if aspect \<in> set (lk_warned s1) then s1 else s1\<lparr>lk_warned := lk_warned s1 @ [aspect]\<rparr>)"

definition dir_fsync_supported :: "('w \<Rightarrow> bool \<times> 'w) \<Rightarrow> 'w durable \<Rightarrow> bool \<times> 'w durable" where
  "dir_fsync_supported probe s =
     (case lk_fsync s of
        Some b \<Rightarrow> (b, s)
      | None \<Rightarrow>
          (case probe (lk_world s) of
             (ok, w1) \<Rightarrow>
               (let s1 = s\<lparr>lk_fsync := Some ok, lk_world := w1\<rparr> in
                (ok, if ok then set_metric ''wal_dir_fsync'' (JStr ''enabled'') s1
                     else warn_degraded_once ''dir_fsync'' ''unavailable'' s1))))"

record 'w lock_env =
  le_fcntl :: bool
  le_mkdir :: "'w \<Rightarrow> bool \<times> 'w"
  le_open :: "'w \<Rightarrow> bool \<times> 'w"
  le_try :: "'w \<Rightarrow> bool \<times> 'w"
  le_clock :: "'w \<Rightarrow> rat"
  le_nap :: "rat \<Rightarrow> 'w \<Rightarrow> 'w"
  le_release :: "'w \<Rightarrow> 'w"
  le_timeout :: rat

text \<open>\<open>while True\<close>: try, look at the clock, nap for 20 ms.  \<open>None\<close> is a wait longer than the fuel.\<close>

definition deadline_step :: rat where "deadline_step = 1 / 50"

fun lock_wait :: "nat \<Rightarrow> 'w lock_env \<Rightarrow> rat \<Rightarrow> 'w \<Rightarrow> (bool \<times> 'w) option" where
  "lock_wait 0 E start w = None"
| "lock_wait (Suc n) E start w =
     (case le_try E w of
        (True, w1) \<Rightarrow> Some (True, w1)
      | (False, w1) \<Rightarrow>
          (if le_clock E w1 - start \<ge> le_timeout E then Some (False, w1) else lock_wait n E start (le_nap E deadline_step w1)))"

text \<open>What the block under the lock is told, and whether the lock is held while it runs.\<close>

datatype grant = Locked | Unlocked | Denied

definition acquire_wal_lock :: "nat \<Rightarrow> 'w lock_env \<Rightarrow> 'w durable \<Rightarrow> (grant \<times> 'w durable) option" where
  "acquire_wal_lock n E s =
     (if \<not> le_fcntl E then Some (Unlocked, warn_degraded_once ''lock'' ''unavailable'' s)
      else
        (case le_mkdir E (lk_world s) of
           (False, w1) \<Rightarrow> Some (Denied, s\<lparr>lk_world := w1\<rparr>)
         | (True, w1) \<Rightarrow>
             (case le_open E w1 of
                (False, w2) \<Rightarrow> Some (Unlocked, warn_degraded_once ''lock'' ''unavailable'' (s\<lparr>lk_world := w2\<rparr>))
              | (True, w2) \<Rightarrow>
                  (case lock_wait n E (le_clock E w2) w2 of
                     None \<Rightarrow> None
                   | Some (ok, w3) \<Rightarrow>
                       (let s3 = s\<lparr>lk_world := w3\<rparr> in
                        if \<not> ok then
                          Some (Denied,
                                s3\<lparr>lk_metrics := metric_run
                                     [SetTransport ''wal_lock'' (JStr ''contended''), IncTransport ''wal_lock_timeouts_total'' 1]
                                     (lk_metrics s3)\<rparr>)
                        else
                          (let s4 = (if le_clock E w3 - le_clock E w2 > deadline_step
                                     then set_metric ''wal_lock'' (JStr ''contended'') s3 else s3) in
                           Some (Locked, set_metric ''wal_lock'' (JStr ''enabled'') s4)))))))"

text \<open>The block sees whether it may write; a lock that was granted is released after it.\<close>

definition with_wal_lock ::
  "nat \<Rightarrow> 'w lock_env \<Rightarrow> (bool \<Rightarrow> 'w durable \<Rightarrow> 'r \<times> 'w durable) \<Rightarrow> 'w durable \<Rightarrow> ('r \<times> 'w durable) option" where
  "with_wal_lock n E block s =
     (case acquire_wal_lock n E s of
        None \<Rightarrow> None
      | Some (g, s1) \<Rightarrow>
          (case block (g \<noteq> Denied) s1 of
             (r, s2) \<Rightarrow> Some (r, if g = Locked then s2\<lparr>lk_world := le_release E (lk_world s2)\<rparr> else s2)))"

section \<open>Laws of the construction\<close>

lemma setup_cases:
  assumes "urlsplit (strip_slashes api_url) = Some u"
  shows "(\<exists>x. transport_setup l6 float_of client env api_url key secret c = Inl (InsecureTransport x))
    \<longleftrightarrow> up_scheme u = ''http'' \<and> \<not> plain_allowed l6 (url_host u)"
  using assms by (auto simp: transport_setup_def Let_def split: sum.split option.split edge_setup.split)

lemma show_nat_snoc: "0 < a \<Longrightarrow> n < 10 \<Longrightarrow> show_nat (10 * a + n) = show_nat a @ [char_of (48 + n)]"
  by (subst show_nat.simps) simp

lemma digit_step:
  assumes "digits_value acc (c # cs) = Some n"
  shows "\<exists>d. d < 10 \<and> c = char_of (48 + d) \<and> digits_value (10 * acc + int d) cs = Some n"
proof -
  let ?k = "of_char c :: nat"
  have k: "(of_char c :: int) = int ?k" by (rule of_nat_of_char [symmetric])
  have "48 \<le> int ?k \<and> int ?k \<le> 57 \<and> digits_value (10 * acc + (int ?k - 48)) cs = Some n"
    using assms unfolding digits_value.simps k Let_def by (simp split: if_splits)
  moreover define d where "d = ?k - 48"
  ultimately have "?k = 48 + d" "d < 10" "digits_value (10 * acc + int d) cs = Some n"
    by (auto simp: of_nat_diff)
  moreover have "c = char_of ?k" by simp
  ultimately show ?thesis by metis
qed

lemma digits_value_show:
  "digits_value (int a) s = Some n \<Longrightarrow> 0 < a \<Longrightarrow> n \<ge> 0 \<and> show_nat (nat n) = show_nat a @ s"
proof (induction s arbitrary: a)
  case (Cons c cs)
  from digit_step [OF Cons.prems(1)] obtain d where
    d: "d < 10" "c = char_of (48 + d)" "digits_value (int (10 * a + d)) cs = Some n" by auto
  from Cons.IH [OF d(3)] show ?case
    using Cons.prems(2) show_nat_snoc [OF Cons.prems(2) d(1)] d(2) by simp
qed auto

text \<open>An octet is the decimal text of a number up to 255.\<close>

lemma octet_text: "octet s = Some n \<Longrightarrow> 0 \<le> n \<and> n \<le> 255 \<and> s = show_nat (nat n)"
proof (cases s)
  case (Cons c cs)
  assume "octet s = Some n"
  then have v: "digits_value 0 (c # cs) = Some n" "n \<le> 255" "cs \<noteq> [] \<longrightarrow> c \<noteq> CHR ''0''"
    unfolding Cons by (auto simp: octet_def simp del: digits_value.simps split: if_splits option.splits)
  from digit_step [OF v(1)] obtain d where
    d: "d < 10" "c = char_of (48 + d)" "digits_value (int d) cs = Some n" by auto
  have one: "show_nat d = [c]"
    using d(1,2) by (subst show_nat.simps) simp
  show ?thesis
  proof (cases "cs = []")
    case True
    with d(3) one v(2) Cons show ?thesis by auto
  next
    case False
    have "char_of (48 :: nat) = CHR ''0''" by code_simp
    with False v(3) d(2) have "0 < d" by (cases d) auto
    with digits_value_show [OF d(3)] one v(2) Cons show ?thesis by simp
  qed
qed (simp add: octet_def)

fun dotted :: "string list \<Rightarrow> string" where
  "dotted [] = []"
| "dotted [p] = p"
| "dotted (p # q # ps) = p @ CHR ''.'' # dotted (q # ps)"

lemma octets_of_dotted: "octets_of s \<noteq> [] \<and> dotted (octets_of s) = s"
proof (induction s)
  case (Cons c s)
  then obtain p ps where ps: "octets_of s = p # ps" by (cases "octets_of s") auto
  with Cons show ?case by (cases ps) auto
qed simp

definition loopback_quad :: "int \<Rightarrow> int \<Rightarrow> int \<Rightarrow> string" where
  "loopback_quad b c d = dotted (''127'' # map (\<lambda>n. show_nat (nat n)) [b, c, d])"

lemma loopback4_octets:
  assumes "loopback4 host"
  shows "\<exists>b c d. map octet (octets_of host) = [Some 127, Some b, Some c, Some d]"
proof -
  define os where "os = map octet (octets_of host)"
  have h: "case os of [Some a, Some b, Some c, Some d] \<Rightarrow> a = 127 | _ \<Rightarrow> False"
    using assms by (simp add: loopback4_def os_def)
  obtain a r1 where 1: "os = Some a # r1" using h by (cases os; cases "hd os") simp_all
  obtain b r2 where 2: "r1 = Some b # r2" using h unfolding 1 by (cases r1; cases "hd r1") simp_all
  obtain c r3 where 3: "r2 = Some c # r3" using h unfolding 1 2 by (cases r2; cases "hd r2") simp_all
  obtain d r4 where 4: "r3 = Some d # r4" using h unfolding 1 2 3 by (cases r3; cases "hd r3") simp_all
  have "r4 = []" "a = 127" using h unfolding 1 2 3 4 by (cases r4; simp)+
  then show ?thesis using 1 2 3 4 unfolding os_def by simp
qed

lemma loopback4_quad:
  assumes "loopback4 host"
  shows "\<exists>b c d. host = loopback_quad b c d \<and> {b, c, d} \<subseteq> {0..255}"
proof -
  obtain p q r t b c d where ps: "octets_of host = [p, q, r, t]" and
    os: "octet p = Some 127" "octet q = Some b" "octet r = Some c" "octet t = Some d"
    using loopback4_octets [OF assms] by (auto simp: map_eq_Cons_conv)
  have "host = dotted [p, q, r, t]" using octets_of_dotted [of host] ps by simp
  moreover have "show_nat 127 = ''127''" by code_simp
  ultimately show ?thesis
    using octet_text [OF os(1)] octet_text [OF os(2)] octet_text [OF os(3)] octet_text [OF os(4)]
    by (intro exI [of _ b] exI [of _ c] exI [of _ d]) (simp add: loopback_quad_def)
qed

text \<open>
  C26: plain HTTP is only for the own machine.  A transport whose URL has the scheme \<open>http\<close> has as its host the
  name localhost, a dotted quad of canonical octets whose first is 127, \<open>::1\<close>, or a text that \<open>ip_address\<close> takes
  for an IPv6 loopback address, whatever the settings, user information, port and spelling of the URL; every
  other scheme is taken without a look at the host.
\<close>

theorem plain_http_is_local:
  assumes "transport_setup l6 float_of client env api_url key secret c = Inr t"
  shows "\<exists>u. urlsplit (ts_url t) = Some u \<and> (up_scheme u = ''http'' \<longrightarrow>
    url_host u \<in> {''localhost'', ''::1''} \<or> l6 (url_host u)
    \<or> (\<exists>b c d. url_host u = loopback_quad b c d \<and> {b, c, d} \<subseteq> {0..255}))"
proof -
  obtain u where "urlsplit (ts_url t) = Some u" "up_scheme u = ''http'' \<longrightarrow> plain_allowed l6 (url_host u)"
    using assms by (auto simp: transport_setup_def Let_def split: sum.splits option.splits edge_setup.splits if_splits)
  then show ?thesis using loopback4_quad by (auto simp: plain_allowed_def)
qed

definition no_env :: "string \<Rightarrow> string option" where
  "no_env name = None"

definition stock_flush :: flush_cfg where
  "stock_flush = \<lparr>fc_batch_size = 50, fc_interval = 5\<rparr>"

definition set_up :: "(string \<Rightarrow> string option) \<Rightarrow> string \<Rightarrow> setup_error + transport_setup" where
  "set_up env url = transport_setup (\<lambda>h. False) (\<lambda>s. None) (\<lambda>t. None) env url ''key'' ''secret'' stock_flush"

theorem plain_http_is_local_witness:
  "\<exists>t u b c d. set_up no_env ''http://user@127.0.0.1:8080/v/'' = Inr t \<and> urlsplit (ts_url t) = Some u
     \<and> up_scheme u = ''http'' \<and> url_host u = loopback_quad b c d \<and> {b, c, d} \<subseteq> {0..255}"
proof -
  obtain t where t: "set_up no_env ''http://user@127.0.0.1:8080/v/'' = Inr t"
    by (cases "set_up no_env ''http://user@127.0.0.1:8080/v/''") (code_simp, simp)
  have url: "map_sum id ts_url (set_up no_env ''http://user@127.0.0.1:8080/v/'') = Inr ''http://user@127.0.0.1:8080/v''"
    "map_option up_scheme (urlsplit ''http://user@127.0.0.1:8080/v'') = Some ''http''"
    "map_option url_host (urlsplit ''http://user@127.0.0.1:8080/v'') = Some ''127.0.0.1''"
    by code_simp+
  from plain_http_is_local [OF t [unfolded set_up_def]] obtain u where
    u: "urlsplit (ts_url t) = Some u" and
    local: "up_scheme u = ''http'' \<longrightarrow> url_host u \<in> {''localhost'', ''::1''} \<or> False
      \<or> (\<exists>b c d. url_host u = loopback_quad b c d \<and> {b, c, d} \<subseteq> {0..255})" by blast
  have "up_scheme u = ''http''" "url_host u = ''127.0.0.1''"
    using t url u by simp_all
  with local t u show ?thesis by auto
qed

text \<open>A name that only looks local is refused, in any case and behind user information.\<close>

lemma lookalikes_refused:
  "set_up no_env ''http://localhost.example.com'' = Inl (InsecureTransport ''http://localhost.example.com'')"
  "set_up no_env ''HTTP://localhost@example.com/'' = Inl (InsecureTransport ''HTTP://localhost@example.com'')"
  "set_up no_env ''http://127.0.0.1.example.com'' = Inl (InsecureTransport ''http://127.0.0.1.example.com'')"
  by code_simp+

text \<open>An address without a scheme is taken, and the control channel then refuses it.\<close>

lemma schemeless_url:
  "\<exists>t. set_up no_env ''api.example.com'' = Inr t \<and> control_url (ts_url t) org = Inl ''ValueError''"
proof -
  have "map_sum id ts_url (set_up no_env ''api.example.com'') = Inr ''api.example.com''"
    "map_option up_scheme (urlsplit ''api.example.com'') = Some []"
    by code_simp+
  then show ?thesis
    by (cases "set_up no_env ''api.example.com''") (auto simp: control_url_def)
qed

text \<open>A client certificate without its key, or a key alone, is dropped without a word.\<close>

lemma half_mtls_dropped: "env_or env ''NULLRUN_TLS_CLIENT_KEY'' = [] \<Longrightarrow> snd (tls_setting env) = None"
  by (simp add: tls_setting_def Let_def)

text \<open>Of the numeric settings two raise for a text that is no number, the others keep their defaults.\<close>

lemma malformed_settings:
  "set_up (no_env(''NULLRUN_BATCH_SIZE'' := Some ''many'')) ''https://h'' = set_up no_env ''https://h''"
  "set_up (no_env(''NULLRUN_MAX_BATCH_ATTEMPTS'' := Some ''many'')) ''https://h'' = Inl (SetupRaises ''ValueError'')"
  by code_simp+

text \<open>The caps of the durable files are positive; the size of a batch need not be.\<close>

lemma positive_setting_pos: "0 < dflt \<Longrightarrow> 0 < positive_setting env name dflt"
  by (simp add: positive_setting_def Let_def split: option.split)

lemma caps_positive:
  "0 < wal_max_setting env" "0 < holdover_index_setting env" "0 < dflt \<Longrightarrow> 0 < dlq_max_setting dflt env"
  "0 < lock_timeout_setting float_of env"
  by (simp_all add: wal_max_setting_def holdover_index_setting_def dlq_max_setting_def positive_setting_pos
      lock_timeout_setting_def Let_def split: option.split)

lemma batch_size_zero: "fc_batch_size (flush_setting (no_env(''NULLRUN_BATCH_SIZE'' := Some ''0'')) c) = 0"
  by (simp add: flush_setting_def int_setting_def parse_int_def strip_def is_space_def)

section \<open>Laws of the headers\<close>

lemma get_set_all: "k \<notin> fst ` set kvs \<Longrightarrow> dict_get (set_all kvs d) k = dict_get d k"
  by (induction kvs arbitrary: d) (auto simp: set_all_def)

lemma disjoint_member: "A \<inter> B = {} \<Longrightarrow> k \<in> A \<Longrightarrow> k \<notin> B"
  by blast

text \<open>
  C29: a signed request verifies, for its own body only.  The headers of a request with a body carry the key, a
  timestamp, and as signature the keyed digest of timestamp, key and the digest of the body.  Within the age a
  receiver allows, the verification of the SDK accepts these headers with this body, and with another one only
  where the two bodies share their digest or the two signed texts their keyed digest.  Neither the tracing library nor the caller may
  write over these three headers.
\<close>

theorem signed_request_verifies:
  assumes "key \<noteq> []" "secret \<noteq> []" "\<bar>later - now\<bar> \<le> max_age"
    and "is_ascii (generate_hmac_signature E key secret now b)"
    and "{''X-API-Key'', ''X-Signature'', ''X-Signature-Timestamp''} \<inter> (fst ` set trace \<union> fst ` set extra) = {}"
    and "h = build_signed_headers E proto trace now key secret (Some b) extra"
  shows "\<exists>s. dict_get h ''X-Signature'' = Some s \<and> dict_get h ''X-Signature-Timestamp'' = Some (show_int now)
    \<and> dict_get h ''X-API-Key'' = Some key
    \<and> s = ce_hmac E secret (show_int now @ '':'' @ key @ '':'' @ ce_sha256 E b)
    \<and> (\<forall>b'. verify_hmac_signature E later key secret now b' (JStr s) max_age = Genuine \<longleftrightarrow>
           b' = b \<or> ce_sha256 E b' = ce_sha256 E b
           \<or> ce_hmac E secret (show_int now @ '':'' @ key @ '':'' @ ce_sha256 E b') = s)"
proof -
  let ?sig = "generate_hmac_signature E key secret now b"
  let ?d = "auth_headers key @ [(''X-Signature-Timestamp'', show_int now), (''X-Signature'', ?sig)]"
  have h: "h = set_all trace (dict_set ''X-NULLRUN-PROTOCOL'' proto (set_all extra ?d))"
    using assms(1,2) by (simp add: assms(6) build_signed_headers_def Let_def)
  have kept: "dict_get h k = dict_get ?d k"
    if "k \<notin> fst ` set trace" "k \<notin> fst ` set extra" "k \<noteq> ''X-NULLRUN-PROTOCOL''" for k
    unfolding h using that by (simp add: get_set_all)
  have free: "k \<notin> fst ` set trace" "k \<notin> fst ` set extra"
    if "k \<in> {''X-API-Key'', ''X-Signature'', ''X-Signature-Timestamp''}" for k
    using disjoint_member [OF assms(5) that] by (simp_all only: Un_iff simp_thms de_Morgan_disj)
  have "dict_get h ''X-API-Key'' = Some key"
    by (subst kept) (rule free | simp add: auth_headers_def assms(1))+
  moreover have "dict_get h ''X-Signature-Timestamp'' = Some (show_int now)"
    by (subst kept) (rule free | simp add: auth_headers_def assms(1))+
  moreover have "dict_get h ''X-Signature'' = Some ?sig"
    by (subst kept) (rule free | simp add: auth_headers_def assms(1))+
  ultimately show ?thesis
    using assms(3,4) by (auto simp: verify_hmac_signature_def generate_hmac_signature_def)
qed

definition plain_digests :: chan_env where
  "plain_digests = \<lparr>ce_loads = (\<lambda>b. None), ce_sha256 = (\<lambda>b. b), ce_hmac = (\<lambda>k m. k @ m)\<rparr>"

theorem signed_request_verifies_witness:
  "\<exists>s. dict_get (build_signed_headers plain_digests ''3'' [] 100 ''key'' ''secret'' (Some ''{}'') []) ''X-Signature'' = Some s
     \<and> verify_hmac_signature plain_digests 130 ''key'' ''secret'' 100 ''{}'' (JStr s) 300 = Genuine
     \<and> verify_hmac_signature plain_digests 130 ''key'' ''secret'' 100 ''{1}'' (JStr s) 300 \<noteq> Genuine"
proof -
  have "is_ascii (generate_hmac_signature plain_digests ''key'' ''secret'' 100 ''{}'')"
    by code_simp
  then show ?thesis
    using signed_request_verifies [where later = 130 and max_age = 300 and trace = "[]" and extra = "[]"
        and E = plain_digests and key = "''key''" and secret = "''secret''" and b = "''{}''" and now = 100
        and proto = "''3''"]
    by (auto simp: plain_digests_def)
qed

text \<open>A caller's extra header wins over the key and the signature, the protocol version over everything before it.\<close>

lemma extra_overrides_key:
  "dict_get (build_signed_headers E proto [] now key secret body [(''X-API-Key'', v)]) ''X-API-Key'' = Some v"
  by (simp add: build_signed_headers_def Let_def set_all_def)

text \<open>
  The control channel is encrypted exactly when the requests are, and goes to the same host; a path in the URL
  is used by the requests and dropped by the channel.
\<close>

lemma control_url_exact:
  assumes "urlsplit url = Some u" "up_scheme u \<in> {''http'', ''https''}"
  shows "control_url url org
    = Inr ((if up_scheme u = ''https'' then ''wss://'' else ''ws://'') @ up_netloc u @ ''/ws/control/'' @ org)"
  using assms by (auto simp: control_url_def)

lemma base_path_dropped: "control_url ''https://proxy.example/nullrun'' ''o1'' = Inr ''wss://proxy.example/ws/control/o1''"
  by code_simp

section \<open>Laws of the lock\<close>

text \<open>
  A clock on which a lock call takes at most \<open>d\<close> seconds and a nap of \<open>q\<close> seconds takes \<open>q\<close> seconds and at
  most \<open>d\<close> more.
\<close>

definition clock_runs :: "rat \<Rightarrow> 'w lock_env \<Rightarrow> bool" where
  "clock_runs d E \<longleftrightarrow>
     (\<forall>w. le_clock E w \<le> le_clock E (snd (le_try E w)) \<and> le_clock E (snd (le_try E w)) \<le> le_clock E w + d)
     \<and> (\<forall>q \<ge> 0. \<forall>w. le_clock E w + q \<le> le_clock E (le_nap E q w) \<and> le_clock E (le_nap E q w) \<le> le_clock E w + q + d)"

lemma clock_runsD:
  assumes "clock_runs d E" "le_try E w = (ok, w1)"
  shows "le_clock E w \<le> le_clock E w1" "le_clock E w1 \<le> le_clock E w + d"
    "le_clock E w1 + deadline_step \<le> le_clock E (le_nap E deadline_step w1)"
    "le_clock E (le_nap E deadline_step w1) \<le> le_clock E w1 + deadline_step + d"
proof -
  have "0 \<le> deadline_step" by (simp add: deadline_step_def)
  then show "le_clock E w \<le> le_clock E w1" "le_clock E w1 \<le> le_clock E w + d"
    "le_clock E w1 + deadline_step \<le> le_clock E (le_nap E deadline_step w1)"
    "le_clock E (le_nap E deadline_step w1) \<le> le_clock E w1 + deadline_step + d"
    using assms unfolding clock_runs_def by (metis snd_conv)+
qed

lemma lock_wait_ends:
  assumes "clock_runs d E" "le_timeout E \<le> le_clock E w - start + of_nat n * deadline_step"
  shows "\<exists>ok w'. lock_wait (Suc n) E start w = Some (ok, w')"
  using assms(2)
proof (induction n arbitrary: w)
  case (Suc n)
  obtain ok w1 where try_lock: "le_try E w = (ok, w1)" by fastforce
  from clock_runsD [OF assms(1) this] Suc.prems
  have "le_timeout E \<le> le_clock E (le_nap E deadline_step w1) - start + of_nat n * deadline_step"
    by (simp add: algebra_simps)
  from Suc.IH [OF this] show ?case
    using try_lock by (auto split: bool.split)
next
  case 0
  obtain ok w1 where try_lock: "le_try E w = (ok, w1)" by fastforce
  with clock_runsD(1) [OF assms(1) this] 0 show ?case by (auto split: bool.split)
qed

text \<open>However the wait ends, the timeout is passed by one nap and the slack of two calls at most.\<close>

lemma lock_wait_within:
  assumes "clock_runs d E" "0 \<le> d" "0 \<le> le_timeout E"
  shows "lock_wait n E start w = Some (ok, w') \<Longrightarrow> le_clock E w - start \<le> le_timeout E + deadline_step + d
    \<Longrightarrow> le_clock E w' - start \<le> le_timeout E + deadline_step + 2 * d"
proof (induction n arbitrary: w)
  case (Suc n)
  obtain got w1 where try_lock: "le_try E w = (got, w1)" by fastforce
  note c = clock_runsD [OF assms(1) this]
  show ?case
  proof (cases "got \<or> le_timeout E \<le> le_clock E w1 - start")
    case True
    with Suc.prems try_lock c(2) show ?thesis by (auto split: bool.splits if_splits)
  next
    case False
    with Suc.prems(1) try_lock have "lock_wait n E start (le_nap E deadline_step w1) = Some (ok, w')" by auto
    moreover have "le_clock E (le_nap E deadline_step w1) - start \<le> le_timeout E + deadline_step + d"
      using c(4) False by simp
    ultimately show ?thesis by (rule Suc.IH)
  qed
qed simp

lemma lock_wait_waited:
  "lock_wait n E start w = Some (False, w') \<Longrightarrow> le_timeout E \<le> le_clock E w' - start"
  by (induction n E start w rule: lock_wait.induct) (auto split: prod.splits bool.splits if_splits)

lemma metric_after_set:
  "jget (mr_transport (lk_metrics (set_metric k v s))) k' = (if k' = k then v else jget (mr_transport (lk_metrics s)) k')"
  by (simp add: set_metric_def metric_run_def metric_step_def)

text \<open>The world once the directory is made and the lock file is open.\<close>

definition lock_opened :: "'w lock_env \<Rightarrow> 'w \<Rightarrow> 'w" where
  "lock_opened E w = snd (le_open E (snd (le_mkdir E w)))"

text \<open>
  C34: waiting for the lock ends in time, and nothing is written in vain.  On a clock on which a lock call takes
  at most \<open>d\<close> seconds and a nap ends at most \<open>d\<close> seconds late, the call ends, and from the open lock file on it
  takes at most the timeout, one nap of 20 ms and \<open>2 d\<close>.  A block that may write holds the lock unless the
  platform has none or its file cannot be opened; it is turned away only when the directory cannot be made or
  when the whole timeout has passed.
\<close>

theorem wal_lock_bounded:
  assumes "clock_runs d E" "0 \<le> d" "0 \<le> le_timeout E" "le_timeout E \<le> of_nat n * (1 / 50)"
  shows "\<exists>g s'. acquire_wal_lock (Suc n) E s = Some (g, s')
    \<and> (g = Unlocked \<longrightarrow> \<not> le_fcntl E \<or> \<not> fst (le_open E (snd (le_mkdir E (lk_world s)))))
    \<and> (g = Denied \<longrightarrow> \<not> fst (le_mkdir E (lk_world s))
         \<or> le_timeout E \<le> le_clock E (lk_world s') - le_clock E (lock_opened E (lk_world s)))
    \<and> (g = Locked \<or> g = Denied \<and> fst (le_mkdir E (lk_world s)) \<longrightarrow>
         le_clock E (lk_world s') - le_clock E (lock_opened E (lk_world s)) \<le> le_timeout E + 1 / 50 + 2 * d)"
proof -
  have ends: "\<exists>ok w'. lock_wait (Suc n) E (le_clock E w) w = Some (ok, w')" for w
    using assms(1,4) by (intro lock_wait_ends) (auto simp: deadline_step_def)
  obtain made w1 where mk: "le_mkdir E (lk_world s) = (made, w1)" by fastforce
  obtain opened w2 where op: "le_open E w1 = (opened, w2)" by fastforce
  obtain ok w3 where wt: "lock_wait (Suc n) E (le_clock E w2) w2 = Some (ok, w3)" using ends by blast
  have late: "ok \<or> le_timeout E \<le> le_clock E w3 - le_clock E w2"
    using wt lock_wait_waited [of "Suc n" E "le_clock E w2" w2 w3] by (cases ok) (auto simp del: lock_wait.simps)
  have "le_clock E w3 - le_clock E w2 \<le> le_timeout E + 1 / 50 + 2 * d"
    using lock_wait_within [OF assms(1-3) wt] assms(2,3) by (simp add: deadline_step_def)
  with mk op wt late show ?thesis
    by (cases made; cases opened; cases ok)
      (auto simp: acquire_wal_lock_def lock_opened_def set_metric_def warn_degraded_once_def Let_def
         simp del: lock_wait.simps)
qed

definition held_for :: "nat \<Rightarrow> rat lock_env" where
  "held_for k =
     \<lparr>le_fcntl = True, le_mkdir = Pair True, le_open = Pair True, le_try = (\<lambda>w. (of_nat k / 50 \<le> w, w)),
      le_clock = id, le_nap = (+), le_release = id, le_timeout = 5\<rparr>"

definition calm_durable :: "rat durable" where
  "calm_durable = \<lparr>lk_warned = [], lk_fsync = None, lk_metrics = fresh_registry, lk_world = 0\<rparr>"

theorem wal_lock_bounded_witness:
  "\<exists>g s'. acquire_wal_lock (Suc 250) (held_for 3) calm_durable = Some (g, s') \<and> g \<noteq> Unlocked
     \<and> lk_world s' \<le> 5 + 1 / 50"
proof -
  have "clock_runs 0 (held_for 3)" "le_timeout (held_for 3) \<le> of_nat 250 * (1 / 50)" "0 \<le> le_timeout (held_for 3)"
    by (simp_all add: clock_runs_def held_for_def)
  from wal_lock_bounded [OF this(1) _ this(3,2), of calm_durable] show ?thesis
    by (auto simp: held_for_def lock_opened_def calm_durable_def intro: grant.exhaust)
qed

text \<open>A grant after a long wait is never seen: the state \<open>contended\<close> is overwritten at once.\<close>

lemma contention_overwritten:
  "acquire_wal_lock n E s = Some (Locked, s') \<Longrightarrow> jget (mr_transport (lk_metrics s')) ''wal_lock'' = JStr ''enabled''"
  by (auto simp: acquire_wal_lock_def Let_def metric_after_set split: if_splits prod.splits bool.splits option.splits)

text \<open>The probe of the directory is asked once.\<close>

lemma fsync_probed_once:
  "dir_fsync_supported probe s = (ok, s1) \<Longrightarrow> dir_fsync_supported probe' s1 = (ok, s1)"
  by (auto simp: dir_fsync_supported_def Let_def set_metric_def warn_degraded_once_def split: option.splits prod.splits if_splits)

end
