(* ===== verification/Deferred.thy ===== *)
theory Deferred
  imports Protect_Laws Langgraph_Laws
begin

text \<open>
  The bridge from the LangChain callback to protected calls (\<open>_raise_deferred_enforcement\<close> in
  \<open>src/nullrun/decorators.py\<close>): what the callback could not enforce is raised by the next protected call of the
  thread.  \<open>stash\<close> and \<open>put\<close> read and write the state of the callback in the world of the call.
\<close>

definition raise_deferred_enforcement ::
  "('w \<Rightarrow> lc_state) \<Rightarrow> (lc_state \<Rightarrow> 'w \<Rightarrow> 'w) \<Rightarrow> 'w \<Rightarrow> protect_exn option \<times> 'w" where
  "raise_deferred_enforcement stash put w =
     (case drain_deferred_enforcement (stash w) of
        (None, st) \<Rightarrow> (None, w)
      | (Some x, st) \<Rightarrow> (Some (Refused x), put st w))"

definition bridged :: "('w \<Rightarrow> lc_state) \<Rightarrow> (lc_state \<Rightarrow> 'w \<Rightarrow> 'w) \<Rightarrow> 'w protect_env \<Rightarrow> 'w protect_env" where
  "bridged stash put P = P\<lparr>pr_deferred := raise_deferred_enforcement stash put\<rparr>"

definition unbridged :: "'w protect_env \<Rightarrow> 'w protect_env" where
  "unbridged P = P\<lparr>pr_deferred := Pair None\<rparr>"

section \<open>The drain is the end of the gates\<close>

lemma deferred_update:
  "pr_plane (P\<lparr>pr_deferred := d\<rparr>) = pr_plane P" "pr_execute (P\<lparr>pr_deferred := d\<rparr>) = pr_execute P"
  "pr_cfg (P\<lparr>pr_deferred := d\<rparr>) = pr_cfg P" "pr_context (P\<lparr>pr_deferred := d\<rparr>) = pr_context P"
  "pr_sha256 (P\<lparr>pr_deferred := d\<rparr>) = pr_sha256 P" "pr_float_repr (P\<lparr>pr_deferred := d\<rparr>) = pr_float_repr P"
  "pr_emit (P\<lparr>pr_deferred := d\<rparr>) = pr_emit P" "pr_deferred (P\<lparr>pr_deferred := d\<rparr>) = d"
  by simp_all

lemma parts_ignore_deferred:
  "gate_context (P\<lparr>pr_deferred := d\<rparr>) = gate_context P" "policy_call (P\<lparr>pr_deferred := d\<rparr>) = policy_call P"
  "policy_verdict (P\<lparr>pr_deferred := d\<rparr>) = policy_verdict P"
  unfolding gate_context_def [abs_def] policy_call_def [abs_def] policy_verdict_def [abs_def]
    digest_of_def unavailable_def deferred_update
  by (rule refl)+

lemma policy_gate_ignores_deferred:
  "run_tool_policy_gate (P\<lparr>pr_deferred := d\<rparr>) c s w = run_tool_policy_gate P c s w"
  unfolding run_tool_policy_gate_def parts_ignore_deferred deferred_update by (rule refl)

lemma gates_bridged:
  "protect_gates (bridged stash put P) c s w =
     (case protect_gates (unbridged P) c s w of
        (Some x, s1, w1) \<Rightarrow> (Some x, s1, w1)
      | (None, s1, w1) \<Rightarrow> (case raise_deferred_enforcement stash put w1 of (d, w2) \<Rightarrow> (d, s1, w2)))"
  unfolding protect_gates_def bridged_def unbridged_def parts_ignore_deferred deferred_update
    policy_gate_ignores_deferred
  by (simp add: Let_def split: prod.split sum.split option.split)

lemma enter_bridged: "protect_enter (bridged stash put P) c s w = protect_enter (unbridged P) c s w"
  unfolding protect_enter_def bridged_def unbridged_def deferred_update by (rule refl)

text \<open>No body runs while a refusal is pending.\<close>

lemma body_needs_empty_stash:
  assumes "protect_gates (bridged stash put P) c s w = (None, s', w')"
  shows "lg_deferred (stash w') = []"
  using assms by (auto simp: gates_bridged raise_deferred_enforcement_def drain_deferred_enforcement_def
      split: prod.splits option.splits list.splits)

text \<open>
  C23: a deferred refusal stops the next protected call.  When every gate of a call passes and a refusal of the
  callback is pending, the call raises the oldest pending refusal (a stop as a block, where the call is synchronous), whatever its body is and does; the others
  stay pending.  The stash is not asked to which workflow the refusal belongs or whether it still holds.
\<close>

theorem deferred_refusal_stops_call:
  assumes "protect_enter (unbridged P) c s w = (None, s1, w1)" "protect_gates (unbridged P) c s1 w1 = (None, s2, w2)"
    and "lg_deferred (stash w2) = x # xs"
  shows "fst (protect_call (bridged stash put P) sync c s w) = Inl (unify_block sync (Refused x))
    \<and> protect_gates (bridged stash put P) c s1 w1 = (Some (Refused x), s2, put ((stash w2)\<lparr>lg_deferred := xs\<rparr>) w2)
    \<and> protect_call ((bridged stash put P)\<lparr>pr_body := b\<rparr>) sync c s w = protect_call (bridged stash put P) sync c s w"
proof -
  have gates: "protect_gates (bridged stash put P) c s1 w1
      = (Some (Refused x), s2, put ((stash w2)\<lparr>lg_deferred := xs\<rparr>) w2)"
    using assms(2,3) by (simp add: gates_bridged raise_deferred_enforcement_def drain_deferred_enforcement_def)
  have enter: "protect_enter (bridged stash put P) c s w = (None, s1, w1)"
    using assms(1) by (simp add: enter_bridged)
  show ?thesis
    using gates enter refused_ignores_body [OF enter gates, of b sync]
    by (simp add: protect_call_def protect_fail_def Let_def split: prod.split)
qed

section \<open>A concrete call\<close>

definition one_pending :: "nat \<Rightarrow> lc_state" where
  "one_pending n = \<lparr>lg_runs = [], lg_deferred = [PyError ''denied''], lg_track = running_state\<rparr>"

theorem deferred_refusal_stops_call_witness:
  "fst (protect_call (bridged one_pending (\<lambda>st n. n) (calm_env (\<lambda>a n. (Inr (JObj allowed_body), n)) (JInt 1))) True
     pay_call (idle_context free_plane JNull) 0) = Inl (Refused (PyError ''denied''))"
proof -
  let ?P = "calm_env (\<lambda>a n. (Inr (JObj allowed_body), n)) (JInt 1)"
  have same: "unbridged ?P = ?P"
    by (simp add: unbridged_def calm_env_def fun_eq_iff)
  obtain s1 n1 s2 n2 where "protect_enter ?P pay_call (idle_context free_plane JNull) 0 = (None, s1, n1)"
    "protect_gates ?P pay_call s1 n1 = (None, s2, n2)"
    using calm_call [OF pay_call_built, of "\<lambda>a n. (Inr (JObj allowed_body), n)" allowed_body "JInt 1" JNull 0 True]
      allowed_body_read by auto
  moreover have "lg_deferred (one_pending n2) = PyError ''denied'' # []"
    by (simp add: one_pending_def)
  ultimately have "fst (protect_call (bridged one_pending (\<lambda>st n. n) ?P) True pay_call (idle_context free_plane JNull) 0)
      = Inl (unify_block True (Refused (PyError ''denied'')))"
    using deferred_refusal_stops_call [of ?P, unfolded same] by blast
  then show ?thesis
    by (simp add: unify_block_def stop_signal_def)
qed

end
