(* ===== verification/Wal_Status.thy ===== *)
theory Wal_Status
  imports Wal_Admin
begin

text \<open>
  The status command of \<open>nullrun-wal\<close> (\<open>_cmd_status\<close> and \<open>main\<close> in \<open>src/nullrun/wal_admin.py\<close>): its report as
  data, its exit code and the errors it raises.
\<close>

section \<open>The report\<close>

text \<open>\<open>Counter.most_common\<close>: the counts in falling order, equal ones in order of first occurrence.\<close>

definition count_reasons :: "string list \<Rightarrow> (string \<times> nat) list" where
  "count_reasons rs = fold (\<lambda>r d. dict_set r (Suc (case dict_get d r of None \<Rightarrow> 0 | Some n \<Rightarrow> n)) d) rs []"

definition most_common :: "(string \<times> nat) list \<Rightarrow> (string \<times> nat) list" where
  "most_common d = sort_key (\<lambda>(r, n). - int n) d"

definition failed_at :: "dlq_row \<Rightarrow> rat" where
  "failed_at r = (case r_first_failed_at r of None \<Rightarrow> 0 | Some t \<Rightarrow> t)"

record status_report =
  sr_held :: nat
  sr_rows :: nat
  sr_corrupt :: nat
  sr_reasons :: "(string \<times> nat) list"
  sr_window :: "(rat \<times> rat) option"

text \<open>\<open>min\<close> and \<open>max\<close> raise for no rows.  The oldest time decides whether the window is shown.\<close>

definition cmd_status :: "bool \<Rightarrow> bool \<Rightarrow> disk \<Rightarrow> string + status_report" where
  "cmd_status holdover_readable dlq_readable d =
     (let held = length (fst (read_dlq holdover_readable (holdover_file d))) in
      case read_dlq dlq_readable (dlq_file d) of
        (rows, corrupt) \<Rightarrow>
          (if rows = [] \<and> corrupt = []
           then Inr \<lparr>sr_held = held, sr_rows = 0, sr_corrupt = 0, sr_reasons = [], sr_window = None\<rparr>
           else if rows = [] then Inl ''ValueError''
           else
             (let oldest = Min (set (map failed_at rows)); newest = Max (set (map failed_at rows)) in
              Inr \<lparr>sr_held = held, sr_rows = length rows, sr_corrupt = length corrupt,
                   sr_reasons = most_common (count_reasons (map row_reason rows)),
                   sr_window = (if oldest \<noteq> 0 then Some (oldest, newest) else None)\<rparr>)))"

datatype wal_command = StatusCommand | ReplayCommand | NoCommand

text \<open>The exit code; without a command the help is printed.\<close>

definition wal_main ::
  "wal_command \<Rightarrow> bool \<Rightarrow> bool \<Rightarrow> disk \<Rightarrow> ('w \<Rightarrow> (string + int) \<times> 'w) \<Rightarrow> 'w \<Rightarrow> (string + int) \<times> 'w" where
  "wal_main cmd holdover_readable dlq_readable d run_replay w =
     (case cmd of
        StatusCommand \<Rightarrow> (map_sum id (\<lambda>r. 0) (cmd_status holdover_readable dlq_readable d), w)
      | ReplayCommand \<Rightarrow> run_replay w
      | NoCommand \<Rightarrow> (Inr 1, w))"

section \<open>Laws\<close>

lemma count_reasons_get:
  "dict_get (fold (\<lambda>r d. dict_set r (Suc (case dict_get d r of None \<Rightarrow> 0 | Some n \<Rightarrow> n)) d) rs d) k
     = (if k \<in> set rs then Some (count_list rs k + (case dict_get d k of None \<Rightarrow> 0 | Some n \<Rightarrow> n)) else dict_get d k)"
  by (induction rs arbitrary: d) (auto split: option.split)

lemma count_reasons_wf:
  "wf_dict d \<Longrightarrow> wf_dict (fold (\<lambda>r d. dict_set r (Suc (case dict_get d r of None \<Rightarrow> 0 | Some n \<Rightarrow> n)) d) rs d)"
  by (induction rs arbitrary: d) auto

lemma most_common_get: "wf_dict d \<Longrightarrow> dict_get (most_common d) k = dict_get d k"
  unfolding dict_get_def most_common_def wf_dict_def by (intro map_of_inject_set [THEN iffD2, THEN fun_cong])
    (auto simp: distinct_map intro: inj_on_subset)

text \<open>
  the status of the dead letters is exact.  A report counts every row once under its reason, and the
  most frequent reason comes first; the command fails exactly when the file has lines and none of them is a row.
\<close>

theorem wal_status_exact:
  assumes "read_dlq dlq_readable (dlq_file d) = (rows, corrupt)"
  shows "(case cmd_status holdover_readable dlq_readable d of
      Inl x \<Rightarrow> rows = [] \<and> corrupt \<noteq> []
    | Inr r \<Rightarrow> sr_rows r = length rows \<and> sr_corrupt r = length corrupt
        \<and> (rows = [] \<longrightarrow> corrupt = [])
        \<and> (\<forall>k. dict_get (sr_reasons r) k
             = (if k \<in> row_reason ` set rows then Some (count_list (map row_reason rows) k) else None))
        \<and> sorted (map (\<lambda>(k, n). - int n) (sr_reasons r)))"
proof (cases "rows = []")
  case False
  have wf: "wf_dict (count_reasons (map row_reason rows))"
    unfolding count_reasons_def by (rule count_reasons_wf) simp
  have "dict_get (most_common (count_reasons (map row_reason rows))) k
      = (if k \<in> row_reason ` set rows then Some (count_list (map row_reason rows) k) else None)" for k
    unfolding most_common_get [OF wf] by (simp add: count_reasons_def count_reasons_get)
  moreover have "sorted (map (\<lambda>(k, n). - int n) (most_common (count_reasons (map row_reason rows))))"
    unfolding most_common_def by (rule sorted_sort_key)
  ultimately show ?thesis
    using assms False by (simp add: cmd_status_def Let_def)
qed (use assms in \<open>simp add: cmd_status_def Let_def\<close>)

definition refused_row :: "string \<Rightarrow> dlq_row" where
  "refused_row why =
     \<lparr>r_version = Some 1, r_event = None, r_error = None, r_reason = Some why, r_event_type = None,
      r_first_failed_at = Some 7, r_attempts = None, r_raw = None\<rparr>"

definition three_rows :: disk where
  "three_rows = empty_disk\<lparr>dlq_file :=
     Some \<lparr>complete = [Row (refused_row ''a''), Row (refused_row ''b''), Row (refused_row ''b'')], torn = None\<rparr>\<rparr>"

theorem wal_status_exact_witness:
  "\<exists>r. cmd_status True True three_rows = Inr r \<and> sr_rows r = 3 \<and> dict_get (sr_reasons r) ''b'' = Some 2"
proof -
  let ?rows = "[refused_row ''a'', refused_row ''b'', refused_row ''b'']"
  have rows: "read_dlq True (dlq_file three_rows) = (?rows, [])"
    by (simp add: read_dlq_def three_rows_def empty_disk_def all_lines_def)
  show ?thesis
    using wal_status_exact [OF rows, of True]
    by (cases "cmd_status True True three_rows") (auto simp: row_reason_def refused_row_def)
qed

text \<open>A file of nothing but unreadable lines, which is when the status is wanted most, ends the command.\<close>

lemma junk_breaks_status:
  "cmd_status True True (empty_disk\<lparr>dlq_file := Some \<lparr>complete = [Junk ''x''], torn = None\<rparr>\<rparr>) = Inl ''ValueError''"
  by (simp add: cmd_status_def read_dlq_def all_lines_def)

text \<open>One row without a time hides the window of all others.\<close>

lemma timeless_row_hides_window:
  assumes "read_dlq dlq_readable (dlq_file d) = (rows, corrupt)" "r \<in> set rows" "r_first_failed_at r = None"
    and "\<forall>q \<in> set rows. 0 \<le> failed_at q" "cmd_status holdover_readable dlq_readable d = Inr rep"
  shows "sr_window rep = None"
proof -
  have "failed_at r = 0" using assms(3) by (simp add: failed_at_def)
  then have "Min (set (map failed_at rows)) = 0"
    using assms(2,4) by (intro Min_eqI) force+
  then show ?thesis
    using assms(1,5) by (auto simp: cmd_status_def Let_def split: if_splits)
qed

end
