(* ===== verification/Capture.thy ===== *)
theory Capture
  imports Llm_Transport
begin

text \<open>
  What an answer of the gate leaves in the context (\<open>_capture_server_minted_execution_id\<close> and
  \<open>_capture_wire_evidence\<close> in \<open>src/nullrun/runtime.py\<close>): the execution id with its age and idempotency key, and
  the evidence the server echoes.
\<close>

text \<open>A text is kept, whatever else is dropped.\<close>

definition evidence_text :: "dict \<Rightarrow> string \<Rightarrow> string option" where
  "evidence_text d k = (case jget d k of JStr s \<Rightarrow> Some s | _ \<Rightarrow> None)"

definition capture_wire_evidence :: "json \<Rightarrow> ctx \<Rightarrow> (string option \<times> string option) \<times> ctx" where
  "capture_wire_evidence response c =
     (case response of
        JObj d \<Rightarrow>
          ((evidence_text d ''action_digest'', evidence_text d ''policy_hash''),
           c\<lparr>v_gate_digest := evidence_text d ''action_digest'', v_policy_hash := evidence_text d ''policy_hash''\<rparr>)
      | _ \<Rightarrow> ((None, None), c\<lparr>v_gate_digest := None, v_policy_hash := None\<rparr>))"

text \<open>The key of the SDK wins over the one the server echoes; with neither the old key stays.\<close>

definition captured_key :: "dict \<Rightarrow> ctx \<Rightarrow> string option" where
  "captured_key d c =
     (let own = opt_text (v_operation c) in
      case jget d ''operation_id'' of
        JStr s \<Rightarrow>
          if s \<noteq> [] then Some (if own \<noteq> [] then own else s)
          else if own \<noteq> [] then Some own else v_idempotency c
      | _ \<Rightarrow> if own \<noteq> [] then Some own else v_idempotency c)"

definition capture_execution_id ::
  "(string \<Rightarrow> bool) \<Rightarrow> rat \<Rightarrow> json \<Rightarrow> ctx \<Rightarrow> string option \<times> ctx" where
  "capture_execution_id uuid_ok now response c =
     (case response of
        JObj d \<Rightarrow>
          (case jget d ''reservation_id'' of
             JStr s \<Rightarrow>
               if s \<noteq> [] \<and> uuid_ok s
               then (Some s,
                     snd (capture_wire_evidence response
                            (c\<lparr>v_minted := Some s, v_minted_at := now, v_idempotency := captured_key d c\<rparr>)))
               else (None, clear_server_minted_execution_id c)
           | _ \<Rightarrow> (None, clear_server_minted_execution_id c))
      | _ \<Rightarrow> (None, clear_server_minted_execution_id c))"

section \<open>Laws\<close>

text \<open>The gate of the model reads the same id.\<close>

lemma capture_refines_gate:
  "opt_json (fst (capture_execution_id (be_uuid_ok E) now response c)) = captured_reservation E response"
  by (auto simp: capture_execution_id_def captured_reservation_def opt_json_def split: json.split)

text \<open>With an operation id in the context the capture leaves the id, its age and the key that \<open>absorb_gate\<close> leaves.\<close>

lemma capture_agrees_absorb:
  assumes "capture_execution_id uuid_ok now response c = (Some s, c')" "v_operation c = Some op" "op \<noteq> []"
  shows "v_minted c' = Some s \<and> v_minted_at c' = now \<and> v_idempotency c' = Some op"
  using assms by (auto simp: capture_execution_id_def capture_wire_evidence_def captured_key_def opt_text_def Let_def
      split: json.splits if_splits)

definition answer_text :: "json \<Rightarrow> string \<Rightarrow> string option" where
  "answer_text response k = (case response of JObj d \<Rightarrow> evidence_text d k | _ \<Rightarrow> None)"

text \<open>
  the evidence in the context belongs to the execution id in the context.  After any sequence of answers
  the id, the action digest and the policy hash are those of the last answer; an answer without a usable id
  leaves none of the three.
\<close>

theorem evidence_belongs_to_id:
  assumes "c' = fold (\<lambda>(t, r) c. snd (capture_execution_id uuid_ok t r c)) (earlier @ [(now, response)]) c"
  shows "(case v_minted c' of
      None \<Rightarrow> v_gate_digest c' = None \<and> v_policy_hash c' = None \<and> v_idempotency c' = None
    | Some s \<Rightarrow> answer_text response ''reservation_id'' = Some s \<and> s \<noteq> [] \<and> uuid_ok s \<and> v_minted_at c' = now
        \<and> v_gate_digest c' = answer_text response ''action_digest''
        \<and> v_policy_hash c' = answer_text response ''policy_hash'')"
proof -
  obtain c1 where "c' = snd (capture_execution_id uuid_ok now response c1)"
    using assms by simp
  then show ?thesis
    by (cases response) (auto simp: capture_execution_id_def capture_wire_evidence_def answer_text_def
        evidence_text_def clear_server_minted_execution_id_def split: json.split)
qed

definition two_answers :: "(rat \<times> json) list" where
  "two_answers =
     [(1, JObj [(''reservation_id'', JStr ''e1''), (''action_digest'', JStr ''d1'')]),
      (2, JObj [(''reservation_id'', JStr ''e2''), (''policy_hash'', JInt 7)])]"

theorem evidence_belongs_to_id_witness:
  "case v_minted (fold (\<lambda>(t, r) c. snd (capture_execution_id (\<lambda>s. True) t r c)) two_answers fresh_ctx) of
     None \<Rightarrow> False
   | Some s \<Rightarrow> s = ''e2'' \<and> v_gate_digest (fold (\<lambda>(t, r) c. snd (capture_execution_id (\<lambda>s. True) t r c)) two_answers fresh_ctx) = None"
proof -
  let ?c = "fold (\<lambda>(t, r) c. snd (capture_execution_id (\<lambda>s. True) t r c)) two_answers fresh_ctx"
  have "?c = fold (\<lambda>(t, r) c. snd (capture_execution_id (\<lambda>s. True) t r c))
      (take 1 two_answers @ [(2, JObj [(''reservation_id'', JStr ''e2''), (''policy_hash'', JInt 7)])]) fresh_ctx"
    by (simp add: two_answers_def)
  from evidence_belongs_to_id [OF this] have "case v_minted ?c of
      None \<Rightarrow> v_gate_digest ?c = None \<and> v_policy_hash ?c = None \<and> v_idempotency ?c = None
    | Some s \<Rightarrow> s = ''e2'' \<and> v_gate_digest ?c = None"
    by (auto simp: answer_text_def evidence_text_def split: option.splits)
  moreover have "v_minted ?c = Some ''e2''"
    by (simp add: two_answers_def capture_execution_id_def capture_wire_evidence_def)
  ultimately show ?thesis by simp
qed

text \<open>The idempotency key is the exception: an answer and a context without an operation id keep the old key.\<close>

lemma old_key_kept:
  assumes "v_operation c = None" "v_idempotency c = Some k" "uuid_ok s" "s \<noteq> []"
  shows "v_idempotency (snd (capture_execution_id uuid_ok now (JObj [(''reservation_id'', JStr s)]) c)) = Some k"
  using assms by (simp add: capture_execution_id_def capture_wire_evidence_def captured_key_def opt_text_def)

end
