(* ===== verification/Error_Texts.thy ===== *)
theory Error_Texts
  imports Protect_Args
begin

text \<open>
  The text of an exception (\<open>str(exc)\<close>, built by the constructors of \<open>breaker/exceptions.py\<close>) with the keyword
  arguments it shows, the constructors that only build a text, and what the redaction of \<open>decorators.py\<close> makes
  of such a text before it is reported with a span.  \<open>er\<close> is Python's \<open>repr\<close> of a float or of a member of an
  enumeration; characters are ASCII.
\<close>

section \<open>Python's \<open>repr\<close>\<close>

definition quote_of :: "string \<Rightarrow> char" where
  "quote_of s = (if CHR 0x27 \<in> set s \<and> CHR 0x22 \<notin> set s then CHR 0x22 else CHR 0x27)"

definition repr_char :: "char \<Rightarrow> char \<Rightarrow> string" where
  "repr_char q c =
     (let n = (of_char c :: nat) in
      if c = q \<or> c = CHR 0x5C then [CHR 0x5C, c]
      else if n = 10 then [CHR 0x5C, CHR ''n'']
      else if n = 13 then [CHR 0x5C, CHR ''r'']
      else if n = 9 then [CHR 0x5C, CHR ''t'']
      else if n < 32 \<or> n = 127 then [CHR 0x5C, CHR ''x'', hex_char (n div 16), hex_char (n mod 16)]
      else [c])"

definition repr_text :: "string \<Rightarrow> string" where
  "repr_text s = quote_of s # concat (map (repr_char (quote_of s)) s) @ [quote_of s]"

fun comma_list :: "string list \<Rightarrow> string" where
  "comma_list [] = []"
| "comma_list [s] = s"
| "comma_list (s # t # ts) = s @ '', '' @ comma_list (t # ts)"

fun repr_json :: "(json \<Rightarrow> string) \<Rightarrow> json \<Rightarrow> string" where
  "repr_json er JNull = ''None''"
| "repr_json er (JBool b) = (if b then ''True'' else ''False'')"
| "repr_json er (JInt i) = show_int i"
| "repr_json er (JFloat r) = er (JFloat r)"
| "repr_json er (JStr s) = repr_text s"
| "repr_json er (JList js) = ''['' @ comma_list (map (repr_json er) js) @ '']''"
| "repr_json er (JObj d) =
     ''{'' @ comma_list (map (\<lambda>(k, v). repr_text k @ '': '' @ repr_json er v) d) @ ''}''"
| "repr_json er (JEnum v) = er (JEnum v)"

section \<open>Texts and constructors\<close>

text \<open>What an f-string shows of a value: a text as it is.\<close>

definition shown :: "(json \<Rightarrow> string) \<Rightarrow> json \<Rightarrow> string" where
  "shown er j = (case j of JStr s \<Rightarrow> s | _ \<Rightarrow> repr_json er j)"

definition shown_details :: "dict \<Rightarrow> dict" where
  "shown_details d = dict_pop ''retryable'' (dict_pop ''user_action'' (dict_pop ''error_code'' d))"

definition blocked_head :: "(json \<Rightarrow> string) \<Rightarrow> json \<Rightarrow> json \<Rightarrow> json \<Rightarrow> json \<Rightarrow> json \<Rightarrow> string" where
  "blocked_head er workflow_id reason action tool status =
     ''Workflow '' @ shown er workflow_id @ '' blocked: '' @ shown er reason @ '' (action='' @ shown er action
     @ (if truthy tool then '', tool='' @ shown er tool else []) @ '', status_code='' @ shown er status @ '', ''"

definition blocked_text ::
  "(json \<Rightarrow> string) \<Rightarrow> json \<Rightarrow> json \<Rightarrow> json \<Rightarrow> json \<Rightarrow> json \<Rightarrow> dict \<Rightarrow> string" where
  "blocked_text er workflow_id reason action tool status details =
     blocked_head er workflow_id reason action tool status @ ''details='' @ repr_json er (JObj (shown_details details)) @ '')''"

definition transport_text :: "(json \<Rightarrow> string) \<Rightarrow> string \<Rightarrow> string \<Rightarrow> string \<Rightarrow> dict \<Rightarrow> string" where
  "transport_text er endpoint message src details =
     ''Transport error on '' @ endpoint @ '': '' @ message @ '' (source='' @ src @ '', ''
     @ ''details='' @ repr_json er (JObj (dict_pop ''error_code'' details)) @ '')''"

definition breaker_transport_text :: "(json \<Rightarrow> string) \<Rightarrow> string \<Rightarrow> int \<Rightarrow> int \<Rightarrow> dict \<Rightarrow> string" where
  "breaker_transport_text er message events_lost buffer_size details =
     ''Transport error: '' @ message @ '' (events_lost='' @ show_int events_lost @ '', buffer_size=''
     @ show_int buffer_size @ '', '' @ ''details='' @ repr_json er (JObj details) @ '')''"

definition paused_init :: "(json \<Rightarrow> string) \<Rightarrow> json \<Rightarrow> json \<Rightarrow> json \<Rightarrow> construction" where
  "paused_init er workflow_id reason resume_after =
     nullrun_init WorkflowPausedException
       (''Workflow '' @ shown er workflow_id @ '' paused: '' @ shown er reason
        @ (if truthy resume_after then '' (resume after '' @ shown er resume_after @ ''s)'' else []))
       [(''workflow_id'', workflow_id), (''reason'', reason), (''resume_after'', resume_after)] []"

text \<open>The code and the user action are given beside the surplus arguments, which must not repeat them.\<close>

definition killed_init :: "(json \<Rightarrow> string) \<Rightarrow> exc_class \<Rightarrow> json \<Rightarrow> json \<Rightarrow> json \<Rightarrow> dict \<Rightarrow> construction" where
  "killed_init er cls workflow_id reason kill_source details =
     (if dict_get details ''error_code'' \<noteq> None \<or> dict_get details ''user_action'' \<noteq> None then Inl ''TypeError''
      else nullrun_init cls (''Workflow '' @ shown er workflow_id @ '' killed: '' @ shown er reason)
             [(''workflow_id'', workflow_id), (''reason'', reason), (''kill_source'', kill_source)]
             ((''error_code'', JStr (class_code cls)) # details))"

definition denied_init :: "string \<Rightarrow> string \<Rightarrow> json \<Rightarrow> int \<Rightarrow> json \<Rightarrow> dict \<Rightarrow> construction" where
  "denied_init workflow_id reason tool_name status agent_message details =
     blocked_init NullRunDeniedError [(''agent_message'', agent_message)] workflow_id reason tool_name status details"

definition model_safe_text :: "sdk_error \<Rightarrow> string + json" where
  "model_safe_text e =
     (if is_subclass (err_class e) NullRunDeniedError then Inr (jget (err_attrs e) ''agent_message'')
      else Inl ''AttributeError'')"

section \<open>A shown dictionary closes its braces\<close>

text \<open>A text the scan of braces passes over, at any depth.\<close>

definition neutral :: "string \<Rightarrow> bool" where
  "neutral t \<longleftrightarrow> (\<forall>d r. skip_braces (Suc d) None (t @ r) = skip_braces (Suc d) None r)"

definition no_brace :: "char \<Rightarrow> bool" where
  "no_brace c \<longleftrightarrow> c \<notin> {CHR 0x22, CHR 0x27, CHR ''{'', CHR ''}''}"

lemma neutral_Nil [simp]: "neutral []"
  by (simp add: neutral_def)

lemma neutral_append: "neutral a \<Longrightarrow> neutral b \<Longrightarrow> neutral (a @ b)"
  by (simp add: neutral_def)

lemma neutral_plain: "list_all no_brace t \<Longrightarrow> neutral t"
  by (induction t) (auto simp: neutral_def no_brace_def)

lemma hex_digit_plain: "n < 16 \<Longrightarrow> hex_char n \<notin> {CHR 0x22, CHR 0x27, CHR 0x5C}"
proof -
  assume "n < 16"
  then have "n \<in> set [0..<16]" by simp
  moreover have "list_all (\<lambda>n. hex_char n \<notin> {CHR 0x22, CHR 0x27, CHR 0x5C}) [0..<16]"
    by code_simp
  ultimately show ?thesis by (metis list_all_iff)
qed

lemma skip_repr_char:
  assumes "q = CHR 0x22 \<or> q = CHR 0x27"
  shows "skip_braces d (Some q) (repr_char q c @ r) = skip_braces d (Some q) r"
proof (cases "c = q \<or> c = CHR 0x5C")
  case False
  define n where "n = (of_char c :: nat)"
  have "n < 16 * 16"
    using nat_of_char_less_256 [of c] by (simp add: n_def)
  then have "n div 16 < 16" "n mod 16 < 16"
    by (auto intro: less_mult_imp_div_less)
  from this [THEN hex_digit_plain] have "hex_char (n div 16) \<notin> {q, CHR 0x5C}" "hex_char (n mod 16) \<notin> {q, CHR 0x5C}"
    using assms by auto
  then show ?thesis
    using False unfolding repr_char_def n_def [symmetric] Let_def by simp
qed (simp add: repr_char_def)

lemma inside_text:
  assumes "q = CHR 0x22 \<or> q = CHR 0x27"
  shows "skip_braces d (Some q) (concat (map (repr_char q) s) @ q # r) = skip_braces d None r"
proof (induction s)
  case Nil
  have "q \<noteq> CHR 0x5C" using assms by auto
  then show ?case by simp
next
  case (Cons c s)
  then show ?case by (simp add: skip_repr_char [OF assms])
qed

lemma neutral_repr_text: "neutral (repr_text s)"
proof -
  have "quote_of s = CHR 0x22 \<or> quote_of s = CHR 0x27"
    by (simp add: quote_of_def)
  then show ?thesis
    unfolding neutral_def repr_text_def using inside_text [of "quote_of s"] by auto
qed

lemma show_nat_plain: "list_all no_brace (show_nat n)"
proof (induction n rule: show_nat.induct)
  case (1 n)
  have "no_brace (char_of (48 + k))" if "k < 10" for k :: nat
  proof -
    have "k \<in> set [0..<10]" using that by simp
    moreover have "list_all (\<lambda>k. no_brace (char_of (48 + k :: nat))) [0..<10]" by code_simp
    ultimately show ?thesis by (metis list_all_iff)
  qed
  with 1 show ?case
    by (subst show_nat.simps) auto
qed

lemma neutral_show_int: "neutral (show_int i)"
  using show_nat_plain by (intro neutral_plain) (auto simp: show_int_def no_brace_def)

lemma neutral_comma_list: "(\<And>t. t \<in> set ts \<Longrightarrow> neutral t) \<Longrightarrow> neutral (comma_list ts)"
proof (induction ts rule: comma_list.induct)
  case (3 s t ts)
  moreover have "neutral '', ''"
    by (intro neutral_plain) (simp add: no_brace_def)
  ultimately have "neutral (s @ '', '' @ comma_list (t # ts))"
    by (intro neutral_append) auto
  then show ?case by (simp only: comma_list.simps)
qed auto

lemma neutral_repr:
  assumes "\<And>x. neutral (er x)"
  shows "neutral (repr_json er j)"
proof (induction j)
  case (JList js)
  have "neutral ''[''" "neutral '']''"
    by (intro neutral_plain; simp add: no_brace_def)+
  moreover have "neutral (comma_list (map (repr_json er) js))"
    using JList by (intro neutral_comma_list) auto
  ultimately show ?case
    by (simp only: repr_json.simps) (intro neutral_append)
next
  case (JObj d)
  have colon: "neutral '': ''"
    by (intro neutral_plain) (simp add: no_brace_def)
  have "neutral (repr_text k @ '': '' @ repr_json er v)" if "(k, v) \<in> set d" for k v
    using JObj [OF that] colon neutral_repr_text by (auto intro!: neutral_append simp del: append_Cons)
  then have "neutral (comma_list (map (\<lambda>(k, v). repr_text k @ '': '' @ repr_json er v) d))"
    by (intro neutral_comma_list) auto
  then show ?case
    by (simp add: neutral_def)
qed (auto simp: assms neutral_show_int neutral_repr_text intro!: neutral_plain simp: no_brace_def)

section \<open>What a span shows of an exception\<close>

lemma strip_details_tail:
  assumes "cut_at details_needle (before @ details_needle) = Some (before, [])" "\<And>x. neutral (er x)"
  shows "strip_details_balanced (before @ ''details='' @ repr_json er (JObj d) @ '')'')
    = before @ ''details=<redacted>)''"
proof -
  define inner where "inner = comma_list (map (\<lambda>(k, v). repr_text k @ '': '' @ repr_json er v) d)"
  have colon: "neutral '': ''"
    by (intro neutral_plain) (simp add: no_brace_def)
  have "neutral inner"
    unfolding inner_def
  proof (intro neutral_comma_list)
    fix t
    assume "t \<in> set (map (\<lambda>(k, v). repr_text k @ '': '' @ repr_json er v) d)"
    then obtain k v where "t = repr_text k @ '': '' @ repr_json er v" by auto
    then show "neutral t"
      using neutral_repr_text neutral_repr [OF assms(2)] colon by (simp only:) (intro neutral_append)
  qed
  then have closed: "skip_braces 1 None ((inner @ ''}'') @ '')'') = '')''"
    by (simp add: neutral_def)
  have tail: "strip_details_balanced '')'' = '')''"
    by (subst strip_details_balanced.simps) (simp add: details_needle_def)
  have shape: "repr_json er (JObj d) @ '')'' = CHR ''{'' # (inner @ ''}'') @ '')''"
    by (simp add: inner_def)
  have "strip_details_balanced (before @ details_needle @ [] @ CHR ''{'' # (inner @ ''}'') @ '')'')
      = before @ details_needle @ [] @ details_redacted @ strip_details_balanced '')''"
    using assms(1) closed by (intro redaction_hides_payload) simp_all
  then show ?thesis
    unfolding shape by (simp add: tail details_needle_def details_redacted_def)
qed

text \<open>
  C16: a span never shows the details of a refusal whose other texts are ordinary.  When the workflow, the
  reason, the action, the tool and the status hold no \<open>details=\<close>, and the printed numbers no brace or quote, the
  text of a blocked call that is reported with its span ends in a mark in place of the details, whatever
  nested values, quotes, braces and escapes they hold.  A reason that holds \<open>details=\<close> defeats the mark
  (\<open>reason_leaks_details\<close>).
\<close>

theorem span_error_hides_details:
  assumes "\<And>x. neutral (er x)"
    and "cut_at details_needle (blocked_head er wid reason action tool status @ details_needle)
      = Some (blocked_head er wid reason action tool status, [])"
  shows "strip_details_balanced (blocked_text er wid reason action tool status details)
    = blocked_head er wid reason action tool status @ ''details=<redacted>)''"
  unfolding blocked_text_def by (rule strip_details_tail [OF assms(2,1)])

definition leaky_details :: dict where
  "leaky_details = [(''card'', JStr ''it's 4111 }''), (''more'', JList [JObj [(''pin'', JFloat 1)]])]"

theorem span_error_hides_details_witness:
  "strip_details_balanced (blocked_text (\<lambda>x. ''1.0'') (JStr ''w'') (JStr ''over budget'') (JStr ''block'') JNull (JInt 402) leaky_details)
     = ''Workflow w blocked: over budget (action=block, status_code=402, details=<redacted>)''"
proof -
  have "neutral ''1.0''"
    by (intro neutral_plain) (simp add: no_brace_def)
  moreover have head: "blocked_head (\<lambda>x. ''1.0'') (JStr ''w'') (JStr ''over budget'') (JStr ''block'') JNull (JInt 402)
      = ''Workflow w blocked: over budget (action=block, status_code=402, ''"
    by code_simp
  moreover have "cut_at details_needle (''Workflow w blocked: over budget (action=block, status_code=402, '' @ details_needle)
      = Some (''Workflow w blocked: over budget (action=block, status_code=402, '', [])"
    by code_simp
  ultimately show ?thesis
    using span_error_hides_details [of "\<lambda>x. ''1.0''" "JStr ''w''" "JStr ''over budget''" "JStr ''block''" JNull "JInt 402"
        leaky_details] by simp
qed

text \<open>A reason that opens a brace and a quote of its own ends the redaction early: part of the details is shown.\<close>

lemma reason_leaks_details:
  "strip_details_balanced (blocked_text (\<lambda>x. []) (JStr ''w'') (JStr (''details={'' @ [CHR 0x27])) (JStr ''block'') JNull
     (JInt 402) [(''card'', JStr ''a} 4111'')])
   = ''Workflow w blocked: details=<redacted> 4111'' @ [CHR 0x27] @ ''})''"
  by code_simp

text \<open>The same for the two texts of a failed transport.\<close>

lemma transport_text_hides_details:
  assumes "\<And>x. neutral (er x)"
    and "cut_at details_needle ((''Transport error on '' @ ep @ '': '' @ msg @ '' (source='' @ src @ '', '') @ details_needle)
      = Some (''Transport error on '' @ ep @ '': '' @ msg @ '' (source='' @ src @ '', '', [])"
  shows "strip_details_balanced (transport_text er ep msg src details)
    = ''Transport error on '' @ ep @ '': '' @ msg @ '' (source='' @ src @ '', details=<redacted>)''"
  using strip_details_tail [OF assms(2,1), where d = "dict_pop ''error_code'' details"] by (simp add: transport_text_def)

text \<open>A kill whose surplus arguments repeat the code cannot be built.\<close>

lemma killed_takes_no_code: "killed_init er cls w r src [(''error_code'', c)] = Inl ''TypeError''"
  by (simp add: killed_init_def)

text \<open>Only a denied call has a text for the model, and it is the one the operator wrote.\<close>

lemma denied_text_for_model:
  assumes "denied_init w r tool status message details = Inr e"
  shows "model_safe_text e = Inr message"
proof -
  have "err_class e = NullRunDeniedError"
    using assms unfolding denied_init_def by (rule blocked_init_class)
  moreover have "jget (err_attrs e) ''agent_message'' = message"
    using assms by (auto simp: denied_init_def blocked_init_def nullrun_init_def set_if_given_def jget_def
        split: if_splits)
  ultimately show ?thesis
    by (simp add: model_safe_text_def)
qed

end
