(* ===== verification/Spec2Isabelle.thy ===== *)
theory Spec2Isabelle
  imports Nullrun_Prelude Refusal_Category Circuit_Breaker Wal_Store Delivery Delivery_Laws
    Delivery_Growth Delivery_Settlement Retry Send_Batch Wal_Lifecycle Wal_Admin Error_Contract Edge Gate_Laws
    Control_Channel_Laws Control_Plane Approval_Wait Runtime_Execute
    Protect_Laws Context Actions Capabilities Usage_Extract Llm_Release Langgraph_Laws
    Requests_Transport Session_Laws Registry User_Surface Frameworks Audit_Results Transport_Setup Deferred Wal_Status Capture Error_Texts
begin

text \<open>
  The verification development of the NullRun Python SDK (\<open>src/nullrun\<close>): a client that runs beside an
  agent, asks a remote gate before model calls and tool calls, obeys pause and kill commands, and reports
  what was used.  Every definition is a translation of the code it names; texts of log lines and
  the wording of exception messages are left out unless code reads them.

  \<^bold>\<open>The program and its theories.\<close>

  \<^item> \<^theory_text>\<open>Nullrun_Prelude\<close>: Python values, dictionaries, truth and outcomes; the locale of a component that is
    driven by events and keeps an invariant.
  \<^item> Errors.  \<^theory_text>\<open>Sdk_Errors\<close> is the class tree of \<open>breaker/exceptions.py\<close> with its constructors;
    \<^theory_text>\<open>Refusal_Category\<close> is \<open>breaker/categories.py\<close>; \<^theory_text>\<open>Error_Envelope\<close> is the parser of \<open>transport.py\<close> that
    turns an HTTP error into one of those classes (\<open>_parse_v3_error_envelope\<close>), with its laws in
    \<^theory_text>\<open>Error_Envelope_Laws\<close> and \<^theory_text>\<open>Error_Contract\<close>; \<^theory_text>\<open>Block_Exception\<close> is \<open>_build_block_exception\<close> of
    \<open>runtime.py\<close>, which does the same for a refusal inside a 200 answer.
  \<^item> Calling out.  \<^theory_text>\<open>Circuit_Breaker\<close> is \<open>breaker/circuit_breaker.py\<close>, a state machine with a shared
    state; \<^theory_text>\<open>Retry\<close> is \<open>_retry_with_backoff\<close>; \<^theory_text>\<open>Edge\<close> is \<open>edge.py\<close>; \<^theory_text>\<open>Gate\<close> and \<^theory_text>\<open>Gate_Laws\<close> are
    \<open>Transport.check\<close> and \<open>Transport.execute\<close> on top of them.
  \<^item> Delivery.  \<^theory_text>\<open>Wal_Store\<close> is the files, \<^theory_text>\<open>Delivery\<close> the buffer, the flush, the bisection of a rejected
    batch, the dead-letter file and its holdover; \<^theory_text>\<open>Delivery_Laws\<close>, \<^theory_text>\<open>Delivery_Growth\<close> and
    \<^theory_text>\<open>Delivery_Settlement\<close> hold its laws; \<^theory_text>\<open>Send_Batch\<close> is one request to \<open>/track/batch\<close>;
    \<^theory_text>\<open>Wal_Lifecycle\<close> is construction, start, replay and stop; \<^theory_text>\<open>Wal_Admin\<close> is the \<open>nullrun-wal\<close>
    command of \<open>wal_admin.py\<close>.
  \<^item> Control.  \<^theory_text>\<open>Control_Channel\<close> and its laws are \<open>transport_websocket.py\<close>; \<^theory_text>\<open>Control_Plane\<close> is the table of
    remote states of \<open>runtime.py\<close> that the channel and the status poll fill and \<open>check_control_plane\<close> reads;
    \<^theory_text>\<open>Approval_Wait\<close> is the rendezvous of a waiting call with the decision pushed for it.
  \<^item> The runtime's gates.  \<^theory_text>\<open>Runtime_Gate\<close> is \<open>check_workflow_budget\<close>, \<^theory_text>\<open>Runtime_Execute\<close> is
    \<open>NullRunRuntime.execute\<close>; both call the transport through their environment and act on its answer.
    \<^theory_text>\<open>Business_Impact\<close> is \<open>business_impact.py\<close> (canonical text and digest of an action).
  \<^item> The decorator.  \<^theory_text>\<open>Protect_Args\<close> is what \<open>@protect\<close> shows of the arguments, \<^theory_text>\<open>Protect\<close> and
    \<^theory_text>\<open>Protect_Laws\<close> are the protected call: context, control plane, budget gate, policy gate, body, cleanup.
  \<^item> Context and ids.  \<^theory_text>\<open>Context\<close> is \<open>context.py\<close>: the context variables and the managers that set and
    restore them; \<^theory_text>\<open>Uuid\<close> is \<open>uuid7.py\<close> and the check of a chain id.
  \<^item> Reporting.  \<^theory_text>\<open>Track\<close> is \<open>NullRunRuntime.track\<close> with its enrichment and routing, \<^theory_text>\<open>Track_Laws\<close> its
    laws; \<^theory_text>\<open>Endpoints\<close> holds the calls of the transport made once (settlement, cancel, heartbeat, chain
    end, audit) and their wrappers.
  \<^item> Instrumentation.  \<^theory_text>\<open>Usage_Extract\<close> reads usage and request profiles out of provider bodies,
    \<^theory_text>\<open>Llm_Transport\<close> is the transport wrapped around a provider's HTTP client
    (\<open>instrumentation/auto.py\<close>), with its laws in \<^theory_text>\<open>Llm_Transport_Laws\<close> and \<^theory_text>\<open>Llm_Release\<close>.  It composes
    \<open>check_workflow_budget\<close>, the context and \<open>track\<close>.
  \<^item> \<^theory_text>\<open>Capabilities\<close> is \<open>capabilities.py\<close>, \<^theory_text>\<open>Actions\<close> the handler of \<open>actions.py\<close>.
  \<^item> Other roads to a provider.  \<^theory_text>\<open>Requests_Transport\<close> is the patched session of \<open>requests\<close>
    (\<open>auto_requests.py\<close>); \<^theory_text>\<open>Lc_Usage\<close>, \<^theory_text>\<open>Langgraph\<close> and \<^theory_text>\<open>Langgraph_Laws\<close> are the LangChain callback of
    \<open>instrumentation/langgraph.py\<close>: reading usage, the table of runs, the gate call that cannot abort and its
    deferred refusals.  \<^theory_text>\<open>Mcp\<close> is the adapter of \<open>toolbox/mcp.py\<close>.
  \<^item> Life of the client.  \<^theory_text>\<open>Session\<close> is the construction of a runtime with the verification of its key,
    \<^theory_text>\<open>Session_Laws\<close> adds the status snapshot and the registry of sensitive tools; \<^theory_text>\<open>Registry\<close> is the slot of
    the process with \<open>init\<close>, \<open>shutdown\<close> and \<open>get_instance\<close>, a state machine over the runtimes of a process.
  \<^item> \<^theory_text>\<open>User_Surface\<close> is what a refusal becomes outside: \<open>messages.py\<close>, \<open>guard\<close> and the FastAPI handlers.
  \<^item> \<^theory_text>\<open>Frameworks\<close> is the installation of the instrumentation (\<open>auto_instrument\<close>, \<open>_safe_patch.py\<close>) and its
    adapters for CrewAI, AutoGen, LlamaIndex and OpenAI Agents, with which runtime a patch reports to.
  \<^item> Settings and surroundings.  \<^theory_text>\<open>Transport_Setup\<close> is the construction of a transport: URL check, settings, the
    lock of the WAL, headers, the address of the control channel.  \<^theory_text>\<open>Observability\<close> holds the counters and the
    error hooks, \<^theory_text>\<open>Audit_Results\<close> the typed audit answers with their proxy, \<^theory_text>\<open>Wal_Status\<close> the status command.
  \<^item> Bridges.  \<^theory_text>\<open>Deferred\<close> is how a refusal of the LangChain callback reaches the next protected call,
    \<^theory_text>\<open>Capture\<close> what an answer of the gate leaves in the context.
  \<^item> \<^theory_text>\<open>Error_Texts\<close> is the text of an exception and what the redaction leaves of it in a span.
  A protected call composes these parts as the code does: \<open>protect_call\<close> runs \<open>check_control_plane\<close>,
  \<open>check_workflow_budget\<close> and \<open>runtime_execute\<close>; each of these asks \<open>transport_check\<close> or
  \<open>transport_execute\<close>, which retry, count on the breaker, and parse errors with \<open>parse_v3_error_envelope\<close>.

  \<^bold>\<open>State and environment.\<close>  An object of the code is a record of the fields its methods read and write;
  a method is a function from arguments and record to result and record.  The clock, random ids, HTTP
  answers, the file system's refusals and the functions a caller passes in are fields of an environment
  record over an arbitrary world \<open>'w\<close> that is threaded through the calls, so a statement that holds for every
  environment holds for every answer of the outside.  Errors are values: \<open>gate_exn + json\<close> for the gates,
  \<open>construction\<close> for a constructor that may itself raise \<open>TypeError\<close>.  Threads appear where the code's
  correctness depends on them: the approval rendezvous and the breaker are sequences of interleaved steps.

  \<^bold>\<open>Interfaces.\<close>  \<open>invariant_machine\<close> and \<open>configured_machine\<close> (prelude: a component driven by events),
  \<open>append_log\<close> (\<^theory_text>\<open>Wal_Store\<close>: a file that is appended to), \<open>event_sink\<close> (\<^theory_text>\<open>Delivery_Laws\<close>: a place that
  takes events over), \<open>pipeline_relation\<close> (\<^theory_text>\<open>Delivery_Growth\<close>: what the leaf steps of a flush respect, the
  whole flush respects) and \<open>call_guard\<close> (\<^theory_text>\<open>Circuit_Breaker\<close>) are interpreted on the model's own
  definitions.

  \<^bold>\<open>Bounds and fuel.\<close>  Retry loops recurse on the attempts left, the bisection of a batch on its length,
  reconnection on the attempts left of the configuration; no definition uses fuel whose exhaustion would be
  mistaken for a result.  Integers of Python are \<open>int\<close>, floats are exact rationals without NaN, infinities or
  rounding (an integer beyond their range raises where the code divides it, \<open>beyond_float\<close>); texts are lists of bytes of their UTF-8 form.

  \<^bold>\<open>What the lemmas show.\<close>  Delivery: within the limits of the buffers no event is lost by a flush, and a
  batch that a 2xx answer settles is accepted or on disk, event by event.  Gates: what the SDK makes up itself is never an allow unless the caller chose
  to fail open, and a call proceeds only under the listed conditions.  The decorator: without an edge box
  the body runs only after every gate, and the context variables come back once the impact of the call is
  built.  Control: signed frames are authentic and versions only increase; a status poll compares none.  Errors: the class of an exception is a function of code and status.
  A second group states where the code and its comments part.

  \<^bold>\<open>Not modelled.\<close>  Starting and joining threads, log lines, the wording of printed reports, the proxy of the actions and the bodies
  of third-party frameworks are glue around the operations above; the asynchronous twins of the transport and of
  the breaker repeat the synchronous code that is modelled.  HMAC and SHA-256 are functions
  passed in.  JSON parsing is
  a function passed in whose result is a \<open>json\<close> value; printing is modelled where its text is hashed.
  A row of an event file stands for its line of JSON and is read back as \<open>reloaded\<close> says.
\<close>

end
